(* ===== verification/Prelude.thy ===== *)
theory Prelude
  imports Complex_Main "HOL-Library.Char_ord" "HOL-Library.List_Lexorder" "HOL-Library.AList"
    "HOL-Library.Multiset"
begin

text \<open>
  Shared vocabulary of the development. Fallible operations return a value of
  \<open>'e + 'a\<close>: \<open>Inl\<close> carries the raised exception, \<open>Inr\<close> the returned value, and
  \<open>and_then\<close> is the sequencing of two statements of which the first may raise. A
  Python dict is an insertion-ordered association list with distinct keys; reading,
  storing and popping are \<open>map_of\<close>, \<open>AList.update\<close> and \<open>AList.delete\<close>. The named
  collections gather the facts the component proofs use with \<open>simp add:\<close>: \<open>raises\<close>
  (inversion of sequenced computations), \<open>dicts\<close> (association lists as dicts) and
  \<open>frames\<close> (fields an operation does not touch).
\<close>

named_theorems raises \<open>inversion facts for computations that may raise\<close>
named_theorems dicts \<open>facts on dicts as association lists\<close>
named_theorems frames \<open>fields that an operation leaves unchanged\<close>

section \<open>Computations that may raise\<close>

definition and_then :: "'e + 'a \<Rightarrow> ('a \<Rightarrow> 'e + 'b) \<Rightarrow> 'e + 'b" where
  "and_then m f = (case m of Inl e \<Rightarrow> Inl e | Inr x \<Rightarrow> f x)"

lemma and_then_Inl [simp]: "and_then (Inl e) f = Inl e"
  by (simp add: and_then_def)

lemma and_then_Inr [simp]: "and_then (Inr x) f = f x"
  by (simp add: and_then_def)

lemma and_then_eq_Inr [raises]:
  "and_then m f = Inr y \<longleftrightarrow> (\<exists>x. m = Inr x \<and> f x = Inr y)"
  by (cases m) auto

lemma and_then_eq_Inl [raises]:
  "and_then m f = Inl e \<longleftrightarrow> m = Inl e \<or> (\<exists>x. m = Inr x \<and> f x = Inl e)"
  by (cases m) auto

lemma if_Inl_eq_Inr [raises]: "(if b then Inl e else m) = Inr y \<longleftrightarrow> \<not> b \<and> m = Inr y"
  by auto

text \<open>\<open>isOK m\<close>: the computation returned.\<close>

fun isOK :: "'e + 'a \<Rightarrow> bool" where
  "isOK (Inl _) = False"
| "isOK (Inr _) = True"

lemma isOK_iff: "isOK m \<longleftrightarrow> (\<exists>x. m = Inr x)"
  by (cases m) auto

text \<open>A loop that runs a raising body over the elements of a sequence.\<close>

fun map_raise :: "('a \<Rightarrow> 'e + 'b) \<Rightarrow> 'a list \<Rightarrow> 'e + 'b list" where
  "map_raise f [] = Inr []"
| "map_raise f (x # xs) = and_then (f x) (\<lambda>y. and_then (map_raise f xs) (\<lambda>ys. Inr (y # ys)))"

lemma map_raise_Inr_iff [raises]:
  "map_raise f xs = Inr ys \<longleftrightarrow> list_all2 (\<lambda>x y. f x = Inr y) xs ys"
proof (induction xs arbitrary: ys)
  case Nil
  then show ?case by auto
next
  case (Cons x xs)
  then show ?case by (cases ys) (auto simp: and_then_eq_Inr)
qed

lemma map_raise_length: "map_raise f xs = Inr ys \<Longrightarrow> length ys = length xs"
  by (auto simp: map_raise_Inr_iff dest: list_all2_lengthD)

lemma map_raise_pure: "(\<And>x. x \<in> set xs \<Longrightarrow> f x = Inr (g x)) \<Longrightarrow> map_raise f xs = Inr (map g xs)"
  by (induction xs) auto

text \<open>
  \<open>outcome E Q m\<close>: if \<open>m\<close> raises, the exception satisfies \<open>E\<close>, and if it returns, the value
  satisfies \<open>Q\<close>. A chain of \<open>and_then\<close> is proved one step at a time with \<open>outcome_and_then\<close>.
\<close>

definition outcome :: "('e \<Rightarrow> bool) \<Rightarrow> ('a \<Rightarrow> bool) \<Rightarrow> 'e + 'a \<Rightarrow> bool" where
  "outcome E Q m = (case m of Inl e \<Rightarrow> E e | Inr x \<Rightarrow> Q x)"

lemma outcome_simps [simp]: "outcome E Q (Inl e) = E e" "outcome E Q (Inr x) = Q x"
  by (simp_all add: outcome_def)

lemma outcome_and_then:
  "outcome E R m \<Longrightarrow> (\<And>x. R x \<Longrightarrow> outcome E Q (f x)) \<Longrightarrow> outcome E Q (and_then m f)"
  by (cases m) auto

lemma outcome_ifI:
  "(b \<Longrightarrow> outcome E Q m) \<Longrightarrow> (\<not> b \<Longrightarrow> outcome E Q m') \<Longrightarrow> outcome E Q (if b then m else m')"
  by simp

lemma outcome_mono:
  "outcome E R m \<Longrightarrow> (\<And>x. R x \<Longrightarrow> Q x) \<Longrightarrow> outcome E Q m"
  by (cases m) auto

lemma outcome_weaken:
  "outcome E R m \<Longrightarrow> (\<And>e. E e \<Longrightarrow> F e) \<Longrightarrow> (\<And>x. R x \<Longrightarrow> Q x) \<Longrightarrow> outcome F Q m"
  by (cases m) auto

lemma outcome_map_raise:
  "(\<And>x. x \<in> set xs \<Longrightarrow> outcome E Q (f x)) \<Longrightarrow> outcome E (\<lambda>ys. \<forall>y \<in> set ys. Q y) (map_raise f xs)"
proof (induction xs)
  case Nil
  then show ?case by simp
next
  case (Cons x xs)
  show ?case unfolding map_raise.simps
    by (rule outcome_and_then [OF Cons.prems]) (auto intro!: outcome_and_then [OF Cons.IH] Cons.prems)
qed

lemma outcome_map_raise_each:
  "(\<And>x. x \<in> set xs \<Longrightarrow> outcome E (R x) (f x)) \<Longrightarrow> outcome E (list_all2 R xs) (map_raise f xs)"
proof (induction xs)
  case Nil
  then show ?case by simp
next
  case (Cons x xs)
  show ?case unfolding map_raise.simps
    by (rule outcome_and_then [OF Cons.prems]) (auto intro!: outcome_and_then [OF Cons.IH] Cons.prems)
qed

section \<open>Dicts\<close>

type_synonym ('k, 'v) dict = "('k \<times> 'v) list"

abbreviation dict_get :: "('k, 'v) dict \<Rightarrow> 'k \<Rightarrow> 'v option" where
  "dict_get d k \<equiv> map_of d k"

abbreviation dict_set :: "'k \<Rightarrow> 'v \<Rightarrow> ('k, 'v) dict \<Rightarrow> ('k, 'v) dict" where
  "dict_set k v d \<equiv> AList.update k v d"

abbreviation dict_pop :: "'k \<Rightarrow> ('k, 'v) dict \<Rightarrow> ('k, 'v) dict" where
  "dict_pop k d \<equiv> AList.delete k d"

abbreviation dict_ok :: "('k, 'v) dict \<Rightarrow> bool" where
  "dict_ok d \<equiv> distinct (map fst d)"

lemma dict_get_set [dicts]: "dict_get (dict_set k v d) k' = (if k' = k then Some v else dict_get d k')"
  by (simp add: update_conv')

lemma dict_get_pop [dicts]: "dict_get (dict_pop k d) k' = (if k' = k then None else dict_get d k')"
  by (simp add: delete_conv')

lemma dict_ok_set [dicts]: "dict_ok d \<Longrightarrow> dict_ok (dict_set k v d)"
  by (rule distinct_update)

lemma dict_ok_pop [dicts]: "dict_ok d \<Longrightarrow> dict_ok (dict_pop k d)"
  by (rule distinct_delete)

lemma dict_get_filter [dicts]:
  "dict_get (filter (\<lambda>(w, _). P w) d) k = (if P k then dict_get d k else None)"
  by (induction d) auto

lemma dict_keys_pop [dicts]: "fst ` set (dict_pop k d) = fst ` set d - {k}"
  by (induction d) auto

lemma dict_keys_set [dicts]: "fst ` set (dict_set k v d) = insert k (fst ` set d)"
  by (simp add: dom_update)

lemma dict_set_new: "k \<notin> fst ` set d \<Longrightarrow> dict_set k v d = d @ [(k, v)]"
  by (induction d) auto

lemma dict_get_None_keys: "dict_get d k = None \<longleftrightarrow> k \<notin> fst ` set d"
  by (simp add: map_of_eq_None_iff)

lemma dict_pop_absent [simp]: "dict_get d k = None \<Longrightarrow> dict_pop k d = d"
  by (metis delete_id dom_map_of_conv_image_fst domIff map_of_eq_None_iff)

lemma dict_pop_filter: "dict_pop k d = filter (\<lambda>(k', _). k \<noteq> k') d"
  by (simp add: AList.delete_eq case_prod_unfold)

text \<open>Popping a bound key of a dict with distinct keys removes exactly one entry.\<close>

lemma mset_values_pop:
  assumes "dict_ok d" and "dict_get d k = Some v"
  shows "mset (map snd d) = add_mset v (mset (map snd (dict_pop k d)))"
  using assms
proof (induction d)
  case Nil
  then show ?case by simp
next
  case (Cons a d)
  show ?case
  proof (cases "fst a = k")
    case True
    with Cons.prems have "k \<notin> fst ` set d" by auto
    then have "dict_pop k d = d"
      by (simp add: dict_get_None_keys)
    with True Cons.prems show ?thesis
      by (cases a) (simp add: dict_pop_filter)
  next
    case False
    with Cons show ?thesis by (cases a) (simp add: dict_pop_filter)
  qed
qed

lemma length_dict_pop:
  assumes "dict_ok d" and "dict_get d k = Some v"
  shows "Suc (length (dict_pop k d)) = length d"
proof -
  have "size (mset (map snd d)) = size (add_mset v (mset (map snd (dict_pop k d))))"
    using assms by (simp only: mset_values_pop)
  then show ?thesis by simp
qed

section \<open>Lists\<close>

lemma sort_key_sorted_id: "sorted (map f xs) \<Longrightarrow> sort_key f xs = xs"
  by (simp add: sort_key_id_if_sorted)

lemma sort_key_idem [simp]: "sort_key f (sort_key f xs) = sort_key f xs"
  by (rule sort_key_sorted_id) (rule sorted_sort_key)

lemma distinct_map_sort_key [simp]: "distinct (map f (sort_key g xs)) = distinct (map f xs)"
proof -
  have "mset (map f (sort_key g xs)) = mset (map f xs)"
    by simp
  then show ?thesis by (metis mset_eq_imp_distinct_iff)
qed

lemma nth_update_eq: "i < length xs \<Longrightarrow> (xs[i := x]) ! j = (if i = j then x else xs ! j)"
  by (cases "i = j") auto

end
