(* ===== verification/Py_Values.thy ===== *)
theory Py_Values
  imports Prelude "HOL-Library.Log_Nat"
begin

text \<open>
  The part of Python the program computes with. A \<open>str\<close> is a list of code points and is
  modelled by \<open>string\<close>, so by the code points 0 to 255; \<open>strip\<close>, \<open>casefold\<close>,
  \<open>isalnum\<close> and \<open>isdigit\<close> are Python's on that range, and \<open>int(s, 10)\<close> has CPython's limit
  of 4300 digits. A \<open>float\<close> is a finite binary64 value (given by its exact rational), the
  negative zero, an infinity or a NaN; \<open>fl64\<close> is rounding to the nearest binary64 value, ties
  to even, and \<open>round_half_even\<close> is the built-in \<open>round\<close>. \<open>pyval\<close> is the universe of
  dynamically typed values that the \<open>isinstance\<close> checks of the code distinguish.
\<close>

section \<open>Strings\<close>

abbreviation ordc :: "char \<Rightarrow> nat" where
  "ordc c \<equiv> of_char c"

definition is_space :: "char \<Rightarrow> bool" where
  "is_space c \<longleftrightarrow> ordc c \<in> {9, 10, 11, 12, 13, 28, 29, 30, 31, 32, 133, 160}"

definition strip :: "string \<Rightarrow> string" where
  "strip s = rev (dropWhile is_space (rev (dropWhile is_space s)))"

definition is_dec :: "char \<Rightarrow> bool" where
  "is_dec c \<longleftrightarrow> 48 \<le> ordc c \<and> ordc c \<le> 57"

definition is_alpha_ascii :: "char \<Rightarrow> bool" where
  "is_alpha_ascii c \<longleftrightarrow> 65 \<le> ordc c \<and> ordc c \<le> 90 \<or> 97 \<le> ordc c \<and> ordc c \<le> 122"

definition is_alpha :: "char \<Rightarrow> bool" where
  "is_alpha c \<longleftrightarrow> is_alpha_ascii c \<or> ordc c \<in> {170, 181, 186} \<or>
     192 \<le> ordc c \<and> ordc c \<noteq> 215 \<and> ordc c \<noteq> 247"

definition is_alnum :: "char \<Rightarrow> bool" where
  "is_alnum c \<longleftrightarrow> is_alpha c \<or> is_dec c \<or> ordc c \<in> {178, 179, 185, 188, 189, 190}"

text \<open>\<open>s.isalnum()\<close> and \<open>s.isdigit()\<close>; both are false for the empty string.\<close>

definition str_isalnum :: "string \<Rightarrow> bool" where
  "str_isalnum s \<longleftrightarrow> s \<noteq> [] \<and> list_all is_alnum s"

definition str_isdigit :: "string \<Rightarrow> bool" where
  "str_isdigit s \<longleftrightarrow> s \<noteq> [] \<and> list_all (\<lambda>c. is_dec c \<or> ordc c \<in> {178, 179, 185}) s"

text \<open>\<open>s.isidentifier()\<close>.\<close>

definition str_isidentifier :: "string \<Rightarrow> bool" where
  "str_isidentifier s \<longleftrightarrow>
     (case s of [] \<Rightarrow> False
      | c # cs \<Rightarrow> (is_alpha c \<or> ordc c = 95) \<and>
          list_all (\<lambda>d. is_alpha d \<or> is_dec d \<or> ordc d = 95 \<or> ordc d = 183) cs)"

text \<open>
  \<open>casefold\<close> maps a single character to one or more. The micro sign is folded to a letter
  outside the modelled range and is kept; it is no ASCII letter on either side.
\<close>

definition fold_char :: "char \<Rightarrow> string" where
  "fold_char c =
     (let n = ordc c in
      if 65 \<le> n \<and> n \<le> 90 then [char_of (n + 32)]
      else if n = 223 then ''ss''
      else if 192 \<le> n \<and> n \<le> 222 \<and> n \<noteq> 215 then [char_of (n + 32)]
      else [c])"

definition casefold :: "string \<Rightarrow> string" where
  "casefold s = concat (map fold_char s)"

definition lower_char :: "char \<Rightarrow> char" where
  "lower_char c =
     (let n = ordc c in
      if 65 \<le> n \<and> n \<le> 90 \<or> 192 \<le> n \<and> n \<le> 222 \<and> n \<noteq> 215 then char_of (n + 32) else c)"

definition lower :: "string \<Rightarrow> string" where
  "lower s = map lower_char s"

fun startswith :: "string \<Rightarrow> string \<Rightarrow> bool" where
  "startswith s [] = True"
| "startswith [] (p # ps) = False"
| "startswith (c # s) (p # ps) = (c = p \<and> startswith s ps)"

text \<open>\<open>sep.join(parts)\<close> and \<open>s.split(c)\<close> for a one-character separator.\<close>

fun join :: "string \<Rightarrow> string list \<Rightarrow> string" where
  "join sep [] = []"
| "join sep [s] = s"
| "join sep (s # t # ts) = s @ sep @ join sep (t # ts)"

fun split_on :: "char \<Rightarrow> string \<Rightarrow> string list" where
  "split_on c [] = [[]]"
| "split_on c (d # s) =
     (if d = c then [] # split_on c s
      else (case split_on c s of [] \<Rightarrow> [[d]] | w # ws \<Rightarrow> (d # w) # ws))"

lemma split_on_nonempty [simp]: "split_on c s \<noteq> []"
  by (cases s) (auto split: list.splits)

lemma split_on_prefix: "c \<notin> set w \<Longrightarrow> split_on c (w @ c # s) = w # split_on c s"
  by (induction w) auto

lemma split_on_word: "c \<notin> set w \<Longrightarrow> split_on c w = [w]"
  by (induction w) auto

lemma split_on_join: "ws \<noteq> [] \<Longrightarrow> \<forall>w \<in> set ws. c \<notin> set w \<Longrightarrow> split_on c (join [c] ws) = ws"
  by (induction "[c]" ws rule: join.induct) (auto simp: split_on_word split_on_prefix)

lemma startswith_append: "startswith s p \<longleftrightarrow> (\<exists>r. s = p @ r)"
  by (induction s p rule: startswith.induct) auto

lemma dropWhile_none: "(case s of [] \<Rightarrow> True | c # _ \<Rightarrow> \<not> P c) \<Longrightarrow> dropWhile P s = s"
  by (cases s) auto

lemma strip_none: "list_all (\<lambda>c. \<not> is_space c) s \<Longrightarrow> strip s = s"
proof -
  assume a: "list_all (\<lambda>c. \<not> is_space c) s"
  then have "dropWhile is_space s = s"
    by (cases s) auto
  moreover from a have "list_all (\<lambda>c. \<not> is_space c) (rev s)"
    by (simp add: list_all_iff)
  then have "dropWhile is_space (rev s) = rev s"
    by (cases "rev s") auto
  ultimately show ?thesis by (simp add: strip_def)
qed

lemma strip_not_space_ends: "strip s \<noteq> [] \<Longrightarrow> \<not> is_space (last (strip s))"
  by (metis hd_dropWhile hd_rev dropWhile_eq_Nil_conv rev.simps(1) rev_rev_ident strip_def)

lemma strip_Cons: "\<not> is_space c \<Longrightarrow> strip (c # s) \<noteq> []"
proof -
  assume c: "\<not> is_space c"
  have "\<exists>x \<in> set (rev (c # s)). \<not> is_space x" using c by (intro bexI [of _ c]) auto
  then have "dropWhile is_space (rev (c # s)) \<noteq> []" by (simp only: dropWhile_eq_Nil_conv) blast
  with c show ?thesis by (simp add: strip_def)
qed

section \<open>Decimal integers\<close>

definition digit_char :: "nat \<Rightarrow> char" where
  "digit_char d = char_of (48 + d)"

fun show_nat :: "nat \<Rightarrow> string" where
  "show_nat n = (if n < 10 then [digit_char n] else show_nat (n div 10) @ [digit_char (n mod 10)])"

declare show_nat.simps [simp del]

definition show_int :: "int \<Rightarrow> string" where
  "show_int i = (if i < 0 then ''-'' @ show_nat (nat (- i)) else show_nat (nat i))"

definition read_nat :: "string \<Rightarrow> nat" where
  "read_nat s = foldl (\<lambda>a c. 10 * a + (ordc c - 48)) 0 s"

lemma ordc_digit_char: "d < 10 \<Longrightarrow> ordc (digit_char d) = 48 + d"
  by (simp add: digit_char_def of_char_of take_bit_eq_mod)

lemma is_dec_digit_char: "d < 10 \<Longrightarrow> is_dec (digit_char d)"
  by (simp add: is_dec_def ordc_digit_char)

lemma show_nat_digits: "list_all is_dec (show_nat n)"
proof (induction n rule: show_nat.induct)
  case (1 n)
  then show ?case
    by (subst show_nat.simps) (auto simp: is_dec_digit_char)
qed

lemma show_nat_nonempty [simp]: "show_nat n \<noteq> []"
  by (subst show_nat.simps) simp

lemma read_show_nat [simp]: "read_nat (show_nat n) = n"
proof (induction n rule: show_nat.induct)
  case (1 n)
  then show ?case
    by (subst show_nat.simps) (auto simp: read_nat_def ordc_digit_char)
qed

lemma inj_show_nat: "show_nat m = show_nat n \<Longrightarrow> m = n"
  by (metis read_show_nat)

lemma length_show_nat: "n < 10 ^ Suc k \<Longrightarrow> length (show_nat n) \<le> Suc k"
proof (induction k arbitrary: n)
  case 0
  then show ?case by (subst show_nat.simps) simp
next
  case (Suc k)
  then have "n div 10 < 10 ^ Suc k" by (simp add: less_mult_imp_div_less mult.commute)
  with Suc.IH have "length (show_nat (n div 10)) \<le> Suc k" by blast
  then show ?case by (subst show_nat.simps) simp
qed

lemma dec_not_space: "is_dec c \<Longrightarrow> \<not> is_space c"
  by (auto simp: is_dec_def is_space_def)

lemma dec_not_comma: "is_dec c \<Longrightarrow> c \<noteq> CHR '',''"
  by (auto simp: is_dec_def)

lemma strip_show_nat [simp]: "strip (show_nat n) = show_nat n"
  by (rule strip_none) (metis dec_not_space list_all_iff show_nat_digits)

text \<open>
  \<open>int(s, 10)\<close> on a string of ASCII digits: CPython refuses more than 4300 digits with a
  \<open>ValueError\<close>.
\<close>

definition max_str_digits :: nat where
  "max_str_digits = 4300"

definition py_int10 :: "string \<Rightarrow> int option" where
  "py_int10 s = (if length s \<le> max_str_digits then Some (int (read_nat s)) else None)"

text \<open>\<open>re.fullmatch("[0-9]+\\Z")\<close>.\<close>

definition all_digits :: "string \<Rightarrow> bool" where
  "all_digits s \<longleftrightarrow> s \<noteq> [] \<and> list_all is_dec s"

lemma all_digits_show_nat [simp]: "all_digits (show_nat n)"
  by (simp add: all_digits_def show_nat_digits)

section \<open>Floating point numbers\<close>

datatype pyfloat = Fin rat | NegZero | PosInf | NegInf | NotANumber

fun isfinite :: "pyfloat \<Rightarrow> bool" where
  "isfinite (Fin _) = True"
| "isfinite NegZero = True"
| "isfinite _ = False"

fun float_val :: "pyfloat \<Rightarrow> rat" where
  "float_val (Fin q) = q"
| "float_val _ = 0"

text \<open>The built-in \<open>round\<close> of a finite float: nearest integer, ties to even.\<close>

definition round_half_even :: "rat \<Rightarrow> int" where
  "round_half_even x =
     (let n = \<lfloor>x\<rfloor>; d = x - of_int n in
      if d < 1/2 then n else if d > 1/2 then n + 1 else if even n then n else n + 1)"

lemma round_half_even_of_int [simp]: "round_half_even (of_int n) = n"
  by (simp add: round_half_even_def)

lemma round_half_even_bounds: "\<lfloor>x\<rfloor> \<le> round_half_even x \<and> round_half_even x \<le> \<lfloor>x\<rfloor> + 1"
  by (simp add: round_half_even_def Let_def)

lemma round_half_even_error: "\<bar>of_int (round_half_even x) - x\<bar> \<le> 1/2"
proof -
  have "0 \<le> x - of_int \<lfloor>x\<rfloor>" and "x - of_int \<lfloor>x\<rfloor> < 1"
    by linarith+
  then show ?thesis by (simp add: round_half_even_def Let_def abs_le_iff)
qed

lemma round_half_even_minus: "round_half_even (- x) = - round_half_even x"
proof (cases "x = of_int \<lfloor>x\<rfloor>")
  case True
  then have "round_half_even x = \<lfloor>x\<rfloor>" by (metis round_half_even_of_int)
  moreover from True have "- x = of_int (- \<lfloor>x\<rfloor>)" by (metis of_int_minus)
  then have "round_half_even (- x) = - \<lfloor>x\<rfloor>" by (metis round_half_even_of_int)
  ultimately show ?thesis by simp
next
  case False
  then have "\<lfloor>- x\<rfloor> = - \<lfloor>x\<rfloor> - 1" by linarith
  then show ?thesis by (auto simp: round_half_even_def Let_def)
qed

lemma round_half_even_le:
  assumes "x \<le> of_int n"
  shows "round_half_even x \<le> n"
proof (cases "x = of_int n")
  case True
  then show ?thesis by simp
next
  case False
  with assms have "\<lfloor>x\<rfloor> < n" by linarith
  then show ?thesis using round_half_even_bounds [of x] by linarith
qed

lemma round_half_even_ge:
  assumes "of_int n \<le> x"
  shows "n \<le> round_half_even x"
proof -
  from assms have "n \<le> \<lfloor>x\<rfloor>" by (simp add: le_floor_iff)
  then show ?thesis using round_half_even_bounds [of x] by linarith
qed

lemma round_half_even_mono:
  assumes "x \<le> y"
  shows "round_half_even x \<le> round_half_even y"
proof (cases "\<lfloor>x\<rfloor> = \<lfloor>y\<rfloor>")
  case True
  with assms show ?thesis by (auto simp: round_half_even_def Let_def)
next
  case False
  with assms have "\<lfloor>x\<rfloor> + 1 \<le> \<lfloor>y\<rfloor>" using floor_mono [OF assms] by linarith
  then show ?thesis
    using round_half_even_bounds [of x] round_half_even_bounds [of y] by linarith
qed

text \<open>The binary exponent of a positive rational, and rounding to binary64.\<close>

definition log2_floor :: "rat \<Rightarrow> int" where
  "log2_floor x =
     (let (p, q) = quotient_of x; e = bitlen p - bitlen q in if 2 powi e \<le> x then e else e - 1)"

definition ulp_exp :: "rat \<Rightarrow> int" where
  "ulp_exp x = max (log2_floor \<bar>x\<bar>) (- 1022) - 52"

definition fl64 :: "rat \<Rightarrow> rat" where
  "fl64 x =
     (if x = 0 then 0
      else of_int (round_half_even (x / 2 powi ulp_exp x)) * 2 powi ulp_exp x)"

definition to_float :: "rat \<Rightarrow> pyfloat" where
  "to_float x =
     (let r = fl64 x in
      if 2 powi 1024 \<le> r then PosInf
      else if r \<le> - (2 powi 1024) then NegInf
      else if r = 0 \<and> x < 0 then NegZero
      else Fin r)"

lemma bitlen_ge: "0 < p \<Longrightarrow> 2 powi (bitlen p - 1) \<le> (of_int p :: rat)"
proof -
  assume p: "0 < p"
  then have "2 ^ nat (bitlen p - 1) \<le> p" using bitlen_bounds by blast
  then have "(of_int (2 ^ nat (bitlen p - 1)) :: rat) \<le> of_int p" by (simp only: of_int_le_iff)
  moreover from p have "0 \<le> bitlen p - 1" by (simp add: bitlen_alt_def)
  ultimately show ?thesis by (simp add: power_int_def)
qed

lemma bitlen_less: "0 < p \<Longrightarrow> (of_int p :: rat) < 2 powi (bitlen p)"
proof -
  assume p: "0 < p"
  then have "p < 2 ^ nat (bitlen p)" using bitlen_bounds by blast
  then have "(of_int p :: rat) < of_int (2 ^ nat (bitlen p))" by (simp only: of_int_less_iff)
  moreover have "0 \<le> bitlen p" by (rule bitlen_nonneg)
  ultimately show ?thesis by (simp add: power_int_def)
qed

lemma log2_floor_le:
  assumes "0 < x"
  shows "2 powi log2_floor x \<le> x"
proof -
  obtain p q where pq: "quotient_of x = (p, q)" by force
  then have q: "0 < q" by (rule quotient_of_denom_pos)
  have x: "x = of_int p / of_int q" using pq by (rule quotient_of_div)
  with assms q have p: "0 < p" by (simp add: zero_less_divide_iff)
  have "2 powi (bitlen p - bitlen q - 1) \<le> x"
  proof -
    have "2 powi (bitlen p - bitlen q - 1) = (2 powi (bitlen p - 1) / 2 powi bitlen q :: rat)"
      by (simp add: power_int_diff power_int_add)
    also have "\<dots> \<le> of_int p / of_int q"
      using bitlen_ge [OF p] bitlen_less [OF q] q p by (intro frac_le) auto
    finally show ?thesis by (simp add: x)
  qed
  then show ?thesis using pq by (simp add: log2_floor_def Let_def)
qed

lemma power_int_less_imp_less_exp_2: "(2 :: rat) powi m < 2 powi n \<Longrightarrow> m < n"
proof (rule ccontr)
  assume less: "(2 :: rat) powi m < 2 powi n" and "\<not> m < n"
  then have "(2 :: rat) powi n \<le> 2 powi m" by (intro power_int_increasing) simp_all
  with less show False by simp
qed

text \<open>Rounding never crosses an integer bound below \<open>2^53\<close>: such a bound is on the grid.\<close>

lemma powi_nonpos: "k \<le> 0 \<Longrightarrow> (2 :: rat) powi k = 1 / 2 ^ nat (- k)"
  by (cases "k = 0") (simp_all add: power_int_def power_one_over)

lemma round_on_grid_le:
  fixes n :: int and x :: rat
  assumes "x \<le> of_int n" and "k \<le> 0"
  shows "of_int (round_half_even (x / 2 powi k)) * 2 powi k \<le> (of_int n :: rat)"
proof -
  define m :: rat where "m = 2 ^ nat (- k)"
  define g where "g = n * 2 ^ nat (- k)"
  have m: "0 < m" and k: "2 powi k = 1 / m"
    using assms(2) by (simp_all add: m_def powi_nonpos)
  have g: "of_int g = of_int n * m" by (simp add: g_def m_def)
  have "x * m \<le> of_int g" unfolding g using assms(1) m by (simp add: mult_right_mono)
  then have "round_half_even (x * m) \<le> g" by (rule round_half_even_le)
  then have "of_int (round_half_even (x * m)) \<le> of_int n * m"
    unfolding g [symmetric] by (simp only: of_int_le_iff)
  then have "of_int (round_half_even (x * m)) / m \<le> of_int n"
    using m by (simp only: pos_divide_le_eq)
  then show ?thesis by (simp add: k)
qed

lemma log2_floor_less_53:
  assumes "0 < x" and "x \<le> of_int n" and "n < 2 ^ 53"
  shows "log2_floor x < 53"
proof (rule power_int_less_imp_less_exp_2)
  have "2 powi log2_floor x \<le> (of_int n :: rat)"
    using log2_floor_le [OF assms(1)] assms(2) by (rule order_trans)
  also have "(of_int n :: rat) < of_int (2 ^ 53)" using assms(3) by (simp only: of_int_less_iff)
  also have "\<dots> = 2 powi 53" by (simp add: power_int_def)
  finally show "2 powi log2_floor x < (2 :: rat) powi 53" .
qed

lemma fl64_nonpos: "x \<le> 0 \<Longrightarrow> fl64 x \<le> 0"
proof -
  assume "x \<le> 0"
  then have "x / 2 powi ulp_exp x \<le> of_int 0" by (simp add: divide_le_0_iff)
  then have "round_half_even (x / 2 powi ulp_exp x) \<le> 0" by (rule round_half_even_le)
  then show ?thesis by (simp add: fl64_def mult_nonpos_nonneg)
qed

lemma fl64_le_int:
  assumes "x \<le> of_int n" and "0 \<le> n" and "n < 2 ^ 53"
  shows "fl64 x \<le> of_int n"
proof (cases "x \<le> 0")
  case True
  then have "fl64 x \<le> 0" by (rule fl64_nonpos)
  also have "(0 :: rat) \<le> of_int n" using assms(2) by simp
  finally show ?thesis .
next
  case False
  then have "log2_floor x < 53" using assms by (intro log2_floor_less_53) simp_all
  with False have "ulp_exp x \<le> 0" by (simp add: ulp_exp_def)
  with assms(1) have "of_int (round_half_even (x / 2 powi ulp_exp x)) * 2 powi ulp_exp x \<le> (of_int n :: rat)"
    by (rule round_on_grid_le)
  with False show ?thesis by (simp add: fl64_def)
qed

lemma fl64_minus: "fl64 (- x) = - fl64 x"
  by (simp add: fl64_def ulp_exp_def round_half_even_minus flip: minus_divide_left)

lemma fl64_abs_le_int:
  assumes "\<bar>x\<bar> \<le> of_int n" and "0 \<le> n" and "n < 2 ^ 53"
  shows "\<bar>fl64 x\<bar> \<le> of_int n"
  using fl64_le_int [of x n] fl64_le_int [of "- x" n] assms by (simp add: fl64_minus abs_le_iff)

lemma to_float_isfinite:
  assumes "\<bar>x\<bar> \<le> of_int n" and "0 \<le> n" and "n < 2 ^ 53"
  shows "isfinite (to_float x)"
proof -
  have "\<bar>fl64 x\<bar> < 2 powi 1024"
  proof -
    have "\<bar>fl64 x\<bar> \<le> of_int n" using assms by (rule fl64_abs_le_int)
    also have "(of_int n :: rat) < of_int (2 ^ 53)" using assms(3) by (simp only: of_int_less_iff)
    also have "\<dots> = 2 powi 53" by (simp add: power_int_def)
    also have "\<dots> \<le> (2 :: rat) powi 1024" by (intro power_int_increasing) simp_all
    finally show ?thesis .
  qed
  then show ?thesis unfolding to_float_def Let_def by (auto simp: abs_less_iff not_le)
qed

section \<open>Dynamically typed values\<close>

datatype pyval =
    PNone
  | PBool bool
  | PInt int
  | PFloat pyfloat
  | PStr string
  | PTuple "pyval list"
  | PList "pyval list"
  | PDict "(pyval \<times> pyval) list"
  | PObj string

text \<open>\<open>isinstance(v, str)\<close>, \<open>isinstance(v, bool)\<close>, \<open>isinstance(v, int)\<close> (which a bool passes),
  \<open>isinstance(v, (str, bool, int, float))\<close>.\<close>

fun is_str :: "pyval \<Rightarrow> bool" where
  "is_str (PStr _) = True"
| "is_str _ = False"

fun is_bool :: "pyval \<Rightarrow> bool" where
  "is_bool (PBool _) = True"
| "is_bool _ = False"

fun is_int :: "pyval \<Rightarrow> bool" where
  "is_int (PInt _) = True"
| "is_int (PBool _) = True"
| "is_int _ = False"

fun is_scalar :: "pyval \<Rightarrow> bool" where
  "is_scalar (PStr _) = True"
| "is_scalar (PBool _) = True"
| "is_scalar (PInt _) = True"
| "is_scalar (PFloat _) = True"
| "is_scalar _ = False"

fun is_float :: "pyval \<Rightarrow> bool" where
  "is_float (PFloat _) = True"
| "is_float _ = False"

fun str_of :: "pyval \<Rightarrow> string" where
  "str_of (PStr s) = s"
| "str_of _ = []"

fun pv_finite :: "pyval \<Rightarrow> bool" where
  "pv_finite (PFloat f) = isfinite f"
| "pv_finite _ = True"

end
