(* ===== verification/Errors.thy ===== *)
theory Errors
  imports Py_Values
begin

text \<open>
  The exceptions of the program: \<open>voxcpm_runtime/errors.py\<close> (backend errors),
  \<open>worker_errors.py\<close> (worker and scheduler errors), \<open>api_errors.py\<close> (HTTP errors), the
  error classes of \<open>config.py\<close>, \<open>profiles.py\<close>, \<open>device.py\<close> and \<open>model_resolver.py\<close>, and the built-in exceptions
  the code raises. One datatype \<open>exn\<close> is the exception hierarchy, so that an \<open>except\<close>
  clause is a case distinction. A class's default code and message are functions of the
  class; a constructor that validates its arguments returns \<open>Inl (ValueError _)\<close> where the
  code raises.
\<close>

section \<open>Classes and instances\<close>

datatype backend_class =
    BackendError
  | BackendStateError
  | BackendRequestError
  | BackendUnsupportedError
  | BackendExecutionError

record backend_error =
  be_class :: backend_class
  be_message :: string
  be_code :: string
  be_retryable :: bool
  be_details :: "(string, pyval) dict"

datatype worker_class =
    WorkerError
  | WorkerStateError
  | WorkerStartError
  | WorkerTransportError
  | WorkerExitedError
  | WorkerCancelledError
  | SchedulerAdmissionError

record worker_error =
  we_class :: worker_class
  we_message :: string
  we_code :: string
  we_retryable :: bool
  we_details :: "(string, pyval) dict"

record api_error =
  ae_code :: string
  ae_message :: string
  ae_status :: nat
  ae_retryable :: bool

datatype device_class =
    DeviceResolutionError
  | CudaUnavailableError
  | InvalidDeviceError
  | InvalidGpuSelectionError
  | WorkerOversubscriptionError

datatype model_class =
    ModelResolutionError
  | ModelNotFoundError
  | InvalidModelPathError
  | MissingModelArtifactError
  | InvalidModelConfigError
  | UnexpectedModelArchitectureError
  | InvalidTokenizerMetadataError
  | OfflineResolutionError
  | RemoteAcquisitionError
  | ModelInventoryError
  | ModelCandidateError

record model_error =
  me_class :: model_class
  me_message :: string
  me_path :: "string option"
  me_details :: "(string, pyval) dict"

datatype exn =
    BackendExn backend_error
  | WorkerExn worker_error
  | ApiExn api_error
  | ConfigurationError string string
  | ProfileResolutionError string
  | DeviceExn device_class string
  | ModelExn model_error
  | ValueError string
  | TypeError string
  | RuntimeError string
  | AssertionError
  | EOFError
  | SystemExit int
  | OtherError string string

text \<open>\<open>type(error).__name__\<close>. \<open>OtherError\<close> carries the class name and the message.\<close>

fun backend_class_name :: "backend_class \<Rightarrow> string" where
  "backend_class_name BackendError = ''BackendError''"
| "backend_class_name BackendStateError = ''BackendStateError''"
| "backend_class_name BackendRequestError = ''BackendRequestError''"
| "backend_class_name BackendUnsupportedError = ''BackendUnsupportedError''"
| "backend_class_name BackendExecutionError = ''BackendExecutionError''"

fun worker_class_name :: "worker_class \<Rightarrow> string" where
  "worker_class_name WorkerError = ''WorkerError''"
| "worker_class_name WorkerStateError = ''WorkerStateError''"
| "worker_class_name WorkerStartError = ''WorkerStartError''"
| "worker_class_name WorkerTransportError = ''WorkerTransportError''"
| "worker_class_name WorkerExitedError = ''WorkerExitedError''"
| "worker_class_name WorkerCancelledError = ''WorkerCancelledError''"
| "worker_class_name SchedulerAdmissionError = ''SchedulerAdmissionError''"

fun device_class_name :: "device_class \<Rightarrow> string" where
  "device_class_name DeviceResolutionError = ''DeviceResolutionError''"
| "device_class_name CudaUnavailableError = ''CudaUnavailableError''"
| "device_class_name InvalidDeviceError = ''InvalidDeviceError''"
| "device_class_name InvalidGpuSelectionError = ''InvalidGpuSelectionError''"
| "device_class_name WorkerOversubscriptionError = ''WorkerOversubscriptionError''"

fun model_class_name :: "model_class \<Rightarrow> string" where
  "model_class_name ModelResolutionError = ''ModelResolutionError''"
| "model_class_name ModelNotFoundError = ''ModelNotFoundError''"
| "model_class_name InvalidModelPathError = ''InvalidModelPathError''"
| "model_class_name MissingModelArtifactError = ''MissingModelArtifactError''"
| "model_class_name InvalidModelConfigError = ''InvalidModelConfigError''"
| "model_class_name UnexpectedModelArchitectureError = ''UnexpectedModelArchitectureError''"
| "model_class_name InvalidTokenizerMetadataError = ''InvalidTokenizerMetadataError''"
| "model_class_name OfflineResolutionError = ''OfflineResolutionError''"
| "model_class_name RemoteAcquisitionError = ''RemoteAcquisitionError''"
| "model_class_name ModelInventoryError = ''ModelInventoryError''"
| "model_class_name ModelCandidateError = ''ModelCandidateError''"

fun exn_type_name :: "exn \<Rightarrow> string" where
  "exn_type_name (BackendExn e) = backend_class_name (be_class e)"
| "exn_type_name (WorkerExn e) = worker_class_name (we_class e)"
| "exn_type_name (ApiExn _) = ''ApiError''"
| "exn_type_name (ConfigurationError _ _) = ''ConfigurationError''"
| "exn_type_name (ProfileResolutionError _) = ''ProfileResolutionError''"
| "exn_type_name (DeviceExn c _) = device_class_name c"
| "exn_type_name (ModelExn e) = model_class_name (me_class e)"
| "exn_type_name (ValueError _) = ''ValueError''"
| "exn_type_name (TypeError _) = ''TypeError''"
| "exn_type_name (RuntimeError _) = ''RuntimeError''"
| "exn_type_name AssertionError = ''AssertionError''"
| "exn_type_name EOFError = ''EOFError''"
| "exn_type_name (SystemExit _) = ''SystemExit''"
| "exn_type_name (OtherError n _) = n"

text \<open>Classes of the standard library that an \<open>except\<close> clause names together with their subclasses;
  \<open>OtherError\<close> is known by its class name.\<close>

definition os_error_names :: "string list" where
  "os_error_names =
     [''OSError'', ''FileNotFoundError'', ''PermissionError'', ''NotADirectoryError'', ''IsADirectoryError'',
      ''FileExistsError'', ''InterruptedError'', ''BlockingIOError'', ''ChildProcessError'',
      ''ProcessLookupError'', ''TimeoutError'', ''ConnectionError'', ''BrokenPipeError'',
      ''ConnectionResetError'', ''ConnectionAbortedError'', ''ConnectionRefusedError'']"

fun is_os_error :: "exn \<Rightarrow> bool" where
  "is_os_error (OtherError n _) = (n \<in> set os_error_names)"
| "is_os_error _ = False"

fun is_missing :: "exn \<Rightarrow> bool" where
  "is_missing (OtherError n _) = (n = ''FileNotFoundError'')"
| "is_missing _ = False"

fun is_value_exn :: "exn \<Rightarrow> bool" where
  "is_value_exn (ValueError _) = True"
| "is_value_exn (OtherError n _) =
     (n \<in> {''UnicodeError'', ''UnicodeDecodeError'', ''UnicodeEncodeError'', ''JSONDecodeError''})"
| "is_value_exn _ = False"

fun is_runtime_exn :: "exn \<Rightarrow> bool" where
  "is_runtime_exn (RuntimeError _) = True"
| "is_runtime_exn (OtherError n _) = (n \<in> {''RecursionError'', ''NotImplementedError''})"
| "is_runtime_exn _ = False"

fun is_type_exn :: "exn \<Rightarrow> bool" where
  "is_type_exn (TypeError _) = True"
| "is_type_exn _ = False"

text \<open>\<open>except Exception\<close>: everything but \<open>SystemExit\<close>.\<close>

fun is_Exception :: "exn \<Rightarrow> bool" where
  "is_Exception (SystemExit _) = False"
| "is_Exception _ = True"

section \<open>Backend errors\<close>

fun safe_token_match :: "string \<Rightarrow> bool" where
  "safe_token_match [] = False"
| "safe_token_match (c # cs) =
     (is_alpha_ascii c \<and> length cs \<le> 63 \<and>
      list_all (\<lambda>d. is_alpha_ascii d \<or> is_dec d \<or> d = CHR ''_'') cs)"

definition safe_token :: "string \<Rightarrow> string \<Rightarrow> string" where
  "safe_token v fallback = (if \<not> safe_token_match v then fallback else v)"

fun normalize_values :: "(pyval \<times> pyval) list \<Rightarrow> (string, pyval) dict \<Rightarrow> exn + (string, pyval) dict" where
  "normalize_values [] vals = Inr vals"
| "normalize_values ((key, v) # items) vals =
     (if \<not> is_str key \<or> strip (str_of key) = []
      then Inl (ValueError ''Backend error detail keys must be non-empty strings'')
      else if v \<noteq> PNone \<and> \<not> is_scalar v
      then Inl (ValueError ''Backend error details must contain safe scalar vals'')
      else if is_float v \<and> \<not> pv_finite v
      then Inl (ValueError ''Backend error details must contain finite vals'')
      else normalize_values items (dict_set (str_of key) v vals))"

definition normalize_details :: "(pyval \<times> pyval) list option \<Rightarrow> exn + (string, pyval) dict" where
  "normalize_details details =
     (case details of
        None \<Rightarrow> Inr []
      | Some items \<Rightarrow> and_then (normalize_values items []) (\<lambda>vals. Inr (sort_key fst vals)))"

fun default_code :: "backend_class \<Rightarrow> string" where
  "default_code BackendError = ''backend_error''"
| "default_code BackendStateError = ''backend_state_error''"
| "default_code BackendRequestError = ''invalid_backend_request''"
| "default_code BackendUnsupportedError = ''backend_operation_unsupported''"
| "default_code BackendExecutionError = ''backend_execution_failed''"

fun default_message :: "backend_class \<Rightarrow> string" where
  "default_message BackendError = ''Backend operation failed.''"
| "default_message BackendStateError = ''Backend lifecycle state does not allow this operation.''"
| "default_message BackendRequestError = ''Backend request is invalid.''"
| "default_message BackendUnsupportedError = ''Backend operation is not supported.''"
| "default_message BackendExecutionError = ''Backend execution failed.''"

definition default_retryable :: "backend_class \<Rightarrow> bool" where
  "default_retryable c = False"

text \<open>\<open>BackendError.__init__\<close>; an omitted argument is \<open>PNone\<close>.\<close>

definition init_backend_error ::
    "backend_class \<Rightarrow> pyval \<Rightarrow> pyval \<Rightarrow> pyval \<Rightarrow> (pyval \<times> pyval) list option \<Rightarrow> exn + backend_error" where
  "init_backend_error c msg cd retryable details =
     (let public_message = (if msg = PNone then PStr (default_message c) else msg);
          public_code = (if cd = PNone then PStr (default_code c) else cd);
          public_retryable = (if retryable = PNone then PBool (default_retryable c) else retryable) in
      if \<not> is_str public_message \<or> strip (str_of public_message) = []
      then Inl (ValueError ''Backend error messages must be non-empty strings'')
      else if \<not> is_str public_code \<or> \<not> safe_token_match (str_of public_code)
      then Inl (ValueError ''Backend error codes must be safe identifiers'')
      else if \<not> is_bool public_retryable
      then Inl (ValueError ''Backend error retryability must be boolean'')
      else and_then (normalize_details details) (\<lambda>d.
        Inr \<lparr>be_class = c, be_message = str_of public_message, be_code = str_of public_code,
             be_retryable = (public_retryable = PBool True), be_details = d\<rparr>))"

definition backend_error_to_dict :: "backend_error \<Rightarrow> pyval" where
  "backend_error_to_dict e =
     PDict [(PStr ''code'', PStr (be_code e)),
            (PStr ''details'', PDict (map (\<lambda>(k, v). (PStr k, v)) (sort_key fst (be_details e)))),
            (PStr ''message'', PStr (be_message e)),
            (PStr ''retryable'', PBool (be_retryable e))]"

definition normalize_backend_error :: "string \<Rightarrow> exn \<Rightarrow> exn + backend_error" where
  "normalize_backend_error operation error =
     (case error of
        BackendExn e \<Rightarrow> Inr e
      | _ \<Rightarrow>
        (let safe_operation = safe_token operation ''backend_operation'';
             exception_type = safe_token (exn_type_name error) ''UnknownBackendError'' in
         init_backend_error BackendExecutionError PNone PNone PNone
           (Some [(PStr ''exception_type'', PStr exception_type),
                  (PStr ''operation'', PStr safe_operation)])))"

text \<open>What every constructed backend error satisfies.\<close>

definition details_ok :: "(string, pyval) dict \<Rightarrow> bool" where
  "details_ok d \<longleftrightarrow>
     dict_ok d \<and> sorted (map fst d) \<and>
     list_all (\<lambda>(k, v). strip k \<noteq> [] \<and> (v = PNone \<or> is_scalar v) \<and> pv_finite v) d"

definition backend_error_ok :: "backend_error \<Rightarrow> bool" where
  "backend_error_ok e \<longleftrightarrow>
     strip (be_message e) \<noteq> [] \<and> safe_token_match (be_code e) \<and> details_ok (be_details e)"

lemma pv_finite_iff: "is_float v \<longrightarrow> pv_finite v \<Longrightarrow> pv_finite v"
  by (cases v) auto

lemma list_all_dict_set:
  "list_all P d \<Longrightarrow> P (k, v) \<Longrightarrow> list_all P (dict_set k v d)"
  by (induction d) auto

lemma normalize_values_ok:
  "normalize_values items vals = Inr d \<Longrightarrow> dict_ok vals \<Longrightarrow>
   list_all (\<lambda>(k, v). strip k \<noteq> [] \<and> (v = PNone \<or> is_scalar v) \<and> pv_finite v) vals \<Longrightarrow>
   dict_ok d \<and> list_all (\<lambda>(k, v). strip k \<noteq> [] \<and> (v = PNone \<or> is_scalar v) \<and> pv_finite v) d"
proof (induction items vals rule: normalize_values.induct)
  case (1 vals)
  then show ?case by simp
next
  case (2 key v items vals)
  then show ?case
    by (auto simp: dict_ok_set pv_finite_iff list_all_dict_set split: if_splits)
qed

lemma sort_details_ok:
  assumes "dict_ok d"
    and "list_all (\<lambda>(k, v). strip k \<noteq> [] \<and> (v = PNone \<or> is_scalar v) \<and> pv_finite v) d"
  shows "details_ok (sort_key fst d)"
  using assms by (simp add: details_ok_def list_all_iff)

lemma normalize_details_ok: "normalize_details details = Inr d \<Longrightarrow> details_ok d"
  by (auto simp: normalize_details_def and_then_eq_Inr sort_details_ok details_ok_def [of "[]"]
      dest!: normalize_values_ok split: option.splits)

lemma details_ok_sorted_id: "details_ok d \<Longrightarrow> sort_key fst d = d"
  by (simp add: details_ok_def sort_key_sorted_id)

lemma init_backend_error_ok: "init_backend_error c m cd r details = Inr e \<Longrightarrow> backend_error_ok e"
  by (auto simp: init_backend_error_def Let_def and_then_eq_Inr backend_error_ok_def
      dest: normalize_details_ok split: if_splits)

lemma init_backend_error_class: "init_backend_error c m cd r details = Inr e \<Longrightarrow> be_class e = c"
  by (auto simp: init_backend_error_def Let_def and_then_eq_Inr split: if_splits)

lemma safe_token_safe: "safe_token_match fallback \<Longrightarrow> safe_token_match (safe_token v fallback)"
  by (simp add: safe_token_def)

lemma safe_token_nonblank: "safe_token_match s \<Longrightarrow> s \<noteq> []"
  by (cases s) auto

section \<open>Worker errors\<close>

fun worker_default_code :: "worker_class \<Rightarrow> string" where
  "worker_default_code WorkerError = ''worker_error''"
| "worker_default_code WorkerStateError = ''worker_state_error''"
| "worker_default_code WorkerStartError = ''worker_start_failed''"
| "worker_default_code WorkerTransportError = ''worker_transport_failed''"
| "worker_default_code WorkerExitedError = ''worker_exited''"
| "worker_default_code WorkerCancelledError = ''request_cancelled''"
| "worker_default_code SchedulerAdmissionError = ''scheduler_admission_failed''"

fun worker_default_message :: "worker_class \<Rightarrow> string" where
  "worker_default_message WorkerError = ''Worker operation failed.''"
| "worker_default_message WorkerStateError = ''Worker lifecycle state does not allow this operation.''"
| "worker_default_message WorkerStartError = ''Worker failed to start.''"
| "worker_default_message WorkerTransportError = ''Worker transport failed.''"
| "worker_default_message WorkerExitedError = ''Worker process exited unexpectedly.''"
| "worker_default_message WorkerCancelledError = ''Worker request was cancelled.''"
| "worker_default_message SchedulerAdmissionError = ''Scheduler admission failed.''"

text \<open>\<open>WorkerError.__init__\<close>; the details are already a \<open>Mapping[str, ErrorDetail]\<close>.\<close>

definition init_worker_error ::
    "worker_class \<Rightarrow> pyval \<Rightarrow> pyval \<Rightarrow> pyval \<Rightarrow> (string, pyval) dict option \<Rightarrow> exn + worker_error" where
  "init_worker_error c msg cd retryable details =
     (let public_message = (if msg = PNone then PStr (worker_default_message c) else msg);
          public_code = (if cd = PNone then PStr (worker_default_code c) else cd) in
      if \<not> is_str public_message \<or> strip (str_of public_message) = []
      then Inl (ValueError ''worker error message must be non-empty'')
      else if \<not> is_str public_code \<or>
              \<not> str_isalnum (filter (\<lambda>ch. ch \<noteq> CHR ''_'') (str_of public_code))
      then Inl (ValueError ''worker error code must be a safe identifier'')
      else if \<not> is_bool retryable
      then Inl (ValueError ''retryable must be boolean'')
      else Inr \<lparr>we_class = c, we_message = str_of public_message, we_code = str_of public_code,
                we_retryable = (retryable = PBool True),
                we_details = (case details of None \<Rightarrow> [] | Some d \<Rightarrow> sort_key fst d)\<rparr>)"

definition worker_error_to_dict :: "worker_error \<Rightarrow> pyval" where
  "worker_error_to_dict e =
     PDict [(PStr ''code'', PStr (we_code e)),
            (PStr ''message'', PStr (we_message e)),
            (PStr ''retryable'', PBool (we_retryable e)),
            (PStr ''details'', PDict (map (\<lambda>(k, v). (PStr k, v)) (we_details e)))]"

text \<open>
  The errors the code raises with a literal code: \<open>worker_exn c code retryable details\<close> is
  the exception \<open>C(code=..., retryable=..., details=...)\<close> with the class's message.
\<close>

definition worker_exn :: "worker_class \<Rightarrow> string \<Rightarrow> bool \<Rightarrow> (string, pyval) dict \<Rightarrow> exn" where
  "worker_exn c cd r d =
     WorkerExn \<lparr>we_class = c, we_message = worker_default_message c, we_code = cd,
                we_retryable = r, we_details = sort_key fst d\<rparr>"

lemma worker_exn_init:
  "str_isalnum (filter (\<lambda>ch. ch \<noteq> CHR ''_'') cd) \<Longrightarrow>
   init_worker_error c PNone (PStr cd) (PBool r) (Some d) =
     (case worker_exn c cd r d of WorkerExn e \<Rightarrow> Inr e | e \<Rightarrow> Inl e)"
  by (cases c) (simp_all add: init_worker_error_def worker_exn_def Let_def strip_def is_space_def)

fun is_worker_class :: "worker_class \<Rightarrow> exn \<Rightarrow> bool" where
  "is_worker_class c (WorkerExn e) = (we_class e = c)"
| "is_worker_class c _ = False"

fun is_worker_error :: "exn \<Rightarrow> bool" where
  "is_worker_error (WorkerExn _) = True"
| "is_worker_error _ = False"

text \<open>\<open>ApiError(code, message, status_code=..., retryable=...)\<close>.\<close>

definition api_exn :: "string \<Rightarrow> string \<Rightarrow> nat \<Rightarrow> bool \<Rightarrow> exn" where
  "api_exn cd msg status r =
     ApiExn \<lparr>ae_code = cd, ae_message = msg, ae_status = status, ae_retryable = r\<rparr>"

section \<open>Properties\<close>

text \<open>A constructed backend error is well formed: its message is not blank, its code is a
  safe identifier of at most 64 characters, its details are sorted by distinct non-blank keys
  and hold only scalars, no infinity and no NaN, and serialising sorts nothing further.\<close>

theorem backend_error_invariant:
  assumes "init_backend_error c m cd r details = Inr e"
  shows "strip (be_message e) \<noteq> [] \<and> safe_token_match (be_code e) \<and> length (be_code e) \<le> 64 \<and>
    details_ok (be_details e) \<and>
    backend_error_to_dict e =
      PDict [(PStr ''code'', PStr (be_code e)),
             (PStr ''details'', PDict (map (\<lambda>(k, v). (PStr k, v)) (be_details e))),
             (PStr ''message'', PStr (be_message e)),
             (PStr ''retryable'', PBool (be_retryable e))]"
proof -
  from assms have ok: "backend_error_ok e" by (rule init_backend_error_ok)
  then have "length (be_code e) \<le> 64"
    by (cases "be_code e") (auto simp: backend_error_ok_def)
  with ok show ?thesis
    by (simp add: backend_error_ok_def backend_error_to_dict_def details_ok_sorted_id)
qed

theorem backend_error_invariant_witness:
  "\<exists>e. init_backend_error BackendRequestError PNone PNone (PBool True)
          (Some [(PStr ''b'', PInt 1), (PStr ''a'', PNone)]) = Inr e \<and>
       be_details e = [(''a'', PNone), (''b'', PInt 1)] \<and> length (be_code e) \<le> 64"
proof -
  have "init_backend_error BackendRequestError PNone PNone (PBool True)
      (Some [(PStr ''b'', PInt 1), (PStr ''a'', PNone)]) =
    Inr \<lparr>be_class = BackendRequestError, be_message = ''Backend request is invalid.'',
      be_code = ''invalid_backend_request'', be_retryable = True,
      be_details = [(''a'', PNone), (''b'', PInt 1)]\<rparr>"
    by (simp add: init_backend_error_def normalize_details_def strip_def is_space_def
        is_alpha_ascii_def)
  from this backend_error_invariant [OF this] show ?thesis by simp
qed

text \<open>Normalising any exception returns an error, a backend error unchanged, and every other
  exception as an execution error that depends on the exception only through its class name:
  no message or payload of the original reaches the public error.\<close>

theorem normalize_backend_error_total_and_private:
  "(\<exists>e. normalize_backend_error operation error = Inr e) \<and>
   (case error of
      BackendExn e \<Rightarrow> normalize_backend_error operation error = Inr e
    | _ \<Rightarrow> normalize_backend_error operation error =
        Inr \<lparr>be_class = BackendExecutionError, be_message = ''Backend execution failed.'',
             be_code = ''backend_execution_failed'', be_retryable = False,
             be_details = [(''exception_type'', PStr (safe_token (exn_type_name error) ''UnknownBackendError'')),
                           (''operation'', PStr (safe_token operation ''backend_operation''))]\<rparr>)"
proof -
  have *: "init_backend_error BackendExecutionError PNone PNone PNone
      (Some [(PStr ''exception_type'', PStr x), (PStr ''operation'', PStr y)]) =
    Inr \<lparr>be_class = BackendExecutionError, be_message = ''Backend execution failed.'',
             be_code = ''backend_execution_failed'', be_retryable = False,
             be_details = [(''exception_type'', PStr x), (''operation'', PStr y)]\<rparr>" for x y
    by (simp add: init_backend_error_def Let_def normalize_details_def strip_def is_space_def
        is_alpha_ascii_def default_retryable_def)
  show ?thesis
    by (cases error) (simp_all add: normalize_backend_error_def Let_def *)
qed

end
