(* ===== verification/Backend_Types.thy ===== *)
theory Backend_Types
  imports Errors
begin

text \<open>
  \<open>voxcpm_runtime/backend_types.py\<close>: the frozen dataclasses that cross the backend boundary.
  A \<open>__post_init__\<close> is a constructor function over dynamically typed arguments that either
  raises or returns the record with the normalised fields. All code points of the string model
  encode to UTF-8, so the \<open>UnicodeEncodeError\<close> branch of \<open>_require_text\<close> (lone surrogates)
  has no input here.
\<close>

type_synonym metadata = "(string, pyval) dict"

definition invalid_field :: "string \<Rightarrow> exn" where
  "invalid_field field =
     BackendExn \<lparr>be_class = BackendRequestError, be_message = ''Backend request field is invalid.'',
       be_code = default_code BackendRequestError, be_retryable = False,
       be_details = [(''field'', PStr field)]\<rparr>"

definition require_text :: "pyval \<Rightarrow> string \<Rightarrow> exn + string" where
  "require_text v field =
     (if \<not> is_str v \<or> strip (str_of v) = [] then Inl (invalid_field field) else Inr (str_of v))"

fun int_of :: "pyval \<Rightarrow> int" where
  "int_of (PInt i) = i"
| "int_of (PBool b) = (if b then 1 else 0)"
| "int_of _ = 0"

definition require_positive_integer :: "pyval \<Rightarrow> string \<Rightarrow> exn + int" where
  "require_positive_integer v field =
     (if \<not> is_int v \<or> is_bool v \<or> int_of v \<le> 0 then Inl (invalid_field field) else Inr (int_of v))"

fun normalize_items :: "string \<Rightarrow> pyval list \<Rightarrow> string set \<Rightarrow> metadata \<Rightarrow> exn + metadata" where
  "normalize_items field [] seen normalized = Inr normalized"
| "normalize_items field (PTuple [key, v] # items) seen normalized =
     and_then (require_text key (field @ ''.key'')) (\<lambda>k.
       if k \<in> seen then Inl (invalid_field (field @ ''.key''))
       else if v \<noteq> PNone \<and> \<not> is_scalar v then Inl (invalid_field (field @ ''.value''))
       else if is_float v \<and> \<not> pv_finite v then Inl (invalid_field (field @ ''.value''))
       else normalize_items field items (insert k seen) (normalized @ [(k, v)]))"
| "normalize_items field (_ # items) seen normalized = Inl (invalid_field field)"

fun normalize_metadata :: "pyval \<Rightarrow> string \<Rightarrow> exn + metadata" where
  "normalize_metadata PNone field = Inr []"
| "normalize_metadata (PTuple items) field =
     and_then (normalize_items field items {} []) (\<lambda>m. Inr (sort_key fst m))"
| "normalize_metadata _ field = Inl (invalid_field field)"

text \<open>\<open>float(sample)\<close>: an integer that does not fit a double raises \<open>OverflowError\<close>.\<close>

fun py_float_of :: "pyval \<Rightarrow> exn + pyfloat" where
  "py_float_of (PFloat f) = Inr f"
| "py_float_of (PInt i) =
     (let f = to_float (of_int i) in
      if isfinite f then Inr f else Inl (OtherError ''OverflowError'' ''int too large to convert to float''))"
| "py_float_of _ = Inl (TypeError ''float() argument must be a string or a real number'')"

definition normalize_sample :: "pyval \<Rightarrow> exn + pyfloat" where
  "normalize_sample sample =
     (if \<not> (is_int sample \<or> is_float sample) \<or> is_bool sample then Inl (invalid_field ''samples'')
      else and_then (py_float_of sample) (\<lambda>v.
        if \<not> isfinite v then Inl (invalid_field ''samples'')
        else Inr (if float_val v = 0 then Fin 0 else v)))"

fun normalize_samples :: "pyval \<Rightarrow> exn + pyfloat list" where
  "normalize_samples (PTuple samples) =
     (if samples = [] then Inl (invalid_field ''samples'') else map_raise normalize_sample samples)"
| "normalize_samples _ = Inl (invalid_field ''samples'')"

section \<open>Requests\<close>

record audio_reference =
  local_path :: string

datatype one_shot =
    SpeechRequest string
  | VoiceDesignRequest string string
  | CloneRequest string audio_reference
  | ContinuationRequest string audio_reference string

datatype stream_request = StreamRequest one_shot

definition mk_audio_reference :: "pyval \<Rightarrow> exn + audio_reference" where
  "mk_audio_reference p = and_then (require_text p ''local_path'') (\<lambda>s. Inr \<lparr>local_path = s\<rparr>)"

definition mk_speech_request :: "pyval \<Rightarrow> exn + one_shot" where
  "mk_speech_request t = and_then (require_text t ''text'') (\<lambda>s. Inr (SpeechRequest s))"

definition mk_voice_design_request :: "pyval \<Rightarrow> pyval \<Rightarrow> exn + one_shot" where
  "mk_voice_design_request t i =
     and_then (require_text t ''text'') (\<lambda>s.
     and_then (require_text i ''instruction'') (\<lambda>j. Inr (VoiceDesignRequest s j)))"

text \<open>A reference argument is an \<open>AudioReference\<close> (\<open>Inr\<close>) or any other object (\<open>Inl\<close>).\<close>

definition require_reference :: "pyval + audio_reference \<Rightarrow> exn + audio_reference" where
  "require_reference a = (case a of Inl _ \<Rightarrow> Inl (invalid_field ''reference_audio'') | Inr r \<Rightarrow> Inr r)"

definition mk_clone_request :: "pyval \<Rightarrow> pyval + audio_reference \<Rightarrow> exn + one_shot" where
  "mk_clone_request t a =
     and_then (require_text t ''text'') (\<lambda>s.
     and_then (require_reference a) (\<lambda>r. Inr (CloneRequest s r)))"

definition mk_continuation_request ::
    "pyval \<Rightarrow> pyval + audio_reference \<Rightarrow> pyval \<Rightarrow> exn + one_shot" where
  "mk_continuation_request t a tr =
     and_then (require_text t ''text'') (\<lambda>s.
     and_then (require_reference a) (\<lambda>r.
     and_then (require_text tr ''reference_transcript'') (\<lambda>u. Inr (ContinuationRequest s r u))))"

definition mk_stream_request :: "pyval + one_shot \<Rightarrow> exn + stream_request" where
  "mk_stream_request a =
     (case a of Inl _ \<Rightarrow> Inl (invalid_field ''request'') | Inr r \<Rightarrow> Inr (StreamRequest r))"

fun request_text :: "one_shot \<Rightarrow> string" where
  "request_text (SpeechRequest t) = t"
| "request_text (VoiceDesignRequest t _) = t"
| "request_text (CloneRequest t _) = t"
| "request_text (ContinuationRequest t _ _) = t"

section \<open>Results\<close>

record backend_info =
  bi_backend :: string
  bi_implementation :: string
  bi_loaded :: bool
  bi_device :: string
  bi_model_id :: "string option"
  bi_capabilities :: "string list"
  bi_metadata :: metadata

record audio_result =
  ar_samples :: "pyfloat list"
  ar_sample_rate_hz :: int
  ar_channels :: int
  ar_metadata :: metadata

record audio_chunk =
  ac_samples :: "pyfloat list"
  ac_sample_rate_hz :: int
  ac_channels :: int
  ac_sequence :: int
  ac_is_final :: bool
  ac_metadata :: metadata

fun collect_capabilities :: "pyval list \<Rightarrow> string set \<Rightarrow> string list \<Rightarrow> exn + string list" where
  "collect_capabilities [] seen caps = Inr caps"
| "collect_capabilities (c # cs) seen caps =
     and_then (require_text c ''capabilities'') (\<lambda>s.
       if s \<in> seen then Inl (invalid_field ''capabilities'')
       else collect_capabilities cs (insert s seen) (caps @ [s]))"

fun tuple_items :: "pyval \<Rightarrow> pyval list option" where
  "tuple_items (PTuple xs) = Some xs"
| "tuple_items _ = None"

definition mk_backend_info ::
    "pyval \<Rightarrow> pyval \<Rightarrow> pyval \<Rightarrow> pyval \<Rightarrow> pyval \<Rightarrow> pyval \<Rightarrow> pyval \<Rightarrow> exn + backend_info" where
  "mk_backend_info backend implementation loaded device model_id capabilities meta =
     and_then (require_text backend ''backend'') (\<lambda>b.
     and_then (require_text implementation ''implementation'') (\<lambda>i.
     if \<not> is_bool loaded then Inl (invalid_field ''loaded'') else
     and_then (require_text device ''device'') (\<lambda>d.
     and_then (if model_id = PNone then Inr None
               else and_then (require_text model_id ''model_id'') (\<lambda>m. Inr (Some m))) (\<lambda>m.
     case tuple_items capabilities of None \<Rightarrow> Inl (invalid_field ''capabilities'') | Some cs \<Rightarrow>
     and_then (collect_capabilities cs {} []) (\<lambda>caps.
     and_then (normalize_metadata meta ''metadata'') (\<lambda>md.
       Inr \<lparr>bi_backend = b, bi_implementation = i, bi_loaded = (loaded = PBool True), bi_device = d,
            bi_model_id = m, bi_capabilities = sort caps, bi_metadata = md\<rparr>))))))"

definition mk_audio_result :: "pyval \<Rightarrow> pyval \<Rightarrow> pyval \<Rightarrow> pyval \<Rightarrow> exn + audio_result" where
  "mk_audio_result samples rate channels meta =
     and_then (normalize_samples samples) (\<lambda>ss.
     and_then (require_positive_integer rate ''sample_rate_hz'') (\<lambda>r.
     and_then (require_positive_integer channels ''channels'') (\<lambda>c.
     and_then (normalize_metadata meta ''metadata'') (\<lambda>md.
       Inr \<lparr>ar_samples = ss, ar_sample_rate_hz = r, ar_channels = c, ar_metadata = md\<rparr>))))"

definition mk_audio_chunk ::
    "pyval \<Rightarrow> pyval \<Rightarrow> pyval \<Rightarrow> pyval \<Rightarrow> pyval \<Rightarrow> pyval \<Rightarrow> exn + audio_chunk" where
  "mk_audio_chunk samples rate channels sequence is_final meta =
     and_then (normalize_samples samples) (\<lambda>ss.
     and_then (require_positive_integer rate ''sample_rate_hz'') (\<lambda>r.
     and_then (require_positive_integer channels ''channels'') (\<lambda>c.
     if \<not> is_int sequence \<or> is_bool sequence then Inl (invalid_field ''sequence'')
     else if int_of sequence < 0 then Inl (invalid_field ''sequence'')
     else if \<not> is_bool is_final then Inl (invalid_field ''is_final'')
     else and_then (normalize_metadata meta ''metadata'') (\<lambda>md.
       Inr \<lparr>ac_samples = ss, ac_sample_rate_hz = r, ac_channels = c, ac_sequence = int_of sequence,
            ac_is_final = (is_final = PBool True), ac_metadata = md\<rparr>))))"

section \<open>Well-formed values\<close>

definition sample_ok :: "pyfloat \<Rightarrow> bool" where
  "sample_ok f \<longleftrightarrow> isfinite f \<and> f \<noteq> NegZero"

definition meta_ok :: "metadata \<Rightarrow> bool" where
  "meta_ok m \<longleftrightarrow> details_ok m"

definition result_ok :: "audio_result \<Rightarrow> bool" where
  "result_ok r \<longleftrightarrow> ar_samples r \<noteq> [] \<and> list_all sample_ok (ar_samples r) \<and>
     0 < ar_sample_rate_hz r \<and> 0 < ar_channels r \<and> meta_ok (ar_metadata r)"

definition chunk_ok :: "audio_chunk \<Rightarrow> bool" where
  "chunk_ok c \<longleftrightarrow> ac_samples c \<noteq> [] \<and> list_all sample_ok (ac_samples c) \<and>
     0 < ac_sample_rate_hz c \<and> 0 < ac_channels c \<and> 0 \<le> ac_sequence c \<and> meta_ok (ac_metadata c)"

fun request_ok :: "one_shot \<Rightarrow> bool" where
  "request_ok (SpeechRequest t) = (strip t \<noteq> [])"
| "request_ok (VoiceDesignRequest t i) = (strip t \<noteq> [] \<and> strip i \<noteq> [])"
| "request_ok (CloneRequest t r) = (strip t \<noteq> [])"
| "request_ok (ContinuationRequest t r u) = (strip t \<noteq> [] \<and> strip u \<noteq> [])"

text \<open>The fields of a value as constructor arguments.\<close>

definition samples_arg :: "pyfloat list \<Rightarrow> pyval" where
  "samples_arg ss = PTuple (map PFloat ss)"

definition meta_arg :: "metadata \<Rightarrow> pyval" where
  "meta_arg m = PTuple (map (\<lambda>(k, v). PTuple [PStr k, v]) m)"

section \<open>Lemmas\<close>

lemma require_text_Inr [raises]:
  "require_text v field = Inr s \<longleftrightarrow> v = PStr s \<and> strip s \<noteq> []"
  by (cases v) (auto simp: require_text_def)

lemma require_positive_integer_Inr [raises]:
  "require_positive_integer v field = Inr i \<longleftrightarrow> v = PInt i \<and> 0 < i"
  by (cases v) (auto simp: require_positive_integer_def)

lemma to_float_finite: "isfinite (to_float x) \<Longrightarrow> float_val (to_float x) \<noteq> 0 \<Longrightarrow> sample_ok (to_float x)"
  by (auto simp: sample_ok_def to_float_def Let_def)

lemma normalize_sample_ok: "normalize_sample v = Inr f \<Longrightarrow> sample_ok f"
  by (cases v) (auto simp: normalize_sample_def Let_def sample_ok_def and_then_eq_Inr
      split: if_splits pyfloat.splits)

lemma normalize_sample_id: "sample_ok f \<Longrightarrow> normalize_sample (PFloat f) = Inr f"
  by (cases f) (auto simp: normalize_sample_def sample_ok_def)

lemma normalize_samples_ok:
  "normalize_samples v = Inr ss \<Longrightarrow> ss \<noteq> [] \<and> list_all sample_ok ss"
proof (cases v)
  case (PTuple samples)
  assume "normalize_samples v = Inr ss"
  with PTuple have ne: "samples \<noteq> []" and all: "list_all2 (\<lambda>x y. normalize_sample x = Inr y) samples ss"
    by (auto simp: raises split: if_splits)
  from all have "list_all sample_ok ss"
    by (auto simp: list_all2_conv_all_nth list_all_length intro: normalize_sample_ok)
  with ne all show ?thesis by auto
qed simp_all

lemma normalize_samples_id:
  "ss \<noteq> [] \<Longrightarrow> list_all sample_ok ss \<Longrightarrow> normalize_samples (samples_arg ss) = Inr ss"
  by (simp add: samples_arg_def raises list_all2_conv_all_nth list_all_length normalize_sample_id)

lemma normalize_items_ok:
  "normalize_items field items seen acc = Inr m \<Longrightarrow> seen = fst ` set acc \<Longrightarrow> dict_ok acc \<Longrightarrow>
   list_all (\<lambda>(k, v). strip k \<noteq> [] \<and> (v = PNone \<or> is_scalar v) \<and> pv_finite v) acc \<Longrightarrow>
   dict_ok m \<and> list_all (\<lambda>(k, v). strip k \<noteq> [] \<and> (v = PNone \<or> is_scalar v) \<and> pv_finite v) m"
proof (induction field items seen acc rule: normalize_items.induct)
  case (2 field key v items seen acc)
  then show ?case
    by (auto simp: raises pv_finite_iff split: if_splits)
qed auto

lemma normalize_metadata_ok: "normalize_metadata v field = Inr m \<Longrightarrow> meta_ok m"
proof (cases v)
  case (PTuple items)
  assume "normalize_metadata v field = Inr m"
  with PTuple obtain m' where "normalize_items field items {} [] = Inr m'" and m: "m = sort_key fst m'"
    by (auto simp: raises)
  then show ?thesis
    unfolding m meta_ok_def by (intro sort_details_ok) (auto dest!: normalize_items_ok)
qed (auto simp: meta_ok_def details_ok_def)

lemma normalize_items_id:
  "dict_ok (acc @ m) \<Longrightarrow>
   list_all (\<lambda>(k, v). strip k \<noteq> [] \<and> (v = PNone \<or> is_scalar v) \<and> pv_finite v) m \<Longrightarrow>
   normalize_items field (map (\<lambda>(k, v). PTuple [PStr k, v]) m) (fst ` set acc) acc = Inr (acc @ m)"
proof (induction m arbitrary: acc)
  case Nil
  then show ?case by simp
next
  case (Cons a m)
  obtain k v where a: "a = (k, v)" by (cases a)
  have "normalize_items field (map (\<lambda>(k, v). PTuple [PStr k, v]) m)
      (fst ` set (acc @ [(k, v)])) (acc @ [(k, v)]) = Inr ((acc @ [(k, v)]) @ m)"
    using Cons.prems a by (intro Cons.IH) auto
  with Cons.prems a show ?case
    by (auto simp: require_text_def)
qed

lemma normalize_metadata_id: "meta_ok m \<Longrightarrow> normalize_metadata (meta_arg m) field = Inr m"
  using normalize_items_id [of "[]" m field]
  by (simp add: meta_arg_def meta_ok_def details_ok_def sort_key_sorted_id)

lemma mk_audio_result_ok: "mk_audio_result s r c m = Inr a \<Longrightarrow> result_ok a"
  by (auto simp: mk_audio_result_def raises result_ok_def
      dest: normalize_samples_ok normalize_metadata_ok)

lemma mk_audio_chunk_ok: "mk_audio_chunk s r c q f m = Inr a \<Longrightarrow> chunk_ok a"
  by (auto simp: mk_audio_chunk_def raises chunk_ok_def
      dest: normalize_samples_ok normalize_metadata_ok)

lemma mk_audio_result_id:
  "result_ok a \<Longrightarrow>
   mk_audio_result (samples_arg (ar_samples a)) (PInt (ar_sample_rate_hz a)) (PInt (ar_channels a))
     (meta_arg (ar_metadata a)) = Inr a"
  by (simp add: mk_audio_result_def result_ok_def normalize_samples_id normalize_metadata_id
      require_positive_integer_def)

lemma mk_audio_chunk_id:
  "chunk_ok a \<Longrightarrow>
   mk_audio_chunk (samples_arg (ac_samples a)) (PInt (ac_sample_rate_hz a)) (PInt (ac_channels a))
     (PInt (ac_sequence a)) (PBool (ac_is_final a)) (meta_arg (ac_metadata a)) = Inr a"
  by (simp add: mk_audio_chunk_def chunk_ok_def normalize_samples_id normalize_metadata_id
      require_positive_integer_def)

section \<open>Properties\<close>

text \<open>Constructing audio: a constructed result has at least one sample, all samples finite and
  without a negative zero, a positive rate and channel count and normalised metadata, and
  constructing it again from its own fields returns the same value; the same holds of chunks.\<close>

theorem audio_construction_canonical:
  "(\<forall>s r c m a. mk_audio_result s r c m = Inr a \<longrightarrow>
      result_ok a \<and>
      mk_audio_result (samples_arg (ar_samples a)) (PInt (ar_sample_rate_hz a))
        (PInt (ar_channels a)) (meta_arg (ar_metadata a)) = Inr a) \<and>
   (\<forall>s r c q f m a. mk_audio_chunk s r c q f m = Inr a \<longrightarrow>
      chunk_ok a \<and>
      mk_audio_chunk (samples_arg (ac_samples a)) (PInt (ac_sample_rate_hz a)) (PInt (ac_channels a))
        (PInt (ac_sequence a)) (PBool (ac_is_final a)) (meta_arg (ac_metadata a)) = Inr a)"
  by (blast intro: mk_audio_result_id mk_audio_chunk_id dest: mk_audio_result_ok mk_audio_chunk_ok)

theorem audio_construction_canonical_witness:
  "\<exists>a. mk_audio_result (PTuple [PFloat NegZero, PFloat (Fin 1)]) (PInt 48000) (PInt 1)
        (PTuple [PTuple [PStr ''z'', PNone], PTuple [PStr ''a'', PInt 2]]) = Inr a \<and>
      ar_samples a = [Fin 0, Fin 1] \<and> result_ok a"
proof -
  have "mk_audio_result (PTuple [PFloat NegZero, PFloat (Fin 1)]) (PInt 48000) (PInt 1)
        (PTuple [PTuple [PStr ''z'', PNone], PTuple [PStr ''a'', PInt 2]]) =
      Inr \<lparr>ar_samples = [Fin 0, Fin 1], ar_sample_rate_hz = 48000, ar_channels = 1,
           ar_metadata = [(''a'', PInt 2), (''z'', PNone)]\<rparr>"
    by (simp add: mk_audio_result_def normalize_sample_def require_positive_integer_def
        require_text_def strip_def is_space_def)
  with audio_construction_canonical show ?thesis by fastforce
qed

end
