(* ===== verification/Worker_Types.thy ===== *)
theory Worker_Types
  imports Backend_Types
begin

text \<open>
  \<open>voxcpm_runtime/worker_types.py\<close>: the values exchanged between the API process and the
  worker processes. The \<open>Literal\<close> types are datatypes; the constructors take the string the
  caller passes and raise on one that names no member.
\<close>

definition require_token :: "pyval \<Rightarrow> string \<Rightarrow> nat \<Rightarrow> exn + string" where
  "require_token v field max_length =
     (if \<not> is_str v \<or> str_of v = [] \<or> max_length < length (str_of v)
      then Inl (ValueError (field @ '' must be a non-empty bounded string''))
      else if list_ex (\<lambda>ch. ordc ch \<in> {47, 92, 0, 10, 13}) (str_of v)
      then Inl (ValueError (field @ '' contains unsupported characters''))
      else Inr (str_of v))"

definition token_ok :: "nat \<Rightarrow> string \<Rightarrow> bool" where
  "token_ok n s \<longleftrightarrow> s \<noteq> [] \<and> length s \<le> n \<and> list_all (\<lambda>ch. ordc ch \<notin> {47, 92, 0, 10, 13}) s"

lemma require_token_Inr [raises]:
  "require_token v field n = Inr s \<longleftrightarrow> v = PStr s \<and> token_ok n s"
  by (cases v) (auto simp: require_token_def token_ok_def list_ex_iff list_all_iff)

section \<open>Bootstrap\<close>

datatype backend_kind = Fake_Kind | Real_Kind

record bootstrap_spec =
  bs_worker_id :: string
  bs_backend_kind :: backend_kind
  bs_gpu :: "int option"
  bs_failures :: "string list"

definition failure_operations :: "string list" where
  "failure_operations =
     [''load'', ''synthesize'', ''design'', ''clone'', ''continue_audio'', ''stream'', ''close'']"

definition mk_bootstrap_spec :: "pyval \<Rightarrow> string \<Rightarrow> pyval \<Rightarrow> string list option \<Rightarrow> exn + bootstrap_spec" where
  \<comment> \<open>\<open>None\<close> for the failure operations stands for a value that is not a tuple\<close>
  "mk_bootstrap_spec wid kind gpu failures =
     and_then (require_token wid ''worker_id'' 128) (\<lambda>w.
     if kind \<noteq> ''fake'' \<and> kind \<noteq> ''real'' then Inl (ValueError ''backend_kind must be fake or real'')
     else if gpu \<noteq> PNone \<and> (is_bool gpu \<or> \<not> is_int gpu \<or> int_of gpu < 0)
     then Inl (ValueError ''physical_gpu_index must be a non-negative integer'')
     else case failures of
       None \<Rightarrow> Inl (ValueError ''fake_failure_operations must be a tuple'')
     | Some ops \<Rightarrow>
        if list_ex (\<lambda>x. x \<notin> set failure_operations) ops
        then Inl (ValueError ''fake_failure_operations contains an unsupported operation'')
        else if \<not> distinct ops then Inl (ValueError ''fake_failure_operations must be unique'')
        else Inr \<lparr>bs_worker_id = w, bs_backend_kind = (if kind = ''fake'' then Fake_Kind else Real_Kind),
                  bs_gpu = (if gpu = PNone then None else Some (int_of gpu)),
                  bs_failures = sort ops\<rparr>)"

section \<open>Requests\<close>

datatype worker_operation = Synthesize | Design | Clone | Continue_Audio | Stream

fun operation_name :: "worker_operation \<Rightarrow> string" where
  "operation_name Synthesize = ''synthesize''"
| "operation_name Design = ''design''"
| "operation_name Clone = ''clone''"
| "operation_name Continue_Audio = ''continue_audio''"
| "operation_name Stream = ''stream''"

definition parse_operation :: "string \<Rightarrow> worker_operation option" where
  "parse_operation s =
     find (\<lambda>x. operation_name x = s) [Synthesize, Design, Clone, Continue_Audio, Stream]"

datatype worker_payload = OneShotPayload one_shot | StreamPayload stream_request

record worker_request =
  wr_id :: string
  wr_operation :: worker_operation
  wr_payload :: worker_payload

fun is_stream_payload :: "worker_payload \<Rightarrow> bool" where
  "is_stream_payload (StreamPayload _) = True"
| "is_stream_payload (OneShotPayload _) = False"

definition mk_worker_request :: "pyval \<Rightarrow> string \<Rightarrow> worker_payload \<Rightarrow> exn + worker_request" where
  "mk_worker_request rid op payload =
     and_then (require_token rid ''request_id'' 128) (\<lambda>r.
     case parse_operation op of
       None \<Rightarrow> Inl (ValueError ''unsupported worker operation'')
     | Some x \<Rightarrow>
        if x = Stream
        then if \<not> is_stream_payload payload
             then Inl (ValueError ''stream operation requires StreamRequest'')
             else Inr \<lparr>wr_id = r, wr_operation = x, wr_payload = payload\<rparr>
        else if is_stream_payload payload
             then Inl (ValueError ''one-shot operation cannot carry StreamRequest'')
             else Inr \<lparr>wr_id = r, wr_operation = x, wr_payload = payload\<rparr>)"

definition worker_request_ok :: "worker_request \<Rightarrow> bool" where
  "worker_request_ok q \<longleftrightarrow>
     token_ok 128 (wr_id q) \<and> (wr_operation q = Stream \<longleftrightarrow> is_stream_payload (wr_payload q))"

section \<open>Messages\<close>

record worker_error_data =
  wd_code :: string
  wd_message :: string
  wd_retryable :: bool
  wd_details :: metadata

definition mk_worker_error_data :: "pyval \<Rightarrow> pyval \<Rightarrow> pyval \<Rightarrow> metadata \<Rightarrow> exn + worker_error_data" where
  "mk_worker_error_data cd msg retryable details =
     and_then (require_token cd ''code'' 64) (\<lambda>c.
     if \<not> is_str msg \<or> strip (str_of msg) = [] then Inl (ValueError ''message must be non-empty'')
     else if \<not> is_bool retryable then Inl (ValueError ''retryable must be boolean'')
     else Inr \<lparr>wd_code = c, wd_message = str_of msg, wd_retryable = (retryable = PBool True),
               wd_details = sort_key fst details\<rparr>)"

datatype message_kind =
    Ready_Kind
  | Result_Kind
  | Stream_Chunk_Kind
  | Stream_End_Kind
  | Error_Kind
  | Cancelled_Kind
  | Shutdown_Ack_Kind

fun kind_name :: "message_kind \<Rightarrow> string" where
  "kind_name Ready_Kind = ''ready''"
| "kind_name Result_Kind = ''result''"
| "kind_name Stream_Chunk_Kind = ''stream_chunk''"
| "kind_name Stream_End_Kind = ''stream_end''"
| "kind_name Error_Kind = ''error''"
| "kind_name Cancelled_Kind = ''cancelled''"
| "kind_name Shutdown_Ack_Kind = ''shutdown_ack''"

definition parse_kind :: "string \<Rightarrow> message_kind option" where
  "parse_kind s =
     find (\<lambda>k. kind_name k = s)
       [Ready_Kind, Result_Kind, Stream_Chunk_Kind, Stream_End_Kind, Error_Kind, Cancelled_Kind,
        Shutdown_Ack_Kind]"

datatype result_payload = NoPayload | ResultPayload audio_result | ChunkPayload audio_chunk

record worker_message =
  wm_kind :: message_kind
  wm_worker_id :: string
  wm_request_id :: "string option"
  wm_payload :: result_payload
  wm_error :: "worker_error_data option"
  wm_metadata :: metadata

definition mk_worker_message ::
    "string \<Rightarrow> pyval \<Rightarrow> pyval \<Rightarrow> result_payload \<Rightarrow> worker_error_data option \<Rightarrow> metadata \<Rightarrow> exn + worker_message" where
  "mk_worker_message kind wid rid payload err meta =
     and_then (require_token wid ''worker_id'' 128) (\<lambda>w.
     and_then (if rid = PNone then Inr None
               else and_then (require_token rid ''request_id'' 128) (\<lambda>r. Inr (Some r))) (\<lambda>r.
     case parse_kind kind of
       None \<Rightarrow> Inl (ValueError ''unsupported worker message kind'')
     | Some k \<Rightarrow> Inr \<lparr>wm_kind = k, wm_worker_id = w, wm_request_id = r, wm_payload = payload,
                     wm_error = err, wm_metadata = sort_key fst meta\<rparr>))"

text \<open>
  The messages the code builds itself: \<open>plain_message\<close> is
  \<open>WorkerMessage(kind=..., worker_id=..., request_id=..., metadata=...)\<close> and \<open>error_message\<close>
  carries a \<open>WorkerErrorData(code=..., message=..., retryable=...)\<close>.
\<close>

definition plain_message :: "message_kind \<Rightarrow> string \<Rightarrow> string option \<Rightarrow> metadata \<Rightarrow> worker_message" where
  "plain_message k w r m =
     \<lparr>wm_kind = k, wm_worker_id = w, wm_request_id = r, wm_payload = NoPayload, wm_error = None,
      wm_metadata = sort_key fst m\<rparr>"

definition error_message :: "string \<Rightarrow> string option \<Rightarrow> worker_error_data \<Rightarrow> worker_message" where
  "error_message w r d =
     \<lparr>wm_kind = Error_Kind, wm_worker_id = w, wm_request_id = r, wm_payload = NoPayload,
      wm_error = Some d, wm_metadata = []\<rparr>"

lemma parse_kind_name [simp]: "parse_kind (kind_name k) = Some k"
  by (cases k) (simp_all add: parse_kind_def)

lemma parse_operation_name [simp]: "parse_operation (operation_name x) = Some x"
  by (cases x) (simp_all add: parse_operation_def)

lemma parse_operation_Some: "parse_operation s = Some x \<Longrightarrow> s = operation_name x"
  unfolding parse_operation_def find_Some_iff by metis

lemma mk_worker_message_plain:
  "token_ok 128 w \<Longrightarrow> token_ok 128 r \<Longrightarrow>
   mk_worker_message (kind_name k) (PStr w) (PStr r) NoPayload None m =
     Inr (plain_message k w (Some r) m)"
proof -
  assume "token_ok 128 w" and "token_ok 128 r"
  then have "require_token (PStr w) ''worker_id'' 128 = Inr w"
    and "require_token (PStr r) ''request_id'' 128 = Inr r"
    by (simp_all add: require_token_Inr)
  then show ?thesis by (simp add: mk_worker_message_def plain_message_def)
qed

lemma mk_worker_request_token:
  "mk_worker_request rid op payload = Inr q \<Longrightarrow> \<exists>r. rid = PStr r \<and> token_ok 128 r \<and> r = wr_id q"
  by (cases "require_token rid ''request_id'' 128"; cases "parse_operation op"; cases q)
    (simp_all add: mk_worker_request_def require_token_Inr split: if_split_asm)

lemma mk_worker_request_fields:
  assumes "mk_worker_request rid op payload = Inr q"
  shows "parse_operation op = Some (wr_operation q) \<and> payload = wr_payload q \<and>
    (wr_operation q = Stream \<longleftrightarrow> is_stream_payload (wr_payload q))"
  using assms
  by (cases "require_token rid ''request_id'' 128"; cases "parse_operation op"; cases q)
    (simp_all add: mk_worker_request_def split: if_split_asm)

lemma mk_worker_request_ok: "mk_worker_request rid op payload = Inr q \<Longrightarrow> worker_request_ok q"
  using mk_worker_request_token mk_worker_request_fields by (auto simp: worker_request_ok_def)

section \<open>Properties\<close>

text \<open>A request object exists exactly for a valid identifier, a known operation and a payload
  of the kind that operation takes; it carries them unchanged.\<close>

theorem worker_request_construction:
  "mk_worker_request rid op payload = Inr q \<longleftrightarrow>
     rid = PStr (wr_id q) \<and> op = operation_name (wr_operation q) \<and> payload = wr_payload q \<and>
     token_ok 128 (wr_id q) \<and> (wr_operation q = Stream \<longleftrightarrow> is_stream_payload (wr_payload q))"
proof
  assume "mk_worker_request rid op payload = Inr q"
  from mk_worker_request_token [OF this] mk_worker_request_fields [OF this]
  show "rid = PStr (wr_id q) \<and> op = operation_name (wr_operation q) \<and> payload = wr_payload q \<and>
     token_ok 128 (wr_id q) \<and> (wr_operation q = Stream \<longleftrightarrow> is_stream_payload (wr_payload q))"
    using parse_operation_Some by blast
next
  assume a: "rid = PStr (wr_id q) \<and> op = operation_name (wr_operation q) \<and> payload = wr_payload q \<and>
     token_ok 128 (wr_id q) \<and> (wr_operation q = Stream \<longleftrightarrow> is_stream_payload (wr_payload q))"
  then have "require_token rid ''request_id'' 128 = Inr (wr_id q)"
    by (simp add: require_token_Inr)
  with a show "mk_worker_request rid op payload = Inr q"
    by (simp add: mk_worker_request_def)
qed

end
