(* ===== verification/Lifecycles.thy ===== *)
theory Lifecycles
  imports Prelude
begin

text \<open>
  The interface of a stateful object: a transition function for its public operations (the state
  after the call, whether it returned or raised), an invariant every operation keeps, and a
  lifecycle phase that moves along permitted edges only. Components provide the laws once per
  operation; the facts about whole call sequences are proved here.
\<close>

locale stateful_object =
  fixes invoke :: "'s \<Rightarrow> 'op \<Rightarrow> 's"
    and inv :: "'s \<Rightarrow> bool"
  assumes invoke_inv: "inv s \<Longrightarrow> inv (invoke s x)"
begin

lemma calls_inv: "inv s \<Longrightarrow> inv (foldl invoke s xs)"
  by (induction xs arbitrary: s) (simp_all add: invoke_inv)

end

locale lifecycle_object = stateful_object invoke inv
  for invoke :: "'s \<Rightarrow> 'op \<Rightarrow> 's" and inv :: "'s \<Rightarrow> bool" +
  fixes phase :: "'s \<Rightarrow> 'p"
    and edge :: "'p \<Rightarrow> 'p \<Rightarrow> bool"
  assumes invoke_edge: "inv s \<Longrightarrow> phase (invoke s x) = phase s \<or> edge (phase s) (phase (invoke s x))"
begin

lemma calls_path: "inv s \<Longrightarrow> edge\<^sup>*\<^sup>* (phase s) (phase (foldl invoke s xs))"
proof (induction xs arbitrary: s)
  case Nil
  then show ?case by simp
next
  case (Cons x xs)
  from Cons.prems have "edge\<^sup>*\<^sup>* (phase s) (phase (invoke s x))"
    using invoke_edge [of s x] by auto
  moreover from Cons have "edge\<^sup>*\<^sup>* (phase (invoke s x)) (phase (foldl invoke (invoke s x) xs))"
    by (blast intro: invoke_inv)
  ultimately show ?case by simp
qed

text \<open>A phase with no outgoing edge is final.\<close>

lemma calls_final:
  "inv s \<Longrightarrow> phase s = p \<Longrightarrow> (\<And>q. \<not> edge p q) \<Longrightarrow> phase (foldl invoke s xs) = p"
  by (metis calls_path converse_rtranclpE)

text \<open>Phases that an edge-closed set excludes are never reached from inside the set.\<close>

lemma calls_closed:
  assumes "inv s" and "phase s \<in> P" and "\<And>p q. p \<in> P \<Longrightarrow> edge p q \<Longrightarrow> q \<in> P"
  shows "phase (foldl invoke s xs) \<in> P"
proof -
  have "edge\<^sup>*\<^sup>* p q \<Longrightarrow> p \<in> P \<Longrightarrow> q \<in> P" for p q
    by (induction rule: rtranclp_induct) (auto intro: assms(3))
  with assms(1,2) show ?thesis by (blast intro: calls_path)
qed

end

end
