(* ===== verification/Worker_Contract.thy ===== *)
theory Worker_Contract
  imports Worker_Types Lifecycles
begin

text \<open>
  What the scheduler relies on about a worker, as a locale: a worker is idle and ready, runs one
  request (its \<open>job\<close>), or is lost. The laws say how the operations the scheduler calls move it
  between these, and which errors they raise; a worker that raises anything but the receive
  timeout is lost for good. \<open>identified_worker\<close> adds that the final answer of a request names it.
\<close>

definition terminal_kind :: "message_kind \<Rightarrow> bool" where
  "terminal_kind k \<longleftrightarrow> k \<in> {Result_Kind, Error_Kind, Stream_End_Kind, Cancelled_Kind}"

definition receive_timeout :: exn where
  "receive_timeout = worker_exn WorkerTransportError ''worker_receive_timeout'' True []"

text \<open>The errors that mean the worker is gone.\<close>

fun worker_lost :: "exn \<Rightarrow> bool" where
  "worker_lost (WorkerExn e) =
     (we_class e = WorkerExitedError \<or>
      we_class e = WorkerTransportError \<and> we_code e \<noteq> ''worker_receive_timeout'')"
| "worker_lost _ = False"

locale request_worker =
  fixes ok :: "'w \<Rightarrow> bool"
    and ready :: "'w \<Rightarrow> bool"
    and job :: "'w \<Rightarrow> string option"
    and ident :: "'w \<Rightarrow> string"
    and submit :: "worker_request \<Rightarrow> 'w \<Rightarrow> (exn + unit) \<times> 'w"
    and receive :: "'w \<Rightarrow> (exn + worker_message) \<times> 'w"
    and cancel :: "'w \<Rightarrow> (exn + string) \<times> 'w"
  assumes ready_idle: "ok w \<Longrightarrow> ready w \<Longrightarrow> job w = None"
    and submit_ready: "ok w \<Longrightarrow> ready w \<Longrightarrow> submit q w = (r, w1) \<Longrightarrow>
      ok w1 \<and> ident w1 = ident w \<and> \<not> ready w1 \<and>
      (case r of Inr _ \<Rightarrow> job w1 = Some (wr_id q)
       | Inl e \<Rightarrow> job w1 = None \<and> is_worker_class WorkerExitedError e)"
    and receive_busy: "ok w \<Longrightarrow> job w = Some rid \<Longrightarrow> receive w = (res, w1) \<Longrightarrow>
      ok w1 \<and> ident w1 = ident w \<and>
      (case res of
         Inr m \<Rightarrow> wm_request_id m \<in> {None, Some rid} \<and>
           (if terminal_kind (wm_kind m) then job w1 = None \<and> ready w1 else job w1 = Some rid)
       | Inl e \<Rightarrow> e = receive_timeout \<and> job w1 = Some rid \<or>
           worker_lost e \<and> job w1 = None \<and> \<not> ready w1)"
    and cancel_busy: "ok w \<Longrightarrow> job w = Some rid \<Longrightarrow>
      \<exists>w1. cancel w = (Inr rid, w1) \<and> ok w1 \<and> ident w1 = ident w \<and> job w1 = None \<and> \<not> ready w1"
begin

text \<open>The result of each call at a glance.\<close>

lemma submit_accepted:
  assumes "ok w" and "ready w" and "submit q w = (Inr u, w1)"
  shows "ok w1 \<and> ident w1 = ident w \<and> job w1 = Some (wr_id q)"
  using submit_ready [OF assms] by simp

lemma submit_refused:
  assumes "ok w" and "ready w" and "submit q w = (Inl e, w1)"
  shows "ok w1 \<and> ident w1 = ident w \<and> job w1 = None \<and> \<not> ready w1 \<and>
    is_worker_class WorkerExitedError e \<and> \<not> is_worker_class WorkerStateError e"
proof -
  from submit_ready [OF assms] have "is_worker_class WorkerExitedError e" by simp
  then have "\<not> is_worker_class WorkerStateError e" by (cases e) auto
  with submit_ready [OF assms] show ?thesis by simp
qed

lemma receive_answer:
  assumes "ok w" and "job w = Some rid" and "receive w = (Inr m, w1)"
  shows "ok w1 \<and> ident w1 = ident w \<and> wm_request_id m \<in> {None, Some rid} \<and>
    job w1 = (if terminal_kind (wm_kind m) then None else Some rid)"
  using receive_busy [OF assms] by (simp split: if_splits)

lemma receive_error:
  assumes "ok w" and "job w = Some rid" and "receive w = (Inl e, w1)"
  shows "ok w1 \<and> ident w1 = ident w \<and>
    (e = receive_timeout \<and> job w1 = Some rid \<or> worker_lost e \<and> job w1 = None)"
  using receive_busy [OF assms] by auto

text \<open>A worker polled any number of times runs the request it was given, or nothing.\<close>

fun receives :: "nat \<Rightarrow> 'w \<Rightarrow> 'w" where
  "receives 0 w = w"
| "receives (Suc n) w = (if job w = None then w else receives n (snd (receive w)))"

lemma receives_job:
  "ok w \<Longrightarrow> ok (receives n w) \<and> ident (receives n w) = ident w \<and> job (receives n w) \<in> {None, job w}"
proof (induction n arbitrary: w)
  case 0
  then show ?case by simp
next
  case (Suc n)
  show ?case
  proof (cases "job w")
    case None
    with Suc.prems show ?thesis by simp
  next
    case (Some rid)
    obtain r w1 where rw: "receive w = (r, w1)" by fastforce
    from receive_busy [OF Suc.prems Some rw] have "ok w1" "ident w1 = ident w" "job w1 \<in> {None, Some rid}"
      by (auto split: sum.splits if_splits)
    with Suc.IH [of w1] rw Some show ?thesis by auto
  qed
qed

end

locale identified_worker = request_worker ok ready job ident submit receive cancel
  for ok ready :: "'w \<Rightarrow> bool" and job and ident and submit and receive and cancel +
  assumes answer_identified: "ok w \<Longrightarrow> job w = Some rid \<Longrightarrow> receive w = (Inr m, w1) \<Longrightarrow>
    terminal_kind (wm_kind m) \<Longrightarrow> wm_request_id m = Some rid"
begin

lemma receive_final_answer:
  assumes "ok w" and "job w = Some rid" and "receive w = (Inr m, w1)" and "terminal_kind (wm_kind m)"
  shows "wm_request_id m = Some rid \<and> job w1 = None \<and> ok w1 \<and> ident w1 = ident w"
  using answer_identified [OF assms] receive_answer [OF assms(1-3)] assms(4) by simp

end

end
