(* ===== verification/Worker_Client.thy ===== *)
theory Worker_Client
  imports Worker_Contract
begin

text \<open>
  \<open>voxcpm_runtime/worker_client.py\<close>: the parent side of one worker process. Everything outside
  the object is part of its state, as the object sees it: \<open>process\<close> is the child (whether it
  lives, lingers after acknowledging a shutdown, or resists SIGTERM), the control connection is
  the list of outcomes of its future \<open>send\<close> calls, and the result queue the list of what its
  future \<open>get\<close> calls yield within their timeout: a message, some other object, \<open>Silence\<close>
  (\<open>queue.Empty\<close>; with an exit code, the child has died meanwhile) or an error of the queue. A theorem for all such lists holds for every
  behaviour of the child. An operation returns its outcome and the object after the call, since
  an operation that raises has changed the object too.
\<close>

datatype worker_state = CREATED | STARTING | READY | BUSY | STOPPING | STOPPED | FAILED

fun state_value :: "worker_state \<Rightarrow> string" where
  "state_value CREATED = ''created''"
| "state_value STARTING = ''starting''"
| "state_value READY = ''ready''"
| "state_value BUSY = ''busy''"
| "state_value STOPPING = ''stopping''"
| "state_value STOPPED = ''stopped''"
| "state_value FAILED = ''failed''"

datatype delivery = Deliver worker_message | DeliverOther | Silence "int option" | Broken

record process =
  p_alive :: bool
  p_exitcode :: "int option"
  p_lingers :: bool
  p_resists :: bool

record mp_context =
  ctx_start_method :: string
  ctx_process :: process
  ctx_sends :: "bool list"
  ctx_deliveries :: "delivery list"

record worker_client =
  wc_spec :: bootstrap_spec
  wc_startup_timeout :: rat
  wc_shutdown_timeout :: rat
  wc_stream_buffer_chunks :: int
  wc_ctx :: mp_context
  wc_state :: worker_state
  wc_process :: "process option"
  wc_control :: "bool list option"
  wc_results :: "delivery list option"
  wc_active :: "string option"
  wc_ready_message :: "worker_message option"

type_synonym 'a call = "(exn + 'a) \<times> worker_client"

definition init_worker_client ::
    "bootstrap_spec \<Rightarrow> rat \<Rightarrow> rat \<Rightarrow> pyval \<Rightarrow> mp_context \<Rightarrow> exn + worker_client" where
  "init_worker_client spec startup shutdown chunks ctx =
     (if startup \<le> 0 \<or> shutdown \<le> 0 then Inl (ValueError ''worker timeouts must be positive'')
      else if is_bool chunks \<or> \<not> is_int chunks \<or> int_of chunks \<le> 0
      then Inl (ValueError ''stream_buffer_chunks must be a positive integer'')
      else if ctx_start_method ctx \<noteq> ''spawn''
      then Inl (ValueError ''WorkerClient requires the spawn multiprocessing context'')
      else Inr \<lparr>wc_spec = spec, wc_startup_timeout = startup, wc_shutdown_timeout = shutdown,
                wc_stream_buffer_chunks = int_of chunks, wc_ctx = ctx, wc_state = CREATED,
                wc_process = None, wc_control = None, wc_results = None, wc_active = None,
                wc_ready_message = None\<rparr>)"

definition worker_id :: "worker_client \<Rightarrow> string" where
  "worker_id c = bs_worker_id (wc_spec c)"

definition is_alive :: "worker_client \<Rightarrow> bool" where
  "is_alive c = (case wc_process c of None \<Rightarrow> False | Some p \<Rightarrow> p_alive p)"

section \<open>Private operations\<close>

definition mark_failed :: "worker_client \<Rightarrow> worker_client" where
  "mark_failed c = c\<lparr>wc_state := FAILED\<rparr>"

definition terminate_and_join :: "worker_client \<Rightarrow> worker_client" where
  "terminate_and_join c =
     (case wc_process c of
        None \<Rightarrow> c
      | Some p \<Rightarrow>
          if p_alive p
          then c\<lparr>wc_process := Some (p\<lparr>p_alive := False,
                   p_exitcode := Some (if p_resists p then - 9 else - 15)\<rparr>)\<rparr>
          else c)"

definition cleanup_transport :: "worker_client \<Rightarrow> worker_client" where
  "cleanup_transport c = c\<lparr>wc_control := None, wc_results := None\<rparr>"

text \<open>\<open>results.get(timeout=...)\<close>: a queue with nothing further to yield stays empty.\<close>

definition pop_delivery :: "delivery list \<Rightarrow> delivery \<times> delivery list" where
  "pop_delivery ds = (case ds of [] \<Rightarrow> (Silence None, []) | d # rest \<Rightarrow> (d, rest))"

definition child_died :: "int option \<Rightarrow> worker_client \<Rightarrow> worker_client" where
  "child_died dies c =
     (case dies of
        None \<Rightarrow> c
      | Some code \<Rightarrow>
          c\<lparr>wc_process := map_option (\<lambda>p. if p_alive p
                                          then p\<lparr>p_alive := False, p_exitcode := Some code\<rparr> else p)
                             (wc_process c)\<rparr>)"

definition transport_error :: exn where
  "transport_error = worker_exn WorkerTransportError (worker_default_code WorkerTransportError) False []"

definition exitcode_value :: "process \<Rightarrow> pyval" where
  "exitcode_value p = (case p_exitcode p of None \<Rightarrow> PNone | Some n \<Rightarrow> PInt n)"

definition receive_message :: "worker_client \<Rightarrow> worker_message call" where
  "receive_message c =
     (case wc_results c of
        None \<Rightarrow> (Inl transport_error, c)
      | Some ds \<Rightarrow>
         (let (d, rest) = pop_delivery ds; c1 = c\<lparr>wc_results := Some rest\<rparr> in
          case d of
            Silence dies \<Rightarrow>
             (let c2 = child_died dies c1 in
              case wc_process c2 of
                Some p \<Rightarrow>
                  if \<not> p_alive p
                  then (Inl (worker_exn WorkerExitedError (worker_default_code WorkerExitedError) False
                          [(''exitcode'', exitcode_value p)]), mark_failed c2)
                  else (Inl (worker_exn WorkerTransportError ''worker_receive_timeout'' True []), c2)
              | None \<Rightarrow> (Inl (worker_exn WorkerTransportError ''worker_receive_timeout'' True []), c2))
          | Broken \<Rightarrow> (Inl transport_error, mark_failed c1)
          | DeliverOther \<Rightarrow>
              (Inl (worker_exn WorkerTransportError ''invalid_worker_message'' False []), mark_failed c1)
          | Deliver m \<Rightarrow> (Inr m, c1)))"

text \<open>\<open>_error_from_message\<close>: the error of an error message, under the class the caller names.\<close>

definition error_from_message :: "worker_message \<Rightarrow> worker_class \<Rightarrow> exn" where
  "error_from_message m c =
     (case wm_error m of
        None \<Rightarrow> worker_exn c (worker_default_code c) False []
      | Some d \<Rightarrow>
         (case init_worker_error c (PStr (wd_message d)) (PStr (wd_code d)) (PBool (wd_retryable d))
                 (Some (wd_details d)) of
            Inl e \<Rightarrow> e
          | Inr w \<Rightarrow> WorkerExn w))"

section \<open>Public operations\<close>

definition start :: "worker_client \<Rightarrow> worker_message call" where
  "start c =
     (if wc_state c \<noteq> CREATED
      then (Inl (worker_exn WorkerStateError ''worker_already_started'' False []), c)
      else
        (let c1 = c\<lparr>wc_state := STARTING, wc_control := Some (ctx_sends (wc_ctx c)),
                    wc_results := Some (ctx_deliveries (wc_ctx c)),
                    wc_process := Some ((ctx_process (wc_ctx c))\<lparr>p_alive := True, p_exitcode := None\<rparr>)\<rparr> in
         case receive_message c1 of
           (Inl e, c2) \<Rightarrow>
             if is_worker_error e
             then (Inl e, terminate_and_join (c2\<lparr>wc_state := FAILED\<rparr>)) else (Inl e, c2)
         | (Inr m, c2) \<Rightarrow>
             if wm_kind m = Error_Kind
             then (Inl (error_from_message m WorkerStartError),
                   terminate_and_join (c2\<lparr>wc_state := FAILED\<rparr>))
             else if wm_kind m \<noteq> Ready_Kind
             then (Inl (worker_exn WorkerStartError (worker_default_code WorkerStartError) False
                     [(''kind'', PStr (kind_name (wm_kind m)))]),
                   terminate_and_join (c2\<lparr>wc_state := FAILED\<rparr>))
             else (Inr m, c2\<lparr>wc_ready_message := Some m, wc_state := READY\<rparr>)))"

definition submit :: "worker_request \<Rightarrow> worker_client \<Rightarrow> unit call" where
  "submit q c =
     (if wc_state c \<noteq> READY
      then (Inl (worker_exn WorkerStateError ''worker_not_ready'' False
              [(''state'', PStr (state_value (wc_state c)))]), c)
      else case wc_control c of
        None \<Rightarrow> (Inl transport_error, c)
      | Some sends \<Rightarrow>
          (case sends of
             False # rest \<Rightarrow>
               (Inl (worker_exn WorkerExitedError (worker_default_code WorkerExitedError) False []),
                mark_failed (c\<lparr>wc_control := Some rest\<rparr>))
           | _ \<Rightarrow> (Inr (), c\<lparr>wc_control := Some (tl sends), wc_active := Some (wr_id q),
                            wc_state := BUSY\<rparr>)))"

definition receive :: "worker_client \<Rightarrow> worker_message call" where
  "receive c =
     (if wc_state c \<notin> {BUSY, STOPPING}
      then (Inl (worker_exn WorkerStateError ''worker_not_busy'' False
              [(''state'', PStr (state_value (wc_state c)))]), c)
      else case receive_message c of
        (Inl e, c1) \<Rightarrow> (Inl e, c1)
      | (Inr m, c1) \<Rightarrow>
          if wm_request_id m \<noteq> None \<and> wc_active c1 \<noteq> None \<and> wm_request_id m \<noteq> wc_active c1
          then (Inl (worker_exn WorkerTransportError ''request_id_mismatch'' False []), mark_failed c1)
          else if terminal_kind (wm_kind m)
          then (Inr m, c1\<lparr>wc_active := None,
                         wc_state := (if wc_state c1 \<noteq> STOPPING then READY else wc_state c1)\<rparr>)
          else (Inr m, c1))"

definition execute :: "worker_request \<Rightarrow> worker_client \<Rightarrow> audio_result call" where
  "execute q c =
     (if wr_operation q = Stream then (Inl (ValueError ''execute does not accept stream requests''), c)
      else case submit q c of
        (Inl e, c1) \<Rightarrow> (Inl e, c1)
      | (Inr _, c1) \<Rightarrow>
         (case receive c1 of
            (Inl e, c2) \<Rightarrow> (Inl e, c2)
          | (Inr m, c2) \<Rightarrow>
              if wm_kind m = Error_Kind then (Inl (error_from_message m WorkerError), c2)
              else case (wm_kind m, wm_payload m) of
                (Result_Kind, ResultPayload r) \<Rightarrow> (Inr r, c2)
              | _ \<Rightarrow> (Inl (worker_exn WorkerTransportError ''invalid_worker_result'' False []),
                      mark_failed c2)))"

definition cancel_active :: "worker_client \<Rightarrow> string call" where
  "cancel_active c =
     (case wc_active c of
        Some rid \<Rightarrow>
          if wc_state c \<noteq> BUSY then (Inl (worker_exn WorkerStateError ''no_active_request'' False []), c)
          else (Inr rid,
                cleanup_transport ((terminate_and_join c)\<lparr>wc_active := None, wc_state := STOPPED\<rparr>))
      | None \<Rightarrow> (Inl (worker_exn WorkerStateError ''no_active_request'' False []), c))"

text \<open>
  The graceful branch of \<open>shutdown\<close>. A \<open>send\<close> that fails raises an \<open>OSError\<close>, which the
  \<open>except WorkerError\<close> clause does not catch: it leaves through the \<open>finally\<close> block.
\<close>

definition shutdown_graceful :: "worker_client \<Rightarrow> unit call" where
  "shutdown_graceful c =
     (let fin = (\<lambda>x. cleanup_transport (x\<lparr>wc_state := STOPPED\<rparr>)); c1 = c\<lparr>wc_state := STOPPING\<rparr> in
      case wc_control c1 of
        Some (False # rest) \<Rightarrow>
          (Inl (OtherError ''BrokenPipeError'' ''Broken pipe''), fin (c1\<lparr>wc_control := Some rest\<rparr>))
      | _ \<Rightarrow>
         (case receive_message (c1\<lparr>wc_control := map_option tl (wc_control c1)\<rparr>) of
            (Inl e, c2) \<Rightarrow>
              if is_worker_error e then (Inr (), fin (terminate_and_join c2)) else (Inl e, fin c2)
          | (Inr m, c2) \<Rightarrow>
              if wm_kind m \<noteq> Shutdown_Ack_Kind then (Inr (), fin (terminate_and_join c2))
              else
                (let c3 = c2\<lparr>wc_process := map_option
                       (\<lambda>p. if p_alive p \<and> \<not> p_lingers p
                            then p\<lparr>p_alive := False, p_exitcode := Some 0\<rparr> else p) (wc_process c2)\<rparr> in
                 (Inr (), fin (if is_alive c3 then terminate_and_join c3 else c3)))))"

definition shutdown :: "worker_client \<Rightarrow> unit call" where
  "shutdown c =
     (case wc_state c of
        STOPPED \<Rightarrow> (Inr (), c)
      | CREATED \<Rightarrow> (Inr (), c\<lparr>wc_state := STOPPED\<rparr>)
      | BUSY \<Rightarrow> (case cancel_active c of (Inl e, c1) \<Rightarrow> (Inl e, c1) | (Inr _, c1) \<Rightarrow> (Inr (), c1))
      | FAILED \<Rightarrow> (Inr (), (cleanup_transport (terminate_and_join c))\<lparr>wc_state := STOPPED\<rparr>)
      | _ \<Rightarrow>
          if wc_control c = None \<or> wc_process c = None
          then (Inr (), cleanup_transport (c\<lparr>wc_state := STOPPED\<rparr>))
          else shutdown_graceful c)"

text \<open>
  \<open>stream\<close> is a generator. \<open>stream n q c\<close> is its run under a consumer that asks for \<open>n\<close>
  items and then closes it (a consumer that exhausts it asks for more items than there are): the
  chunks yielded, how the run ended, and the object afterwards. A generator closed before its
  first \<open>next\<close> executes nothing. \<open>stream_next\<close> is the \<open>while True\<close> loop, suspended at a
  \<open>yield\<close> when the consumer asks for nothing more; \<open>stream_finally\<close> is the \<open>finally\<close> block.
\<close>

datatype stream_outcome = Closed_By_Consumer | Returned | Raised exn

fun stream_next :: "nat \<Rightarrow> worker_client \<Rightarrow> audio_chunk list \<times> stream_outcome \<times> worker_client" where
  "stream_next 0 c = ([], Closed_By_Consumer, c)"
| "stream_next (Suc n) c =
     (case receive c of
        (Inl e, c1) \<Rightarrow> ([], Raised e, c1)
      | (Inr m, c1) \<Rightarrow>
          if wm_kind m = Stream_Chunk_Kind
          then (case wm_payload m of
                  ChunkPayload chunk \<Rightarrow>
                    (let (chunks, out, c2) = stream_next n c1 in (chunk # chunks, out, c2))
                | _ \<Rightarrow> ([], Raised (worker_exn WorkerTransportError ''invalid_stream_chunk'' False []),
                         mark_failed c1))
          else if wm_kind m = Stream_End_Kind then ([], Returned, c1)
          else if wm_kind m = Error_Kind then ([], Raised (error_from_message m WorkerError), c1)
          else ([], Raised (worker_exn WorkerTransportError ''unexpected_stream_message'' False
                      [(''kind'', PStr (kind_name (wm_kind m)))]), mark_failed c1))"

definition stream_finally ::
    "audio_chunk list \<times> stream_outcome \<times> worker_client \<Rightarrow>
     audio_chunk list \<times> stream_outcome \<times> worker_client" where
  "stream_finally r =
     (case r of (chunks, out, c) \<Rightarrow>
        if wc_state c = BUSY
        then (case cancel_active c of
                (Inl e, c1) \<Rightarrow> (chunks, Raised e, c1)
              | (Inr _, c1) \<Rightarrow> (chunks, out, c1))
        else (chunks, out, c))"

definition stream ::
    "nat \<Rightarrow> worker_request \<Rightarrow> worker_client \<Rightarrow> audio_chunk list \<times> stream_outcome \<times> worker_client" where
  "stream n q c =
     (if n = 0 then ([], Closed_By_Consumer, c)
      else if wr_operation q \<noteq> Stream
      then ([], Raised (ValueError ''stream requires a stream WorkerRequest''), c)
      else case submit q c of
        (Inl e, c1) \<Rightarrow> ([], Raised e, c1)
      | (Inr _, c1) \<Rightarrow> stream_finally (stream_next n c1))"

section \<open>The object and its lifecycle\<close>

text \<open>
  \<open>client_ok\<close> is the invariant between calls. \<open>STARTING\<close> and \<open>STOPPING\<close> are states inside a
  call only. \<open>Child_Exits\<close> is the environment: the child may die at any time.
\<close>

definition client_ok :: "worker_client \<Rightarrow> bool" where
  "client_ok c =
     (case wc_state c of
        CREATED \<Rightarrow> wc_process c = None \<and> wc_control c = None \<and> wc_results c = None \<and> wc_active c = None
      | STARTING \<Rightarrow> False
      | READY \<Rightarrow> wc_process c \<noteq> None \<and> wc_control c \<noteq> None \<and> wc_results c \<noteq> None \<and> wc_active c = None
      | BUSY \<Rightarrow> wc_process c \<noteq> None \<and> wc_control c \<noteq> None \<and> wc_results c \<noteq> None \<and> wc_active c \<noteq> None
      | STOPPING \<Rightarrow> False
      | STOPPED \<Rightarrow> wc_control c = None \<and> wc_results c = None
      | FAILED \<Rightarrow> wc_process c \<noteq> None)"

datatype client_call =
    Start
  | Submit worker_request
  | Receive
  | Execute worker_request
  | Stream_Items nat worker_request
  | Cancel_Active
  | Shutdown
  | Child_Exits int

fun client_invoke :: "worker_client \<Rightarrow> client_call \<Rightarrow> worker_client" where
  "client_invoke c Start = snd (start c)"
| "client_invoke c (Submit q) = snd (submit q c)"
| "client_invoke c Receive = snd (receive c)"
| "client_invoke c (Execute q) = snd (execute q c)"
| "client_invoke c (Stream_Items n q) = snd (snd (stream n q c))"
| "client_invoke c Cancel_Active = snd (cancel_active c)"
| "client_invoke c Shutdown = snd (shutdown c)"
| "client_invoke c (Child_Exits code) = child_died (Some code) c"

fun worker_edge :: "worker_state \<Rightarrow> worker_state \<Rightarrow> bool" where
  "worker_edge CREATED s = (s \<in> {READY, FAILED, STOPPED})"
| "worker_edge READY s = (s \<in> {BUSY, FAILED, STOPPED})"
| "worker_edge BUSY s = (s \<in> {READY, FAILED, STOPPED})"
| "worker_edge FAILED s = (s = STOPPED)"
| "worker_edge _ s = False"

section \<open>Per-operation facts\<close>

lemma mark_failed_fields [simp]:
  "wc_state (mark_failed c) = FAILED" "wc_process (mark_failed c) = wc_process c"
  "wc_control (mark_failed c) = wc_control c" "wc_results (mark_failed c) = wc_results c"
  "wc_active (mark_failed c) = wc_active c" "wc_spec (mark_failed c) = wc_spec c"
  by (simp_all add: mark_failed_def)

lemma cleanup_transport_fields [simp]:
  "wc_state (cleanup_transport c) = wc_state c" "wc_process (cleanup_transport c) = wc_process c"
  "wc_control (cleanup_transport c) = None" "wc_results (cleanup_transport c) = None"
  "wc_active (cleanup_transport c) = wc_active c" "wc_spec (cleanup_transport c) = wc_spec c"
  by (simp_all add: cleanup_transport_def)

lemma terminate_and_join_fields [simp]:
  "wc_state (terminate_and_join c) = wc_state c" "wc_control (terminate_and_join c) = wc_control c"
  "wc_results (terminate_and_join c) = wc_results c" "wc_active (terminate_and_join c) = wc_active c"
  "wc_spec (terminate_and_join c) = wc_spec c"
  "wc_process (terminate_and_join c) = None \<longleftrightarrow> wc_process c = None"
  by (simp_all add: terminate_and_join_def split: option.splits)

lemma terminate_and_join_dead [simp]: "\<not> is_alive (terminate_and_join c)"
  by (simp add: terminate_and_join_def is_alive_def split: option.splits)

lemma child_died_fields [simp]:
  "wc_state (child_died d c) = wc_state c" "wc_control (child_died d c) = wc_control c"
  "wc_results (child_died d c) = wc_results c" "wc_active (child_died d c) = wc_active c"
  "wc_spec (child_died d c) = wc_spec c"
  "wc_process (child_died d c) = None \<longleftrightarrow> wc_process c = None"
  by (simp_all add: child_died_def split: option.splits)

lemma child_died_Some: "wc_process (child_died d c) = Some p \<Longrightarrow> wc_process c \<noteq> None"
  by (auto simp: child_died_def split: option.splits)

lemma is_alive_update [simp]:
  "is_alive (c\<lparr>wc_state := s\<rparr>) = is_alive c" "is_alive (cleanup_transport c) = is_alive c"
  "is_alive (c\<lparr>wc_active := a\<rparr>) = is_alive c"
  by (simp_all add: is_alive_def cleanup_transport_def)

lemma is_alive_None [simp]: "wc_process c = None \<Longrightarrow> \<not> is_alive c"
  by (simp add: is_alive_def)

lemma worker_exn_is_worker_error [simp]: "is_worker_error (worker_exn k cd r d)"
  by (simp add: worker_exn_def)

lemma receive_message_frame:
  assumes "receive_message c = (r, c1)"
  shows "wc_active c1 = wc_active c" "wc_control c1 = wc_control c" "wc_spec c1 = wc_spec c"
    "wc_process c1 = None \<longleftrightarrow> wc_process c = None" "wc_results c1 = None \<longleftrightarrow> wc_results c = None"
    "wc_state c1 = wc_state c \<or> wc_state c1 = FAILED"
  using assms
  by (auto simp: receive_message_def Let_def dest: child_died_Some
      split: option.splits prod.splits delivery.splits if_splits)

lemma receive_message_Inr:
  assumes "receive_message c = (Inr m, c1)"
  shows "\<exists>rest. wc_results c = Some (Deliver m # rest) \<and> c1 = c\<lparr>wc_results := Some rest\<rparr>"
  using assms
  by (auto simp: receive_message_def Let_def pop_delivery_def
      split: option.splits prod.splits delivery.splits if_splits list.splits)

lemma receive_message_deliver:
  "wc_results c = Some (Deliver m # rest) \<Longrightarrow>
   receive_message c = (Inr m, c\<lparr>wc_results := Some rest\<rparr>)"
  by (simp add: receive_message_def pop_delivery_def)

lemma receive_message_Inl:
  assumes "receive_message c = (Inl e, c1)"
  shows "is_worker_error e"
  using assms
  by (auto simp: receive_message_def Let_def transport_error_def
      split: option.splits prod.splits delivery.splits if_splits)

lemmas call_defs = start_def submit_def receive_def execute_def cancel_active_def shutdown_def
lemmas client_splits = option.splits prod.splits sum.splits if_splits worker_state.splits

lemma start_step:
  assumes "client_ok c" and "start c = (r, c1)"
  shows "client_ok c1 \<and> (wc_state c1 = wc_state c \<or> worker_edge (wc_state c) (wc_state c1))"
proof (cases "wc_state c = CREATED")
  case False
  with assms show ?thesis by (simp add: start_def)
next
  case True
  define c0 where "c0 = c\<lparr>wc_state := STARTING, wc_control := Some (ctx_sends (wc_ctx c)),
    wc_results := Some (ctx_deliveries (wc_ctx c)),
    wc_process := Some ((ctx_process (wc_ctx c))\<lparr>p_alive := True, p_exitcode := None\<rparr>)\<rparr>"
  obtain r0 c2 where rm: "receive_message c0 = (r0, c2)" by fastforce
  note fr = receive_message_frame [OF rm]
  have act: "wc_active c = None" using True assms(1) by (simp add: client_ok_def)
  from assms(2) True rm show ?thesis
    unfolding start_def Let_def c0_def [symmetric]
    using fr act receive_message_Inl [of c0]
    by (auto simp: c0_def client_ok_def split: sum.splits if_splits)
qed

lemma submit_step:
  assumes "client_ok c" and "submit q c = (r, c1)"
  shows "client_ok c1 \<and> (wc_state c1 = wc_state c \<or> worker_edge (wc_state c) (wc_state c1))"
  using assms
  by (auto simp: submit_def client_ok_def split: option.splits if_splits list.splits bool.splits)

lemma submit_Inr:
  assumes "submit q c = (Inr u, c1)"
  shows "wc_state c = READY \<and> wc_state c1 = BUSY \<and> wc_active c1 = Some (wr_id q) \<and>
    wc_process c1 = wc_process c \<and> wc_results c1 = wc_results c \<and> wc_spec c1 = wc_spec c"
  using assms
  by (auto simp: submit_def split: option.splits if_splits list.splits bool.splits)

lemma receive_step:
  assumes "client_ok c" and "receive c = (r, c1)"
  shows "client_ok c1 \<and> (wc_state c1 = wc_state c \<or> worker_edge (wc_state c) (wc_state c1))"
proof (cases "wc_state c = BUSY")
  case False
  with assms show ?thesis by (cases "wc_state c") (auto simp: receive_def client_ok_def)
next
  case True
  obtain r0 c2 where rm: "receive_message c = (r0, c2)" by fastforce
  note fr = receive_message_frame [OF rm]
  from assms True rm show ?thesis
    unfolding receive_def using fr
    by (auto simp: client_ok_def split: sum.splits if_splits)
qed

lemma mark_failed_ok [simp]: "client_ok (mark_failed c) \<longleftrightarrow> wc_process c \<noteq> None"
  by (simp add: client_ok_def)

lemma client_ok_process: "client_ok c \<Longrightarrow> wc_state c \<in> {READY, BUSY, FAILED} \<Longrightarrow> wc_process c \<noteq> None"
  by (auto simp: client_ok_def)

lemma receive_busy:
  assumes "client_ok c" and "wc_state c = BUSY" and "receive c = (r, c1)"
  shows "client_ok c1 \<and> wc_state c1 \<in> {BUSY, READY, FAILED} \<and> wc_process c1 \<noteq> None"
proof -
  from receive_step [OF assms(1,3)] assms(2)
  have ok: "client_ok c1" and "wc_state c1 \<in> {BUSY, READY, FAILED, STOPPED}" by auto
  moreover have "wc_state c1 \<noteq> STOPPED"
  proof -
    obtain r0 c2 where rm: "receive_message c = (r0, c2)" by fastforce
    from assms(2,3) rm receive_message_frame(6) [OF rm] show ?thesis
      by (auto simp: receive_def split: sum.splits if_splits)
  qed
  ultimately show ?thesis using client_ok_process [of c1] by blast
qed

lemma cancel_active_step:
  assumes "client_ok c" and "cancel_active c = (r, c1)"
  shows "client_ok c1 \<and> (wc_state c1 = wc_state c \<or> worker_edge (wc_state c) (wc_state c1))"
  using assms by (auto simp: cancel_active_def client_ok_def split: option.splits if_splits)

lemma cancel_active_busy:
  assumes "client_ok c" and "wc_state c = BUSY"
  shows "\<exists>rid c1. wc_active c = Some rid \<and> cancel_active c = (Inr rid, c1) \<and> client_ok c1 \<and>
    wc_state c1 = STOPPED \<and> \<not> is_alive c1 \<and> wc_active c1 = None \<and> wc_spec c1 = wc_spec c"
  using assms by (auto simp: cancel_active_def client_ok_def)

lemma execute_step:
  assumes "client_ok c" and "execute q c = (r, c1)"
  shows "client_ok c1 \<and> (wc_state c1 = wc_state c \<or> worker_edge (wc_state c) (wc_state c1))"
proof (cases "wr_operation q = Stream \<or> wc_state c \<noteq> READY")
  case True
  with assms(2) have "c1 = c" by (auto simp: execute_def submit_def split: if_splits)
  with assms(1) show ?thesis by simp
next
  case False
  obtain r0 c0 where s: "submit q c = (r0, c0)" by fastforce
  show ?thesis
  proof (cases r0)
    case (Inl e)
    with assms(2) s False submit_step [OF assms(1) s] show ?thesis by (auto simp: execute_def)
  next
    case (Inr u)
    from submit_step [OF assms(1) s] submit_Inr [of q c u c0] s Inr
    have b: "client_ok c0" "wc_state c0 = BUSY" by auto
    obtain r2 c2 where rc: "receive c0 = (r2, c2)" by fastforce
    note f = receive_busy [OF b rc]
    from assms(2) s Inr rc False have "c1 = c2 \<or> c1 = mark_failed c2"
      by (auto simp: execute_def split: sum.splits if_splits message_kind.splits result_payload.splits)
    with f False show ?thesis by auto
  qed
qed

lemma stream_next_busy:
  assumes "client_ok c" and "wc_state c = BUSY" and "stream_next n c = (chunks, out, c1)"
  shows "client_ok c1 \<and> wc_state c1 \<in> {BUSY, READY, FAILED}"
  using assms
proof (induction n c arbitrary: chunks out c1 rule: stream_next.induct)
  case (1 c)
  then show ?case by simp
next
  case (2 n c)
  obtain r c2 where rc: "receive c = (r, c2)" by fastforce
  note f = receive_busy [OF 2(2,3) rc]
  show ?case
  proof (cases r)
    case (Inl e)
    with 2(4) rc f show ?thesis by simp
  next
    case (Inr m)
    show ?thesis
    proof (cases "wm_kind m = Stream_Chunk_Kind \<and> (\<exists>ch. wm_payload m = ChunkPayload ch)")
      case False
      with 2(4) rc Inr have "c1 = c2 \<or> c1 = mark_failed c2"
        by (auto split: if_splits result_payload.splits)
      with f show ?thesis by auto
    next
      case True
      then obtain ch where ch: "wm_kind m = Stream_Chunk_Kind" "wm_payload m = ChunkPayload ch" by blast
      obtain chs o2 c3 where sn: "stream_next n c2 = (chs, o2, c3)" by (cases "stream_next n c2") auto
      from rc Inr ch sn 2(4) have c1: "c1 = c3" by simp
      have busy: "wc_state c2 = BUSY"
      proof -
        obtain r0 c0 where rm: "receive_message c = (r0, c0)" by fastforce
        from rc Inr rm 2(3) obtain m0 where "r0 = Inr m0"
          by (auto simp: receive_def split: sum.splits)
        with rm receive_message_Inr [of c m0 c0] have "wc_state c0 = BUSY" using 2(3) by auto
        with rc Inr rm 2(3) ch(1) \<open>r0 = Inr m0\<close> show ?thesis
          by (auto simp: receive_def terminal_kind_def split: if_splits)
      qed
      from 2(1) [OF rc [symmetric] Inr ch(1,2) _ busy sn] f c1 show ?thesis by auto
    qed
  qed
qed

lemma stream_finally_step:
  assumes "client_ok c" and "wc_state c \<in> {BUSY, READY, FAILED}"
    and "stream_finally (chunks, out, c) = (chunks1, out1, c1)"
  shows "chunks1 = chunks \<and> out1 = out \<and> client_ok c1 \<and>
    wc_state c1 = (if wc_state c = BUSY then STOPPED else wc_state c) \<and>
    (wc_state c = BUSY \<longrightarrow> \<not> is_alive c1)"
  using assms cancel_active_busy [OF assms(1)]
  by (auto simp: stream_finally_def split: sum.splits prod.splits if_splits)

lemma stream_step:
  assumes "client_ok c" and "stream n q c = (chunks, out, c1)"
  shows "client_ok c1 \<and> (wc_state c1 = wc_state c \<or> worker_edge (wc_state c) (wc_state c1)) \<and>
    (wc_state c = READY \<longrightarrow> wc_state c1 \<in> {READY, STOPPED, FAILED})"
proof (cases "n = 0 \<or> wr_operation q \<noteq> Stream \<or> wc_state c \<noteq> READY")
  case True
  with assms(2) have "c1 = c" by (auto simp: stream_def submit_def split: if_splits)
  with assms(1) show ?thesis by simp
next
  case False
  obtain r0 c0 where s: "submit q c = (r0, c0)" by fastforce
  show ?thesis
  proof (cases r0)
    case (Inl e)
    with False s have "wc_state c0 \<noteq> BUSY"
      by (auto simp: submit_def mark_failed_def split: option.splits list.splits bool.splits)
    with Inl assms(2) s False submit_step [OF assms(1) s] show ?thesis by (auto simp: stream_def)
  next
    case (Inr u)
    from submit_step [OF assms(1) s] submit_Inr [of q c u c0] s Inr
    have b: "client_ok c0" "wc_state c0 = BUSY" by auto
    obtain chs o2 c2 where sn: "stream_next n c0 = (chs, o2, c2)" by (cases "stream_next n c0") auto
    note f = stream_next_busy [OF b sn]
    from assms(2) s Inr sn False have fin: "stream_finally (chs, o2, c2) = (chunks, out, c1)"
      by (simp add: stream_def)
    from stream_finally_step [OF _ _ fin] f False show ?thesis by (auto split: if_splits)
  qed
qed

lemma shutdown_graceful_step:
  assumes "shutdown_graceful c = (r, c1)"
  shows "wc_state c1 = STOPPED \<and> wc_control c1 = None \<and> wc_results c1 = None \<and>
    (wc_control c \<noteq> None \<and> hd (the (wc_control c)) = False \<and> the (wc_control c) \<noteq> [] \<or>
     r = Inr () \<and> \<not> is_alive c1)"
proof -
  have w: "is_worker_error e" if "receive_message c0 = (Inl e, c2)" for c0 e c2
    using receive_message_Inl [OF that] .
  show ?thesis using assms
    unfolding shutdown_graceful_def Let_def
    by (auto simp: w split: option.splits list.splits bool.splits prod.splits sum.splits if_splits)
qed

lemma shutdown_step:
  assumes "client_ok c" and "shutdown c = (r, c1)"
  shows "client_ok c1 \<and> wc_state c1 = STOPPED"
  using assms cancel_active_busy [OF assms(1)] shutdown_graceful_step [of c r c1]
  by (cases "wc_state c")
    (auto simp: shutdown_def client_ok_def split: if_splits prod.splits sum.splits)

lemma child_died_ok: "client_ok (child_died d c) \<longleftrightarrow> client_ok c"
  by (simp add: client_ok_def split: worker_state.splits)

lemma client_invoke_step:
  assumes "client_ok c"
  shows "client_ok (client_invoke c x) \<and>
    (wc_state (client_invoke c x) = wc_state c \<or> worker_edge (wc_state c) (wc_state (client_invoke c x)))"
proof (cases x)
  case Start
  then show ?thesis using start_step [OF assms] by (cases "start c") simp
next
  case (Submit q)
  then show ?thesis using submit_step [OF assms, of q] by (cases "submit q c") simp
next
  case Receive
  then show ?thesis using receive_step [OF assms] by (cases "receive c") simp
next
  case (Execute q)
  then show ?thesis using execute_step [OF assms, of q] by (cases "execute q c") simp
next
  case (Stream_Items n q)
  then show ?thesis using stream_step [OF assms, of n q] by (cases "stream n q c") simp
next
  case Cancel_Active
  then show ?thesis using cancel_active_step [OF assms] by (cases "cancel_active c") simp
next
  case Shutdown
  obtain r c1 where s: "shutdown c = (r, c1)" by fastforce
  from shutdown_step [OF assms s] s Shutdown assms show ?thesis
    by (cases "wc_state c") (auto simp: client_ok_def shutdown_def)
next
  case (Child_Exits code)
  then show ?thesis using assms by (simp add: child_died_ok)
qed

interpretation client: lifecycle_object client_invoke client_ok wc_state worker_edge
  by unfold_locales (use client_invoke_step in blast)+

section \<open>The contract of the scheduler\<close>

text \<open>
  The scheduler holds clients that have been started. \<open>client_fit strict\<close> is what it keeps of
  each: with \<open>strict\<close>, also that every final answer still to come names its request.
\<close>

definition client_job :: "worker_client \<Rightarrow> string option" where
  "client_job c = (if wc_state c = BUSY then wc_active c else None)"

definition client_ready :: "worker_client \<Rightarrow> bool" where
  "client_ready c \<longleftrightarrow> wc_state c = READY"

definition answers_identified :: "delivery list \<Rightarrow> bool" where
  "answers_identified ds \<longleftrightarrow>
     list_all (\<lambda>d. case d of Deliver m \<Rightarrow> terminal_kind (wm_kind m) \<longrightarrow> wm_request_id m \<noteq> None | _ \<Rightarrow> True) ds"

definition client_fit :: "bool \<Rightarrow> worker_client \<Rightarrow> bool" where
  "client_fit strict c \<longleftrightarrow>
     client_ok c \<and> wc_state c \<noteq> CREATED \<and>
     (strict \<longrightarrow> (case wc_results c of None \<Rightarrow> True | Some ds \<Rightarrow> answers_identified ds))"

lemma client_fit_states:
  "client_fit strict c \<Longrightarrow> wc_state c \<in> {READY, BUSY, FAILED, STOPPED}"
  by (cases "wc_state c") (auto simp: client_fit_def client_ok_def)

lemma answers_identified_pop:
  "answers_identified ds \<Longrightarrow> answers_identified (snd (pop_delivery ds))"
  by (cases ds) (auto simp: answers_identified_def pop_delivery_def)

lemma receive_message_identified:
  assumes "receive_message c = (r, c1)"
    and "case wc_results c of None \<Rightarrow> True | Some ds \<Rightarrow> answers_identified ds"
  shows "case wc_results c1 of None \<Rightarrow> True | Some ds \<Rightarrow> answers_identified ds"
proof (cases "wc_results c")
  case None
  with receive_message_frame(5) [OF assms(1)] show ?thesis by simp
next
  case (Some ds)
  obtain d rest where pd: "pop_delivery ds = (d, rest)" by fastforce
  with assms Some answers_identified_pop [of ds] have "answers_identified rest" by simp
  with assms(1) Some pd show ?thesis
    by (auto simp: receive_message_def Let_def split: option.splits delivery.splits if_splits)
qed

lemma client_submit_contract:
  assumes "client_fit strict c" and "client_ready c" and "submit q c = (r, c1)"
  shows "client_fit strict c1 \<and> worker_id c1 = worker_id c \<and> \<not> client_ready c1 \<and>
    (case r of Inr _ \<Rightarrow> client_job c1 = Some (wr_id q)
     | Inl e \<Rightarrow> client_job c1 = None \<and> is_worker_class WorkerExitedError e)"
proof -
  from assms(1,2) obtain sends where ctl: "wc_control c = Some sends" and st: "wc_state c = READY"
    by (auto simp: client_fit_def client_ready_def client_ok_def)
  from submit_step [OF _ assms(3)] assms(1) have ok: "client_ok c1" by (simp add: client_fit_def)
  from ctl st assms(3) have "(r = Inr () \<and> c1 = c\<lparr>wc_control := Some (tl sends),
        wc_active := Some (wr_id q), wc_state := BUSY\<rparr>) \<or>
      (\<exists>rest. r = Inl (worker_exn WorkerExitedError (worker_default_code WorkerExitedError) False []) \<and>
        c1 = mark_failed (c\<lparr>wc_control := Some rest\<rparr>))"
    by (auto simp: submit_def split: list.splits bool.splits)
  with ok assms(1) show ?thesis
    by (auto simp: client_fit_def client_ready_def client_job_def worker_id_def worker_exn_def)
qed

lemma worker_lost_exn [simp]:
  "worker_lost (worker_exn WorkerExitedError cd b d)"
  "worker_lost (worker_exn WorkerTransportError cd b d) \<longleftrightarrow> cd \<noteq> ''worker_receive_timeout''"
  by (simp_all add: worker_exn_def)

lemma worker_lost_transport_error [simp]: "worker_lost transport_error"
  by (simp add: transport_error_def)

lemma receive_message_error:
  assumes "receive_message c = (Inl e, c1)" and "wc_results c = Some ds"
  shows "wc_active c1 = wc_active c \<and>
    (e = receive_timeout \<and> wc_state c1 = wc_state c \<or> worker_lost e \<and> wc_state c1 = FAILED)"
proof -
  obtain d rest where pd: "pop_delivery ds = (d, rest)" by fastforce
  from assms pd show ?thesis
    by (cases d) (auto simp: receive_message_def Let_def receive_timeout_def
        split: option.splits if_splits)
qed

lemma client_receive_contract:
  assumes "client_fit strict c" and "client_job c = Some rid" and "receive c = (r, c1)"
  shows "client_fit strict c1 \<and> worker_id c1 = worker_id c \<and>
    (case r of
       Inr m \<Rightarrow> wm_request_id m \<in> {None, Some rid} \<and>
         (if terminal_kind (wm_kind m) then client_job c1 = None \<and> client_ready c1
          else client_job c1 = Some rid)
     | Inl e \<Rightarrow> e = receive_timeout \<and> client_job c1 = Some rid \<or>
         worker_lost e \<and> client_job c1 = None \<and> \<not> client_ready c1)"
proof -
  from assms(1,2) have st: "wc_state c = BUSY" "wc_active c = Some rid" "client_ok c"
    by (auto simp: client_job_def client_fit_def split: if_splits)
  then obtain ds where ds: "wc_results c = Some ds" by (auto simp: client_ok_def)
  obtain r0 c0 where rm: "receive_message c = (r0, c0)" by fastforce
  note fr = receive_message_frame [OF rm]
  from assms(1) receive_message_identified [OF rm]
  have id0: "strict \<Longrightarrow> case wc_results c0 of None \<Rightarrow> True | Some ds \<Rightarrow> answers_identified ds"
    by (simp add: client_fit_def)
  have res: "wc_results c1 = wc_results c0" "wc_spec c1 = wc_spec c0"
    using assms(3) rm st(1) by (auto simp: receive_def split: sum.splits if_splits)
  from receive_busy [OF st(3,1) assms(3)] have fit: "client_fit strict c1"
    using id0 res by (auto simp: client_fit_def)
  moreover have "worker_id c1 = worker_id c" using res fr by (simp add: worker_id_def)
  moreover have "case r of
       Inr m \<Rightarrow> wm_request_id m \<in> {None, Some rid} \<and>
         (if terminal_kind (wm_kind m) then client_job c1 = None \<and> client_ready c1
          else client_job c1 = Some rid)
     | Inl e \<Rightarrow> e = receive_timeout \<and> client_job c1 = Some rid \<or>
         worker_lost e \<and> client_job c1 = None \<and> \<not> client_ready c1"
  proof (cases r0)
    case (Inr m)
    from receive_message_Inr [of c m c0] rm Inr have "wc_state c0 = BUSY" "wc_active c0 = Some rid"
      using st by auto
    with assms(3) rm Inr st show ?thesis
      by (auto simp: receive_def client_job_def client_ready_def worker_exn_def split: if_splits)
  next
    case (Inl e)
    with assms(3) rm st(1) have r: "r = Inl e" "c1 = c0" by (auto simp: receive_def)
    from receive_message_error [of c e c0] rm Inl ds st r show ?thesis
      by (auto simp: client_job_def client_ready_def)
  qed
  ultimately show ?thesis by blast
qed

lemma receive_identified:
  assumes "client_fit True c" and "client_job c = Some rid" and "receive c = (Inr m, c1)"
    and "terminal_kind (wm_kind m)"
  shows "wm_request_id m = Some rid"
proof -
  from assms(1,2) have st: "wc_state c = BUSY" "wc_active c = Some rid"
    by (auto simp: client_job_def split: if_splits)
  obtain r0 c0 where rm: "receive_message c = (r0, c0)" by fastforce
  with assms(3) st have "r0 = Inr m" by (auto simp: receive_def split: sum.splits if_splits)
  with rm receive_message_Inr [of c m c0] obtain rest where "wc_results c = Some (Deliver m # rest)"
    by auto
  with assms(1,4) have "wm_request_id m \<noteq> None" by (auto simp: client_fit_def answers_identified_def)
  with client_receive_contract [OF assms(1-3)] show ?thesis by auto
qed

lemma client_cancel_contract:
  assumes "client_fit strict c" and "client_job c = Some rid"
  shows "\<exists>c1. cancel_active c = (Inr rid, c1) \<and> client_fit strict c1 \<and> worker_id c1 = worker_id c \<and>
    client_job c1 = None \<and> \<not> client_ready c1"
proof -
  from assms have "client_ok c" "wc_state c = BUSY" "wc_active c = Some rid"
    by (auto simp: client_job_def client_fit_def split: if_splits)
  with cancel_active_busy [OF this(1,2)] show ?thesis
    by (auto simp: client_fit_def client_job_def client_ready_def worker_id_def client_ok_def)
qed

lemma cancel_active_errors:
  assumes "cancel_active c = (Inl e, c1)"
  shows "is_worker_error e \<and> c1 = c"
  using assms by (auto simp: cancel_active_def split: option.splits if_splits)

interpretation worker: request_worker "client_fit strict" client_ready client_job worker_id submit
  receive cancel_active for strict
proof unfold_locales
  fix w assume "client_fit strict w" and "client_ready w"
  then show "client_job w = None" by (simp add: client_ready_def client_job_def)
qed (erule (2) client_submit_contract | erule (2) client_receive_contract | erule (1) client_cancel_contract)+

interpretation identified: identified_worker "client_fit True" client_ready client_job worker_id submit
  receive cancel_active
  by unfold_locales (rule receive_identified)

lemma init_worker_client_ok:
  "init_worker_client spec a b k ctx = Inr c \<Longrightarrow> client_ok c \<and> wc_state c = CREATED"
  by (auto simp: init_worker_client_def client_ok_def split: if_splits)

text \<open>A stream against a queue that holds the chunks of the request and then \<open>stream_end\<close>.\<close>

definition chunk_message :: "string \<Rightarrow> string \<Rightarrow> audio_chunk \<Rightarrow> worker_message" where
  "chunk_message w rid chunk =
     \<lparr>wm_kind = Stream_Chunk_Kind, wm_worker_id = w, wm_request_id = Some rid,
      wm_payload = ChunkPayload chunk, wm_error = None, wm_metadata = []\<rparr>"

definition stream_deliveries :: "string \<Rightarrow> string \<Rightarrow> audio_chunk list \<Rightarrow> delivery list \<Rightarrow> delivery list" where
  "stream_deliveries w rid chunks rest =
     map (\<lambda>ch. Deliver (chunk_message w rid ch)) chunks @
     Deliver (plain_message Stream_End_Kind w (Some rid) []) # rest"

lemma receive_chunk:
  assumes "wc_state c = BUSY" and "wc_active c = Some rid"
    and "wc_results c = Some (Deliver (chunk_message w rid ch) # rest)"
  shows "receive c = (Inr (chunk_message w rid ch), c\<lparr>wc_results := Some rest\<rparr>)"
  using assms by (simp add: receive_def receive_message_deliver chunk_message_def terminal_kind_def)

lemma receive_end:
  assumes "wc_state c = BUSY" and "wc_active c = Some rid"
    and "wc_results c = Some (Deliver (plain_message Stream_End_Kind w (Some rid) []) # rest)"
  shows "receive c = (Inr (plain_message Stream_End_Kind w (Some rid) []),
    c\<lparr>wc_results := Some rest, wc_active := None, wc_state := READY\<rparr>)"
  using assms by (simp add: receive_def receive_message_deliver plain_message_def terminal_kind_def)

lemma stream_next_deliveries:
  "wc_state c = BUSY \<Longrightarrow> wc_active c = Some rid \<Longrightarrow>
   wc_results c = Some (stream_deliveries w rid chunks rest) \<Longrightarrow>
   stream_next n c =
     (if n \<le> length chunks
      then (take n chunks, Closed_By_Consumer,
            c\<lparr>wc_results := Some (stream_deliveries w rid (drop n chunks) rest)\<rparr>)
      else (chunks, Returned, c\<lparr>wc_results := Some rest, wc_active := None, wc_state := READY\<rparr>))"
proof (induction n arbitrary: c chunks)
  case 0
  then show ?case by simp
next
  case (Suc n)
  show ?case
  proof (cases chunks)
    case Nil
    with Suc.prems have "receive c = (Inr (plain_message Stream_End_Kind w (Some rid) []),
      c\<lparr>wc_results := Some rest, wc_active := None, wc_state := READY\<rparr>)"
      by (intro receive_end) (simp_all add: stream_deliveries_def)
    with Nil show ?thesis by (simp add: plain_message_def)
  next
    case (Cons ch chs)
    define c1 where "c1 = c\<lparr>wc_results := Some (stream_deliveries w rid chs rest)\<rparr>"
    from Cons Suc.prems have r: "receive c = (Inr (chunk_message w rid ch), c1)"
      unfolding c1_def by (intro receive_chunk) (simp_all add: stream_deliveries_def)
    have "stream_next n c1 =
      (if n \<le> length chs
       then (take n chs, Closed_By_Consumer,
             c1\<lparr>wc_results := Some (stream_deliveries w rid (drop n chs) rest)\<rparr>)
       else (chs, Returned, c1\<lparr>wc_results := Some rest, wc_active := None, wc_state := READY\<rparr>))"
      by (rule Suc.IH) (use Suc.prems in \<open>simp_all add: c1_def\<close>)
    with r Cons show ?thesis by (simp add: chunk_message_def c1_def)
  qed
qed

lemma stream_ready:
  assumes "client_ok c" and "wc_state c = READY" and "wr_operation q = Stream" and "0 < n"
    and "wc_control c = Some sends" and "sends = [] \<or> hd sends"
    and "wc_results c = Some (stream_deliveries w (wr_id q) chunks rest)"
  shows "\<exists>c1. wc_state c1 = BUSY \<and> wc_active c1 = Some (wr_id q) \<and> client_ok c1 \<and>
    wc_results c1 = Some (stream_deliveries w (wr_id q) chunks rest) \<and>
    stream n q c = stream_finally (stream_next n c1)"
proof -
  define c1 where "c1 = c\<lparr>wc_control := Some (tl sends), wc_active := Some (wr_id q), wc_state := BUSY\<rparr>"
  from assms have s: "submit q c = (Inr (), c1)"
    by (cases sends) (auto simp: submit_def c1_def split: bool.splits)
  from submit_step [OF assms(1) s] have "client_ok c1" by simp
  with s assms show ?thesis by (intro exI [of _ c1]) (auto simp: stream_def c1_def)
qed

section \<open>Properties\<close>

text \<open>Concrete objects for the witnesses: a client as its constructor returns it, and one that has
  started its child.\<close>

definition sample_process :: process where
  "sample_process = \<lparr>p_alive = True, p_exitcode = None, p_lingers = False, p_resists = False\<rparr>"

definition sample_spec :: "string \<Rightarrow> bootstrap_spec" where
  "sample_spec w = \<lparr>bs_worker_id = w, bs_backend_kind = Fake_Kind, bs_gpu = None, bs_failures = []\<rparr>"

definition sample_ctx :: "bool list \<Rightarrow> delivery list \<Rightarrow> mp_context" where
  "sample_ctx sends ds =
     \<lparr>ctx_start_method = ''spawn'', ctx_process = sample_process, ctx_sends = sends, ctx_deliveries = ds\<rparr>"

definition new_client :: "string \<Rightarrow> bool list \<Rightarrow> delivery list \<Rightarrow> worker_client" where
  "new_client w sends ds =
     \<lparr>wc_spec = sample_spec w, wc_startup_timeout = 10, wc_shutdown_timeout = 5,
      wc_stream_buffer_chunks = 4, wc_ctx = sample_ctx sends ds, wc_state = CREATED,
      wc_process = None, wc_control = None, wc_results = None, wc_active = None,
      wc_ready_message = None\<rparr>"

definition ready_client :: "string \<Rightarrow> bool list \<Rightarrow> delivery list \<Rightarrow> worker_client" where
  "ready_client w sends ds =
     (new_client w sends ds)\<lparr>wc_state := READY, wc_process := Some sample_process,
        wc_control := Some sends, wc_results := Some ds\<rparr>"

lemma ready_client_ok: "client_ok (ready_client w sends ds)"
  by (simp add: ready_client_def new_client_def client_ok_def)

definition sample_stream_request :: worker_request where
  "sample_stream_request =
     \<lparr>wr_id = ''r1'', wr_operation = Stream, wr_payload = StreamPayload (StreamRequest (SpeechRequest ''hi''))\<rparr>"

definition sample_chunk :: "nat \<Rightarrow> bool \<Rightarrow> audio_chunk" where
  "sample_chunk k final =
     \<lparr>ac_samples = [], ac_sample_rate_hz = 48000, ac_channels = 1, ac_sequence = int k,
      ac_is_final = final, ac_metadata = []\<rparr>"



text \<open>Every outcome of \<open>receive\<close> on a busy client. A returned message is the next one of the
  queue and belongs to the active request; a terminal message makes the client ready again, any
  other leaves the request running. A failure is a worker error: either the retryable receive
  timeout, and the request is still running, or the client is failed and takes no request again.\<close>

theorem receive_outcomes:
  assumes "client_ok c" and "wc_state c = BUSY" and "receive c = (r, c1)"
  shows "case r of
      Inr m \<Rightarrow> (\<exists>rest. wc_results c = Some (Deliver m # rest) \<and> wc_results c1 = Some rest) \<and>
        (wm_request_id m = None \<or> wm_request_id m = wc_active c) \<and>
        (if terminal_kind (wm_kind m) then wc_state c1 = READY \<and> wc_active c1 = None
         else wc_state c1 = BUSY \<and> wc_active c1 = wc_active c)
    | Inl e \<Rightarrow> is_worker_error e \<and>
        (wc_state c1 = FAILED \<or>
         wc_state c1 = BUSY \<and> wc_active c1 = wc_active c \<and>
         e = worker_exn WorkerTransportError ''worker_receive_timeout'' True [])"
proof -
  from assms(1,2) obtain rid ds where act: "wc_active c = Some rid" and res: "wc_results c = Some ds"
    by (auto simp: client_ok_def)
  obtain r0 c0 where rm: "receive_message c = (r0, c0)" by fastforce
  show ?thesis
  proof (cases r0)
    case (Inr m)
    from receive_message_Inr [of c m c0] rm Inr obtain rest
      where "wc_results c = Some (Deliver m # rest)" "c0 = c\<lparr>wc_results := Some rest\<rparr>" by auto
    with assms(2,3) rm Inr act show ?thesis
      by (auto simp: receive_def terminal_kind_def split: if_splits)
  next
    case (Inl e)
    with assms(2,3) rm have r: "r = Inl e" "c1 = c0" by (auto simp: receive_def)
    from rm Inl res assms(2) have "wc_state c0 = FAILED \<or> wc_state c0 = BUSY \<and>
        e = worker_exn WorkerTransportError ''worker_receive_timeout'' True []"
      by (auto simp: receive_message_def Let_def split: option.splits prod.splits delivery.splits if_splits)
    with r receive_message_Inl [of c e c0] receive_message_frame(1) [OF rm] rm Inl show ?thesis by auto
  qed
qed

theorem receive_outcomes_witness:
  "wc_state (snd (receive (ready_client ''w'' [] [Deliver (plain_message Stream_End_Kind ''w'' None [])]
     \<lparr>wc_state := BUSY, wc_active := Some ''r1''\<rparr>))) = READY"
proof -
  let ?c = "ready_client ''w'' [] [Deliver (plain_message Stream_End_Kind ''w'' None [])]
     \<lparr>wc_state := BUSY, wc_active := Some ''r1''\<rparr>"
  have ok: "client_ok ?c" by (simp add: ready_client_def client_ok_def)
  obtain r c1 where rc: "receive ?c = (r, c1)" by fastforce
  have r: "r = Inr (plain_message Stream_End_Kind ''w'' None [])"
    using rc by (simp add: receive_def receive_message_def pop_delivery_def ready_client_def
        plain_message_def terminal_kind_def)
  from receive_outcomes [OF ok _ rc] r rc show ?thesis
    by (simp add: plain_message_def terminal_kind_def)
qed

text \<open>Streaming. On a ready client whose child answers with the chunks of the request and then
  \<open>stream_end\<close>, a consumer that exhausts the generator gets exactly these chunks, in order, and
  the client is ready for the next request. A consumer that closes the generator early has got a
  prefix, and the client is stopped: its child is dead and its transport released.\<close>

theorem stream_delivers_chunks:
  assumes "client_ok c" and "wc_state c = READY" and "wr_operation q = Stream" and "0 < n"
    and "wc_control c = Some sends" and "sends = [] \<or> hd sends"
    and "wc_results c = Some (stream_deliveries w (wr_id q) chunks rest)"
  shows "\<exists>c1. stream n q c = (take n chunks,
      (if n \<le> length chunks then Closed_By_Consumer else Returned), c1) \<and>
    (if n \<le> length chunks
     then wc_state c1 = STOPPED \<and> \<not> is_alive c1 \<and> wc_control c1 = None \<and> wc_results c1 = None
     else wc_state c1 = READY \<and> wc_active c1 = None \<and> wc_results c1 = Some rest)"
proof -
  from stream_ready [OF assms] obtain c1 where
    c1: "wc_state c1 = BUSY" "wc_active c1 = Some (wr_id q)" "client_ok c1"
      "wc_results c1 = Some (stream_deliveries w (wr_id q) chunks rest)"
    and s: "stream n q c = stream_finally (stream_next n c1)" by auto
  note sn = stream_next_deliveries [OF c1(1,2,4), of n]
  show ?thesis
  proof (cases "n \<le> length chunks")
    case True
    define c2 where "c2 = c1\<lparr>wc_results := Some (stream_deliveries w (wr_id q) (drop n chunks) rest)\<rparr>"
    have ok2: "client_ok c2" "wc_state c2 = BUSY" using c1 by (simp_all add: c2_def client_ok_def)
    obtain r3 c3 where ca: "cancel_active c2 = (Inr r3, c3)" "wc_state c3 = STOPPED" "\<not> is_alive c3"
      "client_ok c3"
      using cancel_active_busy [OF ok2] by auto
    from True s sn ok2 ca show ?thesis
      by (simp add: c2_def [symmetric] stream_finally_def client_ok_def)
  next
    case False
    with s sn show ?thesis by (simp add: stream_finally_def)
  qed
qed

theorem stream_delivers_chunks_witness:
  "fst (stream 1 sample_stream_request (ready_client ''w'' [True]
      (stream_deliveries ''w'' ''r1'' [sample_chunk 0 False, sample_chunk 1 True] []))) =
   [sample_chunk 0 False]"
  using stream_delivers_chunks [of "ready_client ''w'' [True]
      (stream_deliveries ''w'' ''r1'' [sample_chunk 0 False, sample_chunk 1 True] [])"
      sample_stream_request 1 "[True]" "''w''" "[sample_chunk 0 False, sample_chunk 1 True]" "[]"]
    ready_client_ok
  by (auto simp: ready_client_def sample_stream_request_def)

text \<open>\<open>shutdown\<close> on any client leaves it stopped with its transport released, and a second
  \<open>shutdown\<close> does nothing. Unless the connection refuses the shutdown command it returns, and a
  client that was not yet stopped has no live child.\<close>

theorem shutdown_stops:
  assumes "client_ok c" and "shutdown c = (r, c1)"
  shows "wc_state c1 = STOPPED \<and> wc_control c1 = None \<and> wc_results c1 = None \<and>
    shutdown c1 = (Inr (), c1) \<and>
    (wc_state c \<noteq> READY \<or> wc_control c = Some [] \<or> hd (the (wc_control c)) \<longrightarrow>
       r = Inr () \<and> (wc_state c \<noteq> STOPPED \<longrightarrow> \<not> is_alive c1))"
proof -
  from shutdown_step [OF assms] have st: "client_ok c1" "wc_state c1 = STOPPED" by auto
  have "r = Inr () \<and> (wc_state c \<noteq> STOPPED \<longrightarrow> \<not> is_alive c1)"
    if "wc_state c \<noteq> READY \<or> wc_control c = Some [] \<or> hd (the (wc_control c))"
    using that assms cancel_active_busy [OF assms(1)] shutdown_graceful_step [of c r c1]
    by (cases "wc_state c")
      (auto simp: shutdown_def client_ok_def split: prod.splits sum.splits option.splits)
  with st show ?thesis by (auto simp: client_ok_def shutdown_def)
qed

theorem shutdown_stops_witness:
  "shutdown (snd (shutdown (ready_client ''w'' [] []))) = (Inr (), snd (shutdown (ready_client ''w'' [] [])))"
  using shutdown_stops [OF ready_client_ok, of "''w''" "[]" "[]"]
  by (cases "shutdown (ready_client ''w'' [] [])") auto

text \<open>When the connection refuses the shutdown command, \<open>shutdown\<close> raises the \<open>OSError\<close> (it is
  not a worker error) and leaves the child as it was: the process is neither joined nor
  terminated, though the client counts as stopped.\<close>

theorem shutdown_broken_pipe:
  assumes "client_ok c" and "wc_state c = READY" and "wc_control c = Some (False # rest)"
  shows "\<exists>c1. shutdown c = (Inl (OtherError ''BrokenPipeError'' ''Broken pipe''), c1) \<and>
    wc_state c1 = STOPPED \<and> wc_process c1 = wc_process c"
  using assms by (auto simp: shutdown_def shutdown_graceful_def client_ok_def)

theorem shutdown_broken_pipe_witness:
  "wc_process (snd (shutdown (ready_client ''w'' [False] []))) = Some sample_process"
  using shutdown_broken_pipe [OF ready_client_ok, of "''w''" "[False]" "[]" "[]"]
  by (auto simp: ready_client_def)

end
