(* ===== verification/Scheduler.thy ===== *)
theory Scheduler
  imports Worker_Client "HOL-Library.Sublist"
begin

text \<open>
  \<open>voxcpm_runtime/scheduler.py\<close>: admission, dispatch, timeouts and cancellation of requests over
  a fixed tuple of worker clients. A worker object is its position in the tuple (sorted by worker
  id); the clients live in the scheduler's state since every call changes them. Clock readings
  are an input: \<open>sc_clock k\<close> is the \<open>k\<close>-th value of \<open>time.monotonic()\<close>, and differences of
  readings are rounded to binary64 as in the code. An operation returns its outcome and the
  scheduler after the call, also when it raises.
\<close>

record pending_request =
  pr_request :: worker_request
  pr_enqueued_at :: rat

record scheduler =
  sc_workers :: "worker_client list"
  sc_max_pending :: int
  sc_queue_timeout :: "rat option"
  sc_max_inference :: "rat option"
  sc_max_concurrent :: "int option"
  sc_pending :: "pending_request list"
  sc_active :: "(string, string) dict"
  sc_active_started :: "(string, rat) dict"
  sc_submitted :: "string set"
  sc_events :: "worker_message list"
  sc_closed :: bool
  sc_clock :: "nat \<Rightarrow> rat"
  sc_ticks :: nat

type_synonym 'a sched = "(exn + 'a) \<times> scheduler"

section \<open>Construction and queries\<close>

text \<open>The two time limits: \<open>bad\<close> is the range test on the value as passed.\<close>

definition time_limit :: "pyval \<Rightarrow> (rat \<Rightarrow> bool) \<Rightarrow> string \<Rightarrow> exn + rat option" where
  "time_limit v bad msg =
     (if v = PNone then Inr None
      else if is_bool v \<or> \<not> (is_int v \<or> is_float v) then Inl (ValueError msg)
      else and_then (py_float_of v) (\<lambda>f.
        if \<not> isfinite f \<or> bad (case v of PInt i \<Rightarrow> of_int i | _ \<Rightarrow> float_val f)
        then Inl (ValueError msg) else Inr (Some (float_val f))))"

definition positive_int :: "pyval \<Rightarrow> bool" where
  "positive_int v \<longleftrightarrow> \<not> is_bool v \<and> is_int v \<and> 0 < int_of v"

definition mk_scheduler ::
    "worker_client list \<Rightarrow> pyval \<Rightarrow> pyval \<Rightarrow> pyval \<Rightarrow> pyval \<Rightarrow> (nat \<Rightarrow> rat) \<Rightarrow> exn + scheduler" where
  "mk_scheduler workers max_pending queue_timeout max_inference max_concurrent clock =
     (if workers = [] then Inl (ValueError ''workers must be a non-empty tuple'')
      else if \<not> distinct (map worker_id workers) then Inl (ValueError ''worker ids must be unique'')
      else if list_ex (\<lambda>w. wc_state w \<noteq> READY) workers
      then Inl (ValueError ''all scheduler workers must be ready'')
      else if \<not> positive_int max_pending
      then Inl (ValueError ''max_pending_requests must be a positive integer'')
      else and_then (time_limit queue_timeout (\<lambda>x. x < 0)
             ''queue_timeout_seconds must be a non-negative finite number'') (\<lambda>qt.
        and_then (time_limit max_inference (\<lambda>x. x \<le> 0)
             ''max_inference_seconds must be a positive finite number'') (\<lambda>mi.
        if max_concurrent \<noteq> PNone \<and> \<not> positive_int max_concurrent
        then Inl (ValueError ''max_concurrent_requests must be a positive integer'')
        else Inr \<lparr>sc_workers = sort_key worker_id workers, sc_max_pending = int_of max_pending,
                  sc_queue_timeout = qt, sc_max_inference = mi,
                  sc_max_concurrent =
                    (if max_concurrent = PNone then None else Some (int_of max_concurrent)),
                  sc_pending = [], sc_active = [], sc_active_started = [], sc_submitted = {},
                  sc_events = [], sc_closed = False, sc_clock = clock, sc_ticks = 0\<rparr>)))"

record snapshot =
  sn_state :: string
  sn_worker_count :: nat
  sn_ready_workers :: nat
  sn_busy_workers :: nat
  sn_failed_workers :: nat
  sn_stopped_workers :: nat
  sn_pending_requests :: nat
  sn_max_pending_requests :: int

definition count_state :: "worker_state \<Rightarrow> scheduler \<Rightarrow> nat" where
  "count_state st s = length (filter (\<lambda>w. wc_state w = st) (sc_workers s))"

definition take_snapshot :: "scheduler \<Rightarrow> snapshot" where
  "take_snapshot s =
     \<lparr>sn_state = (if sc_closed s then ''closed'' else ''open''),
      sn_worker_count = length (sc_workers s), sn_ready_workers = count_state READY s,
      sn_busy_workers = count_state BUSY s, sn_failed_workers = count_state FAILED s,
      sn_stopped_workers = count_state STOPPED s, sn_pending_requests = length (sc_pending s),
      sn_max_pending_requests = sc_max_pending s\<rparr>"

section \<open>Private operations\<close>

definition monotonic :: "scheduler \<Rightarrow> rat \<times> scheduler" where
  "monotonic s = (sc_clock s (sc_ticks s), s\<lparr>sc_ticks := Suc (sc_ticks s)\<rparr>)"

definition elapsed :: "rat \<Rightarrow> rat \<Rightarrow> rat" where
  "elapsed now since = fl64 (now - since)"

definition worker_at :: "scheduler \<Rightarrow> nat \<Rightarrow> worker_client" where
  "worker_at s i = sc_workers s ! i"

definition set_worker :: "nat \<Rightarrow> worker_client \<Rightarrow> scheduler \<Rightarrow> scheduler" where
  "set_worker i c s = s\<lparr>sc_workers := (sc_workers s)[i := c]\<rparr>"

definition wid :: "scheduler \<Rightarrow> nat \<Rightarrow> string" where
  "wid s i = worker_id (worker_at s i)"

definition ready_workers :: "scheduler \<Rightarrow> nat list" where
  "ready_workers s = filter (\<lambda>i. wc_state (worker_at s i) = READY) [0..<length (sc_workers s)]"

definition healthy_workers :: "scheduler \<Rightarrow> nat list" where
  "healthy_workers s =
     filter (\<lambda>i. wc_state (worker_at s i) \<notin> {FAILED, STOPPED, STOPPING}) [0..<length (sc_workers s)]"

definition below_limit :: "scheduler \<Rightarrow> bool" where
  "below_limit s =
     (case sc_max_concurrent s of None \<Rightarrow> True | Some k \<Rightarrow> int (length (sc_active s)) < k)"

text \<open>The bookkeeping after a worker has accepted a request, and after it has finished one.\<close>

definition mark_active :: "string \<Rightarrow> string \<Rightarrow> scheduler \<Rightarrow> scheduler" where
  "mark_active w rid s =
     (let s1 = s\<lparr>sc_active := dict_set w rid (sc_active s)\<rparr>; (now, s2) = monotonic s1 in
      s2\<lparr>sc_active_started := dict_set w now (sc_active_started s2)\<rparr>)"

definition release :: "string \<Rightarrow> scheduler \<Rightarrow> scheduler" where
  "release w s =
     s\<lparr>sc_active := dict_pop w (sc_active s), sc_active_started := dict_pop w (sc_active_started s)\<rparr>"

definition add_events :: "worker_message list \<Rightarrow> scheduler \<Rightarrow> scheduler" where
  "add_events ms s = s\<lparr>sc_events := sc_events s @ ms\<rparr>"

definition drain_events :: "scheduler \<Rightarrow> worker_message list \<times> scheduler" where
  "drain_events s = (sc_events s, s\<lparr>sc_events := []\<rparr>)"

definition failure_event :: "string \<Rightarrow> string \<Rightarrow> string \<Rightarrow> string \<Rightarrow> worker_message" where
  "failure_event w rid cd msg =
     error_message w (Some rid) \<lparr>wd_code = cd, wd_message = msg, wd_retryable = True, wd_details = []\<rparr>"

definition cancelled_event :: "string \<Rightarrow> string \<Rightarrow> string \<Rightarrow> worker_message" where
  "cancelled_event w rid stage = plain_message Cancelled_Kind w (Some rid) [(''stage'', PStr stage)]"

definition pending_id :: "pending_request \<Rightarrow> string" where
  "pending_id p = wr_id (pr_request p)"

definition fail_pending_without_healthy_workers :: "scheduler \<Rightarrow> scheduler" where
  "fail_pending_without_healthy_workers s =
     (if healthy_workers s \<noteq> [] then s
      else add_events (map (\<lambda>p. failure_event ''scheduler'' (pending_id p) ''no_healthy_worker''
                                  ''No healthy worker is available.'') (sc_pending s))
             (s\<lparr>sc_pending := []\<rparr>))"

definition expire_pending :: "scheduler \<Rightarrow> scheduler" where
  "expire_pending s =
     (case sc_queue_timeout s of
        None \<Rightarrow> s
      | Some timeout \<Rightarrow>
         (let (now, s1) = monotonic s;
              expired = (\<lambda>p. timeout \<le> elapsed now (pr_enqueued_at p)) in
          add_events (map (\<lambda>p. failure_event ''scheduler'' (pending_id p) ''queue_timeout''
                                 ''Request expired while waiting for an inference worker.'')
                        (takeWhile expired (sc_pending s1)))
            (s1\<lparr>sc_pending := dropWhile expired (sc_pending s1)\<rparr>)))"

definition worker_failed :: "nat \<Rightarrow> string \<Rightarrow> string \<Rightarrow> scheduler \<Rightarrow> scheduler" where
  "worker_failed i rid cd s =
     add_events [failure_event (wid s i) rid cd ''Worker process is unavailable.''] (release (wid s i) s)"

text \<open>
  \<open>_expire_active\<close>, for one worker and for all. \<open>cancel_active\<close> raises worker errors only
  (\<open>cancel_active_errors\<close> below), so the \<open>except\<close> clause of the loop catches whatever it raises.
\<close>

definition expire_worker :: "rat \<Rightarrow> rat \<Rightarrow> nat \<Rightarrow> scheduler \<Rightarrow> scheduler" where
  "expire_worker timeout now i s =
     (case (dict_get (sc_active s) (wid s i), dict_get (sc_active_started s) (wid s i)) of
        (Some rid, Some started) \<Rightarrow>
          if elapsed now started < timeout then s
          else add_events [failure_event (wid s i) rid ''inference_timeout''
                             ''Inference exceeded the configured time limit.'']
                 (release (wid s i) (set_worker i (snd (cancel_active (worker_at s i))) s))
      | _ \<Rightarrow> s)"

definition expire_active :: "scheduler \<Rightarrow> scheduler" where
  "expire_active s =
     (case sc_max_inference s of
        None \<Rightarrow> s
      | Some timeout \<Rightarrow>
         (let (now, s1) = monotonic s in
          fail_pending_without_healthy_workers
            (fold (expire_worker timeout now) [0..<length (sc_workers s1)] s1)))"

text \<open>
  The dispatch loop. A pending request is taken off the queue before its worker is asked; only a
  \<open>WorkerStateError\<close> puts it back.
\<close>

function dispatch_loop :: "scheduler \<Rightarrow> unit sched" where
  "dispatch_loop s =
     (case sc_pending s of
        [] \<Rightarrow> (Inr (), s)
      | p # rest \<Rightarrow>
          if \<not> below_limit s then (Inr (), s)
          else case ready_workers s of
            [] \<Rightarrow> (Inr (), s)
          | i # _ \<Rightarrow>
             (case submit (pr_request p) (worker_at s i) of
                (Inl e, c) \<Rightarrow>
                  if is_worker_class WorkerStateError e then (Inr (), set_worker i c s)
                  else (Inl e, (set_worker i c s)\<lparr>sc_pending := rest\<rparr>)
              | (Inr _, c) \<Rightarrow>
                  dispatch_loop
                    (mark_active (wid s i) (pending_id p) ((set_worker i c s)\<lparr>sc_pending := rest\<rparr>))))"
  by pat_completeness auto

termination
  by (relation "measure (\<lambda>s. length (sc_pending s))")
    (auto simp: mark_active_def monotonic_def Let_def set_worker_def)

definition dispatch_pending :: "scheduler \<Rightarrow> unit sched" where
  "dispatch_pending s = dispatch_loop (expire_pending s)"

section \<open>Public operations\<close>

datatype submission = Dispatched | Queued

definition submit_request :: "worker_request \<Rightarrow> scheduler \<Rightarrow> submission sched" where
  "submit_request q s =
     (if sc_closed s then (Inl (worker_exn SchedulerAdmissionError ''scheduler_closed'' False []), s)
      else if wr_id q \<in> sc_submitted s
      then (Inl (worker_exn SchedulerAdmissionError ''duplicate_request_id'' False
              [(''request_id'', PStr (wr_id q))]), s)
      else if ready_workers s \<noteq> [] \<and> below_limit s
      then (let i = hd (ready_workers s) in
            case submit q (worker_at s i) of
              (Inl e, c) \<Rightarrow> (Inl e, set_worker i c s)
            | (Inr _, c) \<Rightarrow>
               (let s1 = mark_active (wid s i) (wr_id q) (set_worker i c s) in
                (Inr Dispatched, s1\<lparr>sc_submitted := insert (wr_id q) (sc_submitted s1)\<rparr>)))
      else if sc_max_pending s \<le> int (length (sc_pending s))
      then (Inl (worker_exn SchedulerAdmissionError ''queue_full'' True
              [(''max_pending_requests'', PInt (sc_max_pending s)),
               (''pending_requests'', PInt (int (length (sc_pending s))))]), s)
      else if healthy_workers s = []
      then (Inl (worker_exn SchedulerAdmissionError ''no_healthy_worker'' True []), s)
      else (let (now, s1) = monotonic s in
            (Inr Queued, s1\<lparr>sc_pending := sc_pending s1 @ [\<lparr>pr_request = q, pr_enqueued_at = now\<rparr>],
                             sc_submitted := insert (wr_id q) (sc_submitted s1)\<rparr>)))"

definition poll_worker :: "nat \<Rightarrow> scheduler \<Rightarrow> unit sched" where
  "poll_worker i s =
     (case dict_get (sc_active s) (wid s i) of
        None \<Rightarrow> (Inr (), s)
      | Some rid \<Rightarrow>
         (case receive (worker_at s i) of
            (Inl e, c) \<Rightarrow>
             (let s1 = set_worker i c s in
              case e of
                WorkerExn x \<Rightarrow>
                  if we_class x = WorkerTransportError
                  then (Inr (), if we_code x = ''worker_receive_timeout'' then s1
                                else worker_failed i rid (we_code x) s1)
                  else if we_class x = WorkerExitedError
                  then (Inr (), worker_failed i rid ''worker_exited'' s1)
                  else (Inl e, s1)
              | _ \<Rightarrow> (Inl e, s1))
          | (Inr m, c) \<Rightarrow>
             (let s1 = add_events [m] (set_worker i c s) in
              if terminal_kind (wm_kind m) then dispatch_pending (release (wid s1 i) s1)
              else (Inr (), s1))))"

fun poll_workers :: "nat list \<Rightarrow> scheduler \<Rightarrow> unit sched" where
  "poll_workers [] s = (Inr (), s)"
| "poll_workers (i # is) s =
     (case poll_worker i s of
        (Inl e, s1) \<Rightarrow> (Inl e, s1)
      | (Inr _, s1) \<Rightarrow> poll_workers is s1)"

definition poll :: "scheduler \<Rightarrow> worker_message list sched" where
  "poll s =
     (let s1 = expire_pending (expire_active s) in
      if sc_events s1 \<noteq> [] then (let (ms, s2) = drain_events s1 in (Inr ms, s2))
      else case poll_workers [0..<length (sc_workers s1)] s1 of
        (Inl e, s2) \<Rightarrow> (Inl e, s2)
      | (Inr _, s2) \<Rightarrow>
         (let (ms, s3) = drain_events (fail_pending_without_healthy_workers s2) in (Inr ms, s3)))"

definition cancel :: "string \<Rightarrow> scheduler \<Rightarrow> worker_message sched" where
  "cancel rid s =
     (if rid = [] then (Inl (ValueError ''request_id must be non-empty''), s)
      else case dropWhile (\<lambda>p. pending_id p \<noteq> rid) (sc_pending s) of
        _ # rest \<Rightarrow>
          (Inr (cancelled_event ''scheduler'' rid ''pending''),
           s\<lparr>sc_pending := takeWhile (\<lambda>p. pending_id p \<noteq> rid) (sc_pending s) @ rest\<rparr>)
      | [] \<Rightarrow>
         (case find (\<lambda>i. dict_get (sc_active s) (wid s i) = Some rid) [0..<length (sc_workers s)] of
            None \<Rightarrow> (Inl (worker_exn SchedulerAdmissionError ''request_not_found'' False
                      [(''request_id'', PStr rid)]), s)
          | Some i \<Rightarrow>
             (case cancel_active (worker_at s i) of
                (Inl e, c) \<Rightarrow> (Inl e, set_worker i c s)
              | (Inr cancelled, c) \<Rightarrow>
                  (Inr (cancelled_event (wid s i) cancelled ''active''),
                   fail_pending_without_healthy_workers (release (wid s i) (set_worker i c s))))))"

fun shutdown_workers :: "nat list \<Rightarrow> scheduler \<Rightarrow> unit sched" where
  "shutdown_workers [] s = (Inr (), s)"
| "shutdown_workers (i # is) s =
     (case shutdown (worker_at s i) of
        (Inl e, c) \<Rightarrow>
          if is_worker_error e then shutdown_workers is (set_worker i c s)
          else (Inl e, set_worker i c s)
      | (Inr _, c) \<Rightarrow> shutdown_workers is (set_worker i c s))"

definition close :: "scheduler \<Rightarrow> unit sched" where
  "close s =
     (if sc_closed s then (Inr (), s)
      else
       (let s1 = add_events (map (\<lambda>p. cancelled_event ''scheduler'' (pending_id p) ''shutdown'')
                   (sc_pending s)) (s\<lparr>sc_closed := True, sc_pending := []\<rparr>) in
        case shutdown_workers [0..<length (sc_workers s1)] s1 of
          (Inl e, s2) \<Rightarrow> (Inl e, s2)
        | (Inr _, s2) \<Rightarrow> (Inr (), s2\<lparr>sc_active := [], sc_active_started := []\<rparr>)))"

section \<open>Invariants\<close>

text \<open>
  \<open>fleet_ok\<close>: the workers are fit, their ids distinct, and the two dicts of active requests
  describe exactly what the workers run. \<open>outstanding\<close> are the ids of the requests the scheduler
  holds, \<open>ledger\<close> these and the requests answered by the events not yet delivered.
\<close>

definition fleet_ok :: "bool \<Rightarrow> scheduler \<Rightarrow> bool" where
  "fleet_ok strict s \<longleftrightarrow>
     sc_workers s \<noteq> [] \<and> list_all (client_fit strict) (sc_workers s) \<and>
     distinct (map worker_id (sc_workers s)) \<and>
     dict_ok (sc_active s) \<and> dict_ok (sc_active_started s) \<and>
     fst ` set (sc_active s) \<subseteq> set (map worker_id (sc_workers s)) \<and>
     fst ` set (sc_active_started s) = fst ` set (sc_active s) \<and>
     (\<forall>i < length (sc_workers s). dict_get (sc_active s) (wid s i) = client_job (worker_at s i))"

definition outstanding :: "scheduler \<Rightarrow> string multiset" where
  "outstanding s = mset (map pending_id (sc_pending s)) + mset (map snd (sc_active s))"

definition settled :: "worker_message list \<Rightarrow> string multiset" where
  "settled ms = mset (map (\<lambda>m. the (wm_request_id m)) (filter (\<lambda>m. terminal_kind (wm_kind m)) ms))"

definition ledger :: "scheduler \<Rightarrow> string multiset" where
  "ledger s = outstanding s + settled (sc_events s)"

definition within_limit :: "scheduler \<Rightarrow> bool" where
  "within_limit s =
     (case sc_max_concurrent s of None \<Rightarrow> True | Some k \<Rightarrow> int (length (sc_active s)) \<le> k)"

definition queue_ok :: "scheduler \<Rightarrow> bool" where
  "queue_ok s \<longleftrightarrow>
     0 < sc_max_pending s \<and> int (length (sc_pending s)) \<le> sc_max_pending s \<and> within_limit s \<and>
     (\<forall>x. count (outstanding s) x \<le> 1) \<and> set_mset (outstanding s) \<subseteq> sc_submitted s"

text \<open>A closed scheduler accepts nothing more; the invariant describes the open one.\<close>

definition sched_ok :: "bool \<Rightarrow> scheduler \<Rightarrow> bool" where
  "sched_ok strict s \<longleftrightarrow> sc_closed s \<or> fleet_ok strict s \<and> queue_ok s"

text \<open>
  How the internal operations move the state: they neither admit nor forget configuration, ids or
  workers, take requests off the queue in order only, and respect the concurrency limit.
\<close>

definition same_setup :: "scheduler \<Rightarrow> scheduler \<Rightarrow> bool" where
  "same_setup s t \<longleftrightarrow>
     map worker_id (sc_workers t) = map worker_id (sc_workers s) \<and>
     sc_max_pending t = sc_max_pending s \<and> sc_queue_timeout t = sc_queue_timeout s \<and>
     sc_max_inference t = sc_max_inference s \<and> sc_max_concurrent t = sc_max_concurrent s \<and>
     sc_submitted t = sc_submitted s \<and> sc_closed t = sc_closed s \<and> sc_clock t = sc_clock s"

definition advances :: "scheduler \<Rightarrow> scheduler \<Rightarrow> bool" where
  "advances s t \<longleftrightarrow>
     same_setup s t \<and> suffix (sc_pending t) (sc_pending s) \<and> outstanding t \<subseteq># outstanding s \<and>
     (within_limit s \<longrightarrow> within_limit t)"

lemma same_setup_refl [simp]: "same_setup s s"
  by (simp add: same_setup_def)

lemma advances_refl [simp]: "advances s s"
  by (simp add: advances_def)

lemma advances_trans: "advances s t \<Longrightarrow> advances t u \<Longrightarrow> advances s u"
  unfolding advances_def same_setup_def by (auto intro: suffix_order.trans subset_mset.order_trans)

lemma same_setup_length: "same_setup s t \<Longrightarrow> length (sc_workers t) = length (sc_workers s)"
  unfolding same_setup_def by (metis length_map)

lemma advances_queue_ok:
  assumes "advances s t" and "queue_ok s"
  shows "queue_ok t"
proof -
  from assms(1) have st: "sc_max_pending t = sc_max_pending s" "sc_submitted t = sc_submitted s"
    and suf: "suffix (sc_pending t) (sc_pending s)" and sub: "outstanding t \<subseteq># outstanding s"
    and lim: "within_limit s \<longrightarrow> within_limit t"
    by (simp_all add: advances_def same_setup_def)
  from suf have "length (sc_pending t) \<le> length (sc_pending s)" by (rule suffix_length_le)
  moreover have "count (outstanding t) x \<le> 1" for x
    using mset_subset_eq_count [OF sub, of x] assms(2) le_trans unfolding queue_ok_def by blast
  moreover have "set_mset (outstanding t) \<subseteq> set_mset (outstanding s)"
    using sub by (rule set_mset_mono)
  ultimately show ?thesis using assms(2) st lim unfolding queue_ok_def by auto
qed

lemma advances_closed: "advances s t \<Longrightarrow> sc_closed t = sc_closed s"
  by (simp add: advances_def same_setup_def)

lemma advances_ok:
  "advances s t \<Longrightarrow> sched_ok strict s \<Longrightarrow> (fleet_ok strict s \<Longrightarrow> fleet_ok strict t) \<Longrightarrow> sched_ok strict t"
  unfolding sched_ok_def using advances_queue_ok advances_closed by blast

section \<open>Fields\<close>

lemma add_events_fields [simp]:
  "sc_workers (add_events ms s) = sc_workers s" "sc_pending (add_events ms s) = sc_pending s"
  "sc_active (add_events ms s) = sc_active s"
  "sc_active_started (add_events ms s) = sc_active_started s"
  "sc_events (add_events ms s) = sc_events s @ ms" "sc_closed (add_events ms s) = sc_closed s"
  "sc_max_pending (add_events ms s) = sc_max_pending s"
  "sc_queue_timeout (add_events ms s) = sc_queue_timeout s"
  "sc_max_inference (add_events ms s) = sc_max_inference s"
  "sc_max_concurrent (add_events ms s) = sc_max_concurrent s"
  "sc_submitted (add_events ms s) = sc_submitted s" "sc_clock (add_events ms s) = sc_clock s"
  by (simp_all add: add_events_def)

lemma set_worker_fields [simp]:
  "sc_workers (set_worker i c s) = (sc_workers s)[i := c]" "sc_pending (set_worker i c s) = sc_pending s"
  "sc_active (set_worker i c s) = sc_active s"
  "sc_active_started (set_worker i c s) = sc_active_started s"
  "sc_events (set_worker i c s) = sc_events s" "sc_closed (set_worker i c s) = sc_closed s"
  "sc_max_pending (set_worker i c s) = sc_max_pending s"
  "sc_queue_timeout (set_worker i c s) = sc_queue_timeout s"
  "sc_max_inference (set_worker i c s) = sc_max_inference s"
  "sc_max_concurrent (set_worker i c s) = sc_max_concurrent s"
  "sc_submitted (set_worker i c s) = sc_submitted s" "sc_clock (set_worker i c s) = sc_clock s"
  by (simp_all add: set_worker_def)

lemma release_fields [simp]:
  "sc_workers (release w s) = sc_workers s" "sc_pending (release w s) = sc_pending s"
  "sc_active (release w s) = dict_pop w (sc_active s)"
  "sc_active_started (release w s) = dict_pop w (sc_active_started s)"
  "sc_events (release w s) = sc_events s" "sc_closed (release w s) = sc_closed s"
  "sc_max_pending (release w s) = sc_max_pending s"
  "sc_queue_timeout (release w s) = sc_queue_timeout s"
  "sc_max_inference (release w s) = sc_max_inference s"
  "sc_max_concurrent (release w s) = sc_max_concurrent s"
  "sc_submitted (release w s) = sc_submitted s" "sc_clock (release w s) = sc_clock s"
  by (simp_all add: release_def)

lemma mark_active_fields [simp]:
  "sc_workers (mark_active w rid s) = sc_workers s" "sc_pending (mark_active w rid s) = sc_pending s"
  "sc_active (mark_active w rid s) = dict_set w rid (sc_active s)"
  "sc_active_started (mark_active w rid s) =
     dict_set w (sc_clock s (sc_ticks s)) (sc_active_started s)"
  "sc_events (mark_active w rid s) = sc_events s" "sc_closed (mark_active w rid s) = sc_closed s"
  "sc_max_pending (mark_active w rid s) = sc_max_pending s"
  "sc_queue_timeout (mark_active w rid s) = sc_queue_timeout s"
  "sc_max_inference (mark_active w rid s) = sc_max_inference s"
  "sc_max_concurrent (mark_active w rid s) = sc_max_concurrent s"
  "sc_submitted (mark_active w rid s) = sc_submitted s" "sc_clock (mark_active w rid s) = sc_clock s"
  by (simp_all add: mark_active_def monotonic_def Let_def)

lemma wid_cong: "sc_workers t = sc_workers s \<Longrightarrow> wid t i = wid s i"
  by (simp add: wid_def worker_at_def)

lemma worker_at_cong: "sc_workers t = sc_workers s \<Longrightarrow> worker_at t i = worker_at s i"
  by (simp add: worker_at_def)

lemma fleet_ok_cong:
  "sc_workers t = sc_workers s \<Longrightarrow> sc_active t = sc_active s \<Longrightarrow>
   sc_active_started t = sc_active_started s \<Longrightarrow> fleet_ok strict t = fleet_ok strict s"
  by (simp add: fleet_ok_def wid_def worker_at_def)

lemma settled_append [simp]: "settled (xs @ ys) = settled xs + settled ys"
  by (simp add: settled_def)

lemma settled_Nil [simp]: "settled [] = {#}"
  by (simp add: settled_def)

lemma settled_failures [simp]:
  "settled (map (\<lambda>p. failure_event w (f p) cd msg) ps) = mset (map f ps)"
  by (induction ps) (simp_all add: settled_def failure_event_def error_message_def terminal_kind_def)

lemma settled_failure [simp]: "settled [failure_event w rid cd msg] = {#rid#}"
  by (simp add: settled_def failure_event_def error_message_def terminal_kind_def)

lemma settled_cancelled [simp]:
  "settled (map (\<lambda>p. cancelled_event w (f p) st) ps) = mset (map f ps)"
  by (induction ps) (simp_all add: settled_def cancelled_event_def plain_message_def terminal_kind_def)

section \<open>One worker changes\<close>

lemma fleet_ok_at:
  assumes "fleet_ok strict s" and "i < length (sc_workers s)"
  shows "client_fit strict (worker_at s i)"
    and "dict_get (sc_active s) (wid s i) = client_job (worker_at s i)"
  using assms by (auto simp: fleet_ok_def list_all_length worker_at_def)

lemma map_id_update:
  "i < length (sc_workers s) \<Longrightarrow> worker_id c = wid s i \<Longrightarrow>
   map worker_id ((sc_workers s)[i := c]) = map worker_id (sc_workers s)"
  by (simp add: map_update wid_def worker_at_def) (metis list_update_id map_update)

lemma fleet_update:
  assumes f: "fleet_ok strict s" and i: "i < length (sc_workers s)"
    and ws: "sc_workers t = (sc_workers s)[i := c]"
    and c: "client_fit strict c" "worker_id c = wid s i"
    and d: "dict_ok (sc_active t)" "dict_ok (sc_active_started t)"
      "fst ` set (sc_active_started t) = fst ` set (sc_active t)"
      "fst ` set (sc_active t) \<subseteq> set (map worker_id (sc_workers s))"
    and g: "\<And>w. dict_get (sc_active t) w = (if w = wid s i then client_job c else dict_get (sc_active s) w)"
  shows "fleet_ok strict t"
proof -
  have ids: "map worker_id (sc_workers t) = map worker_id (sc_workers s)"
    using map_id_update [OF i c(2)] ws by simp
  have len: "length (sc_workers t) = length (sc_workers s)" using ws by simp
  have "dict_get (sc_active t) (wid t j) = client_job (worker_at t j)"
    if j: "j < length (sc_workers t)" for j
  proof -
    from ids j len have wj: "wid t j = wid s j" unfolding wid_def worker_at_def by (metis nth_map)
    show ?thesis
    proof (cases "j = i")
      case True
      with wj g ws i show ?thesis by (simp add: worker_at_def)
    next
      case False
      from f have "distinct (map worker_id (sc_workers s))" by (simp add: fleet_ok_def)
      with False j len i have "wid s j \<noteq> wid s i"
        unfolding wid_def worker_at_def by (metis length_map nth_eq_iff_index_eq nth_map)
      with wj g fleet_ok_at(2) [OF f, of j] j len False ws show ?thesis by (simp add: worker_at_def)
    qed
  qed
  moreover from f c(1) ws i have "list_all (client_fit strict) (sc_workers t)"
    by (auto simp: fleet_ok_def list_all_iff dest!: set_update_subset_insert [THEN subsetD])
  moreover from ws i have "sc_workers t \<noteq> []" by auto
  ultimately show ?thesis
    using f d unfolding fleet_ok_def ids by auto
qed

lemma wid_in: "i < length (sc_workers s) \<Longrightarrow> wid s i \<in> set (map worker_id (sc_workers s))"
  by (simp add: wid_def worker_at_def)

lemma fleet_put:
  assumes "fleet_ok strict s" and "i < length (sc_workers s)" and "client_fit strict c"
    and "worker_id c = wid s i" and "client_job c = client_job (worker_at s i)"
  shows "fleet_ok strict (set_worker i c s)"
  by (rule fleet_update [OF assms(1,2) _ assms(3,4)])
    (use assms fleet_ok_at(2) [OF assms(1,2)] in \<open>auto simp: fleet_ok_def\<close>)

lemma fleet_release:
  assumes "fleet_ok strict s" and "i < length (sc_workers s)" and "client_fit strict c"
    and "worker_id c = wid s i" and "client_job c = None"
  shows "fleet_ok strict (release (wid s i) (set_worker i c s))"
  by (rule fleet_update [OF assms(1,2) _ assms(3,4)])
    (use assms in \<open>auto simp: fleet_ok_def dict_ok_pop dict_get_pop dict_keys_pop\<close>)

lemma fleet_mark:
  assumes "fleet_ok strict s" and "i < length (sc_workers s)" and "client_fit strict c"
    and "worker_id c = wid s i" and "client_job c = Some rid"
  shows "fleet_ok strict (mark_active (wid s i) rid (set_worker i c s))"
  by (rule fleet_update [OF assms(1,2) _ assms(3,4)])
    (use assms wid_in [OF assms(2)] in \<open>auto simp: fleet_ok_def dict_ok_set dict_get_set dom_update\<close>)

lemma same_setup_put:
  "i < length (sc_workers s) \<Longrightarrow> worker_id c = wid s i \<Longrightarrow> same_setup s (set_worker i c s)"
  by (simp add: same_setup_def map_id_update)

text \<open>What happens to the requests held.\<close>

lemma outstanding_put [simp]: "outstanding (set_worker i c s) = outstanding s"
  by (simp add: outstanding_def)

lemma outstanding_events [simp]: "outstanding (add_events ms s) = outstanding s"
  by (simp add: outstanding_def)

lemma outstanding_release:
  assumes "dict_ok (sc_active s)" and "dict_get (sc_active s) w = Some rid"
  shows "outstanding s = add_mset rid (outstanding (release w s))"
  using mset_values_pop [OF assms] by (simp add: outstanding_def)

lemma outstanding_mark:
  assumes "dict_get (sc_active s) w = None"
  shows "outstanding (mark_active w rid s) = add_mset rid (outstanding s)"
proof -
  from assms have "dict_set w rid (sc_active s) = sc_active s @ [(w, rid)]"
    by (intro dict_set_new) (simp add: dict_get_None_keys)
  then show ?thesis by (simp add: outstanding_def)
qed

lemma length_active_mark:
  "dict_get (sc_active s) w = None \<Longrightarrow>
   length (sc_active (mark_active w rid s)) = Suc (length (sc_active s))"
  by (simp add: dict_set_new dict_get_None_keys)

lemma within_limit_release: "within_limit s \<Longrightarrow> within_limit (release w s)"
  using AList.length_delete_le [of w "sc_active s"]
  by (auto simp: within_limit_def split: option.splits)

section \<open>Internal operations\<close>

definition moves :: "bool \<Rightarrow> scheduler \<Rightarrow> scheduler \<Rightarrow> bool" where
  "moves strict s t \<longleftrightarrow> fleet_ok strict t \<and> advances s t \<and> (strict \<longrightarrow> ledger t = ledger s)"

lemma moves_refl [simp]: "moves strict s s \<longleftrightarrow> fleet_ok strict s"
  by (simp add: moves_def)

lemma moves_trans: "moves strict s t \<Longrightarrow> moves strict t u \<Longrightarrow> moves strict s u"
  unfolding moves_def using advances_trans by auto

lemma moves_ok: "moves strict s t \<Longrightarrow> queue_ok s \<Longrightarrow> queue_ok t"
  unfolding moves_def using advances_queue_ok by blast

lemma moves_fleet: "moves strict s t \<Longrightarrow> fleet_ok strict t"
  by (simp add: moves_def)

lemma moves_length: "moves strict s t \<Longrightarrow> length (sc_workers t) = length (sc_workers s)"
  by (simp add: moves_def advances_def same_setup_length)

lemma within_limit_cong:
  "sc_max_concurrent t = sc_max_concurrent s \<Longrightarrow> sc_active t = sc_active s \<Longrightarrow>
   within_limit t = within_limit s"
  by (cases "sc_max_concurrent s") (simp_all add: within_limit_def)

lemma within_limit_same [simp]:
  "within_limit (add_events ms s) = within_limit s" "within_limit (set_worker i c s) = within_limit s"
  by (rule within_limit_cong; simp)+

lemma fleet_ok_events [simp]: "fleet_ok strict (add_events ms s) = fleet_ok strict s"
  by (rule fleet_ok_cong) simp_all

lemma same_setup_events [simp]: "same_setup s (add_events ms t) = same_setup s t"
  by (simp add: same_setup_def)

lemma fail_pending_moves:
  assumes "fleet_ok strict s"
  shows "moves strict s (fail_pending_without_healthy_workers s)"
proof (cases "healthy_workers s = []")
  case False
  with assms show ?thesis by (simp add: fail_pending_without_healthy_workers_def)
next
  case True
  let ?t = "fail_pending_without_healthy_workers s"
  from True have t: "sc_workers ?t = sc_workers s" "sc_active ?t = sc_active s"
    "sc_active_started ?t = sc_active_started s" "sc_pending ?t = []" "same_setup s ?t"
    "ledger ?t = ledger s"
    by (simp_all add: fail_pending_without_healthy_workers_def same_setup_def ledger_def outstanding_def)
  from t(5) have "within_limit ?t = within_limit s"
    by (intro within_limit_cong) (simp_all add: t(2) same_setup_def)
  with t assms fleet_ok_cong [OF t(1-3)] show ?thesis
    by (simp add: moves_def advances_def outstanding_def)
qed

lemma expire_pending_moves:
  assumes "fleet_ok strict s"
  shows "moves strict s (expire_pending s)"
proof (cases "sc_queue_timeout s")
  case None
  with assms show ?thesis by (simp add: expire_pending_def)
next
  case (Some timeout)
  define ex where "ex = (\<lambda>p :: pending_request. timeout \<le> elapsed (sc_clock s (sc_ticks s)) (pr_enqueued_at p))"
  let ?t = "expire_pending s"
  from Some have t: "sc_workers ?t = sc_workers s" "sc_active ?t = sc_active s"
    "sc_active_started ?t = sc_active_started s" "sc_pending ?t = dropWhile ex (sc_pending s)"
    "same_setup s ?t"
    "settled (sc_events ?t) = settled (sc_events s) + mset (map pending_id (takeWhile ex (sc_pending s)))"
    by (simp_all add: expire_pending_def monotonic_def Let_def ex_def same_setup_def)
  have split: "mset (map pending_id (sc_pending s)) =
      mset (map pending_id (takeWhile ex (sc_pending s))) + mset (map pending_id (dropWhile ex (sc_pending s)))"
    by (metis map_append mset_append takeWhile_dropWhile_id)
  from t split have "ledger ?t = ledger s" by (simp add: ledger_def outstanding_def)
  moreover from t split have "outstanding ?t \<subseteq># outstanding s" by (simp add: outstanding_def)
  moreover from t(5) have "within_limit ?t = within_limit s"
    by (intro within_limit_cong) (simp_all add: t(2) same_setup_def)
  moreover from t(4) have "suffix (sc_pending ?t) (sc_pending s)" by (simp add: suffix_dropWhile)
  ultimately show ?thesis
    using t(5) assms fleet_ok_cong [OF t(1-3)] by (simp add: moves_def advances_def)
qed

text \<open>A worker that ran \<open>rid\<close> no longer does, and \<open>ms\<close> reports it.\<close>

lemma release_moves:
  assumes f: "fleet_ok strict s" and i: "i < length (sc_workers s)"
    and c: "client_fit strict c" "worker_id c = wid s i" "client_job c = None"
    and a: "dict_get (sc_active s) (wid s i) = Some rid" and ms: "strict \<Longrightarrow> settled ms = {#rid#}"
  shows "moves strict s (add_events ms (release (wid s i) (set_worker i c s)))"
proof -
  let ?t = "add_events ms (release (wid s i) (set_worker i c s))"
  from fleet_release [OF f i c] have "fleet_ok strict ?t" by (simp add: fleet_ok_def wid_def worker_at_def)
  moreover have o: "outstanding s = add_mset rid (outstanding ?t)"
    using outstanding_release [of "set_worker i c s"] f a by (simp add: fleet_ok_def)
  then have "outstanding ?t \<subseteq># outstanding s" by simp
  moreover have "same_setup s ?t" using map_id_update [OF i c(2)] by (simp add: same_setup_def)
  moreover have "within_limit s \<longrightarrow> within_limit ?t"
    using within_limit_release [of "set_worker i c s" "wid s i"] by simp
  moreover have "strict \<longrightarrow> ledger ?t = ledger s" using o ms by (simp add: ledger_def)
  ultimately show ?thesis by (simp add: moves_def advances_def)
qed

lemma worker_failed_moves:
  assumes "fleet_ok strict s" and "i < length (sc_workers s)"
    and "client_fit strict c" and "worker_id c = wid s i" and "client_job c = None"
    and "dict_get (sc_active s) (wid s i) = Some rid"
  shows "moves strict s (worker_failed i rid cd (set_worker i c s))"
proof -
  have "wid (set_worker i c s) i = wid s i" using assms(2,4) by (simp add: wid_def worker_at_def)
  with release_moves [OF assms] show ?thesis by (simp add: worker_failed_def)
qed

lemma put_moves:
  assumes "fleet_ok strict s" and "i < length (sc_workers s)"
    and "client_fit strict c" and "worker_id c = wid s i" and "client_job c = client_job (worker_at s i)"
    and "strict \<Longrightarrow> settled ms = {#}"
  shows "moves strict s (add_events ms (set_worker i c s))"
  using fleet_put [OF assms(1-5)] same_setup_put [OF assms(2,4)] assms(6)
  by (auto simp: moves_def advances_def ledger_def)

lemma add_events_Nil [simp]: "add_events [] s = s"
  by (simp add: add_events_def)

lemmas put_moves_quiet = put_moves [where ms = "[]", simplified]

lemma expire_worker_moves:
  assumes f: "fleet_ok strict s" and i: "i < length (sc_workers s)"
  shows "moves strict s (expire_worker timeout now i s)"
proof (cases "dict_get (sc_active s) (wid s i)")
  case None
  with f show ?thesis by (simp add: expire_worker_def)
next
  case (Some rid)
  note fit = fleet_ok_at(1) [OF f i]
  from Some fleet_ok_at(2) [OF f i] have "client_job (worker_at s i) = Some rid" by simp
  from worker.cancel_busy [OF fit this] obtain c where
    "cancel_active (worker_at s i) = (Inr rid, c)" "client_fit strict c" "worker_id c = wid s i"
    "client_job c = None" by (auto simp: wid_def)
  with release_moves [OF f i _ _ _ Some] f Some show ?thesis
    by (simp add: expire_worker_def split: option.split)
qed

lemma fold_moves:
  assumes "fleet_ok strict s"
    and "\<And>i t. i \<in> set is \<Longrightarrow> fleet_ok strict t \<Longrightarrow> length (sc_workers t) = length (sc_workers s) \<Longrightarrow>
      moves strict t (f i t)"
  shows "moves strict s (fold f is s)"
  using assms
proof (induction "is" arbitrary: s)
  case Nil
  then show ?case by simp
next
  case (Cons i "is")
  from Cons.prems have m: "moves strict s (f i s)" by simp
  from Cons.IH [OF moves_fleet [OF m]] Cons.prems(2) moves_length [OF m]
  have "moves strict (f i s) (fold f is (f i s))" by simp
  with m show ?case using moves_trans by fastforce
qed

lemma tick_moves: "fleet_ok strict s \<Longrightarrow> moves strict s (s\<lparr>sc_ticks := n\<rparr>)"
  using fleet_ok_cong [of "s\<lparr>sc_ticks := n\<rparr>" s strict] within_limit_cong [of "s\<lparr>sc_ticks := n\<rparr>" s]
  by (simp add: moves_def advances_def same_setup_def ledger_def outstanding_def)

lemma expire_active_moves:
  assumes f: "fleet_ok strict s"
  shows "moves strict s (expire_active s)"
proof (cases "sc_max_inference s")
  case None
  with f show ?thesis by (simp add: expire_active_def)
next
  case (Some timeout)
  define s1 where "s1 = s\<lparr>sc_ticks := Suc (sc_ticks s)\<rparr>"
  define s2 where "s2 = fold (expire_worker timeout (sc_clock s (sc_ticks s))) [0..<length (sc_workers s1)] s1"
  have m1: "moves strict s s1" unfolding s1_def by (rule tick_moves [OF f])
  have m2: "moves strict s1 s2" unfolding s2_def
    by (rule fold_moves [OF moves_fleet [OF m1]]) (auto intro: expire_worker_moves)
  have "expire_active s = fail_pending_without_healthy_workers s2"
    using Some by (simp add: expire_active_def monotonic_def s2_def s1_def)
  with fail_pending_moves [OF moves_fleet [OF m2]] m1 m2 show ?thesis
    using moves_trans by metis
qed

text \<open>
  A step that serves requests either returns and moves the state, or raises the worker's
  \<open>WorkerExitedError\<close>; then exactly one request, taken off the queue, is in no record any more.
\<close>

definition served :: "bool \<Rightarrow> scheduler \<Rightarrow> exn + 'a \<Rightarrow> scheduler \<Rightarrow> bool" where
  "served strict s r t \<longleftrightarrow>
     (case r of
        Inr _ \<Rightarrow> moves strict s t
      | Inl e \<Rightarrow> fleet_ok strict t \<and> advances s t \<and> is_worker_class WorkerExitedError e \<and>
          (strict \<longrightarrow> (\<exists>rid. ledger s = add_mset rid (ledger t))))"

lemma moves_served: "moves strict s t \<Longrightarrow> served strict t r u \<Longrightarrow> served strict s r u"
  by (cases r) (auto simp: served_def moves_def intro: advances_trans)

lemma hd_ready:
  assumes "ready_workers s = i # js"
  shows "i < length (sc_workers s) \<and> client_ready (worker_at s i)"
proof -
  from assms have "i \<in> set (ready_workers s)" by simp
  then show ?thesis by (simp add: ready_workers_def client_ready_def)
qed

lemma ready_not_active:
  assumes "fleet_ok strict s" and "i < length (sc_workers s)" and "client_ready (worker_at s i)"
  shows "dict_get (sc_active s) (wid s i) = None"
  using fleet_ok_at [OF assms(1,2)] worker.ready_idle [OF fleet_ok_at(1) [OF assms(1,2)] assms(3)]
  by simp

lemma assign_moves:
  assumes f: "fleet_ok strict s" and p: "sc_pending s = p # rest" and l: "below_limit s"
    and i: "ready_workers s = i # js" and sub: "submit (pr_request p) (worker_at s i) = (Inr u, c)"
  shows "moves strict s
    (mark_active (wid s i) (pending_id p) ((set_worker i c s)\<lparr>sc_pending := rest\<rparr>))"
proof -
  let ?t = "mark_active (wid s i) (pending_id p) ((set_worker i c s)\<lparr>sc_pending := rest\<rparr>)"
  from hd_ready [OF i] have il: "i < length (sc_workers s)" and rd: "client_ready (worker_at s i)" by auto
  from worker.submit_accepted [OF fleet_ok_at(1) [OF f il] rd sub]
  have c: "client_fit strict c" "worker_id c = wid s i" "client_job c = Some (pending_id p)"
    by (simp_all add: wid_def pending_id_def)
  note na = ready_not_active [OF f il rd]
  have "fleet_ok strict ?t"
    using fleet_mark [OF f il c] fleet_ok_cong [of ?t "mark_active (wid s i) (pending_id p) (set_worker i c s)"]
    by simp
  moreover have "outstanding ?t = outstanding s"
    using outstanding_mark [of "(set_worker i c s)\<lparr>sc_pending := rest\<rparr>" "wid s i" "pending_id p"] na p
    by (simp add: outstanding_def)
  moreover have "same_setup s ?t" using map_id_update [OF il c(2)] by (simp add: same_setup_def)
  moreover have "within_limit ?t"
    using l length_active_mark [of "(set_worker i c s)\<lparr>sc_pending := rest\<rparr>" "wid s i" "pending_id p"] na
    by (cases "sc_max_concurrent s") (simp_all add: below_limit_def within_limit_def)
  ultimately show ?thesis using p by (simp add: moves_def advances_def ledger_def suffix_ConsI)
qed

lemma refuse_served:
  assumes f: "fleet_ok strict s" and p: "sc_pending s = p # rest"
    and i: "ready_workers s = i # js" and sub: "submit (pr_request p) (worker_at s i) = (Inl e, c)"
  shows "\<not> is_worker_class WorkerStateError e \<and>
    served strict s (Inl e :: exn + unit) ((set_worker i c s)\<lparr>sc_pending := rest\<rparr>)"
proof -
  let ?t = "(set_worker i c s)\<lparr>sc_pending := rest\<rparr>"
  from hd_ready [OF i] have il: "i < length (sc_workers s)" and rd: "client_ready (worker_at s i)" by auto
  note w = worker.submit_refused [OF fleet_ok_at(1) [OF f il] rd sub]
  have jc: "client_job c = client_job (worker_at s i)"
    using w worker.ready_idle [OF fleet_ok_at(1) [OF f il] rd] by simp
  have "fleet_ok strict (set_worker i c s)"
    by (rule fleet_put [OF f il _ _ jc]) (use w in \<open>simp_all add: wid_def\<close>)
  then have "fleet_ok strict ?t" using fleet_ok_cong [of ?t "set_worker i c s" strict] by simp
  moreover have o: "outstanding s = add_mset (pending_id p) (outstanding ?t)"
    using p by (simp add: outstanding_def)
  moreover have "same_setup s ?t" using map_id_update [OF il] w by (simp add: same_setup_def wid_def)
  moreover have "within_limit ?t = within_limit s" by (rule within_limit_cong) simp_all
  ultimately show ?thesis
    using p w by (auto simp: served_def advances_def ledger_def suffix_ConsI)
qed

lemma dispatch_loop_served:
  assumes "fleet_ok strict s" and "dispatch_loop s = (r, t)"
  shows "served strict s r t \<and> sc_events t = sc_events s"
  using assms
proof (induction s arbitrary: r t rule: dispatch_loop.induct)
  case (1 s)
  show ?case
  proof (cases "sc_pending s = [] \<or> \<not> below_limit s \<or> ready_workers s = []")
    case True
    with 1(3) have "r = Inr ()" "t = s" by (auto split: list.splits)
    with 1(2) show ?thesis by (simp add: served_def)
  next
    case False
    then obtain p rest i js where p: "sc_pending s = p # rest" and i: "ready_workers s = i # js"
      and l: "below_limit s" by (auto simp: neq_Nil_conv)
    obtain r0 c where sub: "submit (pr_request p) (worker_at s i) = (r0, c)" by fastforce
    show ?thesis
    proof (cases r0)
      case (Inl e)
      from refuse_served [OF 1(2) p i sub [unfolded Inl]] 1(3) p i l sub Inl show ?thesis
        by (auto split: if_splits)
    next
      case (Inr u)
      let ?s1 = "mark_active (wid s i) (pending_id p) ((set_worker i c s)\<lparr>sc_pending := rest\<rparr>)"
      from assign_moves [OF 1(2) p l i sub [unfolded Inr]] have m: "moves strict s ?s1" .
      from 1(3) p i l sub Inr have "dispatch_loop ?s1 = (r, t)" by simp
      from 1(1) [OF p _ i sub [symmetric, unfolded Inr] refl moves_fleet [OF m]] this l
      have "served strict ?s1 r t \<and> sc_events t = sc_events ?s1" by auto
      with moves_served [OF m, of r t] show ?thesis by simp
    qed
  qed
qed

lemmas dispatch_loop_unfold = dispatch_loop.simps
declare dispatch_loop.simps [simp del]

lemma dispatch_pending_served:
  assumes "fleet_ok strict s" and "dispatch_pending s = (r, t)"
  shows "served strict s r t"
  using expire_pending_moves [OF assms(1)] dispatch_loop_served [of strict "expire_pending s" r t] assms(2)
  by (auto simp: dispatch_pending_def dest: moves_fleet intro: moves_served)

lemma served_Inr: "served strict s (Inr x :: exn + 'a) t \<longleftrightarrow> moves strict s t"
  by (simp add: served_def)

lemma poll_worker_served:
  assumes f: "fleet_ok strict s" and i: "i < length (sc_workers s)" and p: "poll_worker i s = (r, t)"
  shows "served strict s r t"
proof (cases "dict_get (sc_active s) (wid s i)")
  case None
  with p have "r = Inr ()" "t = s" by (simp_all add: poll_worker_def)
  with f show ?thesis by (simp add: served_def)
next
  case (Some rid)
  note fit = fleet_ok_at(1) [OF f i]
  from Some fleet_ok_at(2) [OF f i] have job: "client_job (worker_at s i) = Some rid" by simp
  obtain a c where rc: "receive (worker_at s i) = (a, c)" by fastforce
  show ?thesis
  proof (cases a)
    case (Inl e)
    from worker.receive_error [OF fit job rc [unfolded Inl]]
    have c: "client_fit strict c" "worker_id c = wid s i" and
      out: "e = receive_timeout \<and> client_job c = Some rid \<or> worker_lost e \<and> client_job c = None"
      by (auto simp: wid_def)
    from out show ?thesis
    proof
      assume e: "e = receive_timeout \<and> client_job c = Some rid"
      with p Some rc Inl have "r = Inr ()" "t = set_worker i c s"
        by (auto simp: poll_worker_def receive_timeout_def worker_exn_def Let_def)
      with put_moves_quiet [OF f i c] e job show ?thesis by (simp add: served_Inr)
    next
      assume e: "worker_lost e \<and> client_job c = None"
      then obtain cd where "r = Inr ()" "t = worker_failed i rid cd (set_worker i c s)"
        using p Some rc Inl by (cases e) (auto simp: poll_worker_def Let_def split: if_splits)
      with worker_failed_moves [OF f i c _ Some, of cd] e show ?thesis by (simp add: served_Inr)
    qed
  next
    case (Inr m)
    from worker.receive_answer [OF fit job rc [unfolded Inr]]
    have c: "client_fit strict c" "worker_id c = wid s i"
      and jc: "client_job c = (if terminal_kind (wm_kind m) then None else Some rid)"
      by (auto simp: wid_def)
    let ?s1 = "add_events [m] (set_worker i c s)"
    have w1: "wid ?s1 i = wid s i" using i c by (simp add: wid_def worker_at_def)
    show ?thesis
    proof (cases "terminal_kind (wm_kind m)")
      case False
      with p Some rc Inr have "r = Inr ()" "t = ?s1" by (auto simp: poll_worker_def Let_def)
      with put_moves [OF f i c, of "[m]"] False jc job show ?thesis
        by (simp add: served_Inr settled_def)
    next
      case True
      let ?s2 = "add_events [m] (release (wid s i) (set_worker i c s))"
      have s2: "release (wid ?s1 i) ?s1 = ?s2" unfolding w1 by (simp add: release_def add_events_def)
      have "settled [m] = {#rid#}" if strict
        using identified.receive_final_answer [of "worker_at s i" rid m c] fit job rc Inr True that
        by (simp add: settled_def)
      with release_moves [OF f i c _ Some, of "[m]"] jc True have m2: "moves strict s ?s2" by simp
      from p Some rc Inr True s2 have "dispatch_pending ?s2 = (r, t)" by (simp add: poll_worker_def Let_def)
      from moves_served [OF m2 dispatch_pending_served [OF moves_fleet [OF m2] this]] show ?thesis .
    qed
  qed
qed

lemma poll_workers_served:
  assumes "fleet_ok strict s" and "\<And>i. i \<in> set is \<Longrightarrow> i < length (sc_workers s)"
    and "poll_workers is s = (r, t)"
  shows "served strict s r t"
  using assms
proof (induction "is" arbitrary: s)
  case Nil
  then show ?case by (auto simp: served_def)
next
  case (Cons i "is")
  obtain r1 s1 where pw: "poll_worker i s = (r1, s1)" by fastforce
  from poll_worker_served [OF Cons.prems(1) _ pw] Cons.prems(2) have sv: "served strict s r1 s1" by simp
  show ?case
  proof (cases r1)
    case (Inl e)
    with pw Cons.prems(3) sv show ?thesis by simp
  next
    case (Inr u)
    with sv have m: "moves strict s s1" by (simp add: served_def)
    from Inr pw Cons.prems(3) have "poll_workers is s1 = (r, t)" by simp
    from Cons.IH [OF moves_fleet [OF m] _ this] Cons.prems(2) moves_length [OF m]
    have "served strict s1 r t" by simp
    with moves_served [OF m] show ?thesis by blast
  qed
qed

text \<open>The whole of \<open>poll\<close>: what it delivers is settled, the rest stays in the ledger.\<close>

lemma drain_ledger: "ledger s = ledger (s\<lparr>sc_events := []\<rparr>) + settled (sc_events s)"
  by (simp add: ledger_def outstanding_def)

lemma drain_advances: "advances s (s\<lparr>sc_events := []\<rparr>)"
  using within_limit_cong [of "s\<lparr>sc_events := []\<rparr>" s]
  by (simp add: advances_def same_setup_def outstanding_def)

lemma drain_fleet: "fleet_ok strict (s\<lparr>sc_events := []\<rparr>) = fleet_ok strict s"
  by (rule fleet_ok_cong) simp_all

lemma poll_cases:
  assumes f: "fleet_ok strict s" and p: "poll s = (r, t)"
  shows "fleet_ok strict t \<and> advances s t \<and>
    (case r of
       Inr ms \<Rightarrow> sc_events t = [] \<and> (strict \<longrightarrow> ledger s = ledger t + settled ms)
     | Inl e \<Rightarrow> is_worker_class WorkerExitedError e \<and>
         (strict \<longrightarrow> (\<exists>rid. ledger s = add_mset rid (ledger t))))"
proof -
  have deliver: ?thesis if "moves strict s u" and "r = Inr (sc_events u)" and "t = u\<lparr>sc_events := []\<rparr>" for u
    using that drain_ledger [of u] drain_fleet [of strict u] advances_trans [OF _ drain_advances]
    by (auto simp: moves_def)
  define s1 where "s1 = expire_pending (expire_active s)"
  have m1: "moves strict s s1" unfolding s1_def
    using expire_active_moves [OF f] expire_pending_moves moves_fleet moves_trans by blast
  show ?thesis
  proof (cases "sc_events s1 = []")
    case False
    with p have "r = Inr (sc_events s1)" "t = s1\<lparr>sc_events := []\<rparr>"
      by (simp_all add: poll_def s1_def drain_events_def Let_def)
    with deliver [OF m1] show ?thesis by simp
  next
    case True
    obtain r2 s2 where pw: "poll_workers [0..<length (sc_workers s1)] s1 = (r2, s2)" by fastforce
    have sv: "served strict s r2 s2"
      by (rule moves_served [OF m1 poll_workers_served [OF moves_fleet [OF m1] _ pw]]) simp
    show ?thesis
    proof (cases r2)
      case (Inl e)
      with p pw True have "r = Inl e" "t = s2" by (simp_all add: poll_def s1_def Let_def)
      with sv Inl show ?thesis by (simp add: served_def)
    next
      case (Inr u)
      let ?s3 = "fail_pending_without_healthy_workers s2"
      from p pw True Inr have "r = Inr (sc_events ?s3)" "t = ?s3\<lparr>sc_events := []\<rparr>"
        by (simp_all add: poll_def s1_def drain_events_def Let_def)
      moreover from sv Inr have "moves strict s ?s3"
        using fail_pending_moves moves_fleet moves_trans by (fastforce simp: served_def)
      ultimately show ?thesis using deliver by blast
    qed
  qed
qed

section \<open>Public operations keep the invariant\<close>

lemma poll_ok: "sched_ok strict s \<Longrightarrow> \<not> sc_closed s \<Longrightarrow> poll s = (r, t) \<Longrightarrow> sched_ok strict t"
  using poll_cases [of strict s r t] advances_queue_ok [of s t] by (auto simp: sched_ok_def)

lemma submit_request_cases:
  assumes f: "fleet_ok strict s" and o: "\<not> sc_closed s" and p: "submit_request q s = (r, t)"
  shows "(case r of
      Inl e \<Rightarrow> is_worker_error e \<and> outstanding t = outstanding s \<and> sc_pending t = sc_pending s \<and>
        sc_active t = sc_active s \<and> sc_submitted t = sc_submitted s \<and>
        (t = s \<or> wr_id q \<notin> sc_submitted s \<and> is_worker_class WorkerExitedError e \<and> healthy_workers s \<noteq> [])
    | Inr d \<Rightarrow> wr_id q \<notin> sc_submitted s \<and> outstanding t = add_mset (wr_id q) (outstanding s) \<and>
        sc_submitted t = insert (wr_id q) (sc_submitted s) \<and>
        (if d = Dispatched then below_limit s \<and> sc_pending t = sc_pending s \<and>
             length (sc_active t) = Suc (length (sc_active s)) \<and>
             (\<exists>i < length (sc_workers s). ready_workers s \<noteq> [] \<and> i = hd (ready_workers s) \<and>
                sc_active t = sc_active s @ [(wid s i, wr_id q)])
         else (ready_workers s = [] \<or> \<not> below_limit s) \<and> int (length (sc_pending s)) < sc_max_pending s \<and>
           (\<exists>now. sc_pending t = sc_pending s @ [\<lparr>pr_request = q, pr_enqueued_at = now\<rparr>]) \<and>
           sc_active t = sc_active s)) \<and>
    fleet_ok strict t \<and> sc_events t = sc_events s \<and> sc_closed t = sc_closed s \<and>
    sc_max_pending t = sc_max_pending s \<and> sc_max_concurrent t = sc_max_concurrent s"
proof (cases "wr_id q \<notin> sc_submitted s \<and> ready_workers s \<noteq> [] \<and> below_limit s")
  case True
  then obtain i js where i: "ready_workers s = i # js" by (auto simp: neq_Nil_conv)
  from hd_ready [OF i] have il: "i < length (sc_workers s)" and rd: "client_ready (worker_at s i)" by auto
  have h: "healthy_workers s \<noteq> []"
    using il rd by (auto simp: healthy_workers_def client_ready_def filter_empty_conv
        intro!: bexI [of _ i])
  note na = ready_not_active [OF f il rd]
  then have app: "dict_set (wid s i) rid (sc_active s) = sc_active s @ [(wid s i, rid)]" for rid
    by (intro dict_set_new) (simp add: dict_get_None_keys)
  obtain a c where sub: "submit q (worker_at s i) = (a, c)" by fastforce
  show ?thesis
  proof (cases a)
    case (Inl e)
    note w = worker.submit_refused [OF fleet_ok_at(1) [OF f il] rd sub [unfolded Inl]]
    have jc: "client_job c = client_job (worker_at s i)"
      using w worker.ready_idle [OF fleet_ok_at(1) [OF f il] rd] by simp
    have "fleet_ok strict (set_worker i c s)"
      by (rule fleet_put [OF f il _ _ jc]) (use w in \<open>simp_all add: wid_def\<close>)
    moreover from p o True i sub Inl have "r = Inl e" "t = set_worker i c s"
      by (simp_all add: submit_request_def Let_def)
    moreover from w have "is_worker_error e" by (cases e) auto
    ultimately show ?thesis using w True h by simp
  next
    case (Inr u)
    note w = worker.submit_accepted [OF fleet_ok_at(1) [OF f il] rd sub [unfolded Inr]]
    let ?t = "mark_active (wid s i) (wr_id q) (set_worker i c s)"
    have "fleet_ok strict ?t" by (rule fleet_mark [OF f il]) (use w in \<open>simp_all add: wid_def\<close>)
    moreover from p o True i sub Inr
    have t: "r = Inr Dispatched" "t = ?t\<lparr>sc_submitted := insert (wr_id q) (sc_submitted ?t)\<rparr>"
      by (simp_all add: submit_request_def Let_def)
    moreover from t have "fleet_ok strict t = fleet_ok strict ?t" by (intro fleet_ok_cong) simp_all
    moreover have "outstanding t = add_mset (wr_id q) (outstanding s)"
      using outstanding_mark [of "set_worker i c s" "wid s i" "wr_id q"] na t
      by (simp add: outstanding_def)
    ultimately show ?thesis using True app il i by auto
  qed
next
  case False
  show ?thesis
  proof (cases "wr_id q \<in> sc_submitted s \<or> sc_max_pending s \<le> int (length (sc_pending s)) \<or>
      healthy_workers s = []")
    case True
    with p o False f have "\<exists>e. r = Inl e \<and> is_worker_error e \<and> t = s"
      by (auto simp: submit_request_def split: if_splits)
    with f show ?thesis by auto
  next
    case no: False
    define s1 where "s1 = s\<lparr>sc_ticks := Suc (sc_ticks s)\<rparr>"
    from no False p o have t: "r = Inr Queued"
      "t = s1\<lparr>sc_pending := sc_pending s @ [\<lparr>pr_request = q, pr_enqueued_at = sc_clock s (sc_ticks s)\<rparr>],
              sc_submitted := insert (wr_id q) (sc_submitted s)\<rparr>"
      by (auto simp: submit_request_def monotonic_def Let_def s1_def)
    have "fleet_ok strict t = fleet_ok strict s" by (rule fleet_ok_cong) (simp_all add: t(2) s1_def)
    with f t no False show ?thesis by (auto simp: s1_def outstanding_def pending_id_def)
  qed
qed

lemma submit_request_ok:
  assumes "sched_ok strict s" and "submit_request q s = (r, t)"
  shows "sched_ok strict t"
proof (cases "sc_closed s")
  case True
  with assms show ?thesis by (auto simp: submit_request_def sched_ok_def)
next
  case False
  with assms(1) have f: "fleet_ok strict s" and q: "queue_ok s" by (auto simp: sched_ok_def)
  note c = submit_request_cases [OF f False assms(2)]
  have cnt: "count (add_mset (wr_id q) (outstanding s)) x \<le> 1" if "wr_id q \<notin> sc_submitted s" for x
    using q that by (auto simp: queue_ok_def not_in_iff)
  have "queue_ok t"
  proof (cases r)
    case (Inl e)
    with c have "sc_active t = sc_active s" "sc_max_concurrent t = sc_max_concurrent s" by auto
    then have "within_limit t = within_limit s" by (intro within_limit_cong)
    with c q Inl show ?thesis by (simp add: queue_ok_def)
  next
    case (Inr d)
    have "within_limit t"
    proof (cases d)
      case Dispatched
      with c Inr show ?thesis
        by (cases "sc_max_concurrent s") (auto simp: within_limit_def below_limit_def)
    next
      case Queued
      with c Inr have "sc_active t = sc_active s" "sc_max_concurrent t = sc_max_concurrent s" by auto
      then have "within_limit t = within_limit s" by (intro within_limit_cong)
      with q show ?thesis by (simp add: queue_ok_def)
    qed
    moreover have "int (length (sc_pending t)) \<le> sc_max_pending s"
      using c q Inr by (cases d) (auto simp: queue_ok_def)
    ultimately show ?thesis
      using c q Inr cnt unfolding queue_ok_def by (auto split: if_splits)
  qed
  with c show ?thesis by (auto simp: sched_ok_def)
qed

lemma find_index:
  assumes "find P [0..<n] = Some i"
  shows "i < n \<and> P i"
  using assms by (auto simp: find_Some_iff)

lemma cancel_cases:
  assumes f: "fleet_ok strict s" and p: "cancel rid s = (r, t)"
  shows "fleet_ok strict t \<and> same_setup s t \<and> outstanding t \<subseteq># outstanding s \<and>
    subseq (sc_pending t) (sc_pending s) \<and> (within_limit s \<longrightarrow> within_limit t) \<and>
    (case r of
       Inr m \<Rightarrow> wm_kind m = Cancelled_Kind \<and> wm_request_id m = Some rid \<and>
         add_mset rid (outstanding t) \<subseteq># outstanding s \<and> (strict \<longrightarrow> ledger s = add_mset rid (ledger t))
     | Inl e \<Rightarrow> t = s \<and> rid \<notin># outstanding s \<or> t = s \<and> rid = [])"
proof (cases "rid = []")
  case True
  with p f show ?thesis by (auto simp: cancel_def)
next
  case ne: False
  show ?thesis
  proof (cases "dropWhile (\<lambda>p. pending_id p \<noteq> rid) (sc_pending s)")
    case (Cons p0 rest)
    define pre where "pre = takeWhile (\<lambda>p. pending_id p \<noteq> rid) (sc_pending s)"
    from p ne Cons have r: "r = Inr (cancelled_event ''scheduler'' rid ''pending'')"
      and t: "t = s\<lparr>sc_pending := pre @ rest\<rparr>" by (auto simp: cancel_def pre_def)
    have sp: "sc_pending s = pre @ p0 # rest"
      unfolding pre_def using Cons takeWhile_dropWhile_id [of "\<lambda>p. pending_id p \<noteq> rid" "sc_pending s"] by simp
    have id0: "pending_id p0 = rid" using Cons hd_dropWhile [of "\<lambda>p. pending_id p \<noteq> rid" "sc_pending s"] by simp
    have o: "outstanding s = add_mset rid (outstanding t)"
      unfolding outstanding_def t by (simp add: sp id0)
    have "fleet_ok strict t = fleet_ok strict s" unfolding t by (rule fleet_ok_cong) simp_all
    moreover have "within_limit t = within_limit s" unfolding t by (rule within_limit_cong) simp_all
    moreover have "subseq (pre @ rest) (sc_pending s)"
      unfolding sp by (intro list_emb_append_mono) auto
    ultimately show ?thesis
      using f o t by (simp add: r same_setup_def ledger_def cancelled_event_def plain_message_def)
  next
    case Nil
    then have np: "rid \<notin> set (map pending_id (sc_pending s))" by (auto simp: dropWhile_eq_Nil_conv)
    show ?thesis
    proof (cases "find (\<lambda>i. dict_get (sc_active s) (wid s i) = Some rid) [0..<length (sc_workers s)]")
      case None
      have "rid \<notin> set (map snd (sc_active s))"
      proof
        assume "rid \<in> set (map snd (sc_active s))"
        then obtain w where w: "(w, rid) \<in> set (sc_active s)" by auto
        with f have "dict_get (sc_active s) w = Some rid" by (auto simp: fleet_ok_def)
        moreover from w f have "w \<in> worker_id ` set (sc_workers s)" by (force simp: fleet_ok_def)
        then obtain i where "i < length (sc_workers s)" "wid s i = w"
          by (auto simp: in_set_conv_nth wid_def worker_at_def)
        ultimately show False using None by (auto simp: find_None_iff)
      qed
      with np p ne Nil None f show ?thesis by (auto simp: cancel_def outstanding_def)
    next
      case (Some i)
      from find_index [OF Some] have il: "i < length (sc_workers s)"
        and a: "dict_get (sc_active s) (wid s i) = Some rid" by auto
      from a fleet_ok_at(2) [OF f il] have "client_job (worker_at s i) = Some rid" by simp
      from worker.cancel_busy [OF fleet_ok_at(1) [OF f il] this] obtain c where
        c: "cancel_active (worker_at s i) = (Inr rid, c)" "client_fit strict c" "worker_id c = wid s i"
        "client_job c = None" by (auto simp: wid_def)
      let ?u = "release (wid s i) (set_worker i c s)"
      from p ne Nil Some c have r: "r = Inr (cancelled_event (wid s i) rid ''active'')"
        and t: "t = fail_pending_without_healthy_workers ?u" by (auto simp: cancel_def)
      have fu: "fleet_ok strict ?u" by (rule fleet_release [OF f il c(2-4)])
      note m = fail_pending_moves [OF fu, folded t]
      have o: "outstanding s = add_mset rid (outstanding ?u)"
        using outstanding_release [of "set_worker i c s"] f a by (simp add: fleet_ok_def)
      have l: "ledger s = add_mset rid (ledger ?u)" using o by (simp add: ledger_def)
      have "within_limit s \<longrightarrow> within_limit ?u"
        using within_limit_release [of "set_worker i c s" "wid s i"] by simp
      moreover have su: "same_setup s ?u" using map_id_update [OF il c(3)] by (simp add: same_setup_def)
      moreover from m have "same_setup ?u t" "outstanding t \<subseteq># outstanding ?u"
        "suffix (sc_pending t) (sc_pending ?u)" "within_limit ?u \<longrightarrow> within_limit t" "fleet_ok strict t"
        "strict \<longrightarrow> ledger t = ledger ?u"
        by (simp_all add: moves_def advances_def)
      ultimately show ?thesis using o l
        by (auto simp: r same_setup_def cancelled_event_def plain_message_def
            intro: suffix_imp_subseq subset_mset.order_trans)
    qed
  qed
qed

lemma cancel_ok:
  assumes "sched_ok strict s" and "cancel rid s = (r, t)" and "\<not> sc_closed s"
  shows "sched_ok strict t"
proof -
  from assms(1,3) have f: "fleet_ok strict s" and q: "queue_ok s" by (auto simp: sched_ok_def)
  note c = cancel_cases [OF f assms(2)]
  then have sub: "outstanding t \<subseteq># outstanding s" by blast
  have "count (outstanding t) x \<le> 1" for x
    using mset_subset_eq_count [OF sub, of x] q le_trans unfolding queue_ok_def by blast
  moreover from sub have "set_mset (outstanding t) \<subseteq> set_mset (outstanding s)" by (rule set_mset_mono)
  moreover from c have "length (sc_pending t) \<le> length (sc_pending s)" by (blast dest: list_emb_length)
  ultimately have "queue_ok t" using c q by (auto simp: queue_ok_def same_setup_def)
  with c show ?thesis by (simp add: sched_ok_def)
qed

lemma shutdown_workers_closed:
  "shutdown_workers is s = (r, t) \<Longrightarrow>
     sc_closed t = sc_closed s \<and> sc_pending t = sc_pending s \<and> sc_events t = sc_events s \<and>
     sc_active t = sc_active s \<and> length (sc_workers t) = length (sc_workers s)"
  by (induction "is" s arbitrary: r t rule: shutdown_workers.induct)
    (auto split: prod.splits sum.splits if_splits)

lemma close_closes: "close s = (r, t) \<Longrightarrow> sc_closed t"
  using shutdown_workers_closed
  by (fastforce simp: close_def Let_def split: if_splits prod.splits sum.splits)

lemma closed_submit [simp]:
  "sc_closed s \<Longrightarrow> submit_request q s = (Inl (worker_exn SchedulerAdmissionError ''scheduler_closed'' False []), s)"
  by (simp add: submit_request_def)

text \<open>The calls of the owner, and the death of a child as a move of the environment.\<close>

datatype sched_call =
    Submit_Request worker_request
  | Poll
  | Cancel_Request string
  | Close
  | Worker_Dies nat int

fun sched_invoke :: "scheduler \<Rightarrow> sched_call \<Rightarrow> scheduler" where
  "sched_invoke s (Submit_Request q) = snd (submit_request q s)"
| "sched_invoke s Poll = (if sc_closed s then s else snd (poll s))"
| "sched_invoke s (Cancel_Request rid) = (if sc_closed s then s else snd (cancel rid s))"
| "sched_invoke s Close = snd (close s)"
| "sched_invoke s (Worker_Dies i code) =
     (if i < length (sc_workers s)
      then set_worker i (child_died (Some code) (worker_at s i)) s else s)"

lemma worker_dies_ok:
  assumes "sched_ok strict s" and "i < length (sc_workers s)"
  shows "sched_ok strict (set_worker i (child_died (Some code) (worker_at s i)) s)"
proof (cases "sc_closed s")
  case True
  then show ?thesis by (simp add: sched_ok_def)
next
  case False
  let ?c = "child_died (Some code) (worker_at s i)"
  from False assms(1) have f: "fleet_ok strict s" and q: "queue_ok s" by (auto simp: sched_ok_def)
  from fleet_ok_at(1) [OF f assms(2)] have "client_fit strict ?c"
    by (simp add: client_fit_def child_died_ok)
  from put_moves_quiet [OF f assms(2) this] have "moves strict s (set_worker i ?c s)"
    by (simp add: wid_def worker_id_def client_job_def)
  from moves_ok [OF this q] this show ?thesis by (simp add: sched_ok_def moves_def)
qed

lemma sched_invoke_ok:
  assumes "sched_ok strict s"
  shows "sched_ok strict (sched_invoke s x)"
proof (cases x)
  case (Submit_Request q)
  with submit_request_ok [OF assms, of q] show ?thesis by (cases "submit_request q s") simp
next
  case Poll
  with assms poll_ok [of strict s] show ?thesis by (cases "poll s") simp
next
  case (Cancel_Request rid)
  with assms cancel_ok [of strict s rid] show ?thesis by (cases "cancel rid s") simp
next
  case Close
  with close_closes [of s] show ?thesis by (cases "close s") (simp add: sched_ok_def)
next
  case (Worker_Dies i code)
  with assms worker_dies_ok show ?thesis by simp
qed

lemma sched_invoke_edge:
  assumes "sched_ok strict s"
  shows "sc_closed (sched_invoke s x) = sc_closed s \<or> (\<not> sc_closed s \<and> sc_closed (sched_invoke s x))"
proof (cases "sc_closed s")
  case True
  then show ?thesis by (cases x) (simp_all add: close_def)
next
  case False
  then show ?thesis by auto
qed

interpretation sched: lifecycle_object sched_invoke "sched_ok strict" sc_closed "\<lambda>a b. \<not> a \<and> b" for strict
  by unfold_locales (simp_all add: sched_invoke_ok sched_invoke_edge del: sched_invoke.simps)

lemma mk_scheduler_ok:
  assumes "mk_scheduler ws mp qt mi mc clock = Inr s" and "list_all (client_fit strict) ws"
  shows "sched_ok strict s \<and> \<not> sc_closed s"
proof -
  from assms(1) have w: "ws \<noteq> []" "distinct (map worker_id ws)" "list_all (\<lambda>w. wc_state w = READY) ws"
    "0 < int_of mp" "sc_workers s = sort_key worker_id ws" "sc_max_pending s = int_of mp"
    "sc_pending s = []" "sc_active s = []" "sc_active_started s = []" "\<not> sc_closed s"
    and mc: "case sc_max_concurrent s of None \<Rightarrow> True | Some k \<Rightarrow> 0 < k"
    by (auto simp: mk_scheduler_def and_then_eq_Inr positive_int_def list_ex_iff list_all_iff
        split: if_splits)
  have "client_job (worker_at s i) = None" if "i < length (sc_workers s)" for i
  proof -
    from that have "worker_at s i \<in> set (sc_workers s)" by (simp add: worker_at_def)
    with w(3,5) show ?thesis by (auto simp: client_job_def list_all_iff)
  qed
  moreover from w(1,5) have "sc_workers s \<noteq> []"
    by (metis length_0_conv length_sort)
  ultimately have "fleet_ok strict s"
    using w assms(2) by (simp add: fleet_ok_def list_all_iff)
  moreover have "queue_ok s"
    using w mc by (auto simp: queue_ok_def within_limit_def outstanding_def split: option.splits)
  ultimately show ?thesis using w by (simp add: sched_ok_def)
qed

section \<open>Work conservation\<close>

definition dispatched_all :: "scheduler \<Rightarrow> bool" where
  "dispatched_all s \<longleftrightarrow> sc_pending s = [] \<or> ready_workers s = []"

lemma ready_workers_Nil:
  "ready_workers s = [] \<longleftrightarrow> (\<forall>i < length (sc_workers s). \<not> client_ready (worker_at s i))"
  by (auto simp: ready_workers_def filter_empty_conv client_ready_def)

lemma ready_workers_put:
  "ready_workers s = [] \<Longrightarrow> \<not> client_ready c \<Longrightarrow> sc_workers t = (sc_workers s)[i := c] \<Longrightarrow>
   ready_workers t = []"
  by (simp add: ready_workers_Nil worker_at_def) (metis nth_list_update_eq nth_list_update_neq)

lemma ready_workers_cong: "sc_workers t = sc_workers s \<Longrightarrow> ready_workers t = ready_workers s"
  by (simp add: ready_workers_def worker_at_def)

lemma dispatched_put:
  "dispatched_all s \<Longrightarrow> \<not> client_ready c \<Longrightarrow> sc_workers t = (sc_workers s)[i := c] \<Longrightarrow>
   (sc_pending s = [] \<Longrightarrow> sc_pending t = []) \<Longrightarrow> dispatched_all t"
  unfolding dispatched_all_def using ready_workers_put by blast

lemma dispatched_fail_pending: "dispatched_all s \<Longrightarrow> dispatched_all (fail_pending_without_healthy_workers s)"
  by (auto simp: dispatched_all_def fail_pending_without_healthy_workers_def)

lemma dispatched_expire_pending: "dispatched_all s \<Longrightarrow> dispatched_all (expire_pending s)"
  using ready_workers_cong [of "expire_pending s" s]
  by (auto simp: dispatched_all_def expire_pending_def monotonic_def Let_def split: option.splits)

lemma job_not_ready:
  "client_fit strict c \<Longrightarrow> client_job c = Some rid \<Longrightarrow> \<not> client_ready c"
  using worker.ready_idle by force

lemma expire_worker_dispatched:
  assumes "fleet_ok strict s" and "i < length (sc_workers s)" and "dispatched_all s"
  shows "dispatched_all (expire_worker timeout now i s)"
proof (cases "dict_get (sc_active s) (wid s i)")
  case None
  with assms(3) show ?thesis by (simp add: expire_worker_def)
next
  case (Some rid)
  with fleet_ok_at [OF assms(1,2)] have "client_job (worker_at s i) = Some rid" by simp
  from worker.cancel_busy [OF fleet_ok_at(1) [OF assms(1,2)] this]
  have "\<not> client_ready (snd (cancel_active (worker_at s i)))" by auto
  with assms(3) dispatched_put [OF assms(3)] show ?thesis
    by (auto simp: expire_worker_def split: option.split)
qed

lemma fold_dispatched:
  assumes "fleet_ok strict s" and "dispatched_all s"
    and "\<And>i t. i \<in> set is \<Longrightarrow> fleet_ok strict t \<Longrightarrow> length (sc_workers t) = length (sc_workers s) \<Longrightarrow>
      moves strict t (f i t) \<and> (dispatched_all t \<longrightarrow> dispatched_all (f i t))"
  shows "dispatched_all (fold f is s)"
  using assms
proof (induction "is" arbitrary: s)
  case Nil
  then show ?case by simp
next
  case (Cons i "is")
  from Cons.prems have m: "moves strict s (f i s)" and d: "dispatched_all (f i s)" by auto
  from Cons.IH [OF moves_fleet [OF m] d] Cons.prems(3) moves_length [OF m] show ?case by simp
qed

lemma expire_active_dispatched:
  assumes f: "fleet_ok strict s" and d: "dispatched_all s"
  shows "dispatched_all (expire_active s)"
proof (cases "sc_max_inference s")
  case None
  with d show ?thesis by (simp add: expire_active_def)
next
  case (Some timeout)
  define s1 where "s1 = s\<lparr>sc_ticks := Suc (sc_ticks s)\<rparr>"
  have f1: "fleet_ok strict s1" unfolding s1_def using tick_moves [OF f] by (rule moves_fleet)
  have d1: "dispatched_all s1"
    using d ready_workers_cong [of s1 s] by (simp add: dispatched_all_def s1_def)
  have "dispatched_all
    (fold (expire_worker timeout (sc_clock s (sc_ticks s))) [0..<length (sc_workers s1)] s1)"
    by (rule fold_dispatched [OF f1 d1]) (auto intro: expire_worker_moves expire_worker_dispatched)
  with Some dispatched_fail_pending show ?thesis
    by (simp add: expire_active_def monotonic_def s1_def)
qed

lemma dispatch_loop_dispatched:
  assumes "sc_max_concurrent s = None" and "dispatch_loop s = (Inr u, t)" and "fleet_ok strict s"
  shows "dispatched_all t"
  using assms
proof (induction s arbitrary: u t rule: dispatch_loop.induct)
  case (1 s)
  have l: "below_limit s" using 1(2) by (simp add: below_limit_def)
  show ?case
  proof (cases "sc_pending s = [] \<or> ready_workers s = []")
    case True
    with 1(3) l have "t = s" by (auto simp: dispatch_loop_unfold [of s] split: list.splits)
    with True show ?thesis by (simp add: dispatched_all_def)
  next
    case False
    then obtain p rest i js where p: "sc_pending s = p # rest" and i: "ready_workers s = i # js"
      by (auto simp: neq_Nil_conv)
    obtain r0 c where sub: "submit (pr_request p) (worker_at s i) = (r0, c)" by fastforce
    show ?thesis
    proof (cases r0)
      case (Inl e)
      from refuse_served [OF 1(4) p i sub [unfolded Inl]] 1(3) p i l sub Inl show ?thesis
        by (auto simp: dispatch_loop_unfold [of s])
    next
      case (Inr v)
      let ?s1 = "mark_active (wid s i) (pending_id p) ((set_worker i c s)\<lparr>sc_pending := rest\<rparr>)"
      from assign_moves [OF 1(4) p l i sub [unfolded Inr]] have m: "moves strict s ?s1" .
      from 1(3) p i l sub Inr have "dispatch_loop ?s1 = (Inr u, t)" by (simp add: dispatch_loop_unfold [of s])
      from 1(1) [OF p _ i sub [symmetric, unfolded Inr] refl _ this moves_fleet [OF m]] 1(2) l
      show ?thesis by simp
    qed
  qed
qed

lemma poll_worker_dispatched:
  assumes f: "fleet_ok strict s" and i: "i < length (sc_workers s)" and d: "dispatched_all s"
    and m: "sc_max_concurrent s = None" and p: "poll_worker i s = (Inr u, t)"
  shows "dispatched_all t"
proof (cases "dict_get (sc_active s) (wid s i)")
  case None
  with p d show ?thesis by (simp add: poll_worker_def)
next
  case (Some rid)
  note fit = fleet_ok_at(1) [OF f i]
  from Some fleet_ok_at(2) [OF f i] have job: "client_job (worker_at s i) = Some rid" by simp
  obtain a c where rc: "receive (worker_at s i) = (a, c)" by fastforce
  note rb = worker.receive_busy [OF fit job rc]
  show ?thesis
  proof (cases a)
    case (Inl e)
    with rb job_not_ready [of strict c rid] have nr: "\<not> client_ready c" by auto
    have "sc_workers t = (sc_workers s)[i := c] \<and> sc_pending t = sc_pending s"
      using p Some rc Inl
      by (cases e) (auto simp: poll_worker_def worker_failed_def Let_def split: if_splits)
    with dispatched_put [OF d nr] show ?thesis by simp
  next
    case (Inr ms)
    let ?s1 = "add_events [ms] (set_worker i c s)"
    show ?thesis
    proof (cases "terminal_kind (wm_kind ms)")
      case False
      with rb Inr job_not_ready [of strict c rid] have nr: "\<not> client_ready c" by auto
      from False p Some rc Inr have "t = ?s1" by (auto simp: poll_worker_def Let_def)
      with dispatched_put [OF d nr, of ?s1 i] show ?thesis by simp
    next
      case True
      let ?s2 = "release (wid ?s1 i) ?s1"
      have w1: "wid ?s1 i = wid s i" using i rb by (simp add: wid_def worker_at_def)
      have "fleet_ok strict (release (wid s i) (set_worker i c s))"
        by (rule fleet_release [OF f i]) (use rb Inr True in \<open>auto simp: wid_def\<close>)
      then have f2: "fleet_ok strict ?s2"
        unfolding w1 using fleet_ok_cong [of "release (wid s i) ?s1" "release (wid s i) (set_worker i c s)"]
        by simp
      from True p Some rc Inr have "dispatch_loop (expire_pending ?s2) = (Inr u, t)"
        by (simp add: poll_worker_def dispatch_pending_def Let_def)
      with dispatch_loop_dispatched [OF _ this moves_fleet [OF expire_pending_moves [OF f2]]] m
      show ?thesis using expire_pending_moves [OF f2] by (simp add: moves_def advances_def same_setup_def)
    qed
  qed
qed

lemma poll_workers_dispatched:
  assumes "fleet_ok strict s" and "\<And>i. i \<in> set is \<Longrightarrow> i < length (sc_workers s)"
    and "dispatched_all s" and "sc_max_concurrent s = None" and "poll_workers is s = (Inr u, t)"
  shows "dispatched_all t"
  using assms
proof (induction "is" arbitrary: s)
  case Nil
  then show ?case by simp
next
  case (Cons i "is")
  from Cons.prems(5) obtain v s1 where pw: "poll_worker i s = (Inr v, s1)"
    and rest: "poll_workers is s1 = (Inr u, t)" by (auto split: prod.splits sum.splits)
  from poll_worker_served [OF Cons.prems(1) _ pw] Cons.prems(2) have m: "moves strict s s1"
    by (simp add: served_Inr)
  from poll_worker_dispatched [OF Cons.prems(1) _ Cons.prems(3,4) pw] Cons.prems(2)
  have d: "dispatched_all s1" by simp
  from m Cons.prems(4) have "sc_max_concurrent s1 = None"
    by (simp add: moves_def advances_def same_setup_def)
  with Cons.IH [OF moves_fleet [OF m] _ d _ rest] Cons.prems(2) moves_length [OF m] show ?case by simp
qed

lemma poll_dispatched:
  assumes f: "fleet_ok strict s" and d: "dispatched_all s" and m: "sc_max_concurrent s = None"
    and p: "poll s = (Inr ms, t)"
  shows "dispatched_all t"
proof -
  define s1 where "s1 = expire_pending (expire_active s)"
  have m1: "moves strict s s1" unfolding s1_def
    using expire_active_moves [OF f] expire_pending_moves moves_fleet moves_trans by blast
  have d1: "dispatched_all s1" unfolding s1_def
    by (intro dispatched_expire_pending expire_active_dispatched [OF f d])
  have drain: "dispatched_all u \<Longrightarrow> dispatched_all (u\<lparr>sc_events := []\<rparr>)" for u
    using ready_workers_cong [of "u\<lparr>sc_events := []\<rparr>" u] by (simp add: dispatched_all_def)
  show ?thesis
  proof (cases "sc_events s1 = []")
    case False
    with p have "t = s1\<lparr>sc_events := []\<rparr>" by (simp add: poll_def s1_def drain_events_def Let_def)
    with drain d1 show ?thesis by simp
  next
    case True
    with p obtain u s2 where pw: "poll_workers [0..<length (sc_workers s1)] s1 = (Inr u, s2)"
      and t: "t = (fail_pending_without_healthy_workers s2)\<lparr>sc_events := []\<rparr>"
      by (auto simp: poll_def s1_def drain_events_def Let_def split: prod.splits sum.splits)
    from m1 m have "sc_max_concurrent s1 = None" by (simp add: moves_def advances_def same_setup_def)
    from poll_workers_dispatched [OF moves_fleet [OF m1] _ d1 this pw] have "dispatched_all s2" by simp
    with t drain dispatched_fail_pending show ?thesis by simp
  qed
qed

lemma submit_dispatched:
  assumes f: "fleet_ok strict s" and d: "dispatched_all s" and m: "sc_max_concurrent s = None"
    and p: "submit_request q s = (r, t)"
  shows "dispatched_all t"
proof (cases "sc_closed s \<or> wr_id q \<in> sc_submitted s \<or> ready_workers s = []")
  case True
  with p have "t = s \<or> ready_workers s = [] \<and> sc_workers t = sc_workers s"
    by (auto simp: submit_request_def monotonic_def Let_def split: if_splits)
  with d ready_workers_cong [of t s] show ?thesis by (auto simp: dispatched_all_def)
next
  case False
  with d have "sc_pending s = []" by (simp add: dispatched_all_def)
  moreover from False m p have "sc_pending t = sc_pending s"
    by (auto simp: submit_request_def Let_def below_limit_def split: prod.splits sum.splits)
  ultimately show ?thesis by (simp add: dispatched_all_def)
qed

lemma cancel_dispatched:
  assumes f: "fleet_ok strict s" and d: "dispatched_all s" and p: "cancel rid s = (r, t)"
  shows "dispatched_all t"
proof (cases "rid = [] \<or> dropWhile (\<lambda>p. pending_id p \<noteq> rid) (sc_pending s) \<noteq> []")
  case True
  with p have "sc_workers t = sc_workers s" "sc_pending s = [] \<longrightarrow> sc_pending t = []"
    by (auto simp: cancel_def split: list.splits if_splits)
  with d ready_workers_cong [of t s] show ?thesis by (auto simp: dispatched_all_def)
next
  case False
  then have dw: "dropWhile (\<lambda>p. pending_id p \<noteq> rid) (sc_pending s) = []" and ne: "rid \<noteq> []" by blast+
  show ?thesis
  proof (cases "find (\<lambda>i. dict_get (sc_active s) (wid s i) = Some rid) [0..<length (sc_workers s)]")
    case None
    with dw ne p d show ?thesis by (simp only: cancel_def) simp
  next
    case (Some i)
    from find_index [OF Some] have il: "i < length (sc_workers s)"
      and a: "dict_get (sc_active s) (wid s i) = Some rid" by auto
    from a fleet_ok_at(2) [OF f il] have "client_job (worker_at s i) = Some rid" by simp
    from worker.cancel_busy [OF fleet_ok_at(1) [OF f il] this] obtain c where
      c: "cancel_active (worker_at s i) = (Inr rid, c)" "\<not> client_ready c" by auto
    let ?u = "release (wid s i) (set_worker i c s)"
    from p dw ne Some c have t: "t = fail_pending_without_healthy_workers ?u"
      by (simp only: cancel_def) simp
    from dispatched_put [OF d c(2), of ?u i] have "dispatched_all ?u" by simp
    with t dispatched_fail_pending show ?thesis by simp
  qed
qed

end
