(* ===== verification/Scheduler_Contracts.thy ===== *)
theory Scheduler_Contracts
  imports Scheduler
begin

text \<open>
  The properties of \<open>scheduler.py\<close>: admission, accounting, order of dispatch, time limits, work
  conservation, shutdown, and three behaviours in which the code falls short of what it intends.
  The invariant and the per-operation facts are in \<open>Scheduler\<close>.
\<close>

section \<open>Order of dispatch\<close>

lemma dispatch_loop_fifo:
  assumes "fleet_ok strict s" and "dispatch_loop s = (r, t)"
  shows "\<exists>k. k \<le> length (sc_pending s) \<and> sc_pending t = drop (if isOK r then k else Suc k) (sc_pending s) \<and>
    map snd (sc_active t) = map snd (sc_active s) @ map pending_id (take k (sc_pending s))"
  using assms
proof (induction s arbitrary: r t rule: dispatch_loop.induct)
  case (1 s)
  show ?case
  proof (cases "sc_pending s = [] \<or> \<not> below_limit s \<or> ready_workers s = []")
    case True
    with 1(3) have "r = Inr ()" "t = s" by (auto simp: dispatch_loop_unfold [of s] split: list.splits)
    then show ?thesis by (intro exI [of _ 0]) simp
  next
    case False
    then obtain p rest i js where p: "sc_pending s = p # rest" and i: "ready_workers s = i # js"
      and l: "below_limit s" by (auto simp: neq_Nil_conv)
    obtain r0 c where sub: "submit (pr_request p) (worker_at s i) = (r0, c)" by fastforce
    show ?thesis
    proof (cases r0)
      case (Inl e)
      from refuse_served [OF 1(2) p i sub [unfolded Inl]] 1(3) p i l sub Inl
      have "r = Inl e" "t = (set_worker i c s)\<lparr>sc_pending := rest\<rparr>"
        by (auto simp: dispatch_loop_unfold [of s])
      with p show ?thesis by (intro exI [of _ 0]) simp
    next
      case (Inr u)
      let ?s1 = "mark_active (wid s i) (pending_id p) ((set_worker i c s)\<lparr>sc_pending := rest\<rparr>)"
      from assign_moves [OF 1(2) p l i sub [unfolded Inr]] have m: "moves strict s ?s1" .
      from hd_ready [OF i] have il: "i < length (sc_workers s)" and rd: "client_ready (worker_at s i)" by auto
      have app: "sc_active ?s1 = sc_active s @ [(wid s i, pending_id p)]"
        using ready_not_active [OF 1(2) il rd] by (simp add: dict_set_new dict_get_None_keys)
      from 1(3) p i l sub Inr have "dispatch_loop ?s1 = (r, t)" by (simp add: dispatch_loop_unfold [of s])
      from 1(1) [OF p _ i sub [symmetric, unfolded Inr] refl moves_fleet [OF m] this] l
      obtain k where k: "k \<le> length rest" "sc_pending t = drop (if isOK r then k else Suc k) rest"
        "map snd (sc_active t) = map snd (sc_active ?s1) @ map pending_id (take k rest)"
        by auto
      with p app show ?thesis by (intro exI [of _ "Suc k"]) (auto simp del: mark_active_fields)
    qed
  qed
qed

section \<open>Time limits\<close>

definition in_time :: "rat \<Rightarrow> rat \<Rightarrow> (string, rat) dict \<Rightarrow> string \<Rightarrow> bool" where
  "in_time timeout now started w =
     (case dict_get started w of None \<Rightarrow> True | Some t0 \<Rightarrow> elapsed now t0 < timeout)"

lemma dict_filter_key: "filter (\<lambda>(w, _). w = k \<longrightarrow> b) d = (if b then d else dict_pop k d)"
  by (auto simp: dict_pop_filter intro!: filter_True filter_cong)

lemma expire_worker_filter:
  assumes "fleet_ok strict s" and "i < length (sc_workers s)"
    and b: "b = in_time timeout now (sc_active_started s) (wid s i)"
  shows "sc_active (expire_worker timeout now i s) = filter (\<lambda>(w, _). w = wid s i \<longrightarrow> b) (sc_active s) \<and>
    sc_active_started (expire_worker timeout now i s) =
      filter (\<lambda>(w, _). w = wid s i \<longrightarrow> b) (sc_active_started s)"
proof -
  have keys: "fst ` set (sc_active_started s) = fst ` set (sc_active s)"
    using assms(1) by (simp add: fleet_ok_def)
  show ?thesis
  proof (cases "dict_get (sc_active_started s) (wid s i)")
    case None
    with keys have "dict_get (sc_active s) (wid s i) = None" by (simp add: dict_get_None_keys)
    with None show ?thesis by (simp add: expire_worker_def dict_filter_key)
  next
    case (Some t0)
    then have "dict_get (sc_active s) (wid s i) \<noteq> None"
      using keys by (metis dict_get_None_keys option.distinct(1))
    then obtain rid where rid: "dict_get (sc_active s) (wid s i) = Some rid" by auto
    from Some have "b \<longleftrightarrow> elapsed now t0 < timeout" by (simp add: b in_time_def)
    with Some rid show ?thesis by (simp add: expire_worker_def dict_filter_key)
  qed
qed

lemma in_time_filter:
  "in_time timeout now (filter (\<lambda>(w, _). w = k \<longrightarrow> b) d) w \<longleftrightarrow> w = k \<and> \<not> b \<or> in_time timeout now d w"
  by (auto simp: in_time_def dict_get_filter)

lemma expire_workers_filter:
  assumes "fleet_ok strict s" and "\<And>i. i \<in> set is \<Longrightarrow> i < length (sc_workers s)"
  shows "sc_active (fold (expire_worker timeout now) is s) =
    filter (\<lambda>(w, _). w \<in> wid s ` set is \<longrightarrow> in_time timeout now (sc_active_started s) w) (sc_active s)"
  using assms
proof (induction "is" arbitrary: s)
  case Nil
  then show ?case by simp
next
  case (Cons i "is")
  let ?s1 = "expire_worker timeout now i s"
  from expire_worker_moves [OF Cons.prems(1)] Cons.prems(2) have m: "moves strict s ?s1" by simp
  have wids: "wid ?s1 j = wid s j" if "j < length (sc_workers s)" for j
    using m that unfolding moves_def advances_def same_setup_def wid_def worker_at_def
    by (metis length_map nth_map)
  then have img: "wid ?s1 ` set is = wid s ` set is" using Cons.prems(2) by (intro image_cong) auto
  have e: "sc_active ?s1 =
      filter (\<lambda>(w, _). w = wid s i \<longrightarrow> in_time timeout now (sc_active_started s) (wid s i)) (sc_active s)"
    "sc_active_started ?s1 =
      filter (\<lambda>(w, _). w = wid s i \<longrightarrow> in_time timeout now (sc_active_started s) (wid s i))
        (sc_active_started s)"
    using expire_worker_filter [OF Cons.prems(1) _ refl, of i timeout now] Cons.prems(2) by auto
  from Cons.IH [OF moves_fleet [OF m]] Cons.prems(2) moves_length [OF m] img e
  have "sc_active (fold (expire_worker timeout now) (i # is) s) =
    filter (\<lambda>(w, _). w \<in> wid s ` set is \<longrightarrow> in_time timeout now (sc_active_started ?s1) w)
      (filter (\<lambda>(w, _). w = wid s i \<longrightarrow> in_time timeout now (sc_active_started s) (wid s i)) (sc_active s))"
    by simp
  also have "\<dots> = filter (\<lambda>(w, _). w \<in> wid s ` set (i # is) \<longrightarrow>
      in_time timeout now (sc_active_started s) w) (sc_active s)"
    using e by (auto simp: in_time_filter intro!: filter_cong)
  finally show ?case .
qed

lemma expire_active_filter:
  assumes f: "fleet_ok strict s" and t: "sc_max_inference s = Some timeout"
  shows "sc_active (expire_active s) =
    filter (\<lambda>(w, _). in_time timeout (sc_clock s (sc_ticks s)) (sc_active_started s) w) (sc_active s)"
proof -
  define s1 where "s1 = s\<lparr>sc_ticks := Suc (sc_ticks s)\<rparr>"
  have f1: "fleet_ok strict s1" unfolding s1_def using tick_moves [OF f] by (rule moves_fleet)
  have keys: "w \<in> wid s1 ` set [0..<length (sc_workers s1)]" if "(w, rid) \<in> set (sc_active s)" for w rid
  proof -
    from that f have "w \<in> worker_id ` set (sc_workers s)" by (force simp: fleet_ok_def)
    then show ?thesis by (force simp: s1_def in_set_conv_nth wid_def worker_at_def)
  qed
  have "sc_active (expire_active s) =
    sc_active (fold (expire_worker timeout (sc_clock s (sc_ticks s))) [0..<length (sc_workers s1)] s1)"
    using t by (simp add: expire_active_def monotonic_def s1_def fail_pending_without_healthy_workers_def)
  also have "\<dots> = filter (\<lambda>(w, _). in_time timeout (sc_clock s (sc_ticks s)) (sc_active_started s) w) (sc_active s)"
    using expire_workers_filter [OF f1, of "[0..<length (sc_workers s1)]"] keys
    by (auto simp: s1_def intro!: filter_cong)
  finally show ?thesis .
qed

section \<open>Stalled queues\<close>

lemma poll_workers_idle: "sc_active s = [] \<Longrightarrow> poll_workers is s = (Inr (), s)"
  by (induction "is") (simp_all add: poll_worker_def)

lemma fold_expire_idle: "sc_active s = [] \<Longrightarrow> fold (expire_worker timeout now) is s = s"
  by (induction "is") (simp_all add: expire_worker_def)

text \<open>With nothing active, nothing to report and no queue limit, \<open>poll\<close> changes only the clock.\<close>

lemma poll_idle:
  assumes "sc_active s = []" and "sc_events s = []" and "sc_queue_timeout s = None"
    and "healthy_workers s \<noteq> []"
  shows "\<exists>n. poll s = (Inr [], s\<lparr>sc_ticks := n\<rparr>)"
proof -
  have h: "healthy_workers (s\<lparr>sc_ticks := n\<rparr>) = healthy_workers s" for n
    by (simp add: healthy_workers_def worker_at_def)
  have "\<exists>n. expire_active s = s\<lparr>sc_ticks := n\<rparr>"
  proof (cases "sc_max_inference s")
    case None
    then show ?thesis by (intro exI [of _ "sc_ticks s"]) (simp add: expire_active_def)
  next
    case (Some timeout)
    with assms(1,4) h show ?thesis
      by (intro exI [of _ "Suc (sc_ticks s)"])
        (simp add: expire_active_def monotonic_def fold_expire_idle fail_pending_without_healthy_workers_def)
  qed
  then obtain n where "expire_active s = s\<lparr>sc_ticks := n\<rparr>" by blast
  with assms h show ?thesis
    by (intro exI [of _ n])
      (simp add: poll_def expire_pending_def poll_workers_idle fail_pending_without_healthy_workers_def
        drain_events_def Let_def)
qed

lemma polls_idle:
  assumes "sc_active s = []" and "sc_events s = []" and "sc_queue_timeout s = None"
    and "healthy_workers s \<noteq> []"
  shows "\<exists>m. ((\<lambda>u. snd (poll u)) ^^ n) s = s\<lparr>sc_ticks := m\<rparr>"
proof (induction n)
  case 0
  show ?case by (intro exI [of _ "sc_ticks s"]) simp
next
  case (Suc n)
  then obtain m where m: "((\<lambda>u. snd (poll u)) ^^ n) s = s\<lparr>sc_ticks := m\<rparr>" by blast
  have h: "healthy_workers (s\<lparr>sc_ticks := m\<rparr>) = healthy_workers s"
    by (simp add: healthy_workers_def worker_at_def)
  from poll_idle [of "s\<lparr>sc_ticks := m\<rparr>"] assms h
  obtain k where "poll (s\<lparr>sc_ticks := m\<rparr>) = (Inr [], s\<lparr>sc_ticks := m\<rparr>\<lparr>sc_ticks := k\<rparr>)" by auto
  with m show ?case by (intro exI [of _ k]) simp
qed

section \<open>Shutdown\<close>

lemma shutdown_graceful_returned:
  assumes "shutdown_graceful c = (Inr u, c1)"
  shows "wc_state c1 = STOPPED \<and> \<not> is_alive c1"
proof (cases "\<exists>rest. wc_control c = Some (False # rest)")
  case True
  with assms show ?thesis by (auto simp: shutdown_graceful_def Let_def)
next
  case False
  moreover have "wc_control c \<noteq> None \<and> hd (the (wc_control c)) = False \<and> the (wc_control c) \<noteq> [] \<Longrightarrow>
      \<exists>rest. wc_control c = Some (False # rest)"
    by (auto simp: neq_Nil_conv)
  ultimately show ?thesis using shutdown_graceful_step [OF assms] by blast
qed

lemma shutdown_returned:
  assumes "client_ok c" and "shutdown c = (Inr u, c1)"
  shows "wc_state c1 = STOPPED \<and> (wc_state c \<noteq> STOPPED \<longrightarrow> \<not> is_alive c1)"
proof (cases "wc_state c")
  case READY
  with assms show ?thesis by (auto simp: shutdown_def client_ok_def dest!: shutdown_graceful_returned)
next
  case BUSY
  with assms cancel_active_busy [OF assms(1)] show ?thesis by (auto simp: shutdown_def)
qed (use assms in \<open>auto simp: shutdown_def client_ok_def\<close>)

lemma shutdown_workers_frame:
  "shutdown_workers is s = (r, t) \<Longrightarrow> j \<notin> set is \<Longrightarrow> worker_at t j = worker_at s j"
  by (induction "is" s arbitrary: r t rule: shutdown_workers.induct)
    (auto simp: worker_at_def split: prod.splits sum.splits if_splits)

lemma shutdown_graceful_errors:
  assumes "shutdown_graceful c = (Inl e, c1)"
  shows "\<not> is_worker_error e"
  using assms receive_message_Inl
  by (auto simp: shutdown_graceful_def Let_def split: option.splits list.splits bool.splits
      prod.splits sum.splits if_splits)

lemma shutdown_errors:
  assumes "client_ok c" and "shutdown c = (Inl e, c1)"
  shows "\<not> is_worker_error e"
  using assms cancel_active_busy [OF assms(1)] shutdown_graceful_errors [of c e c1]
  by (cases "wc_state c")
    (auto simp: shutdown_def client_ok_def split: prod.splits sum.splits if_splits)

lemma shutdown_workers_returned:
  assumes "shutdown_workers is s = (Inr u, t)" and "distinct is"
    and "\<And>i. i \<in> set is \<Longrightarrow> i < length (sc_workers s) \<and> client_ok (worker_at s i)"
    and "i \<in> set is"
  shows "wc_state (worker_at t i) = STOPPED \<and>
    (wc_state (worker_at s i) \<noteq> STOPPED \<longrightarrow> \<not> is_alive (worker_at t i))"
  using assms
proof (induction "is" s rule: shutdown_workers.induct)
  case (1 s)
  then show ?case by simp
next
  case (2 k "is" s)
  obtain a c where sh: "shutdown (worker_at s k) = (a, c)" by fastforce
  have ok: "client_ok (worker_at s k)" and kl: "k < length (sc_workers s)" using 2(5) by auto
  have a: "a = Inr ()"
    using 2(3) sh shutdown_errors [OF ok] by (cases a) (auto split: if_splits)
  let ?s1 = "set_worker k c s"
  from a sh 2(3) have rest: "shutdown_workers is ?s1 = (Inr u, t)" by simp
  have at: "worker_at ?s1 j = worker_at s j" if "j \<in> set is" for j
  proof -
    from that 2(4) have "k \<noteq> j" by auto
    then show ?thesis by (simp add: worker_at_def)
  qed
  show ?case
  proof (cases "i = k")
    case True
    with shutdown_workers_frame [OF rest, of k] 2(4) kl have "worker_at t i = c"
      by (simp add: worker_at_def)
    with shutdown_returned [OF ok] sh a True show ?thesis by auto
  next
    case False
    with 2(6) have "i \<in> set is" by simp
    with 2(2) [OF sh [symmetric] a rest] 2(4,5) at show ?thesis by auto
  qed
qed

section \<open>Properties\<close>

definition sample_sched :: "worker_client list \<Rightarrow> int option \<Rightarrow> scheduler" where
  "sample_sched ws mc =
     \<lparr>sc_workers = ws, sc_max_pending = 2, sc_queue_timeout = None, sc_max_inference = None,
      sc_max_concurrent = mc, sc_pending = [], sc_active = [], sc_active_started = [],
      sc_submitted = {}, sc_events = [], sc_closed = False, sc_clock = (\<lambda>n. of_nat n), sc_ticks = 0\<rparr>"

definition sample_request :: "string \<Rightarrow> worker_request" where
  "sample_request rid =
     \<lparr>wr_id = rid, wr_operation = Synthesize, wr_payload = OneShotPayload (SpeechRequest ''hi'')\<rparr>"

lemma ready_client_fields [simp]:
  "wc_state (ready_client w sends ds) = READY" "wc_control (ready_client w sends ds) = Some sends"
  "wc_results (ready_client w sends ds) = Some ds" "wc_active (ready_client w sends ds) = None"
  "worker_id (ready_client w sends ds) = w"
  by (simp_all add: ready_client_def new_client_def worker_id_def sample_spec_def)

lemma ready_client_fit: "answers_identified ds \<Longrightarrow> client_fit strict (ready_client w sends ds)"
  by (simp add: client_fit_def ready_client_ok)

lemma sample_sched_ok:
  assumes "ws \<noteq> []" and "list_all (\<lambda>w. client_fit strict w \<and> wc_state w = READY) ws"
    and "distinct (map worker_id ws)" and "case mc of None \<Rightarrow> True | Some k \<Rightarrow> 0 \<le> k"
  shows "sched_ok strict (sample_sched ws mc)"
proof -
  have "client_job (worker_at (sample_sched ws mc) i) = None" if "i < length ws" for i
    using assms(2) that by (auto simp: worker_at_def sample_sched_def client_job_def list_all_length)
  with assms show ?thesis
    by (auto simp: sched_ok_def fleet_ok_def queue_ok_def sample_sched_def outstanding_def
        within_limit_def list_all_iff split: option.splits)
qed

text \<open>C1. For every sequence of calls (and children dying at any point) from a new scheduler on
  ready workers: a closed scheduler stays closed, and an open one has at most the configured
  number of queued and of concurrent requests, holds no request twice, and its table of active
  requests says of every worker exactly what the worker runs.\<close>

theorem scheduler_invariant:
  assumes "mk_scheduler ws mp qt mi mc clock = Inr s0" and "list_all client_ok ws"
    and "s = foldl sched_invoke s0 xs"
  shows "(sc_closed s \<longrightarrow> sc_closed (foldl sched_invoke s ys)) \<and>
    (\<not> sc_closed s \<longrightarrow>
       int (length (sc_pending s)) \<le> sc_max_pending s \<and>
       (case sc_max_concurrent s of None \<Rightarrow> True | Some k \<Rightarrow> int (length (sc_active s)) \<le> k) \<and>
       (\<forall>rid. count (outstanding s) rid \<le> 1) \<and>
       (\<forall>i < length (sc_workers s).
          dict_get (sc_active s) (wid s i) = client_job (worker_at s i)))"
proof -
  have ready: "list_all (\<lambda>w. wc_state w = READY) ws"
    using assms(1) by (auto simp: mk_scheduler_def list_ex_iff list_all_iff split: if_splits)
  with assms(2) have fit: "list_all (client_fit False) ws" by (auto simp: client_fit_def list_all_iff)
  from mk_scheduler_ok [OF assms(1) fit] have ok0: "sched_ok False s0" by simp
  from sched.calls_inv [OF ok0] assms(3) have ok: "sched_ok False s" by simp
  with sched.calls_final [OF ok, of True ys] show ?thesis
    by (auto simp: sched_ok_def fleet_ok_def queue_ok_def within_limit_def)
qed

theorem scheduler_invariant_witness:
  "int (length (sc_pending (foldl sched_invoke (sample_sched [ready_client ''a'' [] []] None)
     [Submit_Request (sample_request ''r1''), Submit_Request (sample_request ''r2'')]))) = 1 \<and>
   count (outstanding (foldl sched_invoke (sample_sched [ready_client ''a'' [] []] None)
     [Submit_Request (sample_request ''r1''), Submit_Request (sample_request ''r2'')])) ''r1'' \<le> 1"
proof -
  have mk: "mk_scheduler [ready_client ''a'' [] []] (PInt 2) PNone PNone PNone (\<lambda>n. of_nat n) =
      Inr (sample_sched [ready_client ''a'' [] []] None)"
    by (simp add: mk_scheduler_def time_limit_def positive_int_def sample_sched_def)
  let ?s = "foldl sched_invoke (sample_sched [ready_client ''a'' [] []] None)
     [Submit_Request (sample_request ''r1''), Submit_Request (sample_request ''r2'')]"
  have "length (sc_pending ?s) = 1 \<and> \<not> sc_closed ?s"
    by (simp add: submit_request_def ready_workers_def healthy_workers_def below_limit_def worker_at_def
        sample_sched_def submit_def mark_active_def monotonic_def set_worker_def wid_def
        sample_request_def Let_def)
  with scheduler_invariant [OF mk, of ?s "[Submit_Request (sample_request ''r1''),
      Submit_Request (sample_request ''r2'')]" "[]"] ready_client_ok
  show ?thesis by simp
qed




definition answer :: "string \<Rightarrow> string \<Rightarrow> delivery" where
  "answer w rid = Deliver (plain_message Stream_End_Kind w (Some rid) [])"

lemma answers_identified_answer: "answers_identified [answer w rid]"
  by (simp add: answers_identified_def answer_def plain_message_def)

lemmas run_sched = submit_request_def ready_workers_def healthy_workers_def below_limit_def worker_at_def
  sample_sched_def submit_def mark_active_def monotonic_def set_worker_def wid_def sample_request_def
  Let_def


text \<open>Queued requests are dispatched in the order of their submission: one run of the dispatch
  loop hands a prefix of the queue, in order, to workers, and leaves the rest in order; if it
  raises, the request at the head of the rest is gone as well.\<close>

theorem dispatch_fifo:
  assumes "sched_ok strict s" and "\<not> sc_closed s" and "dispatch_loop s = (r, t)"
  shows "\<exists>k \<le> length (sc_pending s).
    map snd (sc_active t) = map snd (sc_active s) @ map pending_id (take k (sc_pending s)) \<and>
    sc_pending t = drop (if isOK r then k else Suc k) (sc_pending s) \<and>
    (case sc_max_concurrent s of None \<Rightarrow> True | Some m \<Rightarrow> int (length (sc_active t)) \<le> m)"
proof -
  from assms(1,2) have f: "fleet_ok strict s" and q: "queue_ok s" by (auto simp: sched_ok_def)
  from dispatch_loop_served [OF f assms(3)] have "advances s t"
    by (cases r) (auto simp: served_def moves_def)
  with q have "within_limit t" "sc_max_concurrent t = sc_max_concurrent s"
    by (auto simp: advances_def queue_ok_def same_setup_def)
  with dispatch_loop_fifo [OF f assms(3)] show ?thesis by (auto simp: within_limit_def)
qed

definition queued :: "string \<Rightarrow> pending_request" where
  "queued rid = \<lparr>pr_request = sample_request rid, pr_enqueued_at = 0\<rparr>"

definition queued_sched :: "worker_client list \<Rightarrow> string list \<Rightarrow> scheduler" where
  "queued_sched ws rids =
     (sample_sched ws None)\<lparr>sc_pending := map queued rids, sc_submitted := set rids\<rparr>"

lemma queued_sched_ok:
  assumes "ws \<noteq> []" and "list_all (\<lambda>w. client_fit strict w \<and> wc_state w = READY) ws"
    and "distinct (map worker_id ws)" and "length rids \<le> 2" and "distinct rids"
  shows "sched_ok strict (queued_sched ws rids)"
proof -
  have p: "map pending_id (map queued rids) = rids"
    by (simp add: o_def pending_id_def queued_def sample_request_def)
  from sample_sched_ok [OF assms(1-3), of None] have f: "fleet_ok strict (sample_sched ws None)"
    by (simp add: sched_ok_def sample_sched_def)
  have "fleet_ok strict (queued_sched ws rids) = fleet_ok strict (sample_sched ws None)"
    by (rule fleet_ok_cong) (simp_all add: queued_sched_def)
  moreover have "count (mset rids) x \<le> 1" for x
    using assms(5) by (simp add: distinct_count_atmost_1)
  ultimately show ?thesis using f assms(4) p
    by (simp add: sched_ok_def queue_ok_def outstanding_def within_limit_def queued_sched_def sample_sched_def)
qed

theorem dispatch_fifo_witness:
  "\<exists>k \<le> 2. map snd (sc_active (snd (dispatch_loop (queued_sched [ready_client ''a'' [] []] [''r1'', ''r2''])))) =
     take k [''r1'', ''r2'']"
proof -
  let ?s = "queued_sched [ready_client ''a'' [] []] [''r1'', ''r2'']"
  have ok: "sched_ok True ?s"
    by (rule queued_sched_ok) (simp_all add: ready_client_fit answers_identified_def)
  obtain r t where d: "dispatch_loop ?s = (r, t)" by fastforce
  have ps: "sc_pending ?s = [queued ''r1'', queued ''r2'']" by (simp add: queued_sched_def)
  have "\<not> sc_closed ?s" by (simp add: queued_sched_def sample_sched_def)
  from dispatch_fifo [OF ok this d] obtain k where "k \<le> length (sc_pending ?s)"
    "map snd (sc_active t) = map snd (sc_active ?s) @ map pending_id (take k (sc_pending ?s))" by blast
  with d ps show ?thesis
    by (intro exI [of _ k])
      (simp add: take_map [symmetric] pending_id_def queued_def sample_request_def,
       simp add: queued_sched_def sample_sched_def)
qed

text \<open>The inference time limit. \<open>_expire_active\<close> removes from the table of active requests exactly
  those that have run for the limit or longer at the clock reading it takes; the ids it removes are
  answered by its events, and no other request is affected unless no healthy worker is left.\<close>

theorem inference_timeout_exact:
  assumes "sched_ok True s" and "\<not> sc_closed s" and "sc_max_inference s = Some timeout"
  shows "sc_active (expire_active s) =
      filter (\<lambda>(w, rid). case dict_get (sc_active_started s) w of
                           None \<Rightarrow> True
                         | Some started \<Rightarrow> elapsed (sc_clock s (sc_ticks s)) started < timeout) (sc_active s) \<and>
    outstanding s + settled (sc_events s) =
      outstanding (expire_active s) + settled (sc_events (expire_active s)) \<and>
    sc_pending (expire_active s) \<in> {sc_pending s, []}"
proof -
  from assms(1,2) have f: "fleet_ok True s" by (simp add: sched_ok_def)
  have pend: "sc_pending (fold (expire_worker timeout now) is u) = sc_pending u" for now "is" u
    by (induction "is" arbitrary: u) (simp_all add: expire_worker_def split: option.split)
  have "sc_pending (expire_active s) \<in> {sc_pending s, []}"
    using assms(3) pend by (simp add: expire_active_def monotonic_def fail_pending_without_healthy_workers_def)
  with expire_active_filter [OF f assms(3)] expire_active_moves [OF f] show ?thesis
    by (auto simp: moves_def ledger_def in_time_def)
qed

definition busy_sched :: "rat \<Rightarrow> scheduler" where
  "busy_sched limit =
     (sample_sched [(ready_client ''a'' [] [])\<lparr>wc_active := Some ''r1'', wc_state := BUSY\<rparr>] None)
       \<lparr>sc_active := [(''a'', ''r1'')], sc_active_started := [(''a'', 0)], sc_submitted := {''r1''},
        sc_ticks := 1, sc_max_inference := Some limit\<rparr>"

lemma busy_sched_ok: "sched_ok True (busy_sched limit)"
  by (auto simp: busy_sched_def sched_ok_def fleet_ok_def queue_ok_def sample_sched_def outstanding_def
      within_limit_def client_fit_def client_ok_def ready_client_def new_client_def worker_id_def
      sample_spec_def wid_def worker_at_def client_job_def answers_identified_def)

theorem inference_timeout_exact_witness: "sc_active (expire_active (busy_sched 1)) = []"
proof -
  have "\<not> sc_closed (busy_sched 1)" and "sc_max_inference (busy_sched 1) = Some 1"
    by (simp_all add: busy_sched_def sample_sched_def)
  moreover have "elapsed 1 0 = 1"
    by (simp add: elapsed_def fl64_def ulp_exp_def log2_floor_def round_half_even_def bitlen_eq_zero_iff)
  ultimately show ?thesis
    using inference_timeout_exact [OF busy_sched_ok, of 1 1]
    by (simp add: busy_sched_def sample_sched_def)
qed

text \<open>Cancellation. A request that is queued or active is removed and answered by the returned
  cancellation event; what else was held is still held or, when no healthy worker is left, reported.
  A request that is not held raises and nothing changes.\<close>

theorem cancel_contract:
  assumes "sched_ok True s" and "\<not> sc_closed s" and "cancel rid s = (r, t)"
  shows "sched_ok True t \<and>
    (case r of
       Inr m \<Rightarrow> wm_kind m = Cancelled_Kind \<and> wm_request_id m = Some rid \<and> rid \<in># outstanding s \<and>
         rid \<notin># outstanding t \<and>
         outstanding s + settled (sc_events s) = add_mset rid (outstanding t + settled (sc_events t))
     | Inl e \<Rightarrow> t = s \<and> (rid = [] \<or> rid \<notin># outstanding s))"
proof -
  from assms(1,2) have f: "fleet_ok True s" and q: "queue_ok s" by (auto simp: sched_ok_def)
  note c = cancel_cases [OF f assms(3)]
  have "rid \<in># outstanding s \<and> rid \<notin># outstanding t" if "r = Inr m" for m
  proof -
    from c that have sub: "add_mset rid (outstanding t) \<subseteq># outstanding s" by simp
    from q have "count (outstanding s) rid \<le> 1" by (simp add: queue_ok_def)
    with mset_subset_eq_count [OF sub, of rid] have "count (outstanding t) rid = 0" by simp
    moreover from sub have "rid \<in># outstanding s" by (metis mset_subset_eqD union_single_eq_member)
    ultimately show ?thesis by (simp add: not_in_iff)
  qed
  with c cancel_ok [OF assms(1,3,2)] show ?thesis
    by (cases r) (auto simp: ledger_def)
qed

theorem cancel_contract_witness:
  "''r1'' \<notin># outstanding (snd (cancel ''r1'' (busy_sched 1)))"
proof -
  obtain r t where c: "cancel ''r1'' (busy_sched 1) = (r, t)" by fastforce
  have "\<not> sc_closed (busy_sched 1)" and "''r1'' \<in># outstanding (busy_sched 1)"
    by (simp_all add: busy_sched_def sample_sched_def outstanding_def)
  with cancel_contract [OF busy_sched_ok _ c] c show ?thesis by (cases r) auto
qed



text \<open>When the concurrency limit binds, cancelling the running request leaves the queue stalled:
  a scheduler with nothing active, nothing to report and no queue limit polls forever without
  dispatching, whether or not a worker is ready for the queued requests. The witness reaches such a
  state, with a ready worker, by two submissions and a cancellation.\<close>

theorem stalled_queue:
  assumes "sc_active s = []" and "sc_events s = []" and "sc_queue_timeout s = None"
    and "healthy_workers s \<noteq> []"
  shows "sc_pending (((\<lambda>u. snd (poll u)) ^^ n) s) = sc_pending s \<and>
    sc_workers (((\<lambda>u. snd (poll u)) ^^ n) s) = sc_workers s \<and>
    fst (poll (((\<lambda>u. snd (poll u)) ^^ n) s)) = Inr []"
proof -
  from polls_idle [OF assms, of n] obtain m where m: "((\<lambda>u. snd (poll u)) ^^ n) s = s\<lparr>sc_ticks := m\<rparr>"
    by blast
  have "healthy_workers (s\<lparr>sc_ticks := m\<rparr>) = healthy_workers s"
    by (simp add: healthy_workers_def worker_at_def)
  with assms poll_idle [of "s\<lparr>sc_ticks := m\<rparr>"] m show ?thesis by auto
qed

theorem stalled_queue_witness:
  "\<exists>s. s = foldl sched_invoke
        (sample_sched [ready_client ''a'' [] [], ready_client ''b'' [] []] (Some 1))
        [Submit_Request (sample_request ''r1''), Submit_Request (sample_request ''r2''),
         Cancel_Request ''r1''] \<and>
     ready_workers s = [1] \<and> sc_pending (((\<lambda>u. snd (poll u)) ^^ 1000) s) \<noteq> []"
proof -
  let ?s = "foldl sched_invoke
        (sample_sched [ready_client ''a'' [] [], ready_client ''b'' [] []] (Some 1))
        [Submit_Request (sample_request ''r1''), Submit_Request (sample_request ''r2''),
         Cancel_Request ''r1'']"
  have "sc_active ?s = [] \<and> sc_events ?s = [] \<and> sc_queue_timeout ?s = None \<and> healthy_workers ?s = [1] \<and>
    ready_workers ?s = [1] \<and> sc_pending ?s \<noteq> []"
    by (simp add: run_sched cancel_def pending_id_def cancel_active_def terminate_and_join_def
        cleanup_transport_def release_def fail_pending_without_healthy_workers_def worker_id_def
        ready_client_def new_client_def sample_spec_def upt_conv_Cons)
  with stalled_queue [of ?s 1000] show ?thesis by simp
qed

text \<open>A dead worker can swallow a request. When the worker chosen for the request at the head of
  the queue refuses it because its connection is broken, the loop raises \<open>WorkerExitedError\<close> with the
  request already taken off the queue: it is neither queued nor active, no event reports it, and its
  id stays reserved.\<close>

theorem dispatch_loses_request:
  assumes "sched_ok strict s" and "\<not> sc_closed s" and "sc_pending s = p # rest" and "below_limit s"
    and "ready_workers s = i # js" and "wc_control (worker_at s i) = Some (False # sends)"
  shows "\<exists>e t. dispatch_loop s = (Inl e, t) \<and> is_worker_class WorkerExitedError e \<and>
    sc_pending t = rest \<and> sc_active t = sc_active s \<and> sc_events t = sc_events s \<and>
    pending_id p \<notin># outstanding t \<and> pending_id p \<in> sc_submitted t"
proof -
  from assms(1,2) have f: "fleet_ok strict s" and q: "queue_ok s" by (auto simp: sched_ok_def)
  from hd_ready [OF assms(5)] have "wc_state (worker_at s i) = READY" by (simp add: client_ready_def)
  with assms(6) obtain e c where sub: "submit (pr_request p) (worker_at s i) = (Inl e, c)"
    by (auto simp: submit_def)
  define t where "t = (set_worker i c s)\<lparr>sc_pending := rest\<rparr>"
  from refuse_served [OF f assms(3,5) sub] have e: "\<not> is_worker_class WorkerStateError e"
    "is_worker_class WorkerExitedError e" by (simp_all add: served_def)
  with assms sub have "dispatch_loop s = (Inl e, t)" by (simp add: dispatch_loop_unfold [of s] t_def)
  moreover have o: "outstanding s = add_mset (pending_id p) (outstanding t)"
    using assms(3) by (simp add: outstanding_def t_def)
  then have "pending_id p \<notin># outstanding t"
    using q by (auto simp: queue_ok_def not_in_iff dest!: spec [of _ "pending_id p"])
  moreover from o q have "pending_id p \<in> sc_submitted t" by (simp add: queue_ok_def t_def)
  ultimately show ?thesis using e by (auto simp: t_def)
qed

theorem dispatch_loses_request_witness:
  "outstanding (snd (dispatch_loop (queued_sched [ready_client ''a'' [False] []] [''r1'']))) = {#}"
proof -
  let ?s = "queued_sched [ready_client ''a'' [False] []] [''r1'']"
  have ok: "sched_ok True ?s"
    by (rule queued_sched_ok) (simp_all add: ready_client_fit answers_identified_def)
  have s: "\<not> sc_closed ?s" "sc_pending ?s = queued ''r1'' # []" "below_limit ?s" "ready_workers ?s = 0 # []"
    "wc_control (worker_at ?s 0) = Some (False # [])" "sc_active ?s = []"
    by (simp_all add: queued_sched_def sample_sched_def below_limit_def ready_workers_def worker_at_def)
  from dispatch_loses_request [OF ok s(1-5)] s(6) show ?thesis
    by (auto simp: outstanding_def)
qed



text \<open>A worker whose connection refuses the shutdown command makes \<open>close\<close> raise, and the
  workers after it in the tuple are not shut down: they keep their state and their children.\<close>

theorem close_broken_pipe:
  assumes "sched_ok strict s" and "\<not> sc_closed s" and "wc_state (worker_at s 0) = READY"
    and "wc_control (worker_at s 0) = Some (False # sends)"
  shows "\<exists>t. close s = (Inl (OtherError ''BrokenPipeError'' ''Broken pipe''), t) \<and> sc_closed t \<and>
    (\<forall>i > 0. worker_at t i = worker_at s i)"
proof -
  from assms(1,2) have f: "fleet_ok strict s" by (simp add: sched_ok_def)
  then have n: "0 < length (sc_workers s)" by (simp add: fleet_ok_def)
  from fleet_ok_at(1) [OF f n] have "client_ok (worker_at s 0)" by (simp add: client_fit_def)
  with assms(3,4) obtain c where
    "shutdown (worker_at s 0) = (Inl (OtherError ''BrokenPipeError'' ''Broken pipe''), c)"
    by (auto simp: shutdown_def shutdown_graceful_def client_ok_def)
  with n assms(2) show ?thesis
    by (simp add: close_def Let_def upt_conv_Cons worker_at_def)
qed

theorem close_broken_pipe_witness:
  "wc_state (worker_at (snd (close (sample_sched [ready_client ''a'' [False] [], ready_client ''b'' [] []] None))) 1)
     = READY"
proof -
  let ?s = "sample_sched [ready_client ''a'' [False] [], ready_client ''b'' [] []] None"
  have ok: "sched_ok True ?s"
    by (rule sample_sched_ok) (simp_all add: ready_client_fit answers_identified_def)
  from close_broken_pipe [OF ok] show ?thesis
    by (fastforce simp: sample_sched_def worker_at_def)
qed

end
