(* ===== verification/Api_Runtime.thy ===== *)
theory Api_Runtime
  imports Scheduler_Contracts
begin

text \<open>
  \<open>voxcpm_runtime/api_runtime.py\<close>: the futures and stream queues over the scheduler. The public
  operations run under one lock and are single steps. The dispatcher thread is a state machine
  (\<open>dispatcher\<close>) whose steps are the pieces the lock does not join: polling, taking up an event, one
  turn of the loop that waits for room in a stream queue (its guards, and then the put), the test \<open>future.done()\<close> and the call
  \<open>future.set_result\<close>. The holder of a future may cancel it and the reader of a queue may take from it
  between any two steps. A theorem for all lists of steps holds for every interleaving of them.

  A future and a queue are objects that outlive their table entry, and a request id is accepted once
  only, so they are kept in stores indexed by request id. Of a queue both the messages already taken and
  those waiting are kept. The clock is the reading a step is given.
\<close>

section \<open>State\<close>

datatype future = Future_Pending | Future_Done worker_message | Future_Cancelled

fun future_done :: "future \<Rightarrow> bool" where
  "future_done Future_Pending = False"
| "future_done _ = True"

datatype dispatcher =
    Polling
  | Handling "worker_message list"
  | Putting worker_message string "rat option" "worker_message list"
  | Offering worker_message string "rat option" "worker_message list"
  | Resolving worker_message string "worker_message list"
  | Setting worker_message string "worker_message list"
  | Finished
  | Crashed

record api_runtime =
  ar_scheduler :: scheduler
  ar_queue_size :: int
  ar_backpressure :: "rat option"
  ar_futures :: "string list"
  ar_streams :: "string list"
  ar_closed :: bool
  ar_stop :: bool
  ar_thread :: dispatcher
  ar_future :: "string \<Rightarrow> future option"
  ar_queue :: "string \<Rightarrow> (worker_message list \<times> worker_message list) option"

definition mk_api_runtime ::
    "worker_client list \<Rightarrow> pyval \<Rightarrow> pyval \<Rightarrow> pyval \<Rightarrow> pyval \<Rightarrow> pyval \<Rightarrow> pyval \<Rightarrow> (nat \<Rightarrow> rat) \<Rightarrow>
     exn + api_runtime" where
  "mk_api_runtime ws max_pending stream_chunks queue_timeout max_inference max_concurrent backpressure clock =
     (if \<not> positive_int stream_chunks
      then Inl (ValueError ''stream_queue_chunks must be a positive integer'')
      else if ws = [] then Inl (ValueError ''workers must be a non-empty tuple'')
      else and_then (time_limit backpressure (\<lambda>x. x \<le> 0)
             ''stream_backpressure_timeout_seconds must be a positive finite number'') (\<lambda>bp.
        and_then (mk_scheduler ws max_pending queue_timeout max_inference max_concurrent clock) (\<lambda>s.
          Inr \<lparr>ar_scheduler = s, ar_queue_size = int_of stream_chunks, ar_backpressure = bp,
               ar_futures = [], ar_streams = [], ar_closed = False, ar_stop = False,
               ar_thread = Polling, ar_future = (\<lambda>_. None), ar_queue = (\<lambda>_. None)\<rparr>)))"

section \<open>Public operations\<close>

type_synonym 'a rt = "(exn + 'a) \<times> api_runtime"

definition scheduler_closed :: exn where
  "scheduler_closed = worker_exn SchedulerAdmissionError ''scheduler_closed'' False []"

definition rt_submit :: "worker_request \<Rightarrow> api_runtime \<Rightarrow> unit rt" where
  "rt_submit q a =
     (if ar_closed a then (Inl scheduler_closed, a)
      else case submit_request q (ar_scheduler a) of
        (Inl e, s) \<Rightarrow> (Inl e, a\<lparr>ar_scheduler := s\<rparr>)
      | (Inr _, s) \<Rightarrow>
          (Inr (), a\<lparr>ar_scheduler := s, ar_futures := ar_futures a @ [wr_id q],
                     ar_future := (ar_future a)(wr_id q \<mapsto> Future_Pending)\<rparr>))"

definition rt_submit_stream :: "worker_request \<Rightarrow> api_runtime \<Rightarrow> unit rt" where
  "rt_submit_stream q a =
     (if wr_operation q \<noteq> Stream then (Inl (ValueError ''submit_stream requires a stream request''), a)
      else if ar_closed a then (Inl scheduler_closed, a)
      else case submit_request q (ar_scheduler a) of
        (Inl e, s) \<Rightarrow> (Inl e, a\<lparr>ar_scheduler := s\<rparr>)
      | (Inr _, s) \<Rightarrow>
          (Inr (), a\<lparr>ar_scheduler := s, ar_streams := ar_streams a @ [wr_id q],
                     ar_queue := (ar_queue a)(wr_id q \<mapsto> ([], []))\<rparr>))"

text \<open>\<open>future.cancel()\<close>, and the holder of the future calling it.\<close>

definition cancel_future :: "string \<Rightarrow> api_runtime \<Rightarrow> api_runtime" where
  "cancel_future rid a =
     (case ar_future a rid of
        Some Future_Pending \<Rightarrow> a\<lparr>ar_future := (ar_future a)(rid \<mapsto> Future_Cancelled)\<rparr>
      | _ \<Rightarrow> a)"

definition rt_cancel :: "string \<Rightarrow> api_runtime \<Rightarrow> worker_message rt" where
  "rt_cancel rid a =
     (case cancel rid (ar_scheduler a) of
        (Inl e, s) \<Rightarrow> (Inl e, a\<lparr>ar_scheduler := s\<rparr>)
      | (Inr ev, s) \<Rightarrow>
         (let a1 = a\<lparr>ar_scheduler := s, ar_futures := removeAll rid (ar_futures a),
                     ar_streams := removeAll rid (ar_streams a)\<rparr> in
          (Inr ev, if rid \<in> set (ar_futures a) then cancel_future rid a1 else a1)))"

text \<open>\<open>close\<close> in two steps, around the join of the dispatcher, which gives up after two seconds.\<close>

definition rt_close_begin :: "api_runtime \<Rightarrow> api_runtime" where
  "rt_close_begin a = (if ar_closed a then a else a\<lparr>ar_closed := True, ar_stop := True\<rparr>)"

definition rt_close_finish :: "api_runtime \<Rightarrow> unit rt" where
  "rt_close_finish a =
     (case close (ar_scheduler a) of
        (Inl e, s) \<Rightarrow> (Inl e, a\<lparr>ar_scheduler := s\<rparr>)
      | (Inr _, s) \<Rightarrow>
          (Inr (), (fold cancel_future (ar_futures a) (a\<lparr>ar_scheduler := s\<rparr>))\<lparr>ar_futures := [], ar_streams := []\<rparr>))"

section \<open>The dispatcher thread\<close>

definition routed_kind :: "message_kind \<Rightarrow> bool" where
  "routed_kind k \<longleftrightarrow> k \<in> {Stream_Chunk_Kind, Stream_End_Kind, Error_Kind, Cancelled_Kind}"

definition future_kind :: "message_kind \<Rightarrow> bool" where
  "future_kind k \<longleftrightarrow> k \<in> {Result_Kind, Error_Kind, Cancelled_Kind}"

definition ends_stream :: "message_kind \<Rightarrow> bool" where
  "ends_stream k \<longleftrightarrow> k \<in> {Stream_End_Kind, Error_Kind, Cancelled_Kind}"

text \<open>One turn of \<open>while not self._stop.is_set()\<close>: stop, or poll; a \<open>WorkerError\<close> counts as no events,
  any other exception ends the thread.\<close>

definition dispatch_poll :: "api_runtime \<Rightarrow> api_runtime" where
  "dispatch_poll a =
     (if ar_stop a then a\<lparr>ar_thread := Finished\<rparr>
      else case poll (ar_scheduler a) of
        (Inr evs, s) \<Rightarrow> a\<lparr>ar_scheduler := s, ar_thread := Handling evs\<rparr>
      | (Inl e, s) \<Rightarrow>
          a\<lparr>ar_scheduler := s, ar_thread := (if is_worker_error e then Handling [] else Crashed)\<rparr>)"

text \<open>The body of \<open>for event in events\<close> up to the first point where the lock is released:
  \<open>_route_stream_event\<close> finds the queue and sets the deadline, or the future is popped.\<close>

definition take_future :: "worker_message \<Rightarrow> string \<Rightarrow> worker_message list \<Rightarrow> api_runtime \<Rightarrow> api_runtime" where
  "take_future ev rid rest a =
     (if \<not> future_kind (wm_kind ev) then a\<lparr>ar_thread := Handling rest\<rparr>
      else if rid \<in> set (ar_futures a)
      then a\<lparr>ar_futures := removeAll rid (ar_futures a), ar_thread := Resolving ev rid rest\<rparr>
      else a\<lparr>ar_thread := Handling rest\<rparr>)"

definition dispatch_event :: "rat \<Rightarrow> worker_message \<Rightarrow> worker_message list \<Rightarrow> api_runtime \<Rightarrow> api_runtime" where
  "dispatch_event now ev rest a =
     (case wm_request_id ev of
        None \<Rightarrow> a\<lparr>ar_thread := Handling rest\<rparr>
      | Some rid \<Rightarrow>
          if routed_kind (wm_kind ev) \<and> rid \<in> set (ar_streams a)
          then a\<lparr>ar_thread := Putting ev rid (map_option (\<lambda>t. fl64 (now + t)) (ar_backpressure a)) rest\<rparr>
          else take_future ev rid rest a)"

text \<open>The stream queue: room, put, and the drain of the timeout path, after which the error fits.\<close>

definition waiting :: "string \<Rightarrow> api_runtime \<Rightarrow> worker_message list" where
  "waiting rid a = (case ar_queue a rid of None \<Rightarrow> [] | Some (_, w) \<Rightarrow> w)"

definition queue_put :: "string \<Rightarrow> worker_message \<Rightarrow> api_runtime \<Rightarrow> api_runtime" where
  "queue_put rid m a =
     (case ar_queue a rid of
        None \<Rightarrow> a
      | Some (taken, w) \<Rightarrow> a\<lparr>ar_queue := (ar_queue a)(rid \<mapsto> (taken, w @ [m]))\<rparr>)"

definition drain_queue :: "string \<Rightarrow> api_runtime \<Rightarrow> api_runtime" where
  "drain_queue rid a =
     (case ar_queue a rid of
        None \<Rightarrow> a
      | Some (taken, _) \<Rightarrow> a\<lparr>ar_queue := (ar_queue a)(rid \<mapsto> (taken, []))\<rparr>)"

definition backpressure_error :: "string \<Rightarrow> worker_message" where
  "backpressure_error rid =
     error_message ''api'' (Some rid)
       \<lparr>wd_code = ''stream_backpressure_timeout'',
        wd_message = ''Stream consumer did not drain buffered audio in time.'',
        wd_retryable = True, wd_details = []\<rparr>"

definition close_stream :: "string \<Rightarrow> api_runtime \<Rightarrow> api_runtime" where
  "close_stream rid a = a\<lparr>ar_streams := removeAll rid (ar_streams a)\<rparr>"

text \<open>After the loop of \<open>_route_stream_event\<close>.\<close>

definition end_routing :: "worker_message \<Rightarrow> string \<Rightarrow> worker_message list \<Rightarrow> api_runtime \<Rightarrow> api_runtime" where
  "end_routing ev rid rest a =
     (let a1 = (if ends_stream (wm_kind ev) then close_stream rid a else a) in a1\<lparr>ar_thread := Handling rest\<rparr>)"

definition dispatch_turn ::
    "rat \<Rightarrow> worker_message \<Rightarrow> string \<Rightarrow> rat option \<Rightarrow> worker_message list \<Rightarrow> api_runtime \<Rightarrow> api_runtime" where
  "dispatch_turn now ev rid deadline rest a =
     (if ar_stop a then end_routing ev rid rest a
      else if rid \<notin> set (ar_streams a) then a\<lparr>ar_thread := Handling rest\<rparr>
      else if (case deadline of None \<Rightarrow> False | Some d \<Rightarrow> fl64 (d - now) \<le> 0)
      then (queue_put rid (backpressure_error rid) (drain_queue rid (close_stream rid a)))\<lparr>ar_thread := Handling rest\<rparr>
      else a\<lparr>ar_thread := Offering ev rid deadline rest\<rparr>)"

text \<open>\<open>stream_queue.put\<close> outside the lock: the stream may have been unregistered since the test. A put
  that finds no room in its time goes back to the head of the loop.\<close>

definition dispatch_put ::
    "worker_message \<Rightarrow> string \<Rightarrow> rat option \<Rightarrow> worker_message list \<Rightarrow> api_runtime \<Rightarrow> api_runtime" where
  "dispatch_put ev rid deadline rest a =
     (if int (length (waiting rid a)) < ar_queue_size a
      then end_routing ev rid rest (queue_put rid ev a)
      else a\<lparr>ar_thread := Putting ev rid deadline rest\<rparr>)"

text \<open>\<open>if future is not None and not future.done(): future.set_result(event)\<close>; \<open>set_result\<close> on a
  future that is done raises \<open>InvalidStateError\<close>, which nothing catches.\<close>

definition dispatch_check :: "worker_message \<Rightarrow> string \<Rightarrow> worker_message list \<Rightarrow> api_runtime \<Rightarrow> api_runtime" where
  "dispatch_check ev rid rest a =
     (case ar_future a rid of
        Some Future_Pending \<Rightarrow> a\<lparr>ar_thread := Setting ev rid rest\<rparr>
      | _ \<Rightarrow> a\<lparr>ar_thread := Handling rest\<rparr>)"

definition dispatch_set :: "worker_message \<Rightarrow> string \<Rightarrow> worker_message list \<Rightarrow> api_runtime \<Rightarrow> api_runtime" where
  "dispatch_set ev rid rest a =
     (case ar_future a rid of
        Some Future_Pending \<Rightarrow>
          a\<lparr>ar_future := (ar_future a)(rid \<mapsto> Future_Done ev), ar_thread := Handling rest\<rparr>
      | _ \<Rightarrow> a\<lparr>ar_thread := Crashed\<rparr>)"

definition dispatch_step :: "rat \<Rightarrow> api_runtime \<Rightarrow> api_runtime" where
  "dispatch_step now a =
     (case ar_thread a of
        Polling \<Rightarrow> dispatch_poll a
      | Handling [] \<Rightarrow> a\<lparr>ar_thread := Polling\<rparr>
      | Handling (ev # rest) \<Rightarrow> dispatch_event now ev rest a
      | Putting ev rid deadline rest \<Rightarrow> dispatch_turn now ev rid deadline rest a
      | Offering ev rid deadline rest \<Rightarrow> dispatch_put ev rid deadline rest a
      | Resolving ev rid rest \<Rightarrow> dispatch_check ev rid rest a
      | Setting ev rid rest \<Rightarrow> dispatch_set ev rid rest a
      | _ \<Rightarrow> a)"

section \<open>Everything that can happen\<close>

definition take_message :: "string \<Rightarrow> api_runtime \<Rightarrow> api_runtime" where
  "take_message rid a =
     (case ar_queue a rid of
        Some (taken, m # w) \<Rightarrow> a\<lparr>ar_queue := (ar_queue a)(rid \<mapsto> (taken @ [m], w))\<rparr>
      | _ \<Rightarrow> a)"

datatype rt_call =
    Rt_Submit worker_request
  | Rt_Submit_Stream worker_request
  | Rt_Cancel string
  | Rt_Close_Begin
  | Rt_Close_Finish
  | Rt_Dispatch rat
  | Holder_Cancels string
  | Reader_Takes string
  | Child_Dies nat int

fun rt_invoke :: "api_runtime \<Rightarrow> rt_call \<Rightarrow> api_runtime" where
  "rt_invoke a (Rt_Submit q) = snd (rt_submit q a)"
| "rt_invoke a (Rt_Submit_Stream q) = snd (rt_submit_stream q a)"
| "rt_invoke a (Rt_Cancel rid) = snd (rt_cancel rid a)"
| "rt_invoke a Rt_Close_Begin = rt_close_begin a"
| "rt_invoke a Rt_Close_Finish = (if ar_closed a then snd (rt_close_finish a) else a)"
| "rt_invoke a (Rt_Dispatch now) = dispatch_step now a"
| "rt_invoke a (Holder_Cancels rid) = cancel_future rid a"
| "rt_invoke a (Reader_Takes rid) = take_message rid a"
| "rt_invoke a (Child_Dies i code) = a\<lparr>ar_scheduler := sched_invoke (ar_scheduler a) (Worker_Dies i code)\<rparr>"

section \<open>The invariant\<close>

text \<open>The future in the dispatcher's hands.\<close>

fun in_hand :: "dispatcher \<Rightarrow> string option" where
  "in_hand (Resolving _ rid _) = Some rid"
| "in_hand (Setting _ rid _) = Some rid"
| "in_hand _ = None"

fun thread_ok :: "(string \<Rightarrow> future option) \<Rightarrow> (string \<Rightarrow> (worker_message list \<times> worker_message list) option) \<Rightarrow>
    string list \<Rightarrow> dispatcher \<Rightarrow> bool" where
  "thread_ok fut que reg (Putting ev rid d rest) =
     (wm_request_id ev = Some rid \<and> routed_kind (wm_kind ev) \<and> que rid \<noteq> None)"
| "thread_ok fut que reg (Offering ev rid d rest) =
     (wm_request_id ev = Some rid \<and> routed_kind (wm_kind ev) \<and>
      (case que rid of None \<Rightarrow> False | Some q \<Rightarrow> list_all (\<lambda>m. \<not> ends_stream (wm_kind m)) (fst q @ snd q)))"
| "thread_ok fut que reg (Resolving ev rid rest) =
     (wm_request_id ev = Some rid \<and> future_kind (wm_kind ev) \<and> fut rid \<noteq> None \<and> rid \<notin> set reg)"
| "thread_ok fut que reg (Setting ev rid rest) =
     (wm_request_id ev = Some rid \<and> future_kind (wm_kind ev) \<and> fut rid \<noteq> None \<and> rid \<notin> set reg)"
| "thread_ok fut que reg _ = True"

text \<open>A stream's messages: those waiting fit, all are of its request, and only the last message of a
  stream that is closed ends it.\<close>

definition queue_wf :: "int \<Rightarrow> bool \<Rightarrow> string \<Rightarrow> worker_message list \<times> worker_message list \<Rightarrow> bool" where
  "queue_wf n registered rid q \<longleftrightarrow>
     int (length (snd q)) \<le> n \<and>
     (\<forall>m \<in> set (fst q @ snd q). wm_request_id m = Some rid \<and> routed_kind (wm_kind m)) \<and>
     (\<forall>m \<in> set (if registered then fst q @ snd q else butlast (fst q @ snd q)). \<not> ends_stream (wm_kind m))"

type_synonym futures = "string \<Rightarrow> future option"
type_synonym queues = "string \<Rightarrow> (worker_message list \<times> worker_message list) option"

definition futures_wf :: "string list \<Rightarrow> futures \<Rightarrow> string option \<Rightarrow> bool" where
  "futures_wf reg fut hand \<longleftrightarrow>
     (\<forall>rid \<in> set reg. fut rid \<noteq> None) \<and>
     (\<forall>rid. fut rid = Some Future_Pending \<longrightarrow> rid \<in> set reg \<or> hand = Some rid) \<and>
     (\<forall>rid m. fut rid = Some (Future_Done m) \<longrightarrow> wm_request_id m = Some rid \<and> future_kind (wm_kind m))"

definition streams_wf :: "int \<Rightarrow> string list \<Rightarrow> queues \<Rightarrow> bool" where
  "streams_wf n reg que \<longleftrightarrow>
     (\<forall>rid \<in> set reg. que rid \<noteq> None) \<and>
     (\<forall>rid q. que rid = Some q \<longrightarrow> queue_wf n (rid \<in> set reg) rid q)"

definition known_ids :: "string set \<Rightarrow> futures \<Rightarrow> queues \<Rightarrow> bool" where
  "known_ids ids fut que \<longleftrightarrow> (\<forall>rid. fut rid \<noteq> None \<or> que rid \<noteq> None \<longrightarrow> rid \<in> ids)"

definition runtime_ok :: "api_runtime \<Rightarrow> bool" where
  "runtime_ok a \<longleftrightarrow>
     sched_ok False (ar_scheduler a) \<and> (sc_closed (ar_scheduler a) \<longrightarrow> ar_closed a) \<and>
     ar_stop a = ar_closed a \<and> 0 < ar_queue_size a \<and>
     known_ids (sc_submitted (ar_scheduler a)) (ar_future a) (ar_queue a) \<and>
     futures_wf (ar_futures a) (ar_future a) (in_hand (ar_thread a)) \<and>
     streams_wf (ar_queue_size a) (ar_streams a) (ar_queue a) \<and>
     thread_ok (ar_future a) (ar_queue a) (ar_futures a) (ar_thread a)"

lemma futures_wf_make:
  "futures_wf reg fut hand \<Longrightarrow> fut rid = None \<Longrightarrow> futures_wf (reg @ [rid]) (fut(rid \<mapsto> Future_Pending)) hand"
  by (auto simp: futures_wf_def)

lemma futures_wf_withdraw: "futures_wf reg fut hand \<Longrightarrow> futures_wf reg (fut(rid \<mapsto> Future_Cancelled)) hand"
  by (auto simp: futures_wf_def)

lemma futures_wf_remove:
  "futures_wf reg fut hand \<Longrightarrow> fut rid \<noteq> Some Future_Pending \<Longrightarrow> futures_wf (removeAll rid reg) fut hand"
  by (auto simp: futures_wf_def)

lemma futures_wf_clear:
  "futures_wf reg fut hand \<Longrightarrow> \<forall>rid \<in> set reg. fut rid \<noteq> Some Future_Pending \<Longrightarrow> futures_wf [] fut hand"
  by (auto simp: futures_wf_def)

lemma futures_wf_hand: "futures_wf reg fut None \<Longrightarrow> futures_wf reg fut hand"
  by (auto simp: futures_wf_def)

lemma futures_wf_take: "futures_wf reg fut None \<Longrightarrow> futures_wf (removeAll rid reg) fut (Some rid)"
  by (auto simp: futures_wf_def)

lemma futures_wf_settled:
  "futures_wf reg fut (Some rid) \<Longrightarrow> fut rid \<noteq> Some Future_Pending \<Longrightarrow> futures_wf reg fut None"
  by (auto simp: futures_wf_def)

lemma futures_wf_settle:
  "futures_wf reg fut (Some rid) \<Longrightarrow> wm_request_id m = Some rid \<Longrightarrow> future_kind (wm_kind m) \<Longrightarrow>
   futures_wf reg (fut(rid \<mapsto> Future_Done m)) None"
  by (auto simp: futures_wf_def)

lemma queue_wf_unregister: "queue_wf n reg rid q \<Longrightarrow> queue_wf n (reg \<and> b) rid q"
  by (auto simp: queue_wf_def dest: in_set_butlastD split: if_splits)

lemma streams_wf_make:
  "streams_wf n reg que \<Longrightarrow> que rid = None \<Longrightarrow> 0 < n \<Longrightarrow> streams_wf n (reg @ [rid]) (que(rid \<mapsto> ([], [])))"
  by (auto simp: streams_wf_def queue_wf_def)

lemma streams_wf_remove: "streams_wf n reg que \<Longrightarrow> streams_wf n (removeAll rid reg) que"
  unfolding streams_wf_def set_removeAll Diff_iff
  by (auto intro: queue_wf_unregister)

lemma streams_wf_clear: "streams_wf n reg que \<Longrightarrow> streams_wf n [] que"
  using queue_wf_unregister [where b = False] by (fastforce simp: streams_wf_def)

lemma streams_wf_take:
  "streams_wf n reg que \<Longrightarrow> que rid = Some (taken, m # w) \<Longrightarrow>
   streams_wf n reg (que(rid \<mapsto> (taken @ [m], w)))"
  unfolding streams_wf_def by (force simp: queue_wf_def)

lemma known_ids_mono: "known_ids ids fut que \<Longrightarrow> ids \<subseteq> ids' \<Longrightarrow> known_ids ids' fut que"
  by (auto simp: known_ids_def)

lemma known_ids_future: "known_ids ids fut que \<Longrightarrow> rid \<in> ids \<Longrightarrow> known_ids ids (fut(rid \<mapsto> x)) que"
  by (auto simp: known_ids_def)

lemma known_ids_queue: "known_ids ids fut que \<Longrightarrow> rid \<in> ids \<Longrightarrow> known_ids ids fut (que(rid \<mapsto> x))"
  by (auto simp: known_ids_def)

lemma known_idD:
  "known_ids ids fut que \<Longrightarrow> rid \<notin> ids \<Longrightarrow> fut rid = None"
  "known_ids ids fut que \<Longrightarrow> rid \<notin> ids \<Longrightarrow> que rid = None"
  "known_ids ids fut que \<Longrightarrow> fut rid = Some x \<Longrightarrow> rid \<in> ids"
  "known_ids ids fut que \<Longrightarrow> que rid = Some q \<Longrightarrow> rid \<in> ids"
  unfolding known_ids_def by (blast, blast, force, force)

lemma thread_ok_queue:
  "thread_ok f q r t \<Longrightarrow> \<forall>x taken w. q x = Some (taken, w) \<longrightarrow>
     (\<exists>taken' w'. q' x = Some (taken', w') \<and> taken' @ w' = taken @ w) \<Longrightarrow> thread_ok f q' r t"
  by (cases t) (fastforce split: option.splits simp flip: list_all_append)+

lemma thread_ok_future:
  "thread_ok f q r t \<Longrightarrow> \<forall>x. f x \<noteq> None \<longrightarrow> f' x \<noteq> None \<Longrightarrow>
   \<forall>x \<in> set r'. x \<in> set r \<or> f x = None \<Longrightarrow> thread_ok f' q r' t"
  by (cases t) auto

text \<open>The abstract view: a table of promises, each made once and settled at most once, by an answer to
  its own request or by a cancellation.\<close>

inductive promise_step :: "(string \<Rightarrow> future option) \<Rightarrow> (string \<Rightarrow> future option) \<Rightarrow> bool" where
  make: "f rid = None \<Longrightarrow> promise_step f (f(rid \<mapsto> Future_Pending))"
| settle: "f rid = Some Future_Pending \<Longrightarrow> wm_request_id m = Some rid \<Longrightarrow> future_kind (wm_kind m) \<Longrightarrow>
    promise_step f (f(rid \<mapsto> Future_Done m))"
| withdraw: "f rid = Some Future_Pending \<Longrightarrow> promise_step f (f(rid \<mapsto> Future_Cancelled))"

abbreviation promises :: "(string \<Rightarrow> future option) \<Rightarrow> (string \<Rightarrow> future option) \<Rightarrow> bool" where
  "promises \<equiv> promise_step\<^sup>*\<^sup>*"

inductive_cases promise_stepE: "promise_step f g"

lemma promise_step_settled: "promise_step f g \<Longrightarrow> f rid = Some x \<Longrightarrow> future_done x \<Longrightarrow> g rid = Some x"
  by (cases rule: promise_step.cases) auto

lemma promises_settled: "promises f g \<Longrightarrow> f rid = Some x \<Longrightarrow> future_done x \<Longrightarrow> g rid = Some x"
  by (induction rule: rtranclp_induct) (auto dest: promise_step_settled)

section \<open>Frames of the scheduler\<close>

lemma submit_request_ids:
  assumes "submit_request q s = (r, t)"
  shows "sc_closed t = sc_closed s \<and>
    (case r of Inl _ \<Rightarrow> sc_submitted t = sc_submitted s
     | Inr _ \<Rightarrow> wr_id q \<notin> sc_submitted s \<and> sc_submitted t = insert (wr_id q) (sc_submitted s))"
  using assms
  by (auto simp: submit_request_def Let_def monotonic_def split: if_splits prod.splits sum.splits)

lemma cancel_ids:
  assumes "cancel rid s = (r, t)"
  shows "sc_closed t = sc_closed s \<and> sc_submitted t = sc_submitted s"
  using assms
  by (auto simp: cancel_def fail_pending_without_healthy_workers_def
      split: if_splits list.splits option.splits prod.splits sum.splits)

lemma shutdown_workers_ids: "shutdown_workers is s = (r, t) \<Longrightarrow> sc_submitted t = sc_submitted s"
  by (induction "is" s arbitrary: r t rule: shutdown_workers.induct)
    (auto split: prod.splits sum.splits if_splits)

lemma close_ids: "close s = (r, t) \<Longrightarrow> sc_submitted t = sc_submitted s"
  using shutdown_workers_ids
  by (fastforce simp: close_def Let_def split: if_splits prod.splits sum.splits)

lemma poll_ids:
  assumes "sched_ok False s" and "\<not> sc_closed s" and "poll s = (r, t)"
  shows "sched_ok False t \<and> sc_submitted t = sc_submitted s \<and> sc_closed t = sc_closed s \<and>
    (case r of Inl e \<Rightarrow> is_worker_error e | Inr _ \<Rightarrow> True)"
proof -
  from assms(1,2) have f: "fleet_ok False s" by (auto simp: sched_ok_def)
  from poll_cases [OF f assms(3)] poll_ok [OF assms] show ?thesis
    by (cases r) (auto simp: advances_def same_setup_def elim: is_worker_class.elims)
qed

lemma cancel_keeps:
  assumes "sched_ok False s" and "cancel rid s = (r, t)"
  shows "sched_ok False t"
proof (cases "sc_closed s")
  case True
  with cancel_ids [OF assms(2)] show ?thesis by (simp add: sched_ok_def)
next
  case False
  with cancel_ok assms show ?thesis by blast
qed

section \<open>Every step keeps the invariant\<close>

lemma runtime_ok_scheduler:
  assumes "runtime_ok a" and "sched_ok False s" and "sc_submitted (ar_scheduler a) \<subseteq> sc_submitted s"
    and "sc_closed s \<longrightarrow> ar_closed a"
  shows "runtime_ok (a\<lparr>ar_scheduler := s\<rparr>)"
  using assms known_ids_mono [of "sc_submitted (ar_scheduler a)" _ _ "sc_submitted s"] by (simp add: runtime_ok_def)

lemma rt_submit_step:
  assumes "runtime_ok a" and "rt_submit q a = (r, b)"
  shows "runtime_ok b \<and> promises (ar_future a) (ar_future b)"
proof (cases "ar_closed a")
  case True
  with assms show ?thesis by (auto simp: rt_submit_def)
next
  case open_rt: False
  obtain r0 s where sr: "submit_request q (ar_scheduler a) = (r0, s)" by fastforce
  note ids = submit_request_ids [OF sr]
  have ok: "sched_ok False s" using submit_request_ok [OF _ sr] assms(1) by (simp add: runtime_ok_def)
  show ?thesis
  proof (cases r0)
    case (Inl e)
    with assms(2) sr open_rt have "b = a\<lparr>ar_scheduler := s\<rparr>" by (simp add: rt_submit_def)
    with runtime_ok_scheduler [OF assms(1) ok] ids Inl assms(1) show ?thesis by (simp add: runtime_ok_def)
  next
    case (Inr d)
    let ?id = "wr_id q"
    have new: "ar_future a ?id = None"
      using known_idD(1) [of _ "ar_future a" "ar_queue a" ?id] ids Inr assms(1) by (auto simp: runtime_ok_def)
    have "thread_ok ((ar_future a)(?id \<mapsto> Future_Pending)) (ar_queue a) (ar_futures a @ [?id]) (ar_thread a)"
      by (rule thread_ok_future [where f = "ar_future a" and r = "ar_futures a"]) (use assms(1) new in \<open>auto simp: runtime_ok_def\<close>)
    moreover have "known_ids (sc_submitted s) ((ar_future a)(?id \<mapsto> Future_Pending)) (ar_queue a)"
      by (rule known_ids_future [OF known_ids_mono]) (use assms(1) ids Inr in \<open>auto simp: runtime_ok_def\<close>)
    moreover from Inr assms(2) sr open_rt have b: "b = a\<lparr>ar_scheduler := s, ar_futures := ar_futures a @ [?id],
        ar_future := (ar_future a)(?id \<mapsto> Future_Pending)\<rparr>" by (simp add: rt_submit_def)
    ultimately have "runtime_ok b"
      using assms(1) ids Inr ok new by (simp add: runtime_ok_def futures_wf_make)
    moreover have "promise_step (ar_future a) (ar_future b)" using new by (simp add: b promise_step.make)
    ultimately show ?thesis by blast
  qed
qed

lemma rt_submit_stream_step:
  assumes "runtime_ok a" and "rt_submit_stream q a = (r, b)"
  shows "runtime_ok b \<and> ar_future b = ar_future a"
proof (cases "wr_operation q \<noteq> Stream \<or> ar_closed a")
  case True
  with assms show ?thesis by (auto simp: rt_submit_stream_def split: if_splits)
next
  case open_rt: False
  obtain r0 s where sr: "submit_request q (ar_scheduler a) = (r0, s)" by fastforce
  note ids = submit_request_ids [OF sr]
  have ok: "sched_ok False s" using submit_request_ok [OF _ sr] assms(1) by (simp add: runtime_ok_def)
  show ?thesis
  proof (cases r0)
    case (Inl e)
    with assms(2) sr open_rt have "b = a\<lparr>ar_scheduler := s\<rparr>" by (simp add: rt_submit_stream_def)
    with runtime_ok_scheduler [OF assms(1) ok] ids Inl assms(1) show ?thesis by (simp add: runtime_ok_def)
  next
    case (Inr d)
    let ?id = "wr_id q"
    have new: "ar_queue a ?id = None"
      using known_idD(2) [of _ "ar_future a" "ar_queue a" ?id] ids Inr assms(1) by (auto simp: runtime_ok_def)
    have "thread_ok (ar_future a) ((ar_queue a)(?id \<mapsto> ([], []))) (ar_futures a) (ar_thread a)"
      by (rule thread_ok_queue [where q = "ar_queue a"]) (use assms(1) new in \<open>auto simp: runtime_ok_def\<close>)
    moreover have "known_ids (sc_submitted s) (ar_future a) ((ar_queue a)(?id \<mapsto> ([], [])))"
      by (rule known_ids_queue [OF known_ids_mono]) (use assms(1) ids Inr in \<open>auto simp: runtime_ok_def\<close>)
    moreover from Inr assms(2) sr open_rt have b: "b = a\<lparr>ar_scheduler := s, ar_streams := ar_streams a @ [?id],
        ar_queue := (ar_queue a)(?id \<mapsto> ([], []))\<rparr>" by (simp add: rt_submit_stream_def)
    ultimately have "runtime_ok b"
      using assms(1) ids Inr ok new by (simp add: runtime_ok_def streams_wf_make)
    then show ?thesis by (simp add: b)
  qed
qed

lemma cancel_future_fields [simp]:
  "ar_scheduler (cancel_future rid a) = ar_scheduler a" "ar_queue_size (cancel_future rid a) = ar_queue_size a"
  "ar_futures (cancel_future rid a) = ar_futures a" "ar_streams (cancel_future rid a) = ar_streams a"
  "ar_closed (cancel_future rid a) = ar_closed a" "ar_stop (cancel_future rid a) = ar_stop a"
  "ar_thread (cancel_future rid a) = ar_thread a" "ar_queue (cancel_future rid a) = ar_queue a"
  "ar_backpressure (cancel_future rid a) = ar_backpressure a"
  by (simp_all add: cancel_future_def split: option.split future.split)

lemma cancel_future_unregister: "(cancel_future rid a)\<lparr>ar_futures := f\<rparr> = cancel_future rid (a\<lparr>ar_futures := f\<rparr>)"
  by (simp add: cancel_future_def split: option.split future.split)

lemma cancel_future_map:
  "ar_future (cancel_future rid a) =
     (if ar_future a rid = Some Future_Pending then (ar_future a)(rid \<mapsto> Future_Cancelled) else ar_future a)"
  by (simp add: cancel_future_def split: option.split future.split)

lemma cancel_future_promises: "promises (ar_future a) (ar_future (cancel_future rid a))"
  by (auto simp: cancel_future_map intro: promise_step.withdraw)

lemma cancel_future_ok:
  assumes "runtime_ok a"
  shows "runtime_ok (cancel_future rid a)"
proof (cases "ar_future a rid = Some Future_Pending")
  case False
  then have "cancel_future rid a = a" by (simp add: cancel_future_def split: option.split future.split)
  with assms show ?thesis by simp
next
  case True
  have "thread_ok ((ar_future a)(rid \<mapsto> Future_Cancelled)) (ar_queue a) (ar_futures a) (ar_thread a)"
    by (rule thread_ok_future [where f = "ar_future a" and r = "ar_futures a"]) (use assms in \<open>auto simp: runtime_ok_def\<close>)
  moreover have "rid \<in> sc_submitted (ar_scheduler a)"
    using assms True known_idD(3) by (auto simp: runtime_ok_def)
  ultimately show ?thesis
    using assms True by (simp add: runtime_ok_def cancel_future_map futures_wf_withdraw known_ids_future)
qed

lemma close_stream_ok: "runtime_ok a \<Longrightarrow> runtime_ok (close_stream rid a)"
  by (simp add: runtime_ok_def close_stream_def streams_wf_remove)

lemma rt_cancel_step:
  assumes "runtime_ok a" and "rt_cancel rid a = (r, b)"
  shows "runtime_ok b \<and> promises (ar_future a) (ar_future b)"
proof -
  obtain r0 s where c: "cancel rid (ar_scheduler a) = (r0, s)" by fastforce
  note ids = cancel_ids [OF c]
  have ok: "sched_ok False s" using cancel_keeps [OF _ c] assms(1) by (simp add: runtime_ok_def)
  define a0 where "a0 = a\<lparr>ar_scheduler := s\<rparr>"
  have a0: "runtime_ok a0"
    unfolding a0_def using ids assms(1) by (intro runtime_ok_scheduler [OF assms(1) ok]) (auto simp: runtime_ok_def)
  have same: "ar_future a0 = ar_future a" "ar_futures a0 = ar_futures a" "ar_streams a0 = ar_streams a"
    by (simp_all add: a0_def)
  show ?thesis
  proof (cases r0)
    case (Inl e)
    with assms(2) c have "b = a0" by (simp add: rt_cancel_def a0_def)
    with a0 same show ?thesis by simp
  next
    case (Inr ev)
    show ?thesis
    proof (cases "rid \<in> set (ar_futures a)")
      case True
      define a2 where "a2 = cancel_future rid (close_stream rid a0)"
      have a2: "runtime_ok a2" "promises (ar_future a) (ar_future a2)" "ar_futures a2 = ar_futures a"
        unfolding a2_def using cancel_future_ok [OF close_stream_ok [OF a0, of rid]]
          cancel_future_promises [of "close_stream rid a0" rid] by (simp_all add: close_stream_def same)
      from True Inr assms(2) c have "b = cancel_future rid (a0\<lparr>ar_futures := removeAll rid (ar_futures a),
          ar_streams := removeAll rid (ar_streams a)\<rparr>)"
        by (simp add: rt_cancel_def Let_def a0_def)
      also have "a0\<lparr>ar_futures := removeAll rid (ar_futures a), ar_streams := removeAll rid (ar_streams a)\<rparr> =
        (close_stream rid a0)\<lparr>ar_futures := removeAll rid (ar_futures a)\<rparr>"
        by (simp add: close_stream_def same)
      finally have b: "b = a2\<lparr>ar_futures := removeAll rid (ar_futures a)\<rparr>"
        by (simp only: a2_def cancel_future_unregister)
      have "ar_future a2 rid \<noteq> Some Future_Pending" by (simp add: a2_def cancel_future_map)
      moreover have "thread_ok (ar_future a2) (ar_queue a2) (removeAll rid (ar_futures a)) (ar_thread a2)"
        by (rule thread_ok_future [where f = "ar_future a2" and r = "ar_futures a2"]) (use a2(1,3) in \<open>auto simp: runtime_ok_def\<close>)
      ultimately have "runtime_ok b"
        using a2(1,3) futures_wf_remove by (simp add: b runtime_ok_def)
      with a2(2) show ?thesis by (simp add: b)
    next
      case False
      with Inr assms(2) c have "b = close_stream rid a0"
        by (simp add: rt_cancel_def Let_def close_stream_def a0_def)
      with close_stream_ok [OF a0] same show ?thesis by (simp add: close_stream_def)
    qed
  qed
qed

lemma close_begin_step:
  "runtime_ok a \<Longrightarrow> runtime_ok (rt_close_begin a) \<and> ar_future (rt_close_begin a) = ar_future a"
  by (simp add: rt_close_begin_def runtime_ok_def)

lemma cancel_future_settles:
  "ar_future a rid \<noteq> Some Future_Pending \<Longrightarrow> ar_future (cancel_future x a) rid \<noteq> Some Future_Pending"
  by (simp add: cancel_future_map)

lemma cancel_all_settles:
  "ar_future a rid \<noteq> Some Future_Pending \<or> rid \<in> set rids \<Longrightarrow>
   ar_future (fold cancel_future rids a) rid \<noteq> Some Future_Pending"
proof (induction rids arbitrary: a)
  case Nil
  then show ?case by simp
next
  case (Cons x rids)
  have "ar_future (cancel_future x a) rid \<noteq> Some Future_Pending \<or> rid \<in> set rids"
    using Cons.prems by (cases "rid = x") (auto simp: cancel_future_map)
  from Cons.IH [OF this] show ?case by simp
qed

lemma cancel_all:
  "runtime_ok a \<Longrightarrow>
   runtime_ok (fold cancel_future rids a) \<and> promises (ar_future a) (ar_future (fold cancel_future rids a)) \<and>
   ar_futures (fold cancel_future rids a) = ar_futures a \<and> ar_streams (fold cancel_future rids a) = ar_streams a \<and>
   ar_queue (fold cancel_future rids a) = ar_queue a \<and> ar_thread (fold cancel_future rids a) = ar_thread a \<and>
   ar_queue_size (fold cancel_future rids a) = ar_queue_size a"
proof (induction rids arbitrary: a)
  case Nil
  then show ?case by simp
next
  case (Cons rid rids)
  note IH = Cons.IH [OF cancel_future_ok [OF Cons.prems, of rid]]
  from IH have "promises (ar_future (cancel_future rid a)) (ar_future (fold cancel_future rids (cancel_future rid a)))"
    by blast
  from rtranclp_trans [OF cancel_future_promises this] IH show ?case by simp
qed

lemma close_finish_step:
  assumes "runtime_ok a" and "ar_closed a" and "rt_close_finish a = (r, b)"
  shows "runtime_ok b \<and> promises (ar_future a) (ar_future b) \<and>
    (r = Inr () \<longrightarrow> ar_futures b = [] \<and> ar_streams b = [])"
proof -
  obtain r0 s where c: "close (ar_scheduler a) = (r0, s)" by fastforce
  have ok: "sched_ok False s" using close_closes [OF c] by (simp add: sched_ok_def)
  define a0 where "a0 = a\<lparr>ar_scheduler := s\<rparr>"
  have a0: "runtime_ok a0"
    unfolding a0_def using close_ids [OF c] assms(2) by (intro runtime_ok_scheduler [OF assms(1) ok]) auto
  have same: "ar_future a0 = ar_future a" "ar_futures a0 = ar_futures a" by (simp_all add: a0_def)
  show ?thesis
  proof (cases r0)
    case (Inl e)
    with assms(3) c have "b = a0" "r = Inl e" by (auto simp: rt_close_finish_def a0_def)
    with a0 same show ?thesis by simp
  next
    case (Inr u)
    define a2 where "a2 = fold cancel_future (ar_futures a) a0"
    note all = cancel_all [OF a0, of "ar_futures a", folded a2_def]
    from Inr assms(3) c have b: "b = a2\<lparr>ar_futures := [], ar_streams := []\<rparr>" and r: "r = Inr ()"
      by (auto simp: rt_close_finish_def a2_def a0_def)
    have "\<forall>rid \<in> set (ar_futures a2). ar_future a2 rid \<noteq> Some Future_Pending"
      using all same(2) cancel_all_settles unfolding a2_def by simp
    moreover have "thread_ok (ar_future a2) (ar_queue a2) [] (ar_thread a2)"
      by (rule thread_ok_future [where f = "ar_future a2" and r = "ar_futures a2"]) (use all in \<open>auto simp: runtime_ok_def\<close>)
    moreover have "streams_wf (ar_queue_size a2) [] (ar_queue a2)"
      by (rule streams_wf_clear) (use all in \<open>auto simp: runtime_ok_def\<close>)
    ultimately have "runtime_ok b"
      using all futures_wf_clear [of "ar_futures a2" "ar_future a2" "in_hand (ar_thread a2)"]
      by (auto simp: b runtime_ok_def)
    with all r same show ?thesis by (simp add: b)
  qed
qed

lemma take_message_step:
  assumes "runtime_ok a"
  shows "runtime_ok (take_message rid a) \<and> ar_future (take_message rid a) = ar_future a"
proof -
  consider "take_message rid a = a"
    | taken m w where "ar_queue a rid = Some (taken, m # w)"
        "take_message rid a = a\<lparr>ar_queue := (ar_queue a)(rid \<mapsto> (taken @ [m], w))\<rparr>"
  proof (cases "ar_queue a rid")
    case None
    then have "take_message rid a = a" by (simp add: take_message_def)
    then show ?thesis by (rule that)
  next
    case (Some q)
    obtain taken w where q: "q = (taken, w)" by (cases q)
    show ?thesis
    proof (cases w)
      case Nil
      with Some q have "take_message rid a = a" by (simp add: take_message_def)
      then show ?thesis by (rule that)
    next
      case (Cons m w')
      with Some q show ?thesis by (intro that(2)) (simp_all add: take_message_def)
    qed
  qed
  then show ?thesis
  proof cases
    case 1
    with assms show ?thesis by simp
  next
    case 2
    have "thread_ok (ar_future a) ((ar_queue a)(rid \<mapsto> (taken @ [m], w))) (ar_futures a) (ar_thread a)"
      by (rule thread_ok_queue [where q = "ar_queue a"]) (use assms 2 in \<open>auto simp: runtime_ok_def\<close>)
    moreover have "known_ids (sc_submitted (ar_scheduler a)) (ar_future a) ((ar_queue a)(rid \<mapsto> (taken @ [m], w)))"
      by (rule known_ids_queue) (use assms 2(1) known_idD(4) in \<open>auto simp: runtime_ok_def\<close>)
    ultimately show ?thesis
      using assms 2(2) streams_wf_take [of "ar_queue_size a" "ar_streams a" "ar_queue a" rid taken m w] 2(1)
      by (simp add: runtime_ok_def)
  qed
qed

section \<open>The dispatcher keeps the invariant\<close>

lemma set_thread_ok:
  assumes "runtime_ok a" and "in_hand (ar_thread a) = None" and "in_hand t = None"
    and "thread_ok (ar_future a) (ar_queue a) (ar_futures a) t"
  shows "runtime_ok (a\<lparr>ar_thread := t\<rparr>)"
  using assms by (simp add: runtime_ok_def)

lemma drop_hand_ok:
  assumes "runtime_ok a" and "in_hand (ar_thread a) = Some rid" and "ar_future a rid \<noteq> Some Future_Pending"
    and "in_hand t = None" and "thread_ok (ar_future a) (ar_queue a) (ar_futures a) t"
  shows "runtime_ok (a\<lparr>ar_thread := t\<rparr>)"
  using assms futures_wf_settled [of "ar_futures a" "ar_future a" rid] by (simp add: runtime_ok_def)

lemma dispatch_poll_step:
  assumes "runtime_ok a" and "ar_thread a = Polling"
  shows "runtime_ok (dispatch_poll a) \<and> ar_future (dispatch_poll a) = ar_future a"
proof (cases "ar_stop a")
  case True
  with assms show ?thesis by (simp add: dispatch_poll_def set_thread_ok)
next
  case False
  obtain r s where pl: "poll (ar_scheduler a) = (r, s)" by fastforce
  have sc: "sched_ok False (ar_scheduler a)" "\<not> sc_closed (ar_scheduler a)"
    using assms(1) False by (auto simp: runtime_ok_def)
  note ids = poll_ids [OF sc pl]
  have "runtime_ok (a\<lparr>ar_scheduler := s\<rparr>)"
    using ids sc by (intro runtime_ok_scheduler [OF assms(1)]) auto
  from set_thread_ok [OF this] assms(2) False pl ids show ?thesis
    by (cases r) (simp_all add: dispatch_poll_def)
qed

lemma take_future_step:
  assumes "runtime_ok a" and "in_hand (ar_thread a) = None" and "wm_request_id ev = Some rid"
  shows "runtime_ok (take_future ev rid rest a) \<and> ar_future (take_future ev rid rest a) = ar_future a"
proof (cases "future_kind (wm_kind ev) \<and> rid \<in> set (ar_futures a)")
  case False
  with assms show ?thesis by (auto simp: take_future_def intro: set_thread_ok)
next
  case True
  then have "ar_future a rid \<noteq> None" using assms(1) by (auto simp: runtime_ok_def futures_wf_def)
  then show ?thesis
    using True assms futures_wf_take [of "ar_futures a" "ar_future a" rid]
    by (simp add: take_future_def runtime_ok_def)
qed

lemma dispatch_event_step:
  assumes "runtime_ok a" and "in_hand (ar_thread a) = None"
  shows "runtime_ok (dispatch_event now ev rest a) \<and> ar_future (dispatch_event now ev rest a) = ar_future a"
proof (cases "wm_request_id ev")
  case None
  with assms show ?thesis by (simp add: dispatch_event_def set_thread_ok)
next
  case (Some rid)
  show ?thesis
  proof (cases "routed_kind (wm_kind ev) \<and> rid \<in> set (ar_streams a)")
    case True
    then have "ar_queue a rid \<noteq> None" using assms(1) by (auto simp: runtime_ok_def streams_wf_def)
    with True Some show ?thesis
      using set_thread_ok [OF assms, of "Putting ev rid (map_option (\<lambda>t. fl64 (now + t)) (ar_backpressure a)) rest"]
      by (simp add: dispatch_event_def)
  next
    case False
    then show ?thesis using take_future_step [OF assms Some] Some by (auto simp: dispatch_event_def)
  qed
qed

text \<open>Appending a message to a registered stream with room, and replacing what waits by the final error.\<close>

lemma queue_wf_put:
  assumes "queue_wf n True rid (taken, w)" and "int (length w) < n"
    and "wm_request_id m = Some rid" and "routed_kind (wm_kind m)"
  shows "queue_wf n (\<not> ends_stream (wm_kind m)) rid (taken, w @ [m])"
proof -
  have "butlast (taken @ w @ [m]) = taken @ w" by (simp add: butlast_append)
  with assms show ?thesis by (auto simp: queue_wf_def)
qed

lemma queue_wf_error:
  assumes "queue_wf n True rid (taken, w)" and "0 < n"
    and "wm_request_id m = Some rid" and "routed_kind (wm_kind m)"
  shows "queue_wf n False rid (taken, [m])"
  using assms by (auto simp: queue_wf_def)

lemma streams_wf_update:
  assumes "streams_wf n reg que" and "que rid \<noteq> None" and "set reg' \<subseteq> set reg"
    and "\<And>x. x \<noteq> rid \<Longrightarrow> x \<in> set reg' \<longleftrightarrow> x \<in> set reg" and "queue_wf n (rid \<in> set reg') rid q"
  shows "streams_wf n reg' (que(rid \<mapsto> q))"
  using assms by (auto simp: streams_wf_def)

lemma queue_update_ok:
  assumes "runtime_ok a" and "in_hand (ar_thread a) = None" and "ar_queue a rid \<noteq> None"
    and "set reg' \<subseteq> set (ar_streams a)" and "\<And>x. x \<noteq> rid \<Longrightarrow> x \<in> set reg' \<longleftrightarrow> x \<in> set (ar_streams a)"
    and "queue_wf (ar_queue_size a) (rid \<in> set reg') rid q"
  shows "runtime_ok (a\<lparr>ar_streams := reg', ar_queue := (ar_queue a)(rid \<mapsto> q), ar_thread := Handling rest\<rparr>)"
proof -
  have "streams_wf (ar_queue_size a) reg' ((ar_queue a)(rid \<mapsto> q))"
    using assms by (intro streams_wf_update) (auto simp: runtime_ok_def)
  moreover have "known_ids (sc_submitted (ar_scheduler a)) (ar_future a) ((ar_queue a)(rid \<mapsto> q))"
    by (rule known_ids_queue) (use assms known_idD(4) in \<open>auto simp: runtime_ok_def\<close>)
  ultimately show ?thesis using assms(1,2) by (simp add: runtime_ok_def)
qed

lemma backpressure_error_fields [simp]:
  "wm_request_id (backpressure_error rid) = Some rid" "wm_kind (backpressure_error rid) = Error_Kind"
  by (simp_all add: backpressure_error_def error_message_def)

lemma end_routing_ok:
  assumes "runtime_ok a" and "in_hand (ar_thread a) = None"
  shows "runtime_ok (end_routing ev rid rest a)"
proof -
  have "runtime_ok (close_stream rid a)" "in_hand (ar_thread (close_stream rid a)) = None"
    using close_stream_ok [OF assms(1)] assms(2) by (simp_all add: close_stream_def)
  then show ?thesis using assms by (simp add: end_routing_def set_thread_ok)
qed

lemma dispatch_turn_step:
  assumes "runtime_ok a" and "ar_thread a = Putting ev rid d rest"
  shows "runtime_ok (dispatch_turn now ev rid d rest a) \<and>
    ar_future (dispatch_turn now ev rid d rest a) = ar_future a"
proof -
  have h: "in_hand (ar_thread a) = None" using assms(2) by simp
  have ev: "wm_request_id ev = Some rid" "routed_kind (wm_kind ev)" "ar_queue a rid \<noteq> None"
    using assms by (auto simp: runtime_ok_def)
  obtain taken w where q: "ar_queue a rid = Some (taken, w)" using ev(3) by auto
  show ?thesis
  proof (cases "ar_stop a \<or> rid \<notin> set (ar_streams a)")
    case True
    then show ?thesis
      using end_routing_ok [OF assms(1) h, of ev rid rest] set_thread_ok [OF assms(1) h, of "Handling rest"]
      by (auto simp: dispatch_turn_def end_routing_def close_stream_def)
  next
    case False
    have "queue_wf (ar_queue_size a) (rid \<in> set (ar_streams a)) rid (taken, w)" and n: "0 < ar_queue_size a"
      using assms(1) q unfolding runtime_ok_def streams_wf_def by blast+
    with False have wf: "queue_wf (ar_queue_size a) True rid (taken, w)" by simp
    let ?late = "case d of None \<Rightarrow> False | Some t \<Rightarrow> fl64 (t - now) \<le> 0"
    show ?thesis
    proof (cases ?late)
      case True
      have "dispatch_turn now ev rid d rest a =
          a\<lparr>ar_streams := removeAll rid (ar_streams a),
            ar_queue := (ar_queue a)(rid \<mapsto> (taken, [backpressure_error rid])), ar_thread := Handling rest\<rparr>"
        using False True q
        by (simp add: dispatch_turn_def queue_put_def drain_queue_def close_stream_def)
      moreover have "queue_wf (ar_queue_size a) (rid \<in> set (removeAll rid (ar_streams a))) rid
          (taken, [backpressure_error rid])"
        using queue_wf_error [OF wf n, of "backpressure_error rid"] by (simp add: routed_kind_def)
      ultimately show ?thesis
        using queue_update_ok [OF assms(1) h ev(3), of "removeAll rid (ar_streams a)"] by simp
    next
      case late: False
      have "list_all (\<lambda>m. \<not> ends_stream (wm_kind m)) (taken @ w)"
        using wf by (auto simp: queue_wf_def list_all_iff)
      then show ?thesis
        using False late ev q set_thread_ok [OF assms(1) h, of "Offering ev rid d rest"]
        by (simp add: dispatch_turn_def)
    qed
  qed
qed

lemma queue_wf_append:
  assumes "queue_wf n reg rid (taken, w)" and "int (length w) < n"
    and "wm_request_id m = Some rid" and "routed_kind (wm_kind m)"
    and "list_all (\<lambda>m. \<not> ends_stream (wm_kind m)) (taken @ w)"
  shows "queue_wf n (reg \<and> \<not> ends_stream (wm_kind m)) rid (taken, w @ [m])"
proof -
  have "queue_wf n True rid (taken, w)" using assms(1,5) by (auto simp: queue_wf_def list_all_iff)
  from queue_wf_unregister [OF queue_wf_put [OF this assms(2-4)], of reg] show ?thesis
    by (simp add: conj_commute)
qed

lemma dispatch_put_step:
  assumes "runtime_ok a" and "ar_thread a = Offering ev rid d rest"
  shows "runtime_ok (dispatch_put ev rid d rest a) \<and> ar_future (dispatch_put ev rid d rest a) = ar_future a"
proof -
  have h: "in_hand (ar_thread a) = None" using assms(2) by simp
  obtain taken w where ev: "wm_request_id ev = Some rid" "routed_kind (wm_kind ev)"
      "ar_queue a rid = Some (taken, w)" "list_all (\<lambda>m. \<not> ends_stream (wm_kind m)) (taken @ w)"
    using assms by (auto simp: runtime_ok_def split: option.splits)
  have wf: "queue_wf (ar_queue_size a) (rid \<in> set (ar_streams a)) rid (taken, w)"
    using assms(1) ev(3) unfolding runtime_ok_def streams_wf_def by blast
  show ?thesis
  proof (cases "int (length w) < ar_queue_size a")
    case True
    let ?reg = "if ends_stream (wm_kind ev) then removeAll rid (ar_streams a) else ar_streams a"
    have "dispatch_put ev rid d rest a =
        a\<lparr>ar_streams := ?reg, ar_queue := (ar_queue a)(rid \<mapsto> (taken, w @ [ev])), ar_thread := Handling rest\<rparr>"
      using True ev(3) by (simp add: dispatch_put_def queue_put_def waiting_def end_routing_def close_stream_def)
    moreover have "queue_wf (ar_queue_size a) (rid \<in> set ?reg) rid (taken, w @ [ev])"
      using queue_wf_append [OF wf True ev(1,2,4)] by (cases "ends_stream (wm_kind ev)") simp_all
    ultimately show ?thesis
      using queue_update_ok [OF assms(1) h, of rid ?reg] ev(3) by simp
  next
    case False
    with ev(1-3) set_thread_ok [OF assms(1) h, of "Putting ev rid d rest"] show ?thesis
      by (simp add: dispatch_put_def waiting_def)
  qed
qed

lemma dispatch_check_step:
  assumes "runtime_ok a" and "ar_thread a = Resolving ev rid rest"
  shows "runtime_ok (dispatch_check ev rid rest a) \<and> ar_future (dispatch_check ev rid rest a) = ar_future a"
proof (cases "ar_future a rid = Some Future_Pending")
  case True
  with assms show ?thesis by (simp add: dispatch_check_def runtime_ok_def)
next
  case False
  then have "dispatch_check ev rid rest a = a\<lparr>ar_thread := Handling rest\<rparr>"
    by (simp add: dispatch_check_def split: option.split future.split)
  with drop_hand_ok [OF assms(1) _ False, of "Handling rest"] assms(2) show ?thesis by simp
qed

lemma dispatch_set_step:
  assumes "runtime_ok a" and "ar_thread a = Setting ev rid rest"
  shows "runtime_ok (dispatch_set ev rid rest a) \<and> promises (ar_future a) (ar_future (dispatch_set ev rid rest a))"
proof (cases "ar_future a rid = Some Future_Pending")
  case True
  have ev: "wm_request_id ev = Some rid" "future_kind (wm_kind ev)"
    using assms by (auto simp: runtime_ok_def)
  have set: "dispatch_set ev rid rest a =
      a\<lparr>ar_future := (ar_future a)(rid \<mapsto> Future_Done ev), ar_thread := Handling rest\<rparr>"
    using True by (simp add: dispatch_set_def)
  have "known_ids (sc_submitted (ar_scheduler a)) ((ar_future a)(rid \<mapsto> Future_Done ev)) (ar_queue a)"
    by (rule known_ids_future) (use assms True known_idD(3) in \<open>auto simp: runtime_ok_def\<close>)
  then have "runtime_ok (dispatch_set ev rid rest a)"
    using assms futures_wf_settle [OF _ ev] by (simp add: set runtime_ok_def)
  moreover have "promise_step (ar_future a) (ar_future (dispatch_set ev rid rest a))"
    using promise_step.settle [of "ar_future a", OF True ev] by (simp add: set)
  ultimately show ?thesis by blast
next
  case False
  then have "dispatch_set ev rid rest a = a\<lparr>ar_thread := Crashed\<rparr>"
    by (simp add: dispatch_set_def split: option.split future.split)
  with drop_hand_ok [OF assms(1) _ False, of Crashed] assms(2) show ?thesis by simp
qed

lemma dispatch_step_ok:
  assumes "runtime_ok a"
  shows "runtime_ok (dispatch_step now a) \<and> promises (ar_future a) (ar_future (dispatch_step now a))"
proof (cases "ar_thread a")
  case Polling
  with dispatch_poll_step [OF assms] show ?thesis by (simp add: dispatch_step_def)
next
  case (Handling evs)
  then show ?thesis
    using assms dispatch_event_step [OF assms] set_thread_ok [OF assms]
    by (cases evs) (simp_all add: dispatch_step_def)
next
  case (Putting ev rid d rest)
  with dispatch_turn_step [OF assms this] show ?thesis by (simp add: dispatch_step_def)
next
  case (Offering ev rid d rest)
  with dispatch_put_step [OF assms this] show ?thesis by (simp add: dispatch_step_def)
next
  case (Resolving ev rid rest)
  with dispatch_check_step [OF assms this] show ?thesis by (simp add: dispatch_step_def)
next
  case (Setting ev rid rest)
  with dispatch_set_step [OF assms this] show ?thesis by (simp add: dispatch_step_def)
qed (use assms in \<open>simp_all add: dispatch_step_def\<close>)

lemma child_dies_step:
  assumes "runtime_ok a"
  shows "runtime_ok (a\<lparr>ar_scheduler := sched_invoke (ar_scheduler a) (Worker_Dies i code)\<rparr>)"
proof (rule runtime_ok_scheduler [OF assms])
  show "sched_ok False (sched_invoke (ar_scheduler a) (Worker_Dies i code))"
    using assms sched_invoke_ok unfolding runtime_ok_def by blast
  show "sc_submitted (ar_scheduler a) \<subseteq> sc_submitted (sched_invoke (ar_scheduler a) (Worker_Dies i code))"
    by simp
  show "sc_closed (sched_invoke (ar_scheduler a) (Worker_Dies i code)) \<longrightarrow> ar_closed a"
    using assms by (simp add: runtime_ok_def)
qed

lemma rt_invoke_step:
  assumes "runtime_ok a"
  shows "runtime_ok (rt_invoke a x) \<and> promises (ar_future a) (ar_future (rt_invoke a x))"
proof (cases x)
  case (Rt_Submit q)
  with rt_submit_step [OF assms, of q] show ?thesis by (cases "rt_submit q a") simp
next
  case (Rt_Submit_Stream q)
  with rt_submit_stream_step [OF assms, of q] show ?thesis by (cases "rt_submit_stream q a") simp
next
  case (Rt_Cancel rid)
  with rt_cancel_step [OF assms, of rid] show ?thesis by (cases "rt_cancel rid a") simp
next
  case Rt_Close_Begin
  with close_begin_step [OF assms] show ?thesis by simp
next
  case Rt_Close_Finish
  with close_finish_step [OF assms] assms show ?thesis by (cases "rt_close_finish a") auto
next
  case (Rt_Dispatch now)
  with dispatch_step_ok [OF assms] show ?thesis by simp
next
  case (Holder_Cancels rid)
  with cancel_future_ok [OF assms] cancel_future_promises show ?thesis by simp
next
  case (Reader_Takes rid)
  with take_message_step [OF assms] show ?thesis by simp
next
  case (Child_Dies i code)
  with child_dies_step [OF assms] show ?thesis by simp
qed

interpretation runtime: stateful_object rt_invoke runtime_ok
  by unfold_locales (simp add: rt_invoke_step)

section \<open>Properties\<close>

lemma calls_promises: "runtime_ok a \<Longrightarrow> promises (ar_future a) (ar_future (foldl rt_invoke a xs))"
proof (induction xs arbitrary: a)
  case Nil
  then show ?case by simp
next
  case (Cons x xs)
  note step = rt_invoke_step [OF Cons.prems, of x]
  have "promises (ar_future a) (ar_future (rt_invoke a x))" using step by blast
  moreover have "promises (ar_future (rt_invoke a x)) (ar_future (foldl rt_invoke (rt_invoke a x) xs))"
    using step by (intro Cons.IH) blast
  ultimately show ?case by simp
qed

lemma mk_api_runtime_ok:
  assumes "mk_api_runtime ws mp sc qt mi mc bp clock = Inr a" and "list_all (client_fit False) ws"
  shows "runtime_ok a"
proof -
  from assms(1) obtain s where "mk_scheduler ws mp qt mi mc clock = Inr s" "ar_scheduler a = s"
    "ar_futures a = []" "ar_streams a = []" "\<not> ar_closed a" "\<not> ar_stop a" "ar_thread a = Polling"
    "ar_future a = (\<lambda>_. None)" "ar_queue a = (\<lambda>_. None)" "0 < ar_queue_size a"
    by (auto simp: mk_api_runtime_def positive_int_def raises split: if_splits)
  with mk_scheduler_ok [OF _ assms(2), of mp qt mi mc clock s] show ?thesis
    by (simp add: runtime_ok_def futures_wf_def streams_wf_def known_ids_def)
qed

text \<open>C2. The runtime implements a table of promises, whatever the callers, the holders of futures,
  the readers and the workers do and however the dispatcher is interleaved with them: between any two
  moments the futures change only by new pending ones, by answers to their own request (a result, an
  error or a cancellation) and by cancellations, each future once; and a future that is still pending
  is registered or in the dispatcher's hands.\<close>

theorem runtime_refines_promises:
  fixes xs :: "rt_call list"
  assumes "mk_api_runtime ws mp sc qt mi mc bp clock = Inr a" and "list_all (client_fit False) ws"
  defines "b \<equiv> foldl rt_invoke a xs"
  shows "promises (\<lambda>_. None) (ar_future b) \<and> promises (ar_future b) (ar_future (foldl rt_invoke b ys)) \<and>
    (ar_future b rid = Some Future_Pending \<longrightarrow> rid \<in> set (ar_futures b) \<or> in_hand (ar_thread b) = Some rid)"
proof -
  note ok = mk_api_runtime_ok [OF assms(1,2)]
  have b: "runtime_ok b" unfolding b_def by (rule runtime.calls_inv [OF ok])
  have "ar_future a = (\<lambda>_. None)"
    using assms(1) by (auto simp: mk_api_runtime_def raises split: if_splits)
  then show ?thesis
    using calls_promises [OF ok, of xs] calls_promises [OF b, of ys] b
    by (auto simp: b_def runtime_ok_def futures_wf_def)
qed

definition one_worker :: "worker_client list" where
  "one_worker = [ready_client ''a'' [] []]"

lemma one_worker_fit: "list_all (client_fit False) one_worker"
  by (simp add: one_worker_def client_fit_def ready_client_ok)

definition small_runtime :: api_runtime where
  "small_runtime =
     \<lparr>ar_scheduler = sample_sched one_worker None, ar_queue_size = 1, ar_backpressure = None,
      ar_futures = [], ar_streams = [], ar_closed = False, ar_stop = False, ar_thread = Polling,
      ar_future = (\<lambda>_. None), ar_queue = (\<lambda>_. None)\<rparr>"

lemma mk_small_runtime:
  "mk_api_runtime one_worker (PInt 2) (PInt 1) PNone PNone PNone PNone (\<lambda>n. of_nat n) = Inr small_runtime"
  by (simp add: mk_api_runtime_def mk_scheduler_def one_worker_def positive_int_def time_limit_def
      small_runtime_def sample_sched_def)

theorem runtime_refines_promises_witness:
  "promises (\<lambda>_. None) (ar_future (foldl rt_invoke small_runtime [Rt_Submit (sample_request ''r1'')])) \<and>
   ar_future (foldl rt_invoke small_runtime [Rt_Submit (sample_request ''r1'')]) ''r1'' = Some Future_Pending"
proof
  show "promises (\<lambda>_. None) (ar_future (foldl rt_invoke small_runtime [Rt_Submit (sample_request ''r1'')]))"
    using runtime_refines_promises [OF mk_small_runtime one_worker_fit] by blast
  show "ar_future (foldl rt_invoke small_runtime [Rt_Submit (sample_request ''r1'')]) ''r1'' = Some Future_Pending"
    by (simp add: rt_submit_def small_runtime_def one_worker_def run_sched)
qed

text \<open>C9. At every moment of every interleaving the queue of a stream holds at most as many messages
  as configured, all messages read from or waiting in it belong to its request, and no message follows
  the one that ends the stream; a stream that has been ended takes no more.\<close>

theorem streams_bounded_in_order:
  assumes "mk_api_runtime ws mp sc qt mi mc bp clock = Inr a" and "list_all (client_fit False) ws"
    and "ar_queue (foldl rt_invoke a xs) rid = Some (taken, waits)"
  shows "int (length waits) \<le> ar_queue_size (foldl rt_invoke a xs) \<and>
    list_all (\<lambda>m. wm_request_id m = Some rid) (taken @ waits) \<and>
    list_all (\<lambda>m. \<not> ends_stream (wm_kind m)) (butlast (taken @ waits)) \<and>
    (rid \<in> set (ar_streams (foldl rt_invoke a xs)) \<longrightarrow>
       list_all (\<lambda>m. \<not> ends_stream (wm_kind m)) (taken @ waits))"
proof -
  let ?b = "foldl rt_invoke a xs"
  have "runtime_ok ?b" by (rule runtime.calls_inv [OF mk_api_runtime_ok [OF assms(1,2)]])
  then have wf: "queue_wf (ar_queue_size ?b) (rid \<in> set (ar_streams ?b)) rid (taken, waits)"
    using assms(3) unfolding runtime_ok_def streams_wf_def by blast
  from queue_wf_unregister [OF this, of False] have
    "list_all (\<lambda>m. \<not> ends_stream (wm_kind m)) (butlast (taken @ waits))"
    by (simp add: queue_wf_def list_all_iff)
  with wf show ?thesis by (auto simp: queue_wf_def list_all_iff)
qed

theorem streams_bounded_in_order_witness:
  "ar_queue (foldl rt_invoke small_runtime [Rt_Submit_Stream sample_stream_request]) ''r1'' = Some ([], []) \<and>
   int (length ([] :: worker_message list)) \<le>
     ar_queue_size (foldl rt_invoke small_runtime [Rt_Submit_Stream sample_stream_request])"
proof
  show q: "ar_queue (foldl rt_invoke small_runtime [Rt_Submit_Stream sample_stream_request]) ''r1'' = Some ([], [])"
    by (simp add: rt_submit_stream_def small_runtime_def one_worker_def run_sched sample_stream_request_def)
  show "int (length ([] :: worker_message list)) \<le>
     ar_queue_size (foldl rt_invoke small_runtime [Rt_Submit_Stream sample_stream_request])"
    using streams_bounded_in_order [OF mk_small_runtime one_worker_fit q] by blast
qed

lemma crashed_forever:
  assumes "ar_thread a = Crashed"
  shows "ar_thread (rt_invoke a x) = Crashed \<and>
    (ar_future (rt_invoke a x) r = Some (Future_Done m) \<longrightarrow> ar_future a r = Some (Future_Done m))"
proof -
  have fold_thread: "ar_thread (fold cancel_future rids b) = ar_thread b" for rids b
    by (induction rids arbitrary: b) simp_all
  have one: "ar_future (cancel_future rid b) r = Some (Future_Done m) \<Longrightarrow> ar_future b r = Some (Future_Done m)"
    for rid b by (auto simp: cancel_future_map split: if_splits)
  have fold_done: "ar_future (fold cancel_future rids b) r = Some (Future_Done m) \<Longrightarrow>
      ar_future b r = Some (Future_Done m)" for rids b
    by (induction rids arbitrary: b) (auto dest: one)
  show ?thesis
  proof (cases x)
    case Rt_Close_Finish
    obtain r0 s where c: "close (ar_scheduler a) = (r0, s)" by fastforce
    with Rt_Close_Finish assms fold_done [of "ar_futures a" "a\<lparr>ar_scheduler := s\<rparr>"] show ?thesis
      by (cases r0) (auto simp: rt_close_finish_def fold_thread)
  next
    case (Rt_Submit q)
    with assms show ?thesis
      by (cases "submit_request q (ar_scheduler a)"; cases "fst (submit_request q (ar_scheduler a))")
        (auto simp: rt_submit_def)
  next
    case (Rt_Submit_Stream q)
    with assms show ?thesis
      by (cases "submit_request q (ar_scheduler a)"; cases "fst (submit_request q (ar_scheduler a))")
        (auto simp: rt_submit_stream_def)
  next
    case (Rt_Cancel rid)
    with assms show ?thesis
      by (cases "cancel rid (ar_scheduler a)"; cases "fst (cancel rid (ar_scheduler a))")
        (auto simp: rt_cancel_def Let_def cancel_future_map split: if_splits)
  next
    case (Reader_Takes rid)
    with assms show ?thesis by (simp add: take_message_def split: option.split list.split prod.split)
  qed (use assms in \<open>auto simp: dispatch_step_def cancel_future_map rt_close_begin_def split: if_splits\<close>)
qed

text \<open>C13. The dispatcher tests \<open>future.done()\<close> and then sets the result without a lock. If the holder
  cancels the future in between, \<open>set_result\<close> raises, nothing catches it and the thread ends: from then
  on no future is ever answered, whatever is called.\<close>

theorem result_race_ends_dispatcher:
  fixes now :: rat and xs :: "rt_call list"
  assumes "ar_thread a = Handling (ev # rest)" and "wm_request_id ev = Some rid" and "future_kind (wm_kind ev)"
    and "rid \<in> set (ar_futures a)" and "rid \<notin> set (ar_streams a)" and "ar_future a rid = Some Future_Pending"
  defines "b \<equiv> foldl rt_invoke a ([Rt_Dispatch now, Rt_Dispatch now, Holder_Cancels rid, Rt_Dispatch now] @ xs)"
  shows "ar_thread b = Crashed \<and>
    (ar_future b r = Some (Future_Done m) \<longrightarrow> ar_future a r = Some (Future_Done m))"
proof -
  let ?c = "foldl rt_invoke a [Rt_Dispatch now, Rt_Dispatch now, Holder_Cancels rid, Rt_Dispatch now]"
  have c: "ar_thread ?c = Crashed" "ar_future ?c = (ar_future a)(rid \<mapsto> Future_Cancelled)"
    using assms(1-6)
    by (simp_all add: dispatch_step_def dispatch_event_def take_future_def dispatch_check_def dispatch_set_def
        cancel_future_def)
  have "ar_thread (foldl rt_invoke d ys) = Crashed \<and>
      (ar_future (foldl rt_invoke d ys) r = Some (Future_Done m) \<longrightarrow> ar_future d r = Some (Future_Done m))"
    if "ar_thread d = Crashed" for d ys
    using that
  proof (induction ys arbitrary: d)
    case Nil
    then show ?case by simp
  next
    case (Cons y ys)
    with crashed_forever [OF Cons.prems, of y] show ?case by auto
  qed
  from this [OF c(1), of xs] show ?thesis
    using assms(6) c(2) unfolding b_def foldl_append by (auto split: if_splits)
qed

theorem result_race_ends_dispatcher_witness:
  "ar_thread (foldl rt_invoke
     (small_runtime\<lparr>ar_thread := Handling [plain_message Result_Kind ''a'' (Some ''r1'') []], ar_futures := [''r1''],
        ar_future := [''r1'' \<mapsto> Future_Pending]\<rparr>)
     ([Rt_Dispatch 0, Rt_Dispatch 0, Holder_Cancels ''r1'', Rt_Dispatch 0] @ [])) = Crashed"
  using result_race_ends_dispatcher [of
      "small_runtime\<lparr>ar_thread := Handling [plain_message Result_Kind ''a'' (Some ''r1'') []], ar_futures := [''r1''],
        ar_future := [''r1'' \<mapsto> Future_Pending]\<rparr>" "plain_message Result_Kind ''a'' (Some ''r1'') []" "[]" "''r1''" 0 "[]"]
  by (simp add: plain_message_def future_kind_def small_runtime_def)

definition stream_messages :: "string \<Rightarrow> api_runtime \<Rightarrow> worker_message list option" where
  "stream_messages rid a = map_option (\<lambda>(taken, waits). taken @ waits) (ar_queue a rid)"

fun offered :: "dispatcher \<Rightarrow> string option" where
  "offered (Offering _ rid _ _) = Some rid"
| "offered _ = None"

lemma stopped_streams:
  assumes "ar_closed a" and "ar_stop a" and "ar_streams a = []" and "offered (ar_thread a) \<noteq> Some rid"
  shows "offered (ar_thread (rt_invoke a x)) \<noteq> Some rid \<and> ar_closed (rt_invoke a x) \<and> ar_stop (rt_invoke a x) \<and> ar_streams (rt_invoke a x) = [] \<and>
    stream_messages rid (rt_invoke a x) = stream_messages rid a"
proof -
  have fold_fields: "ar_closed (fold cancel_future rids b) = ar_closed b" "ar_stop (fold cancel_future rids b) = ar_stop b"
    "ar_queue (fold cancel_future rids b) = ar_queue b" "ar_thread (fold cancel_future rids b) = ar_thread b" for rids b
    by (induction rids arbitrary: b) simp_all
  show ?thesis
  proof (cases x)
    case Rt_Close_Finish
    with assms show ?thesis
      by (cases "close (ar_scheduler a)"; cases "fst (close (ar_scheduler a))")
        (auto simp: rt_close_finish_def fold_fields stream_messages_def)
  next
    case (Rt_Cancel rid')
    with assms show ?thesis
      by (cases "cancel rid' (ar_scheduler a)"; cases "fst (cancel rid' (ar_scheduler a))")
        (auto simp: rt_cancel_def Let_def stream_messages_def)
  next
    case (Reader_Takes rid')
    with assms show ?thesis
      by (auto simp: take_message_def stream_messages_def split: option.split list.split prod.split)
  next
    case (Rt_Dispatch now)
    with assms show ?thesis
      by (auto simp: dispatch_step_def dispatch_poll_def dispatch_event_def take_future_def dispatch_turn_def
          dispatch_put_def queue_put_def end_routing_def close_stream_def dispatch_check_def dispatch_set_def stream_messages_def
          split: dispatcher.split list.split option.split future.split)
  qed (use assms in \<open>auto simp: rt_submit_def rt_submit_stream_def rt_close_begin_def stream_messages_def\<close>)
qed

text \<open>When \<open>close\<close> returns, every future is settled but at most one that the dispatcher holds, and
  the runtime accepts nothing more; but no stream ever gets another message, the one the dispatcher is
  putting at that moment apart: a reader waiting on a stream that has not ended waits forever.\<close>

theorem close_settles_futures_strands_streams:
  assumes "runtime_ok a" and "ar_closed a" and "rt_close_finish a = (Inr (), b)"
    and "offered (ar_thread a) \<noteq> Some rid"
  shows "ar_futures b = [] \<and>
    (ar_future b rid = Some Future_Pending \<longrightarrow> in_hand (ar_thread b) = Some rid) \<and>
    stream_messages rid (foldl rt_invoke b xs) = stream_messages rid a"
proof -
  from close_finish_step [OF assms(1-3)] have ok: "runtime_ok b" and e: "ar_futures b = []" "ar_streams b = []"
    by blast+
  have "in_hand (ar_thread b) = Some rid" if "ar_future b rid = Some Future_Pending"
    using ok that e(1) by (auto simp: runtime_ok_def futures_wf_def)
  moreover have st: "ar_queue b = ar_queue a" "ar_closed b" "ar_stop b" "ar_thread b = ar_thread a"
  proof -
    have fold_fields: "ar_closed (fold cancel_future rids d) = ar_closed d" "ar_stop (fold cancel_future rids d) = ar_stop d"
      "ar_queue (fold cancel_future rids d) = ar_queue d" "ar_thread (fold cancel_future rids d) = ar_thread d" for rids d
      by (induction rids arbitrary: d) simp_all
    have "ar_stop a" using assms(1,2) by (simp add: runtime_ok_def)
    with assms(2,3) show "ar_queue b = ar_queue a" "ar_closed b" "ar_stop b" "ar_thread b = ar_thread a"
      by (cases "close (ar_scheduler a)"; cases "fst (close (ar_scheduler a))";
          auto simp: rt_close_finish_def fold_fields)+
  qed
  moreover have "stream_messages rid (foldl rt_invoke d xs) = stream_messages rid d"
    if "ar_closed d" "ar_stop d" "ar_streams d = []" "offered (ar_thread d) \<noteq> Some rid" for d
    using that
  proof (induction xs arbitrary: d)
    case Nil
    then show ?case by simp
  next
    case (Cons x xs)
    with stopped_streams [OF Cons.prems, of x] show ?case by simp
  qed
  from this [OF st(2,3) e(2)] assms(4) st(4) have "stream_messages rid (foldl rt_invoke b xs) = stream_messages rid a"
    by (simp add: stream_messages_def st(1))
  ultimately show ?thesis using e(1) by blast
qed

definition closing_runtime :: api_runtime where
  "closing_runtime = rt_close_begin (foldl rt_invoke small_runtime [Rt_Submit_Stream sample_stream_request])"

lemma closing_runtime_ok: "runtime_ok closing_runtime" "ar_closed closing_runtime"
proof -
  have "closing_runtime = foldl rt_invoke small_runtime [Rt_Submit_Stream sample_stream_request, Rt_Close_Begin]"
    by (simp add: closing_runtime_def)
  then show "runtime_ok closing_runtime"
    using runtime.calls_inv [OF mk_api_runtime_ok [OF mk_small_runtime one_worker_fit]] by metis
  show "ar_closed closing_runtime" by (simp add: closing_runtime_def rt_close_begin_def)
qed

theorem close_settles_futures_strands_streams_witness:
  "\<exists>b. rt_close_finish closing_runtime = (Inr (), b) \<and>
     stream_messages ''r1'' (foldl rt_invoke b [Reader_Takes ''r1'', Rt_Dispatch 0]) = Some []"
proof -
  have "isOK (fst (close (ar_scheduler closing_runtime)))"
    by (simp add: closing_runtime_def rt_close_begin_def rt_submit_stream_def small_runtime_def
        one_worker_def run_sched sample_stream_request_def close_def worker_at_def shutdown_def shutdown_graceful_def
        receive_message_def pop_delivery_def Let_def ready_client_def new_client_def set_worker_def
        add_events_def sample_process_def worker_exn_def child_died_def terminate_and_join_def cleanup_transport_def
        cancel_active_def worker_id_def sample_spec_def)
  then have "fst (rt_close_finish closing_runtime) = Inr ()"
    by (cases "close (ar_scheduler closing_runtime)"; cases "fst (close (ar_scheduler closing_runtime))")
      (auto simp: rt_close_finish_def)
  then obtain b where b: "rt_close_finish closing_runtime = (Inr (), b)"
    by (metis prod.collapse)
  have "stream_messages ''r1'' closing_runtime = Some []" "offered (ar_thread closing_runtime) \<noteq> Some ''r1''"
    by (simp_all add: stream_messages_def closing_runtime_def rt_close_begin_def rt_submit_stream_def small_runtime_def
        one_worker_def run_sched sample_stream_request_def)
  with close_settles_futures_strands_streams
      [OF closing_runtime_ok b this(2), of "[Reader_Takes ''r1'', Rt_Dispatch 0]"] b
  show ?thesis by metis
qed

end
