(* ===== verification/Wav_Io.thy ===== *)
theory Wav_Io
  imports Backend_Types "HOL-Library.Word"
begin

text \<open>
  \<open>voxcpm_runtime/wav_io.py\<close>: samples to signed 16-bit integers, the atomic writing of a WAV file and
  the validation of one. What the module uses of \<open>array\<close>, \<open>struct\<close> and \<open>wave\<close> is modelled byte by byte
  (bytes are \<open>8 word\<close>s), the byte order of the host included; \<open>sha256\<close> is a parameter. The directory
  is the pair of files the writer touches. Whether a system call fails is said by the environment.
\<close>

section \<open>Bytes\<close>

type_synonym byte = "8 word"

text \<open>\<open>struct\<close>'s little-endian unsigned integers.\<close>

fun le :: "nat \<Rightarrow> nat \<Rightarrow> byte list" where
  "le 0 n = []"
| "le (Suc k) n = word_of_nat (n mod 256) # le k (n div 256)"

fun unle :: "byte list \<Rightarrow> nat" where
  "unle [] = 0"
| "unle (b # bs) = unat b + 256 * unle bs"

definition ascii :: "string \<Rightarrow> byte list" where
  "ascii s = map (\<lambda>c. word_of_nat (ordc c)) s"

lemma length_le [simp]: "length (le k n) = k"
  by (induction k arbitrary: n) auto

lemma length_ascii [simp]: "length (ascii s) = length s"
  by (simp add: ascii_def)

lemma unle_le: "n < 256 ^ k \<Longrightarrow> unle (le k n) = n"
proof (induction k arbitrary: n)
  case 0
  then show ?case by simp
next
  case (Suc k)
  have "unat (word_of_nat (n mod 256) :: byte) = n mod 256"
    by (simp add: unat_of_nat take_bit_eq_mod)
  moreover have "n div 256 < 256 ^ k" using Suc.prems by (simp add: less_mult_imp_div_less mult.commute)
  ultimately show ?case using Suc.IH [of "n div 256"] by simp
qed

lemma unle_le_word [simp]: "unle (le 2 (unat (w :: 16 word))) = unat w"
proof (rule unle_le)
  have "unat w < 2 ^ LENGTH(16)" by (rule unsigned_less)
  then show "unat w < 256 ^ 2" by simp
qed

section \<open>Samples\<close>

definition wav_write_error :: "string \<Rightarrow> exn" where
  "wav_write_error = OtherError ''WavWriteError''"

definition pcm_max :: int where
  "pcm_max = 32767"

definition pcm_min :: int where
  "pcm_min = - 32768"

definition clip :: "rat \<Rightarrow> rat" where
  "clip v = (if v > 1 then 1 else if v < - 1 then - 1 else v)"

definition quantize :: "pyfloat \<Rightarrow> exn + int" where
  "quantize sample =
     (if \<not> isfinite sample then Inl (wav_write_error ''Audio samples must be finite real numbers.'')
      else let q = round_half_even (fl64 (clip (float_val sample) * 32767)) in
        Inr (if q > pcm_max then pcm_max else if q < pcm_min then pcm_min else q))"

text \<open>An \<open>array('h')\<close> is given by the bytes of its items in the host's order; \<open>byteswap\<close> turns the
  bytes of each item around.\<close>

definition native_item :: "bool \<Rightarrow> int \<Rightarrow> byte list" where
  "native_item big_endian q =
     (let bytes = le 2 (unat (word_of_int q :: 16 word)) in if big_endian then rev bytes else bytes)"

definition clip_and_quantize :: "bool \<Rightarrow> pyfloat list \<Rightarrow> exn + byte list list" where
  "clip_and_quantize big_endian samples =
     and_then (map_raise quantize samples) (\<lambda>qs.
       let buffer = map (native_item big_endian) qs in
       Inr (if big_endian then map rev buffer else buffer))"

section \<open>Writing a WAVE file\<close>

text \<open>The exceptions of the standard library that can leave \<open>wave\<close>.\<close>

definition wave_error :: exn where
  "wave_error = OtherError ''Error'' []"

definition struct_error :: exn where
  "struct_error = OtherError ''error'' []"

fun swap_pairs :: "byte list \<Rightarrow> byte list" where
  "swap_pairs (a # b # bs) = b # a # swap_pairs bs"
| "swap_pairs bs = bs"

definition riff :: "byte list" where
  "riff = ascii ''RIFF''"

definition wave_magic :: "byte list" where
  "wave_magic = ascii ''WAVE''"

definition fmt_magic :: "byte list" where
  "fmt_magic = ascii ''fmt ''"

definition data_magic :: "byte list" where
  "data_magic = ascii ''data''"

text \<open>\<open>struct.pack('<L4s4sLHHLLHH4s', ...)\<close> and the \<open>'<L'\<close> after it: 40 bytes, provided that every
  number fits its field. The two sizes are patched when the number of frames announced was not the
  number written.\<close>

definition header_fits :: "nat \<Rightarrow> nat \<Rightarrow> nat \<Rightarrow> bool" where
  "header_fits channels rate len \<longleftrightarrow>
     36 + len < 2 ^ 32 \<and> channels < 2 ^ 16 \<and> rate < 2 ^ 32 \<and>
     channels * rate * 2 < 2 ^ 32 \<and> channels * 2 < 2 ^ 16"

definition wave_header :: "nat \<Rightarrow> nat \<Rightarrow> nat \<Rightarrow> nat \<Rightarrow> byte list" where
  "wave_header form channels rate len =
     le 4 form @ wave_magic @ fmt_magic @ le 4 16 @ le 2 1 @ le 2 channels @ le 4 rate @
     le 4 (channels * rate * 2) @ le 2 (channels * 2) @ le 2 16 @ data_magic @ le 4 len"

text \<open>\<open>with wave.open(name, "wb") as handle\<close> up to the end of the block: the outcome and what the file
  then holds. Where the header cannot be packed, \<open>close\<close> tries once more, so the four bytes before it
  stand twice.\<close>

definition wave_write :: "bool \<Rightarrow> int \<Rightarrow> int \<Rightarrow> byte list \<Rightarrow> (exn + unit) \<times> byte list" where
  "wave_write big_endian channels rate payload =
     (if channels < 1 \<or> rate \<le> 0 then (Inl wave_error, [])
      else
        let n = nat channels; r = nat rate; len = length payload;
            announced = len div (n * 2) * n * 2;
            written = (if big_endian then swap_pairs payload else payload) in
        if \<not> header_fits n r announced then (Inl struct_error, riff @ riff)
        else if announced = len \<or> header_fits n r len
        then (Inr (), riff @ wave_header (36 + len) n r len @ written)
        else (Inl struct_error, riff @ wave_header (36 + announced) n r announced @ written))"

text \<open>\<open>_sha256_file\<close> reads the file piece by piece.\<close>

function file_chunks :: "nat \<Rightarrow> byte list \<Rightarrow> byte list list" where
  "file_chunks n bs = (if bs = [] \<or> n = 0 then [] else take n bs # file_chunks n (drop n bs))"
  by pat_completeness auto
termination
  by (relation "measure (\<lambda>(n, bs). length bs)") auto

declare file_chunks.simps [simp del]

lemma concat_file_chunks: "0 < n \<Longrightarrow> concat (file_chunks n bs) = bs"
proof (induction n bs rule: file_chunks.induct)
  case (1 n bs)
  then show ?case by (subst file_chunks.simps) auto
qed

definition sha256_file :: "(byte list \<Rightarrow> string) \<Rightarrow> byte list \<Rightarrow> string" where
  "sha256_file sha256 content = sha256 (concat (file_chunks (1024 * 1024) content))"

lemma sha256_file_whole [simp]: "sha256_file sha256 content = sha256 content"
  by (simp add: sha256_file_def concat_file_chunks)

record wav_write_result =
  ww_name :: string
  ww_byte_size :: int
  ww_sha256 :: string
  ww_channel_count :: int
  ww_sample_rate_hz :: int
  ww_sample_width_bytes :: int
  ww_frame_count :: int
  ww_duration_seconds :: rat

text \<open>\<open>round(x, 6)\<close>: the decimal of six places nearest to the float, as a float again.\<close>

definition round6 :: "rat \<Rightarrow> rat" where
  "round6 x = fl64 (of_int (round_half_even (x * 1000000)) / 1000000)"

definition float_of :: "rat \<Rightarrow> pyval" where
  "float_of q = PFloat (Fin q)"

definition write_result_to_dict :: "wav_write_result \<Rightarrow> (string, pyval) dict" where
  "write_result_to_dict r =
     [(''byte_size'', PInt (ww_byte_size r)), (''channel_count'', PInt (ww_channel_count r)),
      (''duration_seconds'', float_of (round6 (ww_duration_seconds r))),
      (''frame_count'', PInt (ww_frame_count r)), (''name'', PStr (ww_name r)),
      (''sample_rate_hz'', PInt (ww_sample_rate_hz r)),
      (''sample_width_bytes'', PInt (ww_sample_width_bytes r)), (''sha256'', PStr (ww_sha256 r))]"

text \<open>The two files, and how the system calls of one run go: an \<open>OSError\<close> while the temporary file is
  written leaves it in some state.\<close>

record directory =
  di_target :: "byte list option"
  di_temporary :: "byte list option"

record write_env =
  we_big_endian :: bool
  we_sha256 :: "byte list \<Rightarrow> string"
  we_mkdir_ok :: bool
  we_parent_is_dir :: bool
  we_write_fault :: "byte list option option"
  we_replace_ok :: bool
  we_unlink_ok :: bool
  we_inspect_ok :: bool

definition ensure_parent :: "write_env \<Rightarrow> bool \<Rightarrow> exn + unit" where
  "ensure_parent e create_parents =
     (if create_parents \<and> \<not> we_mkdir_ok e
      then Inl (wav_write_error ''The WAV output directory could not be created.'')
      else if \<not> we_parent_is_dir e then Inl (wav_write_error ''The WAV output directory does not exist.'')
      else Inr ())"

definition discard :: "write_env \<Rightarrow> directory \<Rightarrow> directory" where
  "discard e d = (if we_unlink_ok e then d\<lparr>di_temporary := None\<rparr> else d)"

definition write_temporary :: "write_env \<Rightarrow> audio_result \<Rightarrow> byte list \<Rightarrow> directory \<Rightarrow> (exn + unit) \<times> directory" where
  "write_temporary e a payload d =
     (case we_write_fault e of
        Some partial \<Rightarrow> (Inl (OtherError ''OSError'' []), d\<lparr>di_temporary := partial\<rparr>)
      | None \<Rightarrow>
          (case wave_write (we_big_endian e) (ar_channels a) (ar_sample_rate_hz a) payload of
             (r, content) \<Rightarrow> (r, d\<lparr>di_temporary := Some content\<rparr>)))"

text \<open>\<open>struct.error\<close> is no \<open>ValueError\<close>: it is not among the exceptions caught.\<close>

definition caught :: "exn \<Rightarrow> bool" where
  "caught e \<longleftrightarrow> e = OtherError ''OSError'' [] \<or> e = wave_error"

text \<open>\<open>name\<close> is \<open>Path(path).name\<close>, \<open>None\<close> where \<open>Path\<close> raises.\<close>

definition write_wav ::
    "write_env \<Rightarrow> string option \<Rightarrow> audio_result \<Rightarrow> bool \<Rightarrow> directory \<Rightarrow>
     (exn + wav_write_result) \<times> directory" where
  "write_wav e name a create_parents d =
     (if ar_samples a = [] then (Inl (wav_write_error ''The audio result contains no samples.''), d)
      else case name of
        None \<Rightarrow> (Inl (wav_write_error ''The WAV output path is not a usable filesystem path.''), d)
      | Some nm \<Rightarrow>
      if nm = [] then (Inl (wav_write_error ''The WAV output path is not a usable filesystem path.''), d)
      else case ensure_parent e create_parents of
        Inl x \<Rightarrow> (Inl x, d)
      | Inr _ \<Rightarrow>
      (case clip_and_quantize (we_big_endian e) (ar_samples a) of
        Inl x \<Rightarrow> (Inl x, d)
      | Inr frames \<Rightarrow>
      (case write_temporary e a (concat frames) d of
        (Inl x, d1) \<Rightarrow>
          if caught x then (Inl (wav_write_error ''The WAV file could not be written.''), discard e d1)
          else (Inl x, d1)
      | (Inr _, d1) \<Rightarrow>
          if \<not> we_replace_ok e then (Inl (wav_write_error ''The WAV file could not be finalized.''), discard e d1)
          else let d2 = d1\<lparr>di_target := di_temporary d1, di_temporary := None\<rparr> in
            if \<not> we_inspect_ok e then (Inl (wav_write_error ''The written WAV file could not be inspected.''), d2)
            else let content = (case di_target d2 of None \<Rightarrow> [] | Some c \<Rightarrow> c) in
              (Inr \<lparr>ww_name = nm, ww_byte_size = int (length content),
                    ww_sha256 = sha256_file (we_sha256 e) content,
                    ww_channel_count = ar_channels a, ww_sample_rate_hz = ar_sample_rate_hz a,
                    ww_sample_width_bytes = 2, ww_frame_count = int (length frames),
                    ww_duration_seconds =
                      fl64 (of_int (int (length frames)) / of_int (ar_sample_rate_hz a))\<rparr>, d2))))"

section \<open>Reading a WAVE file\<close>

text \<open>\<open>wave\<close> reads through the \<open>RIFF\<close> chunk: \<open>limit\<close> is that chunk's declared size, \<open>body\<close> what the file
  holds after its header, \<open>pos\<close> the number of bytes read. The pad byte after an odd chunk is read too.\<close>

definition riff_read :: "nat \<Rightarrow> byte list \<Rightarrow> nat \<Rightarrow> nat \<Rightarrow> byte list \<times> nat" where
  "riff_read limit body n pos =
     (if limit \<le> pos then ([], pos)
      else let d = take (min n (limit - pos)) (drop pos body); p = pos + length d in
        (d, if p = limit \<and> odd limit \<and> p < length body then p + 1 else p))"

text \<open>A chunk in it: name, size and where its data begin; \<open>None\<close> is \<open>EOFError\<close>. Reading from it counts
  the bytes read, and skipping the rest of it is a seek, which raises \<open>RuntimeError\<close> past the limit.\<close>

definition chunk_open :: "nat \<Rightarrow> byte list \<Rightarrow> nat \<Rightarrow> (byte list \<times> nat \<times> nat) option" where
  "chunk_open limit body pos =
     (let (name, p1) = riff_read limit body 4 pos; (raw, p2) = riff_read limit body 4 p1 in
      if length name < 4 \<or> length raw < 4 then None else Some (name, unle raw, p2))"

definition chunk_read :: "nat \<Rightarrow> byte list \<Rightarrow> nat \<Rightarrow> nat \<Rightarrow> nat \<times> nat \<Rightarrow> byte list \<times> nat \<times> nat" where
  "chunk_read limit body sz n st =
     (case st of (done_bytes, pos) \<Rightarrow>
      if sz \<le> done_bytes then ([], done_bytes, pos)
      else let (d, p) = riff_read limit body (min n (sz - done_bytes)) pos; m = done_bytes + length d in
        if m = sz \<and> odd sz
        then let (pad, p') = riff_read limit body 1 p in (d, m + length pad, p')
        else (d, m, p))"

definition chunk_skip :: "nat \<Rightarrow> nat \<Rightarrow> nat \<times> nat \<Rightarrow> exn + nat" where
  "chunk_skip limit sz st =
     (case st of (done_bytes, pos) \<Rightarrow>
      let p = pos + (sz + (if odd sz then 1 else 0) - done_bytes) in
      if limit < p then Inl (RuntimeError []) else Inr p)"

record wave_format =
  wf_channels :: nat
  wf_rate :: nat
  wf_width :: nat

definition read_fmt_chunk :: "nat \<Rightarrow> byte list \<Rightarrow> nat \<Rightarrow> nat \<Rightarrow> exn + wave_format \<times> nat \<times> nat" where
  "read_fmt_chunk limit body sz pos =
     (let (d, st) = chunk_read limit body sz 14 (0, pos) in
      if length d < 14 then Inl EOFError
      else if unle (take 2 d) \<noteq> 1 then Inl wave_error
      else let (w, st') = chunk_read limit body sz 2 st in
        if length w < 2 then Inl EOFError
        else let f = \<lparr>wf_channels = unle (take 2 (drop 2 d)), wf_rate = unle (take 4 (drop 4 d)),
                      wf_width = (unle w + 7) div 8\<rparr> in
          if wf_width f = 0 \<or> wf_channels f = 0 then Inl wave_error else Inr (f, st'))"

lemma riff_read_grows: "riff_read limit body n pos = (d, p) \<Longrightarrow> pos + length d \<le> p"
  by (auto simp: riff_read_def Let_def split: if_splits)

lemma chunk_open_grows:
  "chunk_open limit body pos = Some (name, sz, p) \<Longrightarrow> pos < p"
  by (auto simp: chunk_open_def Let_def split: prod.splits if_splits dest!: riff_read_grows)

lemma chunk_read_grows: "chunk_read limit body sz n (m, pos) = (d, m', p) \<Longrightarrow> pos \<le> p"
  by (auto simp: chunk_read_def Let_def split: prod.splits if_splits dest!: riff_read_grows)

lemma chunk_skip_grows: "chunk_skip limit sz (m, pos) = Inr p \<Longrightarrow> pos \<le> p \<and> p \<le> limit"
  by (auto simp: chunk_skip_def Let_def split: if_splits)

lemma read_fmt_grows: "read_fmt_chunk limit body sz pos = Inr (f, m, p) \<Longrightarrow> pos \<le> p"
  by (auto simp: read_fmt_chunk_def Let_def split: prod.splits if_splits dest!: chunk_read_grows)

text \<open>The loop over the chunks, up to the first \<open>data\<close> chunk. Every turn moves on and none past the limit.\<close>

function scan_chunks :: "nat \<Rightarrow> byte list \<Rightarrow> nat \<Rightarrow> wave_format option \<Rightarrow> exn + wave_format \<times> nat" where
  "scan_chunks limit body pos fmt =
     (case chunk_open limit body pos of
        None \<Rightarrow> Inl wave_error
      | Some (name, sz, p) \<Rightarrow>
          if name = fmt_magic then
            (case read_fmt_chunk limit body sz p of
               Inl e \<Rightarrow> Inl e
             | Inr (f, st) \<Rightarrow>
                 (case chunk_skip limit sz st of
                    Inl e \<Rightarrow> Inl e
                  | Inr p' \<Rightarrow> scan_chunks limit body p' (Some f)))
          else if name = data_magic then
            (case fmt of
               None \<Rightarrow> Inl wave_error
             | Some f \<Rightarrow> Inr (f, sz div (wf_channels f * wf_width f)))
          else
            (case chunk_skip limit sz (0, p) of
               Inl e \<Rightarrow> Inl e
             | Inr p' \<Rightarrow> scan_chunks limit body p' fmt))"
  by pat_completeness auto
termination
  by (relation "measure (\<lambda>(limit, body, pos, fmt). Suc limit - pos)")
    (fastforce dest: chunk_open_grows read_fmt_grows chunk_skip_grows)+

declare scan_chunks.simps [simp del]

definition read_wave :: "byte list \<Rightarrow> exn + wave_format \<times> nat" where
  "read_wave content =
     (if length content < 8 then Inl EOFError
      else if take 4 content \<noteq> riff then Inl wave_error
      else let limit = unle (take 4 (drop 4 content)); body = drop 8 content;
               (magic, pos) = riff_read limit body 4 0 in
        if magic \<noteq> wave_magic then Inl wave_error else scan_chunks limit body pos None)"

section \<open>Validating a file\<close>

text \<open>What of the file can be read: it may be missing or unreadable, and each later \<open>open\<close> may fail.\<close>

datatype file_status = Missing_File | Unreadable_File | Readable_File

record read_env =
  re_sha256 :: "byte list \<Rightarrow> string"
  re_status :: file_status
  re_header_opens :: bool
  re_format_opens :: bool
  re_wave_opens :: bool
  re_digest_opens :: bool

record wav_validation =
  wv_exists :: bool
  wv_riff_header_ok :: bool
  wv_wave_format_pcm :: bool
  wv_channel_count :: int
  wv_sample_width_bytes :: int
  wv_sample_rate_hz :: int
  wv_frame_count :: int
  wv_duration_seconds :: rat
  wv_byte_size :: int
  wv_sha256 :: string
  wv_sample_rate_matches :: bool
  wv_channel_count_matches :: bool
  wv_failure_reason :: "string option"

definition valid :: "wav_validation \<Rightarrow> bool" where
  "valid v \<longleftrightarrow> wv_failure_reason v = None"

definition validation_to_dict :: "wav_validation \<Rightarrow> (string, pyval) dict" where
  "validation_to_dict v =
     [(''byte_size'', PInt (wv_byte_size v)), (''channel_count'', PInt (wv_channel_count v)),
      (''channel_count_matches'', PBool (wv_channel_count_matches v)),
      (''duration_seconds'', float_of (round6 (wv_duration_seconds v))),
      (''exists'', PBool (wv_exists v)),
      (''failure_reason'', (case wv_failure_reason v of None \<Rightarrow> PNone | Some r \<Rightarrow> PStr r)),
      (''frame_count'', PInt (wv_frame_count v)), (''riff_header_ok'', PBool (wv_riff_header_ok v)),
      (''sample_rate_hz'', PInt (wv_sample_rate_hz v)),
      (''sample_rate_matches'', PBool (wv_sample_rate_matches v)),
      (''sample_width_bytes'', PInt (wv_sample_width_bytes v)), (''sha256'', PStr (wv_sha256 v)),
      (''valid'', PBool (valid v)), (''wave_format_pcm'', PBool (wv_wave_format_pcm v))]"

definition riff_header_ok :: "bool \<Rightarrow> byte list \<Rightarrow> bool" where
  "riff_header_ok opens content \<longleftrightarrow>
     (let header = take 12 content in
      opens \<and> 12 \<le> length header \<and> take 4 header = riff \<and> take 4 (drop 8 header) = wave_magic \<and>
      unle (take 4 (drop 4 header)) = length content - 8)"

definition wave_format_is_pcm :: "bool \<Rightarrow> byte list \<Rightarrow> bool" where
  "wave_format_is_pcm opens content \<longleftrightarrow>
     (let s = drop 12 content; chunk_size = take 4 (drop 4 s); audio_format = take 2 (drop 8 s) in
      opens \<and> take 4 s = fmt_magic \<and> length chunk_size = 4 \<and> 16 \<le> unle chunk_size \<and>
      length audio_format = 2 \<and> unle audio_format = 1)"

definition blank_validation :: wav_validation where
  "blank_validation =
     \<lparr>wv_exists = True, wv_riff_header_ok = False, wv_wave_format_pcm = False, wv_channel_count = 0,
      wv_sample_width_bytes = 0, wv_sample_rate_hz = 0, wv_frame_count = 0, wv_duration_seconds = 0,
      wv_byte_size = 0, wv_sha256 = [], wv_sample_rate_matches = False, wv_channel_count_matches = False,
      wv_failure_reason = None\<rparr>"

text \<open>\<open>_invalid\<close>: the keyword arguments are given by the fields of a record that starts blank.\<close>

definition invalid :: "string \<Rightarrow> wav_validation \<Rightarrow> wav_validation" where
  "invalid reason v =
     v\<lparr>wv_duration_seconds :=
         (if wv_sample_rate_hz v > 0 \<and> wv_frame_count v > 0
          then fl64 (of_int (wv_frame_count v) / of_int (wv_sample_rate_hz v)) else 0),
       wv_failure_reason := Some reason\<rparr>"

definition matches :: "int option \<Rightarrow> int \<Rightarrow> bool" where
  "matches expected actual \<longleftrightarrow> (case expected of None \<Rightarrow> True | Some x \<Rightarrow> actual = x)"

text \<open>The part after the file has been read: \<open>v\<close> carries what every later report has in common.\<close>

definition judge :: "bool \<Rightarrow> bool \<Rightarrow> wav_validation \<Rightarrow> wav_validation" where
  "judge rate_ok channels_ok v =
     (let with_channels = v\<lparr>wv_channel_count_matches := channels_ok\<rparr>;
          with_rate = v\<lparr>wv_sample_rate_matches := rate_ok\<rparr>;
          with_both = v\<lparr>wv_sample_rate_matches := rate_ok, wv_channel_count_matches := channels_ok\<rparr> in
      if wv_channel_count v \<le> 0 then invalid ''channel_count_invalid'' with_channels
      else if wv_sample_width_bytes v \<le> 0 then invalid ''sample_width_invalid'' with_both
      else if wv_sample_rate_hz v \<le> 0 then invalid ''sample_rate_invalid'' with_channels
      else if wv_frame_count v \<le> 0 then invalid ''frame_count_empty'' with_both
      else if \<not> rate_ok then invalid ''sample_rate_mismatch'' with_channels
      else if \<not> channels_ok then invalid ''channel_count_mismatch'' with_rate
      else v\<lparr>wv_duration_seconds := fl64 (of_int (wv_frame_count v) / of_int (wv_sample_rate_hz v)),
             wv_sample_rate_matches := True, wv_channel_count_matches := True\<rparr>)"

fun unreadable_wave :: "exn \<Rightarrow> bool" where
  "unreadable_wave EOFError = True"
| "unreadable_wave e = (e = wave_error)"

text \<open>\<open>path_ok\<close> is false where \<open>Path(path)\<close> raises. An exception of \<open>wave\<close> that is not caught is the
  outcome.\<close>

definition validate_wav ::
    "read_env \<Rightarrow> bool \<Rightarrow> byte list \<Rightarrow> int option \<Rightarrow> int option \<Rightarrow> exn + wav_validation" where
  "validate_wav e path_ok content expected_rate expected_channels =
     (if \<not> path_ok then Inr (invalid ''unusable_path'' (blank_validation\<lparr>wv_exists := False\<rparr>))
      else if re_status e = Missing_File
      then Inr (invalid ''missing_file'' (blank_validation\<lparr>wv_exists := False\<rparr>))
      else if re_status e = Unreadable_File
      then Inr (invalid ''unreadable_file'' (blank_validation\<lparr>wv_exists := False\<rparr>))
      else if content = [] then Inr (invalid ''empty_file'' blank_validation)
      else let v = blank_validation\<lparr>wv_byte_size := int (length content)\<rparr> in
        if \<not> riff_header_ok (re_header_opens e) content then Inr (invalid ''riff_header_invalid'' v)
        else if \<not> wave_format_is_pcm (re_format_opens e) content
        then Inr (invalid ''wave_format_not_pcm'' (v\<lparr>wv_riff_header_ok := True\<rparr>))
        else let w = v\<lparr>wv_riff_header_ok := True, wv_wave_format_pcm := True\<rparr> in
          if \<not> re_wave_opens e then Inr (invalid ''wave_module_cannot_read'' w)
          else case read_wave content of
            Inl x \<Rightarrow> if unreadable_wave x then Inr (invalid ''wave_module_cannot_read'' w) else Inl x
          | Inr (f, frames) \<Rightarrow>
              Inr (judge (matches expected_rate (int (wf_rate f))) (matches expected_channels (int (wf_channels f)))
                (w\<lparr>wv_channel_count := int (wf_channels f), wv_sample_width_bytes := int (wf_width f),
                   wv_sample_rate_hz := int (wf_rate f), wv_frame_count := int frames,
                   wv_sha256 := (if re_digest_opens e then sha256_file (re_sha256 e) content else [])\<rparr>)))"

section \<open>What is written is what is read\<close>

lemma magic_lengths [simp]:
  "length riff = 4" "length wave_magic = 4" "length fmt_magic = 4" "length data_magic = 4"
  by (simp_all add: riff_def wave_magic_def fmt_magic_def data_magic_def)

lemma data_not_fmt: "data_magic \<noteq> fmt_magic"
  by (simp add: data_magic_def fmt_magic_def ascii_def)

lemma length_wave_header [simp]: "length (wave_header form n r len) = 40"
  by (simp add: wave_header_def)

text \<open>A file that starts with the writer's header is read as that header says, whatever follows and
  whatever it declares for the data.\<close>

lemma read_wave_header:
  assumes "header_fits n r len" and "36 + length tail < 2 ^ 32" and "0 < n"
  shows "read_wave (riff @ wave_header (36 + length tail) n r len @ tail) =
    Inr (\<lparr>wf_channels = n, wf_rate = r, wf_width = 2\<rparr>, len div (n * 2))"
proof -
  have fits: "len < 2 ^ 32" "n < 2 ^ 16" "r < 2 ^ 32" "n * r * 2 < 2 ^ 32" "n * 2 < 2 ^ 16"
    using assms(1) by (auto simp: header_fits_def)
  define limit where "limit = 36 + length tail"
  define body where "body = wave_magic @ fmt_magic @ le 4 16 @ le 2 1 @ le 2 n @ le 4 r @ le 4 (n * r * 2) @
    le 2 (n * 2) @ le 2 16 @ data_magic @ le 4 len @ tail"
  have lim: "unle (le 4 limit) = limit" using assms(2) unfolding limit_def by (intro unle_le) simp
  have u: "unle (le 4 16) = 16" "unle (le 2 1) = 1" "unle (le 2 16) = 16" "unle (le 2 n) = n"
      "unle (le 4 r) = r" "unle (le 4 len) = len"
    using fits by (auto intro!: unle_le)
  note u' = u(2) [simplified]
  have magic: "riff_read limit body 4 0 = (wave_magic, 4)"
    by (simp add: riff_read_def limit_def body_def)
  have c1: "chunk_open limit body 4 = Some (fmt_magic, 16, 12)"
    by (simp add: chunk_open_def riff_read_def limit_def body_def u)
  have f: "read_fmt_chunk limit body 16 12 = Inr (\<lparr>wf_channels = n, wf_rate = r, wf_width = 2\<rparr>, 16, 28)"
    using assms(3) by (simp add: read_fmt_chunk_def chunk_read_def riff_read_def limit_def body_def u u' Let_def)
  have s: "chunk_skip limit 16 (16, 28) = Inr 28" by (simp add: chunk_skip_def limit_def)
  have c2: "chunk_open limit body 28 = Some (data_magic, len, 36)"
    by (simp add: chunk_open_def riff_read_def limit_def body_def u Let_def)
  have "scan_chunks limit body 28 (Some \<lparr>wf_channels = n, wf_rate = r, wf_width = 2\<rparr>) =
      Inr (\<lparr>wf_channels = n, wf_rate = r, wf_width = 2\<rparr>, len div (n * 2))"
    by (subst scan_chunks.simps) (simp add: c2 data_not_fmt)
  then have "scan_chunks limit body 4 None = Inr (\<lparr>wf_channels = n, wf_rate = r, wf_width = 2\<rparr>, len div (n * 2))"
    by (subst scan_chunks.simps) (simp add: c1 f s)
  moreover have "drop 8 (riff @ wave_header limit n r len @ tail) = body"
      "take 4 (drop 4 (riff @ wave_header limit n r len @ tail)) = le 4 limit"
    by (simp_all add: wave_header_def body_def)
  ultimately show ?thesis
    by (simp add: read_wave_def lim magic flip: limit_def)
qed

lemma clip_bounds: "\<bar>clip v * 32767\<bar> \<le> of_int 32767"
  by (auto simp: clip_def abs_le_iff)

lemma quantize_value:
  assumes "isfinite f"
  shows "\<exists>q. quantize f = Inr q \<and> q = round_half_even (fl64 (clip (float_val f) * 32767)) \<and>
    - 32767 \<le> q \<and> q \<le> 32767"
proof -
  have "\<bar>fl64 (clip (float_val f) * 32767)\<bar> \<le> of_int 32767"
    by (rule fl64_abs_le_int [OF clip_bounds]) simp_all
  then have "- 32767 \<le> round_half_even (fl64 (clip (float_val f) * 32767))"
    and "round_half_even (fl64 (clip (float_val f) * 32767)) \<le> 32767"
    by (auto simp: abs_le_iff intro!: round_half_even_ge round_half_even_le)
  with assms show ?thesis by (simp add: quantize_def Let_def pcm_max_def pcm_min_def)
qed

lemma sint16: "- 32768 \<le> q \<Longrightarrow> q \<le> 32767 \<Longrightarrow> sint (word_of_int q :: 16 word) = q"
  by (simp add: int_word_sint)

text \<open>The samples that a reader of the data finds: pairs of bytes as little-endian signed integers.\<close>

fun pcm_samples :: "byte list \<Rightarrow> int list" where
  "pcm_samples (a # b # bs) = sint (word_of_nat (unle [a, b]) :: 16 word) # pcm_samples bs"
| "pcm_samples bs = []"

fun pair_samples :: "byte list \<Rightarrow> int" where
  "pair_samples bs = sint (word_of_nat (unle bs) :: 16 word)"

lemma le_2: "\<exists>a b. le 2 n = [a, b]"
  by (simp add: numeral_2_eq_2)

lemma pcm_samples_items:
  "\<forall>x \<in> set xs. length x = 2 \<Longrightarrow> pcm_samples (concat xs) = map pair_samples xs"
proof (induction xs)
  case Nil
  then show ?case by simp
next
  case (Cons x xs)
  then obtain a b where "x = [a, b]" by (auto simp: numeral_2_eq_2 length_Suc_conv)
  with Cons show ?case by simp
qed

lemma swap_pairs_items:
  "\<forall>x \<in> set xs. length x = 2 \<Longrightarrow> swap_pairs (concat xs) = concat (map rev xs)"
proof (induction xs)
  case Nil
  then show ?case by simp
next
  case (Cons x xs)
  then obtain a b where "x = [a, b]" by (auto simp: numeral_2_eq_2 length_Suc_conv)
  with Cons show ?case by simp
qed

lemma pair_samples_native: "- 32768 \<le> q \<Longrightarrow> q \<le> 32767 \<Longrightarrow> pair_samples (native_item False q) = q"
  by (simp add: native_item_def sint16)

lemma native_rev: "native_item True q = rev (native_item False q)"
  by (simp add: native_item_def Let_def)

lemma clip_and_quantize_frames:
  assumes "clip_and_quantize big_endian ss = Inr frames"
  shows "\<exists>qs. map_raise quantize ss = Inr qs \<and> frames = map (native_item False) qs \<and> length qs = length ss"
proof -
  from assms obtain qs where qs: "map_raise quantize ss = Inr qs"
    and "frames = (if big_endian then map rev (map (native_item big_endian) qs) else map (native_item big_endian) qs)"
    unfolding clip_and_quantize_def and_then_eq_Inr Let_def sum.inject by metis
  then have "frames = map (native_item False) qs" by (simp add: native_rev comp_def split: if_splits)
  with qs map_raise_length [OF qs] show ?thesis by blast
qed

lemma length_native [simp]: "length (native_item b q) = 2"
  by (simp add: native_item_def Let_def)

lemma length_frames: "length (concat (map (native_item b) qs)) = 2 * length qs"
  by (induction qs) auto

lemma header_fits_mono: "header_fits n r len \<Longrightarrow> len' \<le> len \<Longrightarrow> header_fits n r len'"
  by (auto simp: header_fits_def)

lemma wave_write_Inr:
  "wave_write big c r payload = (Inr u, content) \<longleftrightarrow>
     1 \<le> c \<and> 0 < r \<and> header_fits (nat c) (nat r) (length payload) \<and>
     content = riff @ wave_header (36 + length payload) (nat c) (nat r) (length payload) @
       (if big then swap_pairs payload else payload)"
proof -
  define announced where "announced = length payload div (nat c * 2) * nat c * 2"
  have "announced \<le> length payload"
    using div_times_less_eq_dividend [of "length payload" "nat c * 2"] by (simp add: announced_def mult.assoc)
  from header_fits_mono [OF _ this, of "nat c" "nat r"] show ?thesis
    by (auto simp: wave_write_def Let_def simp flip: announced_def)
qed

lemma wave_write_outcome:
  assumes "wave_write big c r payload = (res, content)"
  shows "res = Inr () \<or> res = Inl wave_error \<or>
    res = Inl struct_error \<and> \<not> header_fits (nat c) (nat r) (length payload)"
proof -
  define announced where "announced = length payload div (nat c * 2) * nat c * 2"
  have "announced \<le> length payload"
    using div_times_less_eq_dividend [of "length payload" "nat c * 2"] by (simp add: announced_def mult.assoc)
  from header_fits_mono [OF _ this, of "nat c" "nat r"] assms show ?thesis
    by (auto simp: wave_write_def Let_def simp flip: announced_def split: if_splits)
qed

lemma map_raise_no_struct: "map_raise quantize ss \<noteq> Inl struct_error"
  by (induction ss) (auto simp: quantize_def Let_def raises wav_write_error_def struct_error_def split: if_splits)

lemma length_swap_pairs [simp]: "length (swap_pairs bs) = length bs"
  by (induction bs rule: swap_pairs.induct) auto

text \<open>The reader's environment in which every read succeeds.\<close>

definition reads_all :: "(byte list \<Rightarrow> string) \<Rightarrow> read_env" where
  "reads_all sha256 =
     \<lparr>re_sha256 = sha256, re_status = Readable_File, re_header_opens = True, re_format_opens = True,
      re_wave_opens = True, re_digest_opens = True\<rparr>"

lemma validate_header:
  assumes "header_fits n r len" and "36 + length tail < 2 ^ 32" and "0 < n" and "0 < r"
    and "re_status e = Readable_File" and "re_header_opens e" and "re_format_opens e" and "re_wave_opens e"
  shows "\<exists>v. validate_wav e True (riff @ wave_header (36 + length tail) n r len @ tail) (Some (int r)) (Some (int n)) = Inr v \<and>
    wv_frame_count v = int (len div (n * 2)) \<and> valid v = (n * 2 \<le> len) \<and> wv_channel_count v = int n \<and>
    wv_sample_rate_hz v = int r \<and> wv_sample_width_bytes v = 2 \<and> wv_byte_size v = int (44 + length tail) \<and>
    (re_digest_opens e \<longrightarrow> wv_sha256 v = re_sha256 e (riff @ wave_header (36 + length tail) n r len @ tail))"
proof -
  define content where "content = riff @ wave_header (36 + length tail) n r len @ tail"
  have u: "unle (le 4 (36 + length tail)) = 36 + length tail" "unle (le 4 16) = 16" "unle (le 2 1) = 1"
    using assms(2) by (auto intro!: unle_le)
  note u' = u(3) [simplified]
  have len: "length content = 44 + length tail" by (simp add: content_def)
  have ne: "content \<noteq> []" using len by auto
  have h: "riff_header_ok True content"
    by (simp add: riff_header_ok_def content_def wave_header_def u Let_def)
  have f: "wave_format_is_pcm True content"
    by (simp add: wave_format_is_pcm_def content_def wave_header_def u u' Let_def)
  have w: "read_wave content = Inr (\<lparr>wf_channels = n, wf_rate = r, wf_width = 2\<rparr>, len div (n * 2))"
    unfolding content_def by (rule read_wave_header [OF assms(1-3)])
  have pos: "0 < len div (n * 2) \<longleftrightarrow> n * 2 \<le> len"
    using assms(3) by (simp add: div_greater_zero_iff)
  from assms(3-8) h f w ne pos show ?thesis
    unfolding content_def [symmetric]
    by (auto simp: validate_wav_def judge_def matches_def invalid_def blank_validation_def valid_def Let_def len)
qed

section \<open>Properties\<close>

lemma quantize_list:
  "map_raise quantize ss = Inr qs \<Longrightarrow> \<forall>q \<in> set qs. - 32767 \<le> q \<and> q \<le> 32767"
proof (induction ss arbitrary: qs)
  case Nil
  then show ?case by simp
next
  case (Cons f ss)
  then obtain q rest where q: "quantize f = Inr q" "map_raise quantize ss = Inr rest" "qs = q # rest"
    by (auto simp: and_then_eq_Inr)
  then have "isfinite f" by (simp add: quantize_def split: if_splits)
  with quantize_value [OF this] Cons.IH [OF q(2)] q show ?case by auto
qed

text \<open>A sample is refused exactly when it is not finite; otherwise its integer lies in -32767 to
  32767, differs from the scaled and clipped sample by at most a half, and is what a reader finds in the
  two bytes stored for it, on hosts of either byte order.\<close>

theorem quantize_bounds:
  "outcome (\<lambda>x. \<not> isfinite f \<and> x = wav_write_error ''Audio samples must be finite real numbers.'')
     (\<lambda>q. isfinite f \<and> - 32767 \<le> q \<and> q \<le> 32767 \<and>
       \<bar>of_int q - fl64 (clip (float_val f) * 32767)\<bar> \<le> 1 / 2 \<and>
       pair_samples (if big_endian then rev (native_item True q) else native_item False q) = q)
     (quantize f)"
proof (cases "isfinite f")
  case False
  then show ?thesis by (simp add: quantize_def)
next
  case True
  from quantize_value [OF this] obtain q where q: "quantize f = Inr q"
    "q = round_half_even (fl64 (clip (float_val f) * 32767))" "- 32767 \<le> q" "q \<le> 32767" by blast
  have "pair_samples (native_item False q) = q" using q(3,4) by (intro pair_samples_native) auto
  with True q(1,3,4) round_half_even_error [of "fl64 (clip (float_val f) * 32767)"] show ?thesis
    by (simp add: native_rev q(2) [symmetric])
qed

lemma write_wav_Inr:
  assumes "write_wav e name a parents d = (Inr r, d')"
  shows "\<exists>qs content. map_raise quantize (ar_samples a) = Inr qs \<and> length qs = length (ar_samples a) \<and>
    wave_write (we_big_endian e) (ar_channels a) (ar_sample_rate_hz a) (concat (map (native_item False) qs)) =
      (Inr (), content) \<and>
    di_target d' = Some content \<and> di_temporary d' = None \<and> ww_byte_size r = int (length content) \<and>
    ww_sha256 r = we_sha256 e content \<and> ww_frame_count r = int (length qs)"
proof -
  from assms obtain frames where fr: "clip_and_quantize (we_big_endian e) (ar_samples a) = Inr frames"
    by (auto simp: write_wav_def split: if_splits option.splits sum.splits)
  from clip_and_quantize_frames [OF this] obtain qs where
    qs: "map_raise quantize (ar_samples a) = Inr qs" "frames = map (native_item False) qs"
      "length qs = length (ar_samples a)" by blast
  from assms fr obtain content where
    "wave_write (we_big_endian e) (ar_channels a) (ar_sample_rate_hz a) (concat frames) = (Inr (), content)"
    "d' = d\<lparr>di_temporary := Some content\<rparr>\<lparr>di_target := Some content, di_temporary := None\<rparr>"
    "ww_byte_size r = int (length content)" "ww_sha256 r = we_sha256 e content"
    "ww_frame_count r = int (length frames)"
    by (auto simp: write_wav_def write_temporary_def Let_def split: if_splits option.splits sum.splits prod.splits)
  with qs show ?thesis by auto
qed

lemma write_wav_file:
  assumes "write_wav e name a parents d = (Inr r, d')"
  shows "\<exists>content qs v. di_target d' = Some content \<and> di_temporary d' = None \<and>
    map_raise quantize (ar_samples a) = Inr qs \<and>
    pcm_samples (drop 44 content) =
      (if we_big_endian e then map (pair_samples \<circ> rev \<circ> native_item False) qs else qs) \<and>
    validate_wav (reads_all (we_sha256 e)) True content (Some (ar_sample_rate_hz a)) (Some (ar_channels a)) = Inr v \<and>
    valid v = (ar_channels a \<le> int (length (ar_samples a))) \<and>
    wv_frame_count v = int (length (ar_samples a)) div ar_channels a \<and>
    wv_sha256 v = ww_sha256 r \<and> wv_byte_size v = ww_byte_size r \<and>
    ww_byte_size r = 44 + 2 * int (length (ar_samples a)) \<and> ww_frame_count r = int (length (ar_samples a))"
proof -
  from write_wav_Inr [OF assms] obtain qs content where
    w: "map_raise quantize (ar_samples a) = Inr qs" "length qs = length (ar_samples a)"
      "wave_write (we_big_endian e) (ar_channels a) (ar_sample_rate_hz a) (concat (map (native_item False) qs)) =
        (Inr (), content)"
      "di_target d' = Some content" "di_temporary d' = None" "ww_byte_size r = int (length content)"
      "ww_sha256 r = we_sha256 e content" "ww_frame_count r = int (length qs)" by blast
  define data where "data = concat (map (native_item False) qs)"
  define tail where "tail = (if we_big_endian e then swap_pairs data else data)"
  define n where "n = nat (ar_channels a)"
  define rate where "rate = nat (ar_sample_rate_hz a)"
  have len: "length tail = length data" "length data = 2 * length (ar_samples a)"
    using w(2) by (simp_all add: tail_def data_def length_frames)
  from w(3) have c: "1 \<le> ar_channels a" "0 < ar_sample_rate_hz a" "header_fits n rate (length data)"
    "content = riff @ wave_header (36 + length tail) n rate (length data) @ tail"
    by (auto simp: wave_write_Inr data_def tail_def n_def rate_def)
  have "0 < n" "0 < rate" "36 + length tail < 2 ^ 32"
    using c(1-3) len(1) by (auto simp: n_def rate_def header_fits_def)
  from validate_header [OF c(3) this(3,1,2), of "reads_all (we_sha256 e)"] obtain v where v:
    "validate_wav (reads_all (we_sha256 e)) True content (Some (int rate)) (Some (int n)) = Inr v"
    "wv_frame_count v = int (length data div (n * 2))" "valid v = (n * 2 \<le> length data)"
    "wv_byte_size v = int (44 + length tail)" "wv_sha256 v = we_sha256 e content"
    using c(4) by (auto simp: reads_all_def)
  have nr: "int n = ar_channels a" "int rate = ar_sample_rate_hz a" using c(1,2) by (simp_all add: n_def rate_def)
  have frames: "int (length data div (n * 2)) = int (length (ar_samples a)) div ar_channels a"
    by (simp add: len(2) zdiv_int flip: nr(1))
  have "pair_samples (native_item False q) = q" if "q \<in> set qs" for q
    using quantize_list [OF w(1)] that by (intro pair_samples_native) auto
  then have "pcm_samples tail =
      (if we_big_endian e then map (pair_samples \<circ> rev \<circ> native_item False) qs else qs)"
    by (simp add: tail_def data_def swap_pairs_items pcm_samples_items map_idI comp_def)
  moreover have "drop 44 content = tail" by (simp add: c(4))
  moreover have "valid v = (ar_channels a \<le> int (length (ar_samples a)))"
    using v(3) len(2) nr(1) by linarith
  ultimately show ?thesis
    using w v frames nr len by (intro exI [of _ content] exI [of _ qs] exI [of _ v]) (auto simp: c(4))
qed


text \<open>An example: a host on which everything works.\<close>

definition calm_env :: write_env where
  "calm_env =
     \<lparr>we_big_endian = False, we_sha256 = (\<lambda>_. ''00''), we_mkdir_ok = True, we_parent_is_dir = True,
      we_write_fault = None, we_replace_ok = True, we_unlink_ok = True, we_inspect_ok = True\<rparr>"

definition silence :: "int \<Rightarrow> audio_result" where
  "silence channels =
     \<lparr>ar_samples = [Fin 0, Fin 0], ar_sample_rate_hz = 16000, ar_channels = channels, ar_metadata = []\<rparr>"

definition empty_directory :: directory where
  "empty_directory = \<lparr>di_target = None, di_temporary = None\<rparr>"

lemma quantize_zero [simp]: "quantize (Fin 0) = Inr 0"
  by (simp add: quantize_def clip_def fl64_def pcm_max_def pcm_min_def round_half_even_def)

lemma calm_write:
  "isOK (fst (write_wav calm_env (Some ''a.wav'') (silence 1) False empty_directory))"
proof -
  have "header_fits 1 16000 4" by (simp add: header_fits_def)
  then show ?thesis
    by (simp add: write_wav_def calm_env_def silence_def ensure_parent_def clip_and_quantize_def
        write_temporary_def wave_write_def Let_def)
qed


text \<open>C14. Whatever fails, the target is either what it was or a complete file, and it is only replaced
  when the run returns or when the inspection of the finished file fails. The temporary file is gone if
  it can be deleted, with one exception: numbers that do not fit the header (more than 32767 channels, a
  file of 4 GiB) make \<open>struct\<close> raise an exception that is not caught, and the temporary file stays.\<close>

theorem write_is_atomic:
  assumes "write_wav e name a parents d = (res, d')"
  shows "(di_target d' = di_target d \<and> \<not> isOK res \<or>
      (\<exists>qs content. map_raise quantize (ar_samples a) = Inr qs \<and> di_target d' = Some content \<and>
         wave_write (we_big_endian e) (ar_channels a) (ar_sample_rate_hz a) (concat (map (native_item False) qs)) =
           (Inr (), content) \<and>
         (isOK res \<or> res = Inl (wav_write_error ''The written WAV file could not be inspected.'')))) \<and>
    (we_unlink_ok e \<longrightarrow> res \<noteq> Inl struct_error \<longrightarrow> di_temporary d' = None \<or> d' = d) \<and>
    (res = Inl struct_error \<longrightarrow>
       \<not> header_fits (nat (ar_channels a)) (nat (ar_sample_rate_hz a)) (2 * length (ar_samples a)) \<and>
       di_target d' = di_target d \<and> di_temporary d' \<noteq> None)"
proof (cases "\<exists>frames. ar_samples a \<noteq> [] \<and> name \<noteq> None \<and> name \<noteq> Some [] \<and>
    ensure_parent e parents = Inr () \<and> clip_and_quantize (we_big_endian e) (ar_samples a) = Inr frames")
  case False
  have "ensure_parent e parents \<noteq> Inl struct_error"
    by (simp add: ensure_parent_def wav_write_error_def struct_error_def)
  moreover have "clip_and_quantize b ss \<noteq> Inl struct_error" for b ss
    using map_raise_no_struct [of ss] by (cases "map_raise quantize ss") (auto simp: clip_and_quantize_def Let_def)
  ultimately show ?thesis
    using False assms
    by (auto simp: write_wav_def wav_write_error_def struct_error_def Let_def
        split: if_splits option.splits sum.splits)
next
  case True
  then obtain frames nm where fr: "ar_samples a \<noteq> []" "name = Some nm" "nm \<noteq> []"
    "ensure_parent e parents = Inr ()" "clip_and_quantize (we_big_endian e) (ar_samples a) = Inr frames" by auto
  from clip_and_quantize_frames [OF this(5)] obtain qs where
    qs: "map_raise quantize (ar_samples a) = Inr qs" "frames = map (native_item False) qs"
      "length qs = length (ar_samples a)" by blast
  obtain r content where ww: "wave_write (we_big_endian e) (ar_channels a) (ar_sample_rate_hz a) (concat frames) =
      (r, content)" by fastforce
  have c: "caught (OtherError ''OSError'' [])" "caught wave_error" "\<not> caught struct_error"
    "OtherError ''OSError'' [] \<noteq> struct_error" "wave_error \<noteq> struct_error" "wav_write_error m \<noteq> struct_error" for m
    by (simp_all add: caught_def wave_error_def struct_error_def wav_write_error_def)
  note run = assms [unfolded write_wav_def fr(2) option.case, simplified fr(1,3,4,5) if_False sum.case Let_def,
    simplified]
  show ?thesis
  proof (cases "we_write_fault e")
    case (Some partial)
    with run c show ?thesis by (auto simp: write_temporary_def discard_def)
  next
    case None
    consider "r = Inr ()" | "r = Inl wave_error"
      | "r = Inl struct_error" "\<not> header_fits (nat (ar_channels a)) (nat (ar_sample_rate_hz a)) (2 * length (ar_samples a))"
      using wave_write_outcome [OF ww] qs by (auto simp: length_frames)
    then show ?thesis
    proof cases
      case 1
      with None run c ww qs show ?thesis
        by (auto simp: write_temporary_def discard_def split: if_splits)
    next
      case 2
      with None run c ww show ?thesis by (auto simp: write_temporary_def discard_def)
    next
      case 3
      with None run c ww show ?thesis by (auto simp: write_temporary_def)
    qed
  qed
qed

theorem write_is_atomic_witness:
  "fst (write_wav calm_env (Some ''a.wav'') (silence 40000) False empty_directory) = Inl struct_error \<and>
   di_temporary (snd (write_wav calm_env (Some ''a.wav'') (silence 40000) False empty_directory)) \<noteq> None"
proof -
  obtain res d' where w: "write_wav calm_env (Some ''a.wav'') (silence 40000) False empty_directory = (res, d')"
    by fastforce
  have "\<not> header_fits 40000 16000 len" for len by (simp add: header_fits_def)
  then have "fst (write_wav calm_env (Some ''a.wav'') (silence 40000) False empty_directory) = Inl struct_error"
    by (simp add: write_wav_def calm_env_def silence_def ensure_parent_def clip_and_quantize_def
        write_temporary_def wave_write_def caught_def wave_error_def struct_error_def Let_def)
  with write_is_atomic [OF w] w show ?thesis by simp
qed

text \<open>A chunk after the format that claims to be longer than the file.\<close>

definition overlong_chunk :: "nat \<Rightarrow> nat \<Rightarrow> nat \<Rightarrow> byte list" where
  "overlong_chunk n r len =
     riff @ le 4 36 @ wave_magic @ fmt_magic @ le 4 16 @ le 2 1 @ le 2 n @ le 4 r @ le 4 (n * r * 2) @
     le 2 (n * 2) @ le 2 16 @ ascii ''LIST'' @ le 4 len"

lemma read_overlong:
  assumes "header_fits n r len" and "0 < n" and "0 < len"
  shows "read_wave (overlong_chunk n r len) = Inl (RuntimeError [])"
proof -
  have fits: "len < 2 ^ 32" "n < 2 ^ 16" "r < 2 ^ 32" "n * r * 2 < 2 ^ 32" "n * 2 < 2 ^ 16"
    using assms(1) by (auto simp: header_fits_def)
  define body where "body = wave_magic @ fmt_magic @ le 4 16 @ le 2 1 @ le 2 n @ le 4 r @ le 4 (n * r * 2) @
    le 2 (n * 2) @ le 2 16 @ ascii ''LIST'' @ le 4 len"
  have u: "unle (le 4 36) = 36" "unle (le 4 16) = 16" "unle (le 2 1) = 1" "unle (le 2 16) = 16" "unle (le 2 n) = n"
      "unle (le 4 r) = r" "unle (le 4 len) = len"
    using fits by (auto intro!: unle_le)
  note u' = u(3) [simplified]
  have magic: "riff_read 36 body 4 0 = (wave_magic, 4)"
    by (simp add: riff_read_def body_def)
  have c1: "chunk_open 36 body 4 = Some (fmt_magic, 16, 12)"
    by (simp add: chunk_open_def riff_read_def body_def u)
  have f: "read_fmt_chunk 36 body 16 12 = Inr (\<lparr>wf_channels = n, wf_rate = r, wf_width = 2\<rparr>, 16, 28)"
    using assms(2) by (simp add: read_fmt_chunk_def chunk_read_def riff_read_def body_def u u' Let_def)
  have s: "chunk_skip 36 16 (16, 28) = Inr 28" by (simp add: chunk_skip_def)
  have c2: "chunk_open 36 body 28 = Some (ascii ''LIST'', len, 36)"
    by (simp add: chunk_open_def riff_read_def body_def u Let_def)
  have other: "ascii ''LIST'' \<noteq> fmt_magic" "ascii ''LIST'' \<noteq> data_magic"
    by (simp_all add: data_magic_def fmt_magic_def ascii_def)
  have "scan_chunks 36 body 28 (Some \<lparr>wf_channels = n, wf_rate = r, wf_width = 2\<rparr>) = Inl (RuntimeError [])"
    using assms(3) by (subst scan_chunks.simps) (simp add: c2 other chunk_skip_def Let_def)
  then have "scan_chunks 36 body 4 None = Inl (RuntimeError [])"
    by (subst scan_chunks.simps) (simp add: c1 f s)
  moreover have "drop 8 (overlong_chunk n r len) = body" "take 4 (drop 4 (overlong_chunk n r len)) = le 4 36"
      "length (overlong_chunk n r len) = 44" "take 4 (overlong_chunk n r len) = riff"
    by (simp_all add: overlong_chunk_def body_def)
  ultimately show ?thesis
    by (simp add: read_wave_def u magic)
qed

text \<open>\<open>validate_wav\<close> believes the sizes a file declares. A header with no data at all is reported
  valid, with as many frames as it claims; and when another chunk claims more than the file has, the
  \<open>RuntimeError\<close> of \<open>wave\<close> is not caught and no report is returned.\<close>

theorem validation_trusts_sizes:
  assumes "header_fits n r len" and "0 < n" and "0 < r" and "n * 2 \<le> len"
  shows "(\<exists>v. validate_wav (reads_all sha256) True (riff @ wave_header 36 n r len) (Some (int r)) (Some (int n)) = Inr v \<and>
      valid v \<and> wv_frame_count v = int (len div (n * 2))) \<and>
    validate_wav (reads_all sha256) True (overlong_chunk n r len) rate channels = Inl (RuntimeError [])"
proof
  show "\<exists>v. validate_wav (reads_all sha256) True (riff @ wave_header 36 n r len) (Some (int r)) (Some (int n)) = Inr v \<and>
      valid v \<and> wv_frame_count v = int (len div (n * 2))"
    using validate_header [OF assms(1), of "[]" "reads_all sha256"] assms(2-4) by (auto simp: reads_all_def)
  have "0 < len" using assms(2,4) by auto
  have u: "unle (le 4 36) = 36" "unle (le 4 16) = 16" "unle (le 2 1) = 1" by (auto intro!: unle_le)
  note u' = u(3) [simplified]
  have "riff_header_ok True (overlong_chunk n r len)"
    by (simp add: riff_header_ok_def overlong_chunk_def u Let_def)
  moreover have "wave_format_is_pcm True (overlong_chunk n r len)"
    by (simp add: wave_format_is_pcm_def overlong_chunk_def u u' Let_def)
  moreover have "length (overlong_chunk n r len) = 44" by (simp add: overlong_chunk_def)
  then have "overlong_chunk n r len \<noteq> []" by force
  ultimately show "validate_wav (reads_all sha256) True (overlong_chunk n r len) rate channels = Inl (RuntimeError [])"
    using read_overlong [OF assms(1,2) \<open>0 < len\<close>] by (simp add: validate_wav_def reads_all_def wave_error_def)
qed

theorem validation_trusts_sizes_witness:
  "\<exists>v. validate_wav (reads_all (\<lambda>_. [])) True (riff @ wave_header 36 1 16000 2000000) (Some (int 16000)) (Some (int 1)) = Inr v \<and>
     valid v \<and> wv_frame_count v = 1000000"
proof -
  have "header_fits 1 16000 2000000" by (simp add: header_fits_def)
  from validation_trusts_sizes [OF this, of "\<lambda>_. []"] show ?thesis by auto
qed

end
