(* ===== verification/Config.thy ===== *)
theory Config
  imports Errors
begin

text \<open>
  \<open>voxcpm_runtime/config.py\<close>: the runtime configuration read from a mapping (the environment). A
  value of the mapping is a \<open>raw\<close>: a string, a bool, an int, a tuple or list, an execution profile,
  or any other object; what \<open>str\<close> makes of the last three comes with the value. A missing key and
  a \<open>None\<close> value are alike (\<open>_mapping_value\<close>), so \<open>RNone\<close> stands for both. Enumerations are
  datatypes; parsers return \<open>Inl\<close> with the exception where the code raises.
\<close>

datatype device_mode = Dev_Auto | Dev_Cpu | Dev_Cuda
datatype execution_profile = Prof_Auto | Prof_Cpu | Prof_Cuda_Single | Prof_Cuda_Replica
datatype backend_id = Pytorch_Voxcpm
datatype optimization_mode = Opt_Auto
datatype readiness = Degraded | Strict
datatype stream_format = Pcm_S16le
datatype log_level = Log_Debug | Log_Info | Log_Warning | Log_Error | Log_Critical
datatype log_format = Log_Json

fun device_value :: "device_mode \<Rightarrow> string" where
  "device_value Dev_Auto = ''auto''" | "device_value Dev_Cpu = ''cpu''" | "device_value Dev_Cuda = ''cuda''"

fun profile_value :: "execution_profile \<Rightarrow> string" where
  "profile_value Prof_Auto = ''auto''" | "profile_value Prof_Cpu = ''cpu''"
| "profile_value Prof_Cuda_Single = ''cuda-single''" | "profile_value Prof_Cuda_Replica = ''cuda-replica''"

fun readiness_value :: "readiness \<Rightarrow> string" where
  "readiness_value Degraded = ''degraded''" | "readiness_value Strict = ''strict''"

fun log_level_value :: "log_level \<Rightarrow> string" where
  "log_level_value Log_Debug = ''DEBUG''" | "log_level_value Log_Info = ''INFO''"
| "log_level_value Log_Warning = ''WARNING''" | "log_level_value Log_Error = ''ERROR''"
| "log_level_value Log_Critical = ''CRITICAL''"

definition profile_aliases :: "(string \<times> execution_profile) list" where
  "profile_aliases =
     [(''auto'', Prof_Auto), (''cpu'', Prof_Cpu), (''cuda-single'', Prof_Cuda_Single),
      (''gpu'', Prof_Cuda_Single), (''cuda-replica'', Prof_Cuda_Replica), (''multi-gpu'', Prof_Cuda_Replica)]"

section \<open>Raw values\<close>

datatype raw =
    RNone
  | RStr string
  | RBool bool
  | RInt int
  | RSeq "raw list" string
  | RProfile execution_profile string
  | ROther string

type_synonym mapping = "string \<Rightarrow> raw"

fun text_of :: "raw \<Rightarrow> string option" where
  "text_of RNone = None"
| "text_of (RStr s) = Some s"
| "text_of (RBool b) = Some (if b then ''1'' else ''0'')"
| "text_of (RInt i) = Some (show_int i)"
| "text_of (RSeq _ s) = Some s"
| "text_of (RProfile _ s) = Some s"
| "text_of (ROther s) = Some s"

definition trimmed :: "raw \<Rightarrow> string option" where
  "trimmed v = map_option strip (text_of v)"

text \<open>\<open>not value\<close> of a trimmed text: absent or blank.\<close>

definition blank :: "string option \<Rightarrow> bool" where
  "blank t \<longleftrightarrow> t = None \<or> t = Some []"

definition lexical :: "mapping \<Rightarrow> string \<Rightarrow> string option \<Rightarrow> bool \<Rightarrow> string option" where
  "lexical m key dflt optional =
     (if m key = RNone then dflt
      else if blank (trimmed (m key)) then (if optional then None else dflt)
      else trimmed (m key))"

definition true_values :: "string list" where
  "true_values = [''1'', ''true'', ''yes'', ''on'']"

definition false_values :: "string list" where
  "false_values = [''0'', ''false'', ''no'', ''off'']"

definition boolean :: "mapping \<Rightarrow> string \<Rightarrow> bool \<Rightarrow> exn + bool" where
  "boolean m key dflt =
     (if m key = RNone then Inr dflt
      else case m key of
        RBool b \<Rightarrow> Inr b
      | v \<Rightarrow>
         (if blank (trimmed v) then Inr dflt
          else let normalized = casefold (the (trimmed v)) in
            if normalized \<in> set true_values then Inr True
            else if normalized \<in> set false_values then Inr False
            else Inl (ConfigurationError key ''expected one of 1, true, yes, on, 0, false, no, off'')))"

text \<open>\<open>_enum_value\<close>, over the members of the enumeration with their values.\<close>

definition enum_value ::
    "mapping \<Rightarrow> string \<Rightarrow> 'e \<Rightarrow> (string \<times> 'e) list \<Rightarrow> bool \<Rightarrow> exn + 'e" where
  "enum_value m key dflt allowed case_insensitive =
     (if m key = RNone then Inr dflt
      else if blank (trimmed (m key)) then Inr dflt
      else let fold_case = (if case_insensitive then casefold else (\<lambda>s. s));
               normalized = fold_case (the (trimmed (m key))) in
        case find (\<lambda>(s, _). fold_case s = normalized) allowed of
          None \<Rightarrow> Inl (ConfigurationError key (''expected one of: '' @ join '', '' (map fst allowed)))
        | Some (_, item) \<Rightarrow> Inr item)"

definition integer :: "mapping \<Rightarrow> string \<Rightarrow> int option \<Rightarrow> bool \<Rightarrow> exn + int option" where
  "integer m key dflt positive =
     (case m key of
        RNone \<Rightarrow> Inr dflt
      | RBool _ \<Rightarrow> Inl (ConfigurationError key ''expected a decimal integer'')
      | v \<Rightarrow>
         (if blank (trimmed v) then Inr dflt
          else if \<not> all_digits (the (trimmed v))
          then Inl (ConfigurationError key ''expected a non-negative decimal integer'')
          else case py_int10 (the (trimmed v)) of
            None \<Rightarrow> Inl (ConfigurationError key ''expected a non-negative decimal integer'')
          | Some parsed \<Rightarrow>
              if positive \<and> parsed = 0 then Inl (ConfigurationError key ''expected a positive integer'')
              else Inr (Some parsed)))"

definition port :: "mapping \<Rightarrow> exn + int" where
  "port m =
     and_then (integer m ''VOXCPM_PORT'' (Some 8090) True) (\<lambda>v.
       case v of
         None \<Rightarrow> Inl AssertionError
       | Some p \<Rightarrow>
           if p > 65535 then Inl (ConfigurationError ''VOXCPM_PORT'' ''expected a value from 1 through 65535'')
           else Inr p)"

section \<open>Floats\<close>

text \<open>
  \<open>float(s)\<close> on a stripped string: an optional sign, then \<open>inf\<close>, \<open>infinity\<close> or \<open>nan\<close> in any case, or
  a decimal with optional fraction and exponent. Digits may be grouped by single underscores.
\<close>

fun scan_digits :: "string \<Rightarrow> string \<times> string" where
  "scan_digits [] = ([], [])"
| "scan_digits [c] = (if is_dec c then ([c], []) else ([], [c]))"
| "scan_digits [c, d] =
     (if is_dec c then (case scan_digits [d] of (ds, r) \<Rightarrow> (c # ds, r)) else ([], [c, d]))"
| "scan_digits (c # d # e # cs) =
     (if \<not> is_dec c then ([], c # d # e # cs)
      else if d = CHR ''_'' \<and> is_dec e
      then (case scan_digits (e # cs) of (ds, r) \<Rightarrow> (c # ds, r))
      else (case scan_digits (d # e # cs) of (ds, r) \<Rightarrow> (c # ds, r)))"

fun scan_sign :: "string \<Rightarrow> bool \<times> string" where
  "scan_sign (c # cs) =
     (if c = CHR ''-'' then (True, cs) else if c = CHR ''+'' then (False, cs) else (False, c # cs))"
| "scan_sign [] = (False, [])"

definition scan_fraction :: "string \<Rightarrow> string \<times> string" where
  "scan_fraction s = (case s of c # r \<Rightarrow> if c = CHR ''.'' then scan_digits r else ([], s) | [] \<Rightarrow> ([], []))"

definition scan_exponent :: "string \<Rightarrow> int option" where
  "scan_exponent s =
     (case s of
        [] \<Rightarrow> Some 0
      | c # r \<Rightarrow>
          if c \<noteq> CHR ''e'' \<and> c \<noteq> CHR ''E'' then None
          else (case scan_sign r of (neg, r1) \<Rightarrow>
            case scan_digits r1 of (ds, rest) \<Rightarrow>
              if ds = [] \<or> rest \<noteq> [] then None
              else Some (if neg then - int (read_nat ds) else int (read_nat ds))))"

definition float_of_string :: "string \<Rightarrow> pyfloat option" where
  "float_of_string s =
     (case scan_sign s of (neg, r) \<Rightarrow>
        if lower r \<in> {''inf'', ''infinity''} then Some (if neg then NegInf else PosInf)
        else if lower r = ''nan'' then Some NotANumber
        else case scan_digits r of (whole, r1) \<Rightarrow>
          case scan_fraction r1 of (fracs, r2) \<Rightarrow>
            if whole = [] \<and> fracs = [] then None
            else case scan_exponent r2 of
              None \<Rightarrow> None
            | Some ex \<Rightarrow>
               (let n = read_nat (whole @ fracs);
                    q = (of_nat n :: rat) * 10 powi (ex - int (length fracs)) in
                Some (if n = 0 then (if neg then NegZero else Fin 0)
                      else to_float (if neg then - q else q))))"

definition optional_float :: "mapping \<Rightarrow> string \<Rightarrow> bool \<Rightarrow> exn + pyfloat option" where
  "optional_float m key positive =
     (case m key of
        RNone \<Rightarrow> Inr None
      | RBool _ \<Rightarrow> Inl (ConfigurationError key ''expected a finite number'')
      | v \<Rightarrow>
         (if blank (trimmed v) then Inr None
          else case float_of_string (the (trimmed v)) of
            None \<Rightarrow> Inl (ConfigurationError key ''expected a finite number'')
          | Some f \<Rightarrow>
              if \<not> isfinite f then Inl (ConfigurationError key ''expected a finite number'')
              else if positive \<and> float_val f \<le> 0
              then Inl (ConfigurationError key ''expected a positive number'')
              else if \<not> positive \<and> float_val f < 0
              then Inl (ConfigurationError key ''expected a non-negative number'')
              else Inr (Some f)))"

section \<open>GPUs, profiles, workers\<close>

definition gpu_var :: string where "gpu_var = ''VOXCPM_GPU_DEVICES''"
definition workers_var :: string where "workers_var = ''VOXCPM_WORKERS''"

text \<open>\<open>int(text, 10)\<close> outside a \<open>try\<close>: more digits than CPython converts raise a plain
  \<open>ValueError\<close>.\<close>

definition int10 :: "string \<Rightarrow> exn + int" where
  "int10 s =
     (case py_int10 s of
        None \<Rightarrow> Inl (ValueError ''Exceeds the limit (4300 digits) for integer string conversion'')
      | Some i \<Rightarrow> Inr i)"

definition parse_gpu_member :: "raw \<Rightarrow> exn + int" where
  "parse_gpu_member v =
     (case v of
        RBool _ \<Rightarrow> Inl (ConfigurationError gpu_var ''GPU indices must be non-negative integers'')
      | _ \<Rightarrow>
         (if blank (trimmed v) \<or> \<not> all_digits (the (trimmed v))
          then Inl (ConfigurationError gpu_var ''expected auto or comma-separated non-negative integer indices'')
          else int10 (the (trimmed v))))"

definition parse_gpu_members :: "raw list \<Rightarrow> exn + int list option" where
  "parse_gpu_members members =
     (if members = [] then Inl (ConfigurationError gpu_var ''expected auto or a comma-separated GPU list'')
      else and_then (map_raise parse_gpu_member members) (\<lambda>parsed.
        if \<not> distinct parsed
        then Inl (ConfigurationError gpu_var ''duplicate GPU indices are not allowed'')
        else Inr (Some parsed)))"

definition parse_gpu_devices :: "raw \<Rightarrow> exn + int list option" where
  "parse_gpu_devices v =
     (case v of
        RNone \<Rightarrow> Inr None
      | RSeq items _ \<Rightarrow> parse_gpu_members items
      | _ \<Rightarrow>
         (if blank (trimmed v) then Inr None
          else if trimmed v = Some ''auto'' then Inr None
          else parse_gpu_members (map RStr (split_on CHR '','' (the (trimmed v))))))"

definition parse_execution_profile :: "raw \<Rightarrow> exn + execution_profile option" where
  "parse_execution_profile v =
     (case v of
        RNone \<Rightarrow> Inr None
      | RProfile p _ \<Rightarrow> Inr (Some p)
      | _ \<Rightarrow>
         (if blank (trimmed v) then Inr None
          else case map_of profile_aliases (casefold (the (trimmed v))) of
            None \<Rightarrow> Inl (ConfigurationError ''VOXCPM_PROFILE''
                      ''expected one of: auto, cpu, cuda-single, cuda-replica, gpu, multi-gpu'')
          | Some p \<Rightarrow> Inr (Some p)))"

definition workers_error :: exn where
  "workers_error = ConfigurationError workers_var ''expected auto or a positive integer''"

definition parse_workers :: "raw \<Rightarrow> exn + int option" where
  "parse_workers v =
     (case v of
        RNone \<Rightarrow> Inr None
      | RBool _ \<Rightarrow> Inl workers_error
      | RInt i \<Rightarrow> if i \<le> 0 then Inl workers_error else Inr (Some i)
      | _ \<Rightarrow>
         (if blank (trimmed v) \<or> trimmed v = Some ''auto'' then Inr None
          else if \<not> all_digits (the (trimmed v)) then Inl workers_error
          else and_then (int10 (the (trimmed v))) (\<lambda>i.
            if i \<le> 0 then Inl workers_error else Inr (Some i))))"

definition parse_bool :: "raw \<Rightarrow> bool option \<Rightarrow> exn + bool option" where
  "parse_bool v dflt =
     (case v of
        RNone \<Rightarrow> Inr dflt
      | RBool b \<Rightarrow> Inr (Some b)
      | _ \<Rightarrow>
         (if blank (trimmed v) then Inr dflt
          else let normalized = casefold (the (trimmed v)) in
            if normalized \<in> set true_values then Inr (Some True)
            else if normalized \<in> set false_values then Inr (Some False)
            else Inl (ConfigurationError ''value'' ''expected a boolean'')))"

definition token_value :: "mapping \<Rightarrow> string option" where
  "token_value m =
     (if m ''VOXCPM_API_TOKEN'' = RNone then None
      else if text_of (m ''VOXCPM_API_TOKEN'') \<in> {None, Some []} then None
      else text_of (m ''VOXCPM_API_TOKEN''))"

section \<open>RuntimeConfig\<close>

record runtime_config =
  model_path :: "string option"
  cfg_backend :: backend_id
  offline :: bool
  load_denoiser :: bool
  optimize :: optimization_mode
  upstream_revision :: "string option"
  profile :: "execution_profile option"
  device :: device_mode
  gpu_devices :: "int list option"
  workers :: "int option"
  worker_startup_timeout_seconds :: pyfloat
  host :: string
  cfg_port :: int
  api_token :: "string option"
  require_auth :: bool
  allow_unauthenticated_external :: bool
  max_text_chars :: "int option"
  max_reference_bytes :: "int option"
  max_reference_seconds :: "pyfloat option"
  max_prompt_audio_seconds :: "pyfloat option"
  max_output_seconds :: "pyfloat option"
  max_queue_size :: "int option"
  queue_timeout_seconds :: "pyfloat option"
  request_timeout_seconds :: "pyfloat option"
  max_inference_seconds :: "pyfloat option"
  max_concurrent_requests :: "int option"
  cfg_stream_format :: stream_format
  stream_sample_rate :: int
  stream_channels :: int
  stream_ipc_max_chunks :: "int option"
  stream_ipc_max_bytes :: "int option"
  stream_backpressure_timeout_seconds :: "pyfloat option"
  output_dir :: "string option"
  tmp_dir :: "string option"
  cache_dir :: "string option"
  min_tmp_free_bytes :: "int option"
  cfg_log_level :: log_level
  cfg_log_format :: log_format
  log_file :: "string option"
  readiness_mode :: readiness
  qualification_strict :: bool

definition default_config :: runtime_config where
  "default_config = \<lparr>
     model_path = None, cfg_backend = Pytorch_Voxcpm, offline = True, load_denoiser = False,
     optimize = Opt_Auto, upstream_revision = None, profile = None, device = Dev_Auto,
     gpu_devices = None, workers = None, worker_startup_timeout_seconds = Fin 300,
     host = ''127.0.0.1'', cfg_port = 8090, api_token = None, require_auth = True,
     allow_unauthenticated_external = False, max_text_chars = None, max_reference_bytes = None,
     max_reference_seconds = None, max_prompt_audio_seconds = None, max_output_seconds = None,
     max_queue_size = None, queue_timeout_seconds = None, request_timeout_seconds = None,
     max_inference_seconds = None, max_concurrent_requests = None, cfg_stream_format = Pcm_S16le,
     stream_sample_rate = 48000, stream_channels = 1, stream_ipc_max_chunks = None,
     stream_ipc_max_bytes = None, stream_backpressure_timeout_seconds = None, output_dir = None,
     tmp_dir = None, cache_dir = None, min_tmp_free_bytes = None, cfg_log_level = Log_Info,
     cfg_log_format = Log_Json, log_file = None, readiness_mode = Degraded,
     qualification_strict = False\<rparr>"

text \<open>
  \<open>__post_init__\<close> on fields of the annotated types: the enumerations and booleans are right by
  type, a selection of GPUs is parsed again as a sequence of ints, and the numeric fields are
  checked in the order of the code's field tables.
\<close>

definition upper_char :: "char \<Rightarrow> char" where
  "upper_char c = (if 97 \<le> ordc c \<and> ordc c \<le> 122 then char_of (ordc c - 32) else c)"

definition field_variable :: "string \<Rightarrow> string" where
  "field_variable name = ''VOXCPM_'' @ map upper_char name"

fun check_each :: "('v \<Rightarrow> bool) \<Rightarrow> string \<Rightarrow> (string \<times> 'v option) list \<Rightarrow> exn + unit" where
  "check_each valid reason [] = Inr ()"
| "check_each valid reason ((name, v) # rest) =
     (case v of
        None \<Rightarrow> check_each valid reason rest
      | Some x \<Rightarrow>
          if valid x then check_each valid reason rest
          else Inl (ConfigurationError (field_variable name) reason))"

definition positive_integer_fields :: "runtime_config \<Rightarrow> (string \<times> int option) list" where
  "positive_integer_fields c =
     [(''max_text_chars'', max_text_chars c), (''max_reference_bytes'', max_reference_bytes c),
      (''max_queue_size'', max_queue_size c),
      (''max_concurrent_requests'', max_concurrent_requests c),
      (''stream_sample_rate'', Some (stream_sample_rate c)),
      (''stream_channels'', Some (stream_channels c)),
      (''stream_ipc_max_chunks'', stream_ipc_max_chunks c),
      (''stream_ipc_max_bytes'', stream_ipc_max_bytes c)]"

definition positive_float_fields :: "runtime_config \<Rightarrow> (string \<times> pyfloat option) list" where
  "positive_float_fields c =
     [(''worker_startup_timeout_seconds'', Some (worker_startup_timeout_seconds c)),
      (''max_reference_seconds'', max_reference_seconds c),
      (''max_prompt_audio_seconds'', max_prompt_audio_seconds c),
      (''max_output_seconds'', max_output_seconds c),
      (''request_timeout_seconds'', request_timeout_seconds c),
      (''max_inference_seconds'', max_inference_seconds c),
      (''stream_backpressure_timeout_seconds'', stream_backpressure_timeout_seconds c)]"

definition positive_float :: "pyfloat \<Rightarrow> bool" where
  "positive_float f \<longleftrightarrow> isfinite f \<and> 0 < float_val f"

definition nonnegative_float :: "pyfloat \<Rightarrow> bool" where
  "nonnegative_float f \<longleftrightarrow> isfinite f \<and> 0 \<le> float_val f"

definition check_workers :: "int option \<Rightarrow> exn + unit" where
  "check_workers w =
     (case w of
        None \<Rightarrow> Inr ()
      | Some i \<Rightarrow> if i \<le> 0 then Inl workers_error else Inr ())"

definition check_port :: "int \<Rightarrow> exn + unit" where
  "check_port p =
     (if 1 \<le> p \<and> p \<le> 65535 then Inr ()
      else Inl (ConfigurationError ''VOXCPM_PORT'' ''expected a value from 1 through 65535''))"

text \<open>The text \<open>str\<close> would give for the sequence is never used.\<close>

definition normalize_gpus :: "int list option \<Rightarrow> exn + int list option" where
  "normalize_gpus g =
     (case g of None \<Rightarrow> Inr None | Some is \<Rightarrow> parse_gpu_devices (RSeq (map RInt is) []))"

definition post_init :: "runtime_config \<Rightarrow> exn + runtime_config" where
  "post_init c =
     and_then (normalize_gpus (gpu_devices c)) (\<lambda>gpus.
     let c = c\<lparr>gpu_devices := gpus\<rparr> in
     and_then (check_workers (workers c)) (\<lambda>_.
     and_then (check_port (cfg_port c)) (\<lambda>_.
     and_then (check_each (\<lambda>v. v > 0) ''expected a positive integer'' (positive_integer_fields c)) (\<lambda>_.
     and_then (check_each positive_float ''expected a positive finite number'' (positive_float_fields c)) (\<lambda>_.
     and_then (check_each nonnegative_float ''expected a non-negative finite number''
       [(''queue_timeout_seconds'', queue_timeout_seconds c)]) (\<lambda>_.
     and_then (check_each (\<lambda>v. v \<ge> 0) ''expected a non-negative integer''
       [(''min_tmp_free_bytes'', min_tmp_free_bytes c)]) (\<lambda>_. Inr c)))))))"

section \<open>from_mapping\<close>

definition device_members :: "(string \<times> device_mode) list" where
  "device_members = map (\<lambda>d. (device_value d, d)) [Dev_Auto, Dev_Cpu, Dev_Cuda]"

definition log_level_members :: "(string \<times> log_level) list" where
  "log_level_members =
     map (\<lambda>l. (log_level_value l, l)) [Log_Debug, Log_Info, Log_Warning, Log_Error, Log_Critical]"

definition readiness_members :: "(string \<times> readiness) list" where
  "readiness_members = map (\<lambda>r. (readiness_value r, r)) [Degraded, Strict]"

text \<open>\<open>v or d\<close> on an optional number.\<close>

definition or_float :: "pyfloat option \<Rightarrow> pyfloat \<Rightarrow> pyfloat" where
  "or_float v d = (case v of None \<Rightarrow> d | Some f \<Rightarrow> if f = NegZero \<or> f = Fin 0 then d else f)"

definition or_int :: "int option \<Rightarrow> int \<Rightarrow> int" where
  "or_int v d = (case v of None \<Rightarrow> d | Some i \<Rightarrow> if i = 0 then d else i)"

definition or_str :: "string option \<Rightarrow> string \<Rightarrow> string" where
  "or_str v d = (if blank v then d else the v)"

text \<open>The arguments of the constructor call, evaluated in order after the enumerations.\<close>

definition config_arguments :: "mapping \<Rightarrow> exn + runtime_config" where
  "config_arguments m =
     and_then (enum_value m ''VOXCPM_BACKEND'' Pytorch_Voxcpm [(''pytorch-voxcpm'', Pytorch_Voxcpm)] False) (\<lambda>be.
     and_then (enum_value m ''VOXCPM_OPTIMIZE'' Opt_Auto [(''auto'', Opt_Auto)] False) (\<lambda>opt.
     and_then (enum_value m ''VOXCPM_DEVICE'' Dev_Auto device_members False) (\<lambda>dev.
     and_then (enum_value m ''VOXCPM_STREAM_FORMAT'' Pcm_S16le [(''pcm_s16le'', Pcm_S16le)] False) (\<lambda>fmt.
     and_then (enum_value m ''VOXCPM_LOG_LEVEL'' Log_Info log_level_members True) (\<lambda>ll.
     and_then (enum_value m ''VOXCPM_LOG_FORMAT'' Log_Json [(''json'', Log_Json)] False) (\<lambda>lf.
     and_then (enum_value m ''VOXCPM_READINESS_MODE'' Degraded readiness_members False) (\<lambda>ready.
     and_then (boolean m ''VOXCPM_OFFLINE'' True) (\<lambda>off.
     and_then (boolean m ''VOXCPM_LOAD_DENOISER'' False) (\<lambda>denoise.
     and_then (parse_execution_profile (m ''VOXCPM_PROFILE'')) (\<lambda>prof.
     and_then (parse_gpu_devices (m gpu_var)) (\<lambda>gpus.
     and_then (parse_workers (m workers_var)) (\<lambda>wks.
     and_then (optional_float m ''VOXCPM_WORKER_STARTUP_TIMEOUT_SECONDS'' True) (\<lambda>startup.
     and_then (port m) (\<lambda>prt.
     and_then (boolean m ''VOXCPM_REQUIRE_AUTH'' True) (\<lambda>auth.
     and_then (boolean m ''VOXCPM_ALLOW_UNAUTHENTICATED_EXTERNAL'' False) (\<lambda>unauth.
     and_then (integer m ''VOXCPM_MAX_TEXT_CHARS'' None True) (\<lambda>text_chars.
     and_then (integer m ''VOXCPM_MAX_REFERENCE_BYTES'' None True) (\<lambda>ref_bytes.
     and_then (optional_float m ''VOXCPM_MAX_REFERENCE_SECONDS'' True) (\<lambda>ref_secs.
     and_then (optional_float m ''VOXCPM_MAX_PROMPT_AUDIO_SECONDS'' True) (\<lambda>prompt_secs.
     and_then (optional_float m ''VOXCPM_MAX_OUTPUT_SECONDS'' True) (\<lambda>out_secs.
     and_then (integer m ''VOXCPM_MAX_QUEUE_SIZE'' None True) (\<lambda>queue.
     and_then (optional_float m ''VOXCPM_QUEUE_TIMEOUT_SECONDS'' False) (\<lambda>queue_secs.
     and_then (optional_float m ''VOXCPM_REQUEST_TIMEOUT_SECONDS'' True) (\<lambda>req_secs.
     and_then (optional_float m ''VOXCPM_MAX_INFERENCE_SECONDS'' True) (\<lambda>inf_secs.
     and_then (integer m ''VOXCPM_MAX_CONCURRENT_REQUESTS'' None True) (\<lambda>conc.
     and_then (integer m ''VOXCPM_STREAM_SAMPLE_RATE'' (Some 48000) True) (\<lambda>srate.
     and_then (integer m ''VOXCPM_STREAM_CHANNELS'' (Some 1) True) (\<lambda>chans.
     and_then (integer m ''VOXCPM_STREAM_IPC_MAX_CHUNKS'' None True) (\<lambda>ipc_chunks.
     and_then (integer m ''VOXCPM_STREAM_IPC_MAX_BYTES'' None True) (\<lambda>ipc_bytes.
     and_then (optional_float m ''VOXCPM_STREAM_BACKPRESSURE_TIMEOUT_SECONDS'' True) (\<lambda>backpressure.
     and_then (integer m ''VOXCPM_MIN_TMP_FREE_BYTES'' None False) (\<lambda>tmp_free.
     and_then (boolean m ''VOXCPM_QUALIFICATION_STRICT'' False) (\<lambda>strict.
       Inr \<lparr>model_path = lexical m ''VOXCPM_MODEL_PATH'' None True, cfg_backend = be,
         offline = off, load_denoiser = denoise, optimize = opt,
         upstream_revision = lexical m ''VOXCPM_UPSTREAM_REVISION'' None True, profile = prof,
         device = dev, gpu_devices = gpus, workers = wks,
         worker_startup_timeout_seconds = or_float startup (Fin 300),
         host = or_str (lexical m ''VOXCPM_HOST'' (Some ''127.0.0.1'') False) ''127.0.0.1'',
         cfg_port = prt, api_token = token_value m, require_auth = auth,
         allow_unauthenticated_external = unauth, max_text_chars = text_chars,
         max_reference_bytes = ref_bytes, max_reference_seconds = ref_secs,
         max_prompt_audio_seconds = prompt_secs, max_output_seconds = out_secs,
         max_queue_size = queue, queue_timeout_seconds = queue_secs,
         request_timeout_seconds = req_secs, max_inference_seconds = inf_secs,
         max_concurrent_requests = conc, cfg_stream_format = fmt,
         stream_sample_rate = or_int srate 48000, stream_channels = or_int chans 1,
         stream_ipc_max_chunks = ipc_chunks, stream_ipc_max_bytes = ipc_bytes,
         stream_backpressure_timeout_seconds = backpressure,
         output_dir = lexical m ''VOXCPM_OUTPUT_DIR'' None True,
         tmp_dir = lexical m ''VOXCPM_TMP_DIR'' None True,
         cache_dir = lexical m ''VOXCPM_CACHE_DIR'' None True, min_tmp_free_bytes = tmp_free,
         cfg_log_level = ll, cfg_log_format = lf,
         log_file = lexical m ''VOXCPM_LOG_FILE'' None True, readiness_mode = ready,
         qualification_strict = strict\<rparr>)))))))))))))))))))))))))))))))))"

definition from_mapping :: "mapping \<Rightarrow> exn + runtime_config" where
  "from_mapping m = and_then (config_arguments m) post_init"

section \<open>Views of a configuration\<close>

definition format_gpu_devices :: "int list option \<Rightarrow> string" where
  "format_gpu_devices g = (case g of None \<Rightarrow> ''auto'' | Some is \<Rightarrow> join '','' (map show_int is))"

definition format_workers :: "int option \<Rightarrow> string" where
  "format_workers w = (case w of None \<Rightarrow> ''auto'' | Some i \<Rightarrow> show_int i)"

definition api_token_configured :: "runtime_config \<Rightarrow> bool" where
  "api_token_configured c \<longleftrightarrow> api_token c \<noteq> None \<and> api_token c \<noteq> Some []"

definition opt_str :: "string option \<Rightarrow> pyval" where
  "opt_str s = (case s of None \<Rightarrow> PNone | Some t \<Rightarrow> PStr t)"

definition opt_int :: "int option \<Rightarrow> pyval" where
  "opt_int v = (case v of None \<Rightarrow> PNone | Some i \<Rightarrow> PInt i)"

definition opt_float :: "pyfloat option \<Rightarrow> pyval" where
  "opt_float v = (case v of None \<Rightarrow> PNone | Some f \<Rightarrow> PFloat f)"

definition to_redacted_dict :: "runtime_config \<Rightarrow> (string, pyval) dict" where
  "to_redacted_dict c =
     [(''model_path'', opt_str (model_path c)), (''backend'', PStr ''pytorch-voxcpm''),
      (''offline'', PBool (offline c)), (''load_denoiser'', PBool (load_denoiser c)),
      (''optimize'', PStr ''auto''), (''upstream_revision'', opt_str (upstream_revision c)),
      (''profile'', opt_str (map_option profile_value (profile c))),
      (''device'', PStr (device_value (device c))),
      (''gpu_devices'', PStr (format_gpu_devices (gpu_devices c))),
      (''workers'', PStr (format_workers (workers c))),
      (''worker_startup_timeout_seconds'', PFloat (worker_startup_timeout_seconds c)),
      (''host'', PStr (host c)), (''port'', PInt (cfg_port c)),
      (''api_token_configured'', PBool (api_token_configured c)),
      (''require_auth'', PBool (require_auth c)),
      (''allow_unauthenticated_external'', PBool (allow_unauthenticated_external c)),
      (''max_text_chars'', opt_int (max_text_chars c)),
      (''max_reference_bytes'', opt_int (max_reference_bytes c)),
      (''max_reference_seconds'', opt_float (max_reference_seconds c)),
      (''max_prompt_audio_seconds'', opt_float (max_prompt_audio_seconds c)),
      (''max_output_seconds'', opt_float (max_output_seconds c)),
      (''max_queue_size'', opt_int (max_queue_size c)),
      (''queue_timeout_seconds'', opt_float (queue_timeout_seconds c)),
      (''request_timeout_seconds'', opt_float (request_timeout_seconds c)),
      (''max_inference_seconds'', opt_float (max_inference_seconds c)),
      (''max_concurrent_requests'', opt_int (max_concurrent_requests c)),
      (''stream_format'', PStr ''pcm_s16le''),
      (''stream_sample_rate'', PInt (stream_sample_rate c)),
      (''stream_channels'', PInt (stream_channels c)),
      (''stream_ipc_max_chunks'', opt_int (stream_ipc_max_chunks c)),
      (''stream_ipc_max_bytes'', opt_int (stream_ipc_max_bytes c)),
      (''stream_backpressure_timeout_seconds'', opt_float (stream_backpressure_timeout_seconds c)),
      (''output_dir'', opt_str (output_dir c)), (''tmp_dir'', opt_str (tmp_dir c)),
      (''cache_dir'', opt_str (cache_dir c)),
      (''min_tmp_free_bytes'', opt_int (min_tmp_free_bytes c)),
      (''log_level'', PStr (log_level_value (cfg_log_level c))), (''log_format'', PStr ''json''),
      (''log_file'', opt_str (log_file c)),
      (''readiness_mode'', PStr (readiness_value (readiness_mode c))),
      (''qualification_strict'', PBool (qualification_strict c))]"

definition path_fields :: "runtime_config \<Rightarrow> (string \<times> string option) list" where
  "path_fields c =
     [(''model_path'', model_path c), (''output_dir'', output_dir c), (''tmp_dir'', tmp_dir c),
      (''cache_dir'', cache_dir c), (''log_file'', log_file c)]"

definition to_diagnostic_dict :: "runtime_config \<Rightarrow> (string, pyval) dict" where
  "to_diagnostic_dict c =
     dict_set ''requested_device'' (PStr (device_value (device c)))
       (fold (\<lambda>(name, v) d. dict_set (name @ ''_configured'') (PBool (\<not> blank v)) (dict_pop name d))
         (path_fields c) (to_redacted_dict c))"

section \<open>What a configuration guarantees\<close>

definition int_limit :: int where
  "int_limit = 10 ^ max_str_digits"

definition gpus_ok :: "int list option \<Rightarrow> bool" where
  "gpus_ok g \<longleftrightarrow>
     (case g of None \<Rightarrow> True
      | Some is \<Rightarrow> is \<noteq> [] \<and> distinct is \<and> list_all (\<lambda>i. 0 \<le> i \<and> i < int_limit) is)"

definition workers_ok :: "int option \<Rightarrow> bool" where
  "workers_ok w \<longleftrightarrow> (case w of None \<Rightarrow> True | Some i \<Rightarrow> 0 < i)"

definition fields_ok :: "('v \<Rightarrow> bool) \<Rightarrow> (string \<times> 'v option) list \<Rightarrow> bool" where
  "fields_ok valid fs \<longleftrightarrow> list_all (\<lambda>(_, v). case v of None \<Rightarrow> True | Some x \<Rightarrow> valid x) fs"

definition config_ok :: "runtime_config \<Rightarrow> bool" where
  "config_ok c \<longleftrightarrow>
     gpus_ok (gpu_devices c) \<and> workers_ok (workers c) \<and> 1 \<le> cfg_port c \<and> cfg_port c \<le> 65535 \<and>
     fields_ok (\<lambda>v. v > 0) (positive_integer_fields c) \<and>
     fields_ok positive_float (positive_float_fields c) \<and>
     fields_ok nonnegative_float [(''queue_timeout_seconds'', queue_timeout_seconds c)] \<and>
     fields_ok (\<lambda>v. v \<ge> 0) [(''min_tmp_free_bytes'', min_tmp_free_bytes c)]"

text \<open>The exceptions of the parsers: a \<open>ConfigurationError\<close>, or the bare \<open>ValueError\<close> of \<open>int\<close>.\<close>

fun config_error :: "exn \<Rightarrow> bool" where
  "config_error (ConfigurationError _ _) = True"
| "config_error (ValueError _) = True"
| "config_error _ = False"

lemma read_nat_snoc: "read_nat (s @ [c]) = 10 * read_nat s + (ordc c - 48)"
  by (simp add: read_nat_def)

lemma read_nat_less: "list_all is_dec s \<Longrightarrow> read_nat s < 10 ^ length s"
proof (induction s rule: rev_induct)
  case Nil
  then show ?case by (simp add: read_nat_def)
next
  case (snoc c s)
  then show ?case by (auto simp: read_nat_snoc is_dec_def)
qed

lemma py_int10_bounds:
  assumes "all_digits s" and "py_int10 s = Some i"
  shows "0 \<le> i \<and> i < int_limit"
proof -
  from assms(2) have i: "i = int (read_nat s)" and l: "length s \<le> max_str_digits"
    by (auto simp: py_int10_def split: if_splits)
  have "read_nat s < 10 ^ length s"
    using assms(1) by (simp add: all_digits_def read_nat_less)
  also have "(10 :: nat) ^ length s \<le> 10 ^ max_str_digits"
    using l by (intro power_increasing) auto
  finally have "int (read_nat s) < int (10 ^ max_str_digits)" by (simp only: of_nat_less_iff)
  then show ?thesis by (simp add: i int_limit_def)
qed

lemma length_show_nat_limit:
  assumes "n < 10 ^ max_str_digits"
  shows "length (show_nat n) \<le> max_str_digits"
proof -
  have m: "max_str_digits = Suc 4299" by (simp add: max_str_digits_def)
  from assms show ?thesis unfolding m by (rule length_show_nat)
qed

lemma int10_show_int:
  assumes "0 \<le> i" and "i < int_limit"
  shows "int10 (show_int i) = Inr i" and "all_digits (show_int i)"
    and "trimmed (RStr (show_int i)) = Some (show_int i)"
    and "trimmed (RInt i) = Some (show_int i)" and "show_int i \<noteq> []"
proof -
  have s: "show_int i = show_nat (nat i)"
    using assms(1) by (simp add: show_int_def)
  have "int (nat i) < int (10 ^ max_str_digits)"
    using assms by (simp add: int_limit_def)
  then have "nat i < 10 ^ max_str_digits" by (simp only: of_nat_less_iff)
  then have "length (show_nat (nat i)) \<le> max_str_digits" by (rule length_show_nat_limit)
  then show "int10 (show_int i) = Inr i"
    using assms(1) by (simp add: s int10_def py_int10_def)
  show "all_digits (show_int i)" by (simp add: s)
  show "trimmed (RStr (show_int i)) = Some (show_int i)" by (simp add: s trimmed_def)
  show "trimmed (RInt i) = Some (show_int i)" by (simp add: s trimmed_def)
  show "show_int i \<noteq> []" by (simp add: s)
qed

lemma int10_outcome: "all_digits s \<Longrightarrow> outcome config_error (\<lambda>i. 0 \<le> i \<and> i < int_limit) (int10 s)"
  unfolding int10_def by (cases "py_int10 s") (simp_all add: py_int10_bounds)

lemma parse_gpu_member_outcome:
  "outcome config_error (\<lambda>i. 0 \<le> i \<and> i < int_limit) (parse_gpu_member v)"
  unfolding parse_gpu_member_def using int10_outcome by (cases v) auto

lemma parse_gpu_members_outcome: "outcome config_error gpus_ok (parse_gpu_members vs)"
proof (cases "vs = []")
  case True
  then show ?thesis by (simp add: parse_gpu_members_def)
next
  case False
  have "outcome config_error (\<lambda>is. is \<noteq> [] \<and> (\<forall>i \<in> set is. 0 \<le> i \<and> i < int_limit))
          (map_raise parse_gpu_member vs)"
    using outcome_map_raise [of vs config_error "\<lambda>i. 0 \<le> i \<and> i < int_limit" parse_gpu_member]
      parse_gpu_member_outcome False map_raise_length [of parse_gpu_member vs]
    by (cases "map_raise parse_gpu_member vs") auto
  then show ?thesis
    using False unfolding parse_gpu_members_def
    by (auto intro!: outcome_and_then simp: gpus_ok_def list_all_iff)
qed

lemma parse_gpu_devices_outcome: "outcome config_error gpus_ok (parse_gpu_devices v)"
  using parse_gpu_members_outcome by (cases v) (auto simp: parse_gpu_devices_def gpus_ok_def)

lemma parse_workers_outcome: "outcome config_error workers_ok (parse_workers v)"
proof -
  have parsed: "outcome config_error workers_ok
      (and_then (int10 s) (\<lambda>i. if i \<le> 0 then Inl workers_error else Inr (Some i)))"
    if "all_digits s" for s
    by (rule outcome_and_then [OF int10_outcome [OF that]]) (simp add: workers_error_def workers_ok_def)
  moreover have "config_error workers_error" by (simp add: workers_error_def)
  ultimately show ?thesis
    by (cases v) (auto simp: parse_workers_def workers_ok_def)
qed

lemma parse_gpu_members_ints:
  assumes "gpus_ok (Some is)" and "\<And>i. i \<in> set is \<Longrightarrow> mk i \<in> {RInt i, RStr (show_int i)}"
  shows "parse_gpu_members (map mk is) = Inr (Some is)"
proof -
  have "parse_gpu_member (mk i) = Inr i" if "i \<in> set is" for i
  proof -
    have b: "0 \<le> i" "i < int_limit" using assms(1) that by (auto simp: gpus_ok_def list_all_iff)
    show ?thesis using assms(2) [OF that] int10_show_int [OF b]
      by (auto simp: parse_gpu_member_def blank_def)
  qed
  then have "map_raise parse_gpu_member (map mk is) = Inr is"
    by (auto simp: map_raise_Inr_iff list_all2_conv_all_nth)
  then show ?thesis using assms(1) by (simp add: parse_gpu_members_def gpus_ok_def)
qed

lemma normalize_gpus_ok: "gpus_ok g \<Longrightarrow> normalize_gpus g = Inr g"
  by (cases g) (simp_all add: normalize_gpus_def parse_gpu_devices_def parse_gpu_members_ints)

lemma check_each_ok: "check_each valid reason fs = Inr () \<longleftrightarrow> fields_ok valid fs"
  by (induction valid reason fs rule: check_each.induct) (auto simp: fields_ok_def split: option.splits)

lemma check_each_outcome: "outcome config_error (\<lambda>_. fields_ok valid fs) (check_each valid reason fs)"
  by (induction valid reason fs rule: check_each.induct) (auto simp: fields_ok_def split: option.splits)

lemma fields_ok_single: "fields_ok valid [(name, v)] \<longleftrightarrow> (case v of None \<Rightarrow> True | Some x \<Rightarrow> valid x)"
  by (simp add: fields_ok_def)

lemma check_workers_outcome: "outcome config_error (\<lambda>_. workers_ok w) (check_workers w)"
  by (cases w) (auto simp: check_workers_def workers_ok_def workers_error_def)

lemma check_port_outcome: "outcome config_error (\<lambda>_. 1 \<le> p \<and> p \<le> 65535) (check_port p)"
  by (simp add: check_port_def)

lemma check_workers_ok: "workers_ok w \<Longrightarrow> check_workers w = Inr ()"
  by (cases w) (auto simp: check_workers_def workers_ok_def)

lemma post_init_ok:
  assumes "config_ok c"
  shows "post_init c = Inr c"
proof -
  have "check_port (cfg_port c) = Inr ()"
    using assms by (simp add: config_ok_def check_port_def)
  with assms show ?thesis
    unfolding config_ok_def post_init_def Let_def
    by (simp add: normalize_gpus_ok check_workers_ok check_each_ok [THEN iffD2] del: check_each.simps)
qed

lemma normalize_gpus_outcome: "outcome config_error gpus_ok (normalize_gpus g)"
proof (cases g)
  case None
  then show ?thesis by (simp add: normalize_gpus_def gpus_ok_def)
next
  case (Some gs)
  show ?thesis unfolding Some normalize_gpus_def option.case by (rule parse_gpu_devices_outcome)
qed

lemma integer_fields_gpus [simp]: "positive_integer_fields (c\<lparr>gpu_devices := g\<rparr>) = positive_integer_fields c"
  by (simp add: positive_integer_fields_def)

lemma float_fields_gpus [simp]: "positive_float_fields (c\<lparr>gpu_devices := g\<rparr>) = positive_float_fields c"
  by (simp add: positive_float_fields_def)

lemma post_init_outcome: "outcome config_error config_ok (post_init c)"
  unfolding post_init_def Let_def
  apply (rule outcome_and_then [OF normalize_gpus_outcome])
  apply (rule outcome_and_then [OF check_workers_outcome])
  apply (rule outcome_and_then [OF check_port_outcome])
  apply (rule outcome_and_then [OF check_each_outcome])+
  apply (simp add: config_ok_def)
  done

lemma enum_value_outcome: "outcome config_error (\<lambda>_. True) (enum_value m key d allowed ci)"
  by (simp add: enum_value_def Let_def split: option.split)

lemma boolean_outcome: "outcome config_error (\<lambda>_. True) (boolean m key d)"
  by (cases "m key") (simp_all add: boolean_def Let_def)

lemma parse_execution_profile_outcome: "outcome config_error (\<lambda>_. True) (parse_execution_profile v)"
  by (cases v) (auto simp: parse_execution_profile_def split: option.split)

definition int_field_ok :: "bool \<Rightarrow> int option \<Rightarrow> bool" where
  "int_field_ok positive v \<longleftrightarrow> (case v of None \<Rightarrow> True | Some i \<Rightarrow> if positive then 0 < i else 0 \<le> i)"

lemma integer_text_outcome:
  assumes "int_field_ok positive d"
  shows "outcome config_error (int_field_ok positive)
     (if blank t then Inr d
      else if \<not> all_digits (the t)
      then Inl (ConfigurationError key r1)
      else case py_int10 (the t) of
        None \<Rightarrow> Inl (ConfigurationError key r2)
      | Some parsed \<Rightarrow>
          if positive \<and> parsed = 0 then Inl (ConfigurationError key r3) else Inr (Some parsed))"
  using assms py_int10_bounds [of "the t"] by (fastforce simp: int_field_ok_def split: option.split)

lemma integer_outcome:
  "int_field_ok positive d \<Longrightarrow> outcome config_error (int_field_ok positive) (integer m key d positive)"
  unfolding integer_def using integer_text_outcome [of positive d] by (cases "m key") simp_all

definition float_field_ok :: "bool \<Rightarrow> pyfloat option \<Rightarrow> bool" where
  "float_field_ok positive v \<longleftrightarrow>
     (case v of None \<Rightarrow> True | Some f \<Rightarrow> if positive then positive_float f else nonnegative_float f)"

lemma optional_float_outcome: "outcome config_error (float_field_ok positive) (optional_float m key positive)"
  unfolding optional_float_def
  by (cases "m key")
    (auto simp: float_field_ok_def positive_float_def nonnegative_float_def split: option.split)

lemma port_outcome: "outcome config_error (\<lambda>p. 1 \<le> p \<and> p \<le> 65535) (port m)"
proof -
  have d: "integer m ''VOXCPM_PORT'' (Some 8090) True \<noteq> Inr None"
    by (cases "m ''VOXCPM_PORT''") (auto simp: integer_def split: option.splits if_splits)
  have "outcome config_error (int_field_ok True) (integer m ''VOXCPM_PORT'' (Some 8090) True)"
    by (rule integer_outcome) (simp add: int_field_ok_def)
  with d show ?thesis
    unfolding port_def
    by (cases "integer m ''VOXCPM_PORT'' (Some 8090) True") (auto simp: int_field_ok_def split: option.splits)
qed

lemma int_field_ok_defaults [simp]:
  "int_field_ok p None" "int_field_ok True (Some 48000)" "int_field_ok True (Some 1)"
  by (simp_all add: int_field_ok_def)

lemma or_int_positive: "int_field_ok True v \<Longrightarrow> 0 < d \<Longrightarrow> int_field_ok True (Some (or_int v d))"
  by (simp add: int_field_ok_def or_int_def split: option.splits)

lemma or_float_positive: "float_field_ok True v \<Longrightarrow> positive_float d \<Longrightarrow> float_field_ok True (Some (or_float v d))"
  by (simp add: float_field_ok_def or_float_def split: option.splits)

lemmas argument_outcomes =
  enum_value_outcome boolean_outcome parse_execution_profile_outcome parse_gpu_devices_outcome
  parse_workers_outcome port_outcome

lemma field_ok_cases:
  "int_field_ok True v = (case v of None \<Rightarrow> True | Some i \<Rightarrow> 0 < i)"
  "int_field_ok False v = (case v of None \<Rightarrow> True | Some i \<Rightarrow> 0 \<le> i)"
  "float_field_ok True w = (case w of None \<Rightarrow> True | Some f \<Rightarrow> positive_float f)"
  "float_field_ok False w = (case w of None \<Rightarrow> True | Some f \<Rightarrow> nonnegative_float f)"
  by (simp_all add: int_field_ok_def float_field_ok_def split: option.split)

lemma config_arguments_outcome: "outcome config_error config_ok (config_arguments m)"
proof -
  have p: "positive_float (Fin 300)" by (simp add: positive_float_def)
  show ?thesis
    unfolding config_arguments_def
    apply (rule outcome_and_then,
        (rule argument_outcomes optional_float_outcome integer_outcome int_field_ok_defaults)+)+
    apply (simp add: config_ok_def fields_ok_def positive_integer_fields_def positive_float_fields_def
        or_int_positive or_float_positive p flip: field_ok_cases)
    done
qed

section \<open>Properties\<close>


lemma small_int_limit: "i < 10 \<Longrightarrow> i < int_limit"
proof -
  assume "i < 10"
  also have "(10 :: int) ^ 1 \<le> 10 ^ max_str_digits"
    by (rule power_increasing) (simp_all add: max_str_digits_def)
  ultimately show ?thesis by (simp add: int_limit_def)
qed

lemma join_chars: "set (join [c] ws) \<subseteq> insert c (\<Union> (set ` set ws))"
  by (induction "[c]" ws rule: join.induct) auto

lemma gpu_text:
  assumes "gpus_ok (Some gs)"
  shows "trimmed (RStr (join '','' (map show_int gs))) = Some (join '','' (map show_int gs))"
    and "join '','' (map show_int gs) \<notin> {[], ''auto''}"
    and "split_on CHR '','' (join '','' (map show_int gs)) = map show_int gs"
proof -
  have dec: "list_all is_dec (show_int g)" and ne: "show_int g \<noteq> []" if "g \<in> set gs" for g
    using that assms int10_show_int [of g] by (auto simp: gpus_ok_def list_all_iff all_digits_def)
  have chars: "is_dec c \<or> c = CHR '',''" if "c \<in> set (join '','' (map show_int gs))" for c
    using that dec join_chars [of "CHR '',''" "map show_int gs"] by (fastforce simp: list_all_iff)
  have "\<not> is_space c" if "c \<in> set (join '','' (map show_int gs))" for c
    using chars [OF that] dec_not_space [of c] by (auto simp: is_space_def)
  then show "trimmed (RStr (join '','' (map show_int gs))) = Some (join '','' (map show_int gs))"
    by (simp add: trimmed_def strip_none list_all_iff)
  have "\<not> is_dec CHR ''a''" by (simp add: is_dec_def)
  then have "join '','' (map show_int gs) \<noteq> ''auto''" using chars [of "CHR ''a''"] by auto
  moreover have "join '','' (map show_int gs) \<noteq> []"
    using assms ne by (cases gs rule: list.exhaust; cases "tl gs") (auto simp: gpus_ok_def)
  ultimately show "join '','' (map show_int gs) \<notin> {[], ''auto''}" by blast
  have "\<forall>w \<in> set (map show_int gs). CHR '','' \<notin> set w"
    using dec dec_not_comma by (fastforce simp: list_all_iff)
  moreover have "map show_int gs \<noteq> []" using assms by (simp add: gpus_ok_def)
  ultimately show "split_on CHR '','' (join '','' (map show_int gs)) = map show_int gs"
    by (rule split_on_join [rotated])
qed

text \<open>The texts that a configuration prints for its GPU selection and worker count are read
  back by the parsers as the same selection and count.\<close>

theorem config_spec_roundtrip:
  assumes "gpus_ok g" and "workers_ok w" and "\<And>i. w = Some i \<Longrightarrow> i < int_limit"
  shows "parse_gpu_devices (RStr (format_gpu_devices g)) = Inr g \<and>
    parse_workers (RStr (format_workers w)) = Inr w"
proof
  have auto_text: "trimmed (RStr ''auto'') = Some ''auto''" by (simp add: trimmed_def strip_def is_space_def)
  show "parse_gpu_devices (RStr (format_gpu_devices g)) = Inr g"
  proof (cases g)
    case None
    then show ?thesis
      using auto_text by (simp add: format_gpu_devices_def parse_gpu_devices_def)
  next
    case (Some gs)
    with assms(1) have ok: "gpus_ok (Some gs)" by simp
    have "parse_gpu_members (map (\<lambda>i. RStr (show_int i)) gs) = Inr (Some gs)"
      by (rule parse_gpu_members_ints [OF ok]) simp
    then show ?thesis
      using gpu_text [OF ok] Some
      by (simp add: format_gpu_devices_def parse_gpu_devices_def blank_def comp_def)
  qed
  show "parse_workers (RStr (format_workers w)) = Inr w"
  proof (cases w)
    case None
    then show ?thesis using auto_text by (simp add: format_workers_def parse_workers_def)
  next
    case (Some i)
    with assms(2) have i: "0 < i" by (simp add: workers_ok_def)
    with assms(3) Some have n: "int10 (show_int i) = Inr i" "all_digits (show_int i)"
      "trimmed (RStr (show_int i)) = Some (show_int i)" "show_int i \<noteq> []"
      using int10_show_int [of i] by simp_all
    have "\<not> all_digits ''auto''" by (simp add: all_digits_def is_dec_def)
    with n have "show_int i \<noteq> ''auto''" by metis
    with n i Some show ?thesis by (simp add: format_workers_def parse_workers_def blank_def)
  qed
qed

theorem config_spec_roundtrip_witness:
  "parse_gpu_devices (RStr (format_gpu_devices (Some [3, 0]))) = Inr (Some [3, 0]) \<and>
   parse_workers (RStr (format_workers (Some 2))) = Inr (Some 2)"
  using config_spec_roundtrip [of "Some [3, 0]" "Some 2"] small_int_limit
  by (simp add: gpus_ok_def workers_ok_def)

text \<open>Two dicts with the same keys in the same order whose values agree outside \<open>K\<close>.\<close>

definition agree_except :: "string set \<Rightarrow> (string, 'v) dict \<Rightarrow> (string, 'v) dict \<Rightarrow> bool" where
  "agree_except K d e \<longleftrightarrow> list_all2 (\<lambda>(k, v) (k', v'). k = k' \<and> (k \<in> K \<or> v = v')) d e"

lemma agree_except_empty: "agree_except {} d e \<Longrightarrow> d = e"
  unfolding agree_except_def by (induction d e rule: list_all2_induct) auto

lemma agree_except_pop: "agree_except K d e \<Longrightarrow> agree_except (K - {k}) (dict_pop k d) (dict_pop k e)"
  unfolding agree_except_def by (induction d e rule: list_all2_induct) auto

lemma agree_except_set: "agree_except K d e \<Longrightarrow> agree_except K (dict_set k v d) (dict_set k v e)"
  unfolding agree_except_def by (induction d e rule: list_all2_induct) (auto simp: list_all2_refl split_beta)

lemma agree_except_hide:
  assumes "agree_except (set (map fst fs)) d e"
    and "map (\<lambda>(n, v). (n, blank v)) fs = map (\<lambda>(n, v). (n, blank v)) fs'"
  shows "fold (\<lambda>(name, v) d. dict_set (name @ ''_configured'') (PBool (\<not> blank v)) (dict_pop name d)) fs d =
    fold (\<lambda>(name, v) d. dict_set (name @ ''_configured'') (PBool (\<not> blank v)) (dict_pop name d)) fs' e"
  using assms
proof (induction fs arbitrary: d e fs')
  case Nil
  then show ?case by (simp add: agree_except_empty)
next
  case (Cons f fs)
  obtain n v where f: "f = (n, v)" by (cases f)
  with Cons.prems(2) obtain v' fs'' where fs': "fs' = (n, v') # fs''" "blank v = blank v'"
    "map (\<lambda>(n, v). (n, blank v)) fs = map (\<lambda>(n, v). (n, blank v)) fs''"
    by (cases fs') (auto split: prod.splits)
  have "agree_except (insert n (set (map fst fs)) - {n}) (dict_pop n d) (dict_pop n e)"
    using Cons.prems(1) f by (intro agree_except_pop) simp
  then have "agree_except (set (map fst fs)) (dict_pop n d) (dict_pop n e)"
    unfolding agree_except_def by (rule list_all2_mono) auto
  then show ?case
    using Cons.IH [OF agree_except_set fs'(3)] by (simp add: f fs')
qed

lemma hidden_absent:
  "dict_get d k = None \<or> k \<in> set (map fst fs) \<Longrightarrow> k \<notin> (\<lambda>name. name @ ''_configured'') ` set (map fst fs) \<Longrightarrow>
   dict_get (fold (\<lambda>(name, v) d. dict_set (name @ ''_configured'') (PBool (\<not> blank v)) (dict_pop name d)) fs d) k = None"
proof (induction fs arbitrary: d)
  case Nil
  then show ?case by simp
next
  case (Cons f fs)
  obtain n v where f: "f = (n, v)" by (cases f)
  let ?d = "dict_set (n @ ''_configured'') (PBool (\<not> blank v)) (dict_pop n d)"
  have "dict_get ?d k = None \<or> k \<in> set (map fst fs)"
    using Cons.prems by (auto simp: f dict_get_set dict_get_pop simp del: map_of_eq_None_iff)
  then show ?case using Cons.IH [of ?d] Cons.prems(2) by (simp add: f del: map_of_eq_None_iff)
qed

text \<open>Nothing the runtime prints of its configuration depends on the secrets in it: the redacted
  view is the same for any two non-empty tokens, and the diagnostic view is also the same for any
  two configured values of each path, whose keys it does not have.\<close>

theorem configuration_views_private:
  "to_redacted_dict (c\<lparr>api_token := Some (a # t)\<rparr>) = to_redacted_dict (c\<lparr>api_token := Some (b # u)\<rparr>) \<and>
   to_diagnostic_dict (c\<lparr>api_token := Some (a # t), model_path := Some (m # p1), output_dir := Some (o1 # p2),
       tmp_dir := Some (t1 # p3), cache_dir := Some (c1 # p4), log_file := Some (l1 # p5)\<rparr>) =
   to_diagnostic_dict (c\<lparr>api_token := Some (b # u), model_path := Some (n # q1), output_dir := Some (o2 # q2),
       tmp_dir := Some (t2 # q3), cache_dir := Some (c2 # q4), log_file := Some (l2 # q5)\<rparr>) \<and>
   list_all (\<lambda>(name, _). dict_get (to_diagnostic_dict c) name = None) (path_fields c)"
proof (intro conjI)
  let ?c = "c\<lparr>api_token := Some (a # t), model_path := Some (m # p1), output_dir := Some (o1 # p2),
       tmp_dir := Some (t1 # p3), cache_dir := Some (c1 # p4), log_file := Some (l1 # p5)\<rparr>"
  let ?d = "c\<lparr>api_token := Some (b # u), model_path := Some (n # q1), output_dir := Some (o2 # q2),
       tmp_dir := Some (t2 # q3), cache_dir := Some (c2 # q4), log_file := Some (l2 # q5)\<rparr>"
  show "to_redacted_dict (c\<lparr>api_token := Some (a # t)\<rparr>) = to_redacted_dict (c\<lparr>api_token := Some (b # u)\<rparr>)"
    by (simp add: to_redacted_dict_def api_token_configured_def)
  have "agree_except (set (map fst (path_fields ?c))) (to_redacted_dict ?c) (to_redacted_dict ?d)"
    by (simp add: agree_except_def path_fields_def to_redacted_dict_def api_token_configured_def)
  then have "fold (\<lambda>(name, v) d. dict_set (name @ ''_configured'') (PBool (\<not> blank v)) (dict_pop name d))
      (path_fields ?c) (to_redacted_dict ?c) =
    fold (\<lambda>(name, v) d. dict_set (name @ ''_configured'') (PBool (\<not> blank v)) (dict_pop name d))
      (path_fields ?d) (to_redacted_dict ?d)"
    by (rule agree_except_hide) (simp add: path_fields_def blank_def)
  moreover have "device ?c = device ?d" by simp
  ultimately show "to_diagnostic_dict ?c = to_diagnostic_dict ?d"
    unfolding to_diagnostic_dict_def by (simp only:)
  show "list_all (\<lambda>(name, _). dict_get (to_diagnostic_dict c) name = None) (path_fields c)"
  proof -
    have "dict_get (to_diagnostic_dict c) k = None"
      if "k \<in> set (map fst (path_fields c))" for k
    proof -
      have others: "k \<noteq> ''requested_device''" "k \<notin> (\<lambda>name. name @ ''_configured'') ` set (map fst (path_fields c))"
        using that by (auto simp: path_fields_def)
      have "dict_get (fold (\<lambda>(name, v) d. dict_set (name @ ''_configured'') (PBool (\<not> blank v)) (dict_pop name d))
          (path_fields c) (to_redacted_dict c)) k = None"
        using that others(2) by (intro hidden_absent) auto
      with others(1) show ?thesis by (simp add: to_diagnostic_dict_def dict_get_set del: map_of_eq_None_iff)
    qed
    then show ?thesis by (simp add: list_all_iff case_prod_beta del: map_of_eq_None_iff)
  qed
qed

end
