(* ===== verification/Api_Auth.thy ===== *)
theory Api_Auth
  imports Config
begin

text \<open>
  \<open>voxcpm_runtime/api_auth.py\<close>: which hosts are loopback hosts, the policy checked before the service
  binds, and the check of the bearer token. \<open>ipaddress.ip_address\<close> and \<open>hmac.compare_digest\<close> are the
  standard library's, modelled on the code points 0 to 255.
\<close>

section \<open>IP addresses\<close>

datatype ip_address = IPv4 nat | IPv6 nat

definition parse_octet :: "string \<Rightarrow> nat option" where
  "parse_octet s =
     (if s = [] \<or> \<not> list_all is_dec s \<or> 3 < length s then None
      else if s \<noteq> ''0'' \<and> hd s = CHR ''0'' then None
      else if 255 < read_nat s then None else Some (read_nat s))"

text \<open>The digits of a number in a base, most significant first.\<close>

definition positional :: "nat \<Rightarrow> nat list \<Rightarrow> nat" where
  "positional base ds = foldl (\<lambda>a d. base * a + d) 0 ds"

fun map_some :: "('a \<Rightarrow> 'b option) \<Rightarrow> 'a list \<Rightarrow> 'b list option" where
  "map_some f [] = Some []"
| "map_some f (x # xs) =
     (case f x of None \<Rightarrow> None | Some y \<Rightarrow> map_option ((#) y) (map_some f xs))"

definition ipv4_value :: "string \<Rightarrow> nat option" where
  "ipv4_value s =
     (if CHR ''/'' \<in> set s \<or> length (split_on (CHR ''.'') s) \<noteq> 4 then None
      else map_option (positional 256) (map_some parse_octet (split_on (CHR ''.'') s)))"

definition hex_val :: "char \<Rightarrow> nat option" where
  "hex_val c =
     (let n = ordc c in
      if 48 \<le> n \<and> n \<le> 57 then Some (n - 48)
      else if 65 \<le> n \<and> n \<le> 70 then Some (n - 55)
      else if 97 \<le> n \<and> n \<le> 102 then Some (n - 87)
      else None)"

text \<open>\<open>int('', 16)\<close> is an error too.\<close>

definition parse_hextet :: "string \<Rightarrow> nat option" where
  "parse_hextet s =
     (if s = [] \<or> 4 < length s then None else map_option (positional 16) (map_some hex_val s))"

definition hex_char :: "nat \<Rightarrow> char" where
  "hex_char d = char_of (if d < 10 then 48 + d else 87 + d)"

fun show_hex :: "nat \<Rightarrow> string" where
  "show_hex n = (if n < 16 then [hex_char n] else show_hex (n div 16) @ [hex_char (n mod 16)])"

declare show_hex.simps [simp del]

text \<open>An IPv4 address at the end stands for two groups.\<close>

definition expand_suffix :: "string list \<Rightarrow> string list option" where
  "expand_suffix parts =
     (if CHR ''.'' \<in> set (last parts)
      then map_option (\<lambda>v. butlast parts @ [show_hex (v div 65536 mod 65536), show_hex (v mod 65536)])
        (ipv4_value (last parts))
      else Some parts)"

text \<open>The groups of the address: the empty group inside the address stands for a run of zeros; an empty
  first or last group is only allowed next to it.\<close>

definition ipv6_groups :: "string list \<Rightarrow> nat list option" where
  "ipv6_groups parts =
     (case filter (\<lambda>i. parts ! i = []) [1..<length parts - 1] of
        [] \<Rightarrow> if length parts \<noteq> 8 then None else map_some parse_hextet parts
      | [k] \<Rightarrow>
         (let hi = (if hd parts = [] then k - 1 else k);
              n = length parts - k - 1; lo = (if last parts = [] then n - 1 else n) in
          if hd parts = [] \<and> hi \<noteq> 0 \<or> last parts = [] \<and> lo \<noteq> 0 \<or> 8 \<le> hi + lo then None
          else case map_some parse_hextet (take hi parts) of
            None \<Rightarrow> None
          | Some high \<Rightarrow>
              map_option (\<lambda>low. high @ replicate (8 - (hi + lo)) 0 @ low)
                (map_some parse_hextet (drop (length parts - lo) parts)))
      | _ \<Rightarrow> None)"

definition ipv6_value :: "string \<Rightarrow> nat option" where
  "ipv6_value s =
     (let addr = takeWhile (\<lambda>c. c \<noteq> CHR ''%'') s; scope = dropWhile (\<lambda>c. c \<noteq> CHR ''%'') s;
          parts = split_on (CHR '':'') addr in
      if CHR ''/'' \<in> set s \<or> scope = ''%'' \<or> CHR ''%'' \<in> set (tl scope) \<or> addr = [] \<or> length parts < 3
      then None
      else case expand_suffix parts of
        None \<Rightarrow> None
      | Some ps \<Rightarrow> if 9 < length ps then None else map_option (positional 65536) (ipv6_groups ps))"

definition ip_address_of :: "string \<Rightarrow> ip_address option" where
  "ip_address_of s =
     (case ipv4_value s of Some n \<Rightarrow> Some (IPv4 n) | None \<Rightarrow> map_option IPv6 (ipv6_value s))"

text \<open>\<open>127.0.0.0/8\<close> and \<open>::1\<close>.\<close>

fun is_loopback :: "ip_address \<Rightarrow> bool" where
  "is_loopback (IPv4 n) = (n div 2 ^ 24 = 127)"
| "is_loopback (IPv6 n) = (n = 1)"

section \<open>Policy and token\<close>

definition is_loopback_host :: "string \<Rightarrow> bool" where
  "is_loopback_host h =
     (let v = lower (strip h) in
      if v = ''localhost'' then True
      else case ip_address_of v of None \<Rightarrow> False | Some a \<Rightarrow> is_loopback a)"

definition validate_bind_auth_policy :: "runtime_config \<Rightarrow> exn + unit" where
  "validate_bind_auth_policy c =
     (if require_auth c \<and> \<not> api_token_configured c
      then Inl (api_exn ''api_token_required''
             ''Authentication is required but no API token is configured.'' 500 False)
      else if \<not> is_loopback_host (host c) \<and> \<not> require_auth c \<and> \<not> allow_unauthenticated_external c
      then Inl (api_exn ''unauthenticated_external_bind_forbidden''
             ''Unauthenticated external binding is not allowed.'' 500 False)
      else Inr ())"

text \<open>\<open>hmac.compare_digest\<close> on two \<open>str\<close>s refuses characters outside ASCII.\<close>

definition is_ascii :: "string \<Rightarrow> bool" where
  "is_ascii s \<longleftrightarrow> list_all (\<lambda>c. ordc c < 128) s"

definition compare_digest :: "string \<Rightarrow> string \<Rightarrow> exn + bool" where
  "compare_digest a b =
     (if \<not> is_ascii a \<or> \<not> is_ascii b
      then Inl (TypeError ''comparing strings with non-ASCII characters is not supported'')
      else Inr (a = b))"

text \<open>The header is absent, one string, or a list of strings.\<close>

datatype authorization = No_Header | One_Header string | Header_List "string list"

definition unauthorized :: exn where
  "unauthorized = api_exn ''unauthorized'' ''Authentication is required.'' 401 False"

definition bearer_prefix :: string where
  "bearer_prefix = ''Bearer ''"

definition check_token :: "string \<Rightarrow> string option \<Rightarrow> exn + unit" where
  "check_token expected header =
     (case header of
        None \<Rightarrow> Inl unauthorized
      | Some h \<Rightarrow>
          if 4096 < length h \<or> \<not> startswith h bearer_prefix then Inl unauthorized
          else let supplied = drop (length bearer_prefix) h in
            if supplied = [] then Inl unauthorized
            else and_then (compare_digest supplied expected) (\<lambda>same.
              if same then Inr () else Inl unauthorized))"

definition verify_bearer_token :: "runtime_config \<Rightarrow> authorization \<Rightarrow> exn + unit" where
  "verify_bearer_token c header =
     (if \<not> require_auth c then Inr ()
      else case api_token c of
        None \<Rightarrow> Inl (api_exn ''api_token_required'' ''Authentication is unavailable.'' 500 False)
      | Some expected \<Rightarrow>
         (case header of
            No_Header \<Rightarrow> check_token expected None
          | One_Header h \<Rightarrow> check_token expected (Some h)
          | Header_List hs \<Rightarrow>
              if length hs \<noteq> 1 then Inl unauthorized else check_token expected (Some (hd hs))))"

section \<open>Lemmas\<close>

lemma join_split_on [simp]: "join [c] (split_on c s) = s"
proof (induction s)
  case Nil
  then show ?case by simp
next
  case (Cons d s)
  then show ?case by (cases "split_on c s"; cases "tl (split_on c s)") (auto split: list.splits)
qed

lemma map_some_length: "map_some f xs = Some ys \<Longrightarrow> length ys = length xs"
  by (induction xs arbitrary: ys) (auto split: option.splits)

lemma map_some_Some: "\<forall>x \<in> set xs. f x = Some (g x) \<Longrightarrow> map_some f xs = Some (map g xs)"
  by (induction xs) auto

lemma parse_octet_bound: "parse_octet s = Some n \<Longrightarrow> n \<le> 255"
  by (auto simp: parse_octet_def split: if_splits)

lemma dec_digit: "is_dec c \<longleftrightarrow> (\<exists>d < 10. ordc c = 48 + d)"
  unfolding is_dec_def by presburger

lemma ordc_eq: "ordc c = ordc d \<Longrightarrow> c = d"
  by (metis char_of_char)

lemma parse_octet_127:
  assumes "parse_octet s = Some 127"
  shows "s = ''127''"
proof -
  from assms have s: "list_all is_dec s" "length s \<le> 3" "read_nat s = 127"
    by (auto simp: parse_octet_def split: if_splits)
  have "127 < (10::nat) ^ length s" using read_nat_less [OF s(1)] s(3) by simp
  moreover have "(10::nat) ^ length s \<le> 10 ^ 2" if "length s \<le> 2" by (rule power_increasing) (use that in auto)
  ultimately have "length s = 3" using s(2) by (cases "length s \<le> 2") auto
  then obtain x y z where xyz: "s = [x, y, z]" by (auto simp: numeral_3_eq_3 length_Suc_conv)
  with s(1) obtain i j k where d: "i < 10" "ordc x = 48 + i" "j < 10" "ordc y = 48 + j" "k < 10" "ordc z = 48 + k"
    by (auto simp: dec_digit)
  have "100 * i + 10 * j + k = 127" using s(3) d by (simp add: xyz read_nat_def)
  moreover from this d have "i = 1" by linarith
  moreover from calculation d have "j = 2" by linarith
  ultimately have "i = 1" "j = 2" "k = 7" by auto
  with d have "ordc x = ordc (CHR ''1'')" "ordc y = ordc (CHR ''2'')" "ordc z = ordc (CHR ''7'')" by simp_all
  from this [THEN ordc_eq] show ?thesis by (simp add: xyz)
qed

text \<open>The dotted notation of four numbers.\<close>

definition dotted :: "nat list \<Rightarrow> string" where
  "dotted ns = join ''.'' (map show_nat ns)"

lemma parse_octet_show: "n < 256 \<Longrightarrow> parse_octet (show_nat n) = Some n"
proof -
  assume n: "n < 256"
  have len: "length (show_nat n) \<le> Suc 2" using n by (intro length_show_nat) simp
  have "hd (show_nat n) \<noteq> CHR ''0'' \<or> n = 0"
  proof -
    have "hd (show_nat m) \<noteq> CHR ''0'' \<or> m = 0" for m
    proof (induction m rule: show_nat.induct)
      case (1 m)
      have digit: "d < 10 \<Longrightarrow> digit_char d = CHR ''0'' \<Longrightarrow> d = 0" for d
        using ordc_digit_char [of d] by force
      show ?case
      proof (cases "m < 10")
        case True
        then have "show_nat m = [digit_char m]" by (subst show_nat.simps) simp
        with digit [OF True] show ?thesis by auto
      next
        case False
        then have "show_nat m = show_nat (m div 10) @ [digit_char (m mod 10)]" by (subst show_nat.simps) simp
        moreover have "m div 10 \<noteq> 0" using False by simp
        ultimately show ?thesis using 1 [OF False] by simp
      qed
    qed
    then show ?thesis .
  qed
  moreover have "show_nat 0 = ''0''" by (subst show_nat.simps) (auto intro!: ordc_eq simp: ordc_digit_char)
  ultimately show ?thesis
    using n len by (auto simp: parse_octet_def show_nat_digits)
qed

lemma ipv4_value_dotted:
  assumes "a < 256" "b < 256" "c < 256" "d < 256"
  shows "ipv4_value (dotted [a, b, c, d]) = Some (positional 256 [a, b, c, d])"
proof -
  have dec: "CHR ''.'' \<notin> set (show_nat n)" "CHR ''/'' \<notin> set (show_nat n)" for n
    using show_nat_digits [of n] by (auto simp: list_all_iff is_dec_def)
  have "split_on (CHR ''.'') (dotted [a, b, c, d]) = map show_nat [a, b, c, d]"
    unfolding dotted_def by (rule split_on_join) (auto simp: dec)
  moreover have "CHR ''/'' \<notin> set (dotted [a, b, c, d])" by (simp add: dotted_def dec)
  ultimately show ?thesis using assms by (simp add: ipv4_value_def parse_octet_show)
qed

lemma positional_four: "positional 256 [a, b, c, d] = a * 2 ^ 24 + (b * 2 ^ 16 + c * 2 ^ 8 + d)"
  by (simp add: positional_def)

lemma positional_div:
  assumes "b \<le> 255" "c \<le> 255" "d \<le> 255"
  shows "positional 256 [a, b, c, d] div 2 ^ 24 = a"
  using assms by (simp add: positional_four)

section \<open>Properties\<close>

lemma loopback_value:
  assumes "is_loopback_host h" and "lower (strip h) \<noteq> ''localhost''"
  shows "(\<exists>b c d. lower (strip h) = join ''.'' [''127'', b, c, d]) \<or> ipv6_value (lower (strip h)) = Some 1"
proof -
  let ?v = "lower (strip h)"
  show ?thesis
  proof (cases "ipv4_value ?v")
    case None
    with assms show ?thesis by (auto simp: is_loopback_host_def ip_address_of_def Let_def split: option.splits)
  next
    case (Some n)
    then have n: "n div 2 ^ 24 = 127"
      using assms by (simp add: is_loopback_host_def ip_address_of_def Let_def)
    from Some obtain os where os: "map_some parse_octet (split_on (CHR ''.'') ?v) = Some os"
      "length (split_on (CHR ''.'') ?v) = 4" "n = positional 256 os"
      by (auto simp: ipv4_value_def split: if_splits)
    then obtain s1 s2 s3 s4 where s: "split_on (CHR ''.'') ?v = [s1, s2, s3, s4]"
      by (auto simp: numeral_eq_Suc length_Suc_conv)
    with os(1) obtain a b c d where o: "os = [a, b, c, d]" "parse_octet s1 = Some a" "parse_octet s2 = Some b"
      "parse_octet s3 = Some c" "parse_octet s4 = Some d" by (auto split: option.splits)
    with n os(3) positional_div [of b c d a] have "a = 127" by (auto dest: parse_octet_bound)
    with o(2) have "s1 = ''127''" by (auto intro: parse_octet_127)
    moreover have "?v = join ''.'' [s1, s2, s3, s4]" using join_split_on [of "CHR ''.''" ?v] by (simp only: s)
    ultimately show ?thesis by blast
  qed
qed

lemma lower_dotted: "lower (strip (dotted [a, b, c, d])) = dotted [a, b, c, d]"
proof -
  have ch: "is_dec x \<or> x = CHR ''.''" if "x \<in> set (dotted [a, b, c, d])" for x
    using that show_nat_digits by (auto simp: dotted_def list_all_iff)
  have "lower_char x = x" "\<not> is_space x" if "x \<in> set (dotted [a, b, c, d])" for x
    using ch [OF that] by (auto simp: lower_char_def is_dec_def is_space_def Let_def)
  then show ?thesis by (simp add: lower_def strip_none list_all_iff map_idI)
qed

lemma dotted_loopback:
  assumes "a < 256" "b < 256" "c < 256" "d < 256"
  shows "is_loopback_host (dotted [a, b, c, d]) \<longleftrightarrow> a = 127"
proof -
  have "dotted [a, b, c, d] \<noteq> ''localhost''"
  proof
    assume "dotted [a, b, c, d] = ''localhost''"
    moreover have "CHR ''.'' \<in> set (dotted [a, b, c, d])" by (simp add: dotted_def)
    ultimately show False by simp
  qed
  moreover have "positional 256 [a, b, c, d] div 2 ^ 24 = a" using assms by (intro positional_div) auto
  ultimately show ?thesis
    using assms by (simp add: is_loopback_host_def lower_dotted ip_address_of_def ipv4_value_dotted)
qed

text \<open>A host counts as loopback only if, stripped and in lower case, it is \<open>localhost\<close>, a dotted
  IPv4 address whose first number is 127, or an IPv6 address with the value 1; and every dotted address
  of four bytes counts as loopback exactly when the first is 127. So with authentication off and external
  binding not allowed, a configuration passes the bind policy on such a host only.\<close>

theorem loopback_hosts:
  assumes "a < 256" "b < 256" "c < 256" "d < 256"
  shows "(is_loopback_host (dotted [a, b, c, d]) \<longleftrightarrow> a = 127) \<and>
    (validate_bind_auth_policy cfg = Inr () \<and> \<not> require_auth cfg \<and> \<not> allow_unauthenticated_external cfg \<longrightarrow>
       lower (strip (host cfg)) = ''localhost'' \<or>
       (\<exists>x y z. lower (strip (host cfg)) = join ''.'' [''127'', x, y, z]) \<or>
       ipv6_value (lower (strip (host cfg))) = Some 1) \<and>
    (validate_bind_auth_policy cfg = Inr () \<and> require_auth cfg \<longrightarrow> api_token_configured cfg)"
  using dotted_loopback [OF assms] loopback_value [of "host cfg"]
  by (auto simp: validate_bind_auth_policy_def split: if_splits)

theorem loopback_hosts_witness:
  "is_loopback_host (dotted [127, 0, 0, 1]) \<and> \<not> is_loopback_host (dotted [0, 0, 0, 0])"
  using loopback_hosts [of 127 0 0 1] loopback_hosts [of 0 0 0 0] by simp

text \<open>C36. With authentication on, a request passes exactly with one \<open>Authorization\<close> header that is
  \<open>Bearer\<close>, a blank and the configured token; it is refused with status 401 otherwise. A supplied token
  with a character outside ASCII is not refused but ends in the \<open>TypeError\<close> of \<open>compare_digest\<close>, and a
  configured token with one lets nobody in.\<close>

theorem bearer_gate:
  assumes "require_auth cfg" and "api_token cfg = Some tok"
  shows "(verify_bearer_token cfg h = Inr () \<longleftrightarrow>
      tok \<noteq> [] \<and> is_ascii tok \<and> length tok \<le> 4089 \<and>
      (h = One_Header (bearer_prefix @ tok) \<or> h = Header_List [bearer_prefix @ tok])) \<and>
    outcome (\<lambda>e. e = unauthorized \<or>
        e = TypeError ''comparing strings with non-ASCII characters is not supported'') (\<lambda>_. True)
      (verify_bearer_token cfg h) \<and>
    (supplied \<noteq> [] \<and> length supplied \<le> 4089 \<and> (\<not> is_ascii supplied \<or> \<not> is_ascii tok) \<longrightarrow>
       verify_bearer_token cfg (One_Header (bearer_prefix @ supplied)) =
         Inl (TypeError ''comparing strings with non-ASCII characters is not supported''))"
proof -
  have pre: "length bearer_prefix = 7" by (simp add: bearer_prefix_def)
  have check: "check_token tok (Some h) = Inr () \<longleftrightarrow>
      tok \<noteq> [] \<and> is_ascii tok \<and> length tok \<le> 4089 \<and> h = bearer_prefix @ tok" for h
    by (auto simp: check_token_def startswith_append compare_digest_def raises pre Let_def split: if_splits)
  have errs: "outcome (\<lambda>e. e = unauthorized \<or>
        e = TypeError ''comparing strings with non-ASCII characters is not supported'') (\<lambda>_. True) (check_token tok h)" for h
    by (auto simp: check_token_def compare_digest_def Let_def split: option.split)
  have non_ascii: "check_token tok (Some (bearer_prefix @ supplied)) =
      Inl (TypeError ''comparing strings with non-ASCII characters is not supported'')"
    if "supplied \<noteq> []" "length supplied \<le> 4089" "\<not> is_ascii supplied \<or> \<not> is_ascii tok"
    using that by (auto simp: check_token_def startswith_append compare_digest_def pre Let_def)
  have "check_token tok None \<noteq> Inr ()" by (simp add: check_token_def)
  with assms check errs non_ascii show ?thesis
    by (cases h) (auto simp: verify_bearer_token_def length_Suc_conv)
qed

definition guarded_config :: runtime_config where
  "guarded_config = default_config\<lparr>api_token := Some ''s3cret''\<rparr>"

theorem bearer_gate_witness:
  "verify_bearer_token guarded_config (One_Header ''Bearer s3cret'') = Inr () \<and>
   verify_bearer_token guarded_config (One_Header (bearer_prefix @ [char_of (233 :: nat)])) =
     Inl (TypeError ''comparing strings with non-ASCII characters is not supported'')"
proof -
  have g: "require_auth guarded_config" "api_token guarded_config = Some ''s3cret''"
    by (simp_all add: guarded_config_def default_config_def)
  have "is_ascii ''s3cret''" "\<not> is_ascii [char_of (233 :: nat)]" by (simp_all add: is_ascii_def)
  with bearer_gate [OF g, of "One_Header ''Bearer s3cret''" "[char_of (233 :: nat)]"] show ?thesis
    by (simp add: bearer_prefix_def)
qed

end
