(* ===== verification/Profiles.thy ===== *)
theory Profiles
  imports Config
begin

text \<open>
  \<open>voxcpm_runtime/profiles.py\<close>: turning an execution profile into a device, a GPU selection and a
  worker count. The GPU probe is a parameter (\<open>gpu_probe\<close>); what the subprocess of the default probe
  did is a \<open>probe_run\<close>. \<open>dataclasses.replace\<close> runs the constructor's checks again.
\<close>

definition quoted :: "string \<Rightarrow> string" where
  "quoted s = CHR 0x27 # s @ [CHR 0x27]"

definition profile_error :: "string \<Rightarrow> exn + 'a" where
  "profile_error s = Inl (ProfileResolutionError s)"

definition compatible_device :: "runtime_config \<Rightarrow> execution_profile \<Rightarrow> device_mode \<Rightarrow> exn + unit" where
  "compatible_device c p expected =
     (if device c \<notin> {Dev_Auto, expected}
      then profile_error (''profile '' @ quoted (profile_value p) @ '' conflicts with VOXCPM_DEVICE='' @
        quoted (device_value (device c)))
      else Inr ())"

definition allowed_environment :: "string list" where
  "allowed_environment =
     [''PATH'', ''PYTHONPATH'', ''LD_LIBRARY_PATH'', ''CUDA_VISIBLE_DEVICES'', ''CUDA_DEVICE_ORDER'',
      ''NVIDIA_VISIBLE_DEVICES'']"

definition select_environment :: "string list \<Rightarrow> (string, string) dict \<Rightarrow> (string, string) dict" where
  "select_environment allowed source =
     List.map_filter (\<lambda>key. map_option (\<lambda>v. (key, v)) (dict_get source key)) allowed"

text \<open>The run of the probe script: it could not be run or timed out, or it ended with a return code
  and, where its output parses, a count.\<close>

datatype probe_run = Probe_Not_Run | Probe_Completed int "int option"

definition probe_runtime_gpu_indices :: "probe_run \<Rightarrow> int list" where
  "probe_runtime_gpu_indices run =
     (case run of
        Probe_Not_Run \<Rightarrow> []
      | Probe_Completed code out \<Rightarrow>
          if code \<noteq> 0 then []
          else (case out of
            None \<Rightarrow> []
          | Some n \<Rightarrow> if n \<le> 0 then [] else [0..n - 1]))"

definition replace_config ::
    "runtime_config \<Rightarrow> device_mode \<Rightarrow> int list option \<Rightarrow> int \<Rightarrow> exn + runtime_config" where
  "replace_config c d g w = post_init (c\<lparr>device := d, gpu_devices := g, workers := Some w\<rparr>)"

definition materialize_cpu :: "runtime_config \<Rightarrow> exn + runtime_config" where
  "materialize_cpu c =
     and_then (compatible_device c Prof_Cpu Dev_Cpu) (\<lambda>_.
       if gpu_devices c \<noteq> None then profile_error ''cpu profile cannot select GPUs''
       else if workers c \<notin> {None, Some 1} then profile_error ''cpu profile supports exactly one worker''
       else replace_config c Dev_Cpu None 1)"

definition materialize_cuda_single :: "int list \<Rightarrow> runtime_config \<Rightarrow> exn + runtime_config" where
  "materialize_cuda_single gpu_probe c =
     and_then (compatible_device c Prof_Cuda_Single Dev_Cuda) (\<lambda>_.
     and_then
       (case gpu_devices c of
          Some selected \<Rightarrow> Inr selected
        | None \<Rightarrow>
            (case gpu_probe of
               [] \<Rightarrow> profile_error ''cuda-single profile requires one usable CUDA device''
             | g # _ \<Rightarrow> Inr [g])) (\<lambda>selected.
       if length selected \<noteq> 1 then profile_error ''cuda-single profile requires exactly one selected GPU''
       else if workers c \<notin> {None, Some 1}
       then profile_error ''cuda-single profile supports exactly one worker''
       else replace_config c Dev_Cuda (Some selected) 1))"

definition materialize_cuda_replica :: "int list \<Rightarrow> runtime_config \<Rightarrow> exn + runtime_config" where
  "materialize_cuda_replica gpu_probe c =
     and_then (compatible_device c Prof_Cuda_Replica Dev_Cuda) (\<lambda>_.
       let selected = (case gpu_devices c of Some g \<Rightarrow> g | None \<Rightarrow> gpu_probe) in
       if length selected < 2 then profile_error ''cuda-replica profile requires at least two usable GPUs''
       else if workers c \<notin> {None, Some (int (length selected))}
       then profile_error ''cuda-replica profile requires one worker per selected GPU''
       else replace_config c Dev_Cuda (Some selected) (int (length selected)))"

definition materialize_auto :: "int list \<Rightarrow> runtime_config \<Rightarrow> exn + runtime_config" where
  "materialize_auto gpu_probe c =
     (if device c = Dev_Cpu then
        (if gpu_devices c \<noteq> None then profile_error ''auto profile with CPU execution cannot select GPUs''
         else if workers c \<notin> {None, Some 1}
         then profile_error ''auto CPU execution supports exactly one worker''
         else post_init (c\<lparr>workers := Some 1\<rparr>))
      else let selected = (case gpu_devices c of Some g \<Rightarrow> g | None \<Rightarrow> gpu_probe) in
        if selected \<noteq> [] then
          (case workers c of
             None \<Rightarrow> replace_config c Dev_Cuda (Some selected) (int (length selected))
           | Some w \<Rightarrow>
               if w > int (length selected) then profile_error ''auto profile cannot oversubscribe selected GPUs''
               else replace_config c Dev_Cuda (Some selected) w)
        else if device c = Dev_Cuda
        then profile_error ''auto profile was constrained to CUDA but CUDA is unavailable''
        else if workers c \<notin> {None, Some 1}
        then profile_error ''auto CPU execution supports exactly one worker''
        else replace_config c Dev_Cpu None 1)"

definition materialize_execution_profile :: "int list \<Rightarrow> runtime_config \<Rightarrow> exn + runtime_config" where
  "materialize_execution_profile gpu_probe c =
     (case profile c of
        None \<Rightarrow> Inr c
      | Some Prof_Cpu \<Rightarrow> materialize_cpu c
      | Some Prof_Cuda_Single \<Rightarrow> materialize_cuda_single gpu_probe c
      | Some Prof_Cuda_Replica \<Rightarrow> materialize_cuda_replica gpu_probe c
      | Some Prof_Auto \<Rightarrow> materialize_auto gpu_probe c)"

section \<open>Lemmas\<close>

text \<open>A probe result: distinct valid indices.\<close>

definition probe_ok :: "int list \<Rightarrow> bool" where
  "probe_ok gs \<longleftrightarrow> distinct gs \<and> list_all (\<lambda>i. 0 \<le> i \<and> i < int_limit) gs"

lemma gpus_ok_Some: "gpus_ok (Some gs) \<longleftrightarrow> gs \<noteq> [] \<and> probe_ok gs"
  by (simp add: gpus_ok_def probe_ok_def)

lemma gpus_ok_None [simp]: "gpus_ok None"
  by (simp add: gpus_ok_def)

lemma probe_ok_Nil [simp]: "probe_ok []"
  by (simp add: probe_ok_def)

lemma probe_ok_hd: "probe_ok (g # gs) \<Longrightarrow> gpus_ok (Some [g])"
  by (simp add: gpus_ok_def probe_ok_def)

lemma config_ok_update:
  "config_ok c \<Longrightarrow> gpus_ok g \<Longrightarrow> 0 < w \<Longrightarrow>
   config_ok (c\<lparr>device := d, gpu_devices := g, workers := Some w\<rparr>)"
  by (simp add: config_ok_def positive_integer_fields_def positive_float_fields_def workers_ok_def)

lemma replace_config_ok:
  "config_ok c \<Longrightarrow> gpus_ok g \<Longrightarrow> 0 < w \<Longrightarrow>
   replace_config c d g w = Inr (c\<lparr>device := d, gpu_devices := g, workers := Some w\<rparr>)"
  by (simp add: replace_config_def post_init_ok config_ok_update)

fun profile_config_error :: "exn \<Rightarrow> bool" where
  "profile_config_error (ProfileResolutionError _) = True"
| "profile_config_error _ = False"

text \<open>What each profile makes of a configuration that is in range.\<close>

definition selected_gpus :: "int list \<Rightarrow> runtime_config \<Rightarrow> int list" where
  "selected_gpus gpu_probe c = (case gpu_devices c of Some g \<Rightarrow> g | None \<Rightarrow> gpu_probe)"

definition profile_spec ::
    "int list \<Rightarrow> runtime_config \<Rightarrow> device_mode \<Rightarrow> int list option \<Rightarrow> int \<Rightarrow> bool" where
  "profile_spec gpu_probe c d g w \<longleftrightarrow>
     device c \<in> {Dev_Auto, d} \<and> workers c \<in> {None, Some w} \<and>
     (case g of
        None \<Rightarrow> d = Dev_Cpu \<and> gpu_devices c = None \<and> w = 1 \<and>
          (profile c = Some Prof_Cpu \<or>
           profile c = Some Prof_Auto \<and> (device c = Dev_Cpu \<or> gpu_probe = []))
      | Some gs \<Rightarrow> d = Dev_Cuda \<and> 1 \<le> w \<and> w \<le> int (length gs) \<and>
          (profile c = Some Prof_Cuda_Single \<and> length gs = 1 \<and> gs = take 1 (selected_gpus gpu_probe c) \<or>
           profile c = Some Prof_Cuda_Replica \<and> 2 \<le> length gs \<and> w = int (length gs) \<and>
             gs = selected_gpus gpu_probe c \<or>
           profile c = Some Prof_Auto \<and> gs = selected_gpus gpu_probe c \<and>
             (workers c = None \<longrightarrow> w = int (length gs))))"

definition profile_result :: "int list \<Rightarrow> runtime_config \<Rightarrow> runtime_config \<Rightarrow> bool" where
  "profile_result gpu_probe c c' \<longleftrightarrow>
     (\<exists>d g w. c' = c\<lparr>device := d, gpu_devices := g, workers := Some w\<rparr> \<and> profile_spec gpu_probe c d g w)"

lemma replace_outcome:
  assumes "config_ok c" and "gpus_ok g" and "0 < w" and "profile_spec gpu_probe c d g w"
  shows "outcome profile_config_error (profile_result gpu_probe c) (replace_config c d g w)"
  using assms by (auto simp: replace_config_ok profile_result_def)

lemma profile_error_outcome [simp]: "outcome profile_config_error Q (profile_error s)"
  by (simp add: profile_error_def)

lemma compatible_device_outcome:
  "outcome profile_config_error (\<lambda>_. device c \<in> {Dev_Auto, d}) (compatible_device c p d)"
  by (simp add: compatible_device_def)

lemma gpus_ok_length: "gpus_ok (Some gs) \<Longrightarrow> 0 < length gs"
  by (simp add: gpus_ok_def)

lemma workers_update_outcome:
  assumes "config_ok c" and "0 < w" and "profile_spec gpu_probe c (device c) (gpu_devices c) w"
  shows "outcome profile_config_error (profile_result gpu_probe c) (post_init (c\<lparr>workers := Some w\<rparr>))"
  using replace_outcome [OF assms(1) _ assms(2,3)] assms(1) by (simp add: replace_config_def config_ok_def)

lemma materialize_cpu_outcome:
  assumes "config_ok c" and "profile c = Some Prof_Cpu"
  shows "outcome profile_config_error (profile_result probe c) (materialize_cpu c)"
  unfolding materialize_cpu_def
  by (rule outcome_and_then [OF compatible_device_outcome])
    (auto intro!: replace_outcome simp: assms profile_spec_def)

lemma materialize_cuda_single_outcome:
  assumes "config_ok c" and "profile c = Some Prof_Cuda_Single" and "probe_ok probe"
  shows "outcome profile_config_error (profile_result probe c) (materialize_cuda_single probe c)"
proof -
  have selected: "outcome profile_config_error
     (\<lambda>gs. gpus_ok (Some gs) \<and> (length gs = 1 \<longrightarrow> gs = take 1 (selected_gpus probe c)))
     (case gpu_devices c of
          Some selected \<Rightarrow> Inr selected
        | None \<Rightarrow>
            (case probe of
               [] \<Rightarrow> profile_error ''cuda-single profile requires one usable CUDA device''
             | g # _ \<Rightarrow> Inr [g]))"
    using assms(1,3) probe_ok_hd by (auto simp: config_ok_def selected_gpus_def split: option.split list.split)
  show ?thesis
    unfolding materialize_cuda_single_def
    by (rule outcome_and_then [OF compatible_device_outcome], rule outcome_and_then [OF selected])
      (auto intro!: replace_outcome simp: assms profile_spec_def)
qed

lemma selected_ok:
  assumes "config_ok c" and "probe_ok probe" and "selected_gpus probe c \<noteq> []"
  shows "gpus_ok (Some (selected_gpus probe c))"
  using assms by (cases "gpu_devices c") (simp_all add: gpus_ok_Some config_ok_def selected_gpus_def)

lemma materialize_cuda_replica_outcome:
  assumes "config_ok c" and "profile c = Some Prof_Cuda_Replica" and "probe_ok probe"
  shows "outcome profile_config_error (profile_result probe c) (materialize_cuda_replica probe c)"
proof -
  have ok: "\<not> length (selected_gpus probe c) < 2 \<Longrightarrow> gpus_ok (Some (selected_gpus probe c))"
    using selected_ok [OF assms(1,3)] by fastforce
  show ?thesis
    unfolding materialize_cuda_replica_def selected_gpus_def [symmetric] Let_def
    by (rule outcome_and_then [OF compatible_device_outcome])
      (auto intro!: replace_outcome ok simp: assms profile_spec_def)
qed

lemma materialize_auto_cuda_outcome:
  assumes "config_ok c" and "profile c = Some Prof_Auto" and "probe_ok probe"
    and "selected_gpus probe c \<noteq> []" and "device c \<noteq> Dev_Cpu"
  shows "outcome profile_config_error (profile_result probe c) (materialize_auto probe c)"
proof -
  note ok = selected_ok [OF assms(1,3,4)]
  have d: "device c \<in> {Dev_Auto, Dev_Cuda}" using assms(5) by (cases "device c") auto
  have l: "1 \<le> int (length (selected_gpus probe c))" using assms(4) by (cases "selected_gpus probe c") auto
  show ?thesis
  proof (cases "workers c")
    case None
    have "profile_spec probe c Dev_Cuda (Some (selected_gpus probe c)) (int (length (selected_gpus probe c)))"
      using None d l assms(2) by (simp add: profile_spec_def)
    with None l show ?thesis
      using assms(4,5) replace_outcome [OF assms(1) ok]
      unfolding materialize_auto_def selected_gpus_def [symmetric] Let_def by simp
  next
    case (Some w)
    have w: "1 \<le> w" using Some assms(1) by (simp add: config_ok_def workers_ok_def)
    have "profile_spec probe c Dev_Cuda (Some (selected_gpus probe c)) w"
      if "\<not> w > int (length (selected_gpus probe c))"
      using that Some d w assms(2) by (simp add: profile_spec_def)
    with Some w show ?thesis
      using assms(4,5) replace_outcome [OF assms(1) ok]
      unfolding materialize_auto_def selected_gpus_def [symmetric] Let_def by simp
  qed
qed

lemma materialize_auto_cpu_outcome:
  assumes "config_ok c" and "profile c = Some Prof_Auto"
    and "selected_gpus probe c = [] \<or> device c = Dev_Cpu"
  shows "outcome profile_config_error (profile_result probe c) (materialize_auto probe c)"
proof (cases "device c = Dev_Cpu")
  case True
  then show ?thesis
    unfolding materialize_auto_def using assms(2)
    by (auto intro!: workers_update_outcome [OF assms(1)] simp: profile_spec_def)
next
  case False
  with assms(3) have e: "selected_gpus probe c = []" by simp
  with assms(1) have "gpu_devices c = None \<and> probe = []"
    by (auto simp: config_ok_def selected_gpus_def gpus_ok_def split: option.splits)
  then have "profile_spec probe c Dev_Cpu None 1" if "workers c \<in> {None, Some 1}" "device c = Dev_Auto"
    using that assms(2) by (simp add: profile_spec_def)
  moreover have "device c = Dev_Auto" if "device c \<noteq> Dev_Cuda"
    using that False by (cases "device c") auto
  ultimately show ?thesis
    using False e replace_outcome [OF assms(1) gpus_ok_None, of 1]
    unfolding materialize_auto_def selected_gpus_def [symmetric] Let_def by simp
qed

lemma materialize_auto_outcome:
  assumes "config_ok c" and "profile c = Some Prof_Auto" and "probe_ok probe"
  shows "outcome profile_config_error (profile_result probe c) (materialize_auto probe c)"
  using materialize_auto_cuda_outcome [OF assms] materialize_auto_cpu_outcome [OF assms(1,2)] by blast

lemma materialize_outcome:
  assumes "config_ok c" and "probe_ok probe" and "profile c = Some p"
  shows "outcome profile_config_error (profile_result probe c) (materialize_execution_profile probe c)"
  using assms materialize_cpu_outcome materialize_cuda_single_outcome materialize_cuda_replica_outcome
    materialize_auto_outcome
  by (cases p) (simp_all add: materialize_execution_profile_def)

lemma materialize_config_ok:
  assumes "config_ok c" and "materialize_execution_profile probe c = Inr c'"
  shows "config_ok c'"
proof (cases "profile c")
  case None
  with assms show ?thesis by (simp add: materialize_execution_profile_def)
next
  case (Some p)
  have po: "config_ok c'" if "post_init x = Inr c'" for x
    using post_init_outcome [of x] that by simp
  have "\<exists>x. post_init x = Inr c'"
    using assms(2) Some
    by (cases p)
      (auto simp: materialize_execution_profile_def materialize_cpu_def materialize_cuda_single_def
        materialize_cuda_replica_def materialize_auto_def replace_config_def profile_error_def Let_def
        and_then_eq_Inr split: if_splits option.splits)
  with po show ?thesis by blast
qed

lemma materialize_again:
  assumes "config_ok c'" and "c' = c\<lparr>device := d, gpu_devices := g, workers := Some w\<rparr>"
    and "profile_spec probe c d g w"
  shows "materialize_execution_profile probe' c' = Inr c'"
proof -
  have same: "replace_config c' d g w = Inr c'" "post_init (c'\<lparr>workers := Some w\<rparr>) = Inr c'"
    using assms(1) by (simp_all add: replace_config_def assms(2) post_init_ok)
  show ?thesis
  proof (cases g)
    case None
    with assms(3) have "d = Dev_Cpu" "w = 1" "profile c \<in> {Some Prof_Cpu, Some Prof_Auto}"
      by (auto simp: profile_spec_def)
    then show ?thesis
      using same None
      by (auto simp: materialize_execution_profile_def materialize_cpu_def materialize_auto_def
          compatible_device_def assms(2))
  next
    case (Some gs)
    with assms(3) have d: "d = Dev_Cuda" "1 \<le> w" "w \<le> int (length gs)" by (auto simp: profile_spec_def)
    then have ne: "gs \<noteq> []" by auto
    from Some assms(3) have
      "profile c = Some Prof_Cuda_Single \<and> length gs = 1 \<or>
       profile c = Some Prof_Cuda_Replica \<and> 2 \<le> length gs \<and> w = int (length gs) \<or>
       profile c = Some Prof_Auto"
      by (auto simp: profile_spec_def)
    then show ?thesis
      using same Some d ne
      by (auto simp: materialize_execution_profile_def materialize_cuda_single_def
          materialize_cuda_replica_def materialize_auto_def compatible_device_def assms(2))
  qed
qed

text \<open>For a configuration in range and a probe of distinct GPUs, materialising a profile either
  raises a \<open>ProfileResolutionError\<close> or gives the configuration the profile stands for (a single CPU
  worker; one GPU; all selected GPUs with one worker each; the selected or probed GPUs with at most
  one worker each), respecting an explicit device, selection and worker count. The result is in range,
  and materialising it again, whatever the probe then reports, changes nothing.\<close>

theorem profile_materialization:
  assumes "config_ok c" and "probe_ok probe" and "profile c = Some p"
  shows "outcome profile_config_error
    (\<lambda>c'. profile_result probe c c' \<and> config_ok c' \<and> materialize_execution_profile probe' c' = Inr c')
    (materialize_execution_profile probe c)"
proof (cases "materialize_execution_profile probe c")
  case (Inl e)
  then show ?thesis using materialize_outcome [OF assms] by simp
next
  case (Inr c')
  then have "profile_result probe c c'" and "config_ok c'"
    using materialize_outcome [OF assms] materialize_config_ok [OF assms(1)] by simp_all
  moreover from this have "materialize_execution_profile probe' c' = Inr c'"
    unfolding profile_result_def by (auto intro: materialize_again)
  ultimately show ?thesis using Inr by simp
qed

lemma default_config_ok: "config_ok default_config"
  by (simp add: config_ok_def default_config_def fields_ok_def positive_integer_fields_def
      positive_float_fields_def positive_float_def workers_ok_def)

theorem profile_materialization_witness:
  "outcome profile_config_error
    (\<lambda>c'. profile_result [0, 1] (default_config\<lparr>profile := Some Prof_Cuda_Replica\<rparr>) c' \<and> config_ok c' \<and>
       materialize_execution_profile [] c' = Inr c')
    (materialize_execution_profile [0, 1] (default_config\<lparr>profile := Some Prof_Cuda_Replica\<rparr>)) \<and>
   isOK (materialize_execution_profile [0, 1] (default_config\<lparr>profile := Some Prof_Cuda_Replica\<rparr>))"
proof -
  let ?c = "default_config\<lparr>profile := Some Prof_Cuda_Replica\<rparr>"
  have ok: "config_ok ?c"
    using default_config_ok by (simp add: config_ok_def positive_integer_fields_def positive_float_fields_def)
  have probe: "probe_ok [0, 1]" by (simp add: probe_ok_def small_int_limit)
  have "isOK (materialize_execution_profile [0, 1] ?c)"
    using replace_config_ok [OF ok, of "Some [0, 1]" 2 Dev_Cuda] probe
    by (simp add: materialize_execution_profile_def materialize_cuda_replica_def compatible_device_def
        default_config_def gpus_ok_Some)
  with profile_materialization [OF ok probe, of Prof_Cuda_Replica "[]"] show ?thesis by simp
qed

end
