(* ===== verification/Device.thy ===== *)
theory Device
  imports Profiles
begin

text \<open>
  \<open>voxcpm_runtime/device.py\<close>: the hardware inventory, execution plans and the resolution of a
  configuration against an inventory. The operating system, \<open>nvidia-smi\<close> and the \<open>torch\<close> module are
  outside the program: what they answer is an argument (file contents, \<open>host_probes\<close>,
  \<open>torch_module\<close>).
\<close>

section \<open>GPUInfo\<close>

text \<open>The aliases of the index and of the memory agree after construction, so one field stands for
  each group.\<close>

record gpu_info =
  gi_index :: int
  gi_name :: pyval
  gi_memory :: "int option"

fun num_val :: "pyval \<Rightarrow> rat option" where
  "num_val (PInt i) = Some (of_int i)"
| "num_val (PBool b) = Some (if b then 1 else 0)"
| "num_val (PFloat (Fin q)) = Some q"
| "num_val (PFloat NegZero) = Some 0"
| "num_val _ = None"

text \<open>\<open>a == b\<close>.\<close>

definition py_eq :: "pyval \<Rightarrow> pyval \<Rightarrow> bool" where
  "py_eq a b \<longleftrightarrow>
     (case num_val a of
        Some p \<Rightarrow> num_val b = Some p
      | None \<Rightarrow> a \<noteq> PFloat NotANumber \<and> a = b)"

text \<open>\<open>isinstance(v, bool) or not isinstance(v, int) or v < 0\<close> is the negation of\<close>

fun nonneg_int :: "pyval \<Rightarrow> bool" where
  "nonneg_int (PInt i) = (0 \<le> i)"
| "nonneg_int _ = False"

fun int_field :: "pyval \<Rightarrow> int" where
  "int_field (PInt i) = i"
| "int_field _ = 0"

definition mk_gpu_info ::
    "pyval \<Rightarrow> pyval \<Rightarrow> pyval \<Rightarrow> pyval \<Rightarrow> pyval \<Rightarrow> pyval \<Rightarrow> exn + gpu_info" where
  "mk_gpu_info index name memory runtime_index device_index vram =
     (if memory \<noteq> PNone \<and> vram \<noteq> PNone \<and> \<not> py_eq memory vram
      then Inl (ValueError ''GPU memory aliases must agree'')
      else
       let memory = (if memory = PNone then vram else memory);
           indices = filter (\<lambda>v. v \<noteq> PNone) [index, runtime_index, device_index]
       in
        if indices = [] then Inl (ValueError ''a GPU index is required'')
        else if \<not> list_all nonneg_int indices then Inl (ValueError ''GPU index must be a non-negative integer'')
        else if list_ex (\<lambda>v. \<not> py_eq v (hd indices)) (tl indices)
        then Inl (ValueError ''GPU index aliases must agree'')
        else if memory \<noteq> PNone \<and> \<not> nonneg_int memory
        then Inl (ValueError ''GPU memory must be a non-negative integer'')
        else Inr \<lparr>gi_index = int_field (hd indices), gi_name = name,
                  gi_memory = (if memory = PNone then None else Some (int_field memory))\<rparr>)"

section \<open>HardwareInventory\<close>

text \<open>An element of the \<open>gpus\<close> argument: a \<open>GPUInfo\<close>, a mapping from names to values, or any other
  object.\<close>

datatype gpu_entry =
    Entry_Info gpu_info
  | Entry_Mapping "(string, pyval) dict"
  | Entry_Other

definition item_or_none :: "(string, pyval) dict \<Rightarrow> string \<Rightarrow> pyval" where
  "item_or_none d k = (case dict_get d k of None \<Rightarrow> PNone | Some v \<Rightarrow> v)"

definition alias_key :: "string \<Rightarrow> string \<Rightarrow> (string, pyval) dict \<Rightarrow> (string, pyval) dict" where
  "alias_key key alias d =
     (case (dict_get d key, dict_get d alias) of
        (None, Some v) \<Rightarrow> dict_set key v d
      | _ \<Rightarrow> d)"

fun normalize_gpu :: "gpu_entry \<Rightarrow> exn + gpu_info" where
  "normalize_gpu (Entry_Info g) = Inr g"
| "normalize_gpu (Entry_Mapping d) =
     (let v = alias_key ''total_memory_bytes'' ''vram_bytes'' (alias_key ''index'' ''runtime_index'' d) in
      mk_gpu_info (item_or_none v ''index'') (item_or_none v ''name'') (item_or_none v ''total_memory_bytes'')
        (item_or_none v ''runtime_index'') (item_or_none v ''device_index'') PNone)"
| "normalize_gpu Entry_Other = Inl (TypeError ''gpus must contain GPUInfo values or mappings'')"

record inventory =
  cpu_logical_count :: "int option"
  cpu_physical_count :: "int option"
  host_ram_bytes :: "int option"
  cuda_available :: bool
  inv_gpus :: "gpu_info list"
  gpu_count :: int
  torch_version :: "string option"
  cuda_runtime_version :: "string option"
  cuda_driver_version :: "string option"
  cuda_probe_status :: string
  visible_device_mapping :: pyval
  inv_notes :: "string list"
  inv_platform :: "string option"

definition plain_gpu :: "int \<Rightarrow> gpu_info" where
  "plain_gpu i = \<lparr>gi_index = i, gi_name = PNone, gi_memory = None\<rparr>"

text \<open>The GPU list and count of the constructor.\<close>

definition normalize_gpu_list :: "gpu_entry list \<Rightarrow> int option \<Rightarrow> exn + gpu_info list \<times> int" where
  "normalize_gpu_list entries n =
     and_then (map_raise normalize_gpu entries) (\<lambda>gpus.
     let indices = map gi_index gpus in
     if \<not> distinct indices then Inl (ValueError ''GPU indices must be unique'')
     else and_then
       (case n of
          None \<Rightarrow> Inr (int (length gpus))
        | Some k \<Rightarrow> if k < 0 then Inl (ValueError ''gpu_count must be a non-negative integer'') else Inr k)
       (\<lambda>k.
        if k < int (length gpus) then Inl (ValueError ''gpu_count cannot be smaller than the GPU list'')
        else if k > int (length gpus)
        then Inr (gpus @ map plain_gpu (filter (\<lambda>i. i \<notin> set indices) [0..k - 1]), k)
        else Inr (gpus, k)))"

definition check_count :: "string \<Rightarrow> int option \<Rightarrow> exn + unit" where
  "check_count name v =
     (case v of
        None \<Rightarrow> Inr ()
      | Some i \<Rightarrow> if i < 0 then Inl (ValueError (name @ '' must be a non-negative integer'')) else Inr ())"

text \<open>\<open>HardwareInventory.__post_init__\<close>: the arguments are the record without its GPU fields, the GPU
  entries and the count.\<close>

definition mk_inventory :: "inventory \<Rightarrow> gpu_entry list \<Rightarrow> int option \<Rightarrow> exn + inventory" where
  "mk_inventory hw entries n =
     and_then (normalize_gpu_list entries n) (\<lambda>(gpus, k).
     and_then (check_count ''cpu_logical_count'' (cpu_logical_count hw)) (\<lambda>_.
     and_then (check_count ''cpu_physical_count'' (cpu_physical_count hw)) (\<lambda>_.
     and_then (check_count ''host_ram_bytes'' (host_ram_bytes hw)) (\<lambda>_.
       Inr (hw\<lparr>inv_gpus := gpus, gpu_count := k\<rparr>)))))"

definition visible_gpu_indices :: "inventory \<Rightarrow> int list" where
  "visible_gpu_indices hw =
     (if inv_gpus hw \<noteq> [] then map gi_index (inv_gpus hw) else [0..gpu_count hw - 1])"

section \<open>ExecutionPlan\<close>

record plan =
  effective_device :: string
  selected_gpu_indices :: "int list"
  worker_count :: int
  worker_gpu_indices :: "int list"

definition plan_error :: "string \<Rightarrow> exn + 'a" where
  "plan_error s = Inl (ValueError s)"

text \<open>The checks that follow the default worker mapping.\<close>

definition check_plan :: "string \<Rightarrow> int list \<Rightarrow> int \<Rightarrow> int list \<Rightarrow> exn + plan" where
  "check_plan dev selected wcount worker_gpus =
     (if dev = ''cpu'' \<and> (selected \<noteq> [] \<or> worker_gpus \<noteq> []) then plan_error ''CPU plans cannot select GPUs''
      else if dev = ''cpu'' \<and> wcount \<noteq> 1 then plan_error ''CPU plans support one worker''
      else if dev = ''cuda'' \<and> selected = [] then plan_error ''CUDA plans require selected GPUs''
      else if dev = ''cuda'' \<and> wcount > int (length selected)
      then plan_error ''CUDA workers cannot exceed selected GPUs''
      else if dev = ''cuda'' \<and> int (length worker_gpus) \<noteq> wcount
      then plan_error ''each CUDA worker must map to one selected GPU''
      else if dev = ''cuda'' \<and> \<not> distinct worker_gpus
      then plan_error ''CUDA workers cannot share a selected GPU''
      else if dev = ''cuda'' \<and> list_ex (\<lambda>i. i \<notin> set selected) worker_gpus
      then plan_error ''CUDA worker GPUs must be selected''
      else Inr \<lparr>effective_device = dev, selected_gpu_indices = selected, worker_count = wcount,
                worker_gpu_indices = worker_gpus\<rparr>)"

definition mk_plan :: "string \<Rightarrow> int list \<Rightarrow> int \<Rightarrow> int list \<Rightarrow> exn + plan" where
  "mk_plan dev selected wcount worker_gpus =
     (if dev \<notin> {''cpu'', ''cuda''} then plan_error ''effective device must be cpu or cuda''
      else if wcount \<le> 0 then plan_error ''worker_count must be positive''
      else if list_ex (\<lambda>i. i < 0) selected
      then plan_error ''selected GPU indices must be non-negative integers''
      else if \<not> distinct selected then plan_error ''selected GPU indices must be unique''
      else if list_ex (\<lambda>i. i < 0) worker_gpus
      then plan_error ''worker GPU indices must be non-negative integers''
      else check_plan dev selected wcount
        (if dev = ''cuda'' \<and> worker_gpus = [] then take (nat wcount) selected else worker_gpus))"

section \<open>Resolution\<close>

datatype device_argument =
    Device_Mode device_mode
  | Device_Config runtime_config
  | Device_None
  | Device_Text string

datatype raw_argument = Arg_Config runtime_config | Arg_Raw raw

definition device_error :: "device_class \<Rightarrow> string \<Rightarrow> exn + 'a" where
  "device_error k s = Inl (DeviceExn k s)"

fun coerce_device :: "device_argument \<Rightarrow> exn + string" where
  "coerce_device (Device_Mode d) = Inr (device_value d)"
| "coerce_device (Device_Config c) = Inr (device_value (device c))"
| "coerce_device Device_None = Inr ''auto''"
| "coerce_device (Device_Text s) =
     (if s \<in> {''auto'', ''cpu'', ''cuda''} then Inr s
      else device_error InvalidDeviceError ''requested device must be one of: auto, cpu, cuda'')"

fun coerce_gpu_selection :: "raw_argument \<Rightarrow> exn + int list option" where
  "coerce_gpu_selection (Arg_Config c) = Inr (gpu_devices c)"
| "coerce_gpu_selection (Arg_Raw v) = parse_gpu_devices v"

fun coerce_workers :: "raw_argument \<Rightarrow> exn + int option" where
  "coerce_workers (Arg_Config c) = Inr (workers c)"
| "coerce_workers (Arg_Raw v) = parse_workers v"

definition show_list :: "int list \<Rightarrow> string" where
  "show_list is = ''['' @ join '', '' (map show_int is) @ '']''"

definition validate_gpu_selection :: "int list option \<Rightarrow> inventory \<Rightarrow> exn + int list" where
  "validate_gpu_selection selection hw =
     (let visible = visible_gpu_indices hw in
      case selection of
        None \<Rightarrow> Inr visible
      | Some gs \<Rightarrow>
          (case find (\<lambda>i. i \<notin> set visible) gs of
             Some i \<Rightarrow> device_error InvalidGpuSelectionError
               (''GPU index '' @ show_int i @ '' is not visible; visible indices are '' @ show_list visible)
           | None \<Rightarrow> Inr gs))"

definition oversubscribed_cpu :: "int option \<Rightarrow> bool" where
  "oversubscribed_cpu limit \<longleftrightarrow> (case limit of None \<Rightarrow> False | Some w \<Rightarrow> w > 1)"

definition cpu_plan :: "int option \<Rightarrow> exn + plan" where
  "cpu_plan limit =
     (if oversubscribed_cpu limit
      then device_error WorkerOversubscriptionError
        ''CPU execution supports one worker; explicit oversubscription is not allowed''
      else mk_plan ''cpu'' [] 1 [])"

definition usable_cuda :: "inventory \<Rightarrow> bool" where
  "usable_cuda hw \<longleftrightarrow> cuda_available hw \<and> gpu_count hw > 0"

definition cuda_plan :: "int option \<Rightarrow> int list \<Rightarrow> exn + plan" where
  "cuda_plan limit selected =
     (if selected = [] then device_error CudaUnavailableError ''CUDA was requested but no visible GPU is available''
      else
       let resolved = (case limit of None \<Rightarrow> int (length selected) | Some w \<Rightarrow> w) in
       if limit \<noteq> None \<and> resolved > int (length selected)
       then device_error WorkerOversubscriptionError
         (''requested '' @ show_int resolved @ '' workers for '' @ show_int (int (length selected)) @
          '' selected GPUs; explicit oversubscription is not allowed'')
       else mk_plan ''cuda'' selected resolved (take (nat resolved) selected))"

definition resolve_normalized :: "string \<Rightarrow> int list option \<Rightarrow> int option \<Rightarrow> inventory \<Rightarrow> exn + plan" where
  "resolve_normalized dev spec limit hw =
     (if dev = ''cpu'' then
       (if spec \<noteq> None
        then device_error InvalidGpuSelectionError ''an explicit GPU list cannot be combined with CPU execution''
        else cpu_plan limit)
      else if dev = ''cuda'' \<and> \<not> usable_cuda hw
      then device_error CudaUnavailableError ''CUDA was requested but no usable CUDA device is available''
      else if dev \<noteq> ''cuda'' \<and> \<not> usable_cuda hw then
        (if spec \<noteq> None
         then device_error InvalidGpuSelectionError ''an explicit GPU list requires a usable CUDA device''
         else cpu_plan limit)
      else and_then (validate_gpu_selection spec hw) (cuda_plan limit))"

definition resolve_values :: "device_argument \<Rightarrow> raw_argument \<Rightarrow> raw_argument \<Rightarrow> inventory \<Rightarrow> exn + plan" where
  "resolve_values requested gpus wks hw =
     and_then (coerce_device requested) (\<lambda>dev.
     and_then (coerce_gpu_selection gpus) (\<lambda>spec.
     and_then (coerce_workers wks) (\<lambda>limit. resolve_normalized dev spec limit hw)))"

text \<open>The tuple and the integer of a configuration, as the values the parsers are given.\<close>

definition raw_gpus :: "int list option \<Rightarrow> raw" where
  "raw_gpus g = (case g of None \<Rightarrow> RNone | Some gs \<Rightarrow> RSeq (map RInt gs) [])"

definition raw_workers :: "int option \<Rightarrow> raw" where
  "raw_workers w = (case w of None \<Rightarrow> RNone | Some i \<Rightarrow> RInt i)"

definition resolve_execution_plan :: "runtime_config \<Rightarrow> inventory \<Rightarrow> exn + plan" where
  "resolve_execution_plan c hw =
     and_then (materialize_execution_profile (visible_gpu_indices hw) c) (\<lambda>normalized.
       resolve_values (Device_Mode (device normalized)) (Arg_Raw (raw_gpus (gpu_devices normalized)))
         (Arg_Raw (raw_workers (workers normalized))) hw)"

definition resolve :: "device_argument \<Rightarrow> raw_argument \<Rightarrow> raw_argument \<Rightarrow> inventory option \<Rightarrow> exn + plan" where
  "resolve requested gpus wks hw =
     (case hw of
        None \<Rightarrow> Inl (ValueError ''inventory is required for deterministic resolution'')
      | Some i \<Rightarrow> resolve_values requested gpus wks i)"

text \<open>\<open>DeviceManager.resolve\<close>: the argument, the manager's own inventory, or a detected one.\<close>

definition manager_resolve ::
    "inventory option \<Rightarrow> (exn + inventory) \<Rightarrow> device_argument \<Rightarrow> raw_argument \<Rightarrow> raw_argument \<Rightarrow>
     inventory option \<Rightarrow> exn + plan" where
  "manager_resolve own detected requested gpus wks hw =
     and_then
       (case hw of
          Some i \<Rightarrow> Inr i
        | None \<Rightarrow> (case own of Some i \<Rightarrow> Inr i | None \<Rightarrow> detected)) (\<lambda>i.
       case requested of
         Device_Config c \<Rightarrow> resolve_execution_plan c i
       | _ \<Rightarrow> resolve_values requested gpus wks i)"

section \<open>Inventories\<close>

fun inventory_error :: "exn \<Rightarrow> bool" where
  "inventory_error (ValueError _) = True"
| "inventory_error (TypeError _) = True"
| "inventory_error _ = False"

fun entry_ok :: "gpu_entry \<Rightarrow> bool" where
  "entry_ok (Entry_Info g) = (0 \<le> gi_index g)"
| "entry_ok _ = True"

lemma nonneg_int_field: "nonneg_int v \<Longrightarrow> 0 \<le> int_field v"
  by (cases v) auto

lemma mk_gpu_info_outcome:
  "outcome inventory_error (\<lambda>g. 0 \<le> gi_index g) (mk_gpu_info i n m r d v)"
proof -
  have "0 \<le> int_field (hd xs)" if "xs \<noteq> []" "list_all nonneg_int xs" for xs
    using that nonneg_int_field by (cases xs) auto
  note this [of "filter (\<lambda>v. v \<noteq> PNone) [i, r, d]"]
  then show ?thesis unfolding mk_gpu_info_def Let_def by (simp del: filter.simps)
qed

lemma normalize_gpu_outcome:
  "entry_ok e \<Longrightarrow> outcome inventory_error (\<lambda>g. 0 \<le> gi_index g) (normalize_gpu e)"
  by (cases e) (simp_all add: mk_gpu_info_outcome Let_def)

text \<open>The GPU list and count of an inventory.\<close>

definition gpu_list_ok :: "gpu_info list \<Rightarrow> int \<Rightarrow> bool" where
  "gpu_list_ok gpus k \<longleftrightarrow>
     distinct (map gi_index gpus) \<and> (\<forall>g \<in> set gpus. 0 \<le> gi_index g) \<and> 0 \<le> k \<and> k \<le> int (length gpus)"

lemma plain_gpu_index [simp]: "gi_index (plain_gpu i) = i"
  by (simp add: plain_gpu_def)

lemma missing_indices:
  fixes k :: int and indices :: "int list"
  assumes "0 \<le> k"
  shows "k \<le> int (length indices) + int (length (filter (\<lambda>i. i \<notin> set indices) [0..k - 1]))"
proof -
  have "length (filter (\<lambda>i. i \<notin> set indices) [0..k - 1]) = card ({0..k - 1} - set indices)"
    by (simp add: distinct_length_filter Int_def set_diff_eq conj_commute)
  moreover have "card {0..k - 1} \<le> card ({0..k - 1} - set indices) + card (set indices)"
  proof -
    have "{0..k - 1} \<subseteq> ({0..k - 1} - set indices) \<union> set indices" by blast
    then have "card {0..k - 1} \<le> card (({0..k - 1} - set indices) \<union> set indices)"
      by (intro card_mono) simp_all
    also have "\<dots> \<le> card ({0..k - 1} - set indices) + card (set indices)" by (rule card_Un_le)
    finally show ?thesis .
  qed
  moreover have "card (set indices) \<le> length indices" by (rule card_length)
  moreover have "card {0..k - 1} = nat k" using assms by simp
  ultimately show ?thesis by linarith
qed

lemma normalize_gpu_list_outcome:
  assumes "list_all entry_ok entries"
  shows "outcome inventory_error (\<lambda>(gpus, k). gpu_list_ok gpus k) (normalize_gpu_list entries n)"
proof -
  have all: "outcome inventory_error (\<lambda>gs. \<forall>g \<in> set gs. 0 \<le> gi_index g) (map_raise normalize_gpu entries)"
    using assms by (intro outcome_map_raise normalize_gpu_outcome) (auto simp: list_all_iff)
  have count: "outcome inventory_error (\<lambda>k. 0 \<le> k)
       (case n of
          None \<Rightarrow> Inr (int (length gpus))
        | Some k \<Rightarrow> if k < 0 then Inl (ValueError ''gpu_count must be a non-negative integer'') else Inr k)"
    for gpus :: "gpu_info list"
    by (simp split: option.split)
  have ext: "gpu_list_ok (gs @ map plain_gpu (filter (\<lambda>i. i \<notin> set (map gi_index gs)) [0..k - 1])) k"
    if "\<forall>g \<in> set gs. 0 \<le> gi_index g" "distinct (map gi_index gs)" "0 \<le> k" for gs k
    using that missing_indices [OF that(3), of "map gi_index gs"]
    by (auto simp: gpu_list_ok_def comp_def)
  show ?thesis
    unfolding normalize_gpu_list_def Let_def
    apply (rule outcome_and_then [OF all])
    subgoal for gs
      apply (cases "distinct (map gi_index gs)")
       apply (simp only: if_False not_True_eq_False)
       apply (rule outcome_and_then [OF count])
       apply (use ext in \<open>auto simp: gpu_list_ok_def\<close>)
      done
    done
qed

definition inventory_ok :: "inventory \<Rightarrow> bool" where
  "inventory_ok hw \<longleftrightarrow> gpu_list_ok (inv_gpus hw) (gpu_count hw) \<and>
     list_all (\<lambda>v. case v of None \<Rightarrow> True | Some i \<Rightarrow> 0 \<le> i)
       [cpu_logical_count hw, cpu_physical_count hw, host_ram_bytes hw]"

lemma check_count_outcome:
  "outcome inventory_error (\<lambda>_. case v of None \<Rightarrow> True | Some i \<Rightarrow> 0 \<le> i) (check_count name v)"
  by (simp add: check_count_def split: option.split)

lemma mk_inventory_outcome:
  assumes "list_all entry_ok entries"
  shows "outcome inventory_error inventory_ok (mk_inventory hw entries n)"
  unfolding mk_inventory_def
  apply (rule outcome_and_then [OF normalize_gpu_list_outcome [OF assms]])
  subgoal for x
    apply (cases x)
    apply (simp only: prod.case)
    apply (rule outcome_and_then [OF check_count_outcome])+
    apply (simp add: inventory_ok_def)
    done
  done

lemma visible_ok:
  assumes "inventory_ok hw"
  shows "distinct (visible_gpu_indices hw)" and "\<forall>i \<in> set (visible_gpu_indices hw). 0 \<le> i"
    and "gpu_count hw > 0 \<Longrightarrow> visible_gpu_indices hw \<noteq> []"
  using assms by (auto simp: visible_gpu_indices_def inventory_ok_def gpu_list_ok_def)

section \<open>Plans\<close>

definition plan_ok :: "plan \<Rightarrow> bool" where
  "plan_ok p \<longleftrightarrow>
     effective_device p = ''cpu'' \<and> selected_gpu_indices p = [] \<and> worker_gpu_indices p = [] \<and> worker_count p = 1 \<or>
     effective_device p = ''cuda'' \<and> distinct (selected_gpu_indices p) \<and>
       list_all (\<lambda>i. 0 \<le> i) (selected_gpu_indices p) \<and> distinct (worker_gpu_indices p) \<and>
       set (worker_gpu_indices p) \<subseteq> set (selected_gpu_indices p) \<and>
       int (length (worker_gpu_indices p)) = worker_count p \<and> 1 \<le> worker_count p"

fun value_error :: "exn \<Rightarrow> bool" where
  "value_error (ValueError _) = True"
| "value_error _ = False"

lemma plan_error_outcome [simp]: "outcome value_error Q (plan_error s)"
  by (simp add: plan_error_def)

lemma check_plan_outcome:
  assumes "d \<in> {''cpu'', ''cuda''}" and "0 < w" and "distinct selected" and "list_all (\<lambda>i. 0 \<le> i) selected"
  shows "outcome value_error plan_ok (check_plan d selected w worker_gpus)"
proof -
  have "''cpu'' \<noteq> ''cuda''" by simp
  with assms show ?thesis
    unfolding check_plan_def
    by (intro outcome_ifI plan_error_outcome) (auto simp: plan_ok_def list_ex_iff)
qed

lemma mk_plan_outcome: "outcome value_error plan_ok (mk_plan d selected w worker_gpus)"
  unfolding mk_plan_def
  by (intro outcome_ifI plan_error_outcome check_plan_outcome)
    (simp_all add: list_ex_iff list_all_iff not_less)

lemma mk_cpu_plan:
  "mk_plan ''cpu'' [] 1 [] = Inr \<lparr>effective_device = ''cpu'', selected_gpu_indices = [], worker_count = 1,
     worker_gpu_indices = []\<rparr>"
  by (simp add: mk_plan_def check_plan_def)

lemma mk_cuda_plan:
  assumes "distinct gs" and "\<forall>i \<in> set gs. 0 \<le> i" and "1 \<le> w" and "w \<le> int (length gs)"
  shows "mk_plan ''cuda'' gs w (take (nat w) gs) = Inr \<lparr>effective_device = ''cuda'', selected_gpu_indices = gs,
    worker_count = w, worker_gpu_indices = take (nat w) gs\<rparr>"
proof -
  have ne: "gs \<noteq> []" using assms by auto
  have len: "int (length (take (nat w) gs)) = w" using assms by simp
  have ex: "\<not> list_ex (\<lambda>i. i < 0) gs" "\<not> list_ex (\<lambda>i. i < 0) (take (nat w) gs)"
    "\<not> list_ex (\<lambda>i. i \<notin> set gs) (take (nat w) gs)"
    using assms by (auto simp: list_ex_iff not_less dest: in_set_takeD)
  have "check_plan ''cuda'' gs w (take (nat w) gs) = Inr \<lparr>effective_device = ''cuda'', selected_gpu_indices = gs,
    worker_count = w, worker_gpu_indices = take (nat w) gs\<rparr>"
    using assms ne ex len by (simp add: check_plan_def)
  then show ?thesis
    using assms ne ex by (simp add: mk_plan_def)
qed

section \<open>What is resolved\<close>

fun device_exn :: "exn \<Rightarrow> bool" where
  "device_exn (DeviceExn _ _) = True"
| "device_exn _ = False"

text \<open>The GPUs that a selection stands for, and whether an execution is on the CPU.\<close>

definition chosen_gpus :: "int list option \<Rightarrow> inventory \<Rightarrow> int list" where
  "chosen_gpus spec hw = (case spec of None \<Rightarrow> visible_gpu_indices hw | Some gs \<Rightarrow> gs)"

definition on_cpu :: "string \<Rightarrow> inventory \<Rightarrow> bool" where
  "on_cpu dev hw \<longleftrightarrow> dev = ''cpu'' \<or> dev \<noteq> ''cuda'' \<and> \<not> usable_cuda hw"

definition admissible :: "string \<Rightarrow> int list option \<Rightarrow> int option \<Rightarrow> inventory \<Rightarrow> bool" where
  "admissible dev spec limit hw \<longleftrightarrow>
     (if on_cpu dev hw then spec = None \<and> \<not> oversubscribed_cpu limit
      else usable_cuda hw \<and> list_all (\<lambda>i. i \<in> set (visible_gpu_indices hw)) (chosen_gpus spec hw) \<and>
        (case limit of None \<Rightarrow> True | Some w \<Rightarrow> w \<le> int (length (chosen_gpus spec hw))))"

definition plan_for :: "string \<Rightarrow> int list option \<Rightarrow> int option \<Rightarrow> inventory \<Rightarrow> plan" where
  "plan_for dev spec limit hw =
     (if on_cpu dev hw
      then \<lparr>effective_device = ''cpu'', selected_gpu_indices = [], worker_count = 1, worker_gpu_indices = []\<rparr>
      else let gs = chosen_gpus spec hw;
               w = (case limit of None \<Rightarrow> int (length gs) | Some w \<Rightarrow> w) in
        \<lparr>effective_device = ''cuda'', selected_gpu_indices = gs, worker_count = w,
         worker_gpu_indices = take (nat w) gs\<rparr>)"

definition request_in_range :: "int list option \<Rightarrow> int option \<Rightarrow> bool" where
  "request_in_range spec limit \<longleftrightarrow> gpus_ok spec \<and> workers_ok limit"

lemma chosen_ok:
  assumes "inventory_ok hw" and "gpus_ok spec" and "usable_cuda hw"
  shows "distinct (chosen_gpus spec hw)" and "\<forall>i \<in> set (chosen_gpus spec hw). 0 \<le> i"
    and "chosen_gpus spec hw \<noteq> []"
  using assms visible_ok [OF assms(1)]
  by (auto simp: chosen_gpus_def gpus_ok_def list_all_iff usable_cuda_def split: option.splits)

lemma cpu_plan_cases:
  "cpu_plan limit =
     (if oversubscribed_cpu limit
      then device_error WorkerOversubscriptionError
        ''CPU execution supports one worker; explicit oversubscription is not allowed''
      else Inr \<lparr>effective_device = ''cpu'', selected_gpu_indices = [], worker_count = 1, worker_gpu_indices = []\<rparr>)"
  by (simp add: cpu_plan_def mk_cpu_plan)

lemma validate_cases:
  assumes "list_all (\<lambda>i. i \<in> set (visible_gpu_indices hw)) (chosen_gpus spec hw)"
  shows "validate_gpu_selection spec hw = Inr (chosen_gpus spec hw)"
proof -
  have "find (\<lambda>i. i \<notin> set (visible_gpu_indices hw)) gs = None" if "spec = Some gs" for gs
    using assms that by (simp add: find_None_iff list_all_iff chosen_gpus_def)
  then show ?thesis by (cases spec) (simp_all add: validate_gpu_selection_def chosen_gpus_def)
qed

lemma validate_rejects:
  assumes "\<not> list_all (\<lambda>i. i \<in> set (visible_gpu_indices hw)) (chosen_gpus spec hw)"
  shows "\<exists>e. validate_gpu_selection spec hw = Inl e \<and> device_exn e"
proof (cases spec)
  case None
  with assms show ?thesis by (simp add: chosen_gpus_def list_all_iff)
next
  case (Some gs)
  with assms have "find (\<lambda>i. i \<notin> set (visible_gpu_indices hw)) gs \<noteq> None"
    by (auto simp: find_None_iff list_all_iff chosen_gpus_def)
  with Some show ?thesis by (auto simp: validate_gpu_selection_def device_error_def)
qed

lemma cuda_plan_cases:
  assumes "distinct gs" and "\<forall>i \<in> set gs. 0 \<le> i" and "gs \<noteq> []" and "workers_ok limit"
  shows "if (case limit of None \<Rightarrow> True | Some w \<Rightarrow> w \<le> int (length gs))
    then cuda_plan limit gs = Inr (let w = (case limit of None \<Rightarrow> int (length gs) | Some w \<Rightarrow> w) in
      \<lparr>effective_device = ''cuda'', selected_gpu_indices = gs, worker_count = w, worker_gpu_indices = take (nat w) gs\<rparr>)
    else \<exists>e. cuda_plan limit gs = Inl e \<and> device_exn e"
proof (cases limit)
  case None
  have "1 \<le> int (length gs)" using assms(3) by (cases gs) auto
  then show ?thesis using None assms mk_cuda_plan [OF assms(1,2), of "int (length gs)"]
    by (simp add: cuda_plan_def)
next
  case (Some w)
  with assms(4) have "1 \<le> w" by (simp add: workers_ok_def)
  then show ?thesis using Some assms(3) mk_cuda_plan [OF assms(1,2), of w]
    by (auto simp: cuda_plan_def device_error_def)
qed

text \<open>Resolution is exactly the decision table.\<close>

lemma resolve_normalized_table:
  assumes hw: "inventory_ok hw" and ok: "request_in_range spec limit"
  shows "if admissible dev spec limit hw then resolve_normalized dev spec limit hw = Inr (plan_for dev spec limit hw)
    else \<exists>e. resolve_normalized dev spec limit hw = Inl e \<and> device_exn e"
proof (cases "on_cpu dev hw")
  case True
  then show ?thesis
    by (auto simp: on_cpu_def resolve_normalized_def admissible_def plan_for_def cpu_plan_cases device_error_def)
next
  case off: False
  show ?thesis
  proof (cases "usable_cuda hw")
    case False
    with off show ?thesis
      by (auto simp: on_cpu_def resolve_normalized_def admissible_def device_error_def)
  next
    case True
    with off have r: "resolve_normalized dev spec limit hw = and_then (validate_gpu_selection spec hw) (cuda_plan limit)"
      by (auto simp: on_cpu_def resolve_normalized_def)
    have g: "gpus_ok spec" and w: "workers_ok limit" using ok by (simp_all add: request_in_range_def)
    note gs = chosen_ok [OF hw g True]
    show ?thesis
    proof (cases "list_all (\<lambda>i. i \<in> set (visible_gpu_indices hw)) (chosen_gpus spec hw)")
      case False
      with off True r validate_rejects [OF False] show ?thesis
        by (auto simp: admissible_def)
    next
      case sel: True
      show ?thesis
        using cuda_plan_cases [OF gs w] off True sel
        by (simp add: r validate_cases [OF sel] admissible_def plan_for_def Let_def)
    qed
  qed
qed

lemma plan_for_ok:
  assumes "inventory_ok hw" and "request_in_range spec limit" and "admissible dev spec limit hw"
  shows "plan_ok (plan_for dev spec limit hw)" and
    "set (selected_gpu_indices (plan_for dev spec limit hw)) \<subseteq> set (visible_gpu_indices hw)"
proof -
  have "resolve_normalized dev spec limit hw = Inr (plan_for dev spec limit hw)"
    using resolve_normalized_table [OF assms(1,2), of dev] assms(3) by simp
  show "set (selected_gpu_indices (plan_for dev spec limit hw)) \<subseteq> set (visible_gpu_indices hw)"
    using assms(3) by (auto simp: plan_for_def admissible_def list_all_iff Let_def)
  show "plan_ok (plan_for dev spec limit hw)"
  proof (cases "on_cpu dev hw")
    case True
    then show ?thesis by (simp add: plan_for_def plan_ok_def)
  next
    case False
    with assms(3) have u: "usable_cuda hw" by (simp add: admissible_def)
    from assms(2) have g: "gpus_ok spec" and w: "workers_ok limit" by (simp_all add: request_in_range_def)
    define n where "n = (case limit of None \<Rightarrow> int (length (chosen_gpus spec hw)) | Some w \<Rightarrow> w)"
    note gs = chosen_ok [OF assms(1) g u]
    have "1 \<le> n" "n \<le> int (length (chosen_gpus spec hw))"
      using gs(3) w assms(3) False
      by (auto simp: n_def admissible_def workers_ok_def Suc_le_eq split: option.splits)
    then show ?thesis using False gs
      by (auto simp: plan_for_def Let_def n_def [symmetric] plan_ok_def list_all_iff dest: in_set_takeD)
  qed
qed

section \<open>Properties\<close>

text \<open>Constructing an inventory from any GPU entries either raises a \<open>ValueError\<close> or
  \<open>TypeError\<close>, or gives an inventory whose GPU indices are distinct and not negative and number at
  least \<open>gpu_count\<close>; and an execution plan that can be constructed is either the plan of one CPU
  worker or gives each CUDA worker its own selected GPU.\<close>

theorem inventory_and_plan_construction:
  assumes "list_all entry_ok entries"
  shows "outcome inventory_error inventory_ok (mk_inventory hw entries n) \<and>
    outcome value_error plan_ok (mk_plan d selected w worker_gpus)"
  using mk_inventory_outcome [OF assms] mk_plan_outcome by blast

text \<open>A count above the number of listed GPUs is filled up with the missing indices below the count,
  so a listed index that is not below the count makes the list longer than the count.\<close>

lemma inventory_count_mismatch:
  assumes "mk_inventory hw [Entry_Info (plain_gpu 5)] (Some 2) = Inr r"
  shows "map gi_index (inv_gpus r) = [5, 0, 1]" and "gpu_count r = 2"
proof -
  have "[0..1] = [0, 1 :: int]" by (simp add: upto.simps)
  then have "normalize_gpu_list [Entry_Info (plain_gpu 5)] (Some 2) = Inr (map plain_gpu [5, 0, 1], 2)"
    by (simp add: normalize_gpu_list_def)
  with assms show "map gi_index (inv_gpus r) = [5, 0, 1]" and "gpu_count r = 2"
    by (auto simp: mk_inventory_def raises)
qed

lemma raw_gpus_read: "gpus_ok g \<Longrightarrow> parse_gpu_devices (raw_gpus g) = Inr g"
  using normalize_gpus_ok [of g] by (cases g) (simp_all add: normalize_gpus_def raw_gpus_def parse_gpu_devices_def)

lemma raw_workers_read: "workers_ok w \<Longrightarrow> parse_workers (raw_workers w) = Inr w"
  by (cases w) (simp_all add: raw_workers_def parse_workers_def workers_ok_def)

lemma resolve_config:
  "config_ok c \<Longrightarrow>
   resolve_values (Device_Mode (device c)) (Arg_Raw (raw_gpus (gpu_devices c))) (Arg_Raw (raw_workers (workers c))) hw =
   resolve_normalized (device_value (device c)) (gpu_devices c) (workers c) hw"
  by (simp add: resolve_values_def raw_gpus_read raw_workers_read config_ok_def)

lemma config_in_range: "config_ok c \<Longrightarrow> request_in_range (gpu_devices c) (workers c)"
  by (simp add: config_ok_def request_in_range_def)

text \<open>C39. Resolving a configuration without a profile against an inventory is a decision table: it
  succeeds exactly when the request is admissible (on the CPU no GPU list and at most one worker; on
  CUDA a usable device, only visible GPUs and no more workers than GPUs), the plan is then the one the
  table names and is well formed over visible GPUs, and otherwise a \<open>DeviceResolutionError\<close> is raised;
  the plan's own checks never fire.\<close>

theorem resolution_decides:
  assumes "config_ok c" and "inventory_ok hw" and "profile c = None"
  defines "d \<equiv> device_value (device c)"
  shows "if admissible d (gpu_devices c) (workers c) hw
    then resolve_execution_plan c hw = Inr (plan_for d (gpu_devices c) (workers c) hw) \<and>
      plan_ok (plan_for d (gpu_devices c) (workers c) hw) \<and>
      set (selected_gpu_indices (plan_for d (gpu_devices c) (workers c) hw)) \<subseteq> set (visible_gpu_indices hw)
    else \<not> isOK (resolve_execution_plan c hw) \<and> outcome device_exn (\<lambda>_. False) (resolve_execution_plan c hw)"
proof -
  have r: "resolve_execution_plan c hw = resolve_normalized d (gpu_devices c) (workers c) hw"
    using assms by (simp add: resolve_execution_plan_def materialize_execution_profile_def resolve_config)
  note ok = config_in_range [OF assms(1)]
  show ?thesis
  proof (cases "admissible d (gpu_devices c) (workers c) hw")
    case True
    with resolve_normalized_table [OF assms(2) ok, of d] plan_for_ok [OF assms(2) ok True]
    show ?thesis by (simp add: r)
  next
    case False
    with resolve_normalized_table [OF assms(2) ok, of d] show ?thesis by (auto simp: r)
  qed
qed

definition two_gpus :: inventory where
  "two_gpus = \<lparr>cpu_logical_count = Some 8, cpu_physical_count = Some 4, host_ram_bytes = None,
     cuda_available = True, inv_gpus = [plain_gpu 0, plain_gpu 1], gpu_count = 2, torch_version = None,
     cuda_runtime_version = None, cuda_driver_version = None, cuda_probe_status = ''available'',
     visible_device_mapping = PNone, inv_notes = [], inv_platform = None\<rparr>"

lemma two_gpus_ok: "inventory_ok two_gpus"
  by (simp add: inventory_ok_def two_gpus_def gpu_list_ok_def)

lemma two_gpus_visible [simp]: "visible_gpu_indices two_gpus = [0, 1]"
  by (simp add: two_gpus_def visible_gpu_indices_def)

theorem inventory_and_plan_construction_witness:
  "outcome inventory_error inventory_ok (mk_inventory two_gpus [Entry_Mapping [(''runtime_index'', PInt 1)], Entry_Other] None) \<and>
   outcome value_error plan_ok (mk_plan ''cuda'' [0, 2] 1 [])"
  by (rule inventory_and_plan_construction) simp

theorem resolution_decides_witness:
  "resolve_execution_plan default_config two_gpus =
     Inr \<lparr>effective_device = ''cuda'', selected_gpu_indices = [0, 1], worker_count = 2, worker_gpu_indices = [0, 1]\<rparr>"
proof -
  have d: "device default_config = Dev_Auto" "gpu_devices default_config = None" "workers default_config = None"
    "profile default_config = None"
    by (simp_all add: default_config_def)
  have u: "usable_cuda two_gpus" by (simp add: usable_cuda_def two_gpus_def)
  have a: "admissible ''auto'' None None two_gpus"
    by (simp add: admissible_def on_cpu_def u chosen_gpus_def)
  have "plan_for ''auto'' None None two_gpus =
      \<lparr>effective_device = ''cuda'', selected_gpu_indices = [0, 1], worker_count = 2, worker_gpu_indices = [0, 1]\<rparr>"
    by (simp add: plan_for_def on_cpu_def u chosen_gpus_def Let_def)
  with resolution_decides [OF default_config_ok two_gpus_ok d(4)] a show ?thesis by (simp add: d)
qed

fun resolution_exn :: "exn \<Rightarrow> bool" where
  "resolution_exn (DeviceExn _ _) = True"
| "resolution_exn (ProfileResolutionError _) = True"
| "resolution_exn _ = False"

definition profile_plan :: "execution_profile \<Rightarrow> plan \<Rightarrow> bool" where
  "profile_plan pr p \<longleftrightarrow>
     (case pr of
        Prof_Auto \<Rightarrow> True
      | Prof_Cpu \<Rightarrow> effective_device p = ''cpu''
      | Prof_Cuda_Single \<Rightarrow> effective_device p = ''cuda'' \<and> length (selected_gpu_indices p) = 1 \<and> worker_count p = 1
      | Prof_Cuda_Replica \<Rightarrow> effective_device p = ''cuda'' \<and> 2 \<le> worker_count p \<and>
          worker_gpu_indices p = selected_gpu_indices p)"

lemma profile_plan_for:
  assumes "profile_spec probe c d g w" and "profile c = Some pr"
    and "admissible (device_value d) g (Some w) hw"
  shows "profile_plan pr (plan_for (device_value d) g (Some w) hw)"
proof (cases g)
  case None
  with assms show ?thesis
    by (cases pr) (auto simp: profile_spec_def profile_plan_def plan_for_def on_cpu_def)
next
  case (Some gs)
  with assms(1) have d: "d = Dev_Cuda" by (simp add: profile_spec_def)
  then have "\<not> on_cpu (device_value d) hw" by (simp add: on_cpu_def)
  then show ?thesis using assms d Some
    by (cases pr) (auto simp: profile_spec_def profile_plan_def plan_for_def chosen_gpus_def Let_def)
qed

text \<open>A profile is carried through to the plan: when resolving a configuration with a profile
  succeeds, the plan is well formed over visible GPUs and is the one the profile promises (the CPU; one
  GPU and one worker; at least two GPUs with one worker each); otherwise a resolution error is raised.\<close>

theorem profile_reaches_plan:
  assumes "config_ok c" and "inventory_ok hw" and "profile c = Some pr"
    and "list_all (\<lambda>i. i < int_limit) (visible_gpu_indices hw)"
  shows "outcome resolution_exn
    (\<lambda>p. plan_ok p \<and> set (selected_gpu_indices p) \<subseteq> set (visible_gpu_indices hw) \<and> profile_plan pr p)
    (resolve_execution_plan c hw)"
proof -
  have probe: "probe_ok (visible_gpu_indices hw)"
    using visible_ok [OF assms(2)] assms(4) by (auto simp: probe_ok_def list_all_iff)
  have m: "outcome resolution_exn (\<lambda>c'. profile_result (visible_gpu_indices hw) c c' \<and> config_ok c')
      (materialize_execution_profile (visible_gpu_indices hw) c)"
    using materialize_outcome [OF assms(1) probe assms(3)] materialize_config_ok [OF assms(1), of "visible_gpu_indices hw"]
    by (cases "materialize_execution_profile (visible_gpu_indices hw) c")
      (auto elim: profile_config_error.elims)
  show ?thesis
    unfolding resolve_execution_plan_def
  proof (rule outcome_and_then [OF m])
    fix c' assume c': "profile_result (visible_gpu_indices hw) c c' \<and> config_ok c'"
    then obtain d g w where eq: "c' = c\<lparr>device := d, gpu_devices := g, workers := Some w\<rparr>"
      and spec: "profile_spec (visible_gpu_indices hw) c d g w"
      by (auto simp: profile_result_def)
    have ok: "request_in_range g (Some w)" using c' config_in_range [of c'] eq by simp
    have r: "resolve_values (Device_Mode (device c')) (Arg_Raw (raw_gpus (gpu_devices c')))
        (Arg_Raw (raw_workers (workers c'))) hw = resolve_normalized (device_value d) g (Some w) hw"
      using c' resolve_config [of c' hw] eq by simp
    show "outcome resolution_exn
      (\<lambda>p. plan_ok p \<and> set (selected_gpu_indices p) \<subseteq> set (visible_gpu_indices hw) \<and> profile_plan pr p)
      (resolve_values (Device_Mode (device c')) (Arg_Raw (raw_gpus (gpu_devices c')))
        (Arg_Raw (raw_workers (workers c'))) hw)"
    proof (cases "admissible (device_value d) g (Some w) hw")
      case True
      with resolve_normalized_table [OF assms(2) ok, of "device_value d"] plan_for_ok [OF assms(2) ok True]
        profile_plan_for [OF spec assms(3) True]
      show ?thesis by (simp add: r)
    next
      case False
      with resolve_normalized_table [OF assms(2) ok, of "device_value d"]
      show ?thesis by (auto simp: r elim: device_exn.elims)
    qed
  qed
qed

theorem profile_reaches_plan_witness:
  "outcome resolution_exn
    (\<lambda>p. plan_ok p \<and> set (selected_gpu_indices p) \<subseteq> {0, 1} \<and> profile_plan Prof_Cuda_Replica p)
    (resolve_execution_plan (default_config\<lparr>profile := Some Prof_Cuda_Replica\<rparr>) two_gpus)"
proof -
  let ?c = "default_config\<lparr>profile := Some Prof_Cuda_Replica\<rparr>"
  have "config_ok ?c"
    using default_config_ok by (simp add: config_ok_def positive_integer_fields_def positive_float_fields_def)
  from profile_reaches_plan [OF this two_gpus_ok, of Prof_Cuda_Replica] show ?thesis
    by (simp add: small_int_limit)
qed

end
