(* ===== verification/Worker_Factory.thy ===== *)
theory Worker_Factory
  imports Device Scheduler
begin

text \<open>
  \<open>voxcpm_runtime/worker_factory.py\<close>: the topology of the API process, the worker clients built for
  it, and starting them with a rollback when one fails. The probe's run and each worker's
  multiprocessing context are arguments.
\<close>

definition topology_error :: "string \<Rightarrow> string \<Rightarrow> exn + 'a" where
  "topology_error cd msg = Inl (api_exn cd msg 500 False)"

text \<open>\<open>except ValueError\<close>: \<open>ConfigurationError\<close>, \<open>ProfileResolutionError\<close> and
  \<open>DeviceResolutionError\<close> are subclasses.\<close>

fun is_value_error :: "exn \<Rightarrow> bool" where
  "is_value_error (ValueError _) = True"
| "is_value_error (ConfigurationError _ _) = True"
| "is_value_error (ProfileResolutionError _) = True"
| "is_value_error (DeviceExn _ _) = True"
| "is_value_error _ = False"

fun resolved_profile :: "exn + runtime_config \<Rightarrow> exn + runtime_config" where
  "resolved_profile (Inl (ProfileResolutionError _)) =
     topology_error ''invalid_execution_profile'' ''API execution profile could not be resolved.''"
| "resolved_profile m = m"

definition checked_plan :: "exn + plan \<Rightarrow> exn + plan" where
  "checked_plan m =
     (case m of
        Inl e \<Rightarrow>
          if is_value_error e then topology_error ''invalid_worker_topology'' ''API worker topology is invalid.''
          else Inl e
      | Inr p \<Rightarrow> Inr p)"

definition topology_plan :: "runtime_config \<Rightarrow> exn + plan" where
  "topology_plan c =
     (if device c = Dev_Cpu then
        (if gpu_devices c \<notin> {None, Some []}
         then topology_error ''cpu_gpu_selection_conflict'' ''CPU API runtime cannot select GPUs.''
         else if workers c \<notin> {None, Some 1}
         then topology_error ''cpu_worker_count_invalid'' ''CPU API runtime supports exactly one worker.''
         else mk_plan ''cpu'' [] 1 [])
      else
        (case gpu_devices c of
           Some (g # gs) \<Rightarrow>
             (let selected = g # gs;
                  wcount = (case workers c of None \<Rightarrow> int (length selected) | Some w \<Rightarrow> w) in
              checked_plan (mk_plan ''cuda'' selected wcount (take (nat wcount) selected)))
         | _ \<Rightarrow> topology_error ''explicit_gpu_selection_required''
             ''API CUDA runtime requires an explicit GPU selection.''))"

definition parent_execution_plan :: "probe_run \<Rightarrow> runtime_config \<Rightarrow> exn + plan" where
  "parent_execution_plan run c =
     and_then (resolved_profile (materialize_execution_profile (probe_runtime_gpu_indices run) c)) topology_plan"

section \<open>Building\<close>

definition worker_spec :: "nat \<Rightarrow> pyval \<Rightarrow> exn + bootstrap_spec" where
  "worker_spec i gpu = mk_bootstrap_spec (PStr (''worker'' @ show_int (int i))) ''real'' gpu (Some [])"

definition worker_specs :: "plan \<Rightarrow> exn + bootstrap_spec list" where
  "worker_specs p =
     (if effective_device p = ''cpu'' then map_raise (\<lambda>g. worker_spec 0 g) [PNone]
      else map_raise (\<lambda>(i, g). worker_spec i (PInt g)) (enumerate 0 (worker_gpu_indices p)))"

definition build_worker_clients ::
    "probe_run \<Rightarrow> (string \<Rightarrow> mp_context) \<Rightarrow> runtime_config \<Rightarrow> exn + worker_client list" where
  "build_worker_clients run contexts c =
     and_then (parent_execution_plan run c) (\<lambda>p.
     let stream_buffer_chunks = or_int (stream_ipc_max_chunks c) 4 in
     and_then (worker_specs p) (\<lambda>specs.
       map_raise (\<lambda>spec. init_worker_client spec (float_val (worker_startup_timeout_seconds c)) 10
          (PInt stream_buffer_chunks) (contexts (bs_worker_id spec))) specs))"

section \<open>Starting\<close>

text \<open>The loop: the outcome, the clients started so far and those from the failing one on.\<close>

fun start_each :: "worker_client list \<Rightarrow> worker_client list \<Rightarrow>
    (exn + unit) \<times> worker_client list \<times> worker_client list" where
  "start_each started [] = (Inr (), started, [])"
| "start_each started (w # rest) =
     (case start w of
        (Inr _, w1) \<Rightarrow> start_each (started @ [w1]) rest
      | (Inl e, w1) \<Rightarrow> (Inl e, started, w1 # rest))"

text \<open>\<open>try: worker.shutdown() except BaseException: pass\<close>.\<close>

definition quiet_shutdown :: "worker_client \<Rightarrow> worker_client" where
  "quiet_shutdown w = snd (shutdown w)"

text \<open>The clients after the call, in the order of the tuple, and the ids in the order their
  \<open>shutdown\<close> was called.\<close>

definition start_worker_clients ::
    "worker_client list \<Rightarrow> (exn + unit) \<times> worker_client list \<times> string list" where
  "start_worker_clients ws =
     (if ws = [] then (Inl (ValueError ''workers must be a non-empty tuple''), [], [])
      else case start_each [] ws of
        (Inr _, started, _) \<Rightarrow> (Inr (), started, [])
      | (Inl e, started, rest) \<Rightarrow>
         (let stopped = map quiet_shutdown (rev started); others = map quiet_shutdown rest in
          (Inl e, rev stopped @ others, map worker_id (stopped @ others))))"

section \<open>Lemmas\<close>

lemma materialize_any_probe:
  assumes "config_ok c"
  shows "outcome is_value_error config_ok (materialize_execution_profile probe c)"
proof (cases "profile c")
  case None
  with assms show ?thesis by (simp add: materialize_execution_profile_def)
next
  case (Some p)
  have post: "outcome is_value_error config_ok (post_init x)" for x
    by (rule outcome_weaken [OF post_init_outcome]) (auto elim: config_error.elims)
  have rep: "outcome is_value_error config_ok (replace_config c d g w)" for d g w
    unfolding replace_config_def by (rule post)
  have err: "outcome is_value_error Q (profile_error s)" for Q :: "'x \<Rightarrow> bool" and s
    by (simp add: profile_error_def)
  have dev: "outcome is_value_error (\<lambda>_. True) (compatible_device c q d)" for q d
    by (simp add: compatible_device_def profile_error_def)
  have one: "outcome is_value_error (\<lambda>_. True)
     (case gpu_devices c of
          Some selected \<Rightarrow> Inr selected
        | None \<Rightarrow>
            (case probe of
               [] \<Rightarrow> profile_error ''cuda-single profile requires one usable CUDA device''
             | g # _ \<Rightarrow> Inr [g]))"
    by (simp add: err split: option.split list.split)
  have "outcome is_value_error config_ok (materialize_auto probe c)"
    unfolding materialize_auto_def Let_def
    by (intro outcome_ifI err rep post) (auto split: option.split intro: err rep)
  moreover have "outcome is_value_error config_ok (materialize_cpu c)"
    unfolding materialize_cpu_def by (intro outcome_and_then [OF dev] outcome_ifI err rep)
  moreover have "outcome is_value_error config_ok (materialize_cuda_single probe c)"
    unfolding materialize_cuda_single_def
    by (intro outcome_and_then [OF dev] outcome_and_then [OF one] outcome_ifI err rep)
  moreover have "outcome is_value_error config_ok (materialize_cuda_replica probe c)"
    unfolding materialize_cuda_replica_def Let_def
    by (intro outcome_and_then [OF dev] outcome_ifI err rep)
  ultimately show ?thesis
    by (cases p) (simp_all add: materialize_execution_profile_def Some)
qed

fun factory_exn :: "exn \<Rightarrow> bool" where
  "factory_exn (ApiExn _) = True"
| "factory_exn e = is_value_error e"

lemma topology_error_outcome [simp]: "outcome factory_exn Q (topology_error cd msg)"
  by (simp add: topology_error_def api_exn_def)

lemma topology_plan_outcome: "outcome factory_exn plan_ok (topology_plan c)"
proof -
  have chk: "outcome factory_exn plan_ok (checked_plan (mk_plan d s w g))" for d s w g
    using mk_plan_outcome [of d s w g]
    by (cases "mk_plan d s w g") (auto simp: checked_plan_def elim: value_error.elims)
  have cpu: "outcome factory_exn plan_ok (mk_plan ''cpu'' [] 1 [])"
    by (simp add: mk_cpu_plan plan_ok_def)
  show ?thesis
    unfolding topology_plan_def Let_def
    by (intro outcome_ifI topology_error_outcome cpu)
      (auto split: option.split list.split simp del: topology_error_outcome intro: chk topology_error_outcome)
qed

lemma is_value_error_factory: "is_value_error e \<Longrightarrow> factory_exn e"
  by (cases e) auto

lemma parent_plan_outcome:
  assumes "config_ok c"
  shows "outcome factory_exn plan_ok (parent_execution_plan run c)"
proof -
  have "outcome factory_exn (\<lambda>_. True) (resolved_profile (materialize_execution_profile probe c))" for probe
    using materialize_any_probe [OF assms, of probe] is_value_error_factory
    by (cases "materialize_execution_profile probe c" rule: resolved_profile.cases) auto
  then show ?thesis
    unfolding parent_execution_plan_def by (rule outcome_and_then) (rule topology_plan_outcome)
qed

definition worker_name :: "nat \<Rightarrow> string" where
  "worker_name i = ''worker'' @ show_int (int i)"

lemma inj_worker_name: "inj worker_name"
  by (rule injI) (auto simp: worker_name_def show_int_def dest: inj_show_nat)

lemma worker_spec_outcome:
  "outcome factory_exn (\<lambda>s. bs_worker_id s = worker_name i \<and>
     bs_gpu s = (if gpu = PNone then None else Some (int_of gpu))) (worker_spec i gpu)"
proof -
  have "outcome factory_exn (\<lambda>w. w = worker_name i) (require_token (PStr (''worker'' @ show_int (int i))) ''worker_id'' 128)"
    by (simp add: require_token_def worker_name_def)
  then show ?thesis
    unfolding worker_spec_def mk_bootstrap_spec_def
    by (rule outcome_and_then) (simp add: failure_operations_def)
qed

text \<open>The specs of a plan: one per worker, numbered, with its GPU.\<close>

definition plan_gpus :: "plan \<Rightarrow> int option list" where
  "plan_gpus p = (if effective_device p = ''cpu'' then [None] else map Some (worker_gpu_indices p))"

definition specs_for :: "plan \<Rightarrow> bootstrap_spec list \<Rightarrow> bool" where
  "specs_for p specs \<longleftrightarrow>
     map bs_worker_id specs = map worker_name [0..<length specs] \<and> map bs_gpu specs = plan_gpus p"

lemma worker_specs_outcome: "outcome factory_exn (specs_for p) (worker_specs p)"
proof (cases "effective_device p = ''cpu''")
  case True
  then show ?thesis
    unfolding worker_specs_def
    using worker_spec_outcome [of 0 PNone]
    by (cases "worker_spec 0 PNone") (simp_all add: specs_for_def plan_gpus_def)
next
  case False
  let ?R = "\<lambda>(i, g) s. bs_worker_id s = worker_name i \<and> bs_gpu s = Some g"
  have "outcome factory_exn (?R x) ((\<lambda>(i, g). worker_spec i (PInt g)) x)" for x
  proof (cases x)
    case (Pair i g)
    show ?thesis unfolding Pair prod.case
      by (rule outcome_weaken [OF worker_spec_outcome [of i "PInt g"]]) auto
  qed
  then have "outcome factory_exn (list_all2 ?R (enumerate 0 (worker_gpu_indices p)))
      (map_raise (\<lambda>(i, g). worker_spec i (PInt g)) (enumerate 0 (worker_gpu_indices p)))"
    by (rule outcome_map_raise_each)
  moreover have "specs_for p specs" if "list_all2 ?R (enumerate 0 (worker_gpu_indices p)) specs" for specs
  proof -
    have l: "length specs = length (worker_gpu_indices p)"
      using list_all2_lengthD [OF that] by simp
    moreover have "bs_worker_id (specs ! i) = worker_name i \<and> bs_gpu (specs ! i) = Some (worker_gpu_indices p ! i)"
      if "i < length specs" for i
      using list_all2_nthD2 [OF \<open>list_all2 ?R (enumerate 0 (worker_gpu_indices p)) specs\<close>, of i] that l
      by (simp add: nth_enumerate_eq)
    ultimately show ?thesis
      using False by (auto simp: specs_for_def plan_gpus_def intro: nth_equalityI)
  qed
  ultimately show ?thesis
    using False unfolding worker_specs_def by (auto intro: outcome_mono)
qed

definition built_for :: "plan \<Rightarrow> worker_client list \<Rightarrow> bool" where
  "built_for p cs \<longleftrightarrow> specs_for p (map wc_spec cs) \<and>
     list_all (\<lambda>c. client_ok c \<and> wc_state c = CREATED) cs"

lemma init_worker_client_outcome:
  assumes "0 < startup" and "0 < k"
  shows "outcome factory_exn (\<lambda>c. wc_spec c = spec \<and> client_ok c \<and> wc_state c = CREATED)
    (init_worker_client spec startup 10 (PInt k) ctx)"
  using assms by (simp add: init_worker_client_def client_ok_def)

lemma build_outcome:
  assumes "config_ok c"
  shows "outcome factory_exn (\<lambda>cs. \<exists>p. parent_execution_plan run c = Inr p \<and> plan_ok p \<and> built_for p cs)
    (build_worker_clients run contexts c)"
proof -
  have pos: "0 < float_val (worker_startup_timeout_seconds c)"
    using assms by (simp add: config_ok_def fields_ok_def positive_float_fields_def positive_float_def)
  have chunks: "0 < or_int (stream_ipc_max_chunks c) 4"
    using assms by (auto simp: config_ok_def fields_ok_def positive_integer_fields_def or_int_def split: option.splits)
  have plan: "outcome factory_exn (\<lambda>p. plan_ok p \<and> parent_execution_plan run c = Inr p) (parent_execution_plan run c)"
    using parent_plan_outcome [OF assms, of run] by (cases "parent_execution_plan run c") simp_all
  show ?thesis
    unfolding build_worker_clients_def Let_def
  proof (rule outcome_and_then [OF plan], rule outcome_and_then [OF worker_specs_outcome])
    fix p specs assume p: "plan_ok p \<and> parent_execution_plan run c = Inr p" and s: "specs_for p specs"
    show "outcome factory_exn (\<lambda>cs. \<exists>p. parent_execution_plan run c = Inr p \<and> plan_ok p \<and> built_for p cs)
      (map_raise (\<lambda>spec. init_worker_client spec (float_val (worker_startup_timeout_seconds c)) 10
          (PInt (or_int (stream_ipc_max_chunks c) 4)) (contexts (bs_worker_id spec))) specs)"
    proof (rule outcome_mono [OF outcome_map_raise_each [OF init_worker_client_outcome [OF pos chunks]]])
      fix cs assume all: "list_all2 (\<lambda>spec d. wc_spec d = spec \<and> client_ok d \<and> wc_state d = CREATED) specs cs"
      then have "map wc_spec cs = specs" by (induction rule: list_all2_induct) auto
      moreover have "list_all (\<lambda>d. client_ok d \<and> wc_state d = CREATED) cs"
        using all by (induction rule: list_all2_induct) auto
      ultimately show "\<exists>p. parent_execution_plan run c = Inr p \<and> plan_ok p \<and> built_for p cs"
        using p s by (auto simp: built_for_def)
    qed
  qed
qed

section \<open>Rollback\<close>

lemma start_outcome:
  assumes "client_ok c" and "wc_state c = CREATED" and "start c = (r, c1)"
  shows "client_ok c1 \<and> worker_id c1 = worker_id c \<and>
    (case r of
       Inr _ \<Rightarrow> wc_state c1 = READY \<and> wc_control c1 = Some (ctx_sends (wc_ctx c))
     | Inl _ \<Rightarrow> wc_state c1 = FAILED)"
proof -
  define c0 where "c0 = c\<lparr>wc_state := STARTING, wc_control := Some (ctx_sends (wc_ctx c)),
    wc_results := Some (ctx_deliveries (wc_ctx c)),
    wc_process := Some ((ctx_process (wc_ctx c))\<lparr>p_alive := True, p_exitcode := None\<rparr>)\<rparr>"
  obtain r0 c2 where rm: "receive_message c0 = (r0, c2)" by fastforce
  note fr = receive_message_frame [OF rm]
  from assms(3) assms(2) rm have "worker_id c1 = worker_id c \<and>
    (case r of
       Inr _ \<Rightarrow> wc_state c1 = READY \<and> wc_control c1 = Some (ctx_sends (wc_ctx c))
     | Inl _ \<Rightarrow> wc_state c1 = FAILED)"
    unfolding start_def Let_def c0_def [symmetric]
    using fr receive_message_Inl [of c0]
    by (auto simp: c0_def worker_id_def split: sum.splits if_splits)
  with start_step [OF assms(1,3)] show ?thesis by blast
qed

definition fresh :: "worker_client \<Rightarrow> bool" where
  "fresh c \<longleftrightarrow> client_ok c \<and> wc_state c = CREATED"

text \<open>The connection of the client's context takes the first command.\<close>

definition pipe_works :: "worker_client \<Rightarrow> bool" where
  "pipe_works c \<longleftrightarrow> (case ctx_sends (wc_ctx c) of [] \<Rightarrow> True | b # _ \<Rightarrow> b)"

definition running :: "worker_client \<Rightarrow> bool" where
  "running c \<longleftrightarrow> client_ok c \<and> wc_state c = READY \<and>
     (case the (wc_control c) of [] \<Rightarrow> True | b # _ \<Rightarrow> b)"

lemma shutdown_graceful_id: "worker_id (snd (shutdown_graceful c)) = worker_id c"
proof -
  obtain r0 c2 where rm:
    "receive_message (c\<lparr>wc_state := STOPPING, wc_control := map_option tl (wc_control c)\<rparr>) = (r0, c2)"
    by fastforce
  have spec: "wc_spec c2 = wc_spec c" using receive_message_frame(3) [OF rm] by simp
  show ?thesis
  proof (cases "\<exists>rest. wc_control c = Some (False # rest)")
    case True
    then show ?thesis by (auto simp: shutdown_graceful_def Let_def worker_id_def)
  next
    case False
    then have "wc_control c = None \<or> wc_control c = Some [] \<or> (\<exists>rest. wc_control c = Some (True # rest))"
      by (metis list.exhaust option.exhaust)
    then show ?thesis
      using rm spec by (elim disjE exE) (auto simp: shutdown_graceful_def Let_def worker_id_def split: sum.split)
  qed
qed

lemma quiet_shutdown_stops:
  assumes "fresh c \<or> running c \<or> client_ok c \<and> wc_state c = FAILED"
  shows "wc_state (quiet_shutdown c) = STOPPED \<and> \<not> is_alive (quiet_shutdown c) \<and>
    worker_id (quiet_shutdown c) = worker_id c"
  using assms
proof (elim disjE conjE)
  assume "fresh c"
  then have "wc_state c = CREATED" and "wc_process c = None" by (auto simp: fresh_def client_ok_def)
  then show ?thesis by (simp add: quiet_shutdown_def shutdown_def worker_id_def is_alive_def)
next
  assume "running c"
  then have st: "wc_state c = READY" "wc_control c \<noteq> None" "wc_process c \<noteq> None"
    and pipe: "case the (wc_control c) of [] \<Rightarrow> True | b # _ \<Rightarrow> b"
    by (auto simp: running_def client_ok_def)
  obtain r c1 where g: "shutdown_graceful c = (r, c1)" by fastforce
  have "\<not> (hd (the (wc_control c)) = False \<and> the (wc_control c) \<noteq> [])"
    using pipe by (cases "the (wc_control c)") auto
  then show ?thesis
    using shutdown_graceful_step [OF g] st shutdown_graceful_id [of c] g
    by (auto simp: quiet_shutdown_def shutdown_def)
next
  assume "client_ok c" "wc_state c = FAILED"
  then show ?thesis
    by (simp add: quiet_shutdown_def shutdown_def worker_id_def)
qed

lemma start_each_fleet:
  assumes "list_all (\<lambda>c. fresh c \<and> pipe_works c) ws" and "start_each started ws = (r, fin, rest)"
  shows "\<exists>new. fin = started @ new \<and> list_all running new \<and>
    map worker_id (new @ rest) = map worker_id ws \<and>
    (case r of Inr _ \<Rightarrow> rest = []
     | Inl _ \<Rightarrow> list_all (\<lambda>c. fresh c \<or> client_ok c \<and> wc_state c = FAILED) rest)"
  using assms
proof (induction ws arbitrary: started)
  case Nil
  then show ?case by auto
next
  case (Cons w ws)
  obtain r0 w1 where st: "start w = (r0, w1)" by fastforce
  have fr: "client_ok w" "wc_state w = CREATED" and pipe: "pipe_works w"
    using Cons.prems(1) by (simp_all add: fresh_def)
  note out = start_outcome [OF fr st]
  show ?case
  proof (cases r0)
    case (Inl e)
    with Cons.prems(2) st have "r = Inl e" "fin = started" "rest = w1 # ws" by auto
    moreover have "list_all (\<lambda>c. fresh c \<or> client_ok c \<and> wc_state c = FAILED) ws"
      using Cons.prems(1) by (auto simp: list_all_iff)
    ultimately show ?thesis using out Inl by simp
  next
    case (Inr m)
    with Cons.prems(2) st have next_call: "start_each (started @ [w1]) ws = (r, fin, rest)" by simp
    have "list_all (\<lambda>c. fresh c \<and> pipe_works c) ws" using Cons.prems(1) by simp
    from Cons.IH [OF this next_call] obtain new where new: "fin = (started @ [w1]) @ new" "list_all running new"
      "map worker_id (new @ rest) = map worker_id ws"
      "case r of Inr _ \<Rightarrow> rest = [] | Inl _ \<Rightarrow> list_all (\<lambda>c. fresh c \<or> client_ok c \<and> wc_state c = FAILED) rest"
      by blast
    have "running w1" using out Inr pipe by (simp add: running_def pipe_works_def)
    with new out show ?thesis by (intro exI [of _ "w1 # new"]) simp
  qed
qed

section \<open>Properties\<close>

text \<open>Building the workers of a configuration in range either raises an API or configuration
  error, or gives exactly one new client per worker of a well-formed plan, named \<open>worker0\<close>,
  \<open>worker1\<close> and so on, each bound to the GPU the plan assigns to it (none on the CPU).\<close>

theorem built_workers_match_plan:
  assumes "config_ok c"
  shows "outcome factory_exn
    (\<lambda>cs. \<exists>p. parent_execution_plan run c = Inr p \<and> plan_ok p \<and> int (length cs) = worker_count p \<and>
       distinct (map worker_id cs) \<and> map worker_id cs = map worker_name [0..<length cs] \<and>
       map (bs_gpu \<circ> wc_spec) cs = plan_gpus p \<and> list_all fresh cs)
    (build_worker_clients run contexts c)"
proof (rule outcome_mono [OF build_outcome [OF assms]], elim exE conjE)
  fix cs p assume p: "parent_execution_plan run c = Inr p" "plan_ok p" "built_for p cs"
  then have ids: "map worker_id cs = map worker_name [0..<length cs]"
    and gpus: "map (bs_gpu \<circ> wc_spec) cs = plan_gpus p" and "list_all fresh cs"
    by (auto simp: built_for_def specs_for_def worker_id_def [abs_def] comp_def fresh_def [abs_def])
  moreover have "distinct (map worker_name [0..<length cs])"
    by (simp add: distinct_map inj_on_subset [OF inj_worker_name])
  moreover have "int (length cs) = worker_count p"
  proof -
    have "length cs = length (plan_gpus p)" using gpus by (metis length_map)
    with p(2) show ?thesis by (auto simp: plan_gpus_def plan_ok_def)
  qed
  ultimately show "\<exists>p. parent_execution_plan run c = Inr p \<and> plan_ok p \<and> int (length cs) = worker_count p \<and>
       distinct (map worker_id cs) \<and> map worker_id cs = map worker_name [0..<length cs] \<and>
       map (bs_gpu \<circ> wc_spec) cs = plan_gpus p \<and> list_all fresh cs"
    using p by auto
qed

theorem built_workers_match_plan_witness:
  "outcome factory_exn
    (\<lambda>cs. \<exists>p. parent_execution_plan Probe_Not_Run (default_config\<lparr>device := Dev_Cpu\<rparr>) = Inr p \<and> plan_ok p \<and>
       int (length cs) = worker_count p \<and> distinct (map worker_id cs) \<and>
       map worker_id cs = map worker_name [0..<length cs] \<and> map (bs_gpu \<circ> wc_spec) cs = plan_gpus p \<and>
       list_all fresh cs)
    (build_worker_clients Probe_Not_Run (\<lambda>_. sample_ctx [] []) (default_config\<lparr>device := Dev_Cpu\<rparr>)) \<and>
   parent_execution_plan Probe_Not_Run (default_config\<lparr>device := Dev_Cpu\<rparr>) =
     Inr \<lparr>effective_device = ''cpu'', selected_gpu_indices = [], worker_count = 1, worker_gpu_indices = []\<rparr>"
proof
  have "config_ok (default_config\<lparr>device := Dev_Cpu\<rparr>)"
    using default_config_ok by (simp add: config_ok_def positive_integer_fields_def positive_float_fields_def)
  then show "outcome factory_exn
    (\<lambda>cs. \<exists>p. parent_execution_plan Probe_Not_Run (default_config\<lparr>device := Dev_Cpu\<rparr>) = Inr p \<and> plan_ok p \<and>
       int (length cs) = worker_count p \<and> distinct (map worker_id cs) \<and>
       map worker_id cs = map worker_name [0..<length cs] \<and> map (bs_gpu \<circ> wc_spec) cs = plan_gpus p \<and>
       list_all fresh cs)
    (build_worker_clients Probe_Not_Run (\<lambda>_. sample_ctx [] []) (default_config\<lparr>device := Dev_Cpu\<rparr>))"
    by (rule built_workers_match_plan)
  show "parent_execution_plan Probe_Not_Run (default_config\<lparr>device := Dev_Cpu\<rparr>) =
     Inr \<lparr>effective_device = ''cpu'', selected_gpu_indices = [], worker_count = 1, worker_gpu_indices = []\<rparr>"
    by (simp add: parent_execution_plan_def materialize_execution_profile_def topology_plan_def default_config_def
        mk_cpu_plan)
qed

text \<open>Starting new workers is all or nothing: on success every worker runs, in the given order,
  and nothing was shut down; on failure every worker of the tuple, started or not, has had its
  shutdown called once and is stopped with no live child.\<close>

theorem start_all_or_nothing:
  assumes "list_all (\<lambda>c. fresh c \<and> pipe_works c) ws"
  shows "case start_worker_clients ws of
      (Inr _, ws', called) \<Rightarrow> ws \<noteq> [] \<and> called = [] \<and> list_all running ws' \<and> map worker_id ws' = map worker_id ws
    | (Inl _, ws', called) \<Rightarrow> list_all (\<lambda>c. wc_state c = STOPPED \<and> \<not> is_alive c) ws' \<and>
        map worker_id ws' = map worker_id ws \<and> mset called = mset (map worker_id ws)"
proof (cases "ws = []")
  case True
  then show ?thesis by (simp add: start_worker_clients_def)
next
  case False
  obtain r fin rest where se: "start_each [] ws = (r, fin, rest)" by (cases "start_each [] ws") auto
  from start_each_fleet [OF assms se] have new: "list_all running fin"
    "map worker_id (fin @ rest) = map worker_id ws"
    "case r of Inr _ \<Rightarrow> rest = [] | Inl _ \<Rightarrow> list_all (\<lambda>c. fresh c \<or> client_ok c \<and> wc_state c = FAILED) rest"
    by auto
  show ?thesis
  proof (cases r)
    case (Inr u)
    with se False new show ?thesis by (simp add: start_worker_clients_def)
  next
    case (Inl e)
    have stops: "wc_state (quiet_shutdown c) = STOPPED \<and> \<not> is_alive (quiet_shutdown c) \<and>
        worker_id (quiet_shutdown c) = worker_id c" if "c \<in> set fin \<union> set rest" for c
      using that new(1,3) Inl by (intro quiet_shutdown_stops) (auto simp: list_all_iff)
    then have ids: "map worker_id (map quiet_shutdown fin) = map worker_id fin"
      "map worker_id (map quiet_shutdown rest) = map worker_id rest"
      by simp_all
    have "mset (rev (map worker_id fin) @ map worker_id rest) = mset (map worker_id ws)"
      unfolding new(2) [symmetric] by simp
    moreover have "start_worker_clients ws =
        (Inl e, map quiet_shutdown (fin @ rest),
         rev (map worker_id (map quiet_shutdown fin)) @ map worker_id (map quiet_shutdown rest))"
      using se False Inl by (simp add: start_worker_clients_def Let_def rev_map)
    moreover have "map worker_id (map quiet_shutdown (fin @ rest)) = map worker_id ws"
      using ids new(2) by (simp only: map_append)
    ultimately show ?thesis
      using stops unfolding ids by (auto simp: list_all_iff)
  qed
qed

definition fleet_of_two :: "worker_client list" where
  "fleet_of_two =
     [new_client ''worker0'' [] [Deliver (plain_message Ready_Kind ''worker0'' None [])],
      new_client ''worker1'' [] [Silence (Some 1)]]"

theorem start_all_or_nothing_witness:
  "case start_worker_clients fleet_of_two of
      (Inr _, ws', called) \<Rightarrow> fleet_of_two \<noteq> [] \<and> called = [] \<and> list_all running ws' \<and>
        map worker_id ws' = map worker_id fleet_of_two
    | (Inl _, ws', called) \<Rightarrow> list_all (\<lambda>c. wc_state c = STOPPED \<and> \<not> is_alive c) ws' \<and>
        map worker_id ws' = map worker_id fleet_of_two \<and> mset called = mset (map worker_id fleet_of_two)"
  by (rule start_all_or_nothing)
    (simp add: fleet_of_two_def fresh_def pipe_works_def client_ok_def new_client_def sample_ctx_def)

end
