(* ===== verification/Api_App.thy ===== *)
theory Api_App
  imports Api_Runtime Wav_Io Api_Auth Worker_Factory
begin

text \<open>
  \<open>voxcpm_runtime/api_app.py\<close>: the checks before the service starts, its start and readiness, and the
  two request handlers over the runtime of \<open>Api_Runtime\<close>. A handler is split where it waits: admission,
  and what is done with the outcome of waiting. FastAPI's routing and its parsing of the body are not
  part of the program: a handler starts from the parsed body. \<open>uuid4\<close>, the free space of the temporary
  directory and the host's byte order are arguments.
\<close>

section \<open>Helpers\<close>

definition safe_request_id :: "string \<Rightarrow> string option \<Rightarrow> exn + string" where
  "safe_request_id fresh_id v =
     (case v of
        None \<Rightarrow> Inr fresh_id
      | Some s \<Rightarrow>
         (let candidate = strip s in
          if candidate = [] \<or> 128 < length candidate
          then Inl (api_exn ''invalid_request_id'' ''Request ID is invalid.'' 422 False)
          else if list_ex (\<lambda>ch. ordc ch \<in> {47, 92, 0, 10, 13}) candidate
          then Inl (api_exn ''invalid_request_id'' ''Request ID is invalid.'' 422 False)
          else Inr candidate))"

text \<open>\<open>min(1.0, max(-1.0, x))\<close>: every comparison with a NaN is false.\<close>

fun clamp_sample :: "pyfloat \<Rightarrow> rat" where
  "clamp_sample NotANumber = - 1"
| "clamp_sample PosInf = 1"
| "clamp_sample NegInf = - 1"
| "clamp_sample f = (let m = (if float_val f > - 1 then float_val f else - 1) in if m < 1 then m else 1)"

definition pcm16_item :: "pyfloat \<Rightarrow> int" where
  "pcm16_item f = max (- 32768) (min 32767 (round_half_even (fl64 (clamp_sample f * 32767))))"

definition pcm16_bytes :: "bool \<Rightarrow> pyfloat list \<Rightarrow> byte list" where
  "pcm16_bytes big_endian samples =
     (let pcm = map (\<lambda>f. native_item big_endian (pcm16_item f)) samples in
      concat (if big_endian then map rev pcm else pcm))"

definition wav_bytes :: "bool \<Rightarrow> audio_result \<Rightarrow> exn + byte list" where
  "wav_bytes big_endian a =
     (if ar_channels a \<noteq> 1
      then Inl (api_exn ''unsupported_audio_channels'' ''Audio channel layout is unsupported.'' 500 False)
      else case wave_write big_endian (ar_channels a) (ar_sample_rate_hz a) (pcm16_bytes big_endian (ar_samples a)) of
        (Inl e, _) \<Rightarrow> Inl e
      | (Inr _, content) \<Rightarrow> Inr content)"

text \<open>\<open>free\<close> is \<open>None\<close> where \<open>disk_usage\<close> raises \<open>OSError\<close>.\<close>

definition validate_tmp_space :: "runtime_config \<Rightarrow> int option \<Rightarrow> exn + unit" where
  "validate_tmp_space c free =
     (case min_tmp_free_bytes c of
        None \<Rightarrow> Inr ()
      | Some minimum \<Rightarrow>
         (case free of
            None \<Rightarrow> Inl (api_exn ''tmp_storage_unavailable'' ''Temporary storage is unavailable.'' 500 False)
          | Some n \<Rightarrow>
              if n < minimum
              then Inl (api_exn ''insufficient_tmp_space''
                     ''Temporary storage does not meet the configured free-space requirement.'' 503 True)
              else Inr ()))"

definition public_error :: "api_error \<Rightarrow> string option \<Rightarrow> nat \<times> (string, pyval) dict" where
  "public_error e request_id =
     (ae_status e,
      [(''error'', PDict [(PStr ''code'', PStr (ae_code e)), (PStr ''message'', PStr (ae_message e)),
                         (PStr ''retryable'', PBool (ae_retryable e)), (PStr ''request_id'', opt_str request_id)])])"

definition scheduler_statuses :: "(string, nat \<times> bool \<times> string) dict" where
  "scheduler_statuses =
     [(''duplicate_request_id'', 409, False, ''Request ID is already in use.''),
      (''queue_full'', 429, True, ''Request could not be admitted.''),
      (''scheduler_closed'', 503, True, ''Service is unavailable.''),
      (''no_healthy_worker'', 503, True, ''Service is unavailable.'')]"

definition map_scheduler_error :: "worker_error \<Rightarrow> exn" where
  "map_scheduler_error e =
     (let (status, r, msg) =
        (case dict_get scheduler_statuses (we_code e) of
           None \<Rightarrow> (503, we_retryable e, ''Service is unavailable.'')
         | Some entry \<Rightarrow> entry) in
      api_exn (we_code e) msg status r)"

text \<open>\<open>except SchedulerAdmissionError\<close>: any other exception goes on.\<close>

fun admission_error :: "exn \<Rightarrow> exn" where
  "admission_error (WorkerExn e) =
     (if we_class e = SchedulerAdmissionError then map_scheduler_error e else WorkerExn e)"
| "admission_error e = e"

definition message_to_result :: "worker_message \<Rightarrow> exn + audio_result" where
  "message_to_result m =
     (case (wm_kind m, wm_payload m, wm_error m) of
        (Result_Kind, ResultPayload a, _) \<Rightarrow> Inr a
      | (Error_Kind, _, Some d) \<Rightarrow>
          Inl (api_exn (wd_code d) (wd_message d) (if wd_retryable d then 503 else 500) (wd_retryable d))
      | _ \<Rightarrow> Inl (api_exn ''invalid_worker_result'' ''Worker returned an invalid result.'' 500 False))"

section \<open>The application\<close>

text \<open>\<open>create_app\<close> up to the construction of the FastAPI object.\<close>

definition create_app :: "runtime_config \<Rightarrow> int option \<Rightarrow> exn + unit" where
  "create_app c free =
     and_then (validate_bind_auth_policy c) (\<lambda>_.
     and_then (validate_tmp_space c free) (\<lambda>_.
       if max_queue_size c = None
       then Inl (api_exn ''max_queue_size_required''
              ''VOXCPM_MAX_QUEUE_SIZE must be configured for the API runtime.'' 500 False)
       else Inr ()))"

text \<open>\<open>lifespan\<close>: the workers the factory made are started and the runtime is built on them.\<close>

definition start_runtime :: "runtime_config \<Rightarrow> worker_client list \<Rightarrow> (nat \<Rightarrow> rat) \<Rightarrow> exn + api_runtime" where
  "start_runtime c ws clock =
     (case start_worker_clients ws of
        (Inl e, _) \<Rightarrow> Inl e
      | (Inr _, ws', _) \<Rightarrow>
          mk_api_runtime ws' (opt_int (max_queue_size c)) (PInt (or_int (stream_ipc_max_chunks c) 4))
            (opt_float (queue_timeout_seconds c)) (opt_float (max_inference_seconds c))
            (opt_int (max_concurrent_requests c)) (opt_float (stream_backpressure_timeout_seconds c)) clock)"

definition worker_counts :: "snapshot \<Rightarrow> pyval" where
  "worker_counts sn =
     PDict [(PStr ''ready'', PInt (int (sn_ready_workers sn))), (PStr ''busy'', PInt (int (sn_busy_workers sn))),
            (PStr ''failed'', PInt (int (sn_failed_workers sn)))]"

text \<open>\<open>readyz\<close>: status code and body; \<open>app.state.ready\<close> and \<open>app.state.runtime\<close>.\<close>

definition readyz :: "bool \<Rightarrow> api_runtime option \<Rightarrow> nat \<times> (string, pyval) dict" where
  "readyz ready runtime =
     (case (ready, runtime) of
        (True, Some a) \<Rightarrow>
         (let sn = take_snapshot (ar_scheduler a) in
          if sn_ready_workers sn > 0 \<or> sn_busy_workers sn > 0
          then (200, [(''status'', PStr ''ready''), (''workers'', worker_counts sn)])
          else (503, [(''status'', PStr ''not_ready''), (''workers'', worker_counts sn)]))
      | _ \<Rightarrow> (503, [(''status'', PStr ''not_ready'')]))"

text \<open>The end of \<open>lifespan\<close>: the service is no longer ready and its runtime is closed. \<open>meanwhile\<close> is
  what the dispatcher, the readers and the handlers still do until the join is over; a runtime that was
  closed before is left alone.\<close>

definition rt_close :: "rt_call list \<Rightarrow> api_runtime \<Rightarrow> unit rt" where
  "rt_close meanwhile a =
     (if ar_closed a then (Inr (), a) else rt_close_finish (foldl rt_invoke (rt_close_begin a) meanwhile))"

definition stop_runtime :: "rt_call list \<Rightarrow> api_runtime \<Rightarrow> bool \<times> unit rt" where
  "stop_runtime meanwhile a = (False, rt_close meanwhile a)"

text \<open>The exception handlers. An exception that is no \<open>ApiError\<close> is left to the framework.\<close>

definition api_error_handler :: "api_error \<Rightarrow> nat \<times> (string, pyval) dict" where
  "api_error_handler e = public_error e None"

fun handled_exn :: "exn \<Rightarrow> (nat \<times> (string, pyval) dict) option" where
  "handled_exn (ApiExn e) = Some (api_error_handler e)"
| "handled_exn _ = None"

definition request_validation_error_handler :: "nat \<times> (string, pyval) dict" where
  "request_validation_error_handler =
     public_error \<lparr>ae_code = ''invalid_request'', ae_message = ''Request payload is invalid.'', ae_status = 422,
                   ae_retryable = False\<rparr> None"

definition healthz :: "nat \<times> (string, pyval) dict" where
  "healthz = (200, [(''status'', PStr ''ok'')])"

section \<open>The handlers\<close>

text \<open>The checks the two handlers share, in their order: request id, token, text.\<close>

definition check_request ::
    "runtime_config \<Rightarrow> string \<Rightarrow> string option \<Rightarrow> authorization \<Rightarrow> string \<Rightarrow> exn + string \<times> string" where
  "check_request c fresh_id header_id header body =
     and_then (safe_request_id fresh_id header_id) (\<lambda>rid.
     and_then (verify_bearer_token c header) (\<lambda>_.
       let t = strip body in
       if t = [] then Inl (api_exn ''invalid_text'' ''Text must not be blank.'' 422 False)
       else if (case max_text_chars c of None \<Rightarrow> False | Some n \<Rightarrow> n < int (length t))
       then Inl (api_exn ''text_too_long'' ''Text exceeds the configured limit.'' 422 False)
       else Inr (rid, t)))"

definition tts_request :: "string \<Rightarrow> string \<Rightarrow> exn + worker_request" where
  "tts_request rid t =
     and_then (mk_speech_request (PStr t)) (\<lambda>s. mk_worker_request (PStr rid) ''synthesize'' (OneShotPayload s))"

definition stream_tts_request :: "string \<Rightarrow> string \<Rightarrow> exn + worker_request" where
  "stream_tts_request rid t =
     and_then (mk_speech_request (PStr t)) (\<lambda>s.
     and_then (mk_stream_request (Inr s)) (\<lambda>r. mk_worker_request (PStr rid) ''stream'' (StreamPayload r)))"

text \<open>A handler up to the point where it waits.\<close>

definition admit ::
    "(worker_request \<Rightarrow> api_runtime \<Rightarrow> unit rt) \<Rightarrow> (string \<Rightarrow> string \<Rightarrow> exn + worker_request) \<Rightarrow>
     runtime_config \<Rightarrow> string \<Rightarrow> string option \<Rightarrow> authorization \<Rightarrow> string \<Rightarrow> api_runtime \<Rightarrow> string rt" where
  "admit do_submit build c fresh_id header_id header body a =
     (case check_request c fresh_id header_id header body of
        Inl e \<Rightarrow> (Inl e, a)
      | Inr (rid, t) \<Rightarrow>
         (case build rid t of
            Inl e \<Rightarrow> (Inl e, a)
          | Inr q \<Rightarrow>
             (case do_submit q a of
                (Inl e, b) \<Rightarrow> (Inl (admission_error e), b)
              | (Inr _, b) \<Rightarrow> (Inr rid, b))))"

definition tts_admit ::
    "runtime_config \<Rightarrow> string \<Rightarrow> string option \<Rightarrow> authorization \<Rightarrow> string \<Rightarrow> api_runtime \<Rightarrow> string rt" where
  "tts_admit = admit rt_submit tts_request"

definition tts_stream_admit ::
    "runtime_config \<Rightarrow> string \<Rightarrow> string option \<Rightarrow> authorization \<Rightarrow> string \<Rightarrow> api_runtime \<Rightarrow> string rt" where
  "tts_stream_admit = admit rt_submit_stream stream_tts_request"

text \<open>How waiting for the future ends: with its message, with the configured timeout, or with a
  cancellation, of the handler or of the future. \<open>CancelledError\<close> leaves the handler.\<close>

datatype waited = Answered worker_message | Timed_Out | Cancelled_Wait

definition cancel_quietly :: "string \<Rightarrow> api_runtime \<Rightarrow> api_runtime" where
  "cancel_quietly rid a = snd (rt_cancel rid a)"

definition tts_finish :: "bool \<Rightarrow> string \<Rightarrow> waited \<Rightarrow> api_runtime \<Rightarrow> (exn + byte list \<times> (string, string) dict) \<times> api_runtime" where
  "tts_finish big_endian rid w a =
     (case w of
        Timed_Out \<Rightarrow> (Inl (api_exn ''request_timeout'' ''Request timed out.'' 504 True), cancel_quietly rid a)
      | Cancelled_Wait \<Rightarrow> (Inl (OtherError ''CancelledError'' []), cancel_quietly rid a)
      | Answered m \<Rightarrow>
          (and_then (message_to_result m) (\<lambda>r.
           and_then (wav_bytes big_endian r) (\<lambda>content.
             Inr (content, [(''X-Request-ID'', rid), (''Cache-Control'', ''no-store'')]))), a))"

text \<open>The generator of the streaming response over the messages its queue gives it: what it has
  yielded and how it ended; \<open>Inr False\<close> is a consumer that stopped while it was waiting or had just been
  given a piece.\<close>

fun audio_bytes :: "bool \<Rightarrow> worker_message list \<Rightarrow> byte list list \<times> (exn + bool)" where
  "audio_bytes big_endian [] = ([], Inr False)"
| "audio_bytes big_endian (m # ms) =
     (case wm_kind m of
        Stream_Chunk_Kind \<Rightarrow>
         (case wm_payload m of
            ChunkPayload ch \<Rightarrow>
              (case audio_bytes big_endian ms of
                 (pieces, r) \<Rightarrow> (pcm16_bytes big_endian (ac_samples ch) # pieces, r))
          | _ \<Rightarrow> ([], Inl (api_exn ''invalid_stream_chunk'' ''Worker returned an invalid stream chunk.'' 500 False)))
      | Stream_End_Kind \<Rightarrow> ([], Inr True)
      | _ \<Rightarrow>
         (case (wm_kind m, wm_error m) of
            (Error_Kind, Some d) \<Rightarrow>
              ([], Inl (api_exn (wd_code d) (wd_message d) (if wd_retryable d then 503 else 500) (wd_retryable d)))
          | _ \<Rightarrow> ([], Inl (api_exn ''invalid_stream_message'' ''Worker returned an invalid stream message.'' 500 False))))"

text \<open>Its \<open>finally\<close>, and the headers of the response.\<close>

definition stream_done :: "string \<Rightarrow> exn + bool \<Rightarrow> api_runtime \<Rightarrow> api_runtime" where
  "stream_done rid r a = (if r = Inr True then a else cancel_quietly rid a)"

fun stream_format_value :: "stream_format \<Rightarrow> string" where
  "stream_format_value Pcm_S16le = ''pcm_s16le''"

definition stream_headers :: "runtime_config \<Rightarrow> string \<Rightarrow> (string, string) dict" where
  "stream_headers c rid =
     [(''X-Request-ID'', rid), (''X-Audio-Format'', stream_format_value (cfg_stream_format c)),
      (''X-Audio-Sample-Rate'', show_int (stream_sample_rate c)),
      (''X-Audio-Channels'', show_int (stream_channels c)), (''Cache-Control'', ''no-store'')]"

section \<open>Lemmas\<close>

lemma safe_request_id_outcome:
  assumes "token_ok 128 fresh_id"
  shows "outcome (\<lambda>e. e = api_exn ''invalid_request_id'' ''Request ID is invalid.'' 422 False) (token_ok 128)
    (safe_request_id fresh_id v)"
  using assms by (auto simp: safe_request_id_def token_ok_def list_ex_iff list_all_iff Let_def split: option.split)

text \<open>The exceptions a handler can end with before it waits.\<close>

fun admission_exn :: "exn \<Rightarrow> bool" where
  "admission_exn (ApiExn x) = (ae_status x \<in> {401, 409, 422, 429, 500, 503})"
| "admission_exn (WorkerExn x) = (we_class x = WorkerExitedError)"
| "admission_exn (TypeError _) = True"
| "admission_exn _ = False"

lemma verify_exn: "outcome admission_exn (\<lambda>_. True) (verify_bearer_token c h)"
proof -
  have t: "outcome admission_exn (\<lambda>_. True) (check_token x y)" for x y
    by (auto simp: check_token_def unauthorized_def api_exn_def compare_digest_def Let_def split: option.split)
  then show ?thesis
    by (auto simp: verify_bearer_token_def unauthorized_def api_exn_def split: option.split authorization.split)
qed

lemma check_request_outcome:
  assumes "token_ok 128 fresh_id"
  shows "outcome admission_exn (\<lambda>(rid, t). token_ok 128 rid \<and> safe_request_id fresh_id hid = Inr rid \<and>
      verify_bearer_token c h = Inr () \<and> t = strip body \<and> t \<noteq> [] \<and>
      (case max_text_chars c of None \<Rightarrow> True | Some n \<Rightarrow> int (length t) \<le> n))
    (check_request c fresh_id hid h body)"
proof (cases "safe_request_id fresh_id hid")
  case (Inl e)
  with safe_request_id_outcome [OF assms, of hid] show ?thesis by (simp add: check_request_def api_exn_def)
next
  case (Inr rid)
  with safe_request_id_outcome [OF assms, of hid] have "token_ok 128 rid" by simp
  moreover have "outcome admission_exn (\<lambda>_. True) (verify_bearer_token c h)" by (rule verify_exn)
  ultimately show ?thesis using Inr
    by (cases "verify_bearer_token c h")
      (auto simp: check_request_def api_exn_def Let_def split: option.split)
qed

lemma strip_empty: "strip t = [] \<Longrightarrow> list_all is_space t"
proof -
  assume "strip t = []"
  then have all: "\<forall>x \<in> set (dropWhile is_space t). is_space x"
    by (simp add: strip_def dropWhile_eq_Nil_conv)
  have "dropWhile is_space t = []"
  proof (rule ccontr)
    assume ne: "dropWhile is_space t \<noteq> []"
    from hd_dropWhile [OF this] hd_in_set [OF ne] all show False by blast
  qed
  then show ?thesis by (simp add: dropWhile_eq_Nil_conv list_all_iff)
qed

lemma strip_idem_ne: "strip body \<noteq> [] \<Longrightarrow> strip (strip body) \<noteq> []"
  using strip_empty [of "strip body"] strip_not_space_ends [of body] by (auto simp: list_all_iff)

text \<open>A checked request can always be built.\<close>

lemma tts_request_built:
  assumes "token_ok 128 rid" and "strip t \<noteq> []"
  shows "tts_request rid t = Inr \<lparr>wr_id = rid, wr_operation = Synthesize, wr_payload = OneShotPayload (SpeechRequest t)\<rparr>"
    and "stream_tts_request rid t =
      Inr \<lparr>wr_id = rid, wr_operation = Stream, wr_payload = StreamPayload (StreamRequest (SpeechRequest t))\<rparr>"
proof -
  have r: "require_token (PStr rid) ''request_id'' 128 = Inr rid" using assms(1) by (simp add: require_token_Inr)
  have "mk_speech_request (PStr t) = Inr (SpeechRequest t)"
    using assms(2) by (simp add: mk_speech_request_def require_text_def)
  with r show "tts_request rid t = Inr \<lparr>wr_id = rid, wr_operation = Synthesize, wr_payload = OneShotPayload (SpeechRequest t)\<rparr>"
    and "stream_tts_request rid t =
      Inr \<lparr>wr_id = rid, wr_operation = Stream, wr_payload = StreamPayload (StreamRequest (SpeechRequest t))\<rparr>"
    by (simp_all add: tts_request_def stream_tts_request_def mk_stream_request_def mk_worker_request_def
        parse_operation_def)
qed

lemma submit_request_exn:
  assumes "sched_ok False s" and "submit_request q s = (Inl e, t)"
  shows "is_worker_class SchedulerAdmissionError e \<and> t = s \<or> is_worker_class WorkerExitedError e"
proof (cases "\<not> sc_closed s \<and> wr_id q \<notin> sc_submitted s \<and> ready_workers s \<noteq> [] \<and> below_limit s")
  case False
  with assms(2) show ?thesis
    by (auto simp: submit_request_def worker_exn_def Let_def split: if_splits prod.splits)
next
  case True
  then obtain i js where i: "ready_workers s = i # js" by (auto simp: neq_Nil_conv)
  from hd_ready [OF i] have il: "i < length (sc_workers s)" and rd: "client_ready (worker_at s i)" by auto
  obtain a c where sub: "submit q (worker_at s i) = (a, c)" by fastforce
  have f: "fleet_ok False s" using assms(1) True by (simp add: sched_ok_def)
  from True i sub assms(2) have "a = Inl e" by (auto simp: submit_request_def Let_def split: sum.splits)
  with worker.submit_refused [OF fleet_ok_at(1) [OF f il] rd] sub show ?thesis by blast
qed

lemma mapped_statuses: "admission_exn (map_scheduler_error e)"
  by (simp add: map_scheduler_error_def scheduler_statuses_def api_exn_def Let_def)

lemma admission_error_exn:
  assumes "is_worker_class SchedulerAdmissionError e \<or> is_worker_class WorkerExitedError e"
  shows "admission_exn (admission_error e)"
  using assms mapped_statuses by (cases e) auto

text \<open>What a submission leaves alone, and what it registers.\<close>

definition same_entries :: "api_runtime \<Rightarrow> api_runtime \<Rightarrow> bool" where
  "same_entries a b \<longleftrightarrow>
     ar_future b = ar_future a \<and> ar_queue b = ar_queue a \<and> ar_futures b = ar_futures a \<and> ar_streams b = ar_streams a"

lemma rt_submit_cases:
  assumes "runtime_ok a" and "rt_submit q a = (r, b)"
  shows "runtime_ok b \<and> (case r of
      Inl e \<Rightarrow> admission_exn (admission_error e) \<and> same_entries a b
    | Inr _ \<Rightarrow> ar_future a (wr_id q) = None \<and> ar_future b = (ar_future a)(wr_id q \<mapsto> Future_Pending) \<and>
        wr_id q \<in> set (ar_futures b) \<and> ar_queue b = ar_queue a)"
proof -
  have ok: "runtime_ok b" using rt_submit_step [OF assms] by blast
  obtain r0 s where sr: "submit_request q (ar_scheduler a) = (r0, s)" by fastforce
  have sc: "sched_ok False (ar_scheduler a)" using assms(1) by (simp add: runtime_ok_def)
  note ids = submit_request_ids [OF sr]
  have new: "isOK r0 \<Longrightarrow> ar_future a (wr_id q) = None"
    using ids assms(1) known_idD(1) [of _ "ar_future a" "ar_queue a"] by (cases r0) (auto simp: runtime_ok_def)
  have "admission_exn (admission_error scheduler_closed)"
    by (rule admission_error_exn) (simp add: scheduler_closed_def worker_exn_def)
  moreover have "r0 = Inl e \<Longrightarrow> admission_exn (admission_error e)" for e
    using submit_request_exn [OF sc] sr by (intro admission_error_exn) blast
  ultimately show ?thesis
    using assms(2) sr new ok by (cases r0) (auto simp: rt_submit_def same_entries_def split: if_splits)
qed

lemma rt_submit_stream_cases:
  assumes "runtime_ok a" and "wr_operation q = Stream" and "rt_submit_stream q a = (r, b)"
  shows "runtime_ok b \<and> (case r of
      Inl e \<Rightarrow> admission_exn (admission_error e) \<and> same_entries a b
    | Inr _ \<Rightarrow> ar_queue a (wr_id q) = None \<and> ar_queue b = (ar_queue a)(wr_id q \<mapsto> ([], [])) \<and>
        wr_id q \<in> set (ar_streams b) \<and> ar_future b = ar_future a)"
proof -
  have ok: "runtime_ok b" using rt_submit_stream_step [OF assms(1,3)] by blast
  obtain r0 s where sr: "submit_request q (ar_scheduler a) = (r0, s)" by fastforce
  have sc: "sched_ok False (ar_scheduler a)" using assms(1) by (simp add: runtime_ok_def)
  note ids = submit_request_ids [OF sr]
  have new: "isOK r0 \<Longrightarrow> ar_queue a (wr_id q) = None"
    using ids assms(1) known_idD(2) [of _ "ar_future a" "ar_queue a"] by (cases r0) (auto simp: runtime_ok_def)
  have "admission_exn (admission_error scheduler_closed)"
    by (rule admission_error_exn) (simp add: scheduler_closed_def worker_exn_def)
  moreover have "r0 = Inl e \<Longrightarrow> admission_exn (admission_error e)" for e
    using submit_request_exn [OF sc] sr by (intro admission_error_exn) blast
  ultimately show ?thesis
    using assms(2,3) sr new ok by (cases r0) (auto simp: rt_submit_stream_def same_entries_def split: if_splits)
qed

definition passes_checks :: "runtime_config \<Rightarrow> string \<Rightarrow> string option \<Rightarrow> authorization \<Rightarrow> string \<Rightarrow> string \<Rightarrow> bool" where
  "passes_checks c fresh_id hid h body rid \<longleftrightarrow>
     token_ok 128 rid \<and> safe_request_id fresh_id hid = Inr rid \<and> verify_bearer_token c h = Inr () \<and>
     strip body \<noteq> [] \<and> (case max_text_chars c of None \<Rightarrow> True | Some n \<Rightarrow> int (length (strip body)) \<le> n)"

lemma check_request_cases:
  assumes "token_ok 128 fresh_id"
  shows "case check_request c fresh_id hid h body of
      Inl e \<Rightarrow> admission_exn e
    | Inr (rid, t) \<Rightarrow> passes_checks c fresh_id hid h body rid \<and> t = strip body \<and> strip t \<noteq> []"
  using check_request_outcome [OF assms, of hid c h body] strip_idem_ne [of body]
  by (cases "check_request c fresh_id hid h body") (auto simp: passes_checks_def)

lemma cancel_quietly_ok: "runtime_ok a \<Longrightarrow> runtime_ok (cancel_quietly rid a)"
  using rt_cancel_step [of a rid] by (cases "rt_cancel rid a") (simp add: cancel_quietly_def)

lemma request_admitted_ok:
  assumes "runtime_ok a" and "token_ok 128 fresh_id" and "tts_admit c fresh_id hid h body a = (Inr rid, b)"
  shows "runtime_ok b"
proof (cases "check_request c fresh_id hid h body")
  case (Inl e)
  with assms(3) show ?thesis by (simp add: tts_admit_def admit_def)
next
  case (Inr rt)
  with assms(3) obtain q r where "rt_submit q a = (r, b)"
    by (auto simp: tts_admit_def admit_def split: prod.splits sum.splits)
  with rt_submit_step [OF assms(1)] show ?thesis by blast
qed

section \<open>Properties\<close>



text \<open>C3. The answer to a request is its own. If an admitted request's future is answered, after any
  interleaving of everything else, and the handler returns a response, then the message names this
  request, is a result, and the body is the WAV file of that result; the runtime is not touched. And
  whatever the handler ends with after waiting, the runtime stays well formed.\<close>

theorem response_is_own:
  assumes "runtime_ok a" and "tts_admit c fresh_id hid h body a = (Inr rid, b)" and "token_ok 128 fresh_id"
    and "ar_future (foldl rt_invoke b xs) rid = Some (Future_Done m)"
    and "tts_finish big_endian rid (Answered m) (foldl rt_invoke b xs) = (Inr (content, headers), d)"
  shows "wm_request_id m = Some rid \<and> wm_kind m = Result_Kind \<and> d = foldl rt_invoke b xs \<and>
    (\<exists>r. wm_payload m = ResultPayload r \<and> wav_bytes big_endian r = Inr content) \<and>
    dict_get headers ''X-Request-ID'' = Some rid \<and>
    runtime_ok (snd (tts_finish big_endian rid w (foldl rt_invoke b xs)))"
proof -
  from request_admitted_ok [OF assms(1,3,2)] have "runtime_ok b" .
  then have e: "runtime_ok (foldl rt_invoke b xs)" by (rule runtime.calls_inv)
  with assms(4) have m: "wm_request_id m = Some rid" by (simp add: runtime_ok_def futures_wf_def)
  from assms(5) obtain r where "message_to_result m = Inr r" "wav_bytes big_endian r = Inr content"
    "headers = [(''X-Request-ID'', rid), (''Cache-Control'', ''no-store'')]" "d = foldl rt_invoke b xs"
    by (auto simp: tts_finish_def raises)
  moreover from this(1) have "wm_kind m = Result_Kind" "wm_payload m = ResultPayload r"
    by (auto simp: message_to_result_def split: message_kind.splits result_payload.splits option.splits)
  ultimately show ?thesis using m e cancel_quietly_ok by (auto simp: tts_finish_def split: waited.split)
qed

definition ready_answer :: worker_message where
  "ready_answer = (plain_message Result_Kind ''a'' (Some ''r1'') [])\<lparr>wm_payload := ResultPayload (silence 1)\<rparr>"

definition answering_runtime :: "worker_message list \<Rightarrow> api_runtime" where
  "answering_runtime evs = small_runtime\<lparr>ar_thread := Handling evs\<rparr>"

lemma answering_runtime_ok: "runtime_ok (answering_runtime evs)"
  unfolding answering_runtime_def
  by (rule set_thread_ok [OF mk_api_runtime_ok [OF mk_small_runtime one_worker_fit]]) (simp_all add: small_runtime_def)

theorem response_is_own_witness:
  "\<exists>b content. tts_admit (default_config\<lparr>require_auth := False\<rparr>) ''id0'' (Some ''r1'') No_Header ''hello''
       (answering_runtime [ready_answer]) = (Inr ''r1'', b) \<and>
     ar_future (foldl rt_invoke b [Rt_Dispatch 0, Rt_Dispatch 0, Rt_Dispatch 0]) ''r1'' = Some (Future_Done ready_answer) \<and>
     wav_bytes False (silence 1) = Inr content"
proof -
  let ?c = "default_config\<lparr>require_auth := False\<rparr>"
  let ?a = "answering_runtime [ready_answer]"
  let ?xs = "[Rt_Dispatch 0, Rt_Dispatch 0, Rt_Dispatch 0]"
  obtain r b where t: "tts_admit ?c ''id0'' (Some ''r1'') No_Header ''hello'' ?a = (r, b)" by fastforce
  have id: "token_ok 128 ''id0''" by (simp add: token_ok_def)
  have admitted: "r = Inr ''r1''"
    using t by (simp add: tts_admit_def admit_def check_request_def safe_request_id_def strip_def is_space_def
        verify_bearer_token_def default_config_def tts_request_def mk_speech_request_def require_text_def
        mk_worker_request_def require_token_def parse_operation_def rt_submit_def answering_runtime_def small_runtime_def
        one_worker_def run_sched Let_def)
  have b: "ar_thread b = Handling [ready_answer]" "ar_futures b = [''r1'']" "ar_streams b = []"
      "ar_future b = [''r1'' \<mapsto> Future_Pending]"
    using t by (auto simp: tts_admit_def admit_def check_request_def safe_request_id_def strip_def is_space_def
        verify_bearer_token_def default_config_def tts_request_def mk_speech_request_def require_text_def
        mk_worker_request_def require_token_def parse_operation_def rt_submit_def answering_runtime_def small_runtime_def
        one_worker_def run_sched Let_def)
  have m: "wm_request_id ready_answer = Some ''r1''" "wm_kind ready_answer = Result_Kind"
      "wm_payload ready_answer = ResultPayload (silence 1)"
    by (simp_all add: ready_answer_def plain_message_def)
  have settled: "ar_future (foldl rt_invoke b ?xs) ''r1'' = Some (Future_Done ready_answer)"
    by (simp add: dispatch_step_def dispatch_event_def take_future_def dispatch_check_def dispatch_set_def b m
        routed_kind_def future_kind_def)
  have "header_fits 1 16000 4" by (simp add: header_fits_def)
  then obtain content where w: "wav_bytes False (silence 1) = Inr content"
    by (simp add: wav_bytes_def silence_def pcm16_bytes_def wave_write_def Let_def)
  have "tts_finish False ''r1'' (Answered ready_answer) (foldl rt_invoke b ?xs) =
      (Inr (content, [(''X-Request-ID'', ''r1''), (''Cache-Control'', ''no-store'')]), foldl rt_invoke b ?xs)"
    by (simp add: tts_finish_def message_to_result_def m w)
  from response_is_own [OF answering_runtime_ok t [unfolded admitted] id settled this] m t admitted settled w
  show ?thesis by auto
qed

lemma finite_samples: "map_raise quantize ss = Inr qs \<Longrightarrow> list_all isfinite ss"
  by (induction ss arbitrary: qs) (auto simp: quantize_def raises split: if_splits)

lemma pcm16_item_quantize:
  assumes "quantize f = Inr q"
  shows "pcm16_item f = q"
proof -
  have fin: "isfinite f" using assms by (simp add: quantize_def split: if_splits)
  then have "clamp_sample f = clip (float_val f)" by (cases f) (auto simp: clip_def Let_def)
  with quantize_value [OF fin] assms show ?thesis by (auto simp: pcm16_item_def)
qed

lemma pcm16_bytes_frames:
  assumes "map_raise quantize ss = Inr qs"
  shows "pcm16_bytes big_endian ss = concat (map (native_item False) qs)"
proof -
  from assms have "list_all2 (\<lambda>f q. quantize f = Inr q) ss qs" by (simp add: map_raise_Inr_iff)
  then have "list_all2 (\<lambda>f q. pcm16_item f = q) ss qs"
    by (rule list_all2_mono) (rule pcm16_item_quantize)
  then have "map pcm16_item ss = qs" by (induction rule: list_all2_induct) auto
  then have "map (\<lambda>f. native_item b (pcm16_item f)) ss = map (native_item b) qs" for b by (auto simp: comp_def)
  then show ?thesis by (cases big_endian) (simp_all add: pcm16_bytes_def native_rev comp_def Let_def)
qed

text \<open>The service and the command line tool encode alike. Whenever \<open>write_wav\<close> writes a result, the
  body of the streaming response for the same samples is the data of that file (before \<open>wave\<close> handles
  the byte order), and the body of the one-shot response is the whole file, byte for byte, for one
  channel, and an API error otherwise.\<close>

theorem encoders_agree:
  assumes "write_wav e name a parents d = (Inr r, d')"
  shows "\<exists>content. di_target d' = Some content \<and>
    drop 44 content = (if we_big_endian e then swap_pairs (pcm16_bytes (we_big_endian e) (ar_samples a))
      else pcm16_bytes (we_big_endian e) (ar_samples a)) \<and>
    wav_bytes (we_big_endian e) a =
      (if ar_channels a = 1 then Inr content
       else Inl (api_exn ''unsupported_audio_channels'' ''Audio channel layout is unsupported.'' 500 False))"
proof -
  from write_wav_Inr [OF assms] obtain qs content where
    w: "map_raise quantize (ar_samples a) = Inr qs" "di_target d' = Some content"
      "wave_write (we_big_endian e) (ar_channels a) (ar_sample_rate_hz a) (concat (map (native_item False) qs)) =
        (Inr (), content)" by blast
  note pcm = pcm16_bytes_frames [OF w(1), of "we_big_endian e"]
  have "wav_bytes (we_big_endian e) a =
      (if ar_channels a = 1 then Inr content
       else Inl (api_exn ''unsupported_audio_channels'' ''Audio channel layout is unsupported.'' 500 False))"
    using w(3) by (auto simp: wav_bytes_def pcm)
  moreover have "drop 44 content = (if we_big_endian e then swap_pairs (pcm16_bytes (we_big_endian e) (ar_samples a))
      else pcm16_bytes (we_big_endian e) (ar_samples a))"
    using w(3) unfolding pcm by (auto simp: wave_write_Inr)
  ultimately show ?thesis using w(2) by blast
qed

theorem encoders_agree_witness:
  "\<exists>content. di_target (snd (write_wav calm_env (Some ''a.wav'') (silence 1) False empty_directory)) = Some content \<and>
     wav_bytes False (silence 1) = Inr content"
proof -
  obtain r d' where w: "write_wav calm_env (Some ''a.wav'') (silence 1) False empty_directory = (Inr r, d')"
    using calm_write by (cases "write_wav calm_env (Some ''a.wav'') (silence 1) False empty_directory") (auto simp: isOK_iff)
  have "ar_channels (silence 1) = 1" "\<not> we_big_endian calm_env" by (simp_all add: silence_def calm_env_def)
  with encoders_agree [OF w] show ?thesis unfolding w snd_conv by auto
qed

text \<open>A well-formed stream, read as far as it was taken.\<close>

definition proper_chunk :: "worker_message \<Rightarrow> bool" where
  "proper_chunk m \<longleftrightarrow> wm_kind m = Stream_Chunk_Kind \<and> (\<exists>ch. wm_payload m = ChunkPayload ch)"

definition chunk_bytes :: "bool \<Rightarrow> worker_message \<Rightarrow> byte list" where
  "chunk_bytes big_endian m =
     (case wm_payload m of ChunkPayload ch \<Rightarrow> pcm16_bytes big_endian (ac_samples ch) | _ \<Rightarrow> [])"

lemma audio_bytes_chunks:
  "list_all proper_chunk ms \<Longrightarrow>
   audio_bytes big_endian (ms @ rest) =
     (case audio_bytes big_endian rest of (pieces, r) \<Rightarrow> (map (chunk_bytes big_endian) ms @ pieces, r))"
  by (induction ms) (auto simp: proper_chunk_def chunk_bytes_def split: prod.split)

lemma audio_bytes_end:
  assumes "\<not> proper_chunk m"
  shows "\<exists>r. audio_bytes big_endian (m # ms) = ([], r) \<and> r \<noteq> Inr False \<and> (r = Inr True \<longleftrightarrow> wm_kind m = Stream_End_Kind)"
  using assms
  by (auto simp: proper_chunk_def split: message_kind.split result_payload.split option.split)

definition sample_piece :: worker_message where
  "sample_piece = (plain_message Stream_Chunk_Kind ''a'' (Some ''r1'') [])\<lparr>wm_payload := ChunkPayload
     \<lparr>ac_samples = [Fin 0], ac_sample_rate_hz = 48000, ac_channels = 1, ac_sequence = 0, ac_is_final = True,
      ac_metadata = []\<rparr>\<rparr>"



section \<open>Starting the service\<close>

lemma start_succeeded:
  assumes "list_all (\<lambda>w. fresh w \<and> pipe_works w) ws" and "start_worker_clients ws = (Inr u, ws', called)"
  shows "ws' \<noteq> [] \<and> list_all running ws' \<and> map worker_id ws' = map worker_id ws"
proof -
  obtain r fin rest where se: "start_each [] ws = (r, fin, rest)" by (cases "start_each [] ws") auto
  have "ws \<noteq> []" using assms(2) by (auto simp: start_worker_clients_def)
  with se assms(2) start_each_fleet [OF assms(1) se] show ?thesis
    by (cases r) (auto simp: start_worker_clients_def Let_def)
qed

lemma time_limit_opt:
  assumes "case v of None \<Rightarrow> True | Some f \<Rightarrow> isfinite f \<and> \<not> bad (float_val f)"
  shows "\<exists>x. time_limit (opt_float v) bad msg = Inr x"
  using assms by (cases v) (simp_all add: time_limit_def opt_float_def)

lemma config_limits:
  assumes "config_ok c"
  shows "\<exists>x. time_limit (opt_float (queue_timeout_seconds c)) (\<lambda>x. x < 0) msg = Inr x"
    and "\<exists>x. time_limit (opt_float (max_inference_seconds c)) (\<lambda>x. x \<le> 0) msg = Inr x"
    and "\<exists>x. time_limit (opt_float (stream_backpressure_timeout_seconds c)) (\<lambda>x. x \<le> 0) msg = Inr x"
    and "positive_int (PInt (or_int (stream_ipc_max_chunks c) 4))"
    and "max_queue_size c = Some n \<Longrightarrow> positive_int (opt_int (max_queue_size c))"
    and "opt_int (max_concurrent_requests c) = PNone \<or> positive_int (opt_int (max_concurrent_requests c))"
proof -
  have f: "case queue_timeout_seconds c of None \<Rightarrow> True | Some f \<Rightarrow> nonnegative_float f"
    "case max_inference_seconds c of None \<Rightarrow> True | Some f \<Rightarrow> positive_float f"
    "case stream_backpressure_timeout_seconds c of None \<Rightarrow> True | Some f \<Rightarrow> positive_float f"
    "case stream_ipc_max_chunks c of None \<Rightarrow> True | Some n \<Rightarrow> n > 0"
    "case max_queue_size c of None \<Rightarrow> True | Some n \<Rightarrow> n > 0"
    "case max_concurrent_requests c of None \<Rightarrow> True | Some n \<Rightarrow> n > 0"
    using assms by (simp_all add: config_ok_def fields_ok_def positive_float_fields_def positive_integer_fields_def)
  show "\<exists>x. time_limit (opt_float (queue_timeout_seconds c)) (\<lambda>x. x < 0) msg = Inr x"
    by (rule time_limit_opt) (use f(1) in \<open>simp add: nonnegative_float_def not_less split: option.splits\<close>)
  show "\<exists>x. time_limit (opt_float (max_inference_seconds c)) (\<lambda>x. x \<le> 0) msg = Inr x"
    by (rule time_limit_opt) (use f(2) in \<open>simp add: positive_float_def not_le split: option.splits\<close>)
  show "\<exists>x. time_limit (opt_float (stream_backpressure_timeout_seconds c)) (\<lambda>x. x \<le> 0) msg = Inr x"
    by (rule time_limit_opt) (use f(3) in \<open>simp add: positive_float_def not_le split: option.splits\<close>)
  show "positive_int (PInt (or_int (stream_ipc_max_chunks c) 4))"
    using f(4) by (cases "stream_ipc_max_chunks c") (simp_all add: positive_int_def or_int_def)
  show "max_queue_size c = Some n \<Longrightarrow> positive_int (opt_int (max_queue_size c))"
    using f(5) by (simp add: positive_int_def opt_int_def)
  show "opt_int (max_concurrent_requests c) = PNone \<or> positive_int (opt_int (max_concurrent_requests c))"
    using f(6) by (cases "max_concurrent_requests c") (simp_all add: positive_int_def opt_int_def)
qed

lemma mk_scheduler_total:
  assumes "ws \<noteq> []" and "distinct (map worker_id ws)" and "list_all running ws" and "positive_int mp"
    and "\<exists>x. time_limit qt (\<lambda>x. x < 0) ''queue_timeout_seconds must be a non-negative finite number'' = Inr x"
    and "\<exists>x. time_limit mi (\<lambda>x. x \<le> 0) ''max_inference_seconds must be a positive finite number'' = Inr x"
    and "mc = PNone \<or> positive_int mc"
  shows "\<exists>s. mk_scheduler ws mp qt mi mc clock = Inr s \<and> sc_workers s = sort_key worker_id ws"
proof -
  have "\<not> list_ex (\<lambda>w. wc_state w \<noteq> READY) ws"
    using assms(3) by (auto simp: list_ex_iff list_all_iff running_def)
  with assms show ?thesis by (auto simp: mk_scheduler_def)
qed

text \<open>C7. Start-up. With a configuration in range that passes the checks of \<open>create_app\<close> and new workers
  with distinct names, either starting a worker fails and its exception is the outcome, or the
  constructors of the runtime and the scheduler accept everything they are given: the runtime is well
  formed, so all that is shown of its interleavings applies, and the service reports itself ready.\<close>

theorem service_starts:
  assumes "config_ok c" and "create_app c free = Inr ()" and "ws \<noteq> []"
    and "list_all (\<lambda>w. fresh w \<and> pipe_works w) ws" and "distinct (map worker_id ws)"
  shows "case start_worker_clients ws of
      (Inl e, _) \<Rightarrow> start_runtime c ws clock = Inl e
    | (Inr _, ws', _) \<Rightarrow> \<exists>a. start_runtime c ws clock = Inr a \<and> runtime_ok a \<and>
        mset (sc_workers (ar_scheduler a)) = mset ws' \<and> fst (readyz True (Some a)) = 200"
proof -
  obtain r ws' called where st: "start_worker_clients ws = (r, ws', called)" by (cases "start_worker_clients ws") auto
  show ?thesis
  proof (cases r)
    case (Inl e)
    with st show ?thesis by (simp add: start_runtime_def)
  next
    case (Inr u)
    from start_succeeded [OF assms(4)] st Inr
    have w: "ws' \<noteq> []" "list_all running ws'" "map worker_id ws' = map worker_id ws" by auto
    from assms(2) obtain n where n: "max_queue_size c = Some n"
      by (auto simp: create_app_def raises split: if_splits)
    note lim = config_limits [OF assms(1)]
    obtain s where s: "mk_scheduler ws' (opt_int (max_queue_size c)) (opt_float (queue_timeout_seconds c))
        (opt_float (max_inference_seconds c)) (opt_int (max_concurrent_requests c)) clock = Inr s"
        "sc_workers s = sort_key worker_id ws'"
      using mk_scheduler_total [OF w(1) _ w(2) lim(5) [OF n] lim(1) lim(2) lim(6)] w(3) assms(5) by metis
    obtain bp where "time_limit (opt_float (stream_backpressure_timeout_seconds c)) (\<lambda>x. x \<le> 0)
        ''stream_backpressure_timeout_seconds must be a positive finite number'' = Inr bp" using lim(3) by blast
    with s w(1) lim(4) obtain a where
      mk: "mk_api_runtime ws' (opt_int (max_queue_size c)) (PInt (or_int (stream_ipc_max_chunks c) 4))
            (opt_float (queue_timeout_seconds c)) (opt_float (max_inference_seconds c))
            (opt_int (max_concurrent_requests c)) (opt_float (stream_backpressure_timeout_seconds c)) clock = Inr a"
      and a: "ar_scheduler a = s"
      by (simp add: mk_api_runtime_def)
    have "list_all (client_fit False) ws'"
      using w(2) by (auto simp: list_all_iff running_def client_fit_def)
    with mk have ok: "runtime_ok a" by (rule mk_api_runtime_ok)
    have "hd ws' \<in> set (sc_workers s)" "wc_state (hd ws') = READY"
      using w(1,2) by (simp_all add: s(2) list_all_iff running_def)
    then have "filter (\<lambda>w. wc_state w = READY) (sc_workers s) \<noteq> []" by (auto simp: filter_empty_conv)
    then have "count_state READY s > 0" by (simp add: count_state_def)
    then have "fst (readyz True (Some a)) = 200" by (simp add: readyz_def take_snapshot_def a)
    with st Inr mk ok a s(2) show ?thesis by (simp add: start_runtime_def)
  qed
qed

definition service_config :: runtime_config where
  "service_config = guarded_config\<lparr>max_queue_size := Some 8\<rparr>"

definition new_fleet :: "worker_client list" where
  "new_fleet = [new_client ''worker0'' [] [Deliver (plain_message Ready_Kind ''worker0'' None [])]]"

theorem service_starts_witness:
  "\<exists>a. start_runtime service_config new_fleet (\<lambda>n. of_nat n) = Inr a \<and> runtime_ok a"
proof -
  have ok: "config_ok service_config"
    using default_config_ok
    by (simp add: service_config_def guarded_config_def config_ok_def fields_ok_def positive_integer_fields_def positive_float_fields_def)
  have app: "create_app service_config None = Inr ()"
    by (simp add: create_app_def service_config_def guarded_config_def validate_bind_auth_policy_def
        validate_tmp_space_def default_config_def api_token_configured_def)
  have fleet: "new_fleet \<noteq> []" "list_all (\<lambda>w. fresh w \<and> pipe_works w) new_fleet" "distinct (map worker_id new_fleet)"
    by (simp_all add: new_fleet_def fresh_def pipe_works_def client_ok_def new_client_def sample_ctx_def)
  have "isOK (fst (start_worker_clients new_fleet))"
    by (simp add: new_fleet_def start_worker_clients_def start_def new_client_def sample_ctx_def sample_process_def
        receive_message_def pop_delivery_def plain_message_def worker_id_def sample_spec_def Let_def)
  with service_starts [OF ok app fleet, of "\<lambda>n. of_nat n"] show ?thesis
    by (auto simp: isOK_iff split: prod.splits)
qed

section \<open>Stopping the service\<close>

text \<open>A runtime that was closed stays closed, whatever happens.\<close>

lemma fold_cancel_closed: "ar_closed (fold cancel_future rids a) = ar_closed a"
  by (induction rids arbitrary: a) simp_all

lemma closed_kept: "ar_closed a \<Longrightarrow> ar_closed (rt_invoke a x)"
proof (cases x)
  case Rt_Close_Finish
  moreover assume "ar_closed a"
  ultimately show ?thesis
    by (cases "close (ar_scheduler a)"; cases "fst (close (ar_scheduler a))")
      (auto simp: rt_close_finish_def fold_cancel_closed)
next
  case (Rt_Cancel rid)
  moreover assume "ar_closed a"
  ultimately show ?thesis
    by (cases "cancel rid (ar_scheduler a)"; cases "fst (cancel rid (ar_scheduler a))")
      (auto simp: rt_cancel_def Let_def)
next
  case (Rt_Dispatch now)
  moreover assume "ar_closed a"
  ultimately show ?thesis
    by (auto simp: dispatch_step_def dispatch_poll_def dispatch_event_def take_future_def dispatch_turn_def
        dispatch_put_def queue_put_def drain_queue_def end_routing_def close_stream_def dispatch_check_def dispatch_set_def
        split: dispatcher.split list.split option.split future.split prod.split sum.split)
qed (auto simp: rt_submit_def rt_submit_stream_def rt_close_begin_def take_message_def
      split: option.split list.split prod.split)

lemma closed_kept_all: "ar_closed a \<Longrightarrow> ar_closed (foldl rt_invoke a xs)"
  by (induction xs arbitrary: a) (simp_all add: closed_kept)

lemma rt_close_ok:
  assumes "runtime_ok a" and "rt_close meanwhile a = (r, b)"
  shows "runtime_ok b \<and> ar_closed b"
proof (cases "ar_closed a")
  case True
  with assms show ?thesis by (simp add: rt_close_def)
next
  case False
  let ?m = "foldl rt_invoke (rt_close_begin a) meanwhile"
  have c: "ar_closed ?m" by (rule closed_kept_all) (simp add: rt_close_begin_def)
  have "runtime_ok ?m"
    using runtime.calls_inv [OF assms(1), of "Rt_Close_Begin # meanwhile"] by simp
  from close_finish_step [OF this c] False assms(2) have "runtime_ok b" by (simp add: rt_close_def)
  moreover have "b = rt_invoke ?m Rt_Close_Finish" using False assms(2) c by (simp add: rt_close_def)
  with closed_kept [OF c, of Rt_Close_Finish] have "ar_closed b" by simp
  ultimately show ?thesis ..
qed

text \<open>C37. Stopping. However the close of the runtime ends and whatever happens meanwhile, afterwards the
  runtime is well formed and closed, the readiness probe answers 503 while the liveness probe still
  answers 200, and a request that passes the checks of the handlers is refused with the public error
  \<open>scheduler_closed\<close> of status 503, which the runtime does not notice; this stays so for good.\<close>

theorem stopped_service_refuses:
  assumes "runtime_ok a" and "stop_runtime meanwhile a = (ready, r, b)" and "token_ok 128 fresh_id"
    and "check_request c fresh_id hid h body = Inr (rid, t)"
  shows "runtime_ok (foldl rt_invoke b xs) \<and> readyz ready (Some (foldl rt_invoke b xs)) = (503, [(''status'', PStr ''not_ready'')]) \<and>
    fst healthz = 200 \<and>
    (\<exists>e. tts_admit c fresh_id hid h body (foldl rt_invoke b xs) = (Inl e, foldl rt_invoke b xs) \<and>
         tts_stream_admit c fresh_id hid h body (foldl rt_invoke b xs) = (Inl e, foldl rt_invoke b xs) \<and>
         map_option fst (handled_exn e) = Some 503)"
proof -
  from assms(2) have b: "\<not> ready" "rt_close meanwhile a = (r, b)" by (auto simp: stop_runtime_def)
  from rt_close_ok [OF assms(1) b(2)] have ok: "runtime_ok b" "ar_closed b" by simp_all
  from closed_kept_all [OF ok(2)] have c: "ar_closed (foldl rt_invoke b xs)" .
  from check_request_cases [OF assms(3), of c hid h body] assms(4)
  have t: "token_ok 128 rid" "strip t \<noteq> []" by (auto simp: passes_checks_def)
  show ?thesis
    using b(1) runtime.calls_inv [OF ok(1), of xs] c
    by (simp add: readyz_def healthz_def tts_admit_def tts_stream_admit_def admit_def assms(4)
        tts_request_built [OF t] rt_submit_def rt_submit_stream_def scheduler_closed_def worker_exn_def
        map_scheduler_error_def scheduler_statuses_def api_exn_def api_error_handler_def public_error_def)
qed

theorem stopped_service_refuses_witness:
  "\<exists>e. tts_admit (default_config\<lparr>require_auth := False\<rparr>) ''id0'' None No_Header '' hello ''
      (snd (snd (stop_runtime [] small_runtime))) = (Inl e, snd (snd (stop_runtime [] small_runtime))) \<and>
    map_option fst (handled_exn e) = Some 503"
proof -
  let ?c = "default_config\<lparr>require_auth := False\<rparr>"
  have id: "token_ok 128 ''id0''" by (simp add: token_ok_def)
  have p: "check_request ?c ''id0'' None No_Header '' hello '' = Inr (''id0'', ''hello'')"
    by (simp add: check_request_def safe_request_id_def strip_def is_space_def verify_bearer_token_def default_config_def)
  obtain ready r b where s: "stop_runtime [] small_runtime = (ready, r, b)"
    by (cases "stop_runtime [] small_runtime") auto
  from stopped_service_refuses [OF mk_api_runtime_ok [OF mk_small_runtime one_worker_fit] s id p, of "[]"]
  show ?thesis by (auto simp: s)
qed

end
