(* ===== verification/Backend_Interface.thy ===== *)
theory Backend_Interface
  imports Worker_Types Lifecycles
begin

text \<open>
  \<open>voxcpm_runtime/backend.py\<close>: the \<open>InferenceBackend\<close> protocol as a record of operations and,
  as the locale \<open>inference_backend\<close>, what the worker process and its callers rely on: generation
  only between \<open>load\<close> and \<open>close\<close>, no reopening, public (backend) errors only, well-formed audio,
  and streams that number their chunks and mark the last one. The generator a \<open>stream\<close> call
  returns is its run to the end: the chunks it yields and the exception that ends it, if any.
\<close>

record 'b backend_ops =
  op_load :: "'b \<Rightarrow> (exn + backend_info) \<times> 'b"
  op_generate :: "worker_operation \<Rightarrow> one_shot \<Rightarrow> 'b \<Rightarrow> (exn + audio_result) \<times> 'b"
  op_stream :: "stream_request \<Rightarrow> 'b \<Rightarrow> (exn + audio_chunk list \<times> exn option) \<times> 'b"
  op_close :: "'b \<Rightarrow> (exn + unit) \<times> 'b"

datatype backend_phase = Created | Loaded | Closed

datatype backend_call =
    Call_Load
  | Call_Generate worker_operation one_shot
  | Call_Stream stream_request
  | Call_Close

fun backend_invoke :: "('b, 'z) backend_ops_scheme \<Rightarrow> 'b \<Rightarrow> backend_call \<Rightarrow> 'b" where
  "backend_invoke ops b Call_Load = snd (op_load ops b)"
| "backend_invoke ops b (Call_Generate x q) = snd (op_generate ops x q b)"
| "backend_invoke ops b (Call_Stream q) = snd (op_stream ops q b)"
| "backend_invoke ops b Call_Close = snd (op_close ops b)"

fun backend_edge :: "backend_phase \<Rightarrow> backend_phase \<Rightarrow> bool" where
  "backend_edge Created p = (p \<in> {Loaded, Closed})"
| "backend_edge Loaded p = (p = Closed)"
| "backend_edge Closed p = False"

text \<open>A finished stream: chunks numbered from 0, the last one final and no other.\<close>

definition stream_shape :: "audio_chunk list \<Rightarrow> bool" where
  "stream_shape cs \<longleftrightarrow>
     cs \<noteq> [] \<and> list_all chunk_ok cs \<and>
     map ac_sequence cs = map int [0..<length cs] \<and>
     map ac_is_final cs = replicate (length cs - 1) False @ [True]"

fun is_backend_exn :: "exn \<Rightarrow> bool" where
  "is_backend_exn (BackendExn _) = True"
| "is_backend_exn _ = False"

text \<open>A public error: a backend error as its constructor builds it.\<close>

fun public_exn :: "exn \<Rightarrow> bool" where
  "public_exn (BackendExn e) = backend_error_ok e"
| "public_exn _ = False"

fun is_state_error :: "exn \<Rightarrow> bool" where
  "is_state_error (BackendExn e) = (be_class e = BackendStateError)"
| "is_state_error _ = False"

locale inference_backend =
  fixes ops :: "('b, 'z) backend_ops_scheme"
    and phase :: "'b \<Rightarrow> backend_phase"
    and inv :: "'b \<Rightarrow> bool"
  assumes load_inv: "inv b \<Longrightarrow> inv (snd (op_load ops b))"
    and generate_inv: "inv b \<Longrightarrow> inv (snd (op_generate ops x q b))"
    and stream_inv: "inv b \<Longrightarrow> inv (snd (op_stream ops s b))"
    and close_inv: "inv b \<Longrightarrow> inv (snd (op_close ops b))"
    and load_phase: "inv b \<Longrightarrow> op_load ops b = (l, b1) \<Longrightarrow>
      (case l of Inr i \<Rightarrow> phase b \<noteq> Closed \<and> phase b1 = Loaded \<and> bi_loaded i
       | Inl e \<Rightarrow> phase b1 = phase b \<and> public_exn e)"
    and generate_phase: "inv b \<Longrightarrow> op_generate ops x q b = (g, b1) \<Longrightarrow>
      phase b1 = phase b \<and>
      (case g of Inr a \<Rightarrow> phase b = Loaded \<and> result_ok a
       | Inl e \<Rightarrow> public_exn e \<and> (phase b \<noteq> Loaded \<longrightarrow> is_state_error e))"
    and stream_phase: "inv b \<Longrightarrow> op_stream ops s b = (g2, b1) \<Longrightarrow>
      phase b1 = phase b \<and>
      (case g2 of
         Inr (cs, fin) \<Rightarrow> phase b = Loaded \<and>
           (case fin of None \<Rightarrow> stream_shape cs | Some e \<Rightarrow> list_all chunk_ok cs \<and> public_exn e)
       | Inl e \<Rightarrow> public_exn e \<and> (phase b \<noteq> Loaded \<longrightarrow> is_state_error e))"
    and close_phase: "inv b \<Longrightarrow> op_close ops b = (k, b1) \<Longrightarrow>
      (case k of Inr _ \<Rightarrow> phase b1 = Closed | Inl e \<Rightarrow> phase b1 = phase b \<and> public_exn e)"
    and close_again: "inv b \<Longrightarrow> phase b = Closed \<Longrightarrow> op_close ops b = (Inr (), b)"
begin

lemma op_inv: "inv b \<Longrightarrow> inv (backend_invoke ops b c)"
  by (cases c) (simp_all add: load_inv generate_inv stream_inv close_inv)

lemma op_edge:
  assumes "inv b"
  shows "phase (backend_invoke ops b c) = phase b \<or> backend_edge (phase b) (phase (backend_invoke ops b c))"
proof (cases c)
  case Call_Load
  obtain r b1 where l: "op_load ops b = (r, b1)" by fastforce
  from load_phase [OF assms l] Call_Load l show ?thesis
    by (cases "phase b"; cases r) auto
next
  case (Call_Generate x q)
  obtain r b1 where l: "op_generate ops x q b = (r, b1)" by fastforce
  from generate_phase [OF assms l] Call_Generate l show ?thesis by simp
next
  case (Call_Stream q)
  obtain r b1 where l: "op_stream ops q b = (r, b1)" by fastforce
  from stream_phase [OF assms l] Call_Stream l show ?thesis by simp
next
  case Call_Close
  obtain r b1 where l: "op_close ops b = (r, b1)" by fastforce
  from close_phase [OF assms l] close_again [OF assms] Call_Close l show ?thesis
    by (cases "phase b"; cases r) auto
qed

sublocale lifecycle_object "backend_invoke ops" inv phase backend_edge
  by unfold_locales (simp_all add: op_inv op_edge)

lemma closed_stays:
  "inv b \<Longrightarrow> phase b = Closed \<Longrightarrow> phase (foldl (backend_invoke ops) b cs) = Closed"
  by (rule calls_final) simp_all

lemma closed_generates_nothing:
  assumes "inv b" and "phase b = Closed"
  shows "\<exists>e. fst (op_generate ops x q (foldl (backend_invoke ops) b cs)) = Inl e \<and> is_state_error e"
proof -
  let ?b = "foldl (backend_invoke ops) b cs"
  obtain r b1 where g: "op_generate ops x q ?b = (r, b1)" by fastforce
  from generate_phase [OF calls_inv [OF assms(1)] g] closed_stays [OF assms, of cs] g show ?thesis
    by (cases r) auto
qed

lemma generate_error_public:
  "inv b \<Longrightarrow> op_generate ops x q b = (Inl e, b1) \<Longrightarrow> public_exn e"
  using generate_phase by force

lemma stream_error_public:
  "inv b \<Longrightarrow> op_stream ops q b = (Inl e, b1) \<Longrightarrow> public_exn e"
  using stream_phase by force

lemma stream_late_error_public:
  assumes "inv b" and "op_stream ops q b = (Inr (cs, Some e), b1)"
  shows "public_exn e"
  using stream_phase [OF assms] by simp

end

end
