(* ===== verification/Fake_Backend.thy ===== *)
theory Fake_Backend
  imports Backend_Interface
begin

text \<open>
  \<open>voxcpm_runtime/fake_backend.py\<close>: the deterministic backend. The digest function
  \<open>hashlib.sha256\<close> of the UTF-8 encoding is the parameter \<open>sha\<close>, of which the code relies on the
  32 byte values (\<open>digest_ok\<close>); a backend object carries it. Generators are their runs, as in \<open>Backend_Interface\<close>.
\<close>

type_synonym digest = "string \<Rightarrow> int list"

definition digest_ok :: "digest \<Rightarrow> bool" where
  "digest_ok sha \<longleftrightarrow> (\<forall>t. length (sha t) = 32 \<and> list_all (\<lambda>b. 0 \<le> b \<and> b < 256) (sha t))"

record fake_backend =
  fb_sha256 :: digest
  fb_failures :: "string list"
  fb_chunk_size :: int
  fb_state :: backend_phase

fun phase_value :: "backend_phase \<Rightarrow> string" where
  "phase_value Created = ''created''"
| "phase_value Loaded = ''loaded''"
| "phase_value Closed = ''closed''"

definition sample_rate_hz :: int where "sample_rate_hz = 48000"
definition sample_count :: nat where "sample_count = 480"
definition default_chunk_size :: int where "default_chunk_size = 120"

definition mk_failure_plan :: "string list option \<Rightarrow> exn + string list" where
  \<comment> \<open>\<open>None\<close> stands for a value that is a string or no sequence\<close>
  "mk_failure_plan operations =
     (case operations of
        None \<Rightarrow> Inl (ValueError ''Fake failure operations must be provided as a sequence'')
      | Some xs \<Rightarrow>
          if list_ex (\<lambda>x. x \<notin> set failure_operations) xs
          then Inl (ValueError ''Fake failure operation is not supported'')
          else if \<not> distinct xs then Inl (ValueError ''Fake failure operations must be unique'')
          else Inr (sort xs))"

definition mk_fake_backend :: "digest \<Rightarrow> string list option \<Rightarrow> pyval \<Rightarrow> exn + fake_backend" where
  "mk_fake_backend sha plan chunk_size =
     (if \<not> is_int chunk_size \<or> is_bool chunk_size \<or> int_of chunk_size \<le> 0
      then Inl (ValueError ''chunk_size must be a positive integer'')
      else Inr \<lparr>fb_sha256 = sha, fb_failures = (case plan of None \<Rightarrow> [] | Some xs \<Rightarrow> xs),
                fb_chunk_size = int_of chunk_size, fb_state = Created\<rparr>)"

section \<open>The canonical form of a request\<close>

fun operation_for_request :: "one_shot \<Rightarrow> string" where
  "operation_for_request (SpeechRequest _) = ''synthesize''"
| "operation_for_request (VoiceDesignRequest _ _) = ''design''"
| "operation_for_request (CloneRequest _ _) = ''clone''"
| "operation_for_request (ContinuationRequest _ _ _) = ''continue_audio''"

definition hex_digit :: "nat \<Rightarrow> char" where
  "hex_digit n = ''0123456789abcdef'' ! n"

definition json_char :: "char \<Rightarrow> string" where
  "json_char c =
     (if ordc c = 34 then [CHR 92, CHR 34]
      else if ordc c = 92 then [CHR 92, CHR 92]
      else if ordc c = 8 then [CHR 92, CHR ''b'']
      else if ordc c = 9 then [CHR 92, CHR ''t'']
      else if ordc c = 10 then [CHR 92, CHR ''n'']
      else if ordc c = 12 then [CHR 92, CHR ''f'']
      else if ordc c = 13 then [CHR 92, CHR ''r'']
      else if ordc c < 32 then CHR 92 # ''u00'' @ [hex_digit (ordc c div 16), hex_digit (ordc c mod 16)]
      else [c])"

definition json_string :: "string \<Rightarrow> string" where
  "json_string s = CHR 34 # concat (map json_char s) @ [CHR 34]"

text \<open>\<open>json.dumps\<close> of a dict of strings in the order given, with compact separators.\<close>

definition json_object :: "(string \<times> string) list \<Rightarrow> string" where
  "json_object members =
     ''{'' @ join '','' (map (\<lambda>(k, v). json_string k @ '':'' @ v) members) @ ''}''"

fun request_members :: "one_shot \<Rightarrow> (string \<times> string) list" where
  "request_members (SpeechRequest t) = [(''text'', json_string t)]"
| "request_members (VoiceDesignRequest t i) =
     [(''instruction'', json_string i), (''text'', json_string t)]"
| "request_members (CloneRequest t r) =
     [(''reference_audio'', json_string (local_path r)), (''text'', json_string t)]"
| "request_members (ContinuationRequest t r u) =
     [(''reference_audio'', json_string (local_path r)), (''reference_transcript'', json_string u),
      (''text'', json_string t)]"

definition canonical_text :: "string \<Rightarrow> one_shot \<Rightarrow> string" where
  "canonical_text operation request =
     json_object [(''operation'', json_string operation),
                  (''payload'', json_object (request_members request))]"

definition canonical_request :: "digest \<Rightarrow> string \<Rightarrow> one_shot \<Rightarrow> int list" where
  "canonical_request sha operation request = sha (canonical_text operation request)"

section \<open>Generation\<close>

definition result_metadata :: "string \<Rightarrow> pyval" where
  "result_metadata operation =
     PTuple (map (\<lambda>(k, v). PTuple [PStr k, PStr v])
       [(''backend'', ''fake''), (''contract_scope'', ''test/fake contract only''),
        (''operation'', operation), (''sample_rate_scope'', ''test/fake contract only'')])"

definition amplitude_nanos :: "int list \<Rightarrow> int" where
  "amplitude_nanos digest = 100000000 + last digest * 50000000 div 255"

definition fake_sample :: "int list \<Rightarrow> nat \<Rightarrow> pyfloat" where
  "fake_sample digest i =
     to_float (of_int ((digest ! (i mod length digest) - 128) * amplitude_nanos digest) / 128000000000)"

definition synthesize_result :: "digest \<Rightarrow> string \<Rightarrow> one_shot \<Rightarrow> exn + audio_result" where
  "synthesize_result sha operation request =
     (let digest = canonical_request sha operation request in
      mk_audio_result (PTuple (map (\<lambda>i. PFloat (fake_sample digest i)) [0..<sample_count]))
        (PInt sample_rate_hz) (PInt 1) (result_metadata operation))"

definition call_normalized :: "string \<Rightarrow> exn + 'a \<Rightarrow> exn + 'a" where
  "call_normalized operation action =
     (case action of
        Inr x \<Rightarrow> Inr x
      | Inl error \<Rightarrow>
          if is_backend_exn error then Inl error
          else if is_Exception error
          then (case normalize_backend_error operation error of
                  Inl e \<Rightarrow> Inl e
                | Inr e \<Rightarrow> Inl (BackendExn e))
          else Inl error)"

definition state_exn :: "string \<Rightarrow> string \<Rightarrow> backend_phase \<Rightarrow> exn" where
  "state_exn msg cd st =
     BackendExn \<lparr>be_class = BackendStateError, be_message = msg, be_code = cd, be_retryable = False,
       be_details = [(''state'', PStr (phase_value st))]\<rparr>"

definition request_exn :: exn where
  "request_exn =
     BackendExn \<lparr>be_class = BackendRequestError, be_message = ''Backend request is invalid.'',
       be_code = default_code BackendRequestError, be_retryable = False,
       be_details = [(''field'', PStr ''request'')]\<rparr>"

definition raise_injected_failure :: "fake_backend \<Rightarrow> string \<Rightarrow> exn + unit" where
  "raise_injected_failure b operation =
     (if operation \<in> set (fb_failures b)
      then Inl (RuntimeError ''backend-private-detail-placeholder'') else Inr ())"

definition fake_info :: "exn + backend_info" where
  "fake_info =
     mk_backend_info (PStr ''fake'') (PStr ''deterministic-test'') (PBool True) (PStr ''fake/cpu-test'')
       (PStr ''fake-backend-deterministic'')
       (PTuple [PStr ''clone'', PStr ''continue_audio'', PStr ''design'', PStr ''stream'', PStr ''synthesize''])
       (PTuple [PTuple [PStr ''contract_scope'', PStr ''test/fake contract only''],
                PTuple [PStr ''sample_rate_scope'', PStr ''test/fake contract only'']])"

definition fake_load :: "fake_backend \<Rightarrow> (exn + backend_info) \<times> fake_backend" where
  "fake_load b =
     (if fb_state b = Closed
      then (Inl (state_exn ''Backend cannot reopen after it has been closed.'' ''backend_closed'' Closed), b)
      else if fb_state b = Loaded then (fake_info, b)
      else case call_normalized ''load'' (raise_injected_failure b ''load'') of
        Inl e \<Rightarrow> (Inl e, b)
      | Inr _ \<Rightarrow> (fake_info, b\<lparr>fb_state := Loaded\<rparr>))"

definition ensure_ready :: "fake_backend \<Rightarrow> exn + unit" where
  "ensure_ready b =
     (case fb_state b of
        Created \<Rightarrow> Inl (state_exn ''Backend must be loaded before generation.'' ''backend_not_loaded'' Created)
      | Closed \<Rightarrow> Inl (state_exn ''Backend cannot generate after it has been closed.'' ''backend_closed'' Closed)
      | Loaded \<Rightarrow> Inr ())"

definition generation_result :: "fake_backend \<Rightarrow> string \<Rightarrow> one_shot \<Rightarrow> exn + audio_result" where
  "generation_result b operation request =
     and_then (raise_injected_failure b operation) (\<lambda>_. synthesize_result (fb_sha256 b) operation request)"

text \<open>
  \<open>_run\<close>. The expected request type of an operation is the one whose operation it is
  (\<open>operation_for_request\<close>); \<open>fake_generate\<close> is the method named by a worker operation.
\<close>

definition run :: "string \<Rightarrow> one_shot \<Rightarrow> fake_backend \<Rightarrow> exn + audio_result" where
  "run operation request b =
     and_then (ensure_ready b) (\<lambda>_.
       if operation_for_request request \<noteq> operation then Inl request_exn
       else call_normalized operation (generation_result b operation request))"

definition fake_generate ::
    "worker_operation \<Rightarrow> one_shot \<Rightarrow> fake_backend \<Rightarrow> (exn + audio_result) \<times> fake_backend" where
  "fake_generate x request b = (run (operation_name x) request b, b)"

definition stream_result :: "fake_backend \<Rightarrow> string \<Rightarrow> one_shot \<Rightarrow> exn + audio_result" where
  "stream_result b operation request =
     and_then (raise_injected_failure b ''stream'') (\<lambda>_. synthesize_result (fb_sha256 b) operation request)"

text \<open>\<open>_chunks\<close>, from the sample position \<open>start\<close> on.\<close>

function chunks_from :: "audio_result \<Rightarrow> nat \<Rightarrow> nat \<Rightarrow> audio_chunk list \<times> exn option" where
  "chunks_from result width start =
     (if start < length (ar_samples result) \<and> 0 < width
      then
        (let stop = min (start + width) (length (ar_samples result)) in
         case mk_audio_chunk (samples_arg (take (stop - start) (drop start (ar_samples result))))
                (PInt (ar_sample_rate_hz result)) (PInt (ar_channels result))
                (PInt (int (start div width))) (PBool (stop = length (ar_samples result)))
                (meta_arg (ar_metadata result)) of
           Inl e \<Rightarrow> ([], Some e)
         | Inr chunk \<Rightarrow>
            (let (rest, fin) = chunks_from result width (start + width) in (chunk # rest, fin)))
      else ([], None))"
  by pat_completeness auto

termination by (relation "measure (\<lambda>(r, _, start). length (ar_samples r) - start)") auto

declare chunks_from.simps [simp del]

definition fake_stream ::
    "stream_request \<Rightarrow> fake_backend \<Rightarrow> (exn + audio_chunk list \<times> exn option) \<times> fake_backend" where
  "fake_stream s b =
     (case s of StreamRequest request \<Rightarrow>
       (and_then (ensure_ready b) (\<lambda>_.
        and_then (call_normalized ''stream''
          (stream_result b (operation_for_request request) request)) (\<lambda>result.
        Inr (chunks_from result (nat (fb_chunk_size b)) 0))), b))"

definition fake_close :: "fake_backend \<Rightarrow> (exn + unit) \<times> fake_backend" where
  "fake_close b =
     (if fb_state b = Closed then (Inr (), b)
      else case call_normalized ''close'' (raise_injected_failure b ''close'') of
        Inl e \<Rightarrow> (Inl e, b)
      | Inr _ \<Rightarrow> (Inr (), b\<lparr>fb_state := Closed\<rparr>))"

definition fake_ops :: "fake_backend backend_ops" where
  "fake_ops =
     \<lparr>op_load = fake_load, op_generate = fake_generate, op_stream = fake_stream,
      op_close = fake_close\<rparr>"

section \<open>Lemmas\<close>

text \<open>The errors above are what the constructors return for these arguments.\<close>

lemma state_exn_init:
  assumes "cd \<in> {''backend_closed'', ''backend_not_loaded''}" and "strip msg \<noteq> []"
  shows "(case init_backend_error BackendStateError (PStr msg) (PStr cd) PNone
      (Some [(PStr ''state'', PStr (phase_value st))]) of Inl e \<Rightarrow> e | Inr e \<Rightarrow> BackendExn e) = state_exn msg cd st"
  using assms
  by (auto simp: state_exn_def init_backend_error_def normalize_details_def default_retryable_def
      is_alpha_ascii_def strip_def is_space_def Let_def)

lemma call_normalized_Inr [simp]: "call_normalized op (Inr x) = Inr x"
  by (simp add: call_normalized_def)

lemma call_normalized_eq_Inr [raises]: "call_normalized op m = Inr x \<longleftrightarrow> m = Inr x"
  by (cases m) (auto simp: call_normalized_def split: sum.splits)

lemma normalize_backend_error_public:
  assumes "\<not> is_backend_exn x"
  shows "\<exists>b. normalize_backend_error op x = Inr b \<and> backend_error_ok b"
proof -
  have "\<exists>b. normalize_backend_error op x = Inr b"
    by (cases x) (use assms in \<open>auto simp: normalize_backend_error_def Let_def init_backend_error_def
        normalize_details_def default_retryable_def strip_def is_space_def is_alpha_ascii_def\<close>)
  moreover have "backend_error_ok b" if "normalize_backend_error op x = Inr b" for b
    using that assms init_backend_error_ok by (cases x) (auto simp: normalize_backend_error_def Let_def)
  ultimately show ?thesis by blast
qed

lemma call_normalized_public:
  assumes "call_normalized op m = Inl e" and "\<And>x. m = Inl x \<Longrightarrow> is_Exception x \<and> \<not> is_backend_exn x"
  shows "public_exn e"
proof (cases m)
  case (Inl x)
  with assms(2) have ex: "is_Exception x" "\<not> is_backend_exn x" by auto
  from normalize_backend_error_public [OF ex(2), of op] Inl assms(1) ex show ?thesis
    by (auto simp: call_normalized_def)
qed (use assms in simp)

lemma state_exn_public:
  "safe_token_match cd \<Longrightarrow> strip msg \<noteq> [] \<Longrightarrow> public_exn (state_exn msg cd st)"
  by (simp add: state_exn_def backend_error_ok_def details_ok_def strip_def is_space_def)

lemma request_exn_public: "public_exn request_exn"
  by (simp add: request_exn_def backend_error_ok_def details_ok_def strip_def is_space_def is_alpha_ascii_def)

lemma fake_samples_finite:
  assumes "digest_ok sha"
  shows "isfinite (fake_sample (sha t) i)"
proof -
  let ?d = "sha t"
  have len: "length ?d = 32" and rng: "\<And>b. b \<in> set ?d \<Longrightarrow> 0 \<le> b \<and> b < 256"
    using assms by (auto simp: digest_ok_def list_all_iff)
  have last: "last ?d \<in> set ?d" using len by (intro last_in_set) auto
  have amp: "0 \<le> amplitude_nanos ?d" "amplitude_nanos ?d \<le> 150000000"
    using rng [OF last] by (auto simp: amplitude_nanos_def)
  have "?d ! (i mod length ?d) \<in> set ?d" using len by (intro nth_mem) simp
  with rng have b: "0 \<le> ?d ! (i mod length ?d)" "?d ! (i mod length ?d) < 256" by blast+
  then have "\<bar>?d ! (i mod length ?d) - 128\<bar> \<le> 128" by simp
  then have "\<bar>(?d ! (i mod length ?d) - 128) * amplitude_nanos ?d\<bar> \<le> 128 * 150000000"
    unfolding abs_mult using amp by (intro mult_mono) simp_all
  then have "\<bar>of_int ((?d ! (i mod length ?d) - 128) * amplitude_nanos ?d)\<bar> \<le> (of_int 128000000000 :: rat)"
    by (simp only: of_int_abs [symmetric] of_int_le_iff)
  then have "\<bar>of_int ((?d ! (i mod length ?d) - 128) * amplitude_nanos ?d) / 128000000000\<bar> \<le> (of_int 1 :: rat)"
    by simp
  then show ?thesis unfolding fake_sample_def by (rule to_float_isfinite) simp_all
qed

lemma normalize_sample_finite:
  "isfinite f \<Longrightarrow> normalize_sample (PFloat f) = Inr (if float_val f = 0 then Fin 0 else f)"
  by (simp add: normalize_sample_def)

lemma synthesize_result_ok:
  assumes "digest_ok sha"
  shows "\<exists>a. synthesize_result sha operation request = Inr a \<and> result_ok a \<and>
    length (ar_samples a) = sample_count \<and> ar_sample_rate_hz a = sample_rate_hz \<and> ar_channels a = 1"
proof -
  let ?d = "canonical_request sha operation request"
  let ?n = "\<lambda>f. if float_val f = 0 then Fin 0 else f"
  have fin: "isfinite (fake_sample ?d i)" for i
    using fake_samples_finite [OF assms] by (simp add: canonical_request_def)
  have "map_raise normalize_sample (map (\<lambda>i. PFloat (fake_sample ?d i)) is) =
      Inr (map (?n \<circ> fake_sample ?d) is)" for "is"
    by (induction "is") (simp_all add: normalize_sample_finite fin)
  then have "normalize_samples (PTuple (map (\<lambda>i. PFloat (fake_sample ?d i)) [0..<sample_count])) =
      Inr (map (?n \<circ> fake_sample ?d) [0..<sample_count])"
    by (simp add: sample_count_def del: upt_rec_numeral)
  moreover have "\<exists>md. normalize_metadata (result_metadata operation) f = Inr md" for f
    by (simp add: result_metadata_def require_text_def strip_def is_space_def)
  then obtain md where md: "normalize_metadata (result_metadata operation) ''metadata'' = Inr md" by blast
  ultimately have "synthesize_result sha operation request =
      Inr \<lparr>ar_samples = map (?n \<circ> fake_sample ?d) [0..<sample_count], ar_sample_rate_hz = sample_rate_hz,
           ar_channels = 1, ar_metadata = md\<rparr>"
    by (simp add: synthesize_result_def mk_audio_result_def require_positive_integer_def
        sample_rate_hz_def Let_def)
  moreover from this have "result_ok (case synthesize_result sha operation request of Inr a \<Rightarrow> a)"
    using mk_audio_result_ok by (auto simp: synthesize_result_def Let_def)
  ultimately show ?thesis by (simp add: sample_count_def del: upt_rec_numeral)
qed

lemma chunks_from_spec:
  assumes "result_ok r" and "0 < w" and "start \<le> length (ar_samples r)"
  shows "\<exists>cs. chunks_from r w start = (cs, None) \<and>
    concat (map ac_samples cs) = drop start (ar_samples r) \<and> list_all chunk_ok cs \<and>
    map ac_sequence cs = map int [start div w..<start div w + length cs] \<and>
    (cs = [] \<longleftrightarrow> start = length (ar_samples r)) \<and>
    map ac_is_final cs = (if cs = [] then [] else replicate (length cs - 1) False @ [True]) \<and>
    list_all (\<lambda>c. ac_sample_rate_hz c = ar_sample_rate_hz r \<and> ac_channels c = ar_channels r \<and>
      length (ac_samples c) \<le> w) cs"
  using assms
proof (induction r w start rule: chunks_from.induct)
  case (1 r w start)
  show ?case
  proof (cases "start < length (ar_samples r)")
    case False
    then have "chunks_from r w start = ([], None)" by (simp add: chunks_from.simps [of r w start])
    with False 1(4) show ?thesis by simp
  next
    case True
    define stop where "stop = min (start + w) (length (ar_samples r))"
    define c where "c = \<lparr>ac_samples = take (stop - start) (drop start (ar_samples r)),
      ac_sample_rate_hz = ar_sample_rate_hz r, ac_channels = ar_channels r,
      ac_sequence = int (start div w), ac_is_final = (stop = length (ar_samples r)),
      ac_metadata = ar_metadata r\<rparr>"
    have "chunk_ok c"
      using 1(2,3) True
      by (auto simp: chunk_ok_def c_def result_ok_def stop_def list_all_iff dest!: in_set_takeD in_set_dropD)
    from mk_audio_chunk_id [OF this] have mk: "mk_audio_chunk
        (samples_arg (take (stop - start) (drop start (ar_samples r))))
        (PInt (ar_sample_rate_hz r)) (PInt (ar_channels r)) (PInt (int (start div w)))
        (PBool (stop = length (ar_samples r))) (meta_arg (ar_metadata r)) = Inr c"
      by (simp add: c_def)
    show ?thesis
    proof (cases "start + w < length (ar_samples r)")
      case more: True
      with 1(1) [OF _ stop_def mk] True 1(2,3) obtain cs where cs: "chunks_from r w (start + w) = (cs, None)"
        "concat (map ac_samples cs) = drop (start + w) (ar_samples r)" "list_all chunk_ok cs"
        "map ac_sequence cs = map int [(start + w) div w..<(start + w) div w + length cs]"
        "cs = [] \<longleftrightarrow> start + w = length (ar_samples r)"
        "map ac_is_final cs = (if cs = [] then [] else replicate (length cs - 1) False @ [True])"
        "list_all (\<lambda>c. ac_sample_rate_hz c = ar_sample_rate_hz r \<and> ac_channels c = ar_channels r \<and>
          length (ac_samples c) \<le> w) cs"
        by auto
      have "chunks_from r w start = (c # cs, None)"
        using True 1(3) mk cs(1) by (simp add: chunks_from.simps [of r w start] stop_def [symmetric])
      moreover have "take w (drop start (ar_samples r)) @ drop (start + w) (ar_samples r) = drop start (ar_samples r)"
        by (metis add.commute append_take_drop_id drop_drop)
      moreover have "[start div w..<start div w + length (c # cs)] =
          start div w # [(start + w) div w..<(start + w) div w + length cs]"
        using 1(3) by (subst upt_conv_Cons) simp_all
      moreover have "replicate (length cs) False = False # replicate (length cs - 1) False"
        using cs(5) more by (cases cs) auto
      ultimately show ?thesis using cs more \<open>chunk_ok c\<close> 1(3)
        by (auto simp: c_def stop_def simp del: upt_Suc)
    next
      case last: False
      then have "chunks_from r w (start + w) = ([], None)" by (simp add: chunks_from.simps [of r w "start + w"])
      then have "chunks_from r w start = ([c], None)"
        using True 1(3) mk by (simp add: chunks_from.simps [of r w start] stop_def [symmetric])
      with last True \<open>chunk_ok c\<close> show ?thesis by (auto simp: c_def stop_def)
    qed
  qed
qed

definition fake_ok :: "fake_backend \<Rightarrow> bool" where
  "fake_ok b \<longleftrightarrow> digest_ok (fb_sha256 b) \<and> 0 < fb_chunk_size b"

lemma injected_failure_public:
  "call_normalized x (raise_injected_failure b y) = Inl e \<Longrightarrow> public_exn e"
  by (erule call_normalized_public) (auto simp: raise_injected_failure_def split: if_splits)

lemma generation_public:
  assumes "digest_ok sha"
    and "call_normalized x (and_then (raise_injected_failure b y) (\<lambda>_. synthesize_result sha z q)) = Inl e"
  shows "public_exn e"
proof (rule call_normalized_public [OF assms(2)])
  fix v assume "and_then (raise_injected_failure b y) (\<lambda>_. synthesize_result sha z q) = Inl v"
  with synthesize_result_ok [OF assms(1), of z q] show "is_Exception v \<and> \<not> is_backend_exn v"
    by (auto simp: raise_injected_failure_def split: if_splits)
qed

lemma fake_info_ok: "\<exists>i. fake_info = Inr i \<and> bi_loaded i"
  by (simp add: fake_info_def mk_backend_info_def require_text_def strip_def is_space_def)

lemma ensure_ready_cases:
  "case ensure_ready b of Inr _ \<Rightarrow> fb_state b = Loaded | Inl e \<Rightarrow> fb_state b \<noteq> Loaded \<and> is_state_error e \<and> public_exn e"
  by (cases "fb_state b") (simp_all add: ensure_ready_def state_exn_public strip_def is_space_def is_alpha_ascii_def,
      simp_all add: state_exn_def)

lemma run_spec:
  assumes "fake_ok b"
  shows "case run x q b of
      Inr a \<Rightarrow> fb_state b = Loaded \<and> result_ok a
    | Inl e \<Rightarrow> public_exn e \<and> (fb_state b \<noteq> Loaded \<longrightarrow> is_state_error e)"
proof (cases "fb_state b = Loaded")
  case False
  with ensure_ready_cases [of b] show ?thesis by (auto simp: run_def split: sum.splits)
next
  case True
  then have er: "ensure_ready b = Inr ()" by (simp add: ensure_ready_def)
  from assms have d: "digest_ok (fb_sha256 b)" by (simp add: fake_ok_def)
  show ?thesis
  proof (cases "run x q b")
    case (Inl e)
    with er True generation_public [OF d, of x b x x q e] show ?thesis
      by (auto simp: run_def generation_result_def request_exn_public split: if_splits)
  next
    case (Inr a)
    with er have "synthesize_result (fb_sha256 b) x q = Inr a"
      by (auto simp: run_def generation_result_def raises)
    with synthesize_result_ok [OF d, of x q] Inr True show ?thesis by auto
  qed
qed

lemma fake_stream_spec:
  assumes "fake_ok b"
  shows "case fst (fake_stream s b) of
      Inr (cs, fin) \<Rightarrow> fb_state b = Loaded \<and> fin = None \<and> stream_shape cs
    | Inl e \<Rightarrow> public_exn e \<and> (fb_state b \<noteq> Loaded \<longrightarrow> is_state_error e)"
proof (cases s)
  case (StreamRequest q)
  from assms have d: "digest_ok (fb_sha256 b)" and w: "0 < nat (fb_chunk_size b)"
    by (simp_all add: fake_ok_def)
  show ?thesis
  proof (cases "fb_state b = Loaded")
    case False
    with ensure_ready_cases [of b] StreamRequest show ?thesis
      by (auto simp: fake_stream_def split: sum.splits)
  next
    case True
    then have er: "ensure_ready b = Inr ()" by (simp add: ensure_ready_def)
    let ?m = "call_normalized ''stream'' (stream_result b (operation_for_request q) q)"
    show ?thesis
    proof (cases ?m)
      case (Inl e)
      with er True generation_public [OF d, of "''stream''" b "''stream''" "operation_for_request q" q e]
      show ?thesis by (simp add: StreamRequest fake_stream_def stream_result_def)
    next
      case (Inr a)
      then have "synthesize_result (fb_sha256 b) (operation_for_request q) q = Inr a"
        by (auto simp: stream_result_def raises)
      with synthesize_result_ok [OF d, of "operation_for_request q" q]
      have a: "result_ok a" "length (ar_samples a) = sample_count" by auto
      from chunks_from_spec [OF a(1) w, of 0] a(2) obtain cs where
        "chunks_from a (nat (fb_chunk_size b)) 0 = (cs, None)" "list_all chunk_ok cs" "cs \<noteq> []"
        "map ac_sequence cs = map int [0..<length cs]"
        "map ac_is_final cs = replicate (length cs - 1) False @ [True]"
        by (auto simp: sample_count_def)
      with er True Inr show ?thesis
        by (simp add: StreamRequest fake_stream_def stream_shape_def)
    qed
  qed
qed

lemma fake_load_spec:
  "case fst (fake_load b) of
     Inr i \<Rightarrow> fb_state b \<noteq> Closed \<and> fb_state (snd (fake_load b)) = Loaded \<and> bi_loaded i
   | Inl e \<Rightarrow> snd (fake_load b) = b \<and> public_exn e"
proof -
  obtain i where fi: "fake_info = Inr i" "bi_loaded i" using fake_info_ok by blast
  show ?thesis
    by (cases "fb_state b"; cases "call_normalized ''load'' (raise_injected_failure b ''load'')")
      (simp_all add: fake_load_def injected_failure_public fi state_exn_public strip_def is_space_def
        is_alpha_ascii_def)
qed

lemma fake_close_spec:
  "case fst (fake_close b) of
     Inr _ \<Rightarrow> fb_state (snd (fake_close b)) = Closed
   | Inl e \<Rightarrow> snd (fake_close b) = b \<and> public_exn e"
  by (auto simp: fake_close_def injected_failure_public split: sum.splits)

lemma fake_keeps_ok:
  "fake_ok (snd (fake_load b)) = fake_ok b" "fake_ok (snd (fake_close b)) = fake_ok b"
  "snd (fake_generate x q b) = b" "snd (fake_stream s b) = b"
  by (simp_all add: fake_ok_def fake_load_def fake_close_def fake_generate_def fake_stream_def
      split: sum.splits stream_request.split)

text \<open>The fake backend provides the contract.\<close>

interpretation fake: inference_backend fake_ops fb_state fake_ok
proof
  fix b s x q l b1 g g2 k
  assume ok: "fake_ok b"
  show "fake_ok (snd (op_load fake_ops b))" "fake_ok (snd (op_close fake_ops b))"
    "fake_ok (snd (op_generate fake_ops x q b))" "fake_ok (snd (op_stream fake_ops s b))"
    using ok by (simp_all add: fake_ops_def fake_keeps_ok)
  show "case l of Inr i \<Rightarrow> fb_state b \<noteq> Closed \<and> fb_state b1 = Loaded \<and> bi_loaded i
       | Inl e \<Rightarrow> fb_state b1 = fb_state b \<and> public_exn e"
    if "op_load fake_ops b = (l, b1)"
    using fake_load_spec [of b] that by (auto simp: fake_ops_def split: sum.splits)
  show "fb_state b1 = fb_state b \<and>
      (case g of Inr a \<Rightarrow> fb_state b = Loaded \<and> result_ok a
       | Inl e \<Rightarrow> public_exn e \<and> (fb_state b \<noteq> Loaded \<longrightarrow> is_state_error e))"
    if "op_generate fake_ops x q b = (g, b1)"
    using run_spec [OF ok, of "operation_name x" q] that by (auto simp: fake_ops_def fake_generate_def)
  show "fb_state b1 = fb_state b \<and>
      (case g2 of
         Inr (cs, fin) \<Rightarrow> fb_state b = Loaded \<and>
           (case fin of None \<Rightarrow> stream_shape cs | Some e \<Rightarrow> list_all chunk_ok cs \<and> public_exn e)
       | Inl e \<Rightarrow> public_exn e \<and> (fb_state b \<noteq> Loaded \<longrightarrow> is_state_error e))"
    if "op_stream fake_ops s b = (g2, b1)"
  proof -
    from that fake_keeps_ok(4) [of s b] have "b1 = b" by (simp add: fake_ops_def)
    with that fake_stream_spec [OF ok, of s] show ?thesis
      by (auto simp: fake_ops_def split: sum.splits)
  qed
  show "case k of Inr _ \<Rightarrow> fb_state b1 = Closed | Inl e \<Rightarrow> fb_state b1 = fb_state b \<and> public_exn e"
    if "op_close fake_ops b = (k, b1)"
    using fake_close_spec [of b] that by (auto simp: fake_ops_def split: sum.splits)
  show "op_close fake_ops b = (Inr (), b)" if "fb_state b = Closed"
    using that by (simp add: fake_ops_def fake_close_def)
qed

section \<open>The canonical form is unambiguous\<close>

definition hex_value :: "char \<Rightarrow> nat" where
  "hex_value c = (if is_dec c then ordc c - 48 else ordc c - 87)"

text \<open>Reading back one character of a serialised string.\<close>

definition json_unescape :: "(char \<times> char) list" where
  "json_unescape =
     [(CHR 34, char_of (34 :: nat)), (CHR 92, char_of (92 :: nat)), (CHR ''b'', char_of (8 :: nat)),
      (CHR ''t'', char_of (9 :: nat)), (CHR ''n'', char_of (10 :: nat)), (CHR ''f'', char_of (12 :: nat)),
      (CHR ''r'', char_of (13 :: nat))]"

fun json_decode :: "string \<Rightarrow> (char \<times> string) option" where
  "json_decode [] = None"
| "json_decode (x # r) =
     (if ordc x \<noteq> 92 then Some (x, r)
      else case r of
        [] \<Rightarrow> None
      | e # r1 \<Rightarrow>
          (case map_of json_unescape e of
             Some c \<Rightarrow> Some (c, r1)
           | None \<Rightarrow>
              (case r1 of
                 z1 # z2 # h # l # r2 \<Rightarrow> Some (char_of (16 * hex_value h + hex_value l), r2)
               | _ \<Rightarrow> None)))"

lemma hex_value_digit: "n < 16 \<Longrightarrow> hex_value (hex_digit n) = n"
proof -
  assume "n < 16"
  then have "n \<in> set [0..<16]" by simp
  moreover have "list_all (\<lambda>n. hex_value (hex_digit n) = n) [0..<16]"
    by code_simp
  ultimately show ?thesis by (simp only: list_all_iff)
qed

lemma ordc_char: "ordc c = n \<Longrightarrow> char_of n = c"
  by auto

lemma json_decode_escaped:
  "ordc c \<in> {34, 92, 8, 9, 10, 12, 13} \<Longrightarrow> json_decode (json_char c @ x) = Some (c, x)"
  by (auto simp: json_char_def json_unescape_def ordc_char)

lemma json_decode_hex:
  "ordc x = 92 \<Longrightarrow> json_decode (x # CHR ''u'' # z1 # z2 # h # l # r) =
     Some (char_of (16 * hex_value h + hex_value l), r)"
  by (simp add: json_unescape_def)

lemma json_decode_plain: "ordc x \<noteq> 92 \<Longrightarrow> json_decode (x # r) = Some (x, r)"
  by simp

lemma json_decode_control:
  assumes "ordc c \<notin> {34, 92, 8, 9, 10, 12, 13}" and "ordc c < 32"
  shows "json_decode (json_char c @ x) = Some (c, x)"
proof -
  have "16 * (ordc c div 16) + ordc c mod 16 = ordc c" by simp
  moreover from assms(2) have "ordc c div 16 < 16" by simp
  moreover from assms have "json_char c = CHR 92 # CHR ''u'' # CHR ''0'' # CHR ''0'' #
      [hex_digit (ordc c div 16), hex_digit (ordc c mod 16)]"
    by (simp add: json_char_def)
  ultimately show ?thesis
    by (simp add: json_decode_hex hex_value_digit del: json_decode.simps)
qed

declare json_decode.simps [simp del]

lemma json_decode_char: "json_decode (json_char c @ x) = Some (c, x)"
proof (cases "ordc c \<in> {34, 92, 8, 9, 10, 12, 13}")
  case True
  then show ?thesis by (rule json_decode_escaped)
next
  case no: False
  show ?thesis
  proof (cases "ordc c < 32")
    case True
    with no show ?thesis by (rule json_decode_control)
  next
    case False
    with no have "json_char c = [c]" "ordc c \<noteq> 92" by (simp_all add: json_char_def)
    then show ?thesis by (simp only: append.simps json_decode_plain not_False_eq_True)
  qed
qed

lemma json_char_prefix: "json_char c @ x = json_char d @ y \<Longrightarrow> c = d \<and> x = y"
  by (drule arg_cong [where f = json_decode]) (simp only: json_decode_char option.inject prod.inject)

lemma json_char_head: "\<exists>h r. json_char c = h # r \<and> ordc h \<noteq> 34"
  by (simp add: json_char_def)

lemma json_char_not_quote: "ordc q = 34 \<Longrightarrow> json_char c @ x \<noteq> q # y"
  using json_char_head [of c] by auto

lemma json_body_append:
  assumes "ordc q = 34"
  shows "concat (map json_char s) @ q # x = concat (map json_char t) @ q # y \<Longrightarrow> s = t \<and> x = y"
proof (induction s arbitrary: t)
  case Nil
  then show ?case
    using json_char_not_quote [OF assms] by (cases t) (simp_all, metis append.assoc)
next
  case (Cons c s)
  show ?case
  proof (cases t)
    case Nil
    with Cons.prems json_char_not_quote [OF assms] show ?thesis by simp
  next
    case t: (Cons d t')
    with Cons.prems have "c = d \<and> concat (map json_char s) @ q # x = concat (map json_char t') @ q # y"
      by (intro json_char_prefix) simp
    with Cons.IH t show ?thesis by blast
  qed
qed

lemma json_string_append [simp]: "json_string s @ x = json_string t @ y \<longleftrightarrow> s = t \<and> x = y"
  using json_body_append [of "CHR 34" s x t y] by (auto simp: json_string_def)

lemma json_string_suffix [simp]: "json_string s @ x = json_string t \<longleftrightarrow> s = t \<and> x = []"
  using json_string_append [of s x t "[]"] by simp

lemma json_string_inject [simp]: "json_string s = json_string t \<longleftrightarrow> s = t"
  using json_string_append [of s "[]" t "[]"] by simp

lemma json_object_split:
  "json_object ((k, v) # ms) @ x =
     CHR ''{'' # json_string k @ CHR '':'' # v @
       (if ms = [] then CHR ''}'' # x else CHR '','' # tl (json_object ms) @ x)"
  by (cases ms) (simp_all add: json_object_def)

section \<open>Properties\<close>

text \<open>The text whose digest seeds the samples determines the request: two operations and requests
  with the same canonical text are equal, whatever characters their texts hold.\<close>

theorem canonical_text_injective:
  "canonical_text x q = canonical_text y r \<longleftrightarrow> x = y \<and> q = r"
proof
  assume eq: "canonical_text x q = canonical_text y r"
  have top: "canonical_text z s = CHR ''{'' # json_string ''operation'' @ CHR '':'' # json_string z @
      CHR '','' # json_string ''payload'' @ CHR '':'' # json_object (request_members s) @ ''}''" for z s
    by (simp add: canonical_text_def json_object_def)
  from eq have xy: "x = y" and pl: "json_object (request_members q) = json_object (request_members r)"
    unfolding top by simp_all
  from pl have "q = r"
    by (cases q; cases r) (simp_all add: json_object_def audio_reference.equality)
  with xy show "x = y \<and> q = r" by simp
qed simp

text \<open>Streaming is the one-shot result in pieces. On a loaded backend without injected stream
  failure, the stream of a request yields chunks of at most the configured size, numbered from 0, of
  which exactly the last is final, whose samples together are those of the result that the request's
  one-shot operation returns.\<close>

theorem fake_stream_reassembles:
  assumes "fake_ok b" and "fb_state b = Loaded" and "''stream'' \<notin> set (fb_failures b)"
  shows "\<exists>cs a. fst (fake_stream (StreamRequest q) b) = Inr (cs, None) \<and>
    concat (map ac_samples cs) = ar_samples a \<and> length (ar_samples a) = sample_count \<and>
    list_all (\<lambda>c. int (length (ac_samples c)) \<le> fb_chunk_size b) cs \<and>
    map ac_sequence cs = map int [0..<length cs] \<and>
    map ac_is_final cs = replicate (length cs - 1) False @ [True] \<and>
    (operation_for_request q \<notin> set (fb_failures b) \<longrightarrow> run (operation_for_request q) q b = Inr a)"
proof -
  from assms(1) have d: "digest_ok (fb_sha256 b)" and w: "0 < nat (fb_chunk_size b)"
    by (simp_all add: fake_ok_def)
  from synthesize_result_ok [OF d, of "operation_for_request q" q] obtain a where
    a: "synthesize_result (fb_sha256 b) (operation_for_request q) q = Inr a" "result_ok a"
      "length (ar_samples a) = sample_count" by blast
  from chunks_from_spec [OF a(2) w, of 0] a(3) obtain cs where cs:
    "chunks_from a (nat (fb_chunk_size b)) 0 = (cs, None)" "concat (map ac_samples cs) = ar_samples a"
    "map ac_sequence cs = map int [0..<length cs]" "cs \<noteq> []"
    "map ac_is_final cs = replicate (length cs - 1) False @ [True]"
    "list_all (\<lambda>c. length (ac_samples c) \<le> nat (fb_chunk_size b)) cs"
    by (auto simp: sample_count_def list_all_iff)
  have er: "ensure_ready b = Inr ()" using assms(2) by (simp add: ensure_ready_def)
  have "fst (fake_stream (StreamRequest q) b) = Inr (cs, None)"
    using er assms(3) a(1) cs(1)
    by (simp add: fake_stream_def stream_result_def raise_injected_failure_def)
  moreover have "operation_for_request q \<notin> set (fb_failures b) \<longrightarrow> run (operation_for_request q) q b = Inr a"
    using er a(1) by (simp add: run_def generation_result_def raise_injected_failure_def)
  moreover from cs(6) have "list_all (\<lambda>c. int (length (ac_samples c)) \<le> fb_chunk_size b) cs"
    using w by (simp add: list_all_iff) (metis int_nat_eq le_nat_iff less_imp_le zero_less_nat_eq)
  ultimately show ?thesis using cs a(3) by blast
qed

definition zero_digest :: digest where
  "zero_digest t = replicate 32 0"

lemma zero_digest_ok: "digest_ok zero_digest"
  by (simp add: digest_ok_def zero_digest_def list_all_iff)

definition loaded_fake :: "string list \<Rightarrow> fake_backend" where
  "loaded_fake failures =
     \<lparr>fb_sha256 = zero_digest, fb_failures = failures, fb_chunk_size = 120, fb_state = Loaded\<rparr>"

lemma loaded_fake_ok: "fake_ok (loaded_fake failures)"
  by (simp add: fake_ok_def loaded_fake_def zero_digest_ok)

theorem fake_stream_reassembles_witness:
  "\<exists>cs. fst (fake_stream (StreamRequest (SpeechRequest ''hi'')) (loaded_fake [])) = Inr (cs, None) \<and>
     length (concat (map ac_samples cs)) = 480"
  using fake_stream_reassembles [OF loaded_fake_ok, of "[]" "SpeechRequest ''hi''"]
  by (auto simp: loaded_fake_def sample_count_def)

text \<open>The life of the fake backend: from its construction on, whatever is called in whatever
  order, it is never reopened after a successful \<open>close\<close>, and from then on every generation, one-shot
  or stream, raises a backend state error.\<close>

theorem fake_backend_closed_for_good:
  assumes "mk_fake_backend sha plan chunk_size = Inr b0" and "digest_ok sha"
    and "b = foldl (backend_invoke fake_ops) b0 calls" and "fst (fake_close b) = Inr ()"
    and "c = foldl (backend_invoke fake_ops) (snd (fake_close b)) later"
  shows "fb_state c = Closed \<and> (\<exists>e. fst (fake_generate x q c) = Inl e \<and> is_state_error e) \<and>
    (\<exists>e. fst (fake_stream s c) = Inl e \<and> is_state_error e)"
proof -
  from assms(1,2) have "fake_ok b0"
    by (cases chunk_size) (auto simp: mk_fake_backend_def fake_ok_def split: if_splits)
  then have ok: "fake_ok b" unfolding assms(3) by (rule fake.calls_inv)
  let ?d = "snd (fake_close b)"
  have okd: "fake_ok ?d" using ok by (simp add: fake_keeps_ok)
  have cl: "fb_state ?d = Closed" using fake_close_spec [of b] assms(4) by simp
  have okc: "fake_ok c" unfolding assms(5) by (rule fake.calls_inv [OF okd])
  have clc: "fb_state c = Closed" unfolding assms(5) by (rule fake.closed_stays [OF okd cl])
  from run_spec [OF okc, of "operation_name x" q] clc
  have "\<exists>e. fst (fake_generate x q c) = Inl e \<and> is_state_error e"
    by (auto simp: fake_generate_def split: sum.splits)
  moreover from fake_stream_spec [OF okc, of s] clc
  have "\<exists>e. fst (fake_stream s c) = Inl e \<and> is_state_error e" by (auto split: sum.splits)
  ultimately show ?thesis using clc by blast
qed

theorem fake_backend_closed_for_good_witness:
  "\<exists>b0. mk_fake_backend zero_digest None (PInt 120) = Inr b0 \<and>
     fb_state (foldl (backend_invoke fake_ops) (snd (fake_close b0)) [Call_Load, Call_Close]) = Closed"
proof -
  let ?b = "\<lparr>fb_sha256 = zero_digest, fb_failures = [], fb_chunk_size = 120, fb_state = Created\<rparr>"
  have mk: "mk_fake_backend zero_digest None (PInt 120) = Inr ?b" by (simp add: mk_fake_backend_def)
  have cl: "fst (fake_close ?b) = Inr ()" by (simp add: fake_close_def raise_injected_failure_def)
  have "?b = foldl (backend_invoke fake_ops) ?b []" by simp
  from fake_backend_closed_for_good [OF mk zero_digest_ok this cl refl, of "[Call_Load, Call_Close]"]
  show ?thesis using mk by blast
qed

lemma normalize_runtime_error:
  assumes "safe_token_match op"
  shows "normalize_backend_error op (RuntimeError m) =
    Inr \<lparr>be_class = BackendExecutionError, be_message = ''Backend execution failed.'',
       be_code = ''backend_execution_failed'', be_retryable = False,
       be_details = [(''exception_type'', PStr ''RuntimeError''), (''operation'', PStr op)]\<rparr>"
proof -
  have "safe_token ''RuntimeError'' y = ''RuntimeError''" for y
    by (simp add: safe_token_def is_alpha_ascii_def)
  moreover have "safe_token op y = op" for y using assms by (simp add: safe_token_def)
  ultimately show ?thesis
    by (simp add: normalize_backend_error_def init_backend_error_def normalize_details_def
        default_retryable_def strip_def is_space_def is_alpha_ascii_def Let_def)
qed

text \<open>An injected failure surfaces as a backend execution error that names the operation and the
  exception class and nothing else, and leaves the backend as it was: the private detail of the
  underlying exception does not occur.\<close>

theorem fake_failure_is_public:
  assumes "fb_state b = Loaded" and "operation_for_request q = operation_name x"
    and "operation_name x \<in> set (fb_failures b)"
  shows "fake_generate x q b =
    (Inl (BackendExn \<lparr>be_class = BackendExecutionError, be_message = ''Backend execution failed.'',
       be_code = ''backend_execution_failed'', be_retryable = False,
       be_details = [(''exception_type'', PStr ''RuntimeError''),
                     (''operation'', PStr (operation_name x))]\<rparr>), b)"
proof -
  have "safe_token_match (operation_name x)" by (cases x) (simp_all add: is_alpha_ascii_def is_dec_def)
  then have "normalize_backend_error (operation_name x) (RuntimeError m) =
    Inr \<lparr>be_class = BackendExecutionError, be_message = ''Backend execution failed.'',
       be_code = ''backend_execution_failed'', be_retryable = False,
       be_details = [(''exception_type'', PStr ''RuntimeError''),
                     (''operation'', PStr (operation_name x))]\<rparr>" for m
    by (rule normalize_runtime_error)
  with assms show ?thesis
    by (simp add: fake_generate_def run_def ensure_ready_def generation_result_def
        raise_injected_failure_def call_normalized_def)
qed

theorem fake_failure_is_public_witness:
  "\<exists>e. fst (fake_generate Synthesize (SpeechRequest ''hi'') (loaded_fake [''synthesize''])) = Inl (BackendExn e) \<and>
     be_code e = ''backend_execution_failed''"
  using fake_failure_is_public [of "loaded_fake [''synthesize'']" "SpeechRequest ''hi''" Synthesize]
  by (simp add: loaded_fake_def)

end
