(* ===== verification/Worker_Process.thy ===== *)
theory Worker_Process
  imports Fake_Backend Worker_Client
begin

text \<open>
  \<open>voxcpm_runtime/worker_process.py\<close>: the main function of a worker process, over any backend
  given as its operations. The control connection is the list of what \<open>recv\<close> yields (at the end
  of the list it raises \<open>EOFError\<close>, the parent having closed the pipe), the result queue the
  messages put so far and the outcomes of the \<open>put\<close> calls to come (\<open>False\<close>: the queue raises and
  the process exits through \<open>SystemExit\<close>; past the end of the list every \<open>put\<close> succeeds). Building
  the real backend (\<open>_create_real_backend\<close>) needs torch and the model: its result is an argument.
\<close>

datatype command = Cmd_Shutdown | Cmd_Request worker_request | Cmd_Other | Recv_Fails exn

record child_io =
  io_out :: "worker_message list"
  io_puts :: "bool list"

definition put_message :: "worker_message \<Rightarrow> child_io \<Rightarrow> (exn + unit) \<times> child_io" where
  "put_message m io =
     (case io_puts io of
        False # rest \<Rightarrow> (Inl (SystemExit 1), io\<lparr>io_puts := rest\<rparr>)
      | _ \<Rightarrow> (Inr (), io\<lparr>io_out := io_out io @ [m], io_puts := tl (io_puts io)\<rparr>))"

section \<open>Error data and metadata\<close>

definition backend_error_data :: "backend_error \<Rightarrow> exn + worker_error_data" where
  "backend_error_data e =
     mk_worker_error_data (PStr (be_code e)) (PStr (be_message e)) (PBool (be_retryable e))
       (sort_key fst (be_details e))"

definition unexpected_error_data :: "exn \<Rightarrow> worker_error_data" where
  "unexpected_error_data e =
     (let name = exn_type_name e;
          safe_name = (if str_isidentifier name \<and> length name \<le> 64 then name else ''UnknownWorkerError'') in
      \<lparr>wd_code = ''worker_execution_failed'', wd_message = ''Worker execution failed.'',
       wd_retryable = False, wd_details = [(''exception_type'', PStr safe_name)]\<rparr>)"

definition ready_metadata :: "backend_info \<Rightarrow> metadata" where
  "ready_metadata i =
     [(''backend'', PStr (bi_backend i)), (''implementation'', PStr (bi_implementation i)),
      (''device'', PStr (bi_device i)),
      (''model_id'', (case bi_model_id i of None \<Rightarrow> PNone | Some m \<Rightarrow> PStr m)),
      (''capabilities'', PStr (join '','' (bi_capabilities i)))]"

definition child_cuda_environment :: "bootstrap_spec \<Rightarrow> (string, string) dict" where
  "child_cuda_environment spec =
     (case bs_gpu spec of
        None \<Rightarrow> []
      | Some g \<Rightarrow>
          [(''CUDA_VISIBLE_DEVICES'', show_int g), (''VOXCPM_DEVICE'', ''cuda''),
           (''VOXCPM_GPU_DEVICES'', ''0''), (''VOXCPM_WORKERS'', ''1'')])"

definition create_fake_backend :: "digest \<Rightarrow> bootstrap_spec \<Rightarrow> exn + fake_backend" where
  "create_fake_backend sha spec =
     and_then (mk_failure_plan (Some (bs_failures spec))) (\<lambda>plan.
       mk_fake_backend sha (Some plan) (PInt default_chunk_size))"

section \<open>One request\<close>

definition chunk_reply :: "string \<Rightarrow> string \<Rightarrow> audio_chunk \<Rightarrow> worker_message" where
  "chunk_reply w rid chunk =
     \<lparr>wm_kind = Stream_Chunk_Kind, wm_worker_id = w, wm_request_id = Some rid,
      wm_payload = ChunkPayload chunk, wm_error = None, wm_metadata = []\<rparr>"

definition result_reply :: "string \<Rightarrow> string \<Rightarrow> audio_result \<Rightarrow> worker_message" where
  "result_reply w rid r =
     \<lparr>wm_kind = Result_Kind, wm_worker_id = w, wm_request_id = Some rid,
      wm_payload = ResultPayload r, wm_error = None, wm_metadata = []\<rparr>"

fun put_all :: "worker_message list \<Rightarrow> child_io \<Rightarrow> (exn + unit) \<times> child_io" where
  "put_all [] io = (Inr (), io)"
| "put_all (m # ms) io =
     (case put_message m io of
        (Inl e, io1) \<Rightarrow> (Inl e, io1)
      | (Inr _, io1) \<Rightarrow> put_all ms io1)"

definition execute_request ::
    "('b, 'z) backend_ops_scheme \<Rightarrow> worker_request \<Rightarrow> string \<Rightarrow> 'b \<Rightarrow> child_io \<Rightarrow> (exn + unit) \<times> 'b \<times> child_io" where
  "execute_request ops q w b io =
     (if wr_operation q = Stream
      then (case wr_payload q of
              StreamPayload s \<Rightarrow>
               (case op_stream ops s b of
                  (Inl e, b1) \<Rightarrow> (Inl e, b1, io)
                | (Inr (chunks, fin), b1) \<Rightarrow>
                   (case put_all (map (chunk_reply w (wr_id q)) chunks) io of
                      (Inl e, io1) \<Rightarrow> (Inl e, b1, io1)
                    | (Inr _, io1) \<Rightarrow>
                       (case fin of
                          Some e \<Rightarrow> (Inl e, b1, io1)
                        | None \<Rightarrow>
                            (let (r, io2) = put_message (plain_message Stream_End_Kind w (Some (wr_id q)) []) io1 in
                             (r, b1, io2)))))
            | OneShotPayload _ \<Rightarrow> \<comment> \<open>excluded by the constructor of the request\<close>
                (Inl (TypeError ''stream payload''), b, io))
      else (case wr_payload q of
              OneShotPayload p \<Rightarrow>
               (case op_generate ops (wr_operation q) p b of
                  (Inl e, b1) \<Rightarrow> (Inl e, b1, io)
                | (Inr a, b1) \<Rightarrow>
                    (let (r, io1) = put_message (result_reply w (wr_id q) a) io in (r, b1, io1)))
            | StreamPayload _ \<Rightarrow> \<comment> \<open>excluded by the constructor of the request\<close>
                (Inl (TypeError ''one-shot payload''), b, io)))"

section \<open>The loop\<close>

text \<open>The \<open>except\<close> clauses around one request: the error message put in answer to it.\<close>

definition error_reply :: "string \<Rightarrow> string \<Rightarrow> exn \<Rightarrow> exn + worker_message" where
  "error_reply w rid e =
     (case e of
        BackendExn x \<Rightarrow> and_then (backend_error_data x) (\<lambda>d. Inr (error_message w (Some rid) d))
      | _ \<Rightarrow> Inr (error_message w (Some rid) (unexpected_error_data e)))"

fun serve ::
    "('b, 'z) backend_ops_scheme \<Rightarrow> string \<Rightarrow> command list \<Rightarrow> 'b \<Rightarrow> child_io \<Rightarrow> (exn + unit) \<times> 'b \<times> child_io" where
  "serve ops w [] b io = (Inl EOFError, b, io)"
| "serve ops w (Recv_Fails e # _) b io = (Inl e, b, io)"
| "serve ops w (Cmd_Shutdown # _) b io =
     (case op_close ops b of
        (Inl e, b1) \<Rightarrow> (Inl e, b1, io)
      | (Inr _, b1) \<Rightarrow>
          (let (r, io1) = put_message (plain_message Shutdown_Ack_Kind w None []) io in (r, b1, io1)))"
| "serve ops w (Cmd_Other # _) b io = (Inl (TypeError ''worker control message is invalid''), b, io)"
| "serve ops w (Cmd_Request q # cs) b io =
     (case execute_request ops q w b io of
        (Inr _, b1, io1) \<Rightarrow> serve ops w cs b1 io1
      | (Inl e, b1, io1) \<Rightarrow>
         (case error_reply w (wr_id q) e of
            Inl e2 \<Rightarrow> (Inl e2, b1, io1)
          | Inr m \<Rightarrow>
             (case put_message m io1 of
                (Inl e2, io2) \<Rightarrow> (Inl e2, b1, io2)
              | (Inr _, io2) \<Rightarrow> serve ops w cs b1 io2)))"

text \<open>The outer \<open>except\<close> clauses: \<open>EOFError\<close> ends the process quietly, anything else is reported.\<close>

definition report :: "string \<Rightarrow> exn + unit \<Rightarrow> child_io \<Rightarrow> child_io" where
  "report w r io =
     (case r of
        Inr _ \<Rightarrow> io
      | Inl EOFError \<Rightarrow> io
      | Inl e \<Rightarrow> snd (put_message (error_message w None (unexpected_error_data e)) io))"

text \<open>
  The whole process, from the outcome of \<open>_create_backend\<close>: the queue and the backend at its exit.
  Nothing is raised out of it; the \<open>finally\<close> block closes the backend and drops its errors.
\<close>

definition worker_process_main ::
    "('b, 'z) backend_ops_scheme \<Rightarrow> exn + 'b \<Rightarrow> string \<Rightarrow> command list \<Rightarrow> child_io \<Rightarrow> 'b option \<times> child_io" where
  "worker_process_main ops created w commands io =
     (case created of
        Inl e \<Rightarrow> (None, report w (Inl e) io)
      | Inr b \<Rightarrow>
         (let (r, b2, io2) =
            (case op_load ops b of
               (Inl e, b1) \<Rightarrow> (Inl e, b1, io)
             | (Inr info, b1) \<Rightarrow>
                (case put_message (plain_message Ready_Kind w None (ready_metadata info)) io of
                   (Inl e, io1) \<Rightarrow> (Inl e, b1, io1)
                 | (Inr _, io1) \<Rightarrow> serve ops w commands b1 io1)) in
          (Some (snd (op_close ops b2)), report w r io2)))"

section \<open>Replies\<close>

text \<open>An answer to a request: chunks, then exactly one terminal message, all under its id.\<close>

definition answers :: "string \<Rightarrow> worker_request \<Rightarrow> worker_message list \<Rightarrow> bool" where
  "answers w q ms \<longleftrightarrow>
     (\<exists>chunks m. ms = map (chunk_reply w (wr_id q)) chunks @ [m] \<and> terminal_kind (wm_kind m) \<and>
        wm_worker_id m = w \<and> wm_request_id m = Some (wr_id q))"

lemma put_message_free:
  "io_puts io = [] \<Longrightarrow> put_message m io = (Inr (), io\<lparr>io_out := io_out io @ [m]\<rparr>)"
  by (cases io) (simp add: put_message_def)

lemma put_all_free: "io_puts io = [] \<Longrightarrow> put_all ms io = (Inr (), io\<lparr>io_out := io_out io @ ms\<rparr>)"
  by (induction ms arbitrary: io) (simp_all add: put_message_free)

lemma safe_token_chars:
  "safe_token_match s \<Longrightarrow> list_all (\<lambda>c. is_alpha_ascii c \<or> is_dec c \<or> c = CHR ''_'') s \<and> s \<noteq> [] \<and> length s \<le> 64"
  by (cases s) auto

lemma safe_token_ok: "safe_token_match s \<Longrightarrow> token_ok 64 s"
  using safe_token_chars [of s]
  by (auto simp: token_ok_def list_all_iff is_alpha_ascii_def is_dec_def)

lemma backend_error_data_ok:
  assumes "backend_error_ok e"
  shows "backend_error_data e = Inr \<lparr>wd_code = be_code e, wd_message = be_message e,
    wd_retryable = be_retryable e, wd_details = be_details e\<rparr>"
proof -
  from assms have "require_token (PStr (be_code e)) ''code'' 64 = Inr (be_code e)"
    by (simp add: backend_error_ok_def require_token_Inr safe_token_ok)
  with assms show ?thesis
    by (simp add: backend_error_data_def mk_worker_error_data_def backend_error_ok_def details_ok_sorted_id)
qed

lemma error_reply_ok:
  assumes "public_exn e \<or> \<not> is_backend_exn e"
  shows "\<exists>m. error_reply w rid e = Inr m \<and> wm_kind m = Error_Kind \<and> wm_worker_id m = w \<and>
    wm_request_id m = Some rid"
  using assms backend_error_data_ok by (cases e) (auto simp: error_reply_def error_message_def)

text \<open>A queue at the start of a process.\<close>

definition fresh_io :: child_io where
  "fresh_io = \<lparr>io_out = [], io_puts = []\<rparr>"

context inference_backend
begin

lemma execute_request_spec:
  assumes "inv b" and "io_puts io = []" and "worker_request_ok q"
    and "execute_request ops q w b io = (r, b1, io1)"
  shows "inv b1 \<and> phase b1 = phase b \<and> io_puts io1 = [] \<and>
    (case r of
       Inr _ \<Rightarrow> (\<exists>ms. io_out io1 = io_out io @ ms \<and> answers w q ms)
     | Inl e \<Rightarrow> public_exn e \<and> (\<exists>chunks. io_out io1 = io_out io @ map (chunk_reply w (wr_id q)) chunks))"
proof (cases "wr_payload q")
  case (StreamPayload s)
  with assms(3) have op: "wr_operation q = Stream" by (simp add: worker_request_ok_def)
  obtain g b2 where st: "op_stream ops s b = (g, b2)" by fastforce
  note ph = stream_phase [OF assms(1) st]
  have inv2: "inv b2" using stream_inv [OF assms(1), of s] st by simp
  show ?thesis
  proof (cases g)
    case (Inl e)
    with assms(2,4) op StreamPayload st ph inv2 show ?thesis
      by (auto simp: execute_request_def intro!: exI [of _ "[]"])
  next
    case (Inr cf)
    obtain chunks fin where cf: "cf = (chunks, fin)" by (cases cf)
    let ?ms = "map (chunk_reply w (wr_id q)) chunks"
    from assms(2) have put: "put_all ?ms io = (Inr (), io\<lparr>io_out := io_out io @ ?ms\<rparr>)" by (rule put_all_free)
    show ?thesis
    proof (cases fin)
      case None
      with assms(2,4) op StreamPayload st put Inr cf
      have "r = Inr ()" "b1 = b2" "io_puts io1 = []"
        "io_out io1 = io_out io @ ?ms @ [plain_message Stream_End_Kind w (Some (wr_id q)) []]"
        by (auto simp: execute_request_def put_message_free)
      moreover have "answers w q (?ms @ [plain_message Stream_End_Kind w (Some (wr_id q)) []])"
        by (auto simp: answers_def plain_message_def terminal_kind_def)
      ultimately show ?thesis using ph inv2 by auto
    next
      case (Some e)
      with assms(2,4) op StreamPayload st put Inr cf
      have "r = Inl e" "b1 = b2" "io_puts io1 = []" "io_out io1 = io_out io @ ?ms"
        by (auto simp: execute_request_def)
      with ph inv2 Inr cf Some show ?thesis by auto
    qed
  qed
next
  case (OneShotPayload p)
  with assms(3) have op: "wr_operation q \<noteq> Stream" by (simp add: worker_request_ok_def)
  obtain g b2 where st: "op_generate ops (wr_operation q) p b = (g, b2)" by fastforce
  note ph = generate_phase [OF assms(1) st]
  have inv2: "inv b2" using generate_inv [OF assms(1)] st by (metis snd_conv)
  show ?thesis
  proof (cases g)
    case (Inl e)
    with assms(2,4) op OneShotPayload st ph inv2 show ?thesis
      by (auto simp: execute_request_def intro!: exI [of _ "[]"])
  next
    case (Inr a)
    with assms(2,4) op OneShotPayload st
    have "r = Inr ()" "b1 = b2" "io_puts io1 = []" "io_out io1 = io_out io @ [result_reply w (wr_id q) a]"
      by (auto simp: execute_request_def put_message_free)
    moreover have "answers w q [result_reply w (wr_id q) a]"
      by (auto simp: answers_def result_reply_def terminal_kind_def intro!: exI [of _ "[]"])
    ultimately show ?thesis using ph inv2 by auto
  qed
qed

text \<open>Serving the requests of a session, then whatever follows.\<close>

lemma serve_requests:
  assumes "inv b" and "io_puts io = []" and "list_all worker_request_ok qs"
  shows "\<exists>b1 io1 replies. serve ops w (map Cmd_Request qs @ cs) b io = serve ops w cs b1 io1 \<and>
    inv b1 \<and> phase b1 = phase b \<and> io_puts io1 = [] \<and>
    io_out io1 = io_out io @ concat replies \<and> list_all2 (answers w) qs replies"
  using assms
proof (induction qs arbitrary: b io)
  case Nil
  then show ?case by (intro exI [of _ b] exI [of _ io] exI [of _ "[]"]) simp
next
  case (Cons q qs)
  obtain r b2 io2 where ex: "execute_request ops q w b io = (r, b2, io2)"
    by (cases "execute_request ops q w b io") auto
  from Cons.prems have qok: "worker_request_ok q" and rest: "list_all worker_request_ok qs" by auto
  note sp = execute_request_spec [OF Cons.prems(1,2) qok ex]
  have "\<exists>io3 ms. serve ops w (map Cmd_Request (q # qs) @ cs) b io =
      serve ops w (map Cmd_Request qs @ cs) b2 io3 \<and> io_puts io3 = [] \<and>
      io_out io3 = io_out io @ ms \<and> answers w q ms"
  proof (cases r)
    case (Inr u)
    with sp obtain ms where "io_out io2 = io_out io @ ms" "answers w q ms" by auto
    with sp ex Inr show ?thesis by (intro exI [of _ io2] exI [of _ ms]) simp
  next
    case (Inl e)
    with sp obtain chunks where ch: "io_out io2 = io_out io @ map (chunk_reply w (wr_id q)) chunks"
      and pe: "public_exn e" by auto
    from error_reply_ok [of e w "wr_id q"] pe obtain m where m: "error_reply w (wr_id q) e = Inr m"
      "wm_kind m = Error_Kind" "wm_worker_id m = w" "wm_request_id m = Some (wr_id q)" by blast
    let ?ms = "map (chunk_reply w (wr_id q)) chunks @ [m]"
    have "answers w q ?ms" using m(2-4) unfolding answers_def terminal_kind_def
      by (intro exI [of _ chunks] exI [of _ m]) simp
    moreover have "put_message m io2 = (Inr (), io2\<lparr>io_out := io_out io2 @ [m]\<rparr>)"
      using sp by (intro put_message_free) simp
    ultimately show ?thesis using sp ex Inl m(1) ch
      by (intro exI [of _ "io2\<lparr>io_out := io_out io2 @ [m]\<rparr>"] exI [of _ ?ms]) simp
  qed
  then obtain io3 ms where step: "serve ops w (map Cmd_Request (q # qs) @ cs) b io =
      serve ops w (map Cmd_Request qs @ cs) b2 io3" "io_puts io3 = []"
      "io_out io3 = io_out io @ ms" "answers w q ms" by blast
  from sp have "inv b2" by blast
  from Cons.IH [OF this step(2) rest] obtain b1 io1 replies where
    "serve ops w (map Cmd_Request qs @ cs) b2 io3 = serve ops w cs b1 io1" "inv b1" "phase b1 = phase b2"
    "io_puts io1 = []" "io_out io1 = io_out io3 @ concat replies" "list_all2 (answers w) qs replies" by blast
  with step sp show ?case
    by (intro exI [of _ b1] exI [of _ io1] exI [of _ "ms # replies"]) simp
qed

text \<open>A whole session: the backend loads, and closes whenever it is asked to.\<close>

lemma session_answers:
  assumes "inv b" and "op_load ops b = (Inr info, b1)" and "list_all worker_request_ok qs"
    and "\<And>b. inv b \<Longrightarrow> fst (op_close ops b) = Inr ()"
  shows "\<exists>replies b2. worker_process_main ops (Inr b) w (map Cmd_Request qs @ Cmd_Shutdown # later) fresh_io =
      (Some b2, \<lparr>io_out = plain_message Ready_Kind w None (ready_metadata info) #
                  concat replies @ [plain_message Shutdown_Ack_Kind w None []], io_puts = []\<rparr>) \<and>
    list_all2 (answers w) qs replies \<and> phase b2 = Closed \<and> inv b2"
proof -
  define io1 where "io1 = \<lparr>io_out = [plain_message Ready_Kind w None (ready_metadata info)], io_puts = []\<rparr>"
  have p1: "put_message (plain_message Ready_Kind w None (ready_metadata info)) fresh_io = (Inr (), io1)"
    by (simp add: put_message_free fresh_io_def io1_def)
  have inv1: "inv b1" using load_inv [OF assms(1)] assms(2) by simp
  from serve_requests [OF inv1 _ assms(3), of io1 w "Cmd_Shutdown # later"] obtain b2 io2 replies
    where sv: "serve ops w (map Cmd_Request qs @ Cmd_Shutdown # later) b1 io1 = serve ops w (Cmd_Shutdown # later) b2 io2"
      and io2: "io_puts io2 = []" "io_out io2 = io_out io1 @ concat replies"
      and rep: "list_all2 (answers w) qs replies" and inv2: "inv b2"
    by (auto simp: io1_def)
  obtain b3 where cl: "op_close ops b2 = (Inr (), b3)" using assms(4) [OF inv2] by (metis prod.collapse)
  have b3: "phase b3 = Closed" "inv b3" using close_phase [OF inv2 cl] close_inv [OF inv2] cl by auto
  have "op_close ops b3 = (Inr (), b3)" by (rule close_again [OF b3(2,1)])
  moreover have "serve ops w (Cmd_Shutdown # later) b2 io2 =
      (Inr (), b3, io2\<lparr>io_out := io_out io2 @ [plain_message Shutdown_Ack_Kind w None []]\<rparr>)"
    using cl io2(1) by (simp add: put_message_free)
  ultimately have "worker_process_main ops (Inr b) w (map Cmd_Request qs @ Cmd_Shutdown # later) fresh_io =
      (Some b3, io2\<lparr>io_out := io_out io2 @ [plain_message Shutdown_Ack_Kind w None []]\<rparr>)"
    using assms(2) p1 sv by (simp add: worker_process_main_def report_def)
  with io2 rep b3 show ?thesis
    by (intro exI [of _ replies] exI [of _ b3]) (simp add: io1_def)
qed

lemma execute_request_inv:
  assumes "inv b" and "execute_request ops q w b io = (r, b1, io1)"
  shows "inv b1"
proof -
  have "b1 \<in> {b} \<union> range (\<lambda>s. snd (op_stream ops s b)) \<union> range (\<lambda>(x, p). snd (op_generate ops x p b))"
    using assms(2)
    by (auto simp: execute_request_def Let_def image_iff split: worker_payload.splits prod.splits
        sum.splits option.splits if_splits) (metis snd_conv)+
  with assms(1) stream_inv generate_inv show ?thesis by auto
qed

lemma serve_inv: "inv b \<Longrightarrow> serve ops w cs b io = (r, b1, io1) \<Longrightarrow> inv b1"
proof (induction cs arbitrary: b io)
  case Nil
  then show ?case by simp
next
  case (Cons c cs)
  show ?case
  proof (cases c)
    case Cmd_Shutdown
    obtain k b2 where "op_close ops b = (k, b2)" by fastforce
    with Cons.prems close_inv [of b] Cmd_Shutdown show ?thesis
      by (auto split: sum.splits prod.splits)
  next
    case (Cmd_Request q)
    obtain k b2 io2 where ex: "execute_request ops q w b io = (k, b2, io2)"
      by (cases "execute_request ops q w b io") auto
    from execute_request_inv [OF Cons.prems(1) this] Cons.IH [of b2] Cons.prems(2) Cmd_Request ex
    show ?thesis by (auto split: sum.splits prod.splits)
  qed (use Cons.prems in auto)
qed

text \<open>Whatever the parent sends and however the queue fails, the process ends with a backend on
  which \<open>close\<close> has been called last.\<close>

lemma main_closes:
  assumes "inv b" and "worker_process_main ops (Inr b) w commands io = (ob, io1)"
  shows "\<exists>b2. inv b2 \<and> ob = Some (snd (op_close ops b2))"
proof -
  obtain l b1 where ld: "op_load ops b = (l, b1)" by fastforce
  have "inv b1" using load_inv [OF assms(1)] ld by simp
  with assms(2) ld show ?thesis
    by (auto simp: worker_process_main_def split: sum.splits prod.splits dest: serve_inv)
qed

end

text \<open>The contract again, for a fake backend of a given failure plan.\<close>

definition fake_fit :: "string list \<Rightarrow> fake_backend \<Rightarrow> bool" where
  "fake_fit fs b \<longleftrightarrow> fake_ok b \<and> fb_failures b = fs"

lemma fake_fit_keeps:
  assumes "fake_fit fs b"
  shows "fake_fit fs (snd (op_load fake_ops b))" "fake_fit fs (snd (op_generate fake_ops x q b))"
    "fake_fit fs (snd (op_stream fake_ops s b))" "fake_fit fs (snd (op_close fake_ops b))"
proof -
  have "fb_failures (snd (fake_load b)) = fb_failures b" "fb_failures (snd (fake_close b)) = fb_failures b"
    by (simp_all add: fake_load_def fake_close_def split: sum.splits)
  with assms show "fake_fit fs (snd (op_load fake_ops b))" "fake_fit fs (snd (op_generate fake_ops x q b))"
    "fake_fit fs (snd (op_stream fake_ops s b))" "fake_fit fs (snd (op_close fake_ops b))"
    by (simp_all add: fake_fit_def fake_ops_def fake_keeps_ok)
qed

interpretation planned: inference_backend fake_ops fb_state "fake_fit fs" for fs
  by unfold_locales
    (simp_all add: fake_fit_keeps, simp_all add: fake_fit_def fake.load_phase fake.generate_phase
      fake.stream_phase fake.close_phase fake.close_again)

text \<open>What a session answers is what the scheduler's accounting asks of the result queue.\<close>

lemma session_identified:
  "list_all2 (answers w) qs replies \<Longrightarrow> answers_identified (map Deliver (concat replies))"
  by (induction qs replies rule: list_all2_induct)
    (auto simp: answers_identified_def answers_def chunk_reply_def list_all_iff)

section \<open>Properties\<close>

definition fake_process :: "digest \<Rightarrow> bootstrap_spec \<Rightarrow> command list \<Rightarrow> child_io \<Rightarrow> fake_backend option \<times> child_io" where
  "fake_process sha spec commands io =
     worker_process_main fake_ops (create_fake_backend sha spec) (bs_worker_id spec) commands io"

definition bootstrap_ok :: "bootstrap_spec \<Rightarrow> bool" where
  "bootstrap_ok spec \<longleftrightarrow>
     set (bs_failures spec) \<subseteq> set failure_operations \<and> distinct (bs_failures spec)"

lemma create_fake_backend_ok:
  "bootstrap_ok spec \<Longrightarrow> create_fake_backend sha spec =
     Inr \<lparr>fb_sha256 = sha, fb_failures = sort (bs_failures spec), fb_chunk_size = default_chunk_size,
          fb_state = Created\<rparr>"
  by (auto simp: create_fake_backend_def mk_failure_plan_def mk_fake_backend_def bootstrap_ok_def
      default_chunk_size_def list_ex_iff)

text \<open>The session of a worker with the fake backend whose load and close do not fail: it announces
  itself, answers every request it is sent, in order, by chunks and exactly one terminal message that
  all carry the id of that request, acknowledges the shutdown, and exits with its backend closed. A
  generation that fails is answered by an error message and does not end the session.\<close>

theorem worker_answers_every_request:
  assumes "digest_ok sha" and "bootstrap_ok spec" and "''load'' \<notin> set (bs_failures spec)"
    and "''close'' \<notin> set (bs_failures spec)" and "list_all worker_request_ok qs"
  shows "\<exists>info replies b. fake_process sha spec (map Cmd_Request qs @ Cmd_Shutdown # later) fresh_io =
      (Some b, \<lparr>io_out = plain_message Ready_Kind (bs_worker_id spec) None (ready_metadata info) #
                  concat replies @ [plain_message Shutdown_Ack_Kind (bs_worker_id spec) None []],
               io_puts = []\<rparr>) \<and>
    list_all2 (answers (bs_worker_id spec)) qs replies \<and> fb_state b = Closed"
proof -
  define b0 where "b0 = \<lparr>fb_sha256 = sha, fb_failures = sort (bs_failures spec),
    fb_chunk_size = default_chunk_size, fb_state = Created\<rparr>"
  have fit: "fake_fit (fb_failures b0) b0"
    using assms(1) by (simp add: b0_def fake_fit_def fake_ok_def default_chunk_size_def)
  from fake_info_ok obtain info where info: "fake_info = Inr info" by blast
  have ld: "op_load fake_ops b0 = (Inr info, b0\<lparr>fb_state := Loaded\<rparr>)"
    using assms(3) info by (simp add: fake_ops_def fake_load_def raise_injected_failure_def b0_def)
  have "fst (op_close fake_ops b) = Inr ()" if "fake_fit (fb_failures b0) b" for b
    using that assms(4) by (auto simp: fake_ops_def fake_close_def fake_fit_def raise_injected_failure_def b0_def)
  moreover have "create_fake_backend sha spec = Inr b0"
    using create_fake_backend_ok [OF assms(2)] by (simp add: b0_def)
  ultimately show ?thesis
    using planned.session_answers [OF fit ld assms(5), of "bs_worker_id spec" later]
    by (auto simp: fake_process_def)
qed

theorem worker_answers_every_request_witness:
  "\<exists>m ms. io_out (snd (fake_process zero_digest (sample_spec ''w'') [Cmd_Request sample_stream_request, Cmd_Shutdown] fresh_io))
     = m # ms \<and> wm_kind m = Ready_Kind \<and> wm_kind (last ms) = Shutdown_Ack_Kind"
proof -
  have "bootstrap_ok (sample_spec ''w'')" "list_all worker_request_ok [sample_stream_request]"
    by (simp_all add: bootstrap_ok_def sample_spec_def worker_request_ok_def sample_stream_request_def
        token_ok_def)
  with worker_answers_every_request [OF zero_digest_ok, of "sample_spec ''w''" "[sample_stream_request]" "[]"]
  show ?thesis by (auto simp: sample_spec_def plain_message_def)
qed

text \<open>However a session goes - whatever the parent sends, whenever the queue fails, wherever the
  backend raises - the process ends with its backend closed, unless the backend's own \<open>close\<close> fails or
  the backend could not be built.\<close>

theorem worker_closes_backend:
  assumes "digest_ok sha" and "fake_process sha spec commands io = (Some b, io1)"
    and "''close'' \<notin> set (bs_failures spec)"
  shows "fb_state b = Closed"
proof -
  from assms(2) obtain b0 where b0: "create_fake_backend sha spec = Inr b0"
    by (auto simp: fake_process_def worker_process_main_def split: sum.splits)
  then have fs: "fb_failures b0 = sort (bs_failures spec)" and ok: "fake_fit (fb_failures b0) b0"
    using assms(1)
    by (auto simp: create_fake_backend_def mk_failure_plan_def mk_fake_backend_def raises fake_fit_def
        fake_ok_def default_chunk_size_def split: if_splits)
  from assms(2) b0 have "worker_process_main fake_ops (Inr b0) (bs_worker_id spec) commands io = (Some b, io1)"
    by (simp add: fake_process_def)
  from planned.main_closes [OF ok this] obtain b2 where b2: "fake_fit (fb_failures b0) b2"
    and b: "b = snd (op_close fake_ops b2)" by auto
  have "fst (fake_close b2) = Inr ()"
    using b2 fs assms(3) by (auto simp: fake_close_def fake_fit_def raise_injected_failure_def)
  with fake_close_spec [of b2] b show ?thesis by (simp add: fake_ops_def)
qed

theorem worker_closes_backend_witness:
  "\<exists>b. fst (fake_process zero_digest (sample_spec ''w'') [Cmd_Other] fresh_io) = Some b \<and> fb_state b = Closed"
proof -
  have "bootstrap_ok (sample_spec ''w'')" by (simp add: bootstrap_ok_def sample_spec_def)
  then obtain b io1 where
    p: "fake_process zero_digest (sample_spec ''w'') [Cmd_Other] fresh_io = (Some b, io1)"
    by (cases "fake_process zero_digest (sample_spec ''w'') [Cmd_Other] fresh_io")
      (auto simp: fake_process_def worker_process_main_def create_fake_backend_ok Let_def
        split: prod.splits)
  from worker_closes_backend [OF zero_digest_ok p] show ?thesis using p by (simp add: sample_spec_def)
qed

end
