(* ===== verification/Paths.thy ===== *)
theory Paths
  imports Errors
begin

text \<open>
  What the program uses of \<open>pathlib\<close> on a POSIX host: a path is its root and its parts. \<open>Path(s)\<close> drops
  empty parts and single dots, and exactly two leading slashes are a root of their own. What the file system
  answers is a record of functions, so a run of the program sees one unchanging file system.
\<close>

section \<open>Paths\<close>

record file_path =
  p_root :: string
  p_parts :: "string list"

fun split_root :: "string \<Rightarrow> string \<times> string" where
  "split_root [] = ([], [])"
| "split_root (c # s) =
     (if c \<noteq> CHR ''/'' then ([], c # s)
      else case s of
        d # t \<Rightarrow>
          (if d \<noteq> CHR ''/'' then (''/'', s)
           else case t of
             e # _ \<Rightarrow> if e = CHR ''/'' then (''/'', s) else (''//'', t)
           | [] \<Rightarrow> (''//'', []))
      | [] \<Rightarrow> (''/'', []))"

definition path_of :: "string \<Rightarrow> file_path" where
  "path_of s =
     (case split_root s of (r, rest) \<Rightarrow>
       \<lparr>p_root = r, p_parts = filter (\<lambda>w. w \<noteq> [] \<and> w \<noteq> ''.'') (split_on CHR ''/'' rest)\<rparr>)"

definition path_str :: "file_path \<Rightarrow> string" where
  "path_str p =
     (let s = p_root p @ join ''/'' (p_parts p) in if s = [] then ''.'' else s)"

definition path_join :: "file_path \<Rightarrow> file_path \<Rightarrow> file_path" where
  "path_join p q = (if p_root q \<noteq> [] then q else p\<lparr>p_parts := p_parts p @ p_parts q\<rparr>)"

abbreviation path_child :: "file_path \<Rightarrow> string \<Rightarrow> file_path" where
  "path_child p s \<equiv> path_join p (path_of s)"

definition path_name :: "file_path \<Rightarrow> string" where
  "path_name p = (if p_parts p = [] then [] else last (p_parts p))"

definition is_absolute :: "file_path \<Rightarrow> bool" where
  "is_absolute p \<longleftrightarrow> p_root p \<noteq> []"

text \<open>The paths that \<open>Path\<close> builds.\<close>

definition part_ok :: "string \<Rightarrow> bool" where
  "part_ok w \<longleftrightarrow> w \<noteq> [] \<and> w \<noteq> ''.'' \<and> CHR ''/'' \<notin> set w"

definition path_ok :: "file_path \<Rightarrow> bool" where
  "path_ok p \<longleftrightarrow> p_root p \<in> {[], ''/'', ''//''} \<and> list_all part_ok (p_parts p)"

lemma split_on_no_sep: "w \<in> set (split_on c s) \<Longrightarrow> c \<notin> set w"
proof (induction s arbitrary: w)
  case Nil
  then show ?case by simp
next
  case (Cons d s)
  obtain v vs where s: "split_on c s = v # vs" by (cases "split_on c s") auto
  with Cons show ?case by (auto split: if_splits)
qed

lemma split_root_roots: "fst (split_root s) \<in> {[], ''/'', ''//''}"
  by (cases s rule: split_root.cases) (auto split: list.splits)

lemma path_of_ok [simp]: "path_ok (path_of s)"
  using split_root_roots [of s]
  by (auto simp: path_ok_def path_of_def part_ok_def list_all_iff split: prod.splits dest: split_on_no_sep)

lemma path_join_ok: "path_ok p \<Longrightarrow> path_ok q \<Longrightarrow> path_ok (path_join p q)"
  by (auto simp: path_ok_def path_join_def)

lemma path_child_ok: "path_ok p \<Longrightarrow> path_ok (path_child p s)"
  by (simp add: path_join_ok)

lemma parts_read_back:
  assumes "list_all part_ok ps"
  shows "filter (\<lambda>w. w \<noteq> [] \<and> w \<noteq> ''.'') (split_on CHR ''/'' (join ''/'' ps)) = ps"
proof (cases ps)
  case Nil
  then show ?thesis by simp
next
  case (Cons w ws)
  then have "split_on CHR ''/'' (join ''/'' ps) = ps"
    using assms by (intro split_on_join) (auto simp: list_all_iff part_ok_def)
  with assms show ?thesis by (auto simp: list_all_iff part_ok_def filter_id_conv)
qed

lemma join_head:
  assumes "list_all part_ok ps"
  shows "case join ''/'' ps of [] \<Rightarrow> ps = [] | c # _ \<Rightarrow> c \<noteq> CHR ''/''"
proof (cases ps)
  case Nil
  then show ?thesis by simp
next
  case (Cons w ws)
  with assms obtain c v where "w = c # v" "c \<noteq> CHR ''/''" by (cases w) (auto simp: part_ok_def)
  with Cons show ?thesis by (cases ws) simp_all
qed

lemma split_root_read_back:
  assumes "path_ok p"
  shows "split_root (p_root p @ join ''/'' (p_parts p)) = (p_root p, join ''/'' (p_parts p))"
proof -
  from assms have "list_all part_ok (p_parts p)" and r: "p_root p \<in> {[], ''/'', ''//''}"
    by (simp_all add: path_ok_def)
  from join_head [OF this(1)] r show ?thesis by (cases "join ''/'' (p_parts p)") auto
qed

text \<open>Printing a path and reading it back.\<close>

lemma path_read_back:
  assumes "path_ok p"
  shows "path_of (path_str p) = p"
proof (cases "p_root p @ join ''/'' (p_parts p) = []")
  case True
  then have "p_root p = []" "join ''/'' (p_parts p) = []" by simp_all
  moreover from this assms join_head [of "p_parts p"] have "p_parts p = []" by (simp add: path_ok_def)
  ultimately show ?thesis by (simp add: path_str_def path_of_def)
next
  case False
  then show ?thesis
    using assms split_root_read_back [OF assms] parts_read_back [of "p_parts p"]
    by (auto simp: path_str_def path_of_def path_ok_def)
qed

section \<open>The file system\<close>

datatype file_kind = Directory | Regular | Special

record file_stat =
  st_kind :: file_kind
  st_size :: int

text \<open>An entry of \<open>os.scandir\<close>: its name and what \<open>is_file\<close> and \<open>stat\<close> answer.\<close>

record dir_entry =
  de_name :: string
  de_is_file :: "exn + bool"
  de_size :: "exn + int"

text \<open>
  \<open>fs_expand\<close> is \<open>expanduser\<close> (\<open>None\<close>: it raises \<open>RuntimeError\<close>), \<open>fs_read p n\<close> opens \<open>p\<close> and reads at most
  \<open>n\<close> bytes, \<open>fs_scan\<close> opens a directory and gives its entries and the exception that ends the
  iteration, if any.
\<close>

record file_system =
  fs_cwd :: "exn + file_path"
  fs_expand :: "file_path \<Rightarrow> file_path option"
  fs_stat :: "file_path \<Rightarrow> exn + file_stat"
  fs_resolve :: "file_path \<Rightarrow> exn + file_path"
  fs_read :: "file_path \<Rightarrow> nat \<Rightarrow> exn + int list"
  fs_scan :: "file_path \<Rightarrow> exn + dir_entry list \<times> exn option"
  fs_exists :: "file_path \<Rightarrow> bool"
  fs_is_file :: "file_path \<Rightarrow> exn + bool"
  fs_readable :: "file_path \<Rightarrow> bool"

end
