(* ===== verification/Model_Resolver.thy ===== *)
theory Model_Resolver
  imports Paths Config
begin

text \<open>
  \<open>voxcpm_runtime/model_resolver.py\<close>: where the model comes from and whether a directory holds one. The
  file system is the argument \<open>fs\<close>; \<open>json.loads\<close> and the hexadecimal digest of \<open>hashlib.sha256\<close> are the
  arguments \<open>loads\<close> and \<open>sha\<close>. A decoded JSON value is a \<open>pyval\<close> whose dicts have distinct keys.
\<close>

section \<open>Constants\<close>

definition model_id_const :: string where "model_id_const = ''openbmb/VoxCPM2''"
definition expected_architecture :: string where "expected_architecture = ''voxcpm2''"
definition config_filename :: string where "config_filename = ''config.json''"
definition main_weight_filenames :: "string list" where
  "main_weight_filenames = [''model.safetensors'', ''pytorch_model.bin'']"
definition audiovae_weight_filenames :: "string list" where
  "audiovae_weight_filenames = [''audiovae.safetensors'', ''audiovae.pth'']"
definition required_tokenizer_filenames :: "string list" where
  "required_tokenizer_filenames = [''tokenizer.json'', ''tokenizer_config.json'']"
definition optional_tokenizer_filenames :: "string list" where
  "optional_tokenizer_filenames = [''special_tokens_map.json'', ''tokenization_voxcpm2.py'']"
definition max_inventory_entries :: nat where "max_inventory_entries = 4096"
definition max_deployment_candidates :: nat where "max_deployment_candidates = 256"
definition max_config_bytes :: nat where "max_config_bytes = 1024 * 1024"
definition max_tokenizer_config_bytes :: nat where "max_tokenizer_config_bytes = 1024 * 1024"
definition max_tokenizer_json_bytes :: nat where "max_tokenizer_json_bytes = 16 * 1024 * 1024"

definition required_config_sections :: "(string \<times> string list) list" where
  "required_config_sections =
     [(''lm_config'',
        [''hidden_size'', ''intermediate_size'', ''num_attention_heads'', ''num_key_value_heads'',
         ''num_hidden_layers'', ''vocab_size'']),
      (''encoder_config'', [''hidden_dim'', ''ffn_dim'', ''num_heads'', ''num_layers'']),
      (''dit_config'', [''hidden_dim'', ''ffn_dim'', ''num_heads'', ''num_layers'', ''cfm_config'']),
      (''audio_vae_config'',
        [''encoder_dim'', ''encoder_rates'', ''decoder_dim'', ''decoder_rates'', ''sample_rate'',
         ''out_sample_rate''])]"

definition is_hex_lower :: "char \<Rightarrow> bool" where
  "is_hex_lower c \<longleftrightarrow> is_dec c \<or> 97 \<le> ordc c \<and> ordc c \<le> 102"

definition revision_match :: "string \<Rightarrow> bool" where
  "revision_match s \<longleftrightarrow> length s \<in> {40, 64} \<and> list_all is_hex_lower s"

definition sha256_match :: "string \<Rightarrow> bool" where
  "sha256_match s \<longleftrightarrow> length s = 64 \<and> list_all is_hex_lower s"

section \<open>Errors\<close>

text \<open>A value given as a path: a \<open>str\<close>, a \<open>Path\<close>, or an object of another class, which \<open>Path\<close> refuses.\<close>

datatype path_arg = Path_Text string | Path_Object file_path | Path_Other string

fun to_path :: "path_arg \<Rightarrow> exn + file_path" where
  "to_path (Path_Text s) = Inr (path_of s)"
| "to_path (Path_Object p) = Inr p"
| "to_path (Path_Other n) =
     Inl (TypeError ''argument should be a str or an os.PathLike object where __fspath__ returns a str'')"

fun arg_type_name :: "path_arg \<Rightarrow> string" where
  "arg_type_name (Path_Text _) = ''str''"
| "arg_type_name (Path_Object _) = ''PosixPath''"
| "arg_type_name (Path_Other n) = n"

fun model_code :: "model_class \<Rightarrow> string" where
  "model_code ModelResolutionError = ''model_resolution_error''"
| "model_code ModelNotFoundError = ''model_not_found''"
| "model_code InvalidModelPathError = ''invalid_model_path''"
| "model_code MissingModelArtifactError = ''missing_model_artifact''"
| "model_code InvalidModelConfigError = ''invalid_model_config''"
| "model_code UnexpectedModelArchitectureError = ''unexpected_model_architecture''"
| "model_code InvalidTokenizerMetadataError = ''invalid_tokenizer_metadata''"
| "model_code OfflineResolutionError = ''offline_resolution_failed''"
| "model_code RemoteAcquisitionError = ''remote_acquisition_failed''"
| "model_code ModelInventoryError = ''model_inventory_failed''"
| "model_code ModelCandidateError = ''invalid_model_candidate''"

definition model_exn ::
    "model_class \<Rightarrow> string \<Rightarrow> path_arg option \<Rightarrow> (string, pyval) dict \<Rightarrow> exn" where
  "model_exn c msg place d =
     ModelExn \<lparr>me_class = c, me_message = msg,
       me_path = (case place of None \<Rightarrow> None
                  | Some a \<Rightarrow> (case to_path a of Inl _ \<Rightarrow> None | Inr p \<Rightarrow> Some (path_str p))),
       me_details = d\<rparr>"

abbreviation model_fail :: "model_class \<Rightarrow> string \<Rightarrow> path_arg option \<Rightarrow> exn + 'a" where
  "model_fail c msg place \<equiv> Inl (model_exn c msg place [])"

definition model_error_to_dict :: "model_error \<Rightarrow> pyval" where
  "model_error_to_dict e =
     PDict ([(PStr ''code'', PStr (model_code (me_class e))), (PStr ''message'', PStr (me_message e)),
             (PStr ''type'', PStr (model_class_name (me_class e)))] @
            (case me_path e of None \<Rightarrow> [] | Some p \<Rightarrow> [(PStr ''path'', PStr p)]) @
            (if me_details e = [] then []
             else [(PStr ''details'', PDict (map (\<lambda>(k, v). (PStr k, v)) (me_details e)))]))"

section \<open>Values\<close>

text \<open>\<open>metadata\<close> is given with its keys and values already turned into \<open>str\<close>.\<close>

record candidate =
  dc_path :: path_arg
  dc_model_id :: pyval
  dc_revision :: pyval
  dc_expected :: pyval
  dc_metadata :: "(string, string) dict"

definition sorted_metadata :: "(string \<times> string) list \<Rightarrow> (string, string) dict" where
  "sorted_metadata items = sort_key fst (fold (\<lambda>(k, v). dict_set k v) items [])"

definition mk_candidate ::
    "file_system \<Rightarrow> path_arg \<Rightarrow> pyval \<Rightarrow> pyval \<Rightarrow> pyval \<Rightarrow> (string \<times> string) list \<Rightarrow> candidate" where
  "mk_candidate fs place mid revision expected items =
     \<lparr>dc_path =
        (case to_path place of
           Inl _ \<Rightarrow> place
         | Inr p \<Rightarrow> Path_Object (case fs_expand fs p of None \<Rightarrow> p | Some q \<Rightarrow> q)),
      dc_model_id = mid, dc_revision = revision, dc_expected = expected,
      dc_metadata = sorted_metadata items\<rparr>"

record config_identity =
  ci_architecture :: string
  ci_sha256 :: string
  ci_size_bytes :: nat

record required_artifacts =
  ra_config :: string
  ra_main_weight :: string
  ra_audiovae_weight :: string
  ra_tokenizer :: "string list"

record file_entry =
  fe_name :: string
  fe_size_bytes :: int
  fe_role :: string

datatype source_kind = Explicit_Path | Deployment_Mount | Local_Cache | Remote_Acquired

fun source_name :: "source_kind \<Rightarrow> string" where
  "source_name Explicit_Path = ''explicit-path''"
| "source_name Deployment_Mount = ''deployment-mount''"
| "source_name Local_Cache = ''local-cache''"
| "source_name Remote_Acquired = ''remote-acquired''"

record resolved_model =
  rm_path :: file_path
  rm_source_kind :: source_kind
  rm_model_id :: string
  rm_identity :: config_identity
  rm_revision :: "string option"
  rm_inventory :: "file_entry list"
  rm_artifacts :: required_artifacts
  rm_metadata :: "(string, string) dict"

definition resolved_model_to_dict :: "resolved_model \<Rightarrow> pyval" where
  "resolved_model_to_dict r =
     PDict
       [(PStr ''path'', PStr (path_str (rm_path r))),
        (PStr ''source_kind'', PStr (source_name (rm_source_kind r))),
        (PStr ''model_id'', PStr (rm_model_id r)),
        (PStr ''config_identity'',
          PDict [(PStr ''architecture'', PStr (ci_architecture (rm_identity r))),
                 (PStr ''sha256'', PStr (ci_sha256 (rm_identity r))),
                 (PStr ''size_bytes'', PInt (int (ci_size_bytes (rm_identity r))))]),
        (PStr ''revision'', (case rm_revision r of None \<Rightarrow> PNone | Some v \<Rightarrow> PStr v)),
        (PStr ''file_count'', PInt (int (length (rm_inventory r)))),
        (PStr ''total_bytes'', PInt (sum_list (map fe_size_bytes (rm_inventory r)))),
        (PStr ''required_artifacts'',
          PDict [(PStr ''config'', PStr (ra_config (rm_artifacts r))),
                 (PStr ''main_weight'', PStr (ra_main_weight (rm_artifacts r))),
                 (PStr ''audiovae_weight'', PStr (ra_audiovae_weight (rm_artifacts r))),
                 (PStr ''tokenizer'', PList (map PStr (ra_tokenizer (rm_artifacts r))))]),
        (PStr ''inventory'',
          PList (map (\<lambda>f. PDict [(PStr ''relative_path'', PStr (fe_name f)),
                                 (PStr ''size_bytes'', PInt (fe_size_bytes f)),
                                 (PStr ''role'', PStr (fe_role f))]) (rm_inventory r))),
        (PStr ''metadata'', PDict (map (\<lambda>(k, v). (PStr k, PStr v)) (rm_metadata r)))]"

section \<open>Validation of a directory\<close>

text \<open>\<open>json.loads\<close> of some bytes, and the digest of some bytes as lowercase hexadecimal text.\<close>

type_synonym json_loads = "int list \<Rightarrow> exn + pyval"
type_synonym hex_digest = "int list \<Rightarrow> string"

fun json_caught :: "exn \<Rightarrow> bool" where
  "json_caught (OtherError n _) = (n \<in> {''UnicodeDecodeError'', ''JSONDecodeError'', ''RecursionError''})"
| "json_caught _ = False"

fun dict_items :: "pyval \<Rightarrow> (pyval \<times> pyval) list option" where
  "dict_items (PDict d) = Some d"
| "dict_items _ = None"

definition pv_get :: "(pyval \<times> pyval) list \<Rightarrow> string \<Rightarrow> pyval" where
  "pv_get d k = (case map_of d (PStr k) of None \<Rightarrow> PNone | Some v \<Rightarrow> v)"

definition endswith :: "string \<Rightarrow> string \<Rightarrow> bool" where
  "endswith s suffix = startswith (rev s) (rev suffix)"

definition validated_directory :: "file_system \<Rightarrow> path_arg \<Rightarrow> exn + file_path" where
  "validated_directory fs place =
     (let opened =
        and_then (to_path place) (\<lambda>p.
        and_then (case fs_expand fs p of
            None \<Rightarrow> Inl (RuntimeError ''Could not determine home directory.'') | Some q \<Rightarrow> Inr q) (\<lambda>candidate.
        and_then (fs_stat fs candidate) (\<lambda>status. Inr (candidate, status)))) in
      case opened of
        Inl e \<Rightarrow>
          if is_missing e then model_fail ModelNotFoundError ''Model path does not exist'' (Some place)
          else if is_os_error e \<or> is_type_exn e \<or> is_value_exn e \<or> is_runtime_exn e
          then model_fail InvalidModelPathError ''Model path is invalid or cannot be inspected'' (Some place)
          else Inl e
      | Inr (candidate, status) \<Rightarrow>
          if st_kind status \<noteq> Directory
          then model_fail InvalidModelPathError ''Model path must be a directory'' (Some (Path_Object candidate))
          else case fs_resolve fs candidate of
            Inl e \<Rightarrow>
              if is_os_error e \<or> is_runtime_exn e
              then model_fail InvalidModelPathError ''Model path cannot be resolved'' (Some (Path_Object candidate))
              else Inl e
          | Inr root_dir \<Rightarrow> Inr root_dir)"

definition require_nonempty_regular_file :: "file_system \<Rightarrow> file_path \<Rightarrow> string \<Rightarrow> exn + unit" where
  "require_nonempty_regular_file fs p label =
     (case fs_stat fs p of
        Inl e \<Rightarrow>
          if is_missing e
          then model_fail MissingModelArtifactError (''Missing '' @ label @ '': '' @ path_name p) (Some (Path_Object p))
          else if is_os_error e \<or> is_value_exn e
          then model_fail InvalidModelPathError (label @ '' cannot be inspected: '' @ path_name p) (Some (Path_Object p))
          else Inl e
      | Inr status \<Rightarrow>
          if st_kind status \<noteq> Regular
          then model_fail MissingModelArtifactError (label @ '' must be a regular file: '' @ path_name p)
                 (Some (Path_Object p))
          else if st_size status = 0
          then model_fail MissingModelArtifactError (label @ '' is empty: '' @ path_name p) (Some (Path_Object p))
          else Inr ())"

fun check_sections ::
    "file_path \<Rightarrow> (pyval \<times> pyval) list \<Rightarrow> (string \<times> string list) list \<Rightarrow> exn + unit" where
  "check_sections p payload [] = Inr ()"
| "check_sections p payload ((section_name, required_fields) # rest) =
     (case dict_items (pv_get payload section_name) of
        None \<Rightarrow>
          model_fail InvalidModelConfigError (''Model config section must be an object: '' @ section_name)
            (Some (Path_Object p))
      | Some d \<Rightarrow>
         (let missing = sort (filter (\<lambda>f. PStr f \<notin> fst ` set d) required_fields) in
          if missing \<noteq> []
          then Inl (model_exn InvalidModelConfigError (''Model config section is incomplete: '' @ section_name)
                 (Some (Path_Object p)) [(''missing_fields'', PList (map PStr missing))])
          else check_sections p payload rest))"

definition validate_config_structure :: "(pyval \<times> pyval) list \<Rightarrow> file_path \<Rightarrow> exn + unit" where
  "validate_config_structure payload p =
     and_then (check_sections p payload required_config_sections) (\<lambda>_.
       if dict_items (pv_get (the (dict_items (pv_get payload ''dit_config''))) ''cfm_config'') = None
       then model_fail InvalidModelConfigError ''Model config section must be an object: dit_config.cfm_config''
              (Some (Path_Object p))
       else Inr ())"

text \<open>Both readers of JSON: the bytes of the file and the object they decode to.\<close>

definition read_json_object ::
    "file_system \<Rightarrow> json_loads \<Rightarrow> model_class \<Rightarrow> string \<Rightarrow> string \<Rightarrow> string \<Rightarrow> string \<Rightarrow> file_path \<Rightarrow> nat \<Rightarrow>
     exn + int list \<times> (pyval \<times> pyval) list" where
  "read_json_object fs loads c unreadable exceeds invalid no_object p limit =
     (case fs_read fs p (limit + 1) of
        Inl e \<Rightarrow> if is_os_error e \<or> is_value_exn e then model_fail c unreadable (Some (Path_Object p)) else Inl e
      | Inr data \<Rightarrow>
          if length data > limit then model_fail c (exceeds @ show_nat limit @ '' bytes'') (Some (Path_Object p))
          else case loads data of
            Inl e \<Rightarrow> if json_caught e then model_fail c invalid (Some (Path_Object p)) else Inl e
          | Inr v \<Rightarrow>
             (case dict_items v of
                None \<Rightarrow> model_fail c no_object (Some (Path_Object p))
              | Some d \<Rightarrow> Inr (data, d)))"

definition validate_config :: "file_system \<Rightarrow> json_loads \<Rightarrow> hex_digest \<Rightarrow> file_path \<Rightarrow> exn + config_identity" where
  "validate_config fs loads sha root_dir =
     (let p = path_child root_dir config_filename in
      and_then (require_nonempty_regular_file fs p ''Model config'') (\<lambda>_.
      and_then (read_json_object fs loads InvalidModelConfigError ''Model config cannot be read''
          ''Model config exceeds '' ''Model config is not valid bounded UTF-8 JSON''
          ''Model config must contain a JSON object'' p max_config_bytes) (\<lambda>(data, payload).
      let architecture = pv_get payload ''architecture'' in
      if \<not> is_str architecture \<or> casefold (str_of architecture) \<noteq> expected_architecture
      then Inl (model_exn UnexpectedModelArchitectureError
             ''Model config must contain architecture \"voxcpm2\"'' (Some (Path_Object p))
             [(''architecture_value_is_string'', PBool (is_str architecture))])
      else and_then (validate_config_structure payload p) (\<lambda>_.
        Inr \<lparr>ci_architecture = str_of architecture, ci_sha256 = sha data, ci_size_bytes = length data\<rparr>))))"

fun select_weight_from ::
    "file_system \<Rightarrow> file_path \<Rightarrow> string \<Rightarrow> string \<Rightarrow> string list \<Rightarrow> exn + string" where
  "select_weight_from fs root_dir role expected [] =
     model_fail MissingModelArtifactError (''Missing non-empty '' @ role @ ''; expected '' @ expected)
       (Some (Path_Object root_dir))"
| "select_weight_from fs root_dir role expected (filename # rest) =
     (let p = path_child root_dir filename in
      case fs_stat fs p of
        Inl e \<Rightarrow>
          if is_missing e then select_weight_from fs root_dir role expected rest
          else if is_os_error e \<or> is_value_exn e
          then model_fail InvalidModelPathError (role @ '' candidate cannot be inspected: '' @ filename)
                 (Some (Path_Object p))
          else Inl e
      | Inr status \<Rightarrow>
          if st_kind status \<noteq> Regular
          then model_fail MissingModelArtifactError (role @ '' candidate must be a regular file: '' @ filename)
                 (Some (Path_Object p))
          else if st_size status = 0
          then model_fail MissingModelArtifactError (role @ '' file is empty: '' @ filename) (Some (Path_Object p))
          else Inr filename)"

definition select_weight :: "file_system \<Rightarrow> file_path \<Rightarrow> string \<Rightarrow> string list \<Rightarrow> exn + string" where
  "select_weight fs root_dir role filenames =
     select_weight_from fs root_dir role (join '' or '' filenames) filenames"

definition read_tokenizer_json ::
    "file_system \<Rightarrow> json_loads \<Rightarrow> file_path \<Rightarrow> nat \<Rightarrow> exn + (pyval \<times> pyval) list" where
  "read_tokenizer_json fs loads p limit =
     and_then (read_json_object fs loads InvalidTokenizerMetadataError ''Tokenizer metadata cannot be read''
         ''Tokenizer metadata exceeds '' ''Tokenizer metadata is not valid bounded UTF-8 JSON''
         ''Tokenizer metadata must contain a JSON object'' p limit) (\<lambda>(data, payload). Inr payload)"

fun valid_vocab :: "pyval \<Rightarrow> bool" where
  "valid_vocab (PDict vocab) = (vocab \<noteq> [] \<and> list_all (\<lambda>(token, i). is_str token \<and> is_int i) vocab)"
| "valid_vocab _ = False"

fun bpe_model :: "pyval \<Rightarrow> bool" where
  "bpe_model (PDict d) = (pv_get d ''type'' = PStr ''BPE'' \<and> valid_vocab (pv_get d ''vocab''))"
| "bpe_model _ = False"

definition validate_tokenizer :: "file_system \<Rightarrow> json_loads \<Rightarrow> file_path \<Rightarrow> exn + string list" where
  "validate_tokenizer fs loads root_dir =
     and_then (map_raise (\<lambda>f. require_nonempty_regular_file fs (path_child root_dir f) ''Required tokenizer metadata'')
         required_tokenizer_filenames) (\<lambda>_.
     and_then (read_tokenizer_json fs loads (path_child root_dir ''tokenizer_config.json'')
         max_tokenizer_config_bytes) (\<lambda>tokenizer_config.
     if \<not> is_str (pv_get tokenizer_config ''tokenizer_class'') \<or>
        str_of (pv_get tokenizer_config ''tokenizer_class'') = []
     then model_fail InvalidTokenizerMetadataError ''Tokenizer config must identify tokenizer_class''
            (Some (Path_Object (path_child root_dir ''tokenizer_config.json'')))
     else and_then (read_tokenizer_json fs loads (path_child root_dir ''tokenizer.json'')
         max_tokenizer_json_bytes) (\<lambda>tokenizer.
       if pv_get tokenizer ''version'' \<noteq> PStr ''1.0'' \<or> \<not> bpe_model (pv_get tokenizer ''model'')
       then model_fail InvalidTokenizerMetadataError ''Tokenizer JSON must contain a non-empty version 1.0 BPE model''
              (Some (Path_Object (path_child root_dir ''tokenizer.json'')))
       else Inr required_tokenizer_filenames)))"

section \<open>The inventory\<close>

definition inventory_role :: "string \<Rightarrow> required_artifacts \<Rightarrow> string" where
  "inventory_role filename ra =
     (if filename = ra_config ra then ''config''
      else if filename \<in> set main_weight_filenames then ''main-weight''
      else if filename \<in> set audiovae_weight_filenames then ''audiovae-weight''
      else if filename \<in> set required_tokenizer_filenames \<or> filename \<in> set optional_tokenizer_filenames
      then ''tokenizer''
      else if endswith filename ''.json'' \<or> filename = ''README.md'' then ''metadata''
      else ''other'')"

fun scan_entries ::
    "file_path \<Rightarrow> required_artifacts \<Rightarrow> nat \<Rightarrow> dir_entry list \<Rightarrow> exn option \<Rightarrow> exn + file_entry list" where
  "scan_entries root_dir ra n [] None = Inr []"
| "scan_entries root_dir ra n [] (Some e) =
     (if is_os_error e
      then model_fail ModelInventoryError ''Model directory inventory cannot be read'' (Some (Path_Object root_dir))
      else Inl e)"
| "scan_entries root_dir ra n (entry # rest) fin =
     (let inspected =
        and_then (de_is_file entry) (\<lambda>regular.
          if \<not> regular then Inr None else and_then (de_size entry) (\<lambda>size_bytes. Inr (Some size_bytes))) in
      if n \<ge> max_inventory_entries
      then Inl (model_exn ModelInventoryError ''Model directory exceeds the bounded inventory limit''
             (Some (Path_Object root_dir)) [(''limit'', PInt (int max_inventory_entries))])
      else case inspected of
        Inl e \<Rightarrow>
          if is_os_error e
          then model_fail ModelInventoryError (''Inventory entry cannot be inspected: '' @ de_name entry)
                 (Some (Path_Object (path_child root_dir (de_name entry))))
          else Inl e
      | Inr None \<Rightarrow> scan_entries root_dir ra (Suc n) rest fin
      | Inr (Some size_bytes) \<Rightarrow>
          and_then (scan_entries root_dir ra (Suc n) rest fin) (\<lambda>found.
            Inr (\<lparr>fe_name = de_name entry, fe_size_bytes = size_bytes,
                  fe_role = inventory_role (de_name entry) ra\<rparr> # found)))"

definition build_inventory :: "file_system \<Rightarrow> file_path \<Rightarrow> required_artifacts \<Rightarrow> exn + file_entry list" where
  "build_inventory fs root_dir ra =
     (case fs_scan fs root_dir of
        Inl e \<Rightarrow>
          if is_os_error e
          then model_fail ModelInventoryError ''Model directory inventory cannot be read'' (Some (Path_Object root_dir))
          else Inl e
      | Inr (entries, fin) \<Rightarrow>
          and_then (scan_entries root_dir ra 0 entries fin) (\<lambda>found. Inr (sort_key fe_name found)))"

section \<open>Resolution\<close>

definition resolve_path ::
    "file_system \<Rightarrow> json_loads \<Rightarrow> hex_digest \<Rightarrow> path_arg \<Rightarrow> source_kind \<Rightarrow> string \<Rightarrow> string option \<Rightarrow>
     string option \<Rightarrow> (string, string) dict \<Rightarrow> exn + resolved_model" where
  "resolve_path fs loads sha place kind mid revision expected items =
     and_then (validated_directory fs place) (\<lambda>root_dir.
     and_then (validate_config fs loads sha root_dir) (\<lambda>identity.
     if expected \<noteq> None \<and> ci_sha256 identity \<noteq> the expected
     then model_fail InvalidModelConfigError ''Model config does not match deployment metadata identity''
            (Some (Path_Object (path_child root_dir config_filename)))
     else
     and_then (select_weight fs root_dir ''main weight'' main_weight_filenames) (\<lambda>main_weight.
     and_then (select_weight fs root_dir ''AudioVAE weight'' audiovae_weight_filenames) (\<lambda>audiovae_weight.
     and_then (validate_tokenizer fs loads root_dir) (\<lambda>tokenizer.
     let artifacts = \<lparr>ra_config = config_filename, ra_main_weight = main_weight,
           ra_audiovae_weight = audiovae_weight, ra_tokenizer = tokenizer\<rparr> in
     and_then (build_inventory fs root_dir artifacts) (\<lambda>inventory.
       Inr \<lparr>rm_path = root_dir, rm_source_kind = kind, rm_model_id = mid, rm_identity = identity,
            rm_revision = revision, rm_inventory = inventory, rm_artifacts = artifacts,
            rm_metadata = sorted_metadata items\<rparr>))))))"

text \<open>A value that is absent or a string that matches.\<close>

fun absent_or :: "(string \<Rightarrow> bool) \<Rightarrow> pyval \<Rightarrow> bool" where
  "absent_or P PNone = True"
| "absent_or P (PStr s) = P s"
| "absent_or P _ = False"

definition str_option :: "pyval \<Rightarrow> string option" where
  "str_option v = (if v = PNone then None else Some (str_of v))"

definition resolve_candidate ::
    "file_system \<Rightarrow> json_loads \<Rightarrow> hex_digest \<Rightarrow> candidate \<Rightarrow> exn + resolved_model" where
  "resolve_candidate fs loads sha c =
     (let mid = (if dc_model_id c = PNone then PStr model_id_const else dc_model_id c) in
      if mid \<noteq> PStr model_id_const
      then model_fail UnexpectedModelArchitectureError ''Deployment metadata does not identify openbmb/VoxCPM2''
             (Some (dc_path c))
      else if \<not> absent_or revision_match (dc_revision c)
      then model_fail ModelCandidateError
             ''Deployment revision must be a 40- or 64-character lowercase hexadecimal object ID'' (Some (dc_path c))
      else if \<not> absent_or sha256_match (dc_expected c)
      then model_fail ModelCandidateError ''Deployment config identity must be a lowercase SHA-256 digest''
             (Some (dc_path c))
      else resolve_path fs loads sha (dc_path c) Deployment_Mount (str_of mid) (str_option (dc_revision c))
             (str_option (dc_expected c)) (dc_metadata c))"

text \<open>
  The \<open>deployment_candidates\<close> argument: an object that is refused, or the items its iterator gives and the
  exception that ends it, if any. The loop pulls an item only when those before it did not resolve.
\<close>

datatype candidate_item = Item_Candidate candidate | Item_Path path_arg | Item_Other

datatype candidate_source = Not_Ordered | Items "candidate_item list" "exn option"

fun try_candidates ::
    "file_system \<Rightarrow> json_loads \<Rightarrow> hex_digest \<Rightarrow> nat \<Rightarrow> candidate_item list \<Rightarrow> exn option \<Rightarrow> pyval list \<Rightarrow>
     exn + resolved_model + pyval list" where
  "try_candidates fs loads sha n [] None attempts = Inr (Inr attempts)"
| "try_candidates fs loads sha n [] (Some e) attempts =
     (if is_Exception e
      then Inl (model_exn ModelCandidateError ''Deployment candidate iteration failed'' None
             [(''source_error_type'', PStr (exn_type_name e))])
      else Inl e)"
| "try_candidates fs loads sha n (item # rest) fin attempts =
     (if n \<ge> max_deployment_candidates
      then Inl (model_exn ModelCandidateError ''Deployment candidate limit exceeded'' None
             [(''limit'', PInt (int max_deployment_candidates))])
      else and_then
        (case item of
           Item_Candidate c \<Rightarrow> Inr c
         | Item_Path p \<Rightarrow> Inr (mk_candidate fs p PNone PNone PNone [])
         | Item_Other \<Rightarrow>
             Inl (TypeError ''deployment candidates must be paths or DeploymentCandidate objects'')) (\<lambda>c.
        case resolve_candidate fs loads sha c of
          Inr r \<Rightarrow> Inr (Inl r)
        | Inl (ModelExn e) \<Rightarrow>
            try_candidates fs loads sha (Suc n) rest fin (attempts @ [model_error_to_dict e])
        | Inl e \<Rightarrow> Inl e))"

definition cache_attempt :: "model_class \<Rightarrow> string \<Rightarrow> string \<Rightarrow> pyval" where
  "cache_attempt c p type_name =
     PDict [(PStr ''code'', PStr (model_code c)), (PStr ''path'', PStr p),
            (PStr ''source_kind'', PStr (source_name Local_Cache)), (PStr ''type'', PStr type_name)]"

definition try_cache ::
    "file_system \<Rightarrow> json_loads \<Rightarrow> hex_digest \<Rightarrow> string option \<Rightarrow> pyval list \<Rightarrow>
     exn + resolved_model + pyval list" where
  "try_cache fs loads sha cache attempts =
     (case cache of
        None \<Rightarrow> Inr (Inr attempts)
      | Some s \<Rightarrow>
          case fs_expand fs (path_of s) of
            None \<Rightarrow> Inr (Inr (attempts @ [cache_attempt InvalidModelPathError s ''RuntimeError'']))
          | Some cache_path \<Rightarrow>
             (case fs_stat fs cache_path of
                Inl e \<Rightarrow>
                  if is_missing e
                  then Inr (Inr (attempts @
                    [cache_attempt ModelNotFoundError (path_str cache_path) (model_class_name ModelNotFoundError)]))
                  else if is_os_error e \<or> is_type_exn e \<or> is_value_exn e \<or> is_runtime_exn e
                  then Inr (Inr (attempts @ [cache_attempt InvalidModelPathError s (exn_type_name e)]))
                  else Inl e
              | Inr status \<Rightarrow>
                 (case resolve_path fs loads sha (Path_Object cache_path) Local_Cache model_id_const None None [] of
                    Inr r \<Rightarrow> Inr (Inl r)
                  | Inl (ModelExn e) \<Rightarrow> Inr (Inr (attempts @ [model_error_to_dict e]))
                  | Inl e \<Rightarrow> Inl e)))"

text \<open>The acquirer is absent, or what its \<open>acquire\<close> gives.\<close>

definition try_remote ::
    "file_system \<Rightarrow> json_loads \<Rightarrow> hex_digest \<Rightarrow> (exn + path_arg) option \<Rightarrow> pyval list \<Rightarrow> exn + resolved_model" where
  "try_remote fs loads sha acquirer attempts =
     (case acquirer of
        None \<Rightarrow>
          Inl (model_exn RemoteAcquisitionError
            ''No valid local model was found and no remote acquirer was provided'' None
            [(''attempts'', PList attempts)])
      | Some (Inl e) \<Rightarrow>
          if is_Exception e
          then Inl (model_exn RemoteAcquisitionError ''The remote model acquirer failed'' None
            [(''attempts'', PList attempts), (''provider_error_type'', PStr (exn_type_name e))])
          else Inl e
      | Some (Inr acquired) \<Rightarrow>
          case resolve_path fs loads sha acquired Remote_Acquired model_id_const None None [] of
            Inr r \<Rightarrow> Inr r
          | Inl (ModelExn e) \<Rightarrow>
              Inl (model_exn RemoteAcquisitionError
                (if me_class e = InvalidModelPathError then ''The remote model acquirer returned an invalid path''
                 else ''The remote model acquirer returned an invalid model'') None
                [(''attempts'', PList attempts), (''invalid_model_code'', PStr (model_code (me_class e))),
                 (''invalid_model_type'', PStr (model_class_name (me_class e)))])
          | Inl e \<Rightarrow>
              if is_type_exn e \<or> is_value_exn e
              then Inl (model_exn RemoteAcquisitionError ''The remote model acquirer returned an invalid path'' None
                [(''attempts'', PList attempts), (''remote_value_type'', PStr (arg_type_name acquired))])
              else Inl e)"

definition resolve_model ::
    "file_system \<Rightarrow> json_loads \<Rightarrow> hex_digest \<Rightarrow> runtime_config \<Rightarrow> candidate_source \<Rightarrow>
     (exn + path_arg) option \<Rightarrow> exn + resolved_model" where
  "resolve_model fs loads sha cfg candidates acquirer =
     (case model_path cfg of
        Some p \<Rightarrow> resolve_path fs loads sha (Path_Text p) Explicit_Path model_id_const None None []
      | None \<Rightarrow>
          and_then
            (case candidates of
               Not_Ordered \<Rightarrow> Inl (TypeError ''deployment_candidates must be an ordered iterable'')
             | Items items fin \<Rightarrow> try_candidates fs loads sha 0 items fin []) (\<lambda>tried.
          case tried of Inl r \<Rightarrow> Inr r | Inr attempts \<Rightarrow>
          and_then (try_cache fs loads sha (cache_dir cfg) attempts) (\<lambda>tried2.
          case tried2 of Inl r \<Rightarrow> Inr r | Inr attempts2 \<Rightarrow>
          if offline cfg
          then Inl (model_exn OfflineResolutionError
                 ''Offline mode is enabled and no valid local VoxCPM2 model was found'' None
                 [(''attempts'', PList attempts2)])
          else try_remote fs loads sha acquirer attempts2)))"

section \<open>What a resolved model is\<close>

definition nonempty_file :: "file_system \<Rightarrow> file_path \<Rightarrow> bool" where
  "nonempty_file fs p \<longleftrightarrow> (\<exists>status. fs_stat fs p = Inr status \<and> st_kind status = Regular \<and> st_size status \<noteq> 0)"

definition absent_file :: "file_system \<Rightarrow> file_path \<Rightarrow> bool" where
  "absent_file fs p \<longleftrightarrow> (\<exists>e. fs_stat fs p = Inl e \<and> is_missing e)"

definition complete_config :: "(pyval \<times> pyval) list \<Rightarrow> bool" where
  "complete_config payload \<longleftrightarrow>
     list_all (\<lambda>(s, fields_needed). \<exists>d. pv_get payload s = PDict d \<and>
       (\<forall>f \<in> set fields_needed. PStr f \<in> fst ` set d)) required_config_sections"

definition holds_config ::
    "file_system \<Rightarrow> json_loads \<Rightarrow> hex_digest \<Rightarrow> file_path \<Rightarrow> config_identity \<Rightarrow> bool" where
  "holds_config fs loads sha root_dir ci \<longleftrightarrow>
     nonempty_file fs (path_child root_dir config_filename) \<and>
     (\<exists>data payload. fs_read fs (path_child root_dir config_filename) (max_config_bytes + 1) = Inr data \<and>
        length data \<le> max_config_bytes \<and> loads data = Inr (PDict payload) \<and>
        pv_get payload ''architecture'' = PStr (ci_architecture ci) \<and>
        casefold (ci_architecture ci) = expected_architecture \<and> complete_config payload \<and>
        ci_sha256 ci = sha data \<and> ci_size_bytes ci = length data)"

text \<open>The chosen file is there, and those named before it are not.\<close>

definition chosen_weight :: "file_system \<Rightarrow> file_path \<Rightarrow> string list \<Rightarrow> string \<Rightarrow> bool" where
  "chosen_weight fs root_dir filenames w \<longleftrightarrow>
     (\<exists>before later. filenames = before @ w # later \<and>
        list_all (\<lambda>f. absent_file fs (path_child root_dir f)) before \<and>
        nonempty_file fs (path_child root_dir w))"

definition holds_tokenizer :: "file_system \<Rightarrow> json_loads \<Rightarrow> file_path \<Rightarrow> bool" where
  "holds_tokenizer fs loads root_dir \<longleftrightarrow>
     list_all (\<lambda>f. nonempty_file fs (path_child root_dir f)) required_tokenizer_filenames \<and>
     (\<exists>data payload name. fs_read fs (path_child root_dir ''tokenizer_config.json'')
          (max_tokenizer_config_bytes + 1) = Inr data \<and>
        loads data = Inr (PDict payload) \<and> pv_get payload ''tokenizer_class'' = PStr name \<and> name \<noteq> []) \<and>
     (\<exists>data payload. fs_read fs (path_child root_dir ''tokenizer.json'') (max_tokenizer_json_bytes + 1) = Inr data \<and>
        loads data = Inr (PDict payload) \<and> pv_get payload ''version'' = PStr ''1.0'' \<and>
        bpe_model (pv_get payload ''model''))"

text \<open>The inventory lists the regular files of the directory, sorted by name.\<close>

definition regular_entries :: "dir_entry list \<Rightarrow> (string \<times> int) list" where
  "regular_entries entries =
     map (\<lambda>d. (de_name d, projr (de_size d))) (filter (\<lambda>d. de_is_file d = Inr True) entries)"

definition holds_inventory :: "file_system \<Rightarrow> file_path \<Rightarrow> required_artifacts \<Rightarrow> file_entry list \<Rightarrow> bool" where
  "holds_inventory fs root_dir ra inventory \<longleftrightarrow>
     sorted (map fe_name inventory) \<and> length inventory \<le> max_inventory_entries \<and>
     (\<exists>entries. fs_scan fs root_dir = Inr (entries, None) \<and>
        mset (map (\<lambda>f. (fe_name f, fe_size_bytes f)) inventory) = mset (regular_entries entries)) \<and>
     list_all (\<lambda>f. fe_role f = inventory_role (fe_name f) ra) inventory"

definition holds_model :: "file_system \<Rightarrow> json_loads \<Rightarrow> hex_digest \<Rightarrow> resolved_model \<Rightarrow> bool" where
  "holds_model fs loads sha r \<longleftrightarrow>
     holds_config fs loads sha (rm_path r) (rm_identity r) \<and>
     chosen_weight fs (rm_path r) main_weight_filenames (ra_main_weight (rm_artifacts r)) \<and>
     chosen_weight fs (rm_path r) audiovae_weight_filenames (ra_audiovae_weight (rm_artifacts r)) \<and>
     holds_tokenizer fs loads (rm_path r) \<and>
     holds_inventory fs (rm_path r) (rm_artifacts r) (rm_inventory r) \<and>
     ra_config (rm_artifacts r) = config_filename \<and>
     ra_tokenizer (rm_artifacts r) = required_tokenizer_filenames \<and>
     rm_model_id r = model_id_const"

lemma require_file_Inr [raises]:
  "require_nonempty_regular_file fs p label = Inr u \<longleftrightarrow> nonempty_file fs p"
  by (auto simp: require_nonempty_regular_file_def nonempty_file_def split: sum.splits if_splits)

lemma dict_items_Some [simp]: "dict_items v = Some d \<longleftrightarrow> v = PDict d"
  by (cases v) auto

lemma read_json_object_Inr [raises]:
  "read_json_object fs loads c a b x y p limit = Inr (data, payload) \<longleftrightarrow>
     fs_read fs p (limit + 1) = Inr data \<and> length data \<le> limit \<and> loads data = Inr (PDict payload)"
  by (auto simp: read_json_object_def split: sum.splits if_splits option.splits)

lemma check_sections_Inr:
  "check_sections p payload ss = Inr u \<longleftrightarrow>
     list_all (\<lambda>(s, fields_needed). \<exists>d. pv_get payload s = PDict d \<and>
       (\<forall>f \<in> set fields_needed. PStr f \<in> fst ` set d)) ss"
proof (induction p payload ss rule: check_sections.induct)
  case (2 p payload s fields_needed rest)
  have "sort (filter Q xs) = [] \<longleftrightarrow> (\<forall>f \<in> set xs. \<not> Q f)" for Q and xs :: "string list"
    by (metis (mono_tags, lifting) filter_empty_conv set_empty set_sort)
  with 2 show ?case by (auto simp: Let_def split: option.splits)
qed simp

lemma validate_config_Inr:
  assumes "validate_config fs loads sha root_dir = Inr ci"
  shows "holds_config fs loads sha root_dir ci"
proof -
  let ?p = "path_child root_dir config_filename"
  from assms obtain data payload where c: "nonempty_file fs ?p"
    "fs_read fs ?p (max_config_bytes + 1) = Inr data" "length data \<le> max_config_bytes"
    "loads data = Inr (PDict payload)" "is_str (pv_get payload ''architecture'')"
    "casefold (str_of (pv_get payload ''architecture'')) = expected_architecture"
    "check_sections ?p payload required_config_sections = Inr ()"
    "ci = \<lparr>ci_architecture = str_of (pv_get payload ''architecture''), ci_sha256 = sha data,
      ci_size_bytes = length data\<rparr>"
    by (auto simp: validate_config_def validate_config_structure_def Let_def raises split: if_splits)
  moreover from c(5) have "pv_get payload ''architecture'' = PStr (str_of (pv_get payload ''architecture''))"
    by (cases "pv_get payload ''architecture''") auto
  moreover from c(7) have "complete_config payload" by (simp add: complete_config_def check_sections_Inr)
  ultimately show ?thesis by (auto simp: holds_config_def)
qed

lemma select_weight_from_Inr:
  "select_weight_from fs root_dir role expected filenames = Inr w \<Longrightarrow> chosen_weight fs root_dir filenames w"
proof (induction filenames)
  case (Cons f rest)
  show ?case
  proof (cases "fs_stat fs (path_child root_dir f)")
    case (Inl e)
    with Cons.prems have "is_missing e" "select_weight_from fs root_dir role expected rest = Inr w"
      by (auto simp: Let_def split: if_splits)
    with Cons.IH Inl obtain before later where "rest = before @ w # later"
      "list_all (\<lambda>f. absent_file fs (path_child root_dir f)) before" "nonempty_file fs (path_child root_dir w)"
      by (auto simp: chosen_weight_def)
    with Inl \<open>is_missing e\<close> show ?thesis
      unfolding chosen_weight_def
      by (intro exI [of _ "f # before"] exI [of _ later]) (simp add: absent_file_def)
  next
    case (Inr status)
    with Cons.prems have "w = f" "nonempty_file fs (path_child root_dir f)"
      by (auto simp: Let_def nonempty_file_def split: if_splits)
    then show ?thesis unfolding chosen_weight_def by (intro exI [of _ "[]"] exI [of _ rest]) simp
  qed
qed simp

lemma validate_tokenizer_Inr:
  assumes "validate_tokenizer fs loads root_dir = Inr t"
  shows "holds_tokenizer fs loads root_dir \<and> t = required_tokenizer_filenames"
proof -
  from assms obtain us :: "unit list" and tc tk where
    us: "list_all2 (\<lambda>f u. nonempty_file fs (path_child root_dir f)) required_tokenizer_filenames us"
    and tc: "read_tokenizer_json fs loads (path_child root_dir ''tokenizer_config.json'')
      max_tokenizer_config_bytes = Inr tc" "is_str (pv_get tc ''tokenizer_class'')"
      "str_of (pv_get tc ''tokenizer_class'') \<noteq> []"
    and tk: "read_tokenizer_json fs loads (path_child root_dir ''tokenizer.json'')
      max_tokenizer_json_bytes = Inr tk" "pv_get tk ''version'' = PStr ''1.0''" "bpe_model (pv_get tk ''model'')"
    and t: "t = required_tokenizer_filenames"
    by (auto simp: validate_tokenizer_def raises split: if_splits)
  from us have "list_all (\<lambda>f. nonempty_file fs (path_child root_dir f)) required_tokenizer_filenames"
    by (auto simp: list_all_length list_all2_conv_all_nth)
  moreover obtain n where "pv_get tc ''tokenizer_class'' = PStr n" "n \<noteq> []"
    using tc(2,3) by (cases "pv_get tc ''tokenizer_class''") auto
  ultimately show ?thesis using tc(1) tk t
    by (auto simp: holds_tokenizer_def read_tokenizer_json_def raises)
qed

lemma scan_entries_Inr:
  "scan_entries root_dir ra n entries fin = Inr found \<Longrightarrow>
     map (\<lambda>f. (fe_name f, fe_size_bytes f)) found = regular_entries entries \<and> fin = None \<and>
     length found \<le> max_inventory_entries - n \<and>
     list_all (\<lambda>f. fe_role f = inventory_role (fe_name f) ra) found"
proof (induction entries arbitrary: n found)
  case Nil
  then show ?case by (cases fin) (auto simp: regular_entries_def split: if_splits)
next
  case (Cons d rest)
  from Cons.prems have n: "n < max_inventory_entries" by (auto simp: Let_def split: if_splits)
  show ?case
  proof (cases "de_is_file d = Inr True")
    case True
    with Cons.prems n obtain size_bytes found' where s: "de_size d = Inr size_bytes"
      "scan_entries root_dir ra (Suc n) rest fin = Inr found'"
      "found = \<lparr>fe_name = de_name d, fe_size_bytes = size_bytes, fe_role = inventory_role (de_name d) ra\<rparr> # found'"
      by (cases "de_size d") (auto simp: Let_def raises split: if_splits)
    with Cons.IH [OF s(2)] True n show ?thesis by (auto simp: regular_entries_def)
  next
    case False
    with Cons.prems n have "scan_entries root_dir ra (Suc n) rest fin = Inr found"
      by (cases "de_is_file d") (auto simp: Let_def raises split: if_splits)
    from Cons.IH [OF this] False n show ?thesis by (auto simp: regular_entries_def)
  qed
qed

lemma build_inventory_Inr:
  assumes "build_inventory fs root_dir ra = Inr inventory"
  shows "holds_inventory fs root_dir ra inventory"
proof -
  from assms obtain entries fin found where sc: "fs_scan fs root_dir = Inr (entries, fin)"
    and fo: "scan_entries root_dir ra 0 entries fin = Inr found" and inventory: "inventory = sort_key fe_name found"
    by (auto simp: build_inventory_def raises split: sum.splits if_splits)
  from scan_entries_Inr [OF fo] sc show ?thesis
    unfolding holds_inventory_def inventory
    by (auto simp: list_all_iff simp flip: mset_map) (metis mset_map mset_sort)
qed

lemma resolve_path_Inr:
  assumes "resolve_path fs loads sha place kind mid revision expected items = Inr r" and "mid = model_id_const"
  shows "holds_model fs loads sha r \<and> rm_source_kind r = kind \<and> rm_revision r = revision \<and>
    (\<forall>h. expected = Some h \<longrightarrow> ci_sha256 (rm_identity r) = h) \<and>
    validated_directory fs place = Inr (rm_path r)"
proof -
  from assms obtain rt ci mw av tk inventory where steps: "validated_directory fs place = Inr rt"
    "validate_config fs loads sha rt = Inr ci" "expected = None \<or> ci_sha256 ci = the expected"
    "select_weight fs rt ''main weight'' main_weight_filenames = Inr mw"
    "select_weight fs rt ''AudioVAE weight'' audiovae_weight_filenames = Inr av"
    "validate_tokenizer fs loads rt = Inr tk"
    "build_inventory fs rt \<lparr>ra_config = config_filename, ra_main_weight = mw, ra_audiovae_weight = av,
       ra_tokenizer = tk\<rparr> = Inr inventory"
    and r: "r = \<lparr>rm_path = rt, rm_source_kind = kind, rm_model_id = mid, rm_identity = ci,
            rm_revision = revision, rm_inventory = inventory, rm_artifacts = \<lparr>ra_config = config_filename,
            ra_main_weight = mw, ra_audiovae_weight = av, ra_tokenizer = tk\<rparr>, rm_metadata = sorted_metadata items\<rparr>"
    by (auto simp: resolve_path_def Let_def raises split: if_splits)
  show ?thesis
    using validate_config_Inr [OF steps(2)] steps(1,3) assms(2) validate_tokenizer_Inr [OF steps(6)]
      build_inventory_Inr [OF steps(7)] select_weight_from_Inr [of fs rt "''main weight''" _ main_weight_filenames mw]
      select_weight_from_Inr [of fs rt "''AudioVAE weight''" _ audiovae_weight_filenames av] steps(4,5)
    by (auto simp: r holds_model_def select_weight_def)
qed

section \<open>How a resolution fails\<close>

fun is_model_exn :: "exn \<Rightarrow> bool" where
  "is_model_exn (ModelExn _) = True"
| "is_model_exn _ = False"

text \<open>
  A file system whose calls fail only with the exceptions their documentation names, and a JSON decoder
  that fails only with the three exceptions the code catches.
\<close>

definition entry_reports :: "dir_entry \<Rightarrow> bool" where
  "entry_reports d \<longleftrightarrow>
     outcome is_os_error (\<lambda>_. True) (de_is_file d) \<and> outcome is_os_error (\<lambda>_. True) (de_size d)"

definition fs_reports :: "file_system \<Rightarrow> bool" where
  "fs_reports fs \<longleftrightarrow>
     (\<forall>p. outcome (\<lambda>e. is_os_error e \<or> is_value_exn e) (\<lambda>_. True) (fs_stat fs p)) \<and>
     (\<forall>p. outcome (\<lambda>e. is_os_error e \<or> is_runtime_exn e) (\<lambda>_. True) (fs_resolve fs p)) \<and>
     (\<forall>p n. outcome (\<lambda>e. is_os_error e \<or> is_value_exn e) (\<lambda>_. True) (fs_read fs p n)) \<and>
     (\<forall>p. outcome is_os_error (\<lambda>(entries, fin). list_all entry_reports entries \<and>
        (case fin of None \<Rightarrow> True | Some e \<Rightarrow> is_os_error e)) (fs_scan fs p))"

definition loads_reports :: "json_loads \<Rightarrow> bool" where
  "loads_reports loads \<longleftrightarrow> (\<forall>data. outcome json_caught (\<lambda>_. True) (loads data))"

lemma is_model_exn_model_exn [simp]: "is_model_exn (model_exn c m p d)"
  by (simp add: model_exn_def)

abbreviation model_errors :: "exn + 'a \<Rightarrow> bool" where
  "model_errors \<equiv> outcome is_model_exn (\<lambda>_. True)"

lemma model_errors_and_then:
  "model_errors m \<Longrightarrow> (\<And>x. model_errors (f x)) \<Longrightarrow> model_errors (and_then m f)"
  by (cases m) auto

lemma fs_answers:
  assumes "fs_reports fs"
  shows "outcome (\<lambda>e. is_os_error e \<or> is_value_exn e) (\<lambda>_. True) (fs_stat fs p)"
    and "outcome (\<lambda>e. is_os_error e \<or> is_value_exn e) (\<lambda>_. True) (fs_read fs p n)"
    and "outcome (\<lambda>e. is_os_error e \<or> is_runtime_exn e) (\<lambda>_. True) (fs_resolve fs p)"
    and "outcome is_os_error (\<lambda>(entries, fin). list_all entry_reports entries \<and>
        (case fin of None \<Rightarrow> True | Some e \<Rightarrow> is_os_error e)) (fs_scan fs p)"
  using assms by (simp_all add: fs_reports_def)

lemma fs_stat_reports: "fs_reports fs \<Longrightarrow> fs_stat fs p = Inl e \<Longrightarrow> is_os_error e \<or> is_value_exn e"
  using fs_answers(1) [of fs p] by simp

lemma fs_read_reports: "fs_reports fs \<Longrightarrow> fs_read fs p n = Inl e \<Longrightarrow> is_os_error e \<or> is_value_exn e"
  using fs_answers(2) [of fs p n] by simp

lemma fs_resolve_reports: "fs_reports fs \<Longrightarrow> fs_resolve fs p = Inl e \<Longrightarrow> is_os_error e \<or> is_runtime_exn e"
  using fs_answers(3) [of fs p] by simp

lemma loads_caught: "loads_reports loads \<Longrightarrow> loads data = Inl e \<Longrightarrow> json_caught e"
proof -
  assume "loads_reports loads"
  then have "outcome json_caught (\<lambda>_. True) (loads data)" by (simp add: loads_reports_def)
  then show "loads data = Inl e \<Longrightarrow> json_caught e" by simp
qed

lemma validated_directory_errors: "fs_reports fs \<Longrightarrow> model_errors (validated_directory fs place)"
  by (cases place) (auto simp: validated_directory_def Let_def raises split: sum.splits option.splits
      dest: fs_stat_reports fs_resolve_reports)

lemma require_file_errors: "fs_reports fs \<Longrightarrow> model_errors (require_nonempty_regular_file fs p label)"
  by (auto simp: require_nonempty_regular_file_def split: sum.splits dest: fs_stat_reports)

lemma read_json_object_errors:
  "fs_reports fs \<Longrightarrow> loads_reports loads \<Longrightarrow> model_errors (read_json_object fs loads c a b x y p limit)"
  by (auto simp: read_json_object_def split: sum.splits option.splits dest: fs_read_reports loads_caught)

lemma check_sections_errors: "model_errors (check_sections p payload ss)"
  by (induction p payload ss rule: check_sections.induct) (auto simp: Let_def split: option.splits)

lemma validate_config_errors:
  "fs_reports fs \<Longrightarrow> loads_reports loads \<Longrightarrow> model_errors (validate_config fs loads sha root_dir)"
  by (auto simp: validate_config_def validate_config_structure_def Let_def
      intro!: model_errors_and_then require_file_errors read_json_object_errors check_sections_errors)

lemma select_weight_errors: "fs_reports fs \<Longrightarrow> model_errors (select_weight fs root_dir role filenames)"
proof -
  assume fs: "fs_reports fs"
  have "model_errors (select_weight_from fs root_dir role expected filenames)" for expected
    by (induction filenames) (auto simp: Let_def split: sum.splits dest: fs_stat_reports [OF fs])
  then show ?thesis by (simp add: select_weight_def)
qed

lemma validate_tokenizer_errors:
  "fs_reports fs \<Longrightarrow> loads_reports loads \<Longrightarrow> model_errors (validate_tokenizer fs loads root_dir)"
  by (auto simp: validate_tokenizer_def required_tokenizer_filenames_def read_tokenizer_json_def
      intro!: model_errors_and_then require_file_errors read_json_object_errors)

lemma scan_entries_errors:
  "list_all entry_reports entries \<Longrightarrow> (case fin of None \<Rightarrow> True | Some e \<Rightarrow> is_os_error e) \<Longrightarrow>
   model_errors (scan_entries root_dir ra n entries fin)"
proof (induction entries arbitrary: n)
  case Nil
  then show ?case by (cases fin) auto
next
  case (Cons d rest)
  then show ?case
    by (cases "de_is_file d"; cases "de_size d") (auto simp: Let_def entry_reports_def intro!: model_errors_and_then)
qed

lemma build_inventory_errors:
  assumes "fs_reports fs"
  shows "model_errors (build_inventory fs root_dir ra)"
proof (cases "fs_scan fs root_dir")
  case (Inl e)
  with fs_answers(4) [OF assms, of root_dir] show ?thesis by (simp add: build_inventory_def)
next
  case (Inr found)
  obtain entries fin where f: "found = (entries, fin)" by fastforce
  with Inr fs_answers(4) [OF assms, of root_dir] have "model_errors (scan_entries root_dir ra 0 entries fin)"
    by (intro scan_entries_errors) auto
  with Inr f show ?thesis by (simp add: build_inventory_def model_errors_and_then)
qed

lemma resolve_path_errors:
  "fs_reports fs \<Longrightarrow> loads_reports loads \<Longrightarrow>
   model_errors (resolve_path fs loads sha place kind mid revision expected items)"
  unfolding resolve_path_def Let_def
  by (intro model_errors_and_then outcome_ifI validated_directory_errors validate_config_errors
      select_weight_errors validate_tokenizer_errors build_inventory_errors) simp_all

lemma resolve_candidate_errors:
  "fs_reports fs \<Longrightarrow> loads_reports loads \<Longrightarrow> model_errors (resolve_candidate fs loads sha c)"
  by (simp add: resolve_candidate_def Let_def resolve_path_errors)

lemma model_errorsE:
  assumes "model_errors m" and "m = Inl e"
  obtains x where "e = ModelExn x"
  using assms by (cases e) auto

lemma model_errors_case [simp]:
  "model_errors m \<Longrightarrow> (case m of Inr r \<Rightarrow> f r | Inl e \<Rightarrow> (case e of ModelExn x \<Rightarrow> g x | _ \<Rightarrow> Inl e)) =
     (case m of Inr r \<Rightarrow> f r | Inl e \<Rightarrow> g (case e of ModelExn x \<Rightarrow> x))"
  by (cases m) (auto split: exn.splits)

section \<open>The order of the sources\<close>

fun first_valid :: "('e + 'a) list \<Rightarrow> 'a option" where
  "first_valid [] = None"
| "first_valid (Inr r # ms) = Some r"
| "first_valid (Inl e # ms) = first_valid ms"

definition cache_source :: "file_system \<Rightarrow> json_loads \<Rightarrow> hex_digest \<Rightarrow> runtime_config \<Rightarrow> (exn + resolved_model) list" where
  "cache_source fs loads sha cfg =
     (case cache_dir cfg of
        None \<Rightarrow> []
      | Some s \<Rightarrow>
         [case fs_expand fs (path_of s) of
            None \<Rightarrow> Inl (RuntimeError ''Could not determine home directory.'')
          | Some q \<Rightarrow> and_then (fs_stat fs q) (\<lambda>_.
              resolve_path fs loads sha (Path_Object q) Local_Cache model_id_const None None [])])"

lemma try_candidates_first:
  assumes "fs_reports fs" and "loads_reports loads"
  shows "n + length cs \<le> max_deployment_candidates \<Longrightarrow>
    \<exists>failed. length failed = length cs \<and>
      try_candidates fs loads sha n (map Item_Candidate cs) None attempts =
        Inr (case first_valid (map (resolve_candidate fs loads sha) cs) of
               Some r \<Rightarrow> Inl r | None \<Rightarrow> Inr (attempts @ failed))"
proof (induction cs arbitrary: n attempts)
  case Nil
  then show ?case by simp
next
  case (Cons c cs)
  note err = resolve_candidate_errors [OF assms, of sha c]
  show ?case
  proof (cases "resolve_candidate fs loads sha c")
    case (Inr r)
    with Cons.prems show ?thesis by (intro exI [of _ "replicate (length (c # cs)) PNone"]) simp
  next
    case (Inl e)
    from model_errorsE [OF err Inl] obtain x where x: "e = ModelExn x" .
    from Cons.prems Cons.IH [of "Suc n" "attempts @ [model_error_to_dict x]"] obtain failed where
      "length failed = length cs"
      "try_candidates fs loads sha (Suc n) (map Item_Candidate cs) None (attempts @ [model_error_to_dict x]) =
        Inr (case first_valid (map (resolve_candidate fs loads sha) cs) of
               Some r \<Rightarrow> Inl r | None \<Rightarrow> Inr ((attempts @ [model_error_to_dict x]) @ failed))" by auto
    with Cons.prems Inl x show ?thesis
      by (intro exI [of _ "model_error_to_dict x # failed"]) (simp split: option.splits)
  qed
qed

lemma try_cache_first:
  assumes "fs_reports fs" and "loads_reports loads"
  shows "\<exists>failed. length failed = length (cache_source fs loads sha cfg) \<and>
    try_cache fs loads sha (cache_dir cfg) attempts =
      Inr (case first_valid (cache_source fs loads sha cfg) of
             Some r \<Rightarrow> Inl r | None \<Rightarrow> Inr (attempts @ failed))"
proof (cases "cache_dir cfg")
  case None
  then show ?thesis by (simp add: try_cache_def cache_source_def)
next
  case (Some s)
  show ?thesis
  proof (cases "fs_expand fs (path_of s)")
    case None
    with Some show ?thesis by (simp add: try_cache_def cache_source_def)
  next
    case (Some q)
    note s = \<open>cache_dir cfg = Some s\<close>
    show ?thesis
    proof (cases "fs_stat fs q")
      case (Inl e)
      with fs_stat_reports [OF assms(1) Inl] Some s show ?thesis
        by (cases "is_missing e") (auto simp: try_cache_def cache_source_def)
    next
      case (Inr status)
      let ?m = "resolve_path fs loads sha (Path_Object q) Local_Cache model_id_const None None []"
      note err = resolve_path_errors [OF assms, of sha "Path_Object q" Local_Cache model_id_const None None "[]"]
      show ?thesis
      proof (cases ?m)
        case (Inl e)
        from model_errorsE [OF err Inl] obtain x where "e = ModelExn x" .
        with Inl Inr Some s show ?thesis by (auto simp: try_cache_def cache_source_def)
      next
        case (Inr r)
        with \<open>fs_stat fs q = Inr status\<close> Some s show ?thesis
          by (auto simp: try_cache_def cache_source_def intro: exI [of _ "[PNone]"])
      qed
    qed
  qed
qed

lemma first_valid_append:
  "first_valid (ms @ ms') = (case first_valid ms of Some r \<Rightarrow> Some r | None \<Rightarrow> first_valid ms')"
  by (induction ms rule: first_valid.induct) auto

lemma try_candidates_Inr:
  "try_candidates fs loads sha n items fin attempts = Inr (Inl r) \<Longrightarrow>
   \<exists>c. resolve_candidate fs loads sha c = Inr r"
proof (induction items arbitrary: n attempts)
  case Nil
  then show ?case by (cases fin) (auto split: if_splits)
next
  case (Cons item rest)
  then obtain c where "(case resolve_candidate fs loads sha c of
          Inr r \<Rightarrow> Inr (Inl r)
        | Inl (ModelExn e) \<Rightarrow>
            try_candidates fs loads sha (Suc n) rest fin (attempts @ [model_error_to_dict e])
        | Inl e \<Rightarrow> Inl e) = Inr (Inl r)"
    by (auto simp: raises split: if_splits candidate_item.splits)
  then show ?case using Cons.IH by (auto split: sum.splits exn.splits)
qed

lemma resolve_candidate_Inr:
  assumes "resolve_candidate fs loads sha c = Inr r"
  shows "holds_model fs loads sha r \<and> rm_source_kind r = Deployment_Mount \<and>
    (case rm_revision r of None \<Rightarrow> True | Some v \<Rightarrow> revision_match v)"
proof -
  from assms have ok: "absent_or revision_match (dc_revision c)"
    and rp: "resolve_path fs loads sha (dc_path c) Deployment_Mount model_id_const (str_option (dc_revision c))
      (str_option (dc_expected c)) (dc_metadata c) = Inr r"
    by (auto simp: resolve_candidate_def Let_def split: if_splits)
  from ok have "case str_option (dc_revision c) of None \<Rightarrow> True | Some v \<Rightarrow> revision_match v"
    by (cases "dc_revision c") (simp_all add: str_option_def)
  with resolve_path_Inr [OF rp] show ?thesis by simp
qed

lemma resolve_model_facts:
  assumes "resolve_model fs loads sha cfg candidates acquirer = Inr r"
  shows "holds_model fs loads sha r \<and>
    (case rm_source_kind r of
       Explicit_Path \<Rightarrow> rm_revision r = None \<and>
         (\<exists>p. model_path cfg = Some p \<and> validated_directory fs (Path_Text p) = Inr (rm_path r))
     | Deployment_Mount \<Rightarrow> model_path cfg = None \<and> candidates \<noteq> Items [] None \<and>
         (case rm_revision r of None \<Rightarrow> True | Some v \<Rightarrow> revision_match v)
     | Local_Cache \<Rightarrow> model_path cfg = None \<and> cache_dir cfg \<noteq> None \<and> rm_revision r = None
     | Remote_Acquired \<Rightarrow> model_path cfg = None \<and> \<not> offline cfg \<and> rm_revision r = None \<and>
         (\<exists>p. acquirer = Some (Inr p) \<and> validated_directory fs p = Inr (rm_path r)))"
proof (cases "model_path cfg")
  case (Some p)
  with assms resolve_path_Inr show ?thesis by (force simp: resolve_model_def)
next
  case None
  note path = this
  from assms path obtain items fin tried where items: "candidates = Items items fin"
    and tried: "try_candidates fs loads sha 0 items fin [] = Inr tried"
    by (auto simp: resolve_model_def raises split: candidate_source.splits)
  show ?thesis
  proof (cases tried)
    case (Inl r1)
    with assms path items tried have "r1 = r" by (simp add: resolve_model_def)
    with Inl tried obtain c where "resolve_candidate fs loads sha c = Inr r" by (auto dest: try_candidates_Inr)
    moreover have "candidates \<noteq> Items [] None" using tried items Inl by (cases fin) auto
    ultimately show ?thesis using resolve_candidate_Inr path by simp
  next
    case (Inr attempts)
    with assms path items tried obtain tried2 where tc: "try_cache fs loads sha (cache_dir cfg) attempts = Inr tried2"
      and rest: "(case tried2 of Inl r \<Rightarrow> Inr r | Inr attempts2 \<Rightarrow>
          if offline cfg
          then Inl (model_exn OfflineResolutionError
                 ''Offline mode is enabled and no valid local VoxCPM2 model was found'' None
                 [(''attempts'', PList attempts2)])
          else try_remote fs loads sha acquirer attempts2) = Inr r"
      by (auto simp: resolve_model_def raises)
    show ?thesis
    proof (cases tried2)
      case (Inl r1)
      with tc rest obtain q where "resolve_path fs loads sha (Path_Object q) Local_Cache model_id_const None None [] = Inr r"
        "cache_dir cfg \<noteq> None"
        by (auto simp: try_cache_def split: option.splits sum.splits if_splits exn.splits)
      with resolve_path_Inr path show ?thesis by force
    next
      case (Inr attempts2)
      with rest have on: "\<not> offline cfg" and "try_remote fs loads sha acquirer attempts2 = Inr r"
        by (auto split: if_splits)
      then obtain p where "acquirer = Some (Inr p)"
        "resolve_path fs loads sha p Remote_Acquired model_id_const None None [] = Inr r"
        by (auto simp: try_remote_def split: option.splits sum.splits if_splits exn.splits)
      with resolve_path_Inr path on show ?thesis by force
    qed
  qed
qed

section \<open>Properties\<close>

text \<open>C19. A resolved directory holds a model: a readable configuration of bounded size with the expected
  architecture and every required section, the first weight file of each kind with those preferred to it
  absent, tokenizer files the loader can use, and an inventory of at most 4096 files sorted by name that lists
  exactly the regular files with their roles. The recorded source is the true one: an explicit path and nothing
  else when one is configured, a revision only as a full object id of a deployment, and the acquirer only
  when offline mode is off.\<close>

theorem resolved_model_sound:
  assumes "resolve_model fs loads sha cfg candidates acquirer = Inr r"
  shows "holds_model fs loads sha r \<and>
    (case rm_source_kind r of
       Explicit_Path \<Rightarrow> rm_revision r = None \<and>
         (\<exists>p. model_path cfg = Some p \<and> validated_directory fs (Path_Text p) = Inr (rm_path r))
     | Deployment_Mount \<Rightarrow> model_path cfg = None \<and> candidates \<noteq> Items [] None \<and>
         (case rm_revision r of None \<Rightarrow> True | Some v \<Rightarrow> revision_match v)
     | Local_Cache \<Rightarrow> model_path cfg = None \<and> cache_dir cfg \<noteq> None \<and> rm_revision r = None
     | Remote_Acquired \<Rightarrow> model_path cfg = None \<and> \<not> offline cfg \<and> rm_revision r = None \<and>
         (\<exists>p. acquirer = Some (Inr p) \<and> validated_directory fs p = Inr (rm_path r)))"
  by (rule resolve_model_facts [OF assms])


text \<open>A configuration whose decoding raises a plain \<open>ValueError\<close> - an integer of more digits than Python
  converts - is not skipped: the exception leaves the resolver although a later candidate may hold a model,
  and from the acquirer it is reported as an invalid path.\<close>

theorem undecodable_number_escapes:
  assumes "validated_directory fs place = Inr root_dir"
    and "nonempty_file fs (path_child root_dir config_filename)"
    and "fs_read fs (path_child root_dir config_filename) (max_config_bytes + 1) = Inr data"
    and "length data \<le> max_config_bytes" and "loads data = Inl (ValueError m)"
    and "dc_path c = place" and "dc_model_id c = PNone" and "dc_revision c = PNone" and "dc_expected c = PNone"
    and "model_path cfg = None" and "cache_dir cfg = None" and "\<not> offline cfg"
  shows "resolve_model fs loads sha cfg (Items (Item_Candidate c # later) fin) acquirer = Inl (ValueError m) \<and>
    resolve_model fs loads sha cfg (Items [] None) (Some (Inr place)) =
      Inl (model_exn RemoteAcquisitionError ''The remote model acquirer returned an invalid path'' None
        [(''attempts'', PList []), (''remote_value_type'', PStr (arg_type_name place))])"
proof -
  have "require_nonempty_regular_file fs (path_child root_dir config_filename) ''Model config'' = Inr ()"
    using assms(2) by (simp add: raises)
  with assms(3-5) have "validate_config fs loads sha root_dir = Inl (ValueError m)"
    by (simp add: validate_config_def read_json_object_def)
  with assms(1) have rp: "resolve_path fs loads sha place kind mid revision expected items = Inl (ValueError m)"
    for kind mid revision expected items by (simp add: resolve_path_def)
  with assms(6-9) have "resolve_candidate fs loads sha c = Inl (ValueError m)"
    by (simp add: resolve_candidate_def)
  with assms(10-12) rp show ?thesis
    by (simp add: resolve_model_def max_deployment_candidates_def try_cache_def try_remote_def)
qed

text \<open>A directory that holds a model, for the witnesses.\<close>

definition sample_model_files :: "string list" where
  "sample_model_files =
     [''config.json'', ''pytorch_model.bin'', ''audiovae.pth'', ''tokenizer.json'', ''tokenizer_config.json'']"

definition sample_fs :: file_system where
  "sample_fs =
     \<lparr>fs_cwd = Inr (path_of ''/''), fs_expand = Some,
      fs_stat = (\<lambda>p. if p = path_of ''/m'' then Inr \<lparr>st_kind = Directory, st_size = 0\<rparr>
        else if path_name p \<in> set sample_model_files then Inr \<lparr>st_kind = Regular, st_size = 1\<rparr>
        else Inl (OtherError ''FileNotFoundError'' [])),
      fs_resolve = Inr,
      fs_read = (\<lambda>p n. Inr [if path_name p = ''config.json'' then 1
        else if path_name p = ''tokenizer_config.json'' then 2 else 3]),
      fs_scan = (\<lambda>p. Inr (map (\<lambda>f. \<lparr>de_name = f, de_is_file = Inr True, de_size = Inr 1\<rparr>) sample_model_files, None)),
      fs_exists = (\<lambda>p. True), fs_is_file = (\<lambda>p. Inr True), fs_readable = (\<lambda>p. True)\<rparr>"

definition sample_loads :: json_loads where
  "sample_loads data =
     Inr (if data = [1]
       then PDict ((PStr ''architecture'', PStr ''VoxCPM2'') #
         map (\<lambda>(s, fields_needed). (PStr s, PDict (map (\<lambda>f. (PStr f, PDict [])) fields_needed)))
           required_config_sections)
       else if data = [2] then PDict [(PStr ''tokenizer_class'', PStr ''T'')]
       else PDict [(PStr ''version'', PStr ''1.0''),
         (PStr ''model'', PDict [(PStr ''type'', PStr ''BPE''), (PStr ''vocab'', PDict [(PStr ''a'', PInt 0)])])])"

definition sample_digest :: hex_digest where
  "sample_digest data = replicate 64 CHR ''0''"

definition sample_root :: file_path where
  "sample_root = \<lparr>p_root = ''/'', p_parts = [''m'']\<rparr>"

lemma sample_children:
  "f \<in> set sample_model_files \<Longrightarrow> path_child sample_root f = \<lparr>p_root = ''/'', p_parts = [''m'', f]\<rparr>"
  by (auto simp: sample_model_files_def sample_root_def path_join_def path_of_def)

lemma sample_stat:
  "f \<in> set sample_model_files \<Longrightarrow>
   fs_stat sample_fs \<lparr>p_root = ''/'', p_parts = [''m'', f]\<rparr> = Inr \<lparr>st_kind = Regular, st_size = 1\<rparr>"
  by (simp add: sample_fs_def path_of_def path_name_def)

lemma sample_files_in:
  "''config.json'' \<in> set sample_model_files" "''pytorch_model.bin'' \<in> set sample_model_files"
  "''audiovae.pth'' \<in> set sample_model_files" "''tokenizer.json'' \<in> set sample_model_files"
  "''tokenizer_config.json'' \<in> set sample_model_files"
  by (simp_all add: sample_model_files_def)

lemma sample_require:
  "f \<in> set sample_model_files \<Longrightarrow>
   require_nonempty_regular_file sample_fs \<lparr>p_root = ''/'', p_parts = [''m'', f]\<rparr> label = Inr ()"
  by (simp add: raises nonempty_file_def sample_stat)

lemma sample_directory: "validated_directory sample_fs (Path_Text ''/m'') = Inr sample_root"
  by (simp add: validated_directory_def sample_fs_def path_of_def sample_root_def)

lemma sample_read:
  "fs_read sample_fs p n = Inr [if path_name p = ''config.json'' then 1
        else if path_name p = ''tokenizer_config.json'' then 2 else 3]"
  by (simp add: sample_fs_def)

lemma sample_config:
  "validate_config sample_fs sample_loads sample_digest sample_root =
   Inr \<lparr>ci_architecture = ''VoxCPM2'', ci_sha256 = replicate 64 CHR ''0'', ci_size_bytes = 1\<rparr>"
proof -
  let ?payload = "(PStr ''architecture'', PStr ''VoxCPM2'') #
         map (\<lambda>(s, fields_needed). (PStr s, PDict (map (\<lambda>f. (PStr f, PDict [])) fields_needed)))
           required_config_sections"
  have l: "sample_loads [1] = Inr (PDict ?payload)" by (simp add: sample_loads_def)
  have r: "read_json_object sample_fs sample_loads c a b x y \<lparr>p_root = ''/'', p_parts = [''m'', ''config.json'']\<rparr>
      max_config_bytes = Inr ([1], ?payload)" for c a b x y
    using l by (simp add: raises sample_read path_name_def max_config_bytes_def)
  have a: "pv_get ?payload ''architecture'' = PStr ''VoxCPM2''" by (simp add: pv_get_def)
  have s: "check_sections p ?payload required_config_sections = Inr ()" for p
    by (simp add: check_sections_Inr required_config_sections_def pv_get_def)
  have c: "dict_items (pv_get (the (dict_items (pv_get ?payload ''dit_config''))) ''cfm_config'') \<noteq> None"
    by (simp add: required_config_sections_def pv_get_def)
  from s c have v: "validate_config_structure ?payload p = Inr ()" for p by (simp add: validate_config_structure_def)
  have f: "casefold ''VoxCPM2'' = expected_architecture"
    by code_simp
  show ?thesis
    unfolding validate_config_def config_filename_def Let_def sample_children [OF sample_files_in(1)]
    by (simp only: sample_require [OF sample_files_in(1)] and_then_Inr r a v f is_str.simps str_of.simps
        prod.case simp_thms if_False) (simp add: sample_digest_def)
qed

lemma sample_weights:
  "select_weight sample_fs sample_root role main_weight_filenames = Inr ''pytorch_model.bin''"
  "select_weight sample_fs sample_root role audiovae_weight_filenames = Inr ''audiovae.pth''"
  by (simp_all add: select_weight_def main_weight_filenames_def audiovae_weight_filenames_def
      sample_root_def path_join_def path_of_def sample_fs_def path_name_def sample_model_files_def)

lemma sample_tokenizer:
  "validate_tokenizer sample_fs sample_loads sample_root = Inr required_tokenizer_filenames"
proof -
  have c: "read_tokenizer_json sample_fs sample_loads \<lparr>p_root = ''/'', p_parts = [''m'', ''tokenizer_config.json'']\<rparr>
      max_tokenizer_config_bytes = Inr [(PStr ''tokenizer_class'', PStr ''T'')]"
    by (simp add: read_tokenizer_json_def read_json_object_def sample_read path_name_def
        max_tokenizer_config_bytes_def sample_loads_def)
  have t: "read_tokenizer_json sample_fs sample_loads \<lparr>p_root = ''/'', p_parts = [''m'', ''tokenizer.json'']\<rparr>
      max_tokenizer_json_bytes = Inr [(PStr ''version'', PStr ''1.0''),
         (PStr ''model'', PDict [(PStr ''type'', PStr ''BPE''), (PStr ''vocab'', PDict [(PStr ''a'', PInt 0)])])]"
    by (simp add: read_tokenizer_json_def read_json_object_def sample_read path_name_def
        max_tokenizer_json_bytes_def sample_loads_def)
  show ?thesis
    unfolding validate_tokenizer_def
    by (simp add: required_tokenizer_filenames_def sample_children sample_files_in sample_require c t pv_get_def)
qed

lemma sample_inventory:
  "build_inventory sample_fs sample_root \<lparr>ra_config = config_filename, ra_main_weight = ''pytorch_model.bin'',
      ra_audiovae_weight = ''audiovae.pth'', ra_tokenizer = required_tokenizer_filenames\<rparr> =
   Inr [\<lparr>fe_name = ''audiovae.pth'', fe_size_bytes = 1, fe_role = ''audiovae-weight''\<rparr>,
        \<lparr>fe_name = ''config.json'', fe_size_bytes = 1, fe_role = ''config''\<rparr>,
        \<lparr>fe_name = ''pytorch_model.bin'', fe_size_bytes = 1, fe_role = ''main-weight''\<rparr>,
        \<lparr>fe_name = ''tokenizer.json'', fe_size_bytes = 1, fe_role = ''tokenizer''\<rparr>,
        \<lparr>fe_name = ''tokenizer_config.json'', fe_size_bytes = 1, fe_role = ''tokenizer''\<rparr>]"
  by (simp add: build_inventory_def sample_fs_def sample_model_files_def max_inventory_entries_def
      inventory_role_def config_filename_def main_weight_filenames_def audiovae_weight_filenames_def
      required_tokenizer_filenames_def)

lemma sample_resolves:
  assumes "place = Path_Text ''/m''"
  shows "\<exists>r. resolve_path sample_fs sample_loads sample_digest place kind model_id_const revision None [] = Inr r \<and>
    rm_path r = sample_root \<and> rm_source_kind r = kind \<and> rm_revision r = revision \<and>
    rm_model_id r = model_id_const \<and> length (rm_inventory r) = 5"
  unfolding assms by (simp add: resolve_path_def sample_directory sample_config sample_weights sample_tokenizer
      sample_inventory)

lemma sample_reports: "fs_reports sample_fs" "loads_reports sample_loads"
  by (auto simp: fs_reports_def loads_reports_def sample_fs_def sample_loads_def os_error_names_def
      list_all_iff entry_reports_def)

definition local_model :: runtime_config where
  "local_model = default_config\<lparr>model_path := Some ''/m''\<rparr>"

theorem resolved_model_sound_witness:
  "\<exists>r. resolve_model sample_fs sample_loads sample_digest local_model Not_Ordered None = Inr r \<and>
     holds_model sample_fs sample_loads sample_digest r \<and> rm_source_kind r = Explicit_Path \<and>
     length (rm_inventory r) = 5"
proof -
  from sample_resolves [OF refl, of Explicit_Path None] obtain r where
    r: "resolve_model sample_fs sample_loads sample_digest local_model Not_Ordered None = Inr r"
      "rm_source_kind r = Explicit_Path" "length (rm_inventory r) = 5"
    by (auto simp: resolve_model_def local_model_def)
  from resolved_model_sound [OF r(1)] r show ?thesis by blast
qed


definition strict_loads :: json_loads where
  "strict_loads data = Inl (ValueError ''Exceeds the limit (4300 digits) for integer string conversion'')"

theorem undecodable_number_escapes_witness:
  "\<exists>m. resolve_model sample_fs strict_loads sample_digest (default_config\<lparr>offline := False\<rparr>)
     (Items (map Item_Candidate (replicate 2
        \<lparr>dc_path = Path_Text ''/m'', dc_model_id = PNone, dc_revision = PNone, dc_expected = PNone,
         dc_metadata = []\<rparr>)) None) None = Inl (ValueError m)"
proof -
  let ?c = "\<lparr>dc_path = Path_Text ''/m'', dc_model_id = PNone, dc_revision = PNone, dc_expected = PNone,
         dc_metadata = []\<rparr>"
  have n: "nonempty_file sample_fs (path_child sample_root config_filename)"
    by (simp add: nonempty_file_def config_filename_def sample_children sample_stat sample_files_in)
  have r: "fs_read sample_fs (path_child sample_root config_filename) (max_config_bytes + 1) = Inr [1]"
    by (simp add: config_filename_def sample_children sample_files_in sample_read path_name_def)
  have l: "length [1 :: int] \<le> max_config_bytes" by (simp add: max_config_bytes_def)
  let ?cfg = "default_config\<lparr>offline := False\<rparr>"
  have cfg: "model_path ?cfg = None" "cache_dir ?cfg = None" "\<not> offline ?cfg"
    by (simp_all add: default_config_def)
  from undecodable_number_escapes [OF sample_directory n r l strict_loads_def, of ?c, OF _ _ _ _ cfg]
  show ?thesis by (auto simp: numeral_2_eq_2)
qed

end
