(* ===== verification/Pytorch_Backend.thy ===== *)
theory Pytorch_Backend
  imports Worker_Process Model_Resolver Device
begin

text \<open>
  \<open>voxcpm_runtime/pytorch_backend.py\<close>: the adapter between the \<open>InferenceBackend\<close> protocol and the packages
  \<open>voxcpm\<close> and \<open>torch\<close>. The packages are the record \<open>upstream\<close>: what importing, loading, generating and
  streaming answer, for a loaded model of any type \<open>'m\<close>. A native stream is the list of waveforms its
  iterator gives, the exception that ends it, if any, and what its \<open>close\<close> does. A backend object
  carries the packages and the file system it runs on.
\<close>

section \<open>The upstream packages\<close>

text \<open>A waveform: its type name, its attribute \<open>ndim\<close> (\<open>PNone\<close> when absent), what \<open>tolist()\<close> answers, when
  it has that method, and what iterating over it answers.\<close>

datatype waveform = No_Waveform | Waveform string pyval "(exn + pyval) option" "exn + pyval list"

record native_stream =
  ns_items :: "waveform list"
  ns_end :: "exn option"
  ns_close :: "(exn + unit) option"

text \<open>The device of a tensor: its attribute \<open>type\<close> and its text; a tensor may have none.\<close>

record tensor_device =
  td_type :: pyval
  td_text :: string

type_synonym tensor = "tensor_device option"

datatype named_item = Tuple_Item "tensor list" | Plain_Item tensor

datatype accessor = Not_Callable | Accessor "exn + named_item list \<times> exn option"

record tts_model =
  tts_sample_rate :: pyval
  tts_parameters :: accessor
  tts_buffers :: accessor

record load_args =
  la_path :: string
  la_load_denoiser :: bool
  la_local_files_only :: bool
  la_optimize :: bool
  la_device :: string

type_synonym kwargs = "(string \<times> string) list"

text \<open>\<open>up_import\<close>: whether the imported module has the class.\<close>

record 'm upstream =
  up_import :: "exn + bool"
  up_from_pretrained :: "load_args \<Rightarrow> exn + 'm"
  up_tts :: "'m \<Rightarrow> tts_model option"
  up_generate :: "kwargs \<Rightarrow> 'm \<Rightarrow> (exn + waveform) \<times> 'm"
  up_stream :: "kwargs \<Rightarrow> 'm \<Rightarrow> (exn + native_stream) \<times> 'm"

definition backend_exn :: "backend_class \<Rightarrow> string \<Rightarrow> string \<Rightarrow> (string, pyval) dict \<Rightarrow> exn" where
  "backend_exn c msg cd d =
     BackendExn \<lparr>be_class = c, be_message = msg, be_code = cd, be_retryable = False, be_details = d\<rparr>"

section \<open>Device and optimisation\<close>

definition qualification :: "string \<times> pyval" where
  "qualification = (''qualification'', PStr ''single-GPU qualification'')"

definition resolve_upstream_device :: "plan \<Rightarrow> exn + string" where
  "resolve_upstream_device p =
     (if effective_device p = ''cpu'' then Inr ''cpu''
      else if effective_device p \<noteq> ''cuda''
      then Inl (backend_exn BackendUnsupportedError ''The execution device is not qualified by the real backend.''
        ''device_not_qualified'' [(''device'', PStr (effective_device p)), qualification])
      else if length (selected_gpu_indices p) \<noteq> 1 \<or> worker_count p \<noteq> 1 \<or> length (worker_gpu_indices p) \<noteq> 1
      then Inl (backend_exn BackendUnsupportedError
        ''Multi-GPU execution is not qualified by the real backend yet.'' ''multi_gpu_not_qualified''
        [(''device'', PStr ''cuda''), qualification])
      else if hd (worker_gpu_indices p) \<noteq> hd (selected_gpu_indices p)
      then Inl (backend_exn BackendUnsupportedError
        ''The CUDA worker mapping is not qualified by the real backend.'' ''gpu_worker_mapping_not_qualified''
        [(''device'', PStr ''cuda''), qualification])
      else Inr (''cuda:'' @ show_int (hd (selected_gpu_indices p))))"

fun optimization_value :: "optimization_mode \<Rightarrow> string" where
  "optimization_value Opt_Auto = ''auto''"

definition resolve_upstream_optimize :: "plan \<Rightarrow> optimization_mode \<Rightarrow> exn + bool" where
  "resolve_upstream_optimize p mode =
     (if effective_device p \<in> {''cpu'', ''cuda''} then Inr False
      else Inl (backend_exn BackendUnsupportedError
        ''Upstream optimization semantics are not qualified for this device.''
        ''optimization_semantics_not_qualified''
        [(''device'', PStr (effective_device p)), (''optimization_mode'', PStr (optimization_value mode)),
         qualification]))"

section \<open>The devices of a loaded model\<close>

record device_report =
  dr_parameter_types :: "string list"
  dr_buffer_types :: "string list"
  dr_parameter_count :: nat
  dr_buffer_count :: nat
  dr_expected :: "string option"

definition cpu_only :: "device_report \<Rightarrow> bool" where
  "cpu_only r \<longleftrightarrow>
     dr_parameter_types r \<noteq> [] \<and> set (dr_parameter_types r) = {''cpu''} \<and> set (dr_buffer_types r) \<subseteq> {''cpu''}"

definition all_on_expected_device :: "device_report \<Rightarrow> bool option" where
  "all_on_expected_device r =
     (case dr_expected r of
        None \<Rightarrow> None
      | Some d \<Rightarrow> Some (dr_parameter_types r \<noteq> [] \<and>
          set (dr_parameter_types r) \<union> set (dr_buffer_types r) \<subseteq> {d}))"

definition device_report_to_dict :: "device_report \<Rightarrow> pyval" where
  "device_report_to_dict r =
     PDict
       [(PStr ''all_on_expected_device'', (case all_on_expected_device r of None \<Rightarrow> PNone | Some b \<Rightarrow> PBool b)),
        (PStr ''buffer_count'', PInt (int (dr_buffer_count r))),
        (PStr ''buffer_device_types'', PList (map PStr (dr_buffer_types r))),
        (PStr ''cpu_only'', PBool (cpu_only r)),
        (PStr ''expected_device'', (case dr_expected r of None \<Rightarrow> PNone | Some d \<Rightarrow> PStr d)),
        (PStr ''parameter_count'', PInt (int (dr_parameter_count r))),
        (PStr ''parameter_device_types'', PList (map PStr (dr_parameter_types r)))]"

definition tensor_device_type :: "tensor \<Rightarrow> string option" where
  "tensor_device_type t =
     (case t of
        None \<Rightarrow> None
      | Some d \<Rightarrow>
          if is_str (td_type d) \<and> str_of (td_type d) \<noteq> [] then Some (str_of (td_type d))
          else if td_text d \<noteq> [] then Some (hd (split_on CHR '':'' (td_text d)))
          else None)"

text \<open>\<open>item[1] if isinstance(item, tuple) else item\<close>.\<close>

fun item_tensor :: "named_item \<Rightarrow> exn + tensor" where
  "item_tensor (Plain_Item t) = Inr t"
| "item_tensor (Tuple_Item (_ # t # _)) = Inr t"
| "item_tensor (Tuple_Item _) = Inl (OtherError ''IndexError'' ''tuple index out of range'')"

definition max_tensors :: nat where
  "max_tensors = 1000000"

fun count_tensors :: "named_item list \<Rightarrow> exn option \<Rightarrow> string list \<Rightarrow> nat \<Rightarrow> exn + string list \<times> nat" where
  "count_tensors [] None types n = Inr (types, n)"
| "count_tensors [] (Some e) types n = Inl e"
| "count_tensors (item # rest) fin types n =
     and_then (item_tensor item) (\<lambda>t.
     let types' = (case tensor_device_type t of None \<Rightarrow> types | Some d \<Rightarrow> List.insert d types) in
     if Suc n > max_tensors
     then Inl (backend_exn BackendExecutionError ''Upstream model exposes an implausible tensor count.''
       ''model_tensor_inventory_too_large'' [])
     else count_tensors rest fin types' (Suc n))"

definition collect_device_types :: "accessor \<Rightarrow> exn + string list \<times> nat" where
  "collect_device_types a =
     (case a of
        Not_Callable \<Rightarrow> Inr ([], 0)
      | Accessor called \<Rightarrow>
          and_then (call_normalized ''load'' called) (\<lambda>(items, fin).
            call_normalized ''load'' (count_tensors items fin [] 0)))"

definition missing_tts :: exn where
  "missing_tts =
     backend_exn BackendExecutionError ''The upstream model does not expose the expected tts_model attribute.''
       ''upstream_contract_violation'' [(''attribute'', PStr ''tts_model'')]"

definition inspect_model_devices :: "'m upstream \<Rightarrow> 'm \<Rightarrow> string option \<Rightarrow> exn + device_report" where
  "inspect_model_devices up m expected =
     (case up_tts up m of
        None \<Rightarrow> Inl missing_tts
      | Some tts \<Rightarrow>
          and_then (collect_device_types (tts_parameters tts)) (\<lambda>(parameter_types, parameter_count).
          and_then (collect_device_types (tts_buffers tts)) (\<lambda>(buffer_types, buffer_count).
            Inr \<lparr>dr_parameter_types = sort parameter_types, dr_buffer_types = sort buffer_types,
                 dr_parameter_count = parameter_count, dr_buffer_count = buffer_count,
                 dr_expected = expected\<rparr>)))"

section \<open>Requests\<close>

definition build_design_text :: "string \<Rightarrow> string \<Rightarrow> string" where
  "build_design_text t instruction =
     (let control = strip instruction in if control \<noteq> [] then ''('' @ control @ '')'' @ t else t)"

definition validate_local_reference_audio :: "file_system \<Rightarrow> audio_reference \<Rightarrow> exn + string" where
  "validate_local_reference_audio fs reference =
     (let given = path_of (local_path reference) in
      and_then
        (if is_absolute given then Inr given
         else and_then (fs_cwd fs) (\<lambda>cwd. Inr (path_join cwd given))) (\<lambda>p.
      if \<not> fs_exists fs p
      then Inl (backend_exn BackendRequestError ''The reference audio could not be found.''
        ''reference_audio_not_found'' [])
      else and_then (fs_is_file fs p) (\<lambda>regular.
      if \<not> regular
      then Inl (backend_exn BackendRequestError ''The reference audio is not a regular local file.''
        ''reference_audio_not_file'' [])
      else if \<not> fs_readable fs p
      then Inl (backend_exn BackendRequestError ''The reference audio could not be read.''
        ''reference_audio_unreadable'' [])
      else Inr (path_str p))))"

text \<open>The conditioning and the keyword arguments of a request, for the one-shot methods and for streams.\<close>

fun generate_kwargs :: "file_system \<Rightarrow> one_shot \<Rightarrow> exn + string \<times> kwargs" where
  "generate_kwargs fs (SpeechRequest t) = Inr (''none'', [(''text'', t)])"
| "generate_kwargs fs (VoiceDesignRequest t i) = Inr (''instruction'', [(''text'', build_design_text t i)])"
| "generate_kwargs fs (CloneRequest t r) =
     and_then (validate_local_reference_audio fs r) (\<lambda>p.
       Inr (''reference'', [(''text'', t), (''reference_wav_path'', p)]))"
| "generate_kwargs fs (ContinuationRequest t r u) =
     and_then (validate_local_reference_audio fs r) (\<lambda>p.
       Inr (''continuation'', [(''text'', t), (''prompt_text'', u), (''prompt_wav_path'', p)]))"

section \<open>Waveforms\<close>

fun type_name :: "pyval \<Rightarrow> string" where
  "type_name PNone = ''NoneType''"
| "type_name (PBool _) = ''bool''"
| "type_name (PInt _) = ''int''"
| "type_name (PFloat _) = ''float''"
| "type_name (PStr _) = ''str''"
| "type_name (PTuple _) = ''tuple''"
| "type_name (PList _) = ''list''"
| "type_name (PDict _) = ''dict''"
| "type_name (PObj n) = n"

text \<open>\<open>float(v)\<close>; an object (\<open>PObj\<close>) is taken to have no \<open>__float__\<close>.\<close>

fun to_number :: "pyval \<Rightarrow> exn + pyfloat" where
  "to_number (PBool b) = Inr (Fin (if b then 1 else 0))"
| "to_number (PStr s) =
     (case float_of_string (strip s) of
        None \<Rightarrow> Inl (ValueError ''could not convert string to float'') | Some f \<Rightarrow> Inr f)"
| "to_number v = py_float_of v"

fun sequence_items :: "pyval \<Rightarrow> pyval list option" where
  "sequence_items (PList xs) = Some xs"
| "sequence_items (PTuple xs) = Some xs"
| "sequence_items _ = None"

definition waveform_error :: "string \<Rightarrow> string \<Rightarrow> (string, pyval) dict \<Rightarrow> exn + 'a" where
  "waveform_error msg cd d = Inl (backend_exn BackendExecutionError msg cd d)"

definition waveform_sample :: "pyval \<Rightarrow> exn + pyfloat" where
  "waveform_sample v =
     (if sequence_items v \<noteq> None
      then waveform_error ''The upstream model returned a waveform that is not one-dimensional.''
        ''invalid_waveform_shape'' [(''nested'', PBool True)]
      else case to_number v of
        Inl e \<Rightarrow>
          if is_type_exn e \<or> is_value_exn e
          then waveform_error ''The upstream model returned non-numeric audio samples.''
            ''invalid_waveform_sample'' [(''sample_type'', PStr (type_name v))]
          else Inl e
      | Inr number \<Rightarrow>
          if \<not> isfinite number
          then waveform_error ''The upstream model returned non-finite audio samples.'' ''non_finite_waveform'' []
          else Inr number)"

fun waveform_to_samples :: "string \<Rightarrow> waveform \<Rightarrow> exn + pyfloat list" where
  "waveform_to_samples operation No_Waveform =
     waveform_error ''The upstream model returned no waveform.'' ''empty_waveform'' []"
| "waveform_to_samples operation (Waveform cls ndim to_list iterated) =
     (if is_int ndim \<and> \<not> is_bool ndim \<and> int_of ndim \<noteq> 1
      then waveform_error ''The upstream model returned a waveform that is not one-dimensional.''
        ''invalid_waveform_shape'' [(''dimensions'', PInt (int_of ndim))]
      else and_then
        (call_normalized operation
          (case to_list of Some answer \<Rightarrow> answer | None \<Rightarrow> and_then iterated (\<lambda>xs. Inr (PList xs)))) (\<lambda>raw.
        case sequence_items raw of
          None \<Rightarrow>
            waveform_error ''The upstream model returned a waveform that could not be read as samples.''
              ''invalid_waveform_type'' [(''waveform_type'', PStr cls)]
        | Some values_read \<Rightarrow>
            if values_read = []
            then waveform_error ''The upstream model returned an empty waveform.'' ''empty_waveform'' []
            else map_raise waveform_sample values_read))"

definition read_sample_rate_hz :: "'m upstream \<Rightarrow> 'm \<Rightarrow> exn + int" where
  "read_sample_rate_hz up m =
     (case up_tts up m of
        None \<Rightarrow> Inl missing_tts
      | Some tts \<Rightarrow>
         (let raw = tts_sample_rate tts in
          if is_bool raw \<or> \<not> (is_int raw \<or> is_float raw)
          then Inl (backend_exn BackendExecutionError ''The upstream model did not report a usable sample rate.''
            ''upstream_sample_rate_unavailable'' [(''sample_rate_type'', PStr (type_name raw))])
          else and_then (py_float_of raw) (\<lambda>v.
            if \<not> isfinite v \<or> float_val v \<le> 0 \<or> float_val v \<noteq> of_int \<lfloor>float_val v\<rfloor>
            then Inl (backend_exn BackendExecutionError
              ''The upstream model did not report a positive integer sample rate.''
              ''upstream_sample_rate_invalid'' [(''sample_rate_is_positive_integer'', PBool False)])
            else Inr \<lfloor>float_val v\<rfloor>)))"

section \<open>The backend\<close>

record 'm pytorch_backend =
  pb_upstream :: "'m upstream"
  pb_files :: file_system
  pb_resolved :: resolved_model
  pb_plan :: plan
  pb_device :: string
  pb_load_denoiser :: bool
  pb_local_files_only :: bool
  pb_optimize :: bool
  pb_upstream_name :: string
  pb_model :: "'m option"
  pb_state :: backend_phase

definition mk_pytorch_backend ::
    "'m upstream \<Rightarrow> file_system \<Rightarrow> resolved_model \<Rightarrow> plan \<Rightarrow> pyval \<Rightarrow> pyval \<Rightarrow> pyval \<Rightarrow> pyval \<Rightarrow>
     exn + 'm pytorch_backend" where
  "mk_pytorch_backend up fs resolved p denoiser local_only opt name =
     (if \<not> is_bool denoiser then Inl (TypeError ''load_denoiser must be a boolean'')
      else if \<not> is_bool local_only then Inl (TypeError ''local_files_only must be a boolean'')
      else if \<not> is_bool opt then Inl (TypeError ''optimize must be a boolean'')
      else if \<not> is_str name \<or> str_of name = [] then Inl (TypeError ''upstream_name must be a non-empty string'')
      else and_then (resolve_upstream_device p) (\<lambda>dev.
        Inr \<lparr>pb_upstream = up, pb_files = fs, pb_resolved = resolved, pb_plan = p, pb_device = dev,
             pb_load_denoiser = (denoiser = PBool True), pb_local_files_only = (local_only = PBool True),
             pb_optimize = (opt = PBool True), pb_upstream_name = str_of name, pb_model = None,
             pb_state = Created\<rparr>))"

definition import_upstream :: "'m upstream \<Rightarrow> exn + unit" where
  "import_upstream up =
     and_then (call_normalized ''load'' (up_import up)) (\<lambda>found.
       if \<not> found
       then Inl (backend_exn BackendExecutionError
         ''The pinned upstream package does not expose the expected VoxCPM class.''
         ''upstream_contract_violation'' [(''module'', PStr ''voxcpm''), (''symbol'', PStr ''VoxCPM'')])
       else Inr ())"

definition load_arguments :: "'m pytorch_backend \<Rightarrow> load_args" where
  "load_arguments b =
     \<lparr>la_path = path_str (rm_path (pb_resolved b)), la_load_denoiser = pb_load_denoiser b,
      la_local_files_only = pb_local_files_only b, la_optimize = pb_optimize b, la_device = pb_device b\<rparr>"

definition load_model :: "'m pytorch_backend \<Rightarrow> exn + 'm" where
  "load_model b =
     and_then (import_upstream (pb_upstream b)) (\<lambda>_.
       call_normalized ''load'' (up_from_pretrained (pb_upstream b) (load_arguments b)))"

definition revision_value :: "resolved_model \<Rightarrow> pyval" where
  "revision_value r = (case rm_revision r of None \<Rightarrow> PStr ''unrecorded'' | Some v \<Rightarrow> PStr v)"

definition pytorch_metadata :: "'m pytorch_backend \<Rightarrow> int \<Rightarrow> string \<Rightarrow> string \<Rightarrow> (string, pyval) dict" where
  "pytorch_metadata b rate operation conditioning =
     [(''backend'', PStr ''pytorch-voxcpm''), (''conditioning'', PStr conditioning),
      (''model_id'', PStr (rm_model_id (pb_resolved b))),
      (''model_revision'', revision_value (pb_resolved b)),
      (''model_source_kind'', PStr (source_name (rm_source_kind (pb_resolved b)))),
      (''operation'', PStr operation), (''sample_rate_source'', PStr ''model.tts_model.sample_rate''),
      (''sample_rate_hz'', PInt rate), (''upstream_device'', PStr (pb_device b)),
      (''upstream_optimize'', PBool (pb_optimize b))]"

definition pytorch_info :: "'m pytorch_backend \<Rightarrow> exn + backend_info" where
  "pytorch_info b =
     mk_backend_info (PStr ''pytorch-voxcpm'') (PStr ''pinned-upstream-local'') (PBool True)
       (PStr (effective_device (pb_plan b))) (PStr (rm_model_id (pb_resolved b)))
       (PTuple [PStr ''clone'', PStr ''continue_audio'', PStr ''design'', PStr ''stream'', PStr ''synthesize''])
       (meta_arg
         [(''load_denoiser'', PBool (pb_load_denoiser b)), (''local_files_only'', PBool (pb_local_files_only b)),
          (''model_revision'', revision_value (pb_resolved b)),
          (''model_source_kind'', PStr (source_name (rm_source_kind (pb_resolved b)))),
          (''upstream_device'', PStr (pb_device b)), (''upstream_optimize'', PBool (pb_optimize b))])"

definition pytorch_load :: "'m pytorch_backend \<Rightarrow> (exn + backend_info) \<times> 'm pytorch_backend" where
  "pytorch_load b =
     (if pb_state b = Closed
      then (Inl (state_exn ''Backend cannot reopen after it has been closed.'' ''backend_closed'' Closed), b)
      else if pb_state b = Loaded then (pytorch_info b, b)
      else case load_model b of
        Inl e \<Rightarrow> (Inl e, b)
      | Inr m \<Rightarrow> (let b1 = b\<lparr>pb_model := Some m, pb_state := Loaded\<rparr> in (pytorch_info b1, b1)))"

definition pytorch_ready :: "'m pytorch_backend \<Rightarrow> exn + unit" where
  "pytorch_ready b =
     (case pb_state b of
        Created \<Rightarrow> Inl (state_exn ''Backend must be loaded before generation.'' ''backend_not_loaded'' Created)
      | Closed \<Rightarrow> Inl (state_exn ''Backend cannot generate after it has been closed.'' ''backend_closed'' Closed)
      | Loaded \<Rightarrow> Inr ())"

definition require_model :: "'m pytorch_backend \<Rightarrow> exn + 'm" where
  "require_model b =
     (case pb_model b of
        None \<Rightarrow> Inl (state_exn ''Backend must be loaded before generation.'' ''backend_not_loaded'' (pb_state b))
      | Some m \<Rightarrow> Inr m)"

text \<open>\<open>_upstream_generate\<close>, with the model it leaves.\<close>

definition upstream_generate ::
    "string \<Rightarrow> string \<Rightarrow> kwargs \<Rightarrow> 'm pytorch_backend \<Rightarrow> (exn + audio_result) \<times> 'm pytorch_backend" where
  "upstream_generate operation conditioning kw b =
     (case require_model b of
        Inl e \<Rightarrow> (Inl e, b)
      | Inr m \<Rightarrow>
         (let (answer, m1) = up_generate (pb_upstream b) kw m; b1 = b\<lparr>pb_model := Some m1\<rparr> in
          (and_then answer (\<lambda>w.
           and_then (waveform_to_samples operation w) (\<lambda>samples.
           and_then (read_sample_rate_hz (pb_upstream b) m1) (\<lambda>rate.
             mk_audio_result (samples_arg samples) (PInt rate) (PInt 1)
               (meta_arg (pytorch_metadata b rate operation conditioning))))), b1)))"

definition pytorch_generate ::
    "worker_operation \<Rightarrow> one_shot \<Rightarrow> 'm pytorch_backend \<Rightarrow> (exn + audio_result) \<times> 'm pytorch_backend" where
  "pytorch_generate x request b =
     (case pytorch_ready b of
        Inl e \<Rightarrow> (Inl e, b)
      | Inr _ \<Rightarrow>
         (let operation = operation_name x in
          if operation_for_request request \<noteq> operation then (Inl request_exn, b)
          else
           (let (answer, b1) =
              (case generate_kwargs (pb_files b) request of
                 Inl e \<Rightarrow> (Inl e, b)
               | Inr (conditioning, kw) \<Rightarrow> upstream_generate operation conditioning kw b) in
            (call_normalized operation answer, b1))))"

text \<open>
  The generator of a stream. The chunk in hand is yielded only when the next waveform, or the end, has been
  asked for, so that it can be marked final.
\<close>

definition native_chunk :: "int \<Rightarrow> (string, pyval) dict \<Rightarrow> nat \<Rightarrow> bool \<Rightarrow> waveform \<Rightarrow> exn + audio_chunk" where
  "native_chunk rate meta k final w =
     and_then (waveform_to_samples ''stream'' w) (\<lambda>samples.
       mk_audio_chunk (samples_arg samples) (PInt rate) (PInt 1) (PInt (int k)) (PBool final) (meta_arg meta))"

fun yield_chunks ::
    "int \<Rightarrow> (string, pyval) dict \<Rightarrow> nat \<Rightarrow> waveform \<Rightarrow> waveform list \<Rightarrow> exn option \<Rightarrow>
     audio_chunk list \<times> exn option" where
  "yield_chunks rate meta k current [] (Some e) = ([], Some e)"
| "yield_chunks rate meta k current [] None =
     (case native_chunk rate meta k True current of Inl e \<Rightarrow> ([], Some e) | Inr c \<Rightarrow> ([c], None))"
| "yield_chunks rate meta k current (following # rest) fin =
     (case native_chunk rate meta k False current of
        Inl e \<Rightarrow> ([], Some e)
      | Inr c \<Rightarrow> (let (cs, stop) = yield_chunks rate meta (Suc k) following rest fin in (c # cs, stop)))"

definition normalized_end :: "exn option \<Rightarrow> exn option" where
  "normalized_end e =
     (case e of
        None \<Rightarrow> None
      | Some x \<Rightarrow> (case call_normalized ''stream'' (Inl x :: exn + unit) of Inl y \<Rightarrow> Some y | Inr _ \<Rightarrow> None))"

definition run_native :: "int \<Rightarrow> (string, pyval) dict \<Rightarrow> native_stream \<Rightarrow> audio_chunk list \<times> exn option" where
  "run_native rate meta ns =
     (let (chunks, stop) =
        (case ns_items ns of
           [] \<Rightarrow>
             ([], Some (case ns_end ns of
                Some e \<Rightarrow> e
              | None \<Rightarrow> backend_exn BackendExecutionError
                  ''The upstream streaming model returned no audio chunks.'' ''empty_stream''
                  [(''operation'', PStr ''stream'')]))
         | current # rest \<Rightarrow> yield_chunks rate meta 0 current rest (ns_end ns)) in
      (chunks,
       case ns_close ns of
         Some (Inl e) \<Rightarrow> normalized_end (Some e)
       | _ \<Rightarrow> normalized_end stop))"

definition stream_chunks ::
    "string \<Rightarrow> kwargs \<Rightarrow> 'm pytorch_backend \<Rightarrow> (audio_chunk list \<times> exn option) \<times> 'm pytorch_backend" where
  "stream_chunks conditioning kw b =
     (case require_model b of
        Inl e \<Rightarrow> (([], Some e), b)
      | Inr m \<Rightarrow>
         (case read_sample_rate_hz (pb_upstream b) m of
            Inl e \<Rightarrow> (([], Some e), b)
          | Inr rate \<Rightarrow>
             (let (answer, m1) = up_stream (pb_upstream b) kw m; b1 = b\<lparr>pb_model := Some m1\<rparr> in
              case call_normalized ''stream'' answer of
                Inl e \<Rightarrow> (([], Some e), b1)
              | Inr ns \<Rightarrow> (run_native rate (pytorch_metadata b rate ''stream'' conditioning) ns, b1))))"

definition pytorch_stream ::
    "stream_request \<Rightarrow> 'm pytorch_backend \<Rightarrow> (exn + audio_chunk list \<times> exn option) \<times> 'm pytorch_backend" where
  "pytorch_stream s b =
     (case s of StreamRequest request \<Rightarrow>
       (case and_then (pytorch_ready b) (\<lambda>_. generate_kwargs (pb_files b) request) of
          Inl e \<Rightarrow> (Inl e, b)
        | Inr (conditioning, kw) \<Rightarrow>
           (let (run_to_end, b1) = stream_chunks conditioning kw b in (Inr run_to_end, b1))))"

definition pytorch_close :: "'m pytorch_backend \<Rightarrow> (exn + unit) \<times> 'm pytorch_backend" where
  "pytorch_close b =
     (if pb_state b = Closed then (Inr (), b)
      else (Inr (), b\<lparr>pb_state := Closed, pb_model := None\<rparr>))"

definition pytorch_ops :: "'m pytorch_backend backend_ops" where
  "pytorch_ops =
     \<lparr>op_load = pytorch_load, op_generate = pytorch_generate, op_stream = pytorch_stream,
      op_close = pytorch_close\<rparr>"

section \<open>What the backend relies on\<close>

text \<open>
  Code outside the program raises ordinary exceptions, and a backend error only as its constructor
  builds it; a sample rate given as an \<open>int\<close> fits a \<open>float\<close>; the working directory can be read and a path that exists can be asked what it is.
\<close>

definition exn_fine :: "exn \<Rightarrow> bool" where
  "exn_fine e \<longleftrightarrow> is_Exception e \<and> (is_backend_exn e \<longrightarrow> public_exn e)"

abbreviation fine :: "exn + 'a \<Rightarrow> bool" where
  "fine \<equiv> outcome exn_fine (\<lambda>_. True)"

fun waveform_fine :: "waveform \<Rightarrow> bool" where
  "waveform_fine No_Waveform = True"
| "waveform_fine (Waveform cls ndim to_list iterated) =
     ((case to_list of None \<Rightarrow> True | Some answer \<Rightarrow> fine answer) \<and> fine iterated)"

definition native_fine :: "native_stream \<Rightarrow> bool" where
  "native_fine ns \<longleftrightarrow> list_all waveform_fine (ns_items ns) \<and>
     (case ns_end ns of None \<Rightarrow> True | Some e \<Rightarrow> exn_fine e) \<and>
     (case ns_close ns of None \<Rightarrow> True | Some answer \<Rightarrow> fine answer)"

definition rate_fine :: "'m upstream \<Rightarrow> 'm \<Rightarrow> bool" where
  "rate_fine up m \<longleftrightarrow>
     (case up_tts up m of
        None \<Rightarrow> True
      | Some tts \<Rightarrow> (case tts_sample_rate tts of PInt i \<Rightarrow> isfinite (to_float (of_int i)) | _ \<Rightarrow> True))"

definition upstream_fine :: "'m upstream \<Rightarrow> bool" where
  "upstream_fine up \<longleftrightarrow> fine (up_import up) \<and> (\<forall>a. fine (up_from_pretrained up a)) \<and> (\<forall>m. rate_fine up m) \<and>
     (\<forall>kw m. outcome exn_fine waveform_fine (fst (up_generate up kw m))) \<and>
     (\<forall>kw m. outcome exn_fine native_fine (fst (up_stream up kw m)))"

definition files_fine :: "file_system \<Rightarrow> bool" where
  "files_fine fs \<longleftrightarrow> isOK (fs_cwd fs) \<and> (\<forall>p. isOK (fs_is_file fs p))"

definition pytorch_fit :: "'m pytorch_backend \<Rightarrow> bool" where
  "pytorch_fit b \<longleftrightarrow> upstream_fine (pb_upstream b) \<and> files_fine (pb_files b) \<and>
     strip (rm_model_id (pb_resolved b)) \<noteq> [] \<and> strip (effective_device (pb_plan b)) \<noteq> [] \<and>
     (pb_state b = Loaded \<longleftrightarrow> pb_model b \<noteq> None)"

section \<open>Lemmas\<close>

lemma backend_exn_public:
  "strip msg \<noteq> [] \<Longrightarrow> safe_token_match cd \<Longrightarrow> details_ok d \<Longrightarrow> public_exn (backend_exn c msg cd d)"
  by (simp add: backend_exn_def backend_error_ok_def)

lemma details_ok_Nil [simp]: "details_ok []"
  by (simp add: details_ok_def)

lemma details_ok_single [simp]:
  "details_ok [(k, v)] \<longleftrightarrow> strip k \<noteq> [] \<and> (v = PNone \<or> is_scalar v) \<and> pv_finite v"
  by (simp add: details_ok_def)

lemma backend_exn_fine [simp]: "exn_fine (backend_exn c msg cd d) \<longleftrightarrow> public_exn (backend_exn c msg cd d)"
  by (simp add: exn_fine_def backend_exn_def)

lemma public_fine: "public_exn e \<Longrightarrow> exn_fine e"
  by (cases e) (simp_all add: exn_fine_def)

lemma normalized_public:
  assumes "outcome exn_fine Q m"
  shows "outcome public_exn Q (call_normalized operation m)"
proof (cases m)
  case (Inl e)
  with assms have f: "exn_fine e" by simp
  show ?thesis
  proof (cases "is_backend_exn e")
    case True
    with f Inl show ?thesis by (simp add: call_normalized_def exn_fine_def)
  next
    case False
    with normalize_backend_error_public [OF False, of operation] f Inl show ?thesis
      by (auto simp: call_normalized_def exn_fine_def)
  qed
qed (use assms in simp)

lemma fine_mono: "outcome public_exn Q m \<Longrightarrow> outcome exn_fine Q m"
  by (erule outcome_weaken) (auto intro: public_fine)

lemma normalized_end_public: "e = None \<or> exn_fine (the e) \<Longrightarrow> case normalized_end e of None \<Rightarrow> e = None | Some x \<Rightarrow> public_exn x"
proof (cases e)
  case (Some x)
  assume "e = None \<or> exn_fine (the e)"
  with Some have "outcome exn_fine (\<lambda>_. False) (Inl x :: exn + unit)" by simp
  from normalized_public [OF this, of "''stream''"] Some show ?thesis
    by (cases "call_normalized ''stream'' (Inl x :: exn + unit)") (simp_all add: normalized_end_def)
qed (simp add: normalized_end_def)

lemma waveform_error_public:
  "strip msg \<noteq> [] \<Longrightarrow> safe_token_match cd \<Longrightarrow> details_ok d \<Longrightarrow> outcome public_exn Q (waveform_error msg cd d)"
  by (simp add: waveform_error_def backend_exn_public)

lemmas literal_text = strip_Cons is_space_def is_alpha_ascii_def is_dec_def

lemma py_float_exception:
  assumes "py_float_of v = Inl e"
  shows "is_Exception e \<and> \<not> is_backend_exn e"
proof (cases v)
  case (PInt i)
  with assms show ?thesis by (cases "isfinite (to_float (of_int i))") (auto simp: Let_def)
qed (use assms in auto)

lemma to_number_exception: "to_number v = Inl e \<Longrightarrow> is_Exception e \<and> \<not> is_backend_exn e"
  by (cases v) (auto split: option.splits dest: py_float_exception simp del: py_float_of.simps)

lemma waveform_sample_fine: "outcome exn_fine isfinite (waveform_sample v)"
  using to_number_exception [of v]
  by (auto simp: waveform_sample_def exn_fine_def literal_text split: sum.splits
      intro!: fine_mono waveform_error_public)

lemma waveform_to_samples_fine:
  assumes "waveform_fine w"
  shows "outcome exn_fine (\<lambda>ss. ss \<noteq> [] \<and> list_all isfinite ss) (waveform_to_samples operation w)"
proof (cases w)
  case No_Waveform
  show ?thesis
    unfolding No_Waveform waveform_to_samples.simps
    by (rule fine_mono, rule waveform_error_public) (simp_all add: literal_text)
next
  case (Waveform cls ndim to_list iterated)
  let ?raw = "case to_list of Some answer \<Rightarrow> answer | None \<Rightarrow> and_then iterated (\<lambda>xs. Inr (PList xs))"
  from assms Waveform have "fine ?raw" by (cases to_list) (auto intro: outcome_and_then)
  from fine_mono [OF normalized_public [OF this, of operation]]
  have raw: "fine (call_normalized operation ?raw)" .
  have items: "outcome exn_fine (\<lambda>ss. ss \<noteq> [] \<and> list_all isfinite ss) (map_raise waveform_sample vs)"
    if "vs \<noteq> []" for vs
  proof -
    have all: "outcome exn_fine (\<lambda>ys. \<forall>y \<in> set ys. isfinite y) (map_raise waveform_sample vs)"
      by (rule outcome_map_raise) (rule waveform_sample_fine)
    show ?thesis
    proof (cases "map_raise waveform_sample vs")
      case (Inr ss)
      with that have "ss \<noteq> []" by (auto dest: map_raise_length)
      with all Inr show ?thesis by (simp add: list_all_iff)
    qed (use all in simp)
  qed
  have shape: "fine (waveform_error ''The upstream model returned a waveform that is not one-dimensional.''
      ''invalid_waveform_shape'' [(''dimensions'', PInt (int_of ndim))] :: exn + pyfloat list)"
    and kind: "fine (waveform_error ''The upstream model returned a waveform that could not be read as samples.''
      ''invalid_waveform_type'' [(''waveform_type'', PStr cls)] :: exn + pyfloat list)"
    and empty: "fine (waveform_error ''The upstream model returned an empty waveform.'' ''empty_waveform'' []
      :: exn + pyfloat list)"
    by (rule fine_mono, rule waveform_error_public; simp add: literal_text)+
  show ?thesis
    unfolding Waveform waveform_to_samples.simps
  proof (rule outcome_ifI)
    show "outcome exn_fine (\<lambda>ss. ss \<noteq> [] \<and> list_all isfinite ss)
        (waveform_error ''The upstream model returned a waveform that is not one-dimensional.''
          ''invalid_waveform_shape'' [(''dimensions'', PInt (int_of ndim))])"
      using shape by (simp add: waveform_error_def)
  next
    show "outcome exn_fine (\<lambda>ss. ss \<noteq> [] \<and> list_all isfinite ss)
       (and_then (call_normalized operation ?raw) (\<lambda>raw.
        case sequence_items raw of
          None \<Rightarrow>
            waveform_error ''The upstream model returned a waveform that could not be read as samples.''
              ''invalid_waveform_type'' [(''waveform_type'', PStr cls)]
        | Some values_read \<Rightarrow>
            if values_read = []
            then waveform_error ''The upstream model returned an empty waveform.'' ''empty_waveform'' []
            else map_raise waveform_sample values_read))"
      by (rule outcome_and_then [OF raw], insert kind empty)
        (simp add: items waveform_error_def split: option.split)
  qed
qed

text \<open>The samples as a constructor of audio keeps them: no negative zero.\<close>

definition plain_zero :: "pyfloat \<Rightarrow> pyfloat" where
  "plain_zero f = (if float_val f = 0 then Fin 0 else f)"

lemma normalize_finite_samples:
  assumes "ss \<noteq> []" and "list_all isfinite ss"
  shows "normalize_samples (samples_arg ss) = Inr (map plain_zero ss)"
proof -
  have "map_raise normalize_sample (map PFloat ss) = Inr (map plain_zero ss)"
    using assms(2) by (induction ss) (simp_all add: normalize_sample_finite plain_zero_def)
  with assms(1) show ?thesis by (simp add: samples_arg_def)
qed

lemma pytorch_metadata_normal:
  "normalize_metadata (meta_arg (pytorch_metadata b rate operation conditioning)) field =
     Inr (sort_key fst (pytorch_metadata b rate operation conditioning))"
proof -
  let ?m = "pytorch_metadata b rate operation conditioning"
  have "dict_ok ([] @ ?m)" and "list_all (\<lambda>(k, v). strip k \<noteq> [] \<and> (v = PNone \<or> is_scalar v) \<and> pv_finite v) ?m"
    by (simp_all add: pytorch_metadata_def revision_value_def literal_text split: option.splits)
  from normalize_items_id [OF this, of field] show ?thesis by (simp add: meta_arg_def)
qed

lemma read_sample_rate_fine:
  assumes "rate_fine up m"
  shows "outcome public_exn (\<lambda>r. 0 < r) (read_sample_rate_hz up m)"
proof (cases "up_tts up m")
  case None
  then show ?thesis by (simp add: read_sample_rate_hz_def missing_tts_def backend_exn_public literal_text)
next
  case (Some tts)
  have pos: "0 < \<lfloor>q\<rfloor>" if "\<not> q \<le> 0" "q = of_int \<lfloor>q\<rfloor>" for q :: rat
    using that by (metis not_le of_int_0_less_iff)
  show ?thesis
  proof (cases "tts_sample_rate tts")
    case (PInt i)
    with assms Some have "isfinite (to_float (of_int i))" by (simp add: rate_fine_def)
    with PInt Some pos show ?thesis
      by (auto simp: read_sample_rate_hz_def Let_def literal_text intro!: backend_exn_public)
  next
    case (PFloat f)
    with Some pos show ?thesis
      by (auto simp: read_sample_rate_hz_def Let_def literal_text intro!: backend_exn_public)
  qed (simp_all add: Some read_sample_rate_hz_def Let_def literal_text backend_exn_public)
qed

lemma audio_result_made:
  assumes "ss \<noteq> []" and "list_all isfinite ss" and "0 < rate"
  shows "\<exists>a. mk_audio_result (samples_arg ss) (PInt rate) (PInt 1)
      (meta_arg (pytorch_metadata b rate operation conditioning)) = Inr a \<and> result_ok a \<and>
    a = \<lparr>ar_samples = map plain_zero ss, ar_sample_rate_hz = rate, ar_channels = 1,
         ar_metadata = sort_key fst (pytorch_metadata b rate operation conditioning)\<rparr>"
proof -
  have "mk_audio_result (samples_arg ss) (PInt rate) (PInt 1)
      (meta_arg (pytorch_metadata b rate operation conditioning)) =
    Inr \<lparr>ar_samples = map plain_zero ss, ar_sample_rate_hz = rate, ar_channels = 1,
         ar_metadata = sort_key fst (pytorch_metadata b rate operation conditioning)\<rparr>"
    using assms by (simp add: mk_audio_result_def normalize_finite_samples pytorch_metadata_normal
        require_positive_integer_def)
  then show ?thesis using mk_audio_result_ok by blast
qed

lemma audio_chunk_made:
  assumes "ss \<noteq> []" and "list_all isfinite ss" and "0 < rate"
  shows "\<exists>c. mk_audio_chunk (samples_arg ss) (PInt rate) (PInt 1) (PInt (int k)) (PBool final)
      (meta_arg (pytorch_metadata b rate operation conditioning)) = Inr c \<and> chunk_ok c \<and>
    c = \<lparr>ac_samples = map plain_zero ss, ac_sample_rate_hz = rate, ac_channels = 1, ac_sequence = int k,
         ac_is_final = final, ac_metadata = sort_key fst (pytorch_metadata b rate operation conditioning)\<rparr>"
proof -
  have "mk_audio_chunk (samples_arg ss) (PInt rate) (PInt 1) (PInt (int k)) (PBool final)
      (meta_arg (pytorch_metadata b rate operation conditioning)) =
    Inr \<lparr>ac_samples = map plain_zero ss, ac_sample_rate_hz = rate, ac_channels = 1, ac_sequence = int k,
         ac_is_final = final, ac_metadata = sort_key fst (pytorch_metadata b rate operation conditioning)\<rparr>"
    using assms by (simp add: mk_audio_chunk_def normalize_finite_samples pytorch_metadata_normal
        require_positive_integer_def)
  then show ?thesis using mk_audio_chunk_ok by blast
qed

lemma reference_audio_fine:
  assumes "files_fine fs"
  shows "outcome public_exn (\<lambda>_. True) (validate_local_reference_audio fs r)"
proof -
  have "\<exists>x. fs_cwd fs = Inr x" "\<exists>x. fs_is_file fs p = Inr x" for p
    using assms by (simp_all add: files_fine_def isOK_iff)
  then obtain cwd where c: "fs_cwd fs = Inr cwd" and f: "\<And>p. \<exists>x. fs_is_file fs p = Inr x" by blast
  have "outcome public_exn (\<lambda>_. True)
      (and_then (fs_is_file fs p) (\<lambda>regular.
        if \<not> regular
        then Inl (backend_exn BackendRequestError ''The reference audio is not a regular local file.''
          ''reference_audio_not_file'' [])
        else if \<not> fs_readable fs p
        then Inl (backend_exn BackendRequestError ''The reference audio could not be read.''
          ''reference_audio_unreadable'' [])
        else Inr (path_str p)))" for p
    using f [of p] by (auto simp: literal_text intro!: backend_exn_public)
  then show ?thesis
    using c by (auto simp: validate_local_reference_audio_def Let_def literal_text intro!: backend_exn_public)
qed

lemma generate_kwargs_fine:
  "files_fine fs \<Longrightarrow> outcome public_exn (\<lambda>_. True) (generate_kwargs fs request)"
  using reference_audio_fine by (cases request) (auto intro!: outcome_and_then)

lemma pytorch_ready_cases:
  "case pytorch_ready b of Inr _ \<Rightarrow> pb_state b = Loaded
   | Inl e \<Rightarrow> pb_state b \<noteq> Loaded \<and> is_state_error e \<and> public_exn e"
  by (cases "pb_state b") (simp_all add: pytorch_ready_def state_exn_public literal_text,
      simp_all add: state_exn_def)

lemma pytorch_fit_model:
  assumes "pytorch_fit b"
  shows "pytorch_fit (b\<lparr>pb_model := Some m\<rparr>) \<longleftrightarrow> pb_state b = Loaded"
  using assms by (simp add: pytorch_fit_def)

lemma upstream_generate_fine:
  assumes "pytorch_fit b" and "pb_state b = Loaded" and "upstream_generate operation conditioning kw b = (r, b1)"
  shows "outcome exn_fine result_ok r \<and> pb_state b1 = Loaded \<and> pytorch_fit b1"
proof -
  obtain m where m: "pb_model b = Some m" using assms(1,2) by (auto simp: pytorch_fit_def)
  obtain answer m1 where g: "up_generate (pb_upstream b) kw m = (answer, m1)" by fastforce
  have up: "outcome exn_fine waveform_fine answer" "rate_fine (pb_upstream b) m1"
    using assms(1) g unfolding pytorch_fit_def upstream_fine_def by (metis fst_conv)+
  have made: "outcome exn_fine result_ok (mk_audio_result (samples_arg ss) (PInt rate) (PInt 1)
      (meta_arg (pytorch_metadata b rate operation conditioning)))"
    if "ss \<noteq> [] \<and> list_all isfinite ss" "0 < rate" for ss rate
    using audio_result_made [of ss rate b operation conditioning] that by auto
  have "outcome exn_fine result_ok
     (and_then answer (\<lambda>w. and_then (waveform_to_samples operation w) (\<lambda>samples.
           and_then (read_sample_rate_hz (pb_upstream b) m1) (\<lambda>rate.
             mk_audio_result (samples_arg samples) (PInt rate) (PInt 1)
               (meta_arg (pytorch_metadata b rate operation conditioning))))))"
    by (rule outcome_and_then [OF up(1)], rule outcome_and_then [OF waveform_to_samples_fine], assumption,
        rule outcome_and_then [OF fine_mono [OF read_sample_rate_fine [OF up(2)]]]) (rule made)
  moreover have "b1 = b\<lparr>pb_model := Some m1\<rparr>"
    using assms(3) m g by (simp add: upstream_generate_def require_model_def)
  ultimately show ?thesis
    using assms m g by (auto simp: upstream_generate_def require_model_def pytorch_fit_model)
qed

lemma pytorch_generate_spec:
  assumes "pytorch_fit b" and "pytorch_generate x q b = (g, b1)"
  shows "pb_state b1 = pb_state b \<and> pytorch_fit b1 \<and>
    (case g of Inr a \<Rightarrow> pb_state b = Loaded \<and> result_ok a
     | Inl e \<Rightarrow> public_exn e \<and> (pb_state b \<noteq> Loaded \<longrightarrow> is_state_error e))"
proof (cases "pb_state b = Loaded")
  case False
  with pytorch_ready_cases [of b] assms show ?thesis by (auto simp: pytorch_generate_def split: sum.splits)
next
  case True
  then have rd: "pytorch_ready b = Inr ()" by (simp add: pytorch_ready_def)
  have files: "files_fine (pb_files b)" using assms(1) by (simp add: pytorch_fit_def)
  show ?thesis
  proof (cases "operation_for_request q = operation_name x")
    case False
    with rd assms True show ?thesis by (auto simp: pytorch_generate_def request_exn_public)
  next
    case op: True
    obtain answer b2 where ub: "(case generate_kwargs (pb_files b) q of
                 Inl e \<Rightarrow> (Inl e, b)
               | Inr (conditioning, kw) \<Rightarrow> upstream_generate (operation_name x) conditioning kw b) = (answer, b2)"
      by (meson surj_pair)
    with rd op assms(2) have g: "g = call_normalized (operation_name x) answer" "b1 = b2"
      by (auto simp: pytorch_generate_def)
    have "outcome exn_fine result_ok answer \<and> pb_state b2 = Loaded \<and> pytorch_fit b2"
    proof (cases "generate_kwargs (pb_files b) q")
      case (Inl e)
      with generate_kwargs_fine [OF files, of q] ub assms(1) True show ?thesis by (auto intro: public_fine)
    next
      case (Inr ck)
      with ub upstream_generate_fine [OF assms(1) True] show ?thesis by (cases ck) simp
    qed
    with normalized_public [of result_ok answer "operation_name x"] g True show ?thesis
      by (auto split: sum.splits)
  qed
qed

section \<open>Streams\<close>

text \<open>The chunks that the waveforms of a native stream become.\<close>

abbreviation converted :: "waveform \<Rightarrow> exn + pyfloat list" where
  "converted \<equiv> waveform_to_samples ''stream''"

definition chunk_for :: "'m pytorch_backend \<Rightarrow> int \<Rightarrow> string \<Rightarrow> nat \<Rightarrow> bool \<Rightarrow> pyfloat list \<Rightarrow> audio_chunk" where
  "chunk_for b rate conditioning k final ss =
     \<lparr>ac_samples = map plain_zero ss, ac_sample_rate_hz = rate, ac_channels = 1, ac_sequence = int k,
      ac_is_final = final, ac_metadata = sort_key fst (pytorch_metadata b rate ''stream'' conditioning)\<rparr>"

lemma native_chunk_made:
  assumes "waveform_fine w" and "0 < rate"
  shows "case converted w of
      Inl e \<Rightarrow> native_chunk rate (pytorch_metadata b rate ''stream'' conditioning) k final w = Inl e \<and> exn_fine e
    | Inr ss \<Rightarrow> native_chunk rate (pytorch_metadata b rate ''stream'' conditioning) k final w =
        Inr (chunk_for b rate conditioning k final ss) \<and> chunk_ok (chunk_for b rate conditioning k final ss)"
proof (cases "converted w")
  case (Inl e)
  with waveform_to_samples_fine [OF assms(1), of "''stream''"] show ?thesis by (simp add: native_chunk_def)
next
  case (Inr ss)
  with waveform_to_samples_fine [OF assms(1), of "''stream''"] have "ss \<noteq> []" "list_all isfinite ss" by auto
  from audio_chunk_made [OF this assms(2), of k final b "''stream''" conditioning] Inr show ?thesis
    by (auto simp: native_chunk_def chunk_for_def)
qed

text \<open>
  How far a stream gets: with every waveform convertible and no exception at the end, all of it; otherwise the
  waveforms before the first that cannot be converted, and never the last, which waits for its successor.
\<close>

fun delivered :: "waveform list \<Rightarrow> exn option \<Rightarrow> nat" where
  "delivered [] fin = 0"
| "delivered [w] fin = (if fin = None \<and> isOK (converted w) then 1 else 0)"
| "delivered (w # v # ws) fin = (if isOK (converted w) then Suc (delivered (v # ws) fin) else 0)"

lemma yield_chunks_spec:
  assumes "0 < rate" and "list_all waveform_fine (w # ws)" and "\<forall>e. fin = Some e \<longrightarrow> exn_fine e"
  shows "\<exists>cs stop. yield_chunks rate (pytorch_metadata b rate ''stream'' conditioning) k w ws fin = (cs, stop) \<and>
    length cs = delivered (w # ws) fin \<and>
    (\<forall>i < length cs. isOK (converted ((w # ws) ! i)) \<and> cs ! i = chunk_for b rate conditioning (k + i)
       (fin = None \<and> i = length ws) (projr (converted ((w # ws) ! i)))) \<and>
    list_all chunk_ok cs \<and> (stop = None \<longleftrightarrow> length cs = Suc (length ws)) \<and> (\<forall>e. stop = Some e \<longrightarrow> exn_fine e)"
  using assms
proof (induction ws arbitrary: k w)
  case Nil
  note made = native_chunk_made [of w rate b conditioning k True]
  show ?case
  proof (cases fin)
    case None
    with made Nil show ?thesis by (cases "converted w") auto
  next
    case (Some e)
    with Nil show ?thesis by simp
  qed
next
  case (Cons v ws)
  note made = native_chunk_made [of w rate b conditioning k False]
  show ?case
  proof (cases "converted w")
    case (Inl e)
    with made Cons.prems show ?thesis by simp
  next
    case (Inr ss)
    from Cons.prems have "list_all waveform_fine (v # ws)" by simp
    from Cons.IH [OF Cons.prems(1) this Cons.prems(3), of "Suc k"] obtain cs stop where
      y: "yield_chunks rate (pytorch_metadata b rate ''stream'' conditioning) (Suc k) v ws fin = (cs, stop)"
      and len: "length cs = delivered (v # ws) fin"
      and nth: "\<forall>i < length cs. isOK (converted ((v # ws) ! i)) \<and> cs ! i = chunk_for b rate conditioning (Suc k + i)
       (fin = None \<and> i = length ws) (projr (converted ((v # ws) ! i)))"
      and rest: "list_all chunk_ok cs" "stop = None \<longleftrightarrow> length cs = Suc (length ws)" "\<forall>e. stop = Some e \<longrightarrow> exn_fine e"
      by blast
    let ?c = "chunk_for b rate conditioning k False ss"
    have "isOK (converted ((w # v # ws) ! i)) \<and> (?c # cs) ! i = chunk_for b rate conditioning (k + i)
       (fin = None \<and> i = length (v # ws)) (projr (converted ((w # v # ws) ! i)))" if "i < Suc (length cs)" for i
      using that nth Inr by (cases i) auto
    with made Inr Cons.prems y len rest show ?thesis
      by (intro exI [of _ "?c # cs"] exI [of _ "stop"]) auto
  qed
qed

lemma delivered_le: "delivered ws fin \<le> length ws"
  by (induction ws fin rule: delivered.induct) auto

lemma delivered_all: "delivered ws None = length ws \<longleftrightarrow> list_all (\<lambda>w. isOK (converted w)) ws"
proof (induction ws "None :: exn option" rule: delivered.induct)
  case (3 w v ws)
  then show ?case using delivered_le [of "v # ws" None] by auto
qed auto

lemma delivered_not_last: "ws \<noteq> [] \<Longrightarrow> fin \<noteq> None \<Longrightarrow> delivered ws fin < length ws"
  by (induction ws fin rule: delivered.induct) auto

lemma delivered_prefix:
  "list_all (\<lambda>w. isOK (converted w)) (butlast ws) \<Longrightarrow> ws \<noteq> [] \<Longrightarrow> fin \<noteq> None \<Longrightarrow>
   delivered ws fin = length ws - 1"
proof (induction ws fin rule: delivered.induct)
  case (3 w v ws fin)
  then show ?case by (cases ws) auto
qed auto

lemma normalized_end_None [simp]: "normalized_end None = None"
  by (simp add: normalized_end_def)

lemma run_native_spec:
  assumes "0 < rate" and "native_fine ns"
    and "run_native rate (pytorch_metadata b rate ''stream'' conditioning) ns = (cs, fin)"
  shows "length cs = delivered (ns_items ns) (ns_end ns) \<and>
    (\<forall>i < length cs. isOK (converted (ns_items ns ! i)) \<and> cs ! i = chunk_for b rate conditioning i
       (ns_end ns = None \<and> Suc i = length (ns_items ns)) (projr (converted (ns_items ns ! i)))) \<and>
    list_all chunk_ok cs \<and>
    (fin = None \<longleftrightarrow> ns_items ns \<noteq> [] \<and> length cs = length (ns_items ns) \<and>
       (case ns_close ns of Some (Inl e) \<Rightarrow> False | _ \<Rightarrow> True)) \<and>
    (\<forall>e. fin = Some e \<longrightarrow> public_exn e)"
proof -
  define run where "run = (case ns_items ns of
           [] \<Rightarrow>
             ([], Some (case ns_end ns of
                Some e \<Rightarrow> e
              | None \<Rightarrow> backend_exn BackendExecutionError
                  ''The upstream streaming model returned no audio chunks.'' ''empty_stream''
                  [(''operation'', PStr ''stream'')]))
         | current # rest \<Rightarrow> yield_chunks rate (pytorch_metadata b rate ''stream'' conditioning) 0 current rest (ns_end ns))"
  obtain ds stop where run: "run = (ds, stop)" by (cases run)
  from assms(2) have fine_items: "list_all waveform_fine (ns_items ns)"
    and fine_end: "\<forall>e. ns_end ns = Some e \<longrightarrow> exn_fine e"
    and fine_close: "\<forall>e. ns_close ns = Some (Inl e) \<longrightarrow> exn_fine e"
    by (auto simp: native_fine_def split: option.splits)
  have body: "length ds = delivered (ns_items ns) (ns_end ns) \<and>
    (\<forall>i < length ds. isOK (converted (ns_items ns ! i)) \<and> ds ! i = chunk_for b rate conditioning i
       (ns_end ns = None \<and> Suc i = length (ns_items ns)) (projr (converted (ns_items ns ! i)))) \<and>
    list_all chunk_ok ds \<and> (stop = None \<longleftrightarrow> ns_items ns \<noteq> [] \<and> length ds = length (ns_items ns)) \<and>
    (\<forall>e. stop = Some e \<longrightarrow> exn_fine e)"
  proof (cases "ns_items ns")
    case Nil
    show ?thesis
    proof (cases "ns_end ns")
      case None
      with Nil run show ?thesis by (auto simp: run_def literal_text intro!: backend_exn_public)
    next
      case (Some e)
      then have "ds = []" "stop = Some e" using Nil run by (simp_all add: run_def)
      with Nil fine_end Some show ?thesis by simp
    qed
  next
    case (Cons w ws)
    with fine_items have "list_all waveform_fine (w # ws)" by simp
    from yield_chunks_spec [OF assms(1) this fine_end, of b conditioning 0] run Cons show ?thesis
      by (auto simp: run_def)
  qed
  from assms(3) run have cs: "cs = ds" and fin: "fin = (case ns_close ns of
         Some (Inl e) \<Rightarrow> normalized_end (Some e) | _ \<Rightarrow> normalized_end stop)"
    by (auto simp: run_native_def run_def Let_def)
  have norm: "case normalized_end x of None \<Rightarrow> x = None | Some y \<Rightarrow> public_exn y" if "\<forall>e. x = Some e \<longrightarrow> exn_fine e" for x
    using that by (intro normalized_end_public) (cases x, auto)
  have "(fin = None \<longleftrightarrow> stop = None \<and> (case ns_close ns of Some (Inl e) \<Rightarrow> False | _ \<Rightarrow> True)) \<and>
      (\<forall>e. fin = Some e \<longrightarrow> public_exn e)"
  proof (cases "\<exists>e. ns_close ns = Some (Inl e)")
    case True
    with fine_close obtain e where "ns_close ns = Some (Inl e)" "exn_fine e" by blast
    with norm [of "Some e"] fin show ?thesis by (auto split: option.splits)
  next
    case False
    then have "fin = normalized_end stop" and "(case ns_close ns of Some (Inl e) \<Rightarrow> False | _ \<Rightarrow> True)"
      using fin by (auto split: option.splits sum.splits)
    with norm [of stop] body show ?thesis by (cases stop) (auto split: option.splits)
  qed
  with body cs show ?thesis by blast
qed

lemma complete_stream_shape:
  assumes "length cs = length ws" and "ws \<noteq> []" and "list_all chunk_ok cs"
    and "\<forall>i < length cs. cs ! i = chunk_for b rate conditioning i (Suc i = length ws) (f i)"
  shows "stream_shape cs"
proof -
  have "map ac_sequence cs = map int [0..<length cs]"
    using assms(4) by (intro nth_equalityI) (auto simp: chunk_for_def)
  moreover have "map ac_is_final cs = replicate (length cs - 1) False @ [True]"
    using assms(1,2,4) by (intro nth_equalityI) (auto simp: chunk_for_def nth_append)
  ultimately show ?thesis using assms(1-3) by (auto simp: stream_shape_def)
qed

lemma stream_chunks_spec:
  assumes "pytorch_fit b" and "pb_state b = Loaded" and "stream_chunks conditioning kw b = ((cs, fin), b1)"
  shows "pb_state b1 = Loaded \<and> pytorch_fit b1 \<and>
    (case fin of None \<Rightarrow> stream_shape cs | Some e \<Rightarrow> list_all chunk_ok cs \<and> public_exn e)"
proof -
  obtain m where m: "pb_model b = Some m" using assms(1,2) by (auto simp: pytorch_fit_def)
  obtain answer m1 where g: "up_stream (pb_upstream b) kw m = (answer, m1)" by fastforce
  have up: "outcome exn_fine native_fine answer" "rate_fine (pb_upstream b) m"
    using assms(1) g unfolding pytorch_fit_def upstream_fine_def by (metis fst_conv)+
  show ?thesis
  proof (cases "read_sample_rate_hz (pb_upstream b) m")
    case (Inl e)
    with read_sample_rate_fine [OF up(2)] assms m show ?thesis
      by (auto simp: stream_chunks_def require_model_def)
  next
    case (Inr rate)
    with read_sample_rate_fine [OF up(2)] have pos: "0 < rate" by simp
    have fit: "pytorch_fit (b\<lparr>pb_model := Some m1\<rparr>)" using assms(1,2) by (simp add: pytorch_fit_model)
    show ?thesis
    proof (cases "call_normalized ''stream'' answer")
      case (Inl e)
      with normalized_public [OF up(1), of "''stream''"] assms(2,3) m g Inr fit show ?thesis
        by (auto simp: stream_chunks_def require_model_def)
    next
      case ns: (Inr ns)
      with normalized_public [OF up(1), of "''stream''"] have fine_ns: "native_fine ns" by simp
      from assms(3) m g Inr ns have run: "run_native rate (pytorch_metadata b rate ''stream'' conditioning) ns = (cs, fin)"
        and b1: "b1 = b\<lparr>pb_model := Some m1\<rparr>"
        by (auto simp: stream_chunks_def require_model_def)
      note spec = run_native_spec [OF pos fine_ns run]
      show ?thesis
      proof (cases fin)
        case None
        with spec have len: "length cs = length (ns_items ns)" "ns_items ns \<noteq> []" by auto
        then have "ns_end ns = None" using spec delivered_not_last [of "ns_items ns" "ns_end ns"] by force
        with spec have "\<forall>i < length cs. cs ! i = chunk_for b rate conditioning i (Suc i = length (ns_items ns))
          (projr (converted (ns_items ns ! i)))" by simp
        from complete_stream_shape [OF len _ this] spec None b1 fit assms(2) show ?thesis by simp
      next
        case (Some e)
        with spec b1 fit assms(2) show ?thesis by simp
      qed
    qed
  qed
qed

lemma pytorch_stream_spec:
  assumes "pytorch_fit b" and "pytorch_stream s b = (g, b1)"
  shows "pb_state b1 = pb_state b \<and> pytorch_fit b1 \<and>
    (case g of
       Inr (cs, fin) \<Rightarrow> pb_state b = Loaded \<and>
         (case fin of None \<Rightarrow> stream_shape cs | Some e \<Rightarrow> list_all chunk_ok cs \<and> public_exn e)
     | Inl e \<Rightarrow> public_exn e \<and> (pb_state b \<noteq> Loaded \<longrightarrow> is_state_error e))"
proof (cases s)
  case (StreamRequest q)
  show ?thesis
  proof (cases "pb_state b = Loaded")
    case False
    with pytorch_ready_cases [of b] assms StreamRequest show ?thesis
      by (auto simp: pytorch_stream_def split: sum.splits)
  next
    case True
    then have rd: "pytorch_ready b = Inr ()" by (simp add: pytorch_ready_def)
    have files: "files_fine (pb_files b)" using assms(1) by (simp add: pytorch_fit_def)
    show ?thesis
    proof (cases "generate_kwargs (pb_files b) q")
      case (Inl e)
      with generate_kwargs_fine [OF files, of q] rd assms True StreamRequest show ?thesis
        by (auto simp: pytorch_stream_def)
    next
      case (Inr ck)
      obtain conditioning kw where ck: "ck = (conditioning, kw)" by fastforce
      obtain cs fin b2 where sc: "stream_chunks conditioning kw b = ((cs, fin), b2)"
        by (metis surj_pair)
      from stream_chunks_spec [OF assms(1) True sc] sc Inr ck rd assms(2) True StreamRequest show ?thesis
        by (auto simp: pytorch_stream_def)
    qed
  qed
qed

section \<open>The contract\<close>

lemma pytorch_info_loaded:
  assumes "strip (rm_model_id (pb_resolved b)) \<noteq> []" and "strip (effective_device (pb_plan b)) \<noteq> []"
  shows "\<exists>i. pytorch_info b = Inr i \<and> bi_loaded i \<and> bi_device i = effective_device (pb_plan b)"
proof -
  let ?m = "[(''load_denoiser'', PBool (pb_load_denoiser b)), (''local_files_only'', PBool (pb_local_files_only b)),
          (''model_revision'', revision_value (pb_resolved b)),
          (''model_source_kind'', PStr (source_name (rm_source_kind (pb_resolved b)))),
          (''upstream_device'', PStr (pb_device b)), (''upstream_optimize'', PBool (pb_optimize b))]"
  have "meta_ok ?m"
    by (simp add: meta_ok_def details_ok_def revision_value_def literal_text split: option.splits)
  from normalize_metadata_id [OF this] assms show ?thesis
    by (simp add: pytorch_info_def mk_backend_info_def require_text_def literal_text)
qed

lemma load_model_public:
  assumes "pytorch_fit b"
  shows "outcome public_exn (\<lambda>_. True) (load_model b)"
proof -
  from assms have f: "fine (up_import (pb_upstream b))" "\<And>a. fine (up_from_pretrained (pb_upstream b) a)"
    by (simp_all add: pytorch_fit_def upstream_fine_def)
  have "outcome public_exn (\<lambda>_. True) (import_upstream (pb_upstream b))"
    unfolding import_upstream_def
    by (rule outcome_and_then [OF normalized_public [OF f(1)]]) (auto simp: literal_text details_ok_def intro!: backend_exn_public)
  then show ?thesis
    unfolding load_model_def by (rule outcome_and_then) (rule normalized_public [OF f(2)])
qed

lemma pytorch_load_spec:
  assumes "pytorch_fit b" and "pytorch_load b = (l, b1)"
  shows "pytorch_fit b1 \<and>
    (case l of Inr i \<Rightarrow> pb_state b \<noteq> Closed \<and> pb_state b1 = Loaded \<and> bi_loaded i
     | Inl e \<Rightarrow> pb_state b1 = pb_state b \<and> public_exn e)"
proof (cases "pb_state b")
  case Created
  show ?thesis
  proof (cases "load_model b")
    case (Inl e)
    with Created assms load_model_public [OF assms(1)] show ?thesis by (auto simp: pytorch_load_def)
  next
    case (Inr m)
    let ?b = "b\<lparr>pb_model := Some m, pb_state := Loaded\<rparr>"
    from assms(1) obtain i where i: "pytorch_info ?b = Inr i" "bi_loaded i"
      using pytorch_info_loaded [of ?b] by (auto simp: pytorch_fit_def)
    from Created Inr assms(2) have "l = pytorch_info ?b" "b1 = ?b" by (auto simp: pytorch_load_def Let_def)
    moreover have "pytorch_fit ?b" using assms(1) by (simp add: pytorch_fit_def)
    ultimately show ?thesis using i Created by simp
  qed
next
  case Loaded
  from assms(1) obtain i where i: "pytorch_info b = Inr i" "bi_loaded i"
    using pytorch_info_loaded [of b] by (auto simp: pytorch_fit_def)
  from Loaded assms(2) have "l = pytorch_info b" "b1 = b" by (auto simp: pytorch_load_def)
  with i Loaded assms(1) show ?thesis by simp
next
  case Closed
  with assms show ?thesis by (auto simp: pytorch_load_def state_exn_public literal_text)
qed

lemma pytorch_close_spec:
  "pytorch_fit b \<Longrightarrow> pytorch_close b = (k, b1) \<Longrightarrow> k = Inr () \<and> pb_state b1 = Closed \<and> pytorch_fit b1"
  by (auto simp: pytorch_close_def pytorch_fit_def split: if_splits)

text \<open>The real backend provides the contract of \<open>InferenceBackend\<close> as well.\<close>

interpretation pytorch: inference_backend pytorch_ops pb_state pytorch_fit
proof (unfold_locales, goal_cases)
  case (1 b)
  with pytorch_load_spec [of b] show ?case by (metis pytorch_ops_def backend_ops.select_convs(1) surj_pair snd_conv)
next
  case (2 b x q)
  with pytorch_generate_spec [of b x q] show ?case
    by (metis pytorch_ops_def backend_ops.select_convs(2) surj_pair snd_conv)
next
  case (3 b s)
  with pytorch_stream_spec [of b s] show ?case
    by (metis pytorch_ops_def backend_ops.select_convs(3) surj_pair snd_conv)
next
  case (4 b)
  with pytorch_close_spec [of b] show ?case
    by (metis pytorch_ops_def backend_ops.select_convs(4) surj_pair snd_conv)
next
  case (5 b l b1)
  with pytorch_load_spec [of b l b1] show ?case by (simp add: pytorch_ops_def)
next
  case (6 b x q g b1)
  with pytorch_generate_spec [of b x q g b1] show ?case by (simp add: pytorch_ops_def)
next
  case (7 b s g b1)
  with pytorch_stream_spec [of b s g b1] show ?case by (simp add: pytorch_ops_def)
next
  case (8 b k b1)
  with pytorch_close_spec [of b k b1] show ?case by (simp add: pytorch_ops_def)
next
  case (9 b)
  then show ?case by (simp add: pytorch_ops_def pytorch_close_def)
qed

text \<open>The file name of the reference of a stream request is asked for outside the handlers of exceptions: a
  working directory that cannot be read leaves \<open>stream\<close> as an \<open>OSError\<close>, where the one-shot methods report
  a backend error.\<close>

lemma stream_reference_escapes:
  assumes "pb_state b = Loaded" and "fs_cwd (pb_files b) = Inl e" and "is_os_error e"
    and "\<not> is_absolute (path_of (local_path r))"
  shows "pytorch_stream (StreamRequest (CloneRequest t r)) b = (Inl e, b)"
    and "\<not> is_backend_exn e"
    and "\<exists>x. pytorch_generate Clone (CloneRequest t r) b = (Inl (BackendExn x), b)"
proof -
  have v: "validate_local_reference_audio (pb_files b) r = Inl e"
    using assms(2,4) by (simp add: validate_local_reference_audio_def)
  then show "pytorch_stream (StreamRequest (CloneRequest t r)) b = (Inl e, b)"
    using assms(1) by (simp add: pytorch_stream_def pytorch_ready_def)
  show nb: "\<not> is_backend_exn e" using assms(3) by (cases e) auto
  from normalize_backend_error_public [OF nb, of "''clone''"] obtain x where
    "normalize_backend_error ''clone'' e = Inr x" by blast
  with v nb assms(1,3) show "\<exists>x. pytorch_generate Clone (CloneRequest t r) b = (Inl (BackendExn x), b)"
    by (cases e) (auto simp: pytorch_generate_def pytorch_ready_def call_normalized_def)
qed

section \<open>Properties\<close>

definition new_pytorch :: "'m upstream \<Rightarrow> file_system \<Rightarrow> resolved_model \<Rightarrow> plan \<Rightarrow> bool \<Rightarrow> bool \<Rightarrow> bool \<Rightarrow>
    exn + 'm pytorch_backend" where
  "new_pytorch up fs r p denoiser local_only opt =
     mk_pytorch_backend up fs r p (PBool denoiser) (PBool local_only) (PBool opt) (PStr ''voxcpm'')"

lemma upstream_device_plans:
  "resolve_upstream_device p = Inr d \<Longrightarrow> effective_device p = ''cpu'' \<and> d = ''cpu'' \<or>
     effective_device p = ''cuda'' \<and> worker_count p = 1 \<and>
     (\<exists>g. selected_gpu_indices p = [g] \<and> worker_gpu_indices p = [g] \<and> d = ''cuda:'' @ show_int g)"
  by (cases "selected_gpu_indices p"; cases "worker_gpu_indices p")
    (auto simp: resolve_upstream_device_def split: if_splits)

lemma new_pytorch_fit:
  assumes "upstream_fine up" and "files_fine fs" and "strip (rm_model_id r) \<noteq> []"
    and "new_pytorch up fs r p denoiser local_only opt = Inr b"
  shows "pytorch_fit b \<and> pb_state b = Created \<and> pb_plan b = p"
proof -
  from assms(4) obtain d where d: "resolve_upstream_device p = Inr d"
    and b: "b = \<lparr>pb_upstream = up, pb_files = fs, pb_resolved = r, pb_plan = p, pb_device = d,
             pb_load_denoiser = denoiser, pb_local_files_only = local_only,
             pb_optimize = opt, pb_upstream_name = ''voxcpm'', pb_model = None, pb_state = Created\<rparr>"
    by (auto simp: new_pytorch_def mk_pytorch_backend_def raises)
  from upstream_device_plans [OF d] have "strip (effective_device p) \<noteq> []" by (auto simp: literal_text)
  with assms(1-3) b show ?thesis by (simp add: pytorch_fit_def)
qed

text \<open>The text the model is given.\<close>

fun upstream_text :: "one_shot \<Rightarrow> string" where
  "upstream_text (VoiceDesignRequest t i) =
     (if strip i = [] then t else ''('' @ strip i @ '')'' @ t)"
| "upstream_text q = request_text q"

lemma upstream_text_in:
  "generate_kwargs fs q = Inr (conditioning, kw) \<Longrightarrow> (''text'', upstream_text q) \<in> set kw"
  by (cases q) (auto simp: raises build_design_text_def Let_def)


lemma generated_result:
  assumes "pytorch_fit b" and "pytorch_generate x q b = (Inr a, b1)"
  shows "\<exists>m m1 w ss rate conditioning kw.
    pb_model b = Some m \<and> operation_for_request q = operation_name x \<and>
    generate_kwargs (pb_files b) q = Inr (conditioning, kw) \<and> (''text'', upstream_text q) \<in> set kw \<and>
    up_generate (pb_upstream b) kw m = (Inr w, m1) \<and> waveform_to_samples (operation_name x) w = Inr ss \<and>
    read_sample_rate_hz (pb_upstream b) m1 = Inr rate \<and> 0 < rate \<and>
    a = \<lparr>ar_samples = map plain_zero ss, ar_sample_rate_hz = rate, ar_channels = 1,
         ar_metadata = sort_key fst (pytorch_metadata b rate (operation_name x) conditioning)\<rparr> \<and>
    b1 = b\<lparr>pb_model := Some m1\<rparr>"
proof -
  from pytorch_generate_spec [OF assms] have ld: "pb_state b = Loaded" by simp
  then obtain m where m: "pb_model b = Some m" using assms(1) by (auto simp: pytorch_fit_def)
  from assms(2) ld have op: "operation_for_request q = operation_name x"
    by (auto simp: pytorch_generate_def pytorch_ready_def Let_def split: if_splits)
  with assms(2) ld obtain conditioning kw where kw: "generate_kwargs (pb_files b) q = Inr (conditioning, kw)"
    by (cases "generate_kwargs (pb_files b) q")
      (auto simp: pytorch_generate_def pytorch_ready_def Let_def call_normalized_eq_Inr)
  with assms(2) ld op have ug: "upstream_generate (operation_name x) conditioning kw b = (Inr a, b1)"
    by (auto simp: pytorch_generate_def pytorch_ready_def Let_def call_normalized_eq_Inr split: prod.splits)
  obtain answer m1 where g: "up_generate (pb_upstream b) kw m = (answer, m1)" by fastforce
  with ug m obtain w ss rate where w: "answer = Inr w" "waveform_to_samples (operation_name x) w = Inr ss"
    "read_sample_rate_hz (pb_upstream b) m1 = Inr rate" "b1 = b\<lparr>pb_model := Some m1\<rparr>"
    and mk: "mk_audio_result (samples_arg ss) (PInt rate) (PInt 1)
      (meta_arg (pytorch_metadata b rate (operation_name x) conditioning)) = Inr a"
    by (auto simp: upstream_generate_def Let_def Let_def require_model_def raises)
  from assms(1) have up: "upstream_fine (pb_upstream b)" by (simp add: pytorch_fit_def)
  then have "outcome exn_fine waveform_fine (fst (up_generate (pb_upstream b) kw m))" "rate_fine (pb_upstream b) m1"
    by (simp_all add: upstream_fine_def)
  then have ss: "ss \<noteq> []" "list_all isfinite ss" and pos: "0 < rate"
    using g w waveform_to_samples_fine [of w "operation_name x"] read_sample_rate_fine [of "pb_upstream b" m1]
    by simp_all
  from audio_result_made [OF ss pos, of b "operation_name x" conditioning] mk
  have "a = \<lparr>ar_samples = map plain_zero ss, ar_sample_rate_hz = rate, ar_channels = 1,
         ar_metadata = sort_key fst (pytorch_metadata b rate (operation_name x) conditioning)\<rparr>" by simp
  with m op kw g w pos upstream_text_in [OF kw] show ?thesis by blast
qed

lemma stream_completed:
  assumes "pytorch_fit b" and "pytorch_stream (StreamRequest q) b = (Inr (cs, None), b1)"
  shows "\<exists>m m1 ns rate conditioning kw.
    pb_model b = Some m \<and> generate_kwargs (pb_files b) q = Inr (conditioning, kw) \<and>
    read_sample_rate_hz (pb_upstream b) m = Inr rate \<and> up_stream (pb_upstream b) kw m = (Inr ns, m1) \<and>
    ns_items ns \<noteq> [] \<and> length cs = length (ns_items ns) \<and>
    (\<forall>i < length cs. isOK (converted (ns_items ns ! i)) \<and>
       ac_samples (cs ! i) = map plain_zero (projr (converted (ns_items ns ! i))) \<and>
       ac_sample_rate_hz (cs ! i) = rate \<and> ac_channels (cs ! i) = 1)"
proof -
  from pytorch_stream_spec [OF assms] have ld: "pb_state b = Loaded" by simp
  then obtain m where m: "pb_model b = Some m" using assms(1) by (auto simp: pytorch_fit_def)
  from assms(2) ld obtain conditioning kw where kw: "generate_kwargs (pb_files b) q = Inr (conditioning, kw)"
    by (auto simp: pytorch_stream_def pytorch_ready_def split: sum.splits)
  with assms(2) ld have st: "stream_chunks conditioning kw b = ((cs, None), b1)"
    by (auto simp: pytorch_stream_def pytorch_ready_def split: prod.splits)
  with m obtain rate where rate: "read_sample_rate_hz (pb_upstream b) m = Inr rate"
    by (auto simp: stream_chunks_def require_model_def split: sum.splits)
  obtain answer m1 where up: "up_stream (pb_upstream b) kw m = (answer, m1)" by fastforce
  with st m rate obtain ns where ns: "answer = Inr ns"
    "run_native rate (pytorch_metadata b rate ''stream'' conditioning) ns = (cs, None)"
    by (auto simp: stream_chunks_def require_model_def Let_def call_normalized_eq_Inr split: sum.splits)
  from assms(1) have "upstream_fine (pb_upstream b)" by (simp add: pytorch_fit_def)
  then have "outcome exn_fine native_fine (fst (up_stream (pb_upstream b) kw m))" "rate_fine (pb_upstream b) m"
    by (simp_all add: upstream_fine_def)
  then have "native_fine ns" "0 < rate"
    using up ns rate read_sample_rate_fine [of "pb_upstream b" m] by simp_all
  from run_native_spec [OF this(2,1) ns(2)] m kw rate up ns(1) show ?thesis by (auto simp: chunk_for_def)
qed


text \<open>C17. How far a native stream gets. Each chunk carries one waveform of the upstream iterator, in order and
  numbered from 0; the one before the last is yielded only when its successor has arrived, so a stream the
  upstream breaks off loses the waveform in hand, and a waveform that cannot be converted ends the stream
  there. The stream ends without an error exactly when every waveform was delivered and the iterator could be
  closed.\<close>

theorem stream_lookahead:
  assumes "pytorch_fit b" and "pb_state b = Loaded" and "pb_model b = Some m"
    and "generate_kwargs (pb_files b) q = Inr (conditioning, kw)"
    and "read_sample_rate_hz (pb_upstream b) m = Inr rate"
    and "up_stream (pb_upstream b) kw m = (Inr ns, m1)"
  shows "\<exists>cs fin. pytorch_stream (StreamRequest q) b = (Inr (cs, fin), b\<lparr>pb_model := Some m1\<rparr>) \<and>
    length cs = delivered (ns_items ns) (ns_end ns) \<and>
    (\<forall>i < length cs. cs ! i = chunk_for b rate conditioning i
       (ns_end ns = None \<and> Suc i = length (ns_items ns)) (projr (converted (ns_items ns ! i)))) \<and>
    (fin = None \<longleftrightarrow> ns_items ns \<noteq> [] \<and> length cs = length (ns_items ns) \<and>
       (case ns_close ns of Some (Inl e) \<Rightarrow> False | _ \<Rightarrow> True)) \<and>
    (ns_items ns \<noteq> [] \<and> ns_end ns \<noteq> None \<and> list_all (\<lambda>w. isOK (converted w)) (butlast (ns_items ns)) \<longrightarrow>
       length cs = length (ns_items ns) - 1)"
proof -
  from assms(1) have up: "upstream_fine (pb_upstream b)" by (simp add: pytorch_fit_def)
  then have "outcome exn_fine native_fine (fst (up_stream (pb_upstream b) kw m))" "rate_fine (pb_upstream b) m"
    by (simp_all add: upstream_fine_def)
  then have fine_ns: "native_fine ns" and pos: "0 < rate"
    using assms(5,6) read_sample_rate_fine [of "pb_upstream b" m] by simp_all
  obtain cs fin where run: "run_native rate (pytorch_metadata b rate ''stream'' conditioning) ns = (cs, fin)"
    by fastforce
  have "pytorch_stream (StreamRequest q) b = (Inr (cs, fin), b\<lparr>pb_model := Some m1\<rparr>)"
    using assms(2-6) run
    by (simp add: pytorch_stream_def pytorch_ready_def stream_chunks_def require_model_def)
  moreover note run_native_spec [OF pos fine_ns run]
  moreover have "length cs = length (ns_items ns) - 1"
    if "ns_items ns \<noteq> [] \<and> ns_end ns \<noteq> None \<and> list_all (\<lambda>w. isOK (converted w)) (butlast (ns_items ns))"
    using calculation(2) that delivered_prefix by auto
  ultimately show ?thesis by blast
qed

section \<open>Witnesses\<close>

definition tone :: waveform where
  "tone = Waveform ''ndarray'' (PInt 1) (Some (Inr (PList [PFloat (Fin (1/2)), PFloat NegZero]))) (Inr [])"

definition sample_upstream :: "unit upstream" where
  "sample_upstream =
     \<lparr>up_import = Inr True, up_from_pretrained = (\<lambda>a. Inr ()),
      up_tts = (\<lambda>m. Some \<lparr>tts_sample_rate = PFloat (Fin 48000), tts_parameters = Not_Callable,
        tts_buffers = Not_Callable\<rparr>),
      up_generate = (\<lambda>kw m. (Inr tone, m)),
      up_stream = (\<lambda>kw m. (Inr \<lparr>ns_items = [tone, tone, tone], ns_end = Some (RuntimeError ''broken''),
        ns_close = Some (Inr ())\<rparr>, m))\<rparr>"

definition sample_model :: resolved_model where
  "sample_model =
     \<lparr>rm_path = sample_root, rm_source_kind = Explicit_Path, rm_model_id = model_id_const,
      rm_identity = \<lparr>ci_architecture = ''VoxCPM2'', ci_sha256 = replicate 64 CHR ''0'', ci_size_bytes = 1\<rparr>,
      rm_revision = None, rm_inventory = [],
      rm_artifacts = \<lparr>ra_config = ''config.json'', ra_main_weight = ''pytorch_model.bin'',
        ra_audiovae_weight = ''audiovae.pth'', ra_tokenizer = required_tokenizer_filenames\<rparr>,
      rm_metadata = []\<rparr>"

definition one_cpu :: plan where
  "one_cpu = \<lparr>effective_device = ''cpu'', selected_gpu_indices = [], worker_count = 1, worker_gpu_indices = []\<rparr>"

definition sample_pytorch :: "unit pytorch_backend" where
  "sample_pytorch =
     \<lparr>pb_upstream = sample_upstream, pb_files = sample_fs, pb_resolved = sample_model, pb_plan = one_cpu,
      pb_device = ''cpu'', pb_load_denoiser = False, pb_local_files_only = True, pb_optimize = False,
      pb_upstream_name = ''voxcpm'', pb_model = Some (), pb_state = Loaded\<rparr>"

lemma sample_upstream_fine: "upstream_fine sample_upstream"
  by (simp add: upstream_fine_def sample_upstream_def rate_fine_def tone_def native_fine_def exn_fine_def)

lemma sample_files_fine: "files_fine sample_fs"
  by (simp add: files_fine_def sample_fs_def)

lemma sample_model_named: "strip (rm_model_id sample_model) \<noteq> []"
  by (simp add: sample_model_def model_id_const_def literal_text)

lemma sample_pytorch_fit: "pytorch_fit sample_pytorch"
  using sample_model_named
  by (simp add: pytorch_fit_def sample_pytorch_def sample_upstream_fine sample_files_fine one_cpu_def literal_text)

lemma tone_samples: "waveform_to_samples operation tone = Inr [Fin (1/2), NegZero]"
  by (simp add: tone_def waveform_sample_def)

lemma sample_rate: "read_sample_rate_hz sample_upstream m = Inr 48000"
  by (simp add: read_sample_rate_hz_def sample_upstream_def)



theorem stream_lookahead_witness:
  "\<exists>c d e b1. pytorch_stream (StreamRequest (SpeechRequest ''hi'')) sample_pytorch = (Inr ([c, d], Some e), b1) \<and>
     ac_sequence d = 1 \<and> \<not> ac_is_final d"
proof -
  let ?ns = "\<lparr>ns_items = [tone, tone, tone], ns_end = Some (RuntimeError ''broken''), ns_close = Some (Inr ())\<rparr>"
  have pre: "pb_state sample_pytorch = Loaded" "pb_model sample_pytorch = Some ()"
    "generate_kwargs (pb_files sample_pytorch) (SpeechRequest ''hi'') = Inr (''none'', [(''text'', ''hi'')])"
    "read_sample_rate_hz (pb_upstream sample_pytorch) () = Inr 48000"
    "up_stream (pb_upstream sample_pytorch) [(''text'', ''hi'')] () = (Inr ?ns, ())"
    using sample_rate by (simp_all add: sample_pytorch_def sample_upstream_def)
  have two: "delivered (ns_items ?ns) (ns_end ?ns) = 2" by (simp add: tone_samples)
  from stream_lookahead [OF sample_pytorch_fit pre] obtain cs fin where
    s: "pytorch_stream (StreamRequest (SpeechRequest ''hi'')) sample_pytorch =
      (Inr (cs, fin), sample_pytorch\<lparr>pb_model := Some ()\<rparr>)" "length cs = 2" "fin \<noteq> None"
      "\<forall>i < 2. cs ! i = chunk_for sample_pytorch 48000 ''none'' i False (projr (converted (ns_items ?ns ! i)))"
    unfolding two by auto
  from s(2) obtain c d where "cs = [c, d]" by (auto simp: numeral_2_eq_2 length_Suc_conv)
  moreover from s(4) have "cs ! 1 = chunk_for sample_pytorch 48000 ''none'' 1 False (projr (converted (ns_items ?ns ! 1)))"
    by (metis one_less_numeral_iff semiring_norm(76))
  ultimately show ?thesis using s(1,3) by (auto simp: chunk_for_def)
qed

end
