(* ===== verification/Device_Probe.thy ===== *)
theory Device_Probe
  imports Device
begin

text \<open>
  The inspection of the host in \<open>voxcpm_runtime/device.py\<close>: reading \<open>/proc/cpuinfo\<close> and
  \<open>/proc/meminfo\<close>, the driver version, the \<open>torch\<close> module, and the dictionaries that are shown to
  users. File contents, process results and the answers of \<open>torch\<close> are arguments; an answer is
  \<open>Inl\<close> with the name of the exception's class where the call raised.
\<close>

section \<open>Lines and fields\<close>

text \<open>\<open>s.splitlines()\<close>: the current line is the second argument.\<close>

definition is_line_end :: "char \<Rightarrow> bool" where
  "is_line_end c \<longleftrightarrow> ordc c \<in> {10, 11, 12, 13, 28, 29, 30, 133}"

fun lines_from :: "string \<Rightarrow> string \<Rightarrow> string list" where
  "lines_from [] cur = (if cur = [] then [] else [cur])"
| "lines_from [c] cur = (if is_line_end c then [cur] else [cur @ [c]])"
| "lines_from (c # d # s) cur =
     (if ordc c = 13 \<and> ordc d = 10 then cur # lines_from s []
      else if is_line_end c then cur # lines_from (d # s) []
      else lines_from (d # s) (cur @ [c]))"

definition splitlines :: "string \<Rightarrow> string list" where
  "splitlines s = lines_from s []"

text \<open>\<open>s.split()\<close>.\<close>

fun words_from :: "string \<Rightarrow> string \<Rightarrow> string list" where
  "words_from [] cur = (if cur = [] then [] else [cur])"
| "words_from (c # s) cur =
     (if is_space c then (if cur = [] then words_from s [] else cur # words_from s [])
      else words_from s (cur @ [c]))"

definition split_words :: "string \<Rightarrow> string list" where
  "split_words s = words_from s []"

text \<open>\<open>key, value = (part.strip() for part in line.split(":", 1))\<close>.\<close>

definition colon_fields :: "string \<Rightarrow> string \<times> string" where
  "colon_fields line =
     (strip (takeWhile (\<lambda>c. c \<noteq> CHR '':'') line), strip (tl (dropWhile (\<lambda>c. c \<noteq> CHR '':'') line)))"

section \<open>Physical CPUs\<close>

text \<open>The loop over the lines with its local state: the pairs found, whether the record has a
  processor, and the record's physical and core ids. The set is a list without repetitions.\<close>

type_synonym core = "string \<times> string"

fun scan_cpuinfo :: "string list \<Rightarrow> core list \<Rightarrow> bool \<Rightarrow> string option \<Rightarrow> string option \<Rightarrow> core list option" where
  "scan_cpuinfo [] pairs record_seen physical_id core_id = Some pairs"
| "scan_cpuinfo (raw_line # rest) pairs record_seen physical_id core_id =
     (let line = strip raw_line in
      if line = [] then
        (if \<not> record_seen then scan_cpuinfo rest pairs False None None
         else case (physical_id, core_id) of
           (Some p, Some c) \<Rightarrow> scan_cpuinfo rest (List.insert (p, c) pairs) False None None
         | _ \<Rightarrow> None)
      else if CHR '':'' \<notin> set line then scan_cpuinfo rest pairs record_seen physical_id core_id
      else case colon_fields line of (key, val) \<Rightarrow>
        if key = ''processor'' then scan_cpuinfo rest pairs True physical_id core_id
        else if key = ''physical id'' then scan_cpuinfo rest pairs record_seen (Some val) core_id
        else if key = ''core id'' then scan_cpuinfo rest pairs record_seen physical_id (Some val)
        else scan_cpuinfo rest pairs record_seen physical_id core_id)"

definition read_physical_cpu_count :: "string option \<Rightarrow> int option" where
  "read_physical_cpu_count content =
     (case content of
        None \<Rightarrow> None
      | Some s \<Rightarrow>
         (case scan_cpuinfo (splitlines s @ [[]]) [] False None None of
            None \<Rightarrow> None
          | Some pairs \<Rightarrow> if pairs = [] then None else Some (int (length pairs))))"

section \<open>Host RAM\<close>

definition int_text :: "string \<Rightarrow> int option" where
  "int_text s = (if all_digits s then py_int10 s else None)"

definition sysconf_ram :: "(int \<times> int) option \<Rightarrow> int option" where
  "sysconf_ram answer =
     (case answer of
        None \<Rightarrow> None
      | Some (pages, page_size) \<Rightarrow> if pages \<ge> 0 \<and> page_size > 0 then Some (pages * page_size) else None)"

text \<open>The first \<open>MemTotal:\<close> line decides; a \<open>ValueError\<close> of \<open>int\<close> is caught like a missing value.\<close>

definition meminfo_total :: "string list \<Rightarrow> int option" where
  "meminfo_total lines =
     (case find (\<lambda>l. startswith l ''MemTotal:'') lines of
        None \<Rightarrow> None
      | Some l \<Rightarrow>
         (case split_words l of
            _ # kb # _ \<Rightarrow> if str_isdigit kb then map_option (\<lambda>n. n * 1024) (int_text kb) else None
          | _ \<Rightarrow> None))"

definition read_host_ram_bytes :: "string option \<Rightarrow> (int \<times> int) option \<Rightarrow> int option" where
  "read_host_ram_bytes content sysconf =
     (case content of
        None \<Rightarrow> sysconf_ram sysconf
      | Some s \<Rightarrow>
         (case meminfo_total (splitlines s) of None \<Rightarrow> sysconf_ram sysconf | Some n \<Rightarrow> Some n))"

section \<open>Driver version\<close>

definition version_char :: "char \<Rightarrow> bool" where
  "version_char c \<longleftrightarrow> is_dec c \<or> is_alpha_ascii c \<or> c \<in> {CHR ''.'', CHR ''_'', CHR ''-''}"

definition version_text :: "string \<Rightarrow> bool" where
  "version_text s \<longleftrightarrow> s \<noteq> [] \<and> length s \<le> 64 \<and> list_all version_char s"

text \<open>\<open>None\<close>: \<open>nvidia-smi\<close> is missing or could not be run.\<close>

definition probe_driver_version :: "(int \<times> string) option \<Rightarrow> string option" where
  "probe_driver_version run =
     (case run of
        None \<Rightarrow> None
      | Some (code, out) \<Rightarrow>
          if code \<noteq> 0 then None else find version_text (map strip (splitlines out)))"

section \<open>detect\_hardware\<close>

text \<open>The answers of the \<open>torch\<close> module.\<close>

record torch_module =
  tm_version :: "string + string option"
  tm_cuda_version :: "string + string option"
  tm_cuda :: "string + bool \<times> int"
  tm_name :: "int \<Rightarrow> string + pyval"
  tm_memory :: "int \<Rightarrow> string + int option"

record host =
  ho_cpu_count :: "int option"
  ho_cpuinfo :: "string option"
  ho_meminfo :: "string option"
  ho_sysconf :: "(int \<times> int) option"
  ho_driver :: "(int \<times> string) option"
  ho_package_version :: "string option"
  ho_visible_devices_set :: bool
  ho_platform :: string

text \<open>One device: its entry and the notes it adds.\<close>

definition probe_gpu :: "torch_module \<Rightarrow> int \<Rightarrow> exn + gpu_info \<times> string list" where
  "probe_gpu tm i =
     (let name_notes = (case tm_name tm i of Inl _ \<Rightarrow> [''GPU '' @ show_int i @ '' name unavailable''] | Inr _ \<Rightarrow> []);
          name = (case tm_name tm i of Inl _ \<Rightarrow> PNone | Inr n \<Rightarrow> n);
          memory_notes =
            (case tm_memory tm i of Inl _ \<Rightarrow> [''GPU '' @ show_int i @ '' memory unavailable''] | Inr _ \<Rightarrow> []);
          memory = (case tm_memory tm i of Inr (Some m) \<Rightarrow> PInt m | _ \<Rightarrow> PNone) in
      and_then (mk_gpu_info (PInt i) name memory PNone PNone PNone) (\<lambda>g.
        Inr (g, name_notes @ memory_notes)))"

text \<open>The version and CUDA answers: torch version, CUDA runtime version, availability, device count,
  status, notes.\<close>

definition probe_versions :: "torch_module \<Rightarrow> string option \<times> string option \<times> string list" where
  "probe_versions tm =
     (case tm_version tm of
        Inl e \<Rightarrow> (None, None, [''PyTorch version probe failed: '' @ e])
      | Inr v \<Rightarrow>
         (case tm_cuda_version tm of
            Inl e \<Rightarrow> (v, None, [''PyTorch version probe failed: '' @ e])
          | Inr c \<Rightarrow> (v, (if c = Some [] then None else c), [])))"

definition probe_cuda :: "torch_module \<Rightarrow> bool \<times> int \<times> string \<times> string list" where
  "probe_cuda tm =
     (case tm_cuda tm of
        Inl e \<Rightarrow> (False, 0, ''probe_error'', [''PyTorch CUDA probe failed: '' @ e])
      | Inr (avail, n) \<Rightarrow>
          (avail, n, (if avail \<and> n > 0 then ''available'' else ''cuda_unavailable''), []))"

definition probe_gpus :: "torch_module \<Rightarrow> bool \<Rightarrow> int \<Rightarrow> exn + gpu_info list \<times> string list" where
  "probe_gpus tm avail n =
     (if avail \<and> n > 0 then
        and_then (map_raise (probe_gpu tm) [0..n - 1]) (\<lambda>found. Inr (map fst found, concat (map snd found)))
      else if avail \<and> n = 0 then Inr ([], [''PyTorch reported CUDA available with zero visible devices''])
      else Inr ([], []))"

definition probe_torch ::
    "string + torch_module \<Rightarrow>
     exn + (string option \<times> string option \<times> string \<times> gpu_info list \<times> string list)" where
  "probe_torch torch =
     (case torch of
        Inl e \<Rightarrow> Inr (None, None, ''torch_unavailable'', [], [''PyTorch probe unavailable: '' @ e])
      | Inr tm \<Rightarrow>
         (case probe_versions tm of (version, runtime, version_notes) \<Rightarrow>
          case probe_cuda tm of (avail, n, status, cuda_notes) \<Rightarrow>
          and_then (probe_gpus tm avail n) (\<lambda>(gpus, gpu_notes).
            Inr (version, runtime, status, gpus,
                 version_notes @ cuda_notes @ gpu_notes @
                 (if \<not> avail then [''CUDA is unavailable through PyTorch''] else [])))))"

definition visible_mapping :: "gpu_info list \<Rightarrow> pyval" where
  "visible_mapping gpus =
     PDict [(PStr ''configured'', PBool True),
            (PStr ''runtime_indices'', PList (map PInt [0..int (length gpus) - 1]))]"

definition detect_hardware :: "host \<Rightarrow> string + torch_module \<Rightarrow> exn + inventory" where
  "detect_hardware h torch =
     (let cores = read_physical_cpu_count (ho_cpuinfo h);
          ram = read_host_ram_bytes (ho_meminfo h) (ho_sysconf h);
          host_notes = (if ram = None then [''host RAM could not be inspected''] else []) @
            (if cores = None then [''physical CPU count is unavailable''] else []) in
      and_then (probe_torch torch) (\<lambda>(version, runtime, status, gpus, notes).
        mk_inventory
          \<lparr>cpu_logical_count = ho_cpu_count h, cpu_physical_count = cores, host_ram_bytes = ram,
           cuda_available = (gpus \<noteq> []), inv_gpus = [], gpu_count = 0,
           torch_version = (case version of None \<Rightarrow> ho_package_version h | Some v \<Rightarrow> Some v),
           cuda_runtime_version = runtime, cuda_driver_version = probe_driver_version (ho_driver h),
           cuda_probe_status = status,
           visible_device_mapping = (if ho_visible_devices_set h then visible_mapping gpus else PNone),
           inv_notes = host_notes @ notes @
             (if ho_visible_devices_set h
              then [''CUDA_VISIBLE_DEVICES is configured; raw value redacted''] else []),
           inv_platform = Some (ho_platform h)\<rparr>
          (map Entry_Info gpus) (Some (int (length gpus)))))"

section \<open>What is shown of the visible devices\<close>

definition redacted :: pyval where
  "redacted = PStr ''redacted''"

definition private_keys :: "string list" where
  "private_keys = [''raw'', ''value'', ''token'', ''uuid'']"

fun plain_index :: "pyval \<Rightarrow> pyval" where
  "plain_index (PInt i) = PInt i"
| "plain_index _ = redacted"

text \<open>\<open>_safe_visible_mapping\<close> and its two loops, over the items of a dict (with the dict built so far)
  and over the members of a list. \<open>to_text\<close> is \<open>str\<close> on a key.\<close>

fun safe_visible_mapping :: "(pyval \<Rightarrow> string) \<Rightarrow> pyval \<Rightarrow> pyval"
  and safe_items :: "(pyval \<Rightarrow> string) \<Rightarrow> (pyval \<times> pyval) list \<Rightarrow> (pyval, pyval) dict \<Rightarrow> (pyval, pyval) dict"
  and safe_members :: "(pyval \<Rightarrow> string) \<Rightarrow> pyval list \<Rightarrow> pyval list"
where
  "safe_visible_mapping to_text v =
     (case v of
        PNone \<Rightarrow> PNone
      | PDict items \<Rightarrow> PDict (safe_items to_text items [])
      | PList xs \<Rightarrow> PList (safe_members to_text xs)
      | PTuple xs \<Rightarrow> PList (safe_members to_text xs)
      | PInt i \<Rightarrow> PInt i
      | _ \<Rightarrow> PStr ''configured'')"
| "safe_items to_text [] safe = safe"
| "safe_items to_text ((key, item) # items) safe =
     safe_items to_text items
       (dict_set (PStr (to_text key))
         (if to_text key \<in> set private_keys then redacted
          else case item of
            PList xs \<Rightarrow>
              if to_text key = ''runtime_indices'' then PList (map plain_index xs)
              else safe_visible_mapping to_text item
          | PTuple xs \<Rightarrow>
              if to_text key = ''runtime_indices'' then PList (map plain_index xs)
              else safe_visible_mapping to_text item
          | PDict _ \<Rightarrow> safe_visible_mapping to_text item
          | PInt _ \<Rightarrow> item
          | PFloat _ \<Rightarrow> item
          | PBool _ \<Rightarrow> item
          | PNone \<Rightarrow> item
          | _ \<Rightarrow> redacted) safe)"
| "safe_members to_text [] = []"
| "safe_members to_text (x # xs) =
     (case x of
        PDict _ \<Rightarrow> safe_visible_mapping to_text x
      | PList _ \<Rightarrow> safe_visible_mapping to_text x
      | PTuple _ \<Rightarrow> safe_visible_mapping to_text x
      | _ \<Rightarrow> plain_index x) # safe_members to_text xs"

declare safe_visible_mapping.simps [simp del]

definition gpu_to_dict :: "gpu_info \<Rightarrow> pyval" where
  "gpu_to_dict g =
     PDict [(PStr ''index'', PInt (gi_index g)), (PStr ''runtime_index'', PInt (gi_index g)),
            (PStr ''name'', gi_name g), (PStr ''total_memory_bytes'', opt_int (gi_memory g))]"

definition inventory_to_dict :: "(pyval \<Rightarrow> string) \<Rightarrow> inventory \<Rightarrow> (string, pyval) dict" where
  "inventory_to_dict to_text hw =
     [(''cpu_logical_count'', opt_int (cpu_logical_count hw)),
      (''cpu_physical_count'', opt_int (cpu_physical_count hw)),
      (''host_ram_bytes'', opt_int (host_ram_bytes hw)),
      (''cuda_available'', PBool (cuda_available hw)),
      (''cuda_probe_status'', PStr (cuda_probe_status hw)),
      (''torch_version'', opt_str (torch_version hw)),
      (''cuda_runtime_version'', opt_str (cuda_runtime_version hw)),
      (''cuda_driver_version'', opt_str (cuda_driver_version hw)),
      (''gpu_count'', PInt (gpu_count hw)),
      (''gpus'', PList (map gpu_to_dict (inv_gpus hw))),
      (''visible_device_mapping'', safe_visible_mapping to_text (visible_device_mapping hw)),
      (''notes'', PList (map PStr (inv_notes hw))),
      (''platform'', opt_str (inv_platform hw))]"

definition plan_to_dict :: "plan \<Rightarrow> (string, pyval) dict" where
  "plan_to_dict p =
     [(''effective_device'', PStr (effective_device p)),
      (''selected_gpu_indices'', PList (map PInt (selected_gpu_indices p))),
      (''worker_count'', PInt (worker_count p)),
      (''worker_gpu_indices'', PList (map PInt (worker_gpu_indices p)))]"

section \<open>The CPU count, record by record\<close>

text \<open>The reference: the file is cut into records at blank lines; a record's field is its last line
  with that key; every record of a processor has both ids, and the cores are the distinct pairs.\<close>

fun records_from :: "string list \<Rightarrow> string list \<Rightarrow> string list list" where
  "records_from [] cur = []"
| "records_from (l # ls) cur =
     (if strip l = [] then cur # records_from ls [] else records_from ls (cur @ [strip l]))"

definition line_values :: "string \<Rightarrow> string \<Rightarrow> string list" where
  "line_values key line =
     (if CHR '':'' \<in> set line \<and> fst (colon_fields line) = key then [snd (colon_fields line)] else [])"

definition field_values :: "string \<Rightarrow> string list \<Rightarrow> string list" where
  "field_values key rec = concat (map (line_values key) rec)"

definition last_value :: "string list \<Rightarrow> string option" where
  "last_value vs = (if vs = [] then None else Some (last vs))"

definition is_processor :: "string list \<Rightarrow> bool" where
  "is_processor rec \<longleftrightarrow> field_values ''processor'' rec \<noteq> []"

definition core_of :: "string list \<Rightarrow> core option" where
  "core_of rec =
     (case (last_value (field_values ''physical id'' rec), last_value (field_values ''core id'' rec)) of
        (Some p, Some c) \<Rightarrow> Some (p, c)
      | _ \<Rightarrow> None)"

definition physical_cores :: "string list \<Rightarrow> string list \<Rightarrow> core list option" where
  "physical_cores lines cur =
     (let cores = map core_of (filter is_processor (records_from lines cur)) in
      if None \<in> set cores then None else Some (map the cores))"

lemma physical_cores_Nil [simp]: "physical_cores [] cur = Some []"
  by (simp add: physical_cores_def)

lemma physical_cores_blank:
  assumes "strip l = []"
  shows "physical_cores (l # ls) cur =
    (if is_processor cur then
       (case core_of cur of
          None \<Rightarrow> None
        | Some pc \<Rightarrow> map_option (Cons pc) (physical_cores ls []))
     else physical_cores ls [])"
  using assms by (auto simp: physical_cores_def Let_def split: option.split)

lemma physical_cores_line:
  "strip l \<noteq> [] \<Longrightarrow> physical_cores (l # ls) cur = physical_cores ls (cur @ [strip l])"
  by (simp add: physical_cores_def)

lemma field_values_snoc [simp]: "field_values key (rec @ [line]) = field_values key rec @ line_values key line"
  by (simp add: field_values_def)

lemma scan_cpuinfo_records:
  "scan_cpuinfo ls pairs (is_processor cur) (last_value (field_values ''physical id'' cur))
     (last_value (field_values ''core id'' cur)) =
   map_option (\<lambda>cores. fold List.insert cores pairs) (physical_cores ls cur)"
proof (induction ls arbitrary: pairs cur)
  case Nil
  then show ?case by simp
next
  case (Cons l ls)
  have new: "is_processor [] = False" "last_value (field_values key []) = None" for key
    by (simp_all add: is_processor_def field_values_def last_value_def)
  show ?case
  proof (cases "strip l = []")
    case True
    show ?thesis
      using Cons.IH [of _ "[]"]
      by (simp add: True new physical_cores_blank core_of_def option.map_comp comp_def split: option.split)
  next
    case False
    obtain key val where kv: "colon_fields (strip l) = (key, val)" by (cases "colon_fields (strip l)")
    have keys: "''processor'' \<noteq> ''physical id''" "''processor'' \<noteq> ''core id''" "''physical id'' \<noteq> ''core id''"
      by simp_all
    let ?cur = "cur @ [strip l]"
    have step: "scan_cpuinfo (l # ls) pairs (is_processor cur) (last_value (field_values ''physical id'' cur))
        (last_value (field_values ''core id'' cur)) =
      scan_cpuinfo ls pairs (is_processor ?cur) (last_value (field_values ''physical id'' ?cur))
        (last_value (field_values ''core id'' ?cur))"
      using False kv keys
      by (auto simp: Let_def is_processor_def last_value_def line_values_def)
    show ?thesis unfolding step physical_cores_line [OF False] by (rule Cons.IH)
  qed
qed

lemma fold_insert_set: "set (fold List.insert xs ys) = set xs \<union> set ys"
  by (induction xs arbitrary: ys) auto

lemma fold_insert_distinct: "distinct ys \<Longrightarrow> distinct (fold List.insert xs ys)"
  by (induction xs arbitrary: ys) auto

lemma fold_insert_length: "length (fold List.insert xs []) = card (set xs)"
  by (metis distinct_card distinct.simps(1) fold_insert_distinct fold_insert_set list.set(1) sup_bot_right)

text \<open>The line-by-line scan of \<open>/proc/cpuinfo\<close> computes the record-wise definition: the number
  of distinct pairs of physical and core id over the records of processors, and nothing when the file
  is unreadable, when such a record lacks an id, or when there is none.\<close>

theorem cpu_count_by_records:
  "read_physical_cpu_count content =
     (case content of
        None \<Rightarrow> None
      | Some s \<Rightarrow>
         (case physical_cores (splitlines s @ [[]]) [] of
            None \<Rightarrow> None
          | Some cores \<Rightarrow> if cores = [] then None else Some (int (card (set cores)))))"
proof (cases content)
  case None
  then show ?thesis by (simp add: read_physical_cpu_count_def)
next
  case (Some s)
  have "scan_cpuinfo (splitlines s @ [[]]) [] False None None =
      map_option (\<lambda>cores. fold List.insert cores []) (physical_cores (splitlines s @ [[]]) [])"
    using scan_cpuinfo_records [of "splitlines s @ [[]]" "[]" "[]"]
    by (simp add: is_processor_def field_values_def last_value_def)
  moreover have "fold List.insert cores [] = [] \<longleftrightarrow> cores = []" for cores :: "core list"
    using fold_insert_set [of cores "[]"] by (metis set_empty2 sup_bot_right list.set(1))
  ultimately show ?thesis
    by (simp add: read_physical_cpu_count_def Some fold_insert_length split: option.split)
qed

section \<open>Nothing private is shown\<close>

text \<open>The only texts among the values (keys apart) are the two placeholders.\<close>

fun placeholder_texts :: "pyval \<Rightarrow> bool"
  and placeholder_items :: "(pyval \<times> pyval) list \<Rightarrow> bool"
  and placeholder_members :: "pyval list \<Rightarrow> bool"
where
  "placeholder_texts (PStr s) = (s = ''redacted'' \<or> s = ''configured'')"
| "placeholder_texts (PList xs) = placeholder_members xs"
| "placeholder_texts (PTuple xs) = placeholder_members xs"
| "placeholder_texts (PDict items) = placeholder_items items"
| "placeholder_texts (PObj _) = False"
| "placeholder_texts _ = True"
| "placeholder_items [] = True"
| "placeholder_items ((k, v) # items) = (placeholder_texts v \<and> placeholder_items items)"
| "placeholder_members [] = True"
| "placeholder_members (x # xs) = (placeholder_texts x \<and> placeholder_members xs)"

lemma placeholder_set:
  "placeholder_items d \<Longrightarrow> placeholder_texts v \<Longrightarrow> placeholder_items (dict_set k v d)"
  by (induction d) (auto split: if_splits)

lemma placeholder_redacted [simp]: "placeholder_texts redacted"
  by (simp add: redacted_def)

lemma placeholder_plain_index [simp]: "placeholder_texts (plain_index x)"
  by (cases x) auto

lemma placeholder_map [simp]: "placeholder_members (map plain_index xs)"
  by (induction xs) auto

lemma safe_mapping_placeholder:
  "placeholder_texts (safe_visible_mapping to_text v)"
  "placeholder_items safe \<Longrightarrow> placeholder_items (safe_items to_text items safe)"
  "placeholder_members (safe_members to_text xs)"
proof (induction to_text v and to_text items safe and to_text xs
    rule: safe_visible_mapping_safe_items_safe_members.induct)
  case (1 to_text v)
  then show ?case by (cases v) (simp_all add: safe_visible_mapping.simps)
next
  case (3 to_text key item items safe)
  show ?case
    unfolding safe_items.simps
    apply (rule 3(4) [OF placeholder_set [OF 3(5)]])
    using 3(1-3) by (cases item) simp_all
next
  case (5 to_text x xs)
  then show ?case by (cases x) simp_all
qed simp_all

text \<open>Whatever is configured for the visible devices, the text shown of it holds no string values
  but the placeholders \<open>redacted\<close> and \<open>configured\<close>, at every depth; so does the inventory's
  dictionary under that key.\<close>

theorem visible_mapping_redacted:
  "placeholder_texts (safe_visible_mapping to_text v) \<and>
   map_option placeholder_texts (dict_get (inventory_to_dict to_text hw) ''visible_device_mapping'') = Some True"
  by (simp add: safe_mapping_placeholder inventory_to_dict_def)

section \<open>Detection\<close>

lemma mk_gpu_info_plain:
  "outcome inventory_error (\<lambda>g. gi_index g = i) (mk_gpu_info (PInt i) name memory PNone PNone PNone)"
  by (simp add: mk_gpu_info_def Let_def)

lemma probe_gpu_outcome: "outcome inventory_error (\<lambda>(g, _). gi_index g = i) (probe_gpu tm i)"
  unfolding probe_gpu_def Let_def by (rule outcome_and_then [OF mk_gpu_info_plain]) simp

lemma probe_gpu_all:
  "outcome inventory_error (\<lambda>found. map (\<lambda>f. gi_index (fst f)) found = is) (map_raise (probe_gpu tm) is)"
proof (induction "is")
  case Nil
  then show ?case by simp
next
  case (Cons i "is")
  show ?case unfolding map_raise.simps
    by (rule outcome_and_then [OF probe_gpu_outcome], rule outcome_and_then [OF Cons.IH]) auto
qed

definition indexed_gpus :: "gpu_info list \<Rightarrow> bool" where
  "indexed_gpus gpus \<longleftrightarrow> map gi_index gpus = [0..int (length gpus) - 1]"

lemma probe_gpus_outcome: "outcome inventory_error (\<lambda>(gpus, _). indexed_gpus gpus) (probe_gpus tm avail n)"
proof -
  have "indexed_gpus (map fst found)" if "map (\<lambda>f. gi_index (fst f)) found = [0..n - 1]" "n > 0"
    for found :: "(gpu_info \<times> string list) list"
  proof -
    have "length (map (\<lambda>f. gi_index (fst f)) found) = length [0..n - 1]" by (simp only: that(1))
    then have "int (length found) = n" using that(2) by simp
    with that show ?thesis by (simp add: indexed_gpus_def comp_def)
  qed
  then show ?thesis
    unfolding probe_gpus_def
    by (intro outcome_ifI outcome_and_then [OF probe_gpu_all]) (auto simp: indexed_gpus_def)
qed

lemma probe_torch_outcome:
  "outcome inventory_error (\<lambda>(_, _, _, gpus, _). indexed_gpus gpus) (probe_torch torch)"
proof (cases torch)
  case (Inl e)
  then show ?thesis by (simp add: probe_torch_def indexed_gpus_def)
next
  case (Inr tm)
  have "outcome inventory_error (\<lambda>(_, _, _, gpus, _). indexed_gpus gpus)
      (and_then (probe_gpus tm avail n) (\<lambda>(gpus, gpu_notes). Inr (v, r, s, gpus, extra gpu_notes)))"
    for avail n v r s and extra :: "string list \<Rightarrow> string list"
    by (rule outcome_and_then [OF probe_gpus_outcome]) auto
  with Inr show ?thesis by (auto simp: probe_torch_def split: prod.split)
qed

lemma indexed_gpus_inventory:
  assumes "indexed_gpus gpus"
  shows "outcome inventory_error (\<lambda>r. inventory_ok r \<and> inv_gpus r = gpus \<and> gpu_count r = int (length gpus) \<and>
      cuda_available r = cuda_available hw)
    (mk_inventory hw (map Entry_Info gpus) (Some (int (length gpus))))"
proof -
  have idx: "0 \<le> gi_index g" if "g \<in> set gpus" for g
  proof -
    have "gi_index g \<in> set (map gi_index gpus)" using that by simp
    with assms show ?thesis by (simp add: indexed_gpus_def)
  qed
  have "map_raise normalize_gpu (map Entry_Info gpus) = Inr gpus"
    by (induction gpus) auto
  moreover have "distinct (map gi_index gpus)" using assms by (simp add: indexed_gpus_def)
  ultimately have l: "normalize_gpu_list (map Entry_Info gpus) (Some (int (length gpus))) = Inr (gpus, int (length gpus))"
    by (simp add: normalize_gpu_list_def Let_def)
  have "list_all entry_ok (map Entry_Info gpus)" using idx by (simp add: list_all_iff)
  from mk_inventory_outcome [OF this, of hw "Some (int (length gpus))"]
  show ?thesis
    by (cases "mk_inventory hw (map Entry_Info gpus) (Some (int (length gpus)))")
      (auto simp: mk_inventory_def l raises)
qed

text \<open>Whatever the host and the torch module answer, detection either raises the \<open>ValueError\<close> of a
  negative memory size or processor count, or returns a well-formed inventory whose GPUs are numbered from 0 without gaps, as many
  as it counts, and in which CUDA is available exactly when it is usable for planning.\<close>

theorem detection_is_consistent:
  "outcome inventory_error
    (\<lambda>hw. inventory_ok hw \<and> visible_gpu_indices hw = [0..gpu_count hw - 1] \<and> cuda_available hw = usable_cuda hw)
    (detect_hardware h torch)"
  unfolding detect_hardware_def Let_def
  apply (rule outcome_and_then [OF probe_torch_outcome])
  subgoal for found
    apply (cases found)
    apply (simp only: prod.case)
    apply (rule outcome_mono [OF indexed_gpus_inventory])
     apply assumption
    apply (auto simp: usable_cuda_def visible_gpu_indices_def indexed_gpus_def)
    done
  done

end
