(* ===== verification/Real_Worker.thy ===== *)
theory Real_Worker
  imports Pytorch_Backend Device_Probe
begin

text \<open>
  The worker process on the real backend: \<open>_create_real_backend\<close> of \<open>voxcpm_runtime/worker_process.py\<close>,
  which reads the environment of the child, resolves the device and the model and builds the adapter, and
  the session of such a worker. The child's environment is a dict of strings; what the child finds
  around it is the record \<open>surroundings\<close>.
\<close>

record 'm surroundings =
  su_environ :: "(string, string) dict"
  su_host :: host
  su_torch :: "string + torch_module"
  su_files :: file_system
  su_loads :: json_loads
  su_sha :: hex_digest
  su_upstream :: "'m upstream"

text \<open>\<open>os.environ\<close> after the overrides of the child, as the mapping \<open>RuntimeConfig.from_env\<close> reads.\<close>

definition child_environment :: "bootstrap_spec \<Rightarrow> (string, string) dict \<Rightarrow> (string, string) dict" where
  "child_environment spec env =
     fold (\<lambda>(k, v). dict_set k v) (child_cuda_environment spec)
       (if bs_gpu spec \<noteq> None then dict_pop ''VOXCPM_PROFILE'' env else env)"

definition environ_mapping :: "(string, string) dict \<Rightarrow> mapping" where
  "environ_mapping env k = (case dict_get env k of None \<Rightarrow> RNone | Some v \<Rightarrow> RStr v)"

definition create_real_backend :: "bootstrap_spec \<Rightarrow> 'm surroundings \<Rightarrow> exn + 'm pytorch_backend" where
  "create_real_backend spec su =
     and_then (from_mapping (environ_mapping (child_environment spec (su_environ su)))) (\<lambda>cfg.
     and_then (detect_hardware (su_host su) (su_torch su)) (\<lambda>inventory.
     and_then (manager_resolve None (detect_hardware (su_host su) (su_torch su)) (Device_Config cfg)
         (Arg_Raw (raw_gpus (gpu_devices cfg))) (Arg_Raw (raw_workers (workers cfg))) (Some inventory)) (\<lambda>p.
     and_then (resolve_model (su_files su) (su_loads su) (su_sha su) cfg (Items [] None) None) (\<lambda>resolved.
     and_then (resolve_upstream_optimize p (optimize cfg)) (\<lambda>opt.
       mk_pytorch_backend (su_upstream su) (su_files su) resolved p (PBool (load_denoiser cfg))
         (PBool (offline cfg)) (PBool opt) (PStr ''voxcpm''))))))"

text \<open>The process of a worker with the real backend.\<close>

definition real_process ::
    "bootstrap_spec \<Rightarrow> 'm surroundings \<Rightarrow> command list \<Rightarrow> child_io \<Rightarrow> 'm pytorch_backend option \<times> child_io" where
  "real_process spec su commands io =
     worker_process_main pytorch_ops (create_real_backend spec su) (bs_worker_id spec) commands io"

text \<open>A worker process on the backend its specification names: what it leaves in the queue.\<close>

definition child_process ::
    "digest \<Rightarrow> 'm surroundings \<Rightarrow> bootstrap_spec \<Rightarrow> command list \<Rightarrow> child_io \<Rightarrow> child_io" where
  "child_process sha su spec commands io =
     (if bs_backend_kind spec = Fake_Kind then snd (fake_process sha spec commands io)
      else snd (real_process spec su commands io))"

section \<open>The environment of a child\<close>

lemma child_environment_gpu:
  assumes "bs_gpu spec = Some g"
  shows "dict_get (child_environment spec env) ''CUDA_VISIBLE_DEVICES'' = Some (show_int g)"
    "dict_get (child_environment spec env) ''VOXCPM_DEVICE'' = Some ''cuda''"
    "dict_get (child_environment spec env) ''VOXCPM_GPU_DEVICES'' = Some ''0''"
    "dict_get (child_environment spec env) ''VOXCPM_WORKERS'' = Some ''1''"
    "dict_get (child_environment spec env) ''VOXCPM_PROFILE'' = None"
  using assms by (simp_all add: child_environment_def child_cuda_environment_def dicts)

text \<open>What the fields of a configuration that decide the device are read from.\<close>

lemma config_arguments_device:
  assumes "config_arguments m = Inr c"
  shows "enum_value m ''VOXCPM_DEVICE'' Dev_Auto device_members False = Inr (device c)"
    and "parse_execution_profile (m ''VOXCPM_PROFILE'') = Inr (profile c)"
    and "parse_gpu_devices (m gpu_var) = Inr (gpu_devices c)"
    and "parse_workers (m workers_var) = Inr (workers c)"
  using assms unfolding config_arguments_def and_then_eq_Inr
  by (elim exE conjE, simp only: sum.inject, hypsubst, simp)+

lemma post_init_device:
  assumes "post_init c = Inr d"
  shows "device d = device c" "profile d = profile c" "workers d = workers c"
    "normalize_gpus (gpu_devices c) = Inr (gpu_devices d)"
  using assms by (auto simp: post_init_def Let_def raises)

lemma child_config:
  assumes "bs_gpu spec = Some g"
    and "from_mapping (environ_mapping (child_environment spec env)) = Inr cfg"
  shows "device cfg = Dev_Cuda \<and> profile cfg = None \<and> gpu_devices cfg = Some [0] \<and> workers cfg = Some 1"
proof -
  let ?m = "environ_mapping (child_environment spec env)"
  have m: "?m ''VOXCPM_DEVICE'' = RStr ''cuda''" "?m gpu_var = RStr ''0''" "?m workers_var = RStr ''1''"
    "?m ''VOXCPM_PROFILE'' = RNone"
    using child_environment_gpu [OF assms(1), of env]
    by (simp_all add: environ_mapping_def gpu_var_def workers_var_def)
  have "strip ''cuda'' = ''cuda''" by (simp add: strip_none is_space_def)
  then have dev: "enum_value ?m ''VOXCPM_DEVICE'' Dev_Auto device_members False = Inr Dev_Cuda"
    using m(1) by (simp add: enum_value_def trimmed_def blank_def device_members_def)
  have reads: "parse_execution_profile (?m ''VOXCPM_PROFILE'') = Inr None"
    "parse_gpu_devices (?m gpu_var) = Inr (Some [0])" "parse_workers (?m workers_var) = Inr (Some 1)"
    unfolding m by code_simp+
  have again: "normalize_gpus (Some [0]) = Inr (Some [0])" by code_simp
  from assms(2) obtain c where c: "config_arguments ?m = Inr c" "post_init c = Inr cfg"
    by (auto simp: from_mapping_def raises)
  from config_arguments_device [OF c(1)] post_init_device [OF c(2)] dev reads again show ?thesis by simp
qed

lemma cuda_zero_plan:
  assumes "resolve_execution_plan cfg inventory = Inr p"
    and "device cfg = Dev_Cuda \<and> profile cfg = None \<and> gpu_devices cfg = Some [0] \<and> workers cfg = Some 1"
  shows "p = \<lparr>effective_device = ''cuda'', selected_gpu_indices = [0], worker_count = 1, worker_gpu_indices = [0]\<rparr> \<and>
    0 \<in> set (visible_gpu_indices inventory)"
proof -
  have args: "parse_gpu_devices (raw_gpus (Some [0])) = Inr (Some [0])" "parse_workers (raw_workers (Some 1)) = Inr (Some 1)"
    by code_simp+
  have plan: "mk_plan ''cuda'' [0] 1 [0] =
      Inr \<lparr>effective_device = ''cuda'', selected_gpu_indices = [0], worker_count = 1, worker_gpu_indices = [0]\<rparr>"
    by (simp add: mk_plan_def check_plan_def)
  from assms args have "resolve_normalized ''cuda'' (Some [0]) (Some 1) inventory = Inr p"
    by (simp add: resolve_execution_plan_def materialize_execution_profile_def resolve_values_def)
  with plan show ?thesis
    by (auto simp: resolve_normalized_def validate_gpu_selection_def Let_def cuda_plan_def device_error_def
        raises split: if_splits option.splits)
qed

section \<open>Properties\<close>

text \<open>C31. A child that is bound to a GPU builds a backend on that GPU only: whatever the environment of the
  service says of devices, workers and profiles, the child sees the one GPU as number 0 and runs a single
  worker on it without optimisation, and its model is a directory that holds one, from the configured path or
  the cache and never from the network.\<close>

theorem child_uses_its_gpu:
  assumes "bs_gpu spec = Some g" and "create_real_backend spec su = Inr b"
  shows "dict_get (child_environment spec (su_environ su)) ''CUDA_VISIBLE_DEVICES'' = Some (show_int g) \<and>
    pb_device b = ''cuda:0'' \<and> worker_gpu_indices (pb_plan b) = [0] \<and> worker_count (pb_plan b) = 1 \<and>
    \<not> pb_optimize b \<and> pb_state b = Created \<and>
    holds_model (su_files su) (su_loads su) (su_sha su) (pb_resolved b) \<and>
    rm_source_kind (pb_resolved b) \<in> {Explicit_Path, Local_Cache}"
proof -
  from assms(2) obtain cfg inventory p r opt where
    cfg: "from_mapping (environ_mapping (child_environment spec (su_environ su))) = Inr cfg"
    and p: "resolve_execution_plan cfg inventory = Inr p"
    and r: "resolve_model (su_files su) (su_loads su) (su_sha su) cfg (Items [] None) None = Inr r"
    and opt: "resolve_upstream_optimize p (optimize cfg) = Inr opt"
    and b: "mk_pytorch_backend (su_upstream su) (su_files su) r p (PBool (load_denoiser cfg))
         (PBool (offline cfg)) (PBool opt) (PStr ''voxcpm'') = Inr b"
    by (auto simp: create_real_backend_def manager_resolve_def raises)
  from cuda_zero_plan [OF p child_config [OF assms(1) cfg]] have plan:
    "p = \<lparr>effective_device = ''cuda'', selected_gpu_indices = [0], worker_count = 1, worker_gpu_indices = [0]\<rparr>" by blast
  have zero: "show_int 0 = ''0''" by code_simp
  from b plan have "pb_device b = ''cuda:'' @ show_int 0" "pb_plan b = p" "pb_resolved b = r" "pb_state b = Created"
    "pb_optimize b = opt"
    by (auto simp: mk_pytorch_backend_def resolve_upstream_device_def)
  moreover from opt plan have "\<not> opt" by (simp add: resolve_upstream_optimize_def)
  moreover note resolve_model_facts [OF r] child_environment_gpu(1) [OF assms(1), of "su_environ su"]
  ultimately show ?thesis using plan zero by (auto split: source_kind.splits)
qed

text \<open>C24. The session of a worker on the real backend: once the model is loaded it announces itself, answers every
  request it is sent, in order, by chunks and exactly one terminal message that all carry the id of that
  request - whatever the packages answer - acknowledges the shutdown, and exits with its backend closed and the
  model released.\<close>

theorem real_worker_answers_every_request:
  assumes "upstream_fine (su_upstream su)" and "files_fine (su_files su)"
    and "create_real_backend spec su = Inr b" and "load_model b = Inr m" and "list_all worker_request_ok qs"
  shows "\<exists>info replies b2. real_process spec su (map Cmd_Request qs @ Cmd_Shutdown # later) fresh_io =
      (Some b2, \<lparr>io_out = plain_message Ready_Kind (bs_worker_id spec) None (ready_metadata info) #
                  concat replies @ [plain_message Shutdown_Ack_Kind (bs_worker_id spec) None []],
               io_puts = []\<rparr>) \<and>
    list_all2 (answers (bs_worker_id spec)) qs replies \<and> pb_state b2 = Closed \<and> pb_model b2 = None"
proof -
  from assms(3) obtain cfg p r opt where
    r: "resolve_model (su_files su) (su_loads su) (su_sha su) cfg (Items [] None) None = Inr r"
    and b: "new_pytorch (su_upstream su) (su_files su) r p (load_denoiser cfg) (offline cfg) opt = Inr b"
    by (auto simp: create_real_backend_def new_pytorch_def raises)
  from resolve_model_facts [OF r] have "strip (rm_model_id r) \<noteq> []"
    by (simp add: holds_model_def model_id_const_def literal_text)
  from new_pytorch_fit [OF assms(1,2) this b] have fit: "pytorch_fit b" and st: "pb_state b = Created" by blast+
  obtain l b1 where ld: "op_load pytorch_ops b = (l, b1)" by fastforce
  with st assms(4) have l: "l = pytorch_info b1" and b1: "b1 = b\<lparr>pb_model := Some m, pb_state := Loaded\<rparr>"
    by (auto simp: pytorch_ops_def pytorch_load_def Let_def)
  from fit pytorch_info_loaded [of b1] obtain info where "l = Inr info"
    unfolding l by (auto simp: b1 pytorch_fit_def)
  with ld have ready: "op_load pytorch_ops b = (Inr info, b1)" by simp
  have closes: "fst (op_close pytorch_ops c) = Inr ()" for c :: "'a pytorch_backend"
    by (simp add: pytorch_ops_def pytorch_close_def)
  from pytorch.session_answers [OF fit ready assms(5) closes, of "bs_worker_id spec" later] obtain replies b2 where
    out: "worker_process_main pytorch_ops (Inr b) (bs_worker_id spec) (map Cmd_Request qs @ Cmd_Shutdown # later) fresh_io =
      (Some b2, \<lparr>io_out = plain_message Ready_Kind (bs_worker_id spec) None (ready_metadata info) #
                  concat replies @ [plain_message Shutdown_Ack_Kind (bs_worker_id spec) None []], io_puts = []\<rparr>)"
    and rest: "list_all2 (answers (bs_worker_id spec)) qs replies" "pb_state b2 = Closed" "pytorch_fit b2" by blast
  from rest(2,3) have "pb_model b2 = None" by (auto simp: pytorch_fit_def)
  with out rest assms(3) show ?thesis by (auto simp: real_process_def)
qed

section \<open>Witnesses\<close>

definition gpu_spec :: bootstrap_spec where
  "gpu_spec = \<lparr>bs_worker_id = ''w'', bs_backend_kind = Real_Kind, bs_gpu = Some 3, bs_failures = []\<rparr>"

definition one_gpu :: torch_module where
  "one_gpu = \<lparr>tm_version = Inr None, tm_cuda_version = Inr None, tm_cuda = Inr (True, 1),
     tm_name = (\<lambda>i. Inr (PStr ''G'')), tm_memory = (\<lambda>i. Inr None)\<rparr>"

definition bare_host :: host where
  "bare_host = \<lparr>ho_cpu_count = None, ho_cpuinfo = None, ho_meminfo = None, ho_sysconf = None, ho_driver = None,
     ho_package_version = None, ho_visible_devices_set = True, ho_platform = ''linux''\<rparr>"

definition parent_environ :: "(string, string) dict" where
  "parent_environ = [(''VOXCPM_PROFILE'', ''cpu''), (''VOXCPM_DEVICE'', ''cpu''), (''VOXCPM_MODEL_PATH'', ''/m'')]"

definition sample_surroundings :: "unit surroundings" where
  "sample_surroundings =
     \<lparr>su_environ = parent_environ, su_host = bare_host, su_torch = Inr one_gpu, su_files = sample_fs,
      su_loads = sample_loads, su_sha = sample_digest, su_upstream = sample_upstream\<rparr>"

lemma sample_child_config:
  "case from_mapping (environ_mapping (child_environment gpu_spec parent_environ)) of Inl _ \<Rightarrow> False
   | Inr cfg \<Rightarrow> model_path cfg = Some ''/m''"
  by code_simp

lemma sample_child_inventory:
  "case detect_hardware bare_host (Inr one_gpu) of Inl _ \<Rightarrow> False
   | Inr i \<Rightarrow> visible_gpu_indices i = [0] \<and> usable_cuda i"
  by code_simp

lemma sample_real_backend:
  "\<exists>b. create_real_backend gpu_spec sample_surroundings = Inr b \<and> load_model b = Inr ()"
proof -
  from sample_child_config obtain cfg where
    cfg: "from_mapping (environ_mapping (child_environment gpu_spec parent_environ)) = Inr cfg"
    "model_path cfg = Some ''/m''" by (auto split: sum.splits)
  from sample_child_inventory obtain i where
    i: "detect_hardware bare_host (Inr one_gpu) = Inr i" "visible_gpu_indices i = [0]" "usable_cuda i"
    by (auto split: sum.splits)
  have "device cfg = Dev_Cuda \<and> profile cfg = None \<and> gpu_devices cfg = Some [0] \<and> workers cfg = Some 1"
    using child_config [OF _ cfg(1)] by (simp add: gpu_spec_def)
  moreover have "parse_gpu_devices (raw_gpus (Some [0])) = Inr (Some [0])" "parse_workers (raw_workers (Some 1)) = Inr (Some 1)"
    by code_simp+
  ultimately have plan: "resolve_execution_plan cfg i =
      Inr \<lparr>effective_device = ''cuda'', selected_gpu_indices = [0], worker_count = 1, worker_gpu_indices = [0]\<rparr>"
    using i by (simp add: resolve_execution_plan_def materialize_execution_profile_def resolve_values_def
        resolve_normalized_def validate_gpu_selection_def cuda_plan_def mk_plan_def check_plan_def)
  from sample_resolves [OF refl, of Explicit_Path None] obtain r where
    "resolve_model sample_fs sample_loads sample_digest cfg (Items [] None) None = Inr r"
    using cfg(2) by (auto simp: resolve_model_def)
  with cfg i plan show ?thesis
    by (simp add: create_real_backend_def sample_surroundings_def manager_resolve_def resolve_upstream_optimize_def
        mk_pytorch_backend_def resolve_upstream_device_def load_model_def import_upstream_def)
      (simp add: sample_upstream_def)
qed

theorem child_uses_its_gpu_witness:
  "\<exists>b. create_real_backend gpu_spec sample_surroundings = Inr b \<and> pb_device b = ''cuda:0'' \<and>
     dict_get (child_environment gpu_spec parent_environ) ''CUDA_VISIBLE_DEVICES'' = Some ''3''"
proof -
  from sample_real_backend obtain b where b: "create_real_backend gpu_spec sample_surroundings = Inr b" by blast
  have "bs_gpu gpu_spec = Some 3" by (simp add: gpu_spec_def)
  from child_uses_its_gpu [OF this b] have "pb_device b = ''cuda:0''"
    "dict_get (child_environment gpu_spec parent_environ) ''CUDA_VISIBLE_DEVICES'' = Some (show_int 3)"
    by (simp_all add: sample_surroundings_def)
  moreover have "show_int 3 = ''3''" by code_simp
  ultimately show ?thesis using b by simp
qed

theorem real_worker_answers_every_request_witness:
  "\<exists>m ms. io_out (snd (real_process gpu_spec sample_surroundings [Cmd_Request sample_stream_request, Cmd_Shutdown] fresh_io))
     = m # ms \<and> wm_kind m = Ready_Kind \<and> wm_kind (last ms) = Shutdown_Ack_Kind"
proof -
  from sample_real_backend obtain b where b: "create_real_backend gpu_spec sample_surroundings = Inr b"
    "load_model b = Inr ()" by blast
  have su: "upstream_fine (su_upstream sample_surroundings)" "files_fine (su_files sample_surroundings)"
    by (simp_all add: sample_surroundings_def sample_upstream_fine sample_files_fine)
  have "list_all worker_request_ok [sample_stream_request]"
    by (simp add: worker_request_ok_def sample_stream_request_def token_ok_def)
  from real_worker_answers_every_request [OF su b this, of "[]"] show ?thesis
    by (auto simp: plain_message_def)
qed

end
