(* ===== verification/Redaction.thy ===== *)
theory Redaction
  imports Device_Probe
begin

text \<open>
  The redaction of \<open>voxcpm_runtime/runtime_metrics.py\<close>, which every report goes through before it is
  shown. A pattern is modelled by the length of its match at a position, given the character before the
  position (for \<open>\\b\<close> and the lookbehind) and the rest of the text. None of the five patterns matches the
  empty string and none has two ways to match at one position, so the longest run each loop can take is
  what the backtracking matcher finds. \<open>re_sub\<close> is \<open>pattern.sub\<close>: matches from left to right, without
  overlap. The lemmas show that no later substitution restores what an earlier one removed.
\<close>

section \<open>Patterns\<close>

type_synonym pattern = "char option \<Rightarrow> string \<Rightarrow> nat option"

function re_sub :: "pattern \<Rightarrow> string \<Rightarrow> char option \<Rightarrow> string \<Rightarrow> string" where
  "re_sub m repl p [] = []"
| "re_sub m repl p (c # s) =
     (case m p (c # s) of
        None \<Rightarrow> c # re_sub m repl (Some c) s
      | Some n \<Rightarrow> repl @ re_sub m repl (Some (last (c # take (n - 1) s))) (drop (n - 1) s))"
  by pat_completeness auto
termination
  by (relation "measure (\<lambda>(m, repl, p, s). length s)") auto

definition is_word :: "char \<Rightarrow> bool" where
  "is_word c \<longleftrightarrow> is_alnum c \<or> c = CHR ''_''"

text \<open>\<open>\\b\<close> before a letter.\<close>

definition at_boundary :: "char option \<Rightarrow> bool" where
  "at_boundary p \<longleftrightarrow> (case p of None \<Rightarrow> True | Some c \<Rightarrow> \<not> is_word c)"

definition redacted_url :: string where
  "redacted_url = ''<redacted-url>''"

definition redacted_path :: string where
  "redacted_path = ''<redacted-path>''"

definition redacted_token :: string where
  "redacted_token = ''<redacted-token>''"

text \<open>\<open>\\bBearer\\s+[^\\s,;]+\<close>, ignoring case.\<close>

definition credential_char :: "char \<Rightarrow> bool" where
  "credential_char c \<longleftrightarrow> \<not> is_space c \<and> c \<noteq> CHR '','' \<and> c \<noteq> CHR '';''"

definition bearer_pattern :: pattern where
  "bearer_pattern p s =
     (let gap = takeWhile is_space (drop 6 s);
          secret = takeWhile credential_char (dropWhile is_space (drop 6 s)) in
      if at_boundary p \<and> lower (take 6 s) = ''bearer'' \<and> gap \<noteq> [] \<and> secret \<noteq> []
      then Some (6 + length gap + length secret) else None)"

text \<open>The shapes of access tokens.\<close>

definition token_prefixes :: "string list" where
  "token_prefixes =
     [''hf_'', ''huggingface_'', ''ghp_'', ''gho_'', ''ghu_'', ''ghs_'', ''github_pat_'', ''glpat-'',
      ''xoxa-'', ''xoxb-'', ''xoxp-'', ''xoxr-'', ''xoxs-'', ''sk-'']"

definition token_char :: "char \<Rightarrow> bool" where
  "token_char c \<longleftrightarrow> is_alpha_ascii c \<or> is_dec c \<or> c = CHR ''_'' \<or> c = CHR ''-''"

definition token_run :: "string \<Rightarrow> string \<Rightarrow> string" where
  "token_run s w = takeWhile token_char (drop (length w) s)"

definition token_pattern :: pattern where
  "token_pattern p s =
     (if \<not> at_boundary p then None
      else map_option (\<lambda>w. length w + length (token_run s w))
             (find (\<lambda>w. startswith s w \<and> 6 \<le> length (token_run s w)) token_prefixes))"

text \<open>\<open>[A-Za-z][A-Za-z0-9+.-]*://\\S+\<close>.\<close>

definition scheme_char :: "char \<Rightarrow> bool" where
  "scheme_char c \<longleftrightarrow> is_alpha_ascii c \<or> is_dec c \<or> c \<in> {CHR ''+'', CHR ''.'', CHR ''-''}"

definition url_pattern :: pattern where
  "url_pattern p s =
     (case s of
        [] \<Rightarrow> None
      | c # r \<Rightarrow>
         (let scheme = takeWhile scheme_char r; after = dropWhile scheme_char r;
              loc = takeWhile (\<lambda>d. \<not> is_space d) (drop 3 after) in
          if is_alpha_ascii c \<and> startswith after ''://'' \<and> loc \<noteq> []
          then Some (1 + length scheme + 3 + length loc) else None))"

text \<open>\<open>~(?:(?=/)|(?=$))\<close>; \<open>$\<close> is the end of the text or a newline that ends it.\<close>

definition home_pattern :: pattern where
  "home_pattern p s =
     (case s of
        [] \<Rightarrow> None
      | c # r \<Rightarrow>
          if c = CHR ''~'' \<and> (startswith r ''/'' \<or> r = [] \<or> r = [CHR 0x0A]) then Some 1 else None)"

text \<open>\<open>(?<![\\w.~])/(?:[^\\s/'"]+/)*[^\\s/'"]*\<close>: after the slash, segments that end in a slash, then what
  may follow; the first argument says whether the segment being read has a character.\<close>

definition segment_char :: "char \<Rightarrow> bool" where
  "segment_char c \<longleftrightarrow> \<not> is_space c \<and> ordc c \<notin> {47, 39, 34}"

fun segments_length :: "bool \<Rightarrow> string \<Rightarrow> nat" where
  "segments_length started [] = 0"
| "segments_length started (c # s) =
     (if c = CHR ''/'' then (if started then Suc (segments_length False s) else 0)
      else if segment_char c then Suc (segments_length True s) else 0)"

definition path_may_start :: "char option \<Rightarrow> bool" where
  "path_may_start p \<longleftrightarrow>
     (case p of None \<Rightarrow> True | Some c \<Rightarrow> \<not> is_word c \<and> c \<noteq> CHR ''.'' \<and> c \<noteq> CHR ''~'')"

definition path_pattern :: pattern where
  "path_pattern p s =
     (case s of
        [] \<Rightarrow> None
      | c # r \<Rightarrow> if path_may_start p \<and> c = CHR ''/'' then Some (1 + segments_length False r) else None)"

section \<open>redact\_text and redact\_value\<close>

definition redact_text :: "string \<Rightarrow> string" where
  "redact_text s =
     (let r1 = re_sub bearer_pattern (''Bearer '' @ redacted_token) None s;
          r2 = re_sub token_pattern redacted_token None r1;
          r3 = re_sub url_pattern redacted_url None r2;
          r4 = re_sub home_pattern redacted_path None r3 in
      re_sub path_pattern redacted_path None r4)"

text \<open>The comprehensions over the items of a dict (with the dict built so far) and the members of a
  sequence. \<open>to_text\<close> is \<open>str\<close> on a key.\<close>

fun redact_value :: "(pyval \<Rightarrow> string) \<Rightarrow> pyval \<Rightarrow> pyval"
  and redact_items :: "(pyval \<Rightarrow> string) \<Rightarrow> (pyval \<times> pyval) list \<Rightarrow> (pyval, pyval) dict \<Rightarrow> (pyval, pyval) dict"
  and redact_members :: "(pyval \<Rightarrow> string) \<Rightarrow> pyval list \<Rightarrow> pyval list"
where
  "redact_value to_text (PStr s) = PStr (redact_text s)"
| "redact_value to_text (PDict items) = PDict (redact_items to_text items [])"
| "redact_value to_text (PList xs) = PList (redact_members to_text xs)"
| "redact_value to_text (PTuple xs) = PList (redact_members to_text xs)"
| "redact_value to_text v = v"
| "redact_items to_text [] d = d"
| "redact_items to_text ((key, item) # items) d =
     redact_items to_text items (dict_set (PStr (to_text key)) (redact_value to_text item) d)"
| "redact_members to_text [] = []"
| "redact_members to_text (x # xs) = redact_value to_text x # redact_members to_text xs"

section \<open>Texts without matches\<close>

text \<open>\<open>L p v\<close> says that something that must not be shown starts at a position; \<open>leak_free\<close>: at none.\<close>

type_synonym leak = "char option \<Rightarrow> string \<Rightarrow> bool"

fun leak_free :: "leak \<Rightarrow> char option \<Rightarrow> string \<Rightarrow> bool" where
  "leak_free L p [] = True"
| "leak_free L p (c # s) = (\<not> L p (c # s) \<and> leak_free L (Some c) s)"

definition pattern_at :: "pattern \<Rightarrow> leak" where
  "pattern_at m p s \<longleftrightarrow> m p s \<noteq> None"

text \<open>A credential after \<open>Bearer\<close> that is not the placeholder.\<close>

definition bearer_leak :: leak where
  "bearer_leak p s \<longleftrightarrow>
     (let rest = dropWhile is_space (drop 6 s) in
      at_boundary p \<and> lower (take 6 s) = ''bearer'' \<and> takeWhile is_space (drop 6 s) \<noteq> [] \<and>
      (case rest of [] \<Rightarrow> False | c # _ \<Rightarrow> credential_char c) \<and> \<not> startswith rest redacted_token)"

lemma leak_free_append: "leak_free L p (u @ v) \<Longrightarrow> leak_free L (if u = [] then p else Some (last u)) v"
proof (induction u arbitrary: p)
  case Nil
  then show ?case by simp
next
  case (Cons c u)
  then have "leak_free L (Some c) (u @ v)" by simp
  from Cons.IH [OF this] show ?case by (simp split: if_splits)
qed

lemma leak_free_at: "leak_free L p (u @ c # d # v) \<Longrightarrow> \<not> L (Some c) (d # v)"
  using leak_free_append [of L p "u @ [c]" "d # v"] by simp

lemma ordc_lower_char: "ordc (lower_char c) = ordc c \<or> 65 \<le> ordc c \<and> ordc c \<le> 90 \<or> 224 \<le> ordc (lower_char c)"
  by (auto simp: lower_char_def Let_def of_char_of take_bit_eq_mod)

lemma lower_char_alpha: "lower_char c = CHR ''b'' \<Longrightarrow> is_alpha_ascii c"
  using ordc_lower_char [of c] by (auto simp: is_alpha_ascii_def)

text \<open>Where the replacement starts with \<open>b\<close>, what the output has before a \<open>b\<close> was in the input.\<close>

lemma sub_prefix:
  assumes "re_sub m (b # repl) p s = w @ u" and "b \<notin> set w"
  shows "\<exists>s'. s = w @ s' \<and> u = re_sub m (b # repl) (if w = [] then p else Some (last w)) s'"
  using assms
proof (induction w arbitrary: p s)
  case Nil
  then show ?case by simp
next
  case (Cons c w)
  then obtain d r where s: "s = d # r" by (cases s) auto
  with Cons.prems have k: "m p s = None" by (auto split: option.splits)
  with Cons.prems s have d: "d = c" "re_sub m (b # repl) (Some c) r = w @ u" by auto
  with Cons.IH [OF d(2)] Cons.prems(2) s show ?case by (auto split: if_splits)
qed

text \<open>A text no position of which is matched is kept.\<close>

fun unmatched :: "pattern \<Rightarrow> string \<Rightarrow> string \<Rightarrow> bool" where
  "unmatched m [] z = True"
| "unmatched m (c # w) z = ((\<forall>q. m q (c # w @ z) = None) \<and> unmatched m w z)"

lemma sub_kept:
  "unmatched m w z \<Longrightarrow> re_sub m repl p (w @ z) = w @ re_sub m repl (if w = [] then p else Some (last w)) z"
  by (induction w arbitrary: p) auto

text \<open>What a substitution keeps free of leaks, or frees: \<open>look\<close>: a leak at a kept position was there before;
  \<open>repl_free\<close>: none starts in the replacement; \<open>behind\<close>: none comes up right behind it because the
  character before it changed; \<open>kept\<close>: there was none at the positions that are kept.\<close>

lemma sub_leak_free:
  assumes look: "\<And>p c s. L p (c # re_sub m repl (Some c) s) \<Longrightarrow> L p (c # s)"
    and repl_free: "\<And>q u. leak_free L (Some CHR ''>'') u \<Longrightarrow> leak_free L q (repl @ u)"
    and behind: "\<And>p c s n. m p (c # s) = Some n \<Longrightarrow> L (Some CHR ''>'') (drop (n - 1) s) \<Longrightarrow>
      L (Some (last (c # take (n - 1) s))) (drop (n - 1) s)"
    and kept: "leak_free L p s \<or> (\<forall>p v. L p v \<longrightarrow> m p v \<noteq> None)"
    and prev: "p' = p \<or> p' = Some CHR ''>'' \<and> (L p' s \<longrightarrow> L p s)"
  shows "leak_free L p' (re_sub m repl p s)"
  using kept prev
proof (induction s arbitrary: p p' rule: length_induct)
  case (1 s)
  show ?case
  proof (cases s)
    case Nil
    then show ?thesis by simp
  next
    case (Cons c r)
    show ?thesis
    proof (cases "m p s")
      case None
      have "L p' s" if "L p' (c # re_sub m repl (Some c) r)" using look [OF that] Cons by simp
      with "1.prems"(2) have "L p s" if "L p' (c # re_sub m repl (Some c) r)" using that by blast
      moreover have "\<not> L p s"
        using "1.prems"(1)
      proof
        assume "leak_free L p s"
        with Cons show ?thesis by simp
      next
        assume "\<forall>p v. L p v \<longrightarrow> m p v \<noteq> None"
        with None show ?thesis by blast
      qed
      moreover have "leak_free L (Some c) r \<or> (\<forall>p v. L p v \<longrightarrow> m p v \<noteq> None)"
        using "1.prems"(1) Cons by auto
      then have "leak_free L (Some c) (re_sub m repl (Some c) r)"
        using "1.IH" [rule_format, of r "Some c" "Some c"] Cons by (metis length_Cons lessI)
      ultimately show ?thesis using None Cons by auto
    next
      case (Some n)
      let ?q = "Some (last (c # take (n - 1) r))" and ?r = "drop (n - 1) r"
      have split: "s = (c # take (n - 1) r) @ ?r" using Cons by simp
      have "leak_free L ?q ?r" if "leak_free L p s"
        using that leak_free_append [of L p "c # take (n - 1) r" ?r] split by simp
      with "1.prems"(1) have "leak_free L ?q ?r \<or> (\<forall>p v. L p v \<longrightarrow> m p v \<noteq> None)" by blast
      moreover have "L (Some CHR ''>'') ?r \<longrightarrow> L ?q ?r" using behind Some Cons by blast
      ultimately have "leak_free L (Some CHR ''>'') (re_sub m repl ?q ?r)"
        using "1.IH" [rule_format, of ?r ?q "Some CHR ''>''"] Cons by auto
      from repl_free [OF this] Some Cons show ?thesis by simp
    qed
  qed
qed

lemma sub_leak_free_here:
  assumes "\<And>p c s. L p (c # re_sub m repl (Some c) s) \<Longrightarrow> L p (c # s)"
    and "\<And>q u. leak_free L (Some CHR ''>'') u \<Longrightarrow> leak_free L q (repl @ u)"
    and "\<And>p c s n. m p (c # s) = Some n \<Longrightarrow> L (Some CHR ''>'') (drop (n - 1) s) \<Longrightarrow>
      L (Some (last (c # take (n - 1) s))) (drop (n - 1) s)"
    and "leak_free L p s \<or> (\<forall>p v. L p v \<longrightarrow> m p v \<noteq> None)"
  shows "leak_free L p (re_sub m repl p s)"
  using assms by (rule sub_leak_free) blast+

lemma find_SomeD: "find P xs = Some x \<Longrightarrow> x \<in> set xs \<and> P x"
  by (induction xs) (auto split: if_splits)

section \<open>Stages\<close>

text \<open>What the five substitutions have in common; the replacement is \<open>b # repl\<close>.\<close>

locale redaction_stage =
  fixes m :: pattern and b :: char and repl :: string
  assumes starts: "m p (c # s) = Some n \<Longrightarrow> credential_char c \<and> c \<noteq> CHR ''<''"
    and ends: "m p (c # s) = Some n \<Longrightarrow> drop (n - 1) s = d # r \<Longrightarrow> \<not> is_alpha_ascii d"
    and placeholder: "unmatched m redacted_token z"
    and lead: "credential_char b" "lower_char b \<notin> set ''ear''"
    and repl_bearer: "leak_free bearer_leak (Some CHR ''>'') u \<Longrightarrow> leak_free bearer_leak q ((b # repl) @ u)"
begin

lemma placeholder_stays: "re_sub m (b # repl) p (redacted_token @ z) = redacted_token @ re_sub m (b # repl) (Some CHR ''>'') z"
  using sub_kept [OF placeholder, of "b # repl" p z] by (simp add: redacted_token_def)

text \<open>The next character of the output comes from one of the input, which is a credential character if it is.\<close>

lemma next_credential:
  assumes "re_sub m (b # repl) p s = d # u" and "credential_char d"
  shows "\<exists>c r. s = c # r \<and> credential_char c"
proof (cases s)
  case Nil
  with assms(1) show ?thesis by simp
next
  case (Cons c r)
  with assms starts show ?thesis by (auto split: option.splits)
qed

lemma bearer_looked:
  assumes "bearer_leak p (c # re_sub m (b # repl) (Some c) s)"
  shows "bearer_leak p (c # s)"
proof -
  let ?out = "re_sub m (b # repl) (Some c) s"
  define gap where "gap = takeWhile is_space (drop 5 ?out)"
  define rest where "rest = dropWhile is_space (drop 5 ?out)"
  have l: "at_boundary p" "lower (c # take 5 ?out) = ''bearer''" "gap \<noteq> []"
      "case rest of [] \<Rightarrow> False | d # _ \<Rightarrow> credential_char d" "\<not> startswith rest redacted_token"
    using assms by (simp_all add: bearer_leak_def gap_def rest_def Let_def)
  define w where "w = take 5 ?out @ gap"
  have out: "?out = w @ rest" by (simp add: w_def gap_def rest_def)
  have low: "map lower_char (take 5 ?out) = ''earer''" using l(2) by (simp add: lower_def)
  have "length (map lower_char (take 5 ?out)) = 5" unfolding low by simp
  then have five: "length (take 5 ?out) = 5" by (simp only: length_map)
  have "b \<notin> set w"
  proof
    assume "b \<in> set w"
    then consider "b \<in> set (take 5 ?out)" | "b \<in> set gap" by (auto simp: w_def)
    then show False
    proof cases
      case 1
      then have "lower_char b \<in> set (map lower_char (take 5 ?out))" by simp
      with low lead(2) show False by simp
    next
      case 2
      then have "is_space b" by (auto simp: gap_def dest: set_takeWhileD)
      with lead(1) show False by (simp add: credential_char_def)
    qed
  qed
  from sub_prefix [OF out this] obtain s' q where s: "s = w @ s'" "rest = re_sub m (b # repl) q s'" by blast
  obtain d u where r: "rest = d # u" "credential_char d" using l(4) by (cases rest) auto
  from next_credential [of q s' d u] s(2) r obtain e t where e: "s' = e # t" "credential_char e" by metis
  have nph: "\<not> startswith s' redacted_token"
  proof
    assume "startswith s' redacted_token"
    then obtain z where "s' = redacted_token @ z" by (auto simp: startswith_append)
    with placeholder_stays [of q z] s(2) l(5) show False by (simp add: startswith_append)
  qed
  have five_in: "take 5 s = take 5 ?out" "drop 5 s = gap @ s'"
    using s(1) unfolding w_def by (metis five append_assoc append_eq_conv_conj)+
  have sp: "is_space x" if "x \<in> set gap" for x using that by (auto simp: gap_def dest: set_takeWhileD)
  have ne: "\<not> is_space e" using e(2) by (simp add: credential_char_def)
  have "takeWhile is_space (drop 5 s) = gap" "dropWhile is_space (drop 5 s) = s'"
    unfolding five_in(2) using sp ne e(1) by (simp_all add: takeWhile_append2 dropWhile_append2)
  moreover have "lower (c # take 5 s) = ''bearer''" using l(2) by (simp only: five_in(1))
  ultimately show ?thesis using l(1,3) e nph by (simp add: bearer_leak_def)
qed

text \<open>So the stage keeps a text free of credentials, and a stage that matches them all makes it so.\<close>

lemma bearer_behind:
  assumes "m p (c # s) = Some n"
  shows "\<not> bearer_leak q (drop (n - 1) s)"
proof (cases "drop (n - 1) s")
  case Nil
  then show ?thesis by (simp add: bearer_leak_def lower_def)
next
  case (Cons d r)
  from ends [OF assms Cons] have "lower_char d \<noteq> CHR ''b''" by (auto dest: lower_char_alpha)
  with Cons show ?thesis by (simp add: bearer_leak_def lower_def)
qed

lemma bearer_free:
  assumes "leak_free bearer_leak p s \<or> (\<forall>p v. bearer_leak p v \<longrightarrow> m p v \<noteq> None)"
  shows "leak_free bearer_leak p (re_sub m (b # repl) p s)"
  by (rule sub_leak_free_here [OF bearer_looked repl_bearer _ assms]) (use bearer_behind in \<open>blast+\<close>)

end

section \<open>Tokens and home paths after a placeholder was put in\<close>

lemma token_match_iff:
  "pattern_at token_pattern p v \<longleftrightarrow>
   at_boundary p \<and> (\<exists>w \<in> set token_prefixes. \<exists>t r. v = w @ t @ r \<and> length t = 6 \<and> list_all token_char t)"
  (is "?l \<longleftrightarrow> ?r")
proof
  assume ?l
  then obtain w where w: "at_boundary p" "w \<in> set token_prefixes" "startswith v w" "6 \<le> length (token_run v w)"
    by (auto simp: pattern_at_def token_pattern_def split: if_splits dest!: find_SomeD)
  then obtain r where v: "v = w @ r" by (auto simp: startswith_append)
  let ?t = "take 6 (takeWhile token_char r)"
  have six: "6 \<le> length (takeWhile token_char r)" using w(4) by (simp add: token_run_def v)
  have "r = takeWhile token_char r @ dropWhile token_char r" by (simp only: takeWhile_dropWhile_id)
  also have "\<dots> = ?t @ drop 6 (takeWhile token_char r) @ dropWhile token_char r"
    by (metis append_assoc append_take_drop_id)
  finally have "v = w @ ?t @ (drop 6 (takeWhile token_char r) @ dropWhile token_char r)" by (simp add: v)
  moreover have "length ?t = 6" using six by simp
  moreover have "list_all token_char ?t" by (auto simp: list_all_iff dest!: in_set_takeD set_takeWhileD)
  ultimately show ?r using w(1,2) by blast
next
  assume ?r
  then obtain w t r where w: "at_boundary p" "w \<in> set token_prefixes" "v = w @ t @ r" "length t = 6" "list_all token_char t"
    by blast
  have "takeWhile token_char (t @ r) = t @ takeWhile token_char r"
    using w(5) by (simp add: list_all_iff takeWhile_append2)
  then have "6 \<le> length (token_run v w)" using w(3,4) by (simp add: token_run_def)
  moreover have "startswith v w" using w(3) by (auto simp: startswith_append)
  ultimately show ?l using w(1,2) by (auto simp: pattern_at_def token_pattern_def find_None_iff)
qed

lemma token_prefix_chars: "w \<in> set token_prefixes \<Longrightarrow> list_all token_char w \<and> w \<noteq> [] \<and> is_alpha_ascii (hd w)"
  by (auto simp: token_prefixes_def token_char_def is_alpha_ascii_def)

lemma home_free_append:
  "CHR ''~'' \<notin> set w \<Longrightarrow> (\<And>q. leak_free (pattern_at home_pattern) q u) \<Longrightarrow> leak_free (pattern_at home_pattern) q (w @ u)"
  by (induction w arbitrary: q) (auto simp: pattern_at_def home_pattern_def)

lemma home_free_anywhere: "leak_free (pattern_at home_pattern) p v \<Longrightarrow> leak_free (pattern_at home_pattern) q v"
  by (cases v) (simp_all add: pattern_at_def home_pattern_def)

locale placeholder_stage = redaction_stage m "CHR ''<''" repl for m :: pattern and repl :: string +
  assumes repl_token: "leak_free (pattern_at token_pattern) (Some CHR ''>'') u \<Longrightarrow>
      leak_free (pattern_at token_pattern) q ((CHR ''<'' # repl) @ u)"
    and repl_home: "CHR ''~'' \<notin> set repl"
begin

lemma token_looked:
  assumes "pattern_at token_pattern p (c # re_sub m (CHR ''<'' # repl) (Some c) s)"
  shows "pattern_at token_pattern p (c # s)"
proof -
  from assms obtain w t r where w: "at_boundary p" "w \<in> set token_prefixes"
      "c # re_sub m (CHR ''<'' # repl) (Some c) s = w @ t @ r" "length t = 6" "list_all token_char t"
    by (auto simp: token_match_iff)
  then obtain x where x: "w = c # x" using token_prefix_chars [OF w(2)] by (cases w) auto
  have "list_all token_char (x @ t)" using w(5) token_prefix_chars [OF w(2)] x by simp
  moreover have "\<not> token_char (CHR ''<'')" by (simp add: token_char_def is_alpha_ascii_def is_dec_def)
  ultimately have "CHR ''<'' \<notin> set (x @ t)" by (auto simp: list_all_iff)
  moreover have "re_sub m (CHR ''<'' # repl) (Some c) s = (x @ t) @ r" using w(3) x by simp
  ultimately obtain s' where "s = (x @ t) @ s'" using sub_prefix by blast
  then have "c # s = w @ t @ s'" using x by simp
  with w show ?thesis unfolding token_match_iff by blast
qed

lemma token_free:
  assumes "leak_free (pattern_at token_pattern) p s \<or> (\<forall>p v. pattern_at token_pattern p v \<longrightarrow> m p v \<noteq> None)"
  shows "leak_free (pattern_at token_pattern) p (re_sub m (CHR ''<'' # repl) p s)"
proof (rule sub_leak_free_here [OF token_looked repl_token _ assms])
  fix p c s n
  assume a: "m p (c # s) = Some n" "pattern_at token_pattern (Some CHR ''>'') (drop (n - 1) s)"
  then obtain w t r where w: "w \<in> set token_prefixes" "drop (n - 1) s = w @ t @ r" by (auto simp: token_match_iff)
  with token_prefix_chars obtain d x where "w = d # x" "is_alpha_ascii d" by (metis list.exhaust list.sel(1))
  with w(2) ends [OF a(1), of d "x @ t @ r"] show "pattern_at token_pattern (Some (last (c # take (n - 1) s))) (drop (n - 1) s)"
    by simp
qed simp

lemma home_looked:
  assumes "pattern_at home_pattern p (c # re_sub m (CHR ''<'' # repl) (Some c) s)"
  shows "pattern_at home_pattern p (c # s)"
proof -
  let ?out = "re_sub m (CHR ''<'' # repl) (Some c) s"
  have c: "c = CHR ''~''" "startswith ?out ''/'' \<or> ?out = [] \<or> ?out = [CHR 0x0A]"
    using assms by (auto simp: pattern_at_def home_pattern_def split: if_splits)
  have nil: "s = []" if "re_sub m (CHR ''<'' # repl) q s = []" for q s
    using that by (cases s) (auto split: option.splits)
  have cons: "\<exists>s'. s = x # s' \<and> u = re_sub m (CHR ''<'' # repl) (Some x) s'" if "?out = x # u" "x \<noteq> CHR ''<''" for x u
    using sub_prefix [of m "CHR ''<''" repl "Some c" s "[x]" u] that by auto
  consider u where "?out = CHR ''/'' # u" | "?out = []" | "?out = [CHR 0x0A]"
    using c(2) by (auto simp: startswith_append)
  then have "startswith s ''/'' \<or> s = [] \<or> s = [CHR 0x0A]"
  proof cases
    case 1
    with cons [OF 1] show ?thesis by auto
  next
    case 2
    with nil show ?thesis by blast
  next
    case 3
    with cons [OF 3] obtain s' where "s = CHR 0x0A # s'" "re_sub m (CHR ''<'' # repl) (Some CHR 0x0A) s' = []" by auto
    with nil show ?thesis by blast
  qed
  with c(1) show ?thesis by (simp add: pattern_at_def home_pattern_def)
qed

lemma home_free:
  assumes "leak_free (pattern_at home_pattern) p s \<or> (\<forall>p v. pattern_at home_pattern p v \<longrightarrow> m p v \<noteq> None)"
  shows "leak_free (pattern_at home_pattern) p (re_sub m (CHR ''<'' # repl) p s)"
proof (rule sub_leak_free_here [OF home_looked _ _ assms])
  show "leak_free (pattern_at home_pattern) q ((CHR ''<'' # repl) @ u)"
    if "leak_free (pattern_at home_pattern) (Some CHR ''>'') u" for q u
    by (rule home_free_append) (use repl_home home_free_anywhere [OF that] in auto)
qed (simp_all add: pattern_at_def home_pattern_def)

end

section \<open>The five stages\<close>

lemma bearer_free_replacement:
  "leak_free bearer_leak (Some CHR ''>'') u \<Longrightarrow> leak_free bearer_leak q (''<redacted-url>'' @ u)"
  "leak_free bearer_leak (Some CHR ''>'') u \<Longrightarrow> leak_free bearer_leak q (''<redacted-path>'' @ u)"
  "leak_free bearer_leak (Some CHR ''>'') u \<Longrightarrow> leak_free bearer_leak q (''<redacted-token>'' @ u)"
  "leak_free bearer_leak (Some CHR ''>'') u \<Longrightarrow> leak_free bearer_leak q (''Bearer <redacted-token>'' @ u)"
  by (simp_all add: bearer_leak_def lower_def lower_char_def is_space_def redacted_token_def Let_def)

lemma lower_char_leads: "lower_char CHR ''B'' = CHR ''b''" "lower_char CHR ''<'' = CHR ''<''"
  by code_simp+

lemma token_starts: "token_pattern p (c # s) = Some n \<Longrightarrow> is_alpha_ascii c"
  by (auto simp: token_pattern_def token_prefixes_def is_alpha_ascii_def split: if_splits)

lemma token_length:
  "token_pattern p s = Some n \<Longrightarrow> \<exists>w \<in> set token_prefixes. startswith s w \<and> n = length w + length (token_run s w)"
  by (auto simp: token_pattern_def split: if_splits dest!: find_SomeD)

lemma drop_takeWhile_length: "drop (length (takeWhile P s)) s = dropWhile P s"
  by (simp add: dropWhile_eq_drop)

lemma dropWhile_head: "dropWhile P s = d # r \<Longrightarrow> \<not> P d"
  by (metis dropWhile_eq_Cons_conv)

lemma token_ends:
  assumes "token_pattern p (c # s) = Some n" and "drop (n - 1) s = d # r"
  shows "\<not> is_alpha_ascii d"
proof -
  from token_length [OF assms(1)] obtain w where
    w: "w \<in> set token_prefixes" "n = length w + length (token_run (c # s) w)" by blast
  from w(1) have "w \<noteq> []" by (auto simp: token_prefixes_def)
  then have "drop (n - 1) s = drop n (c # s)" using w(2) by (cases w) auto
  also have "\<dots> = dropWhile token_char (drop (length w) (c # s))"
    unfolding w(2) token_run_def drop_takeWhile_length [symmetric] by (simp add: add.commute)
  finally have "\<not> token_char d" using assms(2) dropWhile_head by metis
  then show ?thesis by (simp add: token_char_def)
qed

interpretation token_stage: redaction_stage token_pattern "CHR ''<''" "''redacted-token>''"
proof
  show "credential_char c \<and> c \<noteq> CHR ''<''" if "token_pattern p (c # s) = Some n" for p c s n
    using token_starts [OF that] by (auto simp: credential_char_def is_space_def is_alpha_ascii_def)
  show "unmatched token_pattern redacted_token z" for z
    by (simp add: redacted_token_def token_pattern_def token_prefixes_def)
  show "leak_free bearer_leak q ((CHR ''<'' # ''redacted-token>'') @ u)" if "leak_free bearer_leak (Some CHR ''>'') u" for q u
    using that by (rule bearer_free_replacement)
qed (use token_ends in \<open>auto simp: credential_char_def is_space_def lower_char_leads\<close>)

lemma no_token_starts:
  "c \<notin> set ''hgxs'' \<Longrightarrow> \<not> pattern_at token_pattern p (c # s)"
  "\<not> pattern_at token_pattern p (CHR ''h'' # CHR ''>'' # s)"
  by (auto simp: token_match_iff token_prefixes_def)

lemma token_free_replacement:
  "leak_free (pattern_at token_pattern) (Some CHR ''>'') u \<Longrightarrow> leak_free (pattern_at token_pattern) q (''<redacted-url>'' @ u)"
  "leak_free (pattern_at token_pattern) (Some CHR ''>'') u \<Longrightarrow> leak_free (pattern_at token_pattern) q (''<redacted-path>'' @ u)"
  "leak_free (pattern_at token_pattern) (Some CHR ''>'') u \<Longrightarrow> leak_free (pattern_at token_pattern) q (''<redacted-token>'' @ u)"
  by (simp_all add: no_token_starts)

interpretation token_stage: placeholder_stage token_pattern "''redacted-token>''"
proof unfold_locales
  show "leak_free (pattern_at token_pattern) q ((CHR ''<'' # ''redacted-token>'') @ u)"
    if "leak_free (pattern_at token_pattern) (Some CHR ''>'') u" for q u
    using that by (rule token_free_replacement)
qed simp

lemma bearer_cases:
  assumes "bearer_pattern p (c # s) = Some n"
  shows "lower_char c = CHR ''b''" and "drop (n - 1) s = dropWhile credential_char (dropWhile is_space (drop 5 s))"
proof -
  let ?gap = "takeWhile is_space (drop 5 s)" and ?rest = "dropWhile is_space (drop 5 s)"
  from assms have l: "lower (c # take 5 s) = ''bearer''" and n: "n = 6 + length ?gap + length (takeWhile credential_char ?rest)"
    by (auto simp: bearer_pattern_def Let_def split: if_splits)
  show "lower_char c = CHR ''b''" using l by (simp add: lower_def)
  have "n - 1 = length (takeWhile credential_char ?rest) + (length ?gap + 5)" by (simp add: n)
  then have "drop (n - 1) s = drop (length (takeWhile credential_char ?rest)) (drop (length ?gap) (drop 5 s))"
    by (simp only: drop_drop)
  then show "drop (n - 1) s = dropWhile credential_char ?rest" by (simp only: drop_takeWhile_length)
qed

interpretation bearer_stage: redaction_stage bearer_pattern "CHR ''B''" "''earer <redacted-token>''"
proof
  show "credential_char c \<and> c \<noteq> CHR ''<''" if "bearer_pattern p (c # s) = Some n" for p c s n
    using lower_char_alpha [OF bearer_cases(1) [OF that]] by (auto simp: credential_char_def is_space_def is_alpha_ascii_def)
  show "\<not> is_alpha_ascii d" if "bearer_pattern p (c # s) = Some n" "drop (n - 1) s = d # r" for p c s n d r
  proof -
    from that(2) have "\<not> credential_char d" unfolding bearer_cases(2) [OF that(1)] by (rule dropWhile_head)
    then show ?thesis by (auto simp: credential_char_def is_space_def is_alpha_ascii_def)
  qed
  show "unmatched bearer_pattern redacted_token z" for z
    by (simp add: redacted_token_def bearer_pattern_def lower_def lower_char_def)
  show "leak_free bearer_leak q ((CHR ''B'' # ''earer <redacted-token>'') @ u)"
    if "leak_free bearer_leak (Some CHR ''>'') u" for q u
    using that by (rule bearer_free_replacement)
qed (auto simp: credential_char_def is_space_def lower_char_leads)

lemma url_cases:
  assumes "url_pattern p (c # s) = Some n"
  shows "is_alpha_ascii c" and "drop (n - 1) s = dropWhile (\<lambda>d. \<not> is_space d) (drop 3 (dropWhile scheme_char s))"
proof -
  let ?loc = "takeWhile (\<lambda>d. \<not> is_space d) (drop 3 (dropWhile scheme_char s))"
  from assms show "is_alpha_ascii c" by (simp add: url_pattern_def Let_def split: if_splits)
  from assms have n: "n = 1 + length (takeWhile scheme_char s) + 3 + length ?loc"
    by (auto simp: url_pattern_def Let_def split: if_splits)
  have "n - 1 = length ?loc + (3 + length (takeWhile scheme_char s))" by (simp add: n)
  then have "drop (n - 1) s = drop (length ?loc) (drop 3 (drop (length (takeWhile scheme_char s)) s))"
    by (simp only: drop_drop)
  then show "drop (n - 1) s = dropWhile (\<lambda>d. \<not> is_space d) (drop 3 (dropWhile scheme_char s))"
    by (simp only: drop_takeWhile_length)
qed

interpretation url_stage: placeholder_stage url_pattern "''redacted-url>''"
proof
  show "credential_char c \<and> c \<noteq> CHR ''<''" if "url_pattern p (c # s) = Some n" for p c s n
    using url_cases(1) [OF that] by (auto simp: credential_char_def is_space_def is_alpha_ascii_def)
  show "\<not> is_alpha_ascii d" if "url_pattern p (c # s) = Some n" "drop (n - 1) s = d # r" for p c s n d r
  proof -
    from that(2) have "is_space d" unfolding url_cases(2) [OF that(1)] using dropWhile_head by fastforce
    then show ?thesis by (auto simp: is_space_def is_alpha_ascii_def)
  qed
  show "unmatched url_pattern redacted_token z" for z
    by (simp add: redacted_token_def url_pattern_def scheme_char_def is_alpha_ascii_def is_dec_def)
  show "leak_free bearer_leak q ((CHR ''<'' # ''redacted-url>'') @ u)" if "leak_free bearer_leak (Some CHR ''>'') u" for q u
    using that by (rule bearer_free_replacement)
  show "leak_free (pattern_at token_pattern) q ((CHR ''<'' # ''redacted-url>'') @ u)"
    if "leak_free (pattern_at token_pattern) (Some CHR ''>'') u" for q u
    using that by (rule token_free_replacement)
qed (auto simp: credential_char_def is_space_def lower_char_leads)

interpretation home_stage: placeholder_stage home_pattern "''redacted-path>''"
proof
  show "\<not> is_alpha_ascii d" if "home_pattern p (c # s) = Some n" "drop (n - 1) s = d # r" for p c s n d r
    using that by (auto simp: home_pattern_def is_alpha_ascii_def split: if_splits)
  show "unmatched home_pattern redacted_token z" for z by (simp add: redacted_token_def home_pattern_def)
  show "leak_free bearer_leak q ((CHR ''<'' # ''redacted-path>'') @ u)" if "leak_free bearer_leak (Some CHR ''>'') u" for q u
    using that by (rule bearer_free_replacement)
  show "leak_free (pattern_at token_pattern) q ((CHR ''<'' # ''redacted-path>'') @ u)"
    if "leak_free (pattern_at token_pattern) (Some CHR ''>'') u" for q u
    using that by (rule token_free_replacement)
qed (auto simp: credential_char_def is_space_def lower_char_leads home_pattern_def split: if_splits)

lemma segments_end: "drop (segments_length st r) r = d # u \<Longrightarrow> \<not> segment_char d"
  by (induction st r rule: segments_length.induct) (auto simp: segment_char_def split: if_splits)

lemma path_cases: "path_pattern p (c # s) = Some n \<Longrightarrow> c = CHR ''/'' \<and> n - 1 = segments_length False s \<and> path_may_start p"
  by (auto simp: path_pattern_def split: if_splits)

interpretation path_stage: placeholder_stage path_pattern "''redacted-path>''"
proof
  show "\<not> is_alpha_ascii d" if "path_pattern p (c # s) = Some n" "drop (n - 1) s = d # r" for p c s n d r
    using segments_end [of False s d r] path_cases [OF that(1)] that(2)
    by (auto simp: segment_char_def is_space_def is_alpha_ascii_def)
  show "unmatched path_pattern redacted_token z" for z by (simp add: redacted_token_def path_pattern_def)
  show "leak_free bearer_leak q ((CHR ''<'' # ''redacted-path>'') @ u)" if "leak_free bearer_leak (Some CHR ''>'') u" for q u
    using that by (rule bearer_free_replacement)
  show "leak_free (pattern_at token_pattern) q ((CHR ''<'' # ''redacted-path>'') @ u)"
    if "leak_free (pattern_at token_pattern) (Some CHR ''>'') u" for q u
    using that by (rule token_free_replacement)
qed (auto simp: credential_char_def is_space_def lower_char_leads path_pattern_def split: if_splits)

section \<open>What a report shows\<close>

text \<open>After the last stage no path starts anywhere, and so no URL: its slashes follow a colon.\<close>

lemma last_skip: "last (x # c # w) = last (c # w)"
  by simp

lemma segments_slash:
  "drop (segments_length st r) r = CHR ''/'' # u \<Longrightarrow>
   last (x # take (segments_length st r) r) = (if segments_length st r = 0 then x else CHR ''/'') \<and>
   (segments_length st r = 0 \<longrightarrow> \<not> st)"
proof (induction st r arbitrary: x rule: segments_length.induct)
  case (1 st)
  then show ?case by simp
next
  case (2 st c s)
  consider "c = CHR ''/''" "st" | "c = CHR ''/''" "\<not> st" | "c \<noteq> CHR ''/''" "segment_char c"
    | "c \<noteq> CHR ''/''" "\<not> segment_char c" by blast
  then show ?case
  proof cases
    case 1
    with 2 show ?thesis by (simp add: last_skip del: last.simps)
  next
    case 3
    with "2.IH"(2) [OF 3, of c] "2.prems" show ?thesis by (simp add: last_skip del: last.simps split: if_splits)
  qed (use "2.prems" in simp_all)
qed

lemma slash_after: "\<not> is_word c \<Longrightarrow> c \<noteq> CHR ''.'' \<Longrightarrow> c \<noteq> CHR ''~'' \<Longrightarrow> pattern_at path_pattern (Some c) (CHR ''/'' # r)"
  by (simp add: pattern_at_def path_pattern_def path_may_start_def)

lemma no_words: "\<not> is_word (CHR ''/'')" "\<not> is_word (CHR '':'')"
  by (simp_all add: is_word_def is_alnum_def is_alpha_def is_alpha_ascii_def is_dec_def)

lemma path_free: "leak_free (pattern_at path_pattern) p (re_sub path_pattern redacted_path p s)"
proof (rule sub_leak_free_here)
  show "leak_free (pattern_at path_pattern) q (redacted_path @ u)"
    if "leak_free (pattern_at path_pattern) (Some CHR ''>'') u" for q u
    using that by (simp add: redacted_path_def pattern_at_def path_pattern_def)
  fix p c s n
  assume a: "path_pattern p (c # s) = Some n" "pattern_at path_pattern (Some CHR ''>'') (drop (n - 1) s)"
  then obtain u where u: "drop (n - 1) s = CHR ''/'' # u" by (auto simp: pattern_at_def path_pattern_def split: list.splits if_splits)
  have n: "c = CHR ''/''" "n - 1 = segments_length False s" using path_cases [OF a(1)] by simp_all
  from segments_slash [of False s u c] u have "last (c # take (n - 1) s) = CHR ''/''"
    unfolding n by presburger
  then show "pattern_at path_pattern (Some (last (c # take (n - 1) s))) (drop (n - 1) s)"
    unfolding u by (simp add: slash_after no_words)
qed (auto simp: pattern_at_def path_pattern_def split: if_splits)

lemma no_path_no_url: "leak_free (pattern_at path_pattern) p v \<Longrightarrow> leak_free (pattern_at url_pattern) p v"
proof (induction v arbitrary: p)
  case Nil
  then show ?case by simp
next
  case (Cons c v)
  have "\<not> pattern_at url_pattern p (c # v)"
  proof
    assume "pattern_at url_pattern p (c # v)"
    then have "startswith (dropWhile scheme_char v) ''://''"
      by (auto simp: pattern_at_def url_pattern_def Let_def split: if_splits)
    then obtain r where r: "dropWhile scheme_char v = CHR '':'' # CHR ''/'' # CHR ''/'' # r"
      by (auto simp: startswith_append)
    have "c # v = (c # takeWhile scheme_char v) @ CHR '':'' # CHR ''/'' # (CHR ''/'' # r)"
      by (simp add: r [symmetric])
    with Cons.prems have "leak_free (pattern_at path_pattern) p ((c # takeWhile scheme_char v) @ CHR '':'' # CHR ''/'' # (CHR ''/'' # r))"
      by (simp only:)
    from leak_free_at [OF this] slash_after no_words show False by simp
  qed
  with Cons show ?case by simp
qed

definition clean_text :: "string \<Rightarrow> bool" where
  "clean_text t \<longleftrightarrow>
     leak_free bearer_leak None t \<and> leak_free (pattern_at token_pattern) None t \<and>
     leak_free (pattern_at url_pattern) None t \<and> leak_free (pattern_at home_pattern) None t \<and>
     leak_free (pattern_at path_pattern) None t"

lemma bearer_leak_matches: "bearer_leak p v \<Longrightarrow> bearer_pattern p v \<noteq> None"
  by (auto simp: bearer_leak_def bearer_pattern_def Let_def split: list.splits)

lemma sub_unmatched: "leak_free (pattern_at m) p s \<Longrightarrow> re_sub m repl p s = s"
  by (induction s arbitrary: p) (auto simp: pattern_at_def)

lemma redact_text_clean: "clean_text (redact_text s)"
proof -
  define r1 where "r1 = re_sub bearer_pattern (''Bearer '' @ redacted_token) None s"
  define r2 where "r2 = re_sub token_pattern redacted_token None r1"
  define r3 where "r3 = re_sub url_pattern redacted_url None r2"
  define r4 where "r4 = re_sub home_pattern redacted_path None r3"
  have t: "redact_text s = re_sub path_pattern redacted_path None r4"
    by (simp add: redact_text_def Let_def r1_def r2_def r3_def r4_def)
  have "leak_free bearer_leak None r1"
    using bearer_stage.bearer_free [of None s] bearer_leak_matches by (simp add: r1_def redacted_token_def)
  then have "leak_free bearer_leak None r2"
    using token_stage.bearer_free [of None r1] by (simp add: r2_def redacted_token_def)
  then have "leak_free bearer_leak None r3"
    using url_stage.bearer_free [of None r2] by (simp add: r3_def redacted_url_def)
  then have "leak_free bearer_leak None r4"
    using home_stage.bearer_free [of None r3] by (simp add: r4_def redacted_path_def)
  then have b: "leak_free bearer_leak None (redact_text s)"
    using path_stage.bearer_free [of None r4] by (simp add: t redacted_path_def)
  have "leak_free (pattern_at token_pattern) None r2"
    using token_stage.token_free [of None r1] by (simp add: r2_def redacted_token_def pattern_at_def)
  then have "leak_free (pattern_at token_pattern) None r3"
    using url_stage.token_free [of None r2] by (simp add: r3_def redacted_url_def)
  then have "leak_free (pattern_at token_pattern) None r4"
    using home_stage.token_free [of None r3] by (simp add: r4_def redacted_path_def)
  then have k: "leak_free (pattern_at token_pattern) None (redact_text s)"
    using path_stage.token_free [of None r4] by (simp add: t redacted_path_def)
  have "leak_free (pattern_at home_pattern) None r4"
    using home_stage.home_free [of None r3] by (simp add: r4_def redacted_path_def pattern_at_def)
  then have h: "leak_free (pattern_at home_pattern) None (redact_text s)"
    using path_stage.home_free [of None r4] by (simp add: t redacted_path_def)
  have "leak_free (pattern_at path_pattern) None (redact_text s)" unfolding t by (rule path_free)
  with b k h no_path_no_url show ?thesis by (simp add: clean_text_def)
qed

text \<open>Every string that is a value at some depth.\<close>

fun clean_value :: "pyval \<Rightarrow> bool" where
  "clean_value (PStr s) = clean_text s"
| "clean_value (PDict items) = (\<forall>(k, v) \<in> set items. clean_value v)"
| "clean_value (PList xs) = (\<forall>x \<in> set xs. clean_value x)"
| "clean_value (PTuple xs) = (\<forall>x \<in> set xs. clean_value x)"
| "clean_value _ = True"

lemma clean_dict_set:
  "\<forall>(k, v) \<in> set d. clean_value v \<Longrightarrow> clean_value x \<Longrightarrow> \<forall>(k, v) \<in> set (dict_set key x d). clean_value v"
  by (induction d) auto

lemma redact_value_clean:
  "clean_value (redact_value to_text v)"
  "\<forall>(k, v) \<in> set d. clean_value v \<Longrightarrow> \<forall>(k, v) \<in> set (redact_items to_text items d). clean_value v"
  "\<forall>x \<in> set (redact_members to_text xs). clean_value x"
proof (induction to_text v and to_text items d and to_text xs rule: redact_value_redact_items_redact_members.induct)
  case (1 to_text s)
  show ?case using redact_text_clean by simp
next
  case (7 to_text key item items d)
  from "7.IH"(2) [OF clean_dict_set [OF "7.prems" "7.IH"(1)]] show ?case by simp
qed auto

text \<open>C15. Redaction. In a redacted text nothing starts anywhere that the patterns know: no token shape, no
  URL, no reference to the home directory and no absolute path, and what follows \<open>Bearer\<close>, in whatever
  case, is the placeholder; no stage brings back what an earlier one took out. So it is for every string
  value at every depth of a redacted value. And a text in which no pattern matches is not changed.\<close>

theorem redaction_leaves_nothing:
  assumes "leak_free (pattern_at bearer_pattern) None t" and "clean_text t"
  shows "clean_text (redact_text s) \<and> clean_value (redact_value to_text v) \<and> redact_text t = t"
proof -
  have "redact_text t = t"
    using assms unfolding clean_text_def redact_text_def Let_def by (simp add: sub_unmatched)
  with redact_text_clean redact_value_clean(1) show ?thesis by blast
qed

theorem redaction_leaves_nothing_witness:
  "redact_text ''openbmb/V'' = ''openbmb/V'' \<and> clean_text (redact_text ''~/x'')"
proof -
  have b: "leak_free (pattern_at bearer_pattern) None ''openbmb/V''"
    by (simp add: pattern_at_def bearer_pattern_def lower_def lower_char_def)
  then have "leak_free bearer_leak None ''openbmb/V''"
    by (simp add: bearer_leak_def lower_def lower_char_def)
  moreover have "leak_free (pattern_at path_pattern) None ''openbmb/V''"
    by (simp add: pattern_at_def path_pattern_def path_may_start_def is_word_def is_alnum_def is_alpha_def is_alpha_ascii_def)
  moreover have "leak_free (pattern_at token_pattern) None ''openbmb/V''" by (simp add: no_token_starts)
  moreover have "leak_free (pattern_at home_pattern) None ''openbmb/V''" by (simp add: pattern_at_def home_pattern_def)
  ultimately have "clean_text ''openbmb/V''" by (simp only: clean_text_def no_path_no_url simp_thms)
  with b show ?thesis using redaction_leaves_nothing [of "''openbmb/V''" "''~/x''"] by blast
qed

end
