(* ===== verification/Runtime_Metrics.thy ===== *)
theory Runtime_Metrics
  imports Redaction Wav_Io
begin

text \<open>
  The readings of \<open>voxcpm_runtime/runtime_metrics.py\<close>: memory figures of the kernel, the stopwatch, the
  observations of CUDA, the facts about the host and the versions of packages. \<open>files\<close> gives the text of
  a file, \<open>None\<close> where reading it raises \<open>OSError\<close>; what \<open>torch\<close>, \<open>resource\<close>, \<open>os.sysconf\<close>,
  \<open>platform\<close> and \<open>importlib.metadata\<close> answer are arguments, \<open>Inl\<close> with the name of the exception's class
  where a call raised. The redaction of the same file is in \<open>Redaction\<close>.
\<close>

section \<open>Kernel files\<close>

type_synonym files = "string \<Rightarrow> string option"

text \<open>\<open>int(s, 10)\<close> after \<open>s.isdigit()\<close>: superscripts pass the test and not the conversion.\<close>

definition int_error :: "string \<Rightarrow> exn" where
  "int_error s =
     ValueError
       (if all_digits s
        then ''Exceeds the limit (4300 digits) for integer string conversion: value has '' @ show_nat (length s) @
             '' digits; use sys.set_int_max_str_digits() to increase the limit''
        else ''invalid literal for int() with base 10: '' @ take 200 (CHR 0x27 # s @ [CHR 0x27]))"

definition to_int :: "string \<Rightarrow> exn + int" where
  "to_int s = (case int_text s of None \<Rightarrow> Inl (int_error s) | Some n \<Rightarrow> Inr n)"

text \<open>The loop that both readers of \<open>key: value kB\<close> lines have; a line without a number is passed over.\<close>

fun kib_line :: "string \<Rightarrow> string list \<Rightarrow> exn + int option" where
  "kib_line field [] = Inr None"
| "kib_line field (line # rest) =
     (if startswith line field then
        (case split_words line of
           _ # kib # _ \<Rightarrow> if str_isdigit kib then and_then (to_int kib) (\<lambda>n. Inr (Some n)) else kib_line field rest
         | _ \<Rightarrow> kib_line field rest)
      else kib_line field rest)"

definition read_status_kib :: "files \<Rightarrow> string \<Rightarrow> exn + int option" where
  "read_status_kib files field =
     (case files ''/proc/meminfo'' of None \<Rightarrow> Inr None | Some content \<Rightarrow> kib_line field (splitlines content))"

definition read_self_status_rss_kib :: "files \<Rightarrow> exn + int option" where
  "read_self_status_rss_kib files =
     (case files ''/proc/self/status'' of None \<Rightarrow> Inr None | Some content \<Rightarrow> kib_line ''VmRSS:'' (splitlines content))"

definition in_bytes :: "exn + int option \<Rightarrow> exn + int option" where
  "in_bytes r = and_then r (\<lambda>kib. Inr (map_option (\<lambda>k. k * 1024) kib))"

definition current_rss_bytes :: "files \<Rightarrow> exn + int option" where
  "current_rss_bytes files = in_bytes (read_self_status_rss_kib files)"

text \<open>\<open>usage\<close>: \<open>ru_maxrss\<close>, \<open>None\<close> where \<open>getrusage\<close> raises.\<close>

definition peak_rss_bytes :: "bool \<Rightarrow> int option \<Rightarrow> int option" where
  "peak_rss_bytes darwin usage =
     (case usage of
        None \<Rightarrow> None
      | Some raw \<Rightarrow> if raw < 0 then None else if darwin then Some raw else Some (raw * 1024))"

definition host_total_ram_bytes :: "files \<Rightarrow> (int \<times> int) option \<Rightarrow> exn + int option" where
  "host_total_ram_bytes files sysconf =
     and_then (read_status_kib files ''MemTotal:'') (\<lambda>kib.
       case kib of Some k \<Rightarrow> Inr (Some (k * 1024)) | None \<Rightarrow> Inr (sysconf_ram sysconf))"

definition host_available_ram_bytes :: "files \<Rightarrow> exn + int option" where
  "host_available_ram_bytes files = in_bytes (read_status_kib files ''MemAvailable:'')"

text \<open>The loop over the two limit files.\<close>

fun cgroup_limit_in :: "files \<Rightarrow> string list \<Rightarrow> exn + int option" where
  "cgroup_limit_in files [] = Inr None"
| "cgroup_limit_in files (candidate # rest) =
     (case files candidate of
        None \<Rightarrow> cgroup_limit_in files rest
      | Some content \<Rightarrow>
         (let t = strip content in
          if t = [] \<or> t = ''max'' then cgroup_limit_in files rest
          else if str_isdigit t then and_then (to_int t) (\<lambda>n. Inr (Some n))
          else cgroup_limit_in files rest))"

definition cgroup_memory_limit_bytes :: "files \<Rightarrow> exn + int option" where
  "cgroup_memory_limit_bytes files =
     cgroup_limit_in files [''/sys/fs/cgroup/memory.max'', ''/sys/fs/cgroup/memory/memory.limit_in_bytes'']"

fun event_counters :: "string list \<Rightarrow> (string, int) dict \<Rightarrow> exn + (string, int) dict" where
  "event_counters [] counters = Inr counters"
| "event_counters (line # rest) counters =
     (case split_words line of
        [key, n] \<Rightarrow>
          if \<not> str_isalnum key \<or> \<not> str_isdigit n then event_counters rest counters
          else and_then (to_int n) (\<lambda>v. event_counters rest (dict_set key v counters))
      | _ \<Rightarrow> event_counters rest counters)"

definition cgroup_memory_events :: "files \<Rightarrow> exn + (string, int) dict option" where
  "cgroup_memory_events files =
     (case files ''/sys/fs/cgroup/memory.events'' of
        None \<Rightarrow> Inr None
      | Some content \<Rightarrow>
          and_then (event_counters (splitlines content) []) (\<lambda>counters.
            Inr (if counters = [] then None else Some counters)))"

section \<open>Stopwatch\<close>

record stopwatch =
  sw_name :: string
  sw_started_at :: rat
  sw_ended_at :: "rat option"

definition mk_stopwatch :: "string \<Rightarrow> rat \<Rightarrow> stopwatch" where
  "mk_stopwatch name now = \<lparr>sw_name = name, sw_started_at = now, sw_ended_at = None\<rparr>"

definition sw_stop :: "rat \<Rightarrow> stopwatch \<Rightarrow> stopwatch" where
  "sw_stop now w = (case sw_ended_at w of None \<Rightarrow> w\<lparr>sw_ended_at := Some now\<rparr> | Some _ \<Rightarrow> w)"

definition sw_duration :: "stopwatch \<Rightarrow> rat option" where
  "sw_duration w = map_option (\<lambda>e. max 0 (fl64 (e - sw_started_at w))) (sw_ended_at w)"

definition stopwatch_to_dict :: "stopwatch \<Rightarrow> (string, pyval) dict" where
  "stopwatch_to_dict w =
     [(''duration_seconds'', case sw_duration w of None \<Rightarrow> PNone | Some d \<Rightarrow> float_of (round6 d)),
      (''name'', PStr (sw_name w)), (''started'', PBool True)]"

section \<open>CUDA\<close>

text \<open>What \<open>torch.cuda\<close> answers; the memory figures depend on the device index.\<close>

record gpu_properties =
  gp_major :: "string + int"
  gp_minor :: "string + int"
  gp_name :: "string + string"
  gp_total_memory :: "string + int"

record cuda_module =
  cu_is_available :: "string + bool"
  cu_is_initialized :: "string + bool"
  cu_device_count :: "string + int"
  cu_properties :: "int \<Rightarrow> string + gpu_properties"
  cu_memory_allocated :: "int \<Rightarrow> string + int"
  cu_memory_reserved :: "int \<Rightarrow> string + int"
  cu_max_memory_allocated :: "int \<Rightarrow> string + int"
  cu_max_memory_reserved :: "int \<Rightarrow> string + int"

record cuda_observation =
  co_torch_imported :: bool
  co_available :: "bool option"
  co_initialized :: "bool option"
  co_device_count :: "int option"
  co_error_type :: "string option"

definition no_cuda_observation :: "bool \<Rightarrow> cuda_observation" where
  "no_cuda_observation imported =
     \<lparr>co_torch_imported = imported, co_available = None, co_initialized = None, co_device_count = None,
      co_error_type = None\<rparr>"

definition opt_bool :: "bool option \<Rightarrow> pyval" where
  "opt_bool v = (case v of None \<Rightarrow> PNone | Some b \<Rightarrow> PBool b)"

definition cuda_observation_to_dict :: "cuda_observation \<Rightarrow> (string, pyval) dict" where
  "cuda_observation_to_dict obs =
     [(''cuda_available'', opt_bool (co_available obs)), (''cuda_device_count'', opt_int (co_device_count obs)),
      (''cuda_initialized'', opt_bool (co_initialized obs)), (''error_type'', opt_str (co_error_type obs)),
      (''torch_imported'', PBool (co_torch_imported obs))]"

text \<open>\<open>None\<close>: no module; \<open>Some None\<close>: a module without \<open>cuda\<close>.\<close>

definition observe_torch_cuda :: "cuda_module option option \<Rightarrow> cuda_observation" where
  "observe_torch_cuda torch =
     (case torch of
        None \<Rightarrow> no_cuda_observation False
      | Some None \<Rightarrow> (no_cuda_observation True)\<lparr>co_error_type := Some ''AttributeError''\<rparr>
      | Some (Some cuda) \<Rightarrow>
         (case and_then (cu_is_available cuda) (\<lambda>a.
               and_then (cu_is_initialized cuda) (\<lambda>i.
               and_then (cu_device_count cuda) (\<lambda>n. Inr (a, i, n)))) of
            Inl e \<Rightarrow> (no_cuda_observation True)\<lparr>co_error_type := Some e\<rparr>
          | Inr (a, i, n) \<Rightarrow>
              \<lparr>co_torch_imported = True, co_available = Some a, co_initialized = Some i,
               co_device_count = Some n, co_error_type = None\<rparr>))"

record gpu_observation =
  go_torch_imported :: bool
  go_cuda_available :: "bool option"
  go_device_index :: "int option"
  go_device_name :: "string option"
  go_total_memory :: "int option"
  go_compute_capability :: "string option"
  go_allocated :: "int option"
  go_reserved :: "int option"
  go_max_allocated :: "int option"
  go_max_reserved :: "int option"
  go_error_type :: "string option"

definition no_gpu_observation :: "bool \<Rightarrow> gpu_observation" where
  "no_gpu_observation imported =
     \<lparr>go_torch_imported = imported, go_cuda_available = None, go_device_index = None, go_device_name = None,
      go_total_memory = None, go_compute_capability = None, go_allocated = None, go_reserved = None,
      go_max_allocated = None, go_max_reserved = None, go_error_type = None\<rparr>"

definition gpu_observation_to_dict :: "gpu_observation \<Rightarrow> (string, pyval) dict" where
  "gpu_observation_to_dict obs =
     [(''compute_capability'', opt_str (go_compute_capability obs)),
      (''cuda_available'', opt_bool (go_cuda_available obs)), (''device_index'', opt_int (go_device_index obs)),
      (''device_name'', opt_str (go_device_name obs)),
      (''device_total_memory_bytes'', opt_int (go_total_memory obs)),
      (''error_type'', opt_str (go_error_type obs)),
      (''max_memory_allocated_bytes'', opt_int (go_max_allocated obs)),
      (''max_memory_reserved_bytes'', opt_int (go_max_reserved obs)),
      (''memory_allocated_bytes'', opt_int (go_allocated obs)),
      (''memory_reserved_bytes'', opt_int (go_reserved obs)),
      (''torch_imported'', PBool (go_torch_imported obs))]"

text \<open>The body of the \<open>try\<close>.\<close>

definition query_gpu :: "cuda_module \<Rightarrow> int \<Rightarrow> string + gpu_observation" where
  "query_gpu cuda i =
     and_then (cu_is_available cuda) (\<lambda>a.
       if \<not> a then Inr ((no_gpu_observation True)\<lparr>go_cuda_available := Some False\<rparr>)
       else
       and_then (cu_properties cuda i) (\<lambda>props.
       and_then (gp_major props) (\<lambda>major.
       and_then (gp_minor props) (\<lambda>minor.
       and_then (gp_name props) (\<lambda>name.
       and_then (gp_total_memory props) (\<lambda>total_memory.
       and_then (cu_memory_allocated cuda i) (\<lambda>al.
       and_then (cu_memory_reserved cuda i) (\<lambda>re.
       and_then (cu_max_memory_allocated cuda i) (\<lambda>mal.
       and_then (cu_max_memory_reserved cuda i) (\<lambda>mre.
         Inr \<lparr>go_torch_imported = True, go_cuda_available = Some True, go_device_index = Some i,
              go_device_name = Some name, go_total_memory = Some total_memory,
              go_compute_capability = Some (show_int major @ ''.'' @ show_int minor),
              go_allocated = Some al, go_reserved = Some re, go_max_allocated = Some mal,
              go_max_reserved = Some mre, go_error_type = None\<rparr>))))))))))"

definition observe_gpu_memory :: "cuda_module option option \<Rightarrow> pyval \<Rightarrow> exn + gpu_observation" where
  "observe_gpu_memory torch device_index =
     (case torch of
        None \<Rightarrow> Inr (no_gpu_observation False)
      | Some t \<Rightarrow>
         (case device_index of
            PInt i \<Rightarrow>
              if i < 0 then Inl (ValueError ''device_index must be a non-negative integer'')
              else (case t of
                None \<Rightarrow> Inr ((no_gpu_observation True)\<lparr>go_error_type := Some ''AttributeError''\<rparr>)
              | Some cuda \<Rightarrow>
                 (case query_gpu cuda i of
                    Inr obs \<Rightarrow> Inr obs
                  | Inl e \<Rightarrow>
                      Inr ((no_gpu_observation True)\<lparr>go_cuda_available := Some True, go_device_index := Some i,
                             go_error_type := Some e\<rparr>)))
          | _ \<Rightarrow> Inl (ValueError ''device_index must be a non-negative integer'')))"

section \<open>Host and packages\<close>

record host_facts =
  hf_cpu_count :: "int option"
  hf_total_ram :: "int option"
  hf_available_ram :: "int option"
  hf_cgroup_limit :: "int option"
  hf_peak_rss :: "int option"
  hf_platform :: string
  hf_python_version :: string
  hf_python_implementation :: string

definition host_facts_to_dict :: "host_facts \<Rightarrow> (string, pyval) dict" where
  "host_facts_to_dict f =
     [(''cgroup_memory_limit_bytes'', opt_int (hf_cgroup_limit f)), (''cpu_count'', opt_int (hf_cpu_count f)),
      (''host_available_ram_bytes'', opt_int (hf_available_ram f)),
      (''host_total_ram_bytes'', opt_int (hf_total_ram f)), (''peak_rss_bytes'', opt_int (hf_peak_rss f)),
      (''platform'', PStr (hf_platform f)), (''python_implementation'', PStr (hf_python_implementation f)),
      (''python_version'', PStr (hf_python_version f))]"

text \<open>What the rest of the system answers.\<close>

record system =
  sy_cpu_count :: "int option"
  sy_sysconf :: "(int \<times> int) option"
  sy_usage :: "int option"
  sy_darwin :: bool
  sy_platform :: string
  sy_python_version :: string
  sy_python_implementation :: string

definition collect_host_facts :: "files \<Rightarrow> system \<Rightarrow> exn + host_facts" where
  "collect_host_facts files sys =
     and_then (host_total_ram_bytes files (sy_sysconf sys)) (\<lambda>total_ram.
     and_then (host_available_ram_bytes files) (\<lambda>available.
     and_then (cgroup_memory_limit_bytes files) (\<lambda>limit.
       Inr \<lparr>hf_cpu_count = sy_cpu_count sys, hf_total_ram = total_ram, hf_available_ram = available,
            hf_cgroup_limit = limit, hf_peak_rss = peak_rss_bytes (sy_darwin sys) (sy_usage sys),
            hf_platform = sy_platform sys, hf_python_version = sy_python_version sys,
            hf_python_implementation = sy_python_implementation sys\<rparr>)))"

datatype version_answer = Installed string | Not_Found | Version_Error

definition dependency_version :: "version_answer \<Rightarrow> string" where
  "dependency_version r =
     (case r of Installed v \<Rightarrow> v | Not_Found \<Rightarrow> ''NOT_INSTALLED'' | Version_Error \<Rightarrow> ''UNAVAILABLE'')"

definition dependency_versions :: "(string \<Rightarrow> version_answer) \<Rightarrow> string list \<Rightarrow> (string, string) dict" where
  "dependency_versions answer names =
     fold (\<lambda>name resolved. dict_set name (dependency_version (answer name)) resolved) names []"

section \<open>Counters of the memory controller\<close>

text \<open>The lines that count, in their order.\<close>

definition counted :: "string list \<Rightarrow> (string \<times> int) list" where
  "counted ls =
     concat (map (\<lambda>l. case split_words l of
         [key, n] \<Rightarrow>
           if str_isalnum key \<and> str_isdigit n then (case int_text n of None \<Rightarrow> [] | Some v \<Rightarrow> [(key, v)]) else []
       | _ \<Rightarrow> []) ls)"

lemma event_counters_get:
  "event_counters ls d = Inr e \<Longrightarrow>
   dict_get e key = (case map_of (rev (counted ls)) key of None \<Rightarrow> dict_get d key | Some v \<Rightarrow> Some v)"
proof (induction ls arbitrary: d)
  case Nil
  then show ?case by (simp add: counted_def)
next
  case (Cons line rest)
  show ?case
  proof (cases "\<exists>k n. split_words line = [k, n] \<and> str_isalnum k \<and> str_isdigit n")
    case False
    then have "counted (line # rest) = counted rest" "event_counters rest d = Inr e"
      using Cons.prems by (auto simp: counted_def split: list.splits if_splits)
    with Cons.IH show ?thesis by simp
  next
    case True
    then obtain k n where kn: "split_words line = [k, n]" "str_isalnum k" "str_isdigit n" by blast
    with Cons.prems obtain v where v: "int_text n = Some v" "event_counters rest (dict_set k v d) = Inr e"
      by (auto simp: raises to_int_def split: option.splits)
    have "counted (line # rest) = (k, v) # counted rest" using kn v(1) by (simp add: counted_def)
    with Cons.IH [OF v(2)] show ?thesis by (auto simp: dicts map_add_def split: option.splits)
  qed
qed

lemma counted_Cons:
  "counted (l # ls) =
     (if \<exists>k n v. split_words l = [k, n] \<and> str_isalnum k \<and> str_isdigit n \<and> int_text n = Some v
      then (hd (split_words l), the (int_text (hd (tl (split_words l))))) # counted ls else counted ls)"
  by (auto simp: counted_def split: list.splits option.splits)

lemma counted_alnum: "map_of (rev (counted ls)) key = Some v \<Longrightarrow> str_isalnum key"
proof -
  assume "map_of (rev (counted ls)) key = Some v"
  from map_of_SomeD [OF this] have "(key, v) \<in> set (counted ls)" by simp
  then show ?thesis by (induction ls) (auto simp: counted_Cons counted_def [of "[]"] split: if_splits)
qed

lemma underscore_not_alnum: "\<not> is_alnum (CHR ''_'')"
  by (simp add: is_alnum_def is_alpha_def is_alpha_ascii_def is_dec_def)

definition counter :: "(string, int) dict option \<Rightarrow> string \<Rightarrow> int option" where
  "counter evs key = (case evs of None \<Rightarrow> None | Some d \<Rightarrow> dict_get d key)"

text \<open>The counters of the memory controller: a name has the number of the last line that gives it a
  number, provided that the name consists of letters and digits. The counters \<open>oom_kill\<close> and
  \<open>oom_group_kill\<close>, which say that a process was killed, are never reported: their names have an
  underscore.\<close>

theorem memory_events_exact:
  assumes "files ''/sys/fs/cgroup/memory.events'' = Some content" and "cgroup_memory_events files = Inr evs"
  shows "counter evs key = map_of (rev (counted (splitlines content))) key \<and>
    (counter evs key \<noteq> None \<longrightarrow> CHR ''_'' \<notin> set key) \<and>
    counter evs ''oom_kill'' = None \<and> counter evs ''oom_group_kill'' = None"
proof -
  from assms obtain d where d: "event_counters (splitlines content) [] = Inr d" "evs = (if d = [] then None else Some d)"
    by (auto simp: cgroup_memory_events_def raises)
  have g: "counter evs k = map_of (rev (counted (splitlines content))) k" for k
    using event_counters_get [OF d(1), of k] d(2) by (auto simp: counter_def split: option.splits)
  have u: "counter evs k = None \<or> CHR ''_'' \<notin> set k" for k
  proof (cases "counter evs k = None")
    case False
    then obtain v where "map_of (rev (counted (splitlines content))) k = Some v" using g by auto
    then have "str_isalnum k" by (rule counted_alnum)
    with underscore_not_alnum show ?thesis by (auto simp: str_isalnum_def list_all_iff)
  qed simp
  from u [of "''oom_kill''"] u [of "''oom_group_kill''"]
  have "counter evs ''oom_kill'' = None" "counter evs ''oom_group_kill'' = None" by simp_all
  with u [of key] show ?thesis by (intro conjI g) auto
qed

definition events_file :: string where
  "events_file = ''oom 2'' @ [CHR 0x0A] @ ''oom_kill 1'' @ [CHR 0x0A]"

theorem memory_events_exact_witness:
  "\<exists>evs. cgroup_memory_events (\<lambda>_. Some events_file) = Inr evs \<and> counter evs ''oom'' = Some 2 \<and>
     counter evs ''oom_kill'' = None"
proof -
  have "counted (splitlines events_file) = [(''oom'', 2)]" and i: "isOK (cgroup_memory_events (\<lambda>_. Some events_file))"
    by code_simp+
  moreover from i obtain evs where e: "cgroup_memory_events (\<lambda>_. Some events_file) = Inr evs" by (auto simp: isOK_iff)
  note memory_events_exact [OF refl e, of "''oom''"]
  ultimately show ?thesis using e by auto
qed

section \<open>Memory figures\<close>

text \<open>Files as the kernel writes them: what passes for a number is one \<open>int\<close> reads.\<close>

definition plain_number :: "string \<Rightarrow> bool" where
  "plain_number w \<longleftrightarrow> (str_isdigit w \<longrightarrow> all_digits w \<and> length w \<le> max_str_digits)"

definition kernel_text :: "string \<Rightarrow> bool" where
  "kernel_text content \<longleftrightarrow>
     plain_number (strip content) \<and> list_all (\<lambda>l. list_all plain_number (split_words l)) (splitlines content)"

lemma to_int_outcome: "outcome is_value_exn (\<lambda>n. 0 \<le> n) (to_int w)"
  by (auto simp: to_int_def int_text_def py_int10_def int_error_def split: option.split)

lemma to_int_plain: "plain_number w \<Longrightarrow> str_isdigit w \<Longrightarrow> \<exists>n \<ge> 0. to_int w = Inr n"
  by (auto simp: plain_number_def to_int_def int_text_def py_int10_def split: option.split)

definition figure :: "int option \<Rightarrow> bool" where
  "figure v \<longleftrightarrow> (case v of None \<Rightarrow> True | Some n \<Rightarrow> 0 \<le> n)"

lemma figure_simps [simp]: "figure None" "figure (Some n) = (0 \<le> n)"
  by (simp_all add: figure_def)

text \<open>\<open>reads b m\<close>: a figure, or the \<open>ValueError\<close> of a number that is none, not when \<open>b\<close>.\<close>

definition reads :: "bool \<Rightarrow> exn + int option \<Rightarrow> bool" where
  "reads b m \<longleftrightarrow> outcome (\<lambda>e. is_value_exn e \<and> \<not> b) figure m"

lemma kib_line_reads:
  "reads (list_all (\<lambda>l. list_all plain_number (split_words l)) ls) (kib_line field ls)"
proof (induction ls)
  case Nil
  then show ?case by (simp add: reads_def)
next
  case (Cons l ls)
  then have IH: "reads (list_all (\<lambda>l. list_all plain_number (split_words l)) (l # ls)) (kib_line field ls)"
    by (cases "kib_line field ls") (auto simp: reads_def)
  have "reads (list_all (\<lambda>l. list_all plain_number (split_words l)) (l # ls)) (and_then (to_int w) (\<lambda>n. Inr (Some n)))"
    if "split_words l = k # w # r" "str_isdigit w" for k w r
    using that to_int_outcome [of w] to_int_plain [of w] by (cases "to_int w") (auto simp: reads_def)
  with IH show ?case by (auto split: list.split)
qed

lemma read_kib_reads:
  "reads (\<forall>p s. files p = Some s \<longrightarrow> kernel_text s) (read_status_kib files field)"
  "reads (\<forall>p s. files p = Some s \<longrightarrow> kernel_text s) (read_self_status_rss_kib files)"
proof -
  have r: "reads (\<forall>p s. files p = Some s \<longrightarrow> kernel_text s) (kib_line f (splitlines content))"
    if "files p = Some content" for p content f
    using that kib_line_reads [of "splitlines content" f]
    by (cases "kib_line f (splitlines content)") (auto simp: reads_def kernel_text_def)
  show "reads (\<forall>p s. files p = Some s \<longrightarrow> kernel_text s) (read_status_kib files field)"
    and "reads (\<forall>p s. files p = Some s \<longrightarrow> kernel_text s) (read_self_status_rss_kib files)"
    using r by (auto simp: read_status_kib_def read_self_status_rss_kib_def reads_def split: option.split)
qed

lemma in_bytes_reads: "reads b m \<Longrightarrow> reads b (in_bytes m)"
  by (cases m) (auto simp: reads_def in_bytes_def figure_def split: option.splits)

lemma cgroup_limit_reads:
  "reads (\<forall>p s. files p = Some s \<longrightarrow> kernel_text s) (cgroup_limit_in files ps)"
proof (induction ps)
  case Nil
  then show ?case by (simp add: reads_def)
next
  case (Cons p ps)
  have "reads (\<forall>p s. files p = Some s \<longrightarrow> kernel_text s) (and_then (to_int (strip c)) (\<lambda>n. Inr (Some n)))"
    if "files p = Some c" "str_isdigit (strip c)" for c
    using that to_int_outcome [of "strip c"] to_int_plain [of "strip c"]
    by (cases "to_int (strip c)") (auto simp: reads_def kernel_text_def)
  with Cons.IH show ?case by (auto simp: Let_def split: option.split)
qed

definition facts_ok :: "host_facts \<Rightarrow> bool" where
  "facts_ok f \<longleftrightarrow> figure (hf_total_ram f) \<and> figure (hf_available_ram f) \<and> figure (hf_cgroup_limit f) \<and>
     figure (hf_peak_rss f)"

lemma peak_rss_figure: "figure (peak_rss_bytes darwin usage)"
  by (simp add: peak_rss_bytes_def split: option.split)

lemma total_ram_reads: "reads (\<forall>p s. files p = Some s \<longrightarrow> kernel_text s) (host_total_ram_bytes files sysconf)"
  using read_kib_reads(1) [of files "''MemTotal:''"]
  by (cases "read_status_kib files ''MemTotal:''")
    (auto simp: host_total_ram_bytes_def reads_def sysconf_ram_def split: option.split)

text \<open>The facts about the host. Whatever the files hold, collecting them gives non-negative figures or
  raises the \<open>ValueError\<close> of a number that \<open>int\<close> does not take; files as the kernel writes them never
  raise. So does the resident size; the figures of \<open>/proc\<close> are whole kibibytes.\<close>

theorem host_facts_collected:
  assumes "\<forall>p s. files p = Some s \<longrightarrow> kernel_text s"
  shows "(\<exists>f. collect_host_facts files sys = Inr f \<and> facts_ok f) \<and>
    (\<exists>rss. current_rss_bytes files = Inr rss \<and> figure rss \<and> (case rss of None \<Rightarrow> True | Some n \<Rightarrow> 1024 dvd n)) \<and>
    outcome is_value_exn facts_ok (collect_host_facts other sys)"
proof -
  note k = assms
  have ok: "outcome (\<lambda>e. is_value_exn e \<and> \<not> (\<forall>p s. g p = Some s \<longrightarrow> kernel_text s)) facts_ok (collect_host_facts g sys)" for g
    using total_ram_reads [of g "sy_sysconf sys"] in_bytes_reads [OF read_kib_reads(1) [of g "''MemAvailable:''"]]
      cgroup_limit_reads [of g "[''/sys/fs/cgroup/memory.max'', ''/sys/fs/cgroup/memory/memory.limit_in_bytes'']"]
    unfolding collect_host_facts_def reads_def host_available_ram_bytes_def cgroup_memory_limit_bytes_def
    by (intro outcome_and_then) (auto simp: facts_ok_def peak_rss_figure elim!: outcome_weaken)
  have "\<exists>f. collect_host_facts files sys = Inr f \<and> facts_ok f"
    using ok [of files] k by (cases "collect_host_facts files sys") auto
  moreover have "\<exists>rss. current_rss_bytes files = Inr rss \<and> figure rss \<and> (case rss of None \<Rightarrow> True | Some n \<Rightarrow> 1024 dvd n)"
    using read_kib_reads(2) [of files] k
    by (cases "read_self_status_rss_kib files")
      (auto simp: current_rss_bytes_def in_bytes_def reads_def figure_def split: option.splits)
  moreover have "outcome is_value_exn facts_ok (collect_host_facts other sys)"
    using ok [of other] by (rule outcome_weaken) simp_all
  ultimately show ?thesis by blast
qed

definition sample_files :: files where
  "sample_files p = (if p = ''/proc/meminfo'' then Some ''MemTotal: 16 kB'' else None)"

definition sample_system :: system where
  "sample_system = \<lparr>sy_cpu_count = Some 4, sy_sysconf = None, sy_usage = Some 100, sy_darwin = False,
     sy_platform = ''Linux'', sy_python_version = ''3.12.1'', sy_python_implementation = ''CPython''\<rparr>"

theorem host_facts_collected_witness:
  "\<exists>f. collect_host_facts sample_files sample_system = Inr f \<and> facts_ok f \<and> hf_total_ram f = Some 16384"
proof -
  have "kernel_text s" if "sample_files p = Some s" for p s
  proof -
    from that have s: "s = ''MemTotal: 16 kB''" by (simp add: sample_files_def split: if_splits)
    show ?thesis unfolding s by code_simp
  qed
  then have "\<forall>p s. sample_files p = Some s \<longrightarrow> kernel_text s" by blast
  from host_facts_collected [OF this] have "\<exists>f. collect_host_facts sample_files sample_system = Inr f \<and> facts_ok f"
    by blast
  moreover have "host_total_ram_bytes sample_files None = Inr (Some 16384)" by code_simp
  then have "outcome (\<lambda>_. True) (\<lambda>f. hf_total_ram f = Some 16384) (collect_host_facts sample_files sample_system)"
    by (simp add: collect_host_facts_def sample_system_def, intro outcome_and_then [where R = "\<lambda>_. True"]) (auto simp: outcome_def split: sum.split)
  ultimately show ?thesis by auto
qed

section \<open>Stopwatch and CUDA\<close>

text \<open>Stopping twice is stopping once, and no duration is negative.\<close>

lemma stopwatch_stop_once: "sw_stop later (sw_stop now w) = sw_stop now w"
  by (simp add: sw_stop_def split: option.split)

lemma stopwatch_nonnegative: "sw_duration w = Some d \<Longrightarrow> 0 \<le> d"
  by (auto simp: sw_duration_def)

lemma stopwatch_measures:
  "sw_duration (sw_stop now (mk_stopwatch name start)) = Some (max 0 (fl64 (now - start)))"
  by (simp add: sw_stop_def mk_stopwatch_def sw_duration_def)

text \<open>The same failure of \<open>is_available\<close> leaves availability open in one observation and is reported as
  an available CUDA in the other.\<close>

lemma failed_probe_claims_cuda:
  assumes "cu_is_available cuda = Inl e" and "0 \<le> i"
  shows "co_available (observe_torch_cuda (Some (Some cuda))) = None \<and>
    (\<exists>obs. observe_gpu_memory (Some (Some cuda)) (PInt i) = Inr obs \<and> go_cuda_available obs = Some True \<and>
       go_error_type obs = Some e)"
  using assms by (simp add: observe_torch_cuda_def no_cuda_observation_def observe_gpu_memory_def query_gpu_def)

text \<open>A figure is reported only when all of them are: an observation with an error has none.\<close>

lemma gpu_observation_complete:
  assumes "observe_gpu_memory torch i = Inr obs"
  shows "(go_error_type obs = None \<and> go_cuda_available obs = Some True \<longrightarrow>
      go_allocated obs \<noteq> None \<and> go_reserved obs \<noteq> None \<and> go_max_allocated obs \<noteq> None \<and>
      go_max_reserved obs \<noteq> None \<and> go_compute_capability obs \<noteq> None) \<and>
    (go_error_type obs \<noteq> None \<longrightarrow> go_allocated obs = None \<and> go_max_reserved obs = None)"
proof -
  have "go_error_type obs = None \<and> (go_cuda_available obs = Some True \<longrightarrow>
      go_allocated obs \<noteq> None \<and> go_reserved obs \<noteq> None \<and> go_max_allocated obs \<noteq> None \<and>
      go_max_reserved obs \<noteq> None \<and> go_compute_capability obs \<noteq> None)"
    if "query_gpu cuda n = Inr obs" for cuda n
    using that by (auto simp: query_gpu_def raises no_gpu_observation_def split: if_splits)
  with assms show ?thesis
    by (auto simp: observe_gpu_memory_def no_gpu_observation_def split: option.splits pyval.splits if_splits sum.splits)
qed

lemma dependency_versions_get:
  "dict_get (dependency_versions answer names) name =
     (if name \<in> set names then Some (dependency_version (answer name)) else None)"
proof -
  have "dict_get (fold (\<lambda>n d. dict_set n (dependency_version (answer n)) d) names d) name =
      (if name \<in> set names then Some (dependency_version (answer name)) else dict_get d name)" for d
    by (induction names arbitrary: d) (auto simp: dicts)
  then show ?thesis by (simp add: dependency_versions_def)
qed

end
