(* ===== verification/Doctor.thy ===== *)
theory Doctor
  imports Real_Worker Runtime_Metrics
begin

text \<open>
  The command \<open>voxcpm-doctor\<close>: \<open>voxcpm_runtime/diagnostics.py\<close>, which collects the facts about an
  installation, and \<open>voxcpm_runtime/doctor.py\<close>, which prints them as one JSON document and turns the
  outcome into an exit code. The record \<open>installation\<close> holds what the code reads: the environment, the
  hardware, the installed packages, the files of the source lock and the answers of \<open>git\<close>. What is asked
  twice answers the same. The report of an error is collected by the same functions, so that it can fail
  like the report itself.
\<close>

record installation =
  in_environ :: "(string, string) dict"
  in_host :: host
  in_torch :: "string + torch_module"
  in_version :: "string \<Rightarrow> string + string"
  in_python_version :: string
  in_platform :: string
  in_project_version :: string
  in_package_root :: file_path
  in_prefix :: file_path
  in_cwd :: "exn + file_path"
  in_read_text :: "file_path \<Rightarrow> exn + string"
  in_loads :: "string \<Rightarrow> exn + pyval"
  in_git :: "string option"
  in_run :: "string list \<Rightarrow> (string, string) dict \<Rightarrow> exn + int \<times> string"
  in_to_text :: "pyval \<Rightarrow> string"

text \<open>A dict with string keys, as a value.\<close>

definition dict_value :: "(string, pyval) dict \<Rightarrow> pyval" where
  "dict_value d = PDict (map (\<lambda>(k, v). (PStr k, v)) d)"

section \<open>Environment\<close>

definition package_names :: "string list" where
  "package_names =
     [''torch'', ''transformers'', ''numpy'', ''soundfile'', ''librosa'', ''torchaudio'', ''scipy'', ''av'',
      ''fastapi'', ''pydantic'', ''voxcpm'']"

text \<open>\<open>_package_version\<close>: any exception of \<open>importlib.metadata\<close> is no version.\<close>

definition package_version :: "installation \<Rightarrow> string \<Rightarrow> string option" where
  "package_version w name = (case in_version w name of Inl _ \<Rightarrow> None | Inr v \<Rightarrow> Some v)"

record environment_info =
  ei_python_version :: string
  ei_platform :: string
  ei_torch_version :: "string option"
  ei_cuda_runtime_version :: "string option"
  ei_cuda_driver_version :: "string option"
  ei_packages :: "(string, string option) dict"
  ei_source_git_commit :: "string option"

definition environment_info_to_dict :: "environment_info \<Rightarrow> (string, pyval) dict" where
  "environment_info_to_dict e =
     [(''python'', PStr (ei_python_version e)), (''platform'', PStr (ei_platform e)),
      (''torch'', opt_str (ei_torch_version e)),
      (''cuda_runtime_version'', opt_str (ei_cuda_runtime_version e)),
      (''cuda_driver_version'', opt_str (ei_cuda_driver_version e)),
      (''packages'', dict_value (map (\<lambda>(k, v). (k, opt_str v)) (ei_packages e))),
      (''source_git_commit'', opt_str (ei_source_git_commit e))]"

text \<open>\<open>[0-9a-f]{40,64}\<close>, on the whole text.\<close>

definition commit_text :: "string \<Rightarrow> bool" where
  "commit_text s \<longleftrightarrow>
     40 \<le> length s \<and> length s \<le> 64 \<and> list_all (\<lambda>c. is_dec c \<or> 97 \<le> ordc c \<and> ordc c \<le> 102) s"

definition git_environment :: "(string, string) dict \<Rightarrow> (string, string) dict" where
  "git_environment env =
     select_environment [''PATH'', ''HOME'', ''LANG'', ''LC_ALL'', ''SYSTEMROOT'', ''GIT_CONFIG_NOSYSTEM''] env"

fun is_subprocess_error :: "exn \<Rightarrow> bool" where
  "is_subprocess_error (OtherError n _) = (n \<in> {''SubprocessError'', ''TimeoutExpired'', ''CalledProcessError''})"
| "is_subprocess_error _ = False"

text \<open>The loop over the roots.\<close>

fun git_commit_in :: "installation \<Rightarrow> string \<Rightarrow> file_path list \<Rightarrow> exn + string option" where
  "git_commit_in w executable [] = Inr None"
| "git_commit_in w executable (dir # roots) =
     (case in_run w [executable, ''-C'', path_str dir, ''rev-parse'', ''HEAD''] (git_environment (in_environ w)) of
        Inl e \<Rightarrow>
          if is_os_error e \<or> is_subprocess_error e then git_commit_in w executable roots else Inl e
      | Inr (code, out) \<Rightarrow>
          if code = 0 \<and> commit_text (strip out) then Inr (Some (strip out))
          else git_commit_in w executable roots)"

definition discover_git_commit :: "installation \<Rightarrow> exn + string option" where
  "discover_git_commit w =
     (case in_git w of
        None \<Rightarrow> Inr None
      | Some executable \<Rightarrow>
         (case in_cwd w of
            Inr cwd \<Rightarrow> git_commit_in w executable [in_package_root w, cwd]
          | Inl e \<Rightarrow>
              if is_os_error e then git_commit_in w executable [in_package_root w] else Inl e))"

text \<open>\<open>inventory.torch_version or packages.get("torch")\<close>, and the fields taken from the inventory.\<close>

definition collect_environment :: "installation \<Rightarrow> inventory option \<Rightarrow> exn + environment_info" where
  "collect_environment w hw =
     (let packages = map (\<lambda>name. (name, package_version w name)) package_names;
          installed = (case dict_get packages ''torch'' of None \<Rightarrow> None | Some v \<Rightarrow> v) in
      and_then (discover_git_commit w) (\<lambda>commit.
        Inr \<lparr>ei_python_version = in_python_version w, ei_platform = in_platform w,
             ei_torch_version =
               (case hw of
                  None \<Rightarrow> installed
                | Some i \<Rightarrow>
                    if torch_version i = None \<or> torch_version i = Some [] then installed else torch_version i),
             ei_cuda_runtime_version = (case hw of None \<Rightarrow> None | Some i \<Rightarrow> cuda_runtime_version i),
             ei_cuda_driver_version = (case hw of None \<Rightarrow> None | Some i \<Rightarrow> cuda_driver_version i),
             ei_packages = packages, ei_source_git_commit = commit\<rparr>))"

section \<open>Source lock\<close>

record source_lock_info =
  sl_locked_upstream_commit :: "string option"
  sl_configured_upstream_revision :: "string option"
  sl_upstream_revision_matches :: "bool option"
  sl_source_lock_status :: string

definition source_lock_info_to_dict :: "source_lock_info \<Rightarrow> (string, pyval) dict" where
  "source_lock_info_to_dict s =
     [(''locked_upstream_commit'', opt_str (sl_locked_upstream_commit s)),
      (''configured_upstream_revision'', opt_str (sl_configured_upstream_revision s)),
      (''upstream_revision_matches'', opt_bool (sl_upstream_revision_matches s)),
      (''source_lock_status'', PStr (sl_source_lock_status s))]"

definition lock_under :: "file_path \<Rightarrow> file_path" where
  "lock_under p = path_child (path_child p ''provenance'') ''voxcpm-source-lock.json''"

fun add_unique :: "file_path list \<Rightarrow> file_path list \<Rightarrow> file_path list" where
  "add_unique unique [] = unique"
| "add_unique unique (c # cs) = add_unique (if c \<in> set unique then unique else unique @ [c]) cs"

definition source_lock_candidates :: "installation \<Rightarrow> exn + file_path list" where
  "source_lock_candidates w =
     (let candidates = [lock_under (in_package_root w), lock_under (in_prefix w)] in
      case in_cwd w of
        Inr cwd \<Rightarrow> Inr (add_unique [] (candidates @ [lock_under cwd]))
      | Inl e \<Rightarrow> if is_os_error e then Inr (add_unique [] candidates) else Inl e)"

text \<open>\<open>except (OSError, UnicodeError, json.JSONDecodeError)\<close>.\<close>

fun unreadable_lock :: "exn \<Rightarrow> bool" where
  "unreadable_lock (OtherError n _) =
     (n \<in> set os_error_names \<or>
      n \<in> {''UnicodeError'', ''UnicodeDecodeError'', ''UnicodeEncodeError'', ''JSONDecodeError''})"
| "unreadable_lock _ = False"

definition judge_lock :: "pyval \<Rightarrow> string option \<times> string" where
  "judge_lock payload =
     (case payload of
        PDict items \<Rightarrow>
         (case map_of items (PStr ''upstream_code'') of
            Some (PDict upstream) \<Rightarrow>
             (case map_of upstream (PStr ''commit'') of
                Some (PStr commit) \<Rightarrow>
                  if commit_text commit then (Some commit, ''loaded'') else (None, ''invalid'')
              | _ \<Rightarrow> (None, ''invalid''))
          | _ \<Rightarrow> (None, ''invalid''))
      | _ \<Rightarrow> (None, ''invalid''))"

fun read_lock_in :: "installation \<Rightarrow> file_path list \<Rightarrow> exn + string option \<times> string" where
  "read_lock_in w [] = Inr (None, ''unavailable'')"
| "read_lock_in w (path # paths) =
     (case and_then (in_read_text w path) (in_loads w) of
        Inl e \<Rightarrow>
          if is_missing e then read_lock_in w paths
          else if unreadable_lock e then Inr (None, ''invalid'')
          else Inl e
      | Inr payload \<Rightarrow> Inr (judge_lock payload))"

definition read_source_lock :: "installation \<Rightarrow> exn + string option \<times> string" where
  "read_source_lock w = and_then (source_lock_candidates w) (read_lock_in w)"

definition collect_provenance :: "installation \<Rightarrow> runtime_config \<Rightarrow> exn + source_lock_info \<times> string list" where
  "collect_provenance w c =
     and_then (read_source_lock w) (\<lambda>(locked, status).
       let configured = upstream_revision c;
           matches = (if configured \<noteq> None \<and> locked \<noteq> None then Some (locked = configured) else None) in
       Inr (\<lparr>sl_locked_upstream_commit = locked, sl_configured_upstream_revision = configured,
             sl_upstream_revision_matches = matches, sl_source_lock_status = status\<rparr>,
            if matches = Some False then [''configured upstream revision does not match the source lock''] else []))"

section \<open>The report\<close>

record doctor_report =
  dr_project_name :: string
  dr_project_version :: string
  dr_config :: "(string, pyval) dict"
  dr_environment :: "(string, pyval) dict"
  dr_hardware :: "(string, pyval) dict option"
  dr_execution :: "(string, pyval) dict option"
  dr_provenance :: "(string, pyval) dict"
  dr_warnings :: "string list"
  dr_errors :: "(string, pyval) dict list"
  dr_status :: string

definition opt_dict :: "(string, pyval) dict option \<Rightarrow> pyval" where
  "opt_dict d = (case d of None \<Rightarrow> PNone | Some x \<Rightarrow> dict_value x)"

definition doctor_report_to_dict :: "doctor_report \<Rightarrow> (string, pyval) dict" where
  "doctor_report_to_dict r =
     [(''schema_version'', PInt 1), (''status'', PStr (dr_status r)),
      (''project'',
        dict_value [(''name'', PStr (dr_project_name r)), (''version'', PStr (dr_project_version r))]),
      (''config'', dict_value (dr_config r)), (''environment'', dict_value (dr_environment r)),
      (''hardware'', opt_dict (dr_hardware r)), (''execution'', opt_dict (dr_execution r)),
      (''provenance'', dict_value (dr_provenance r)), (''warnings'', PList (map PStr (dr_warnings r))),
      (''errors'', PList (map dict_value (dr_errors r)))]"

definition build_doctor_report :: "installation \<Rightarrow> runtime_config \<Rightarrow> inventory option \<Rightarrow> exn + doctor_report" where
  "build_doctor_report w c hw =
     and_then (case hw of Some i \<Rightarrow> Inr i | None \<Rightarrow> detect_hardware (in_host w) (in_torch w)) (\<lambda>i.
     and_then (resolve_execution_plan c i) (\<lambda>p.
     and_then (collect_provenance w c) (\<lambda>(provenance, warnings).
     and_then (collect_environment w (Some i)) (\<lambda>environment.
       Inr \<lparr>dr_project_name = ''openbmb-voxcpm2-inference'', dr_project_version = in_project_version w,
            dr_config = to_diagnostic_dict c, dr_environment = environment_info_to_dict environment,
            dr_hardware = Some (inventory_to_dict (in_to_text w) i), dr_execution = Some (plan_to_dict p),
            dr_provenance = source_lock_info_to_dict provenance, dr_warnings = warnings, dr_errors = [],
            dr_status = ''ok''\<rparr>))))"

definition base_error_report ::
    "installation \<Rightarrow> string \<Rightarrow> string \<Rightarrow> runtime_config option \<Rightarrow> inventory option \<Rightarrow> exn + (string, pyval) dict" where
  "base_error_report w message error_type c hw =
     and_then (collect_environment w hw) (\<lambda>environment.
     and_then
       (case c of
          Some cfg \<Rightarrow> and_then (collect_provenance w cfg) (\<lambda>(provenance, _). Inr (source_lock_info_to_dict provenance))
        | None \<Rightarrow>
            and_then (read_source_lock w) (\<lambda>(locked, status).
              Inr [(''locked_upstream_commit'', opt_str locked), (''configured_upstream_revision'', PNone),
                   (''upstream_revision_matches'', PNone), (''source_lock_status'', PStr status)])) (\<lambda>provenance.
       Inr [(''schema_version'', PInt 1), (''status'', PStr ''error''),
            (''project'', dict_value [(''name'', PStr ''openbmb-voxcpm2-inference''),
                                      (''version'', PStr (in_project_version w))]),
            (''config'', opt_dict (map_option to_diagnostic_dict c)),
            (''environment'', dict_value (environment_info_to_dict environment)),
            (''hardware'', opt_dict (map_option (inventory_to_dict (in_to_text w)) hw)),
            (''execution'', PNone), (''provenance'', dict_value provenance), (''warnings'', PList []),
            (''errors'', PList [dict_value [(''type'', PStr error_type), (''message'', PStr message)]])]))"

section \<open>Printing\<close>

text \<open>
  What \<open>json.dumps(payload, sort_keys=True, allow_nan=False)\<close> rejects: the first offending value in the
  order of the sorted keys. The dicts of a report have string keys only; other keys are not
  distinguished here.
\<close>

fun json_check :: "pyval \<Rightarrow> exn + unit"
  and json_items :: "(pyval \<times> pyval) list \<Rightarrow> (string \<times> (exn + unit)) list"
  and json_members :: "pyval list \<Rightarrow> (exn + unit) list"
where
  "json_check (PFloat f) =
     (if isfinite f then Inr () else Inl (ValueError ''Out of range float values are not JSON compliant''))"
| "json_check (PList vs) = and_then (map_raise (\<lambda>r. r) (json_members vs)) (\<lambda>_. Inr ())"
| "json_check (PTuple vs) = and_then (map_raise (\<lambda>r. r) (json_members vs)) (\<lambda>_. Inr ())"
| "json_check (PDict items) =
     and_then (map_raise (\<lambda>r. r) (map snd (sort_key fst (json_items items)))) (\<lambda>_. Inr ())"
| "json_check (PObj name) = Inl (TypeError (''Object of type '' @ name @ '' is not JSON serializable''))"
| "json_check PNone = Inr ()"
| "json_check (PBool _) = Inr ()"
| "json_check (PInt _) = Inr ()"
| "json_check (PStr _) = Inr ()"
| "json_items [] = []"
| "json_items ((k, v) # items) =
     (if is_str k then (str_of k, json_check v)
      else ([], Inl (TypeError ''keys must be str, int, float, bool or None''))) # json_items items"
| "json_members [] = []"
| "json_members (v # vs) = json_check v # json_members vs"

text \<open>
  The two output streams: what was written, documents as values, and what the next writes to a stream
  answer, an exception or \<open>None\<close> for success; a write beyond the list succeeds.
\<close>

record console =
  co_out :: "pyval list"
  co_err :: "string list"
  co_answers :: "exn option list"

definition console_answer :: "console \<Rightarrow> (exn + unit) \<times> console" where
  "console_answer con =
     (case co_answers con of
        [] \<Rightarrow> (Inr (), con)
      | a # rest \<Rightarrow> (case a of None \<Rightarrow> Inr () | Some e \<Rightarrow> Inl e, con\<lparr>co_answers := rest\<rparr>))"

definition print_document :: "pyval \<Rightarrow> console \<Rightarrow> (exn + unit) \<times> console" where
  "print_document doc con =
     (case json_check doc of
        Inl e \<Rightarrow> (Inl e, con)
      | Inr _ \<Rightarrow>
         (case console_answer con of
            (Inl e, con') \<Rightarrow> (Inl e, con')
          | (Inr _, con') \<Rightarrow> (Inr (), con'\<lparr>co_out := co_out con' @ [doc]\<rparr>)))"

definition emit :: "(string, pyval) dict \<Rightarrow> console \<Rightarrow> (exn + unit) \<times> console" where
  "emit payload con = print_document (dict_value payload) con"

definition complain :: "string \<Rightarrow> console \<Rightarrow> (exn + unit) \<times> console" where
  "complain line con =
     (case console_answer con of
        (Inl e, con') \<Rightarrow> (Inl e, con')
      | (Inr _, con') \<Rightarrow> (Inr (), con'\<lparr>co_err := co_err con' @ [line]\<rparr>))"

section \<open>main\<close>

text \<open>The body of the \<open>try\<close>, with the values of \<open>config\<close> and \<open>inventory\<close> where it ends.\<close>

definition doctor_body ::
    "installation \<Rightarrow> console \<Rightarrow> runtime_config option \<times> inventory option \<times> (exn + unit) \<times> console" where
  "doctor_body w con =
     (case from_mapping (environ_mapping (in_environ w)) of
        Inl e \<Rightarrow> (None, None, Inl e, con)
      | Inr c \<Rightarrow>
         (case detect_hardware (in_host w) (in_torch w) of
            Inl e \<Rightarrow> (Some c, None, Inl e, con)
          | Inr i \<Rightarrow>
             (case build_doctor_report w c (Some i) of
                Inl e \<Rightarrow> (Some c, Some i, Inl e, con)
              | Inr rep \<Rightarrow> (Some c, Some i, emit (doctor_report_to_dict rep) con))))"

text \<open>The three handlers differ in the message and the exit code.\<close>

definition report_failure ::
    "installation \<Rightarrow> runtime_config option \<Rightarrow> inventory option \<Rightarrow> exn \<Rightarrow> string \<Rightarrow> int \<Rightarrow> console \<Rightarrow>
     (exn + int) \<times> console" where
  "report_failure w c hw error message code con =
     (case base_error_report w message (exn_type_name error) c hw of
        Inl e \<Rightarrow> (Inl e, con)
      | Inr payload \<Rightarrow>
         (case emit payload con of
            (Inl e, con1) \<Rightarrow> (Inl e, con1)
          | (Inr _, con1) \<Rightarrow>
             (case complain (''voxcpm-doctor: '' @ message) con1 of
                (Inl e, con2) \<Rightarrow> (Inl e, con2)
              | (Inr _, con2) \<Rightarrow> (Inr code, con2))))"

text \<open>\<open>parsed\<close>: what \<open>parse_args\<close> of \<open>argparse\<close> does with the arguments, of which the command has none.\<close>

definition doctor_main :: "exn + unit \<Rightarrow> installation \<Rightarrow> console \<Rightarrow> (exn + int) \<times> console" where
  "doctor_main parsed w con =
     (case parsed of
        Inl e \<Rightarrow> (Inl e, con)
      | Inr _ \<Rightarrow>
         (case doctor_body w con of
            (c, hw, Inr _, con') \<Rightarrow> (Inr 0, con')
          | (c, hw, Inl e, con') \<Rightarrow>
             (case e of
                ConfigurationError variable reason \<Rightarrow>
                  report_failure w c hw e (variable @ '': invalid configuration value'') 2 con'
              | DeviceExn _ message \<Rightarrow> report_failure w c hw e message 2 con'
              | _ \<Rightarrow>
                  if is_Exception e then report_failure w c hw e ''unexpected internal error'' 1 con'
                  else (Inl e, con'))))"

section \<open>Every report is a JSON document\<close>

definition json_values :: "(string, pyval) dict \<Rightarrow> bool" where
  "json_values d \<longleftrightarrow> list_all (\<lambda>(_, v). json_check v = Inr ()) d"

lemma json_values_simps [simp]:
  "json_values []" "json_values ((k, v) # d) \<longleftrightarrow> json_check v = Inr () \<and> json_values d"
  by (simp_all add: json_values_def)

lemma map_raise_all_Inr: "(\<forall>r \<in> set rs. r = Inr ()) \<Longrightarrow> map_raise (\<lambda>r. r) rs = Inr (map (\<lambda>_. ()) rs)"
  by (induction rs) auto

lemma json_items_dict: "json_items (map (\<lambda>(k, v). (PStr k, v)) d) = map (\<lambda>(k, v). (k, json_check v)) d"
  by (induction d) auto

lemma json_dict_value [simp]: "json_values d \<Longrightarrow> json_check (dict_value d) = Inr ()"
  by (simp add: dict_value_def json_items_dict json_values_def list_all_iff map_raise_all_Inr split_beta)

lemma json_members_map: "json_members vs = map json_check vs"
  by (induction vs) auto

lemma json_list [simp]: "list_all (\<lambda>v. json_check v = Inr ()) vs \<Longrightarrow> json_check (PList vs) = Inr ()"
  by (simp add: json_members_map list_all_iff map_raise_all_Inr)

lemma json_options [simp]:
  "json_check (opt_str s) = Inr ()" "json_check (opt_int i) = Inr ()" "json_check (opt_bool b) = Inr ()"
  "json_check (opt_dict d) = Inr () \<longleftrightarrow> (case d of None \<Rightarrow> True | Some x \<Rightarrow> json_check (dict_value x) = Inr ())"
  by (simp_all add: opt_str_def opt_int_def opt_bool_def opt_dict_def split: option.split)

lemma json_opt_float: "(case f of None \<Rightarrow> True | Some x \<Rightarrow> isfinite x) \<Longrightarrow> json_check (opt_float f) = Inr ()"
  by (cases f) (auto simp: opt_float_def)

declare json_check.simps(2-4) [simp del]

lemma json_set: "json_values d \<Longrightarrow> json_check v = Inr () \<Longrightarrow> json_values (dict_set k v d)"
  by (induction d) auto

lemma json_pop: "json_values d \<Longrightarrow> json_values (dict_pop k d)"
  by (induction d) auto

lemma json_hidden:
  "json_values d \<Longrightarrow>
   json_values (fold (\<lambda>(name, v) d. dict_set (name @ ''_configured'') (PBool (\<not> blank v)) (dict_pop name d)) fs d)"
proof (induction fs arbitrary: d)
  case Nil
  then show ?case by simp
next
  case (Cons f fs)
  obtain n v where f: "f = (n, v)" by (cases f)
  show ?case unfolding fold_Cons f comp_def prod.case
    by (rule Cons.IH) (intro json_set json_pop Cons.prems json_check.simps)
qed

lemma json_environment: "json_values (environment_info_to_dict e)"
proof -
  have "json_values (map (\<lambda>(k, v). (k, opt_str v)) d)" for d :: "(string, string option) dict"
    by (induction d) auto
  then show ?thesis by (simp add: environment_info_to_dict_def)
qed

lemma json_lock: "json_values (source_lock_info_to_dict s)"
  by (simp add: source_lock_info_to_dict_def)

lemma json_plan: "json_values (plan_to_dict p)"
  by (simp add: plan_to_dict_def list_all_iff)

lemma json_config:
  assumes "config_ok c"
  shows "json_values (to_diagnostic_dict c)"
proof -
  have "json_values (to_redacted_dict c)"
    using assms
    by (simp add: to_redacted_dict_def json_opt_float config_ok_def fields_ok_def positive_float_fields_def
        positive_float_def nonnegative_float_def split: option.splits)
  then show ?thesis unfolding to_diagnostic_dict_def by (intro json_set json_hidden json_check.simps)
qed

text \<open>A detected inventory: names are texts, and the visible devices are a count.\<close>

definition names_are_texts :: "string + torch_module \<Rightarrow> bool" where
  "names_are_texts torch \<longleftrightarrow> (\<forall>tm i n. torch = Inr tm \<longrightarrow> tm_name tm i = Inr n \<longrightarrow> is_str n)"

definition plain_name :: "gpu_info \<Rightarrow> bool" where
  "plain_name g \<longleftrightarrow> gi_name g = PNone \<or> is_str (gi_name g)"

lemma probe_gpu_name:
  "(\<forall>j n. tm_name tm j = Inr n \<longrightarrow> is_str n) \<Longrightarrow> probe_gpu tm i = Inr (g, hints) \<Longrightarrow> plain_name g"
  by (auto simp: probe_gpu_def mk_gpu_info_def Let_def raises plain_name_def split: sum.splits if_splits)

lemma probe_torch_names:
  assumes "names_are_texts torch" and "probe_torch torch = Inr (version, runtime, status, gpus, hints)"
  shows "list_all plain_name gpus"
proof (cases torch)
  case (Inl e)
  with assms(2) show ?thesis by (simp add: probe_torch_def)
next
  case (Inr tm)
  from assms(1) Inr have n: "\<forall>j n. tm_name tm j = Inr n \<longrightarrow> is_str n" by (simp add: names_are_texts_def)
  from assms(2) Inr obtain avail k gpu_notes where "probe_gpus tm avail k = Inr (gpus, gpu_notes)"
    by (auto simp: probe_torch_def raises split: prod.splits)
  then obtain found where "gpus = [] \<or> gpus = map fst found \<and> map_raise (probe_gpu tm) [0..k - 1] = Inr found"
    by (auto simp: probe_gpus_def raises simp del: map_raise.simps split: if_splits)
  moreover have "map_raise (probe_gpu tm) js = Inr found \<Longrightarrow> list_all plain_name (map fst found)" for js found
    by (induction js arbitrary: found) (auto simp: and_then_eq_Inr intro: probe_gpu_name [OF n])
  ultimately show ?thesis by auto
qed

lemma detected_inventory:
  assumes "names_are_texts torch" and "detect_hardware h torch = Inr i"
  shows "list_all plain_name (inv_gpus i) \<and>
    (visible_device_mapping i = PNone \<or> (\<exists>gpus. visible_device_mapping i = visible_mapping gpus))"
proof -
  from assms(2) obtain version runtime status gpus hints hw where
    t: "probe_torch torch = Inr (version, runtime, status, gpus, hints)"
    and m: "mk_inventory hw (map Entry_Info gpus) (Some (int (length gpus))) = Inr i"
    and v: "visible_device_mapping hw = PNone \<or> visible_device_mapping hw = visible_mapping gpus"
    by (auto simp: detect_hardware_def Let_def raises)
  have "indexed_gpus gpus" using probe_torch_outcome [of torch] t by simp
  from indexed_gpus_inventory [OF this, of hw] m have "inv_gpus i = gpus" by simp
  moreover from m have "visible_device_mapping i = visible_device_mapping hw"
    by (auto simp: mk_inventory_def raises)
  ultimately show ?thesis using probe_torch_names [OF assms(1) t] v by auto
qed

definition json_pairs :: "(pyval, pyval) dict \<Rightarrow> bool" where
  "json_pairs d \<longleftrightarrow> list_all (\<lambda>(k, v). is_str k \<and> json_check v = Inr ()) d"

lemma json_pairs_dict: "json_pairs d \<Longrightarrow> json_check (PDict d) = Inr ()"
proof -
  assume "json_pairs d"
  then have "\<exists>e. PDict d = dict_value e \<and> json_values e"
    by (intro exI [of _ "map (\<lambda>(k, v). (str_of k, v)) d"])
      (auto simp: json_pairs_def json_values_def dict_value_def list_all_iff intro!: map_idI [symmetric] elim!: is_str.elims)
  then show ?thesis by auto
qed

lemma json_visible: "json_check (safe_visible_mapping t (visible_mapping gpus)) = Inr ()"
proof -
  have members: "safe_members t (map PInt is) = map PInt is" for "is" by (induction "is") auto
  have list: "json_check (PList (map PInt is)) = Inr ()" for "is" by (simp add: list_all_iff)
  have index: "map (plain_index \<circ> PInt) is = map PInt is" for "is" by simp
  show ?thesis
    by (simp add: visible_mapping_def safe_visible_mapping.simps members index list json_pairs_dict json_pairs_def
        redacted_def del: json_list)
qed

lemma json_inventory:
  assumes "names_are_texts torch" and "detect_hardware h torch = Inr i"
  shows "json_values (inventory_to_dict t i)"
proof -
  note d = detected_inventory [OF assms]
  have "json_check (gpu_to_dict g) = Inr ()" if "plain_name g" for g
    using that by (cases "gi_name g") (auto simp: gpu_to_dict_def plain_name_def json_pairs_def intro!: json_pairs_dict)
  with d have "list_all (\<lambda>v. json_check v = Inr ()) (map gpu_to_dict (inv_gpus i))" by (auto simp: list_all_iff)
  moreover from d json_visible have "json_check (safe_visible_mapping t (visible_device_mapping i)) = Inr ()"
    by (auto simp: safe_visible_mapping.simps [of t PNone])
  ultimately show ?thesis by (simp add: inventory_to_dict_def list_all_iff)
qed

section \<open>Exit codes\<close>

text \<open>
  The answers as their packages document them: \<open>os.getcwd\<close> raises only \<open>OSError\<close>, \<open>subprocess.run\<close> only
  \<open>OSError\<close> and \<open>SubprocessError\<close>, and torch names a GPU by a text. Nothing is assumed of the files.
\<close>

definition documented :: "installation \<Rightarrow> bool" where
  "documented w \<longleftrightarrow>
     (\<forall>e. in_cwd w = Inl e \<longrightarrow> is_os_error e) \<and>
     (\<forall>args env e. in_run w args env = Inl e \<longrightarrow> is_os_error e \<or> is_subprocess_error e) \<and>
     names_are_texts (in_torch w)"

text \<open>What the command examines: the configuration, the hardware and the plan for them.\<close>

definition examined :: "installation \<Rightarrow> exn + runtime_config \<times> inventory \<times> plan" where
  "examined w =
     and_then (from_mapping (environ_mapping (in_environ w))) (\<lambda>c.
     and_then (detect_hardware (in_host w) (in_torch w)) (\<lambda>i.
     and_then (resolve_execution_plan c i) (\<lambda>p. Inr (c, i, p))))"

fun failure_code :: "exn \<Rightarrow> int" where
  "failure_code (ConfigurationError _ _) = 2"
| "failure_code (DeviceExn _ _) = 2"
| "failure_code _ = 1"

fun failure_message :: "exn \<Rightarrow> string" where
  "failure_message (ConfigurationError variable _) = variable @ '': invalid configuration value''"
| "failure_message (DeviceExn _ message) = message"
| "failure_message _ = ''unexpected internal error''"

definition idle :: console where
  "idle = \<lparr>co_out = [], co_err = [], co_answers = []\<rparr>"

lemma git_commit_in_documented:
  "documented w \<Longrightarrow> \<exists>commit. git_commit_in w executable roots = Inr commit"
  by (induction roots) (auto simp: documented_def split: sum.split)

lemma environment_collected: "documented w \<Longrightarrow> \<exists>e. collect_environment w hw = Inr e"
proof -
  assume w: "documented w"
  then have "\<exists>commit. discover_git_commit w = Inr commit"
    using git_commit_in_documented [OF w]
    by (auto simp: discover_git_commit_def documented_def split: option.split sum.split)
  then show ?thesis by (auto simp: collect_environment_def Let_def)
qed

lemma provenance_lock_error: "read_source_lock w = Inl e \<Longrightarrow> collect_provenance w c = Inl e"
  by (simp add: collect_provenance_def)

lemma provenance_returns: "read_source_lock w = Inr r \<Longrightarrow> \<exists>s ws. collect_provenance w c = Inr (s, ws)"
  by (cases r) (simp add: collect_provenance_def Let_def)

lemma resolve_normalized_plain: "outcome is_Exception (\<lambda>_. True) (resolve_normalized d g n hw)"
  by (cases "resolve_normalized d g n hw")
    (auto simp: resolve_normalized_def validate_gpu_selection_def Let_def cuda_plan_def cpu_plan_def device_error_def
      mk_plan_def check_plan_def plan_error_def raises split: if_splits option.splits)

lemma plan_raises_plain:
  assumes "config_ok c"
  shows "outcome is_Exception (\<lambda>_. True) (resolve_execution_plan c i)"
proof -
  have m: "outcome is_Exception config_ok (materialize_execution_profile (visible_gpu_indices i) c)"
  proof (cases "materialize_execution_profile (visible_gpu_indices i) c")
    case (Inr c')
    with materialize_config_ok [OF assms Inr] show ?thesis by simp
  next
    case (Inl e)
    have "\<not> is_Exception e \<Longrightarrow> False"
      using Inl post_init_outcome
      by (cases e) (force simp: materialize_execution_profile_def materialize_cpu_def materialize_cuda_single_def
          materialize_cuda_replica_def materialize_auto_def replace_config_def compatible_device_def profile_error_def
          Let_def raises outcome_def split: option.splits execution_profile.splits if_splits list.splits sum.splits)+
    with Inl show ?thesis by auto
  qed
  show ?thesis unfolding resolve_execution_plan_def
    by (rule outcome_and_then [OF m]) (simp add: resolve_config resolve_normalized_plain)
qed

lemma examined_raises_plain: "examined w = Inl e \<Longrightarrow> is_Exception e"
proof -
  assume e: "examined w = Inl e"
  have c: "outcome config_error config_ok (from_mapping m)" for m
    unfolding from_mapping_def by (rule outcome_and_then [OF config_arguments_outcome post_init_outcome])
  have config: "config_error e \<Longrightarrow> is_Exception e" and inventory: "inventory_error e \<Longrightarrow> is_Exception e"
    by (cases e; simp)+
  from e consider
      "from_mapping (environ_mapping (in_environ w)) = Inl e"
    | "detect_hardware (in_host w) (in_torch w) = Inl e"
    | cfg i where "from_mapping (environ_mapping (in_environ w)) = Inr cfg" "resolve_execution_plan cfg i = Inl e"
    by (auto simp: examined_def raises)
  then show ?thesis
  proof cases
    case 1
    with c [of "environ_mapping (in_environ w)"] config show ?thesis by simp
  next
    case 2
    with detection_is_consistent [of "in_host w" "in_torch w"] inventory show ?thesis by simp
  next
    case 3
    with c [of "environ_mapping (in_environ w)"] plan_raises_plain [of cfg i] show ?thesis by simp
  qed
qed

lemma main_failure:
  assumes "doctor_body w con = (c, hw, Inl e, con')" and "is_Exception e"
  shows "doctor_main (Inr ()) w con = report_failure w c hw e (failure_message e) (failure_code e) con'"
  using assms by (cases e) (simp_all add: doctor_main_def)

text \<open>The values \<open>main\<close> holds when it fails can be printed.\<close>

definition printable :: "installation \<Rightarrow> runtime_config option \<Rightarrow> inventory option \<Rightarrow> bool" where
  "printable w c hw \<longleftrightarrow>
     (case c of None \<Rightarrow> True | Some cfg \<Rightarrow> config_ok cfg) \<and>
     (case hw of None \<Rightarrow> True | Some i \<Rightarrow> json_values (inventory_to_dict (in_to_text w) i))"

definition error_entry :: "exn \<Rightarrow> pyval" where
  "error_entry e =
     PList [dict_value [(''type'', PStr (exn_type_name e)), (''message'', PStr (failure_message e))]]"

lemma failure_reported:
  assumes "documented w" and "read_source_lock w = Inr r" and "printable w c hw"
  shows "\<exists>doc. report_failure w c hw e (failure_message e) code idle =
      (Inr code, idle\<lparr>co_out := [dict_value doc], co_err := [''voxcpm-doctor: '' @ failure_message e]\<rparr>) \<and>
    dict_get doc ''status'' = Some (PStr ''error'') \<and> dict_get doc ''errors'' = Some (error_entry e) \<and>
    dict_get doc ''execution'' = Some PNone"
proof -
  from environment_collected [OF assms(1)] obtain env where env: "collect_environment w hw = Inr env" by blast
  obtain locked status where r: "r = (locked, status)" by (cases r)
  have "\<exists>p. (case c of
          Some cfg \<Rightarrow> and_then (collect_provenance w cfg) (\<lambda>(provenance, _). Inr (source_lock_info_to_dict provenance))
        | None \<Rightarrow>
            and_then (read_source_lock w) (\<lambda>(locked, status).
              Inr [(''locked_upstream_commit'', opt_str locked), (''configured_upstream_revision'', PNone),
                   (''upstream_revision_matches'', PNone), (''source_lock_status'', PStr status)])) = Inr p \<and>
      json_values p"
    using provenance_returns [OF assms(2)] assms(2) r
    by (cases c) (auto simp: json_lock, metis (no_types, lifting) and_then_Inr case_prod_conv json_lock)
  then obtain p where p: "base_error_report w (failure_message e) (exn_type_name e) c hw = Inr
      [(''schema_version'', PInt 1), (''status'', PStr ''error''),
       (''project'', dict_value [(''name'', PStr ''openbmb-voxcpm2-inference''),
                                      (''version'', PStr (in_project_version w))]),
       (''config'', opt_dict (map_option to_diagnostic_dict c)),
       (''environment'', dict_value (environment_info_to_dict env)),
       (''hardware'', opt_dict (map_option (inventory_to_dict (in_to_text w)) hw)),
       (''execution'', PNone), (''provenance'', dict_value p), (''warnings'', PList []),
       (''errors'', error_entry e)]" "json_values p"
    by (auto simp: base_error_report_def env error_entry_def)
  have "json_check (opt_dict (map_option to_diagnostic_dict c)) = Inr ()"
    "json_check (opt_dict (map_option (inventory_to_dict (in_to_text w)) hw)) = Inr ()"
    using assms(3) json_config by (auto simp: printable_def split: option.splits)
  with p(2) json_environment show ?thesis
    by (simp add: report_failure_def p(1) emit_def print_document_def complain_def console_answer_def idle_def error_entry_def
        del: json_options) (intro exI conjI, rule refl, simp_all)
qed

lemma report_lock_error:
  assumes "documented w" and "read_source_lock w = Inl e"
  shows "report_failure w c hw x m code con = (Inl e, con)"
proof -
  from environment_collected [OF assms(1)] obtain env where "collect_environment w hw = Inr env" by blast
  with assms(2) show ?thesis
    by (cases c) (simp_all add: report_failure_def base_error_report_def provenance_lock_error)
qed

lemma report_printed:
  assumes "documented w" and "read_source_lock w = Inr r" and "config_ok c"
    and "json_values (inventory_to_dict (in_to_text w) i)" and "resolve_execution_plan c i = Inr p"
  shows "\<exists>rep. build_doctor_report w c (Some i) = Inr rep \<and> json_values (doctor_report_to_dict rep) \<and>
    dr_status rep = ''ok'' \<and> dr_execution rep = Some (plan_to_dict p) \<and> dr_errors rep = []"
proof -
  from environment_collected [OF assms(1)] obtain env where env: "collect_environment w (Some i) = Inr env" by blast
  from provenance_returns [OF assms(2)] obtain s ws where "collect_provenance w c = Inr (s, ws)" by blast
  then show ?thesis
    by (simp add: build_doctor_report_def env assms(5) doctor_report_to_dict_def json_environment json_lock json_plan
        json_config [OF assms(3)] assms(4) list_all_iff)
qed

text \<open>C25. How the doctor ends. Where the packages answer as documented and the source lock can be judged, it
  prints exactly one JSON document: with exit code 0 the report of the resolved plan; otherwise a document with
  status \<open>error\<close>, the class of the exception and no plan, one line of complaint, and exit code 2 for an error of
  the configuration or the device and 1 for every other, a profile the hardware does not satisfy included. A
  source lock that cannot be judged (whose text makes the JSON reader raise anything but its own error) ends
  it with that exception and nothing printed, whatever else is found.\<close>

theorem doctor_exit_codes:
  assumes "documented w"
  shows "case read_source_lock w of
      Inl e \<Rightarrow> doctor_main (Inr ()) w idle = (Inl e, idle)
    | Inr _ \<Rightarrow>
       (case examined w of
          Inr (c, i, p) \<Rightarrow>
            \<exists>doc. doctor_main (Inr ()) w idle = (Inr 0, idle\<lparr>co_out := [dict_value doc]\<rparr>) \<and>
              dict_get doc ''status'' = Some (PStr ''ok'') \<and>
              dict_get doc ''execution'' = Some (dict_value (plan_to_dict p)) \<and>
              dict_get doc ''errors'' = Some (PList [])
        | Inl e \<Rightarrow>
            \<exists>doc. doctor_main (Inr ()) w idle =
                (Inr (failure_code e),
                 idle\<lparr>co_out := [dict_value doc], co_err := [''voxcpm-doctor: '' @ failure_message e]\<rparr>) \<and>
              dict_get doc ''status'' = Some (PStr ''error'') \<and>
              dict_get doc ''errors'' = Some (error_entry e) \<and> dict_get doc ''execution'' = Some PNone)"
proof -
  let ?cfg = "from_mapping (environ_mapping (in_environ w))" and ?hw = "detect_hardware (in_host w) (in_torch w)"
  have cfg: "config_ok c" if "?cfg = Inr c" for c
    using that outcome_and_then [OF config_arguments_outcome post_init_outcome, of "environ_mapping (in_environ w)" "\<lambda>c. c"]
    by (simp add: from_mapping_def)
  have names: "names_are_texts (in_torch w)" using assms by (simp add: documented_def)
  have hw: "json_values (inventory_to_dict (in_to_text w) i)" if "?hw = Inr i" for i
    by (rule json_inventory [OF names that])
  show ?thesis
  proof (cases "read_source_lock w")
    case (Inl e)
    have "doctor_main (Inr ()) w idle = (Inl e, idle)"
    proof (cases "doctor_body w idle")
      case (fields c hw res con')
      have con: "con' = idle \<and> (\<exists>x. res = Inl x)"
        using fields environment_collected [OF assms] provenance_lock_error [OF Inl]
        by (auto simp: doctor_body_def build_doctor_report_def raises split: sum.splits)
      then obtain x where x: "res = Inl x" by blast
      have plain: "is_Exception x \<or> x = e"
        using fields x examined_raises_plain [of w x] provenance_lock_error [OF Inl]
        by (auto simp: doctor_body_def build_doctor_report_def examined_def raises split: sum.splits)
      show ?thesis
        using plain main_failure [of w idle c hw x idle] fields x con report_lock_error [OF assms Inl]
        by (cases "is_Exception x") (auto simp: doctor_main_def split: exn.split)
    qed
    with Inl show ?thesis by simp
  next
    case (Inr r)
    show ?thesis
    proof (cases "examined w")
      case e: (Inl e)
      then consider
          "doctor_body w idle = (None, None, Inl e, idle)"
        | c where "?cfg = Inr c" "doctor_body w idle = (Some c, None, Inl e, idle)"
        | c i where "?cfg = Inr c" "?hw = Inr i" "doctor_body w idle = (Some c, Some i, Inl e, idle)"
        by (auto simp: examined_def doctor_body_def build_doctor_report_def raises)
      then obtain c hw where b: "doctor_body w idle = (c, hw, Inl e, idle)" "printable w c hw"
        by cases (auto simp: printable_def cfg hw)
      from failure_reported [OF assms Inr b(2), of e "failure_code e"] main_failure [OF b(1) examined_raises_plain [OF e]]
      show ?thesis using Inr e by simp
    next
      case v: (Inr v)
      then obtain c i p where v': "v = (c, i, p)" "?cfg = Inr c" "?hw = Inr i" "resolve_execution_plan c i = Inr p"
        by (auto simp: examined_def raises)
      from report_printed [OF assms Inr cfg [OF v'(2)] hw [OF v'(3)] v'(4)] obtain rep where
        rep: "build_doctor_report w c (Some i) = Inr rep" "json_values (doctor_report_to_dict rep)"
          "dr_status rep = ''ok''" "dr_execution rep = Some (plan_to_dict p)" "dr_errors rep = []"
        by blast
      have "doctor_main (Inr ()) w idle = (Inr 0, idle\<lparr>co_out := [dict_value (doctor_report_to_dict rep)]\<rparr>)"
        using rep(1,2) v' by (simp add: doctor_main_def doctor_body_def emit_def print_document_def console_answer_def idle_def)
      moreover have "dict_get (doctor_report_to_dict rep) ''status'' = Some (PStr ''ok'') \<and>
          dict_get (doctor_report_to_dict rep) ''execution'' = Some (dict_value (plan_to_dict p)) \<and>
          dict_get (doctor_report_to_dict rep) ''errors'' = Some (PList [])"
        using rep(3-5) by (simp add: doctor_report_to_dict_def opt_dict_def)
      ultimately show ?thesis using Inr v v'(1) by (simp del: map_of.simps) blast
    qed
  qed
qed

text \<open>A machine without torch and without files, whose service is configured for a GPU by its profile.\<close>

definition bare_installation :: "(string, string) dict \<Rightarrow> installation" where
  "bare_installation env =
     \<lparr>in_environ = env, in_host = bare_host, in_torch = Inl ''ModuleNotFoundError'', in_version = (\<lambda>_. Inl ''PackageNotFoundError''),
      in_python_version = ''3.12.0'', in_platform = ''linux'', in_project_version = ''0.1.0'',
      in_package_root = path_of ''/p'', in_prefix = path_of ''/usr'', in_cwd = Inr (path_of ''/w''),
      in_read_text = (\<lambda>_. Inl (OtherError ''FileNotFoundError'' ''no such file'')),
      in_loads = (\<lambda>_. Inl (OtherError ''JSONDecodeError'' ''no value'')), in_git = None,
      in_run = (\<lambda>_ _. Inl (OtherError ''FileNotFoundError'' ''no such file'')), in_to_text = (\<lambda>_. [])\<rparr>"

lemma bare_documented: "documented (bare_installation env)"
  by (simp add: documented_def bare_installation_def names_are_texts_def os_error_names_def)

theorem doctor_exit_codes_witness:
  "\<exists>doc. doctor_main (Inr ()) (bare_installation [(''VOXCPM_PROFILE'', ''cuda-single'')]) idle =
      (Inr 1, idle\<lparr>co_out := [dict_value doc], co_err := [''voxcpm-doctor: unexpected internal error'']\<rparr>) \<and>
    dict_get doc ''errors'' =
      Some (PList [dict_value [(''type'', PStr ''ProfileResolutionError''),
                               (''message'', PStr ''unexpected internal error'')]])"
proof -
  let ?w = "bare_installation [(''VOXCPM_PROFILE'', ''cuda-single'')]"
  have "isOK (read_source_lock ?w)" and
    "case examined ?w of Inl e \<Rightarrow> exn_type_name e = ''ProfileResolutionError'' \<and> failure_code e = 1 \<and>
       failure_message e = ''unexpected internal error'' | Inr _ \<Rightarrow> False"
    by code_simp+
  with doctor_exit_codes [OF bare_documented, of "[(''VOXCPM_PROFILE'', ''cuda-single'')]"] show ?thesis
    by (auto simp: isOK_iff error_entry_def split: sum.splits)
qed

section \<open>Secrets\<close>

text \<open>The variables whose values the doctor keeps to itself: the token and the paths.\<close>

definition private_variables :: "string list" where
  "private_variables =
     [''VOXCPM_API_TOKEN'', ''VOXCPM_MODEL_PATH'', ''VOXCPM_OUTPUT_DIR'', ''VOXCPM_TMP_DIR'', ''VOXCPM_CACHE_DIR'',
      ''VOXCPM_LOG_FILE'']"

definition given :: "string \<Rightarrow> string option \<Rightarrow> bool" where
  "given k v \<longleftrightarrow>
     (case v of None \<Rightarrow> False | Some s \<Rightarrow> if k = ''VOXCPM_API_TOKEN'' then s \<noteq> [] else strip s \<noteq> [])"

definition private_from :: "mapping \<Rightarrow> runtime_config \<Rightarrow> runtime_config" where
  "private_from m c =
     c\<lparr>model_path := lexical m ''VOXCPM_MODEL_PATH'' None True, api_token := token_value m,
       output_dir := lexical m ''VOXCPM_OUTPUT_DIR'' None True, tmp_dir := lexical m ''VOXCPM_TMP_DIR'' None True,
       cache_dir := lexical m ''VOXCPM_CACHE_DIR'' None True, log_file := lexical m ''VOXCPM_LOG_FILE'' None True\<rparr>"

lemma private_from_fields [simp]:
  "device (private_from m c) = device c" "profile (private_from m c) = profile c"
  "gpu_devices (private_from m c) = gpu_devices c" "workers (private_from m c) = workers c"
  "upstream_revision (private_from m c) = upstream_revision c"
  by (simp_all add: private_from_def)

lemma from_mapping_arguments: "from_mapping m = config_arguments m"
  using config_arguments_outcome [of m] by (cases "config_arguments m") (simp_all add: from_mapping_def post_init_ok)

lemma and_then_assoc: "and_then (and_then m f) g = and_then m (\<lambda>x. and_then (f x) g)"
  by (cases m) simp_all

lemma mapping_reads:
  assumes "m' k = m k"
  shows "enum_value m' k d al ci = enum_value m k d al ci" "boolean m' k b = boolean m k b"
    "integer m' k n pos = integer m k n pos" "optional_float m' k pos = optional_float m k pos"
    "lexical m' k t opt = lexical m k t opt"
  using assms by (simp_all add: enum_value_def boolean_def integer_def optional_float_def lexical_def)

lemma from_mapping_private:
  assumes "\<And>k. k \<notin> set private_variables \<Longrightarrow> m' k = m k"
  shows "from_mapping m' = and_then (from_mapping m) (\<lambda>c. Inr (private_from m' c))"
proof -
  have r: "m' k = m k" if "k \<notin> set private_variables" for k by (rule assms [OF that])
  note reads = mapping_reads [where m' = m' and m = m, OF r]
  show ?thesis
    unfolding from_mapping_arguments config_arguments_def port_def and_then_assoc
    by (simp add: reads r private_variables_def gpu_var_def workers_var_def private_from_def cong: if_cong)
qed

lemma post_init_private: "post_init (private_from m c) = and_then (post_init c) (\<lambda>x. Inr (private_from m x))"
proof -
  have f: "positive_integer_fields (private_from m x) = positive_integer_fields x"
    "positive_float_fields (private_from m x) = positive_float_fields x"
    "(private_from m x)\<lparr>gpu_devices := g\<rparr> = private_from m (x\<lparr>gpu_devices := g\<rparr>)"
    "cfg_port (private_from m x) = cfg_port x" "queue_timeout_seconds (private_from m x) = queue_timeout_seconds x"
    "min_tmp_free_bytes (private_from m x) = min_tmp_free_bytes x" for x g
    by (simp_all add: private_from_def positive_integer_fields_def positive_float_fields_def)
  show ?thesis by (simp add: post_init_def Let_def f and_then_assoc del: check_each.simps)
qed

lemma replace_config_private:
  "replace_config (private_from m c) d g n = and_then (replace_config c d g n) (\<lambda>x. Inr (private_from m x))"
proof -
  have "(private_from m c)\<lparr>device := d, gpu_devices := g, workers := Some n\<rparr> =
      private_from m (c\<lparr>device := d, gpu_devices := g, workers := Some n\<rparr>)" by (simp add: private_from_def)
  then show ?thesis by (simp add: replace_config_def post_init_private)
qed

lemma and_then_if: "and_then (if b then m else n) f = (if b then and_then m f else and_then n f)"
  by simp

lemma compatible_private: "compatible_device (private_from m c) p dev = compatible_device c p dev"
  by (simp add: compatible_device_def)

lemma workers_private: "(private_from m c)\<lparr>workers := Some n\<rparr> = private_from m (c\<lparr>workers := Some n\<rparr>)"
  by (simp add: private_from_def)

lemmas private_materials =
  compatible_private workers_private replace_config_private post_init_private and_then_assoc and_then_if
  profile_error_def Let_def

lemma materialize_each_private:
  "materialize_cpu (private_from m c) = and_then (materialize_cpu c) (\<lambda>x. Inr (private_from m x))"
  "materialize_cuda_single probe (private_from m c) =
     and_then (materialize_cuda_single probe c) (\<lambda>x. Inr (private_from m x))"
  "materialize_cuda_replica probe (private_from m c) =
     and_then (materialize_cuda_replica probe c) (\<lambda>x. Inr (private_from m x))"
  "materialize_auto probe (private_from m c) =
     and_then (materialize_auto probe c) (\<lambda>x. Inr (private_from m x))"
  subgoal by (simp add: materialize_cpu_def private_materials)
  subgoal by (simp add: materialize_cuda_single_def private_materials cong: if_cong)
  subgoal by (simp add: materialize_cuda_replica_def private_materials cong: if_cong)
  subgoal by (cases "workers c") (simp_all add: materialize_auto_def private_materials cong: if_cong)
  done

lemma materialize_private:
  "materialize_execution_profile probe (private_from m c) =
   and_then (materialize_execution_profile probe c) (\<lambda>x. Inr (private_from m x))"
  by (simp add: materialize_execution_profile_def materialize_each_private split: option.split execution_profile.split)

lemma plan_private: "resolve_execution_plan (private_from m c) i = resolve_execution_plan c i"
  by (simp add: resolve_execution_plan_def materialize_private and_then_assoc)

lemma diagnostic_private:
  assumes "api_token_configured (private_from m c) = api_token_configured c"
    and "map (\<lambda>(n, v). (n, blank v)) (path_fields (private_from m c)) = map (\<lambda>(n, v). (n, blank v)) (path_fields c)"
  shows "to_diagnostic_dict (private_from m c) = to_diagnostic_dict c"
proof -
  have "agree_except (set (map fst (path_fields (private_from m c)))) (to_redacted_dict (private_from m c)) (to_redacted_dict c)"
    using assms(1) by (simp add: agree_except_def path_fields_def to_redacted_dict_def private_from_def)
  from agree_except_hide [OF this assms(2)] show ?thesis by (simp add: to_diagnostic_dict_def)
qed

lemma git_commit_in_private:
  "git_environment env = git_environment (in_environ w) \<Longrightarrow>
   git_commit_in (w\<lparr>in_environ := env\<rparr>) executable roots = git_commit_in w executable roots"
  by (induction roots) (auto split: sum.split)

lemma read_lock_in_private: "read_lock_in (w\<lparr>in_environ := env\<rparr>) paths = read_lock_in w paths"
  by (induction paths) (simp_all split: sum.split)

lemma read_source_lock_private: "read_source_lock (w\<lparr>in_environ := env\<rparr>) = read_source_lock w"
proof -
  have "read_lock_in (w\<lparr>in_environ := env\<rparr>) = read_lock_in w" by (rule ext) (rule read_lock_in_private)
  then show ?thesis by (simp add: read_source_lock_def source_lock_candidates_def)
qed

text \<open>Two environments between which the doctor cannot tell.\<close>

definition same_but_private :: "(string, string) dict \<Rightarrow> (string, string) dict \<Rightarrow> bool" where
  "same_but_private env env' \<longleftrightarrow>
     (\<forall>k. k \<notin> set private_variables \<longrightarrow> dict_get env' k = dict_get env k) \<and>
     list_all (\<lambda>k. given k (dict_get env' k) = given k (dict_get env k)) private_variables"

lemma git_environment_private:
  "same_but_private env env' \<Longrightarrow> git_environment env' = git_environment env"
proof -
  assume s: "same_but_private env env'"
  have "select_environment ks env' = select_environment ks env" if "set ks \<inter> set private_variables = {}" for ks
    using that s by (induction ks) (auto simp: select_environment_def map_filter_simps same_but_private_def split: option.split)
  then show ?thesis by (simp add: git_environment_def private_variables_def)
qed

lemma blank_lexical: "blank (lexical m k None True) \<longleftrightarrow> blank (trimmed (m k))"
  by (auto simp: lexical_def blank_def trimmed_def)

lemma environ_mapping_private:
  assumes "same_but_private env env'"
  shows "k \<notin> set private_variables \<Longrightarrow> environ_mapping env' k = environ_mapping env k"
    and "k \<in> set private_variables \<Longrightarrow> k \<noteq> ''VOXCPM_API_TOKEN'' \<Longrightarrow>
      blank (trimmed (environ_mapping env' k)) = blank (trimmed (environ_mapping env k))"
    and "token_value (environ_mapping env') = None \<longleftrightarrow> token_value (environ_mapping env) = None"
proof -
  show "k \<notin> set private_variables \<Longrightarrow> environ_mapping env' k = environ_mapping env k"
    using assms by (simp add: same_but_private_def environ_mapping_def)
  have b: "blank (trimmed (environ_mapping e k)) \<longleftrightarrow> \<not> given k (dict_get e k)" if "k \<noteq> ''VOXCPM_API_TOKEN''" for e k
    using that by (auto simp: blank_def trimmed_def environ_mapping_def given_def split: option.split)
  have t: "token_value (environ_mapping e) = None \<longleftrightarrow> \<not> given ''VOXCPM_API_TOKEN'' (dict_get e ''VOXCPM_API_TOKEN'')" for e
    by (auto simp: token_value_def environ_mapping_def given_def split: option.split)
  show "k \<in> set private_variables \<Longrightarrow> k \<noteq> ''VOXCPM_API_TOKEN'' \<Longrightarrow>
      blank (trimmed (environ_mapping env' k)) = blank (trimmed (environ_mapping env k))"
    using assms b [of k] by (simp add: same_but_private_def list_all_iff)
  show "token_value (environ_mapping env') = None \<longleftrightarrow> token_value (environ_mapping env) = None"
    using assms t by (simp add: same_but_private_def private_variables_def)
qed

lemma from_mapping_env:
  "same_but_private env env' \<Longrightarrow>
   from_mapping (environ_mapping env') =
   and_then (from_mapping (environ_mapping env)) (\<lambda>c. Inr (private_from (environ_mapping env') c))"
  by (rule from_mapping_private) (rule environ_mapping_private(1))

lemma token_value_nonempty: "token_value m \<noteq> Some []"
  by (simp add: token_value_def)

lemma diagnostic_env:
  assumes "same_but_private env env'" and "from_mapping (environ_mapping env) = Inr c"
  shows "to_diagnostic_dict (private_from (environ_mapping env') c) = to_diagnostic_dict c"
proof -
  let ?m = "environ_mapping env" and ?m' = "environ_mapping env'"
  have "and_then (from_mapping ?m) (\<lambda>c. Inr (private_from ?m c)) = from_mapping ?m"
    by (rule from_mapping_private [symmetric]) simp
  with assms(2) have c: "private_from ?m c = c" by simp
  have f: "api_token (private_from m x) = token_value m"
    "path_fields (private_from m x) =
       map (\<lambda>(n, k). (n, lexical m k None True))
         [(''model_path'', ''VOXCPM_MODEL_PATH''), (''output_dir'', ''VOXCPM_OUTPUT_DIR''),
          (''tmp_dir'', ''VOXCPM_TMP_DIR''), (''cache_dir'', ''VOXCPM_CACHE_DIR''), (''log_file'', ''VOXCPM_LOG_FILE'')]"
    for m x by (simp_all add: private_from_def path_fields_def)
  have "to_diagnostic_dict (private_from ?m' c) = to_diagnostic_dict c"
  proof (rule diagnostic_private)
    show "api_token_configured (private_from ?m' c) = api_token_configured c"
      using environ_mapping_private(3) [OF assms(1)] f(1) [of ?m c] f(1) [of ?m' c] c token_value_nonempty
      by (simp add: api_token_configured_def)
    show "map (\<lambda>(n, v). (n, blank v)) (path_fields (private_from ?m' c)) = map (\<lambda>(n, v). (n, blank v)) (path_fields c)"
      using f(2) [of ?m c] f(2) [of ?m' c] c environ_mapping_private(2) [OF assms(1)]
      by (simp add: blank_lexical private_variables_def)
  qed
  then show ?thesis .
qed

text \<open>C26. What the doctor prints does not depend on the secrets of the service: change the token and the paths in
  its environment in any way, as long as what was set stays set and what was not stays unset, and the documents,
  the complaints and the exit code are the same, on success and in every error report.\<close>

theorem doctor_hides_secrets:
  assumes "same_but_private (in_environ w) env'"
  shows "doctor_main parsed (w\<lparr>in_environ := env'\<rparr>) con = doctor_main parsed w con"
proof -
  let ?w = "w\<lparr>in_environ := env'\<rparr>" and ?p = "private_from (environ_mapping env')"
  have git: "discover_git_commit ?w = discover_git_commit w"
    using git_commit_in_private [OF git_environment_private [OF assms]]
    by (cases "in_git w"; cases "in_cwd w") (simp_all add: discover_git_commit_def del: git_commit_in.simps)
  have env: "collect_environment ?w hw = collect_environment w hw" for hw
    by (simp add: collect_environment_def package_version_def git)
  have prov: "collect_provenance ?w c = collect_provenance w c" for c
    by (simp add: collect_provenance_def read_source_lock_private)
  have prov_p: "collect_provenance w (?p c) = collect_provenance w c" for c
    by (simp add: collect_provenance_def)
  have failure: "report_failure ?w (map_option ?p c) hw e m n k = report_failure w c hw e m n k"
    if "c = None \<or> from_mapping (environ_mapping (in_environ w)) = c'" and "\<forall>x. c = Some x \<longrightarrow> c' = Inr x" for c c' hw e m n k
    using that diagnostic_env [OF assms]
    by (cases c) (auto simp: report_failure_def base_error_report_def env prov prov_p read_source_lock_private)
  show ?thesis
  proof (cases "from_mapping (environ_mapping (in_environ w))")
    case (Inl e)
    then have "doctor_body ?w con = (None, None, Inl e, con)" "doctor_body w con = (None, None, Inl e, con)"
      using from_mapping_env [OF assms] by (simp_all add: doctor_body_def)
    with failure [of None] show ?thesis by (simp add: doctor_main_def split: sum.split exn.split)
  next
    case (Inr c)
    have d: "to_diagnostic_dict (?p c) = to_diagnostic_dict c" by (rule diagnostic_env [OF assms Inr])
    have b: "doctor_body ?w con = (Some (?p c), x, r, k)" if "doctor_body w con = (Some c, x, r, k)" for x r k
      using that from_mapping_env [OF assms] Inr
      by (auto simp: doctor_body_def build_doctor_report_def plan_private d env prov prov_p split: sum.splits)
    have "fst (doctor_body w con) = Some c" using Inr by (simp add: doctor_body_def split: sum.split)
    then obtain x r k where "doctor_body w con = (Some c, x, r, k)"
      by (cases "doctor_body w con") auto
    with b failure [of "Some c"] Inr show ?thesis by (auto simp: doctor_main_def split: sum.split exn.split)
  qed
qed

theorem doctor_hides_secrets_witness:
  "doctor_main (Inr ()) (bare_installation [(''VOXCPM_API_TOKEN'', ''secret''), (''VOXCPM_MODEL_PATH'', ''/m'')]) idle =
   doctor_main (Inr ()) (bare_installation [(''VOXCPM_API_TOKEN'', ''other''), (''VOXCPM_MODEL_PATH'', ''/n/o'')]) idle"
proof -
  let ?w = "bare_installation [(''VOXCPM_API_TOKEN'', ''other''), (''VOXCPM_MODEL_PATH'', ''/n/o'')]"
  have "strip ''/m'' = ''/m''" "strip ''/n/o'' = ''/n/o''" by (simp_all add: strip_none is_space_def)
  then have "same_but_private (in_environ ?w) [(''VOXCPM_API_TOKEN'', ''secret''), (''VOXCPM_MODEL_PATH'', ''/m'')]"
    by (simp add: bare_installation_def same_but_private_def private_variables_def given_def)
  from doctor_hides_secrets [OF this, of "Inr ()" idle] show ?thesis by (simp add: bare_installation_def)
qed

end
