(* ===== verification/Model_Mounts.thy ===== *)
theory Model_Mounts
  imports Model_Resolver
begin

text \<open>
  \<open>deploy/kaggle/model_mounts.py\<close>: the discovery of model directories among mounted inputs, whose result is
  the list of deployment candidates the resolver is given. The file system is the argument \<open>fs\<close>; what
  \<open>os.scandir\<close> gives for a directory is the argument \<open>scan\<close>: the entries with the answer of
  \<open>is_dir(follow_symlinks=False)\<close>, and the exception that ends the iteration, if any. The lists and the
  counter that the walk mutates are a state that every step returns, also when it raises.
\<close>

section \<open>The adapter\<close>

definition max_manifest_bytes :: nat where "max_manifest_bytes = 1024 * 1024"
definition max_identity_string :: nat where "max_identity_string = 512"
definition default_max_depth :: int where "default_max_depth = 8"
definition default_max_entries :: int where "default_max_entries = 10000"
definition default_model_root :: file_path where "default_model_root = path_of ''/kaggle/input/models''"
definition default_model_revision :: string where
  "default_model_revision = ''32279effe8c19989596f05d353d1447f51d9e915''"
definition default_config_sha256 :: string where
  "default_config_sha256 = ''405f0dcd92f7feba6011ed4eac5c8d4f74cba9712f07fd5cfa3063bbdd95402c''"

definition kaggle_error :: "string \<Rightarrow> exn" where
  "kaggle_error msg = OtherError ''KaggleDiscoveryError'' msg"

fun is_kaggle_error :: "exn \<Rightarrow> bool" where
  "is_kaggle_error (OtherError n _) = (n = ''KaggleDiscoveryError'')"
| "is_kaggle_error _ = False"

lemma is_kaggle_error_made [simp]: "is_kaggle_error (kaggle_error msg)"
  by (simp add: kaggle_error_def)

text \<open>\<open>except (OSError, ValueError, RuntimeError)\<close>, and the two ways a file is not there.\<close>

definition is_caught :: "exn \<Rightarrow> bool" where
  "is_caught e \<longleftrightarrow> is_os_error e \<or> is_value_exn e \<or> is_runtime_exn e"

fun not_there :: "exn \<Rightarrow> bool" where
  "not_there (OtherError n _) = (n = ''FileNotFoundError'' \<or> n = ''NotADirectoryError'')"
| "not_there _ = False"

record mount_adapter =
  ma_root :: file_path
  ma_max_depth :: int
  ma_max_entries :: int
  ma_expected_revision :: "string option"
  ma_expected_config :: "string option"

definition mk_adapter ::
    "file_system \<Rightarrow> path_arg \<Rightarrow> int \<Rightarrow> int \<Rightarrow> pyval \<Rightarrow> pyval \<Rightarrow> exn + mount_adapter" where
  "mk_adapter fs place depth entries revision config =
     (if depth < 0 then Inl (ValueError ''max_depth must be non-negative'')
      else if entries \<le> 0 then Inl (ValueError ''max_entries must be positive'')
      else if \<not> absent_or revision_match revision
      then Inl (ValueError ''expected_revision must be a lowercase hexadecimal object ID'')
      else if \<not> absent_or sha256_match config
      then Inl (ValueError ''expected_config_sha256 must be a lowercase SHA-256 digest'')
      else case to_path place of
        Inl e \<Rightarrow> Inl (kaggle_error ''Kaggle model root is not a valid path'')
      | Inr p \<Rightarrow>
         (case fs_expand fs p of
            None \<Rightarrow> Inl (kaggle_error ''Kaggle model root is not a valid path'')
          | Some q \<Rightarrow>
              Inr \<lparr>ma_root = q, ma_max_depth = depth, ma_max_entries = entries,
                   ma_expected_revision = str_option revision, ma_expected_config = str_option config\<rparr>))"

section \<open>The manifest of a mirror\<close>

definition identity_string :: "pyval \<Rightarrow> string option" where
  "identity_string v =
     (case v of PStr s \<Rightarrow> if s = [] \<or> length s > max_identity_string then None else Some s | _ \<Rightarrow> None)"

definition required_mapping :: "(pyval \<times> pyval) list \<Rightarrow> string \<Rightarrow> exn + (pyval \<times> pyval) list" where
  "required_mapping payload key =
     (case dict_items (pv_get payload key) of
        None \<Rightarrow> Inl (kaggle_error (''Kaggle mirror manifest section must be an object: '' @ key))
      | Some d \<Rightarrow> Inr d)"

fun config_digests :: "file_path \<Rightarrow> pyval list \<Rightarrow> exn + string list" where
  "config_digests p [] = Inr []"
| "config_digests p (PDict d # rest) =
     (if pv_get d ''path'' \<noteq> PStr ''config.json'' then config_digests p rest
      else case identity_string (pv_get d ''sha256'') of
        None \<Rightarrow> Inl (kaggle_error (''Kaggle mirror manifest config hash is invalid: '' @ path_str p))
      | Some digest \<Rightarrow>
          if \<not> sha256_match digest
          then Inl (kaggle_error (''Kaggle mirror manifest config hash is invalid: '' @ path_str p))
          else and_then (config_digests p rest) (\<lambda>ds. Inr (digest # ds)))"
| "config_digests p (item # rest) = config_digests p rest"

definition config_sha256 :: "file_path \<Rightarrow> pyval list \<Rightarrow> exn + string" where
  "config_sha256 p files =
     and_then (config_digests p files) (\<lambda>ds.
       case ds of
         [digest] \<Rightarrow> Inr digest
       | _ \<Rightarrow> Inl (kaggle_error (''Kaggle mirror manifest must contain one config identity: '' @ path_str p)))"

text \<open>The bytes of the manifest, \<open>None\<close> when there is none.\<close>

definition read_manifest :: "file_system \<Rightarrow> file_path \<Rightarrow> exn + int list option" where
  "read_manifest fs p =
     (case fs_stat fs p of
        Inl e \<Rightarrow>
          if not_there e then Inr None
          else if is_caught e
          then Inl (kaggle_error (''Kaggle mirror manifest cannot be inspected: '' @ path_str p))
          else Inl e
      | Inr status \<Rightarrow>
          if st_kind status \<noteq> Regular
          then Inl (kaggle_error (''Kaggle mirror manifest must be a regular file: '' @ path_str p))
          else if st_size status > int max_manifest_bytes
          then Inl (kaggle_error (''Kaggle mirror manifest exceeds '' @ show_nat max_manifest_bytes @ '' bytes: '' @ path_str p))
          else case fs_read fs p (max_manifest_bytes + 1) of
            Inl e \<Rightarrow>
              if is_caught e then Inl (kaggle_error (''Kaggle mirror manifest cannot be read: '' @ path_str p)) else Inl e
          | Inr data \<Rightarrow>
              if length data > max_manifest_bytes
              then Inl (kaggle_error (''Kaggle mirror manifest exceeds '' @ show_nat max_manifest_bytes @ '' bytes: '' @
                     path_str p))
              else Inr (Some data))"

text \<open>What the object says: revision, digest of the configuration, and the handle of the mirror.\<close>

definition judge_manifest ::
    "mount_adapter \<Rightarrow> file_path \<Rightarrow> (pyval \<times> pyval) list \<Rightarrow> exn + string \<times> string \<times> string" where
  "judge_manifest ad p payload =
     (if pv_get payload ''schema_version'' \<noteq> PInt 1
      then Inl (kaggle_error (''Kaggle mirror manifest schema_version must be 1: '' @ path_str p))
      else
      and_then (required_mapping payload ''source'') (\<lambda>source.
      and_then (required_mapping payload ''target'') (\<lambda>target.
      and_then (required_mapping payload ''upstream_tree'') (\<lambda>upstream_tree.
      if identity_string (pv_get source ''repo_id'') \<noteq> Some model_id_const
      then Inl (kaggle_error (''Kaggle mirror manifest identifies an unexpected model: '' @ path_str p))
      else case identity_string (pv_get source ''resolved_commit'') of
        None \<Rightarrow> Inl (kaggle_error (''Kaggle mirror manifest revision is invalid: '' @ path_str p))
      | Some revision \<Rightarrow>
          if \<not> revision_match revision
          then Inl (kaggle_error (''Kaggle mirror manifest revision is invalid: '' @ path_str p))
          else if ma_expected_revision ad \<noteq> None \<and> ma_expected_revision ad \<noteq> Some revision
          then Inl (kaggle_error (''Kaggle mirror manifest revision does not match the pinned model: '' @ path_str p))
          else case identity_string (pv_get target ''handle'') of
            None \<Rightarrow> Inl (kaggle_error (''Kaggle mirror manifest target handle is invalid: '' @ path_str p))
          | Some handle \<Rightarrow>
             (case pv_get upstream_tree ''files'' of
                PList files \<Rightarrow>
                  and_then (config_sha256 p files) (\<lambda>digest.
                  if ma_expected_config ad \<noteq> None \<and> ma_expected_config ad \<noteq> Some digest
                  then Inl (kaggle_error
                    (''Kaggle mirror manifest config identity does not match the pinned model: '' @ path_str p))
                  else Inr (revision, digest, handle))
              | _ \<Rightarrow> Inl (kaggle_error (''Kaggle mirror manifest file inventory is invalid: '' @ path_str p)))))))"

definition manifest_metadata ::
    "mount_adapter \<Rightarrow> file_system \<Rightarrow> json_loads \<Rightarrow> file_path \<Rightarrow>
     exn + string option \<times> string option \<times> (string, string) dict" where
  "manifest_metadata ad fs loads directory =
     (let p = path_child directory ''_kaggle_mirror_provenance.json'' in
      and_then (read_manifest fs p) (\<lambda>data.
      case data of
        None \<Rightarrow> Inr (None, None, [(''adapter'', ''kaggle-model-mounts'')])
      | Some content \<Rightarrow>
         (case loads content of
            Inl e \<Rightarrow>
              if json_caught e then Inl (kaggle_error (''Kaggle mirror manifest is not valid JSON: '' @ path_str p))
              else Inl e
          | Inr v \<Rightarrow>
             (case dict_items v of
                None \<Rightarrow> Inl (kaggle_error (''Kaggle mirror manifest must contain a JSON object: '' @ path_str p))
              | Some payload \<Rightarrow>
                  and_then (judge_manifest ad p payload) (\<lambda>(revision, digest, handle).
                    Inr (Some revision, Some digest,
                         [(''adapter'', ''kaggle-model-mounts''), (''mirror_handle'', handle),
                          (''source_model_id'', model_id_const), (''model_revision'', revision)]))))))"

section \<open>Candidates\<close>

definition has_config :: "file_system \<Rightarrow> file_path \<Rightarrow> exn + bool" where
  "has_config fs directory =
     (let p = path_child directory ''config.json'' in
      case fs_stat fs p of
        Inl e \<Rightarrow>
          if not_there e then Inr False
          else if is_caught e then Inl (kaggle_error (''Kaggle model config cannot be inspected: '' @ path_str p))
          else Inl e
      | Inr status \<Rightarrow> Inr (st_kind status = Regular))"

definition opt_text :: "string option \<Rightarrow> pyval" where
  "opt_text v = (case v of None \<Rightarrow> PNone | Some s \<Rightarrow> PStr s)"

definition mount_candidate ::
    "mount_adapter \<Rightarrow> file_system \<Rightarrow> json_loads \<Rightarrow> file_path \<Rightarrow> exn + candidate" where
  "mount_candidate ad fs loads directory =
     and_then (manifest_metadata ad fs loads directory) (\<lambda>(revision, manifest_hash, metadata).
     case fs_resolve fs directory of
       Inl e \<Rightarrow>
         if is_os_error e \<or> is_runtime_exn e
         then Inl (kaggle_error (''Kaggle model directory cannot be resolved: '' @ path_str directory))
         else Inl e
     | Inr resolved \<Rightarrow>
         Inr (mk_candidate fs (Path_Object resolved) (PStr model_id_const) (opt_text revision)
           (opt_text (ma_expected_config ad))
           (case manifest_hash of
              None \<Rightarrow> metadata
            | Some digest \<Rightarrow>
                dict_set ''manifest_file'' ''_kaggle_mirror_provenance.json''
                  (dict_set ''manifest_config_sha256'' digest metadata))))"

section \<open>The walk\<close>

record mount_state =
  ms_candidates :: "candidate list"
  ms_errors :: "exn list"
  ms_budget :: int

type_synonym 'a walk = "(exn + 'a) \<times> mount_state"
type_synonym mount_entry = "string \<times> (exn + bool)"
type_synonym scan_dir = "file_path \<Rightarrow> exn + mount_entry list \<times> exn option"

definition consume :: "mount_adapter \<Rightarrow> mount_state \<Rightarrow> unit walk" where
  "consume ad st =
     (let st1 = st\<lparr>ms_budget := ms_budget st + 1\<rparr> in
      if ms_budget st1 > ma_max_entries ad
      then (Inl (kaggle_error (''Kaggle discovery exceeded '' @ show_int (ma_max_entries ad) @ '' entries'')), st1)
      else (Inr (), st1))"

text \<open>\<open>entry.path\<close>: \<open>os.path.join\<close> of the scanned directory and the name.\<close>

definition entry_path :: "file_path \<Rightarrow> string \<Rightarrow> string" where
  "entry_path directory name =
     (let s = path_str directory in if endswith s ''/'' then s @ name else s @ ''/'' @ name)"

text \<open>The loop over the iterator, with the children found so far.\<close>

fun collect_children ::
    "mount_adapter \<Rightarrow> file_path \<Rightarrow> mount_entry list \<Rightarrow> exn option \<Rightarrow> file_path list \<Rightarrow> mount_state \<Rightarrow>
     file_path list walk" where
  "collect_children ad directory [] None children st = (Inr children, st)"
| "collect_children ad directory [] (Some e) children st =
     (Inl (if is_caught e then kaggle_error (''Kaggle model directory cannot be read: '' @ path_str directory) else e), st)"
| "collect_children ad directory ((name, is_dir) # rest) fin children st =
     (case consume ad st of
        (Inl e, st1) \<Rightarrow> (Inl e, st1)
      | (Inr _, st1) \<Rightarrow>
         (case is_dir of
            Inl e \<Rightarrow>
              (Inl (if is_caught e
                    then kaggle_error (''Kaggle mount entry cannot be inspected: '' @ entry_path directory name)
                    else e), st1)
          | Inr b \<Rightarrow>
              collect_children ad directory rest fin
                (if b then children @ [path_of (entry_path directory name)] else children) st1))"

definition read_children :: "mount_adapter \<Rightarrow> scan_dir \<Rightarrow> file_path \<Rightarrow> mount_state \<Rightarrow> file_path list walk" where
  "read_children ad scan directory st =
     (case scan directory of
        Inl e \<Rightarrow>
          (Inl (if is_caught e then kaggle_error (''Kaggle model directory cannot be read: '' @ path_str directory) else e), st)
      | Inr (entries, fin) \<Rightarrow> collect_children ad directory entries fin [] st)"

text \<open>The part of \<open>_visit\<close> before the children: the budget, and the candidate.\<close>

definition enter :: "mount_adapter \<Rightarrow> file_system \<Rightarrow> json_loads \<Rightarrow> file_path \<Rightarrow> mount_state \<Rightarrow> unit walk" where
  "enter ad fs loads directory st =
     (case consume ad st of
        (Inl e, st1) \<Rightarrow> (Inl e, st1)
      | (Inr _, st1) \<Rightarrow>
         (case has_config fs directory of
            Inl e \<Rightarrow> (Inl e, st1)
          | Inr False \<Rightarrow> (Inr (), st1)
          | Inr True \<Rightarrow>
             (case mount_candidate ad fs loads directory of
                Inr c \<Rightarrow> (Inr (), st1\<lparr>ms_candidates := ms_candidates st1 @ [c]\<rparr>)
              | Inl e \<Rightarrow>
                  if is_kaggle_error e then (Inr (), st1\<lparr>ms_errors := ms_errors st1 @ [e]\<rparr>) else (Inl e, st1))))"

function visit ::
    "mount_adapter \<Rightarrow> file_system \<Rightarrow> json_loads \<Rightarrow> scan_dir \<Rightarrow> file_path \<Rightarrow> int \<Rightarrow> mount_state \<Rightarrow> unit walk"
  and visit_children ::
    "mount_adapter \<Rightarrow> file_system \<Rightarrow> json_loads \<Rightarrow> scan_dir \<Rightarrow> file_path list \<Rightarrow> int \<Rightarrow> mount_state \<Rightarrow> unit walk"
where
  "visit ad fs loads scan directory depth st =
     (case enter ad fs loads directory st of
        (Inl e, st1) \<Rightarrow> (Inl e, st1)
      | (Inr _, st1) \<Rightarrow>
          if depth \<ge> ma_max_depth ad then (Inr (), st1)
          else case read_children ad scan directory st1 of
            (Inl e, st2) \<Rightarrow> (Inl e, st2)
          | (Inr children, st2) \<Rightarrow>
              visit_children ad fs loads scan (sort_key path_name children) (depth + 1) st2)"
| "visit_children ad fs loads scan [] depth st = (Inr (), st)"
| "visit_children ad fs loads scan (child # rest) depth st =
     (case visit ad fs loads scan child depth st of
        (Inl e, st1) \<Rightarrow> (Inl e, st1)
      | (Inr _, st1) \<Rightarrow> visit_children ad fs loads scan rest depth st1)"
  by pat_completeness auto
termination
  by (relation "measures
      [case_sum (\<lambda>(ad, fs, loads, scan, directory, depth, st). nat (ma_max_depth ad - depth))
                (\<lambda>(ad, fs, loads, scan, children, depth, st). nat (ma_max_depth ad - depth)),
       case_sum (\<lambda>_. 0) (\<lambda>(ad, fs, loads, scan, children, depth, st). Suc (length children))]") auto

declare visit.simps [simp del]

definition empty_walk :: mount_state where
  "empty_walk = \<lparr>ms_candidates = [], ms_errors = [], ms_budget = 0\<rparr>"

text \<open>\<open>str\<close> of the path a candidate holds.\<close>

definition candidate_text :: "candidate \<Rightarrow> string" where
  "candidate_text c = (case dc_path c of Path_Object p \<Rightarrow> path_str p | Path_Text s \<Rightarrow> s | Path_Other n \<Rightarrow> n)"

definition discover ::
    "mount_adapter \<Rightarrow> file_system \<Rightarrow> json_loads \<Rightarrow> scan_dir \<Rightarrow> exn + candidate list" where
  "discover ad fs loads scan =
     (case fs_stat fs (ma_root ad) of
        Inl e \<Rightarrow>
          if is_missing e then Inr []
          else if is_caught e
          then Inl (kaggle_error (''Kaggle model root cannot be inspected: '' @ path_str (ma_root ad)))
          else Inl e
      | Inr status \<Rightarrow>
          if st_kind status \<noteq> Directory
          then Inl (kaggle_error (''Kaggle model root must be a directory: '' @ path_str (ma_root ad)))
          else case visit ad fs loads scan (ma_root ad) 0 empty_walk of
            (Inl e, st) \<Rightarrow> Inl e
          | (Inr _, st) \<Rightarrow>
              if ms_candidates st = [] \<and> ms_errors st \<noteq> [] then Inl (hd (ms_errors st))
              else Inr (sort_key candidate_text (ms_candidates st)))"

definition discover_kaggle_model_candidates ::
    "path_arg \<Rightarrow> int \<Rightarrow> int \<Rightarrow> pyval \<Rightarrow> pyval \<Rightarrow> file_system \<Rightarrow> json_loads \<Rightarrow> scan_dir \<Rightarrow> exn + candidate list" where
  "discover_kaggle_model_candidates place depth entries revision config fs loads scan =
     and_then (mk_adapter fs place depth entries revision config) (\<lambda>ad. discover ad fs loads scan)"

text \<open>The call without arguments.\<close>

definition default_discovery :: "file_system \<Rightarrow> json_loads \<Rightarrow> scan_dir \<Rightarrow> exn + candidate list" where
  "default_discovery =
     discover_kaggle_model_candidates (Path_Object default_model_root) default_max_depth default_max_entries
       (PStr default_model_revision) (PStr default_config_sha256)"

section \<open>The budget of the walk\<close>

text \<open>What every step keeps: the counter only grows, by at least one for every candidate and every error,
  and passes the limit by one at most, and then only to end the walk.\<close>

definition spends :: "mount_adapter \<Rightarrow> mount_state \<Rightarrow> 'a walk \<Rightarrow> bool" where
  "spends ad st w \<longleftrightarrow>
     ms_budget st \<le> ma_max_entries ad \<longrightarrow>
       ms_budget st \<le> ms_budget (snd w) \<and> ms_budget (snd w) \<le> ma_max_entries ad + (if isOK (fst w) then 0 else 1) \<and>
       int (length (ms_candidates (snd w)) + length (ms_errors (snd w))) - ms_budget (snd w) \<le>
         int (length (ms_candidates st) + length (ms_errors st)) - ms_budget st"

lemma spends_refl: "spends ad st (r, st)"
  by (simp add: spends_def)

lemma spends_trans: "spends ad st (Inr x, st1) \<Longrightarrow> spends ad st1 w \<Longrightarrow> spends ad st w"
  by (auto simp: spends_def)

lemma spends_raise: "spends ad st (Inl e, st1) \<Longrightarrow> spends ad st (Inl e', st1)"
  by (auto simp: spends_def)

lemma spends_raise2: "spends ad st (Inr x, st1) \<Longrightarrow> spends ad st (Inl e', st1)"
  by (auto simp: spends_def)

lemma consume_spends: "spends ad st (consume ad st)"
  by (simp add: spends_def consume_def Let_def)

lemma enter_spends: "spends ad st (enter ad fs loads directory st)"
  using consume_spends [of ad st]
  by (cases "consume ad st"; cases "fst (consume ad st)")
    (auto simp: enter_def spends_def consume_def Let_def split: sum.splits bool.splits if_splits)

lemma collect_spends: "spends ad st (collect_children ad directory entries fin children st)"
proof (induction ad directory entries fin children st rule: collect_children.induct)
  case (3 ad directory name is_dir rest fin children st)
  obtain r st1 where c: "consume ad st = (r, st1)" by fastforce
  show ?case
  proof (cases r)
    case (Inl e)
    with c consume_spends [of ad st] show ?thesis by (simp add: spends_raise)
  next
    case (Inr u)
    with c consume_spends [of ad st] have s1: "spends ad st (Inr u, st1)" by simp
    show ?thesis
    proof (cases is_dir)
      case (Inl e)
      with c \<open>r = Inr u\<close> show ?thesis
        by (simp only: collect_children.simps prod.case sum.case) (rule spends_raise2 [OF s1])
    next
      case (Inr b)
      with "3.IH" [OF c [symmetric]] \<open>r = Inr u\<close> have
        "spends ad st1 (collect_children ad directory rest fin
          (if b then children @ [path_of (entry_path directory name)] else children) st1)" by auto
      from spends_trans [OF s1 this] Inr c \<open>r = Inr u\<close> show ?thesis by simp
    qed
  qed
qed (simp_all add: spends_refl)

lemma read_children_spends: "spends ad st (read_children ad scan directory st)"
  by (auto simp: read_children_def spends_refl collect_spends split: sum.split)

lemma walk_spends:
  "spends ad st (visit ad fs loads scan directory depth st)"
  "spends ad st (visit_children ad fs loads scan children depth st)"
proof (induction ad fs loads scan directory depth st and ad fs loads scan children depth st
    rule: visit_visit_children.induct)
  case (1 ad fs loads scan directory depth st)
  obtain r st1 where e: "enter ad fs loads directory st = (r, st1)" by fastforce
  with enter_spends [of ad st fs loads directory] have s1: "spends ad st (r, st1)" by simp
  obtain r2 st2 where c: "read_children ad scan directory st1 = (r2, st2)" by fastforce
  with read_children_spends [of ad st1 scan directory] have s2: "spends ad st1 (r2, st2)" by simp
  show ?case
  proof (cases r)
    case (Inl e')
    with s1 show ?thesis by (subst visit.simps) (simp add: e)
  next
    case (Inr u)
    with s1 have tr: "spends ad st w" if "spends ad st1 w" for w :: "unit walk" using that by (auto intro: spends_trans)
    show ?thesis
    proof (cases "depth \<ge> ma_max_depth ad")
      case True
      with Inr tr [OF spends_refl] show ?thesis by (subst visit.simps) (simp add: e)
    next
      case False
      have "spends ad st1 (case r2 of Inl e' \<Rightarrow> (Inl e', st2)
          | Inr ch \<Rightarrow> visit_children ad fs loads scan (sort_key path_name ch) (depth + 1) st2)"
        using s2 "1.IH" [OF e [symmetric] Inr False c [symmetric]]
        by (cases r2) (auto intro: spends_trans spends_raise)
      from tr [OF this] Inr False show ?thesis by (subst visit.simps) (simp add: e c)
    qed
  qed
next
  case (3 ad fs loads scan child rest depth st)
  obtain r st1 where v: "visit ad fs loads scan child depth st = (r, st1)" by fastforce
  with "3.IH"(1) have s1: "spends ad st (r, st1)" by simp
  show ?case
  proof (cases r)
    case (Inl e)
    with s1 v show ?thesis by simp
  next
    case (Inr u)
    with spends_trans [of ad st u st1] s1 "3.IH"(2) [OF v [symmetric] Inr] show ?thesis by (simp add: v)
  qed
qed (simp_all add: spends_refl)

section \<open>What the walk finds\<close>

text \<open>The reference: the directories down to a depth, each before those below it, siblings by name, and what
  the ones with a configuration are.\<close>

definition subdirectories :: "scan_dir \<Rightarrow> file_path \<Rightarrow> file_path list" where
  "subdirectories scan d =
     (case scan d of
        Inl _ \<Rightarrow> []
      | Inr (entries, _) \<Rightarrow>
          sort_key path_name
            (map (\<lambda>(name, _). path_of (entry_path d name)) (filter (\<lambda>(_, is_dir). is_dir = Inr True) entries)))"

fun dirs_within :: "scan_dir \<Rightarrow> nat \<Rightarrow> file_path \<Rightarrow> file_path list" where
  "dirs_within scan 0 d = [d]"
| "dirs_within scan (Suc n) d = d # concat (map (dirs_within scan n) (subdirectories scan d))"

definition judged :: "mount_adapter \<Rightarrow> file_system \<Rightarrow> json_loads \<Rightarrow> file_path list \<Rightarrow> (exn + candidate) list" where
  "judged ad fs loads ds = map (mount_candidate ad fs loads) (filter (\<lambda>d. has_config fs d = Inr True) ds)"

fun accepted :: "('e + 'a) list \<Rightarrow> 'a list" where
  "accepted [] = []"
| "accepted (Inr x # rs) = x # accepted rs"
| "accepted (Inl _ # rs) = accepted rs"

fun rejected :: "('e + 'a) list \<Rightarrow> 'e list" where
  "rejected [] = []"
| "rejected (Inr _ # rs) = rejected rs"
| "rejected (Inl e # rs) = e # rejected rs"

lemma accepted_append [simp]: "accepted (xs @ ys) = accepted xs @ accepted ys"
  by (induction xs rule: accepted.induct) auto

lemma rejected_append [simp]: "rejected (xs @ ys) = rejected xs @ rejected ys"
  by (induction xs rule: rejected.induct) auto

lemma judged_append [simp]: "judged ad fs loads (ds @ ds') = judged ad fs loads ds @ judged ad fs loads ds'"
  by (simp add: judged_def)

lemma set_accepted: "x \<in> set (accepted rs) \<longleftrightarrow> Inr x \<in> set rs"
  by (induction rs rule: accepted.induct) auto

text \<open>\<open>found ds st st1\<close>: the candidates and errors of these directories were noted.\<close>

definition found ::
    "mount_adapter \<Rightarrow> file_system \<Rightarrow> json_loads \<Rightarrow> file_path list \<Rightarrow> mount_state \<Rightarrow> mount_state \<Rightarrow> bool" where
  "found ad fs loads ds st st1 \<longleftrightarrow>
     ms_candidates st1 = ms_candidates st @ accepted (judged ad fs loads ds) \<and>
     ms_errors st1 = ms_errors st @ rejected (judged ad fs loads ds) \<and>
     ms_budget st + int (length ds) \<le> ms_budget st1"

lemma found_Nil: "found ad fs loads [] st st"
  by (simp add: found_def judged_def)

lemma found_append:
  "found ad fs loads ds st st1 \<Longrightarrow> found ad fs loads ds' st1 st2 \<Longrightarrow> found ad fs loads (ds @ ds') st st2"
  by (auto simp: found_def)

lemma enter_found:
  assumes "enter ad fs loads directory st = (Inr (), st1)"
  shows "found ad fs loads [directory] st st1"
  using assms
  by (cases "mount_candidate ad fs loads directory")
    (auto simp: enter_def consume_def Let_def found_def judged_def split: if_splits sum.splits bool.splits)

lemma collect_found:
  assumes "collect_children ad d entries fin children st = (Inr ch, st1)"
  shows "ch = children @ map (\<lambda>(name, _). path_of (entry_path d name)) (filter (\<lambda>(_, is_dir). is_dir = Inr True) entries) \<and>
    found ad fs loads [] st st1"
  using assms
proof (induction ad d entries fin children st rule: collect_children.induct)
  case (3 ad d name is_dir rest fin children st)
  obtain r st2 where c: "consume ad st = (r, st2)" by fastforce
  with "3.prems" obtain b where b: "r = Inr ()" "is_dir = Inr b"
    by (auto split: sum.splits)
  then have "found ad fs loads [] st st2" using c by (auto simp: consume_def Let_def found_def judged_def split: if_splits)
  moreover have "collect_children ad d rest fin (if b then children @ [path_of (entry_path d name)] else children) st2 = (Inr ch, st1)"
    using "3.prems" b c by simp
  note "3.IH" [OF c [symmetric] b(1) b(2) this]
  ultimately show ?case using found_append [of ad fs loads "[]" st st2 "[]" st1] b by (cases b) auto
qed (simp_all add: found_Nil)

lemma read_children_found:
  assumes "read_children ad scan d st = (Inr ch, st1)"
  shows "sort_key path_name ch = subdirectories scan d \<and> found ad fs loads [] st st1"
  using assms collect_found [of ad d _ _ "[]" st ch st1 fs loads]
  by (fastforce simp: read_children_def subdirectories_def split: sum.splits)

lemma walk_found:
  "visit ad fs loads scan d depth st = (Inr (), st1) \<Longrightarrow> depth \<le> ma_max_depth ad \<Longrightarrow>
   found ad fs loads (dirs_within scan (nat (ma_max_depth ad - depth)) d) st st1"
  "visit_children ad fs loads scan children depth st = (Inr (), st1) \<Longrightarrow> depth \<le> ma_max_depth ad \<Longrightarrow>
   found ad fs loads (concat (map (dirs_within scan (nat (ma_max_depth ad - depth))) children)) st st1"
proof (induction ad fs loads scan d depth st and ad fs loads scan children depth st arbitrary: st1 and st1
    rule: visit_visit_children.induct)
  case (1 ad fs loads scan d depth st)
  obtain r st2 where e: "enter ad fs loads d st = (r, st2)" by fastforce
  with "1.prems"(1) have r: "r = Inr ()" by (subst (asm) visit.simps) (auto split: sum.splits)
  from enter_found e r have f1: "found ad fs loads [d] st st2" by simp
  show ?case
  proof (cases "depth \<ge> ma_max_depth ad")
    case True
    with "1.prems" e r have "st1 = st2" by (subst (asm) visit.simps) simp
    moreover have "nat (ma_max_depth ad - depth) = 0" using True by simp
    ultimately show ?thesis using f1 by (simp only: dirs_within.simps)
  next
    case False
    obtain r3 st3 where c: "read_children ad scan d st2 = (r3, st3)" by fastforce
    with "1.prems"(1) e r False obtain ch where ch: "r3 = Inr ch"
      by (subst (asm) visit.simps) (auto split: sum.splits)
    from read_children_found c ch have s: "sort_key path_name ch = subdirectories scan d" "found ad fs loads [] st2 st3"
      by auto
    have n: "nat (ma_max_depth ad - depth) = Suc (nat (ma_max_depth ad - (depth + 1)))" using False by simp
    have "visit_children ad fs loads scan (sort_key path_name ch) (depth + 1) st3 = (Inr (), st1)"
      using "1.prems"(1) e r False c ch by (subst (asm) visit.simps) simp
    from "1.IH" [OF e [symmetric] r False c [symmetric] ch this] False
    have "found ad fs loads (concat (map (dirs_within scan (nat (ma_max_depth ad - (depth + 1)))) (sort_key path_name ch))) st3 st1"
      by simp
    from found_append [OF found_append [OF f1 s(2)] this] show ?thesis
      unfolding n dirs_within.simps s(1) by simp
  qed
next
  case (2 ad fs loads scan depth st)
  then show ?case by (simp add: found_Nil)
next
  case (3 ad fs loads scan child rest depth st)
  obtain r st2 where v: "visit ad fs loads scan child depth st = (r, st2)" by fastforce
  with "3.prems"(1) have r: "r = Inr ()" by (auto split: sum.splits)
  have "visit_children ad fs loads scan rest depth st2 = (Inr (), st1)" using "3.prems"(1) v r by simp
  from found_append [OF "3.IH"(1) "3.IH"(2) [OF v [symmetric] r this "3.prems"(2)]] v r "3.prems"(2)
  show ?case by simp
qed

section \<open>Properties\<close>

lemma mk_adapter_Inr:
  assumes "mk_adapter fs place depth entries revision config = Inr ad"
  shows "0 \<le> ma_max_depth ad \<and> 0 < ma_max_entries ad \<and> ma_max_depth ad = depth \<and> ma_max_entries ad = entries \<and>
    (case ma_expected_revision ad of None \<Rightarrow> True | Some v \<Rightarrow> revision_match v) \<and>
    (case ma_expected_config ad of None \<Rightarrow> True | Some v \<Rightarrow> sha256_match v)"
proof -
  have o: "case str_option v of None \<Rightarrow> True | Some s \<Rightarrow> P s" if "absent_or P v" for P v
    using that by (cases v) (simp_all add: str_option_def)
  from assms have "0 \<le> depth" "0 < entries" "absent_or revision_match revision" "absent_or sha256_match config"
    "ma_max_depth ad = depth" "ma_max_entries ad = entries" "ma_expected_revision ad = str_option revision"
    "ma_expected_config ad = str_option config"
    by (auto simp: mk_adapter_def split: if_splits sum.splits option.splits)
  with o show ?thesis by simp
qed

lemma empty_walk_fields [simp]: "ms_candidates empty_walk = []" "ms_errors empty_walk = []" "ms_budget empty_walk = 0"
  by (simp_all add: empty_walk_def)


text \<open>A directory that contains itself.\<close>

definition loop_fs :: file_system where
  "loop_fs =
     \<lparr>fs_cwd = Inr (path_of ''/''), fs_expand = Some, fs_stat = (\<lambda>p. Inr \<lparr>st_kind = Directory, st_size = 0\<rparr>),
      fs_resolve = Inr, fs_read = (\<lambda>p n. Inr []), fs_scan = (\<lambda>p. Inr ([], None)), fs_exists = (\<lambda>p. True),
      fs_is_file = (\<lambda>p. Inr False), fs_readable = (\<lambda>p. True)\<rparr>"

definition loop_scan :: scan_dir where
  "loop_scan p = Inr ([(''x'', Inr True)], None)"

definition loop_adapter :: mount_adapter where
  "loop_adapter = \<lparr>ma_root = path_of ''/'', ma_max_depth = 8, ma_max_entries = 2, ma_expected_revision = None,
     ma_expected_config = None\<rparr>"


text \<open>C22. Discovery against its reference. When it returns, the candidates are exactly those of the
  directories with a configuration at the permitted depths, sorted by path, where those with an invalid
  manifest are left out as long as one is valid; none is returned only if there is no such directory or no
  root. When the walk is completed and it raises, no directory was valid and the exception is that of the
  first invalid one.\<close>

theorem discovery_exact:
  assumes "mk_adapter fs place depth entries revision config = Inr ad"
    and "fs_stat fs (ma_root ad) = Inr status" and "st_kind status = Directory"
    and "visit ad fs loads scan (ma_root ad) 0 empty_walk = (Inr (), st)"
  shows "let results = judged ad fs loads (dirs_within scan (nat depth) (ma_root ad)) in
    discover ad fs loads scan =
      (if accepted results = [] \<and> rejected results \<noteq> [] then Inl (hd (rejected results))
       else Inr (sort_key candidate_text (accepted results))) \<and>
    int (length (dirs_within scan (nat depth) (ma_root ad))) \<le> entries"
proof -
  note m = mk_adapter_Inr [OF assms(1)]
  from walk_found(1) [OF assms(4)] m
  have f: "found ad fs loads (dirs_within scan (nat depth) (ma_root ad)) empty_walk st" by auto
  from walk_spends(1) [of ad empty_walk fs loads scan "ma_root ad" 0] m assms(4)
  have "ms_budget st \<le> entries" by (simp add: spends_def)
  with f assms(2-4) show ?thesis by (simp add: discover_def found_def Let_def)
qed

definition quiet_scan :: scan_dir where
  "quiet_scan p = Inr ([], None)"

definition sample_adapter :: mount_adapter where
  "sample_adapter = \<lparr>ma_root = path_of ''/m'', ma_max_depth = 1, ma_max_entries = 9, ma_expected_revision = None,
     ma_expected_config = Some (replicate 64 CHR ''0'')\<rparr>"

definition mounted_model :: candidate where
  "mounted_model =
     mk_candidate sample_fs (Path_Object (path_of ''/m'')) (PStr model_id_const) PNone (PStr (replicate 64 CHR ''0''))
       [(''adapter'', ''kaggle-model-mounts'')]"

lemma sample_adapter_made:
  "mk_adapter sample_fs (Path_Text ''/m'') 1 9 PNone (PStr (replicate 64 CHR ''0'')) = Inr sample_adapter"
  by (simp add: mk_adapter_def sample_fs_def sample_adapter_def str_option_def sha256_match_def is_hex_lower_def is_dec_def list_all_iff)

lemma sample_candidate: "mount_candidate sample_adapter sample_fs sample_loads (path_of ''/m'') = Inr mounted_model"
  "has_config sample_fs (path_of ''/m'') = Inr True"
  by (simp_all add: mount_candidate_def manifest_metadata_def read_manifest_def has_config_def sample_fs_def path_join_def path_of_def
      path_name_def sample_model_files_def mounted_model_def sample_adapter_def opt_text_def Let_def)

lemma sample_walk:
  "visit sample_adapter sample_fs sample_loads quiet_scan (path_of ''/m'') 0 empty_walk =
     (Inr (), \<lparr>ms_candidates = [mounted_model], ms_errors = [], ms_budget = 1\<rparr>)"
  by (simp add: visit.simps enter_def sample_candidate consume_def read_children_def quiet_scan_def empty_walk_def Let_def)
    (simp add: sample_adapter_def)

lemma discovery_exact_here: "discover sample_adapter sample_fs sample_loads quiet_scan = Inr [mounted_model]"
proof -
  have "ma_root sample_adapter = path_of ''/m''" by (simp add: sample_adapter_def)
  moreover have "fs_stat sample_fs (path_of ''/m'') = Inr \<lparr>st_kind = Directory, st_size = 0\<rparr>" by (simp add: sample_fs_def)
  ultimately show ?thesis by (simp add: discover_def sample_walk)
qed

theorem discovery_exact_witness:
  "discover sample_adapter sample_fs sample_loads quiet_scan = Inr [mounted_model]"
proof -
  have d: "dirs_within quiet_scan (Suc 0) (path_of ''/m'') = [path_of ''/m'']"
    by (simp add: subdirectories_def quiet_scan_def)
  have r: "ma_root sample_adapter = path_of ''/m''" by (simp add: sample_adapter_def)
  have "fs_stat sample_fs (ma_root sample_adapter) = Inr \<lparr>st_kind = Directory, st_size = 0\<rparr>"
    by (simp add: sample_fs_def r)
  from discovery_exact [OF sample_adapter_made this _ sample_walk [folded r]] show ?thesis
    by (simp add: Let_def judged_def r d sample_candidate del: dirs_within.simps)
qed

section \<open>Discovery and resolution\<close>

text \<open>What a valid manifest pins.\<close>

lemma outcome_any: "outcome (\<lambda>_. True) (\<lambda>_. True) m"
  by (cases m) simp_all

lemma judge_manifest_outcome:
  "outcome (\<lambda>_. True) (\<lambda>(revision, digest, handle). revision_match revision \<and>
      (ma_expected_revision ad = None \<or> ma_expected_revision ad = Some revision) \<and>
      (ma_expected_config ad = None \<or> ma_expected_config ad = Some digest))
    (judge_manifest ad p payload)"
  unfolding judge_manifest_def
  by (intro outcome_ifI outcome_and_then [OF outcome_any])
    (auto split: option.split pyval.split intro!: outcome_ifI outcome_and_then [OF outcome_any])

lemma manifest_metadata_outcome:
  "outcome (\<lambda>_. True) (\<lambda>(revision, _, _). case revision of None \<Rightarrow> True
      | Some v \<Rightarrow> revision_match v \<and> (ma_expected_revision ad = None \<or> ma_expected_revision ad = Some v))
    (manifest_metadata ad fs loads d)"
  unfolding manifest_metadata_def Let_def
  by (rule outcome_and_then [OF outcome_any])
    (auto split: option.split sum.split intro!: outcome_and_then [OF judge_manifest_outcome])

lemma mount_candidate_Inr:
  assumes "mount_candidate ad fs loads d = Inr c"
  shows "dc_model_id c = PStr model_id_const \<and> dc_expected c = opt_text (ma_expected_config ad) \<and>
    (\<exists>revision. dc_revision c = opt_text revision \<and>
       (case revision of None \<Rightarrow> True
        | Some v \<Rightarrow> revision_match v \<and> (ma_expected_revision ad = None \<or> ma_expected_revision ad = Some v))) \<and>
    (\<exists>p. fs_resolve fs d = Inr p \<and> dc_path c = Path_Object (case fs_expand fs p of None \<Rightarrow> p | Some q \<Rightarrow> q))"
proof -
  from assms obtain revision digest metadata p where
    m: "manifest_metadata ad fs loads d = Inr (revision, digest, metadata)" "fs_resolve fs d = Inr p"
    and c: "c = mk_candidate fs (Path_Object p) (PStr model_id_const) (opt_text revision) (opt_text (ma_expected_config ad))
           (case digest of
              None \<Rightarrow> metadata
            | Some h \<Rightarrow>
                dict_set ''manifest_file'' ''_kaggle_mirror_provenance.json''
                  (dict_set ''manifest_config_sha256'' h metadata))"
    by (cases "fs_resolve fs d") (auto simp: mount_candidate_def raises split: if_splits)
  from manifest_metadata_outcome [of ad fs loads d] have "case revision of None \<Rightarrow> True
      | Some v \<Rightarrow> revision_match v \<and> (ma_expected_revision ad = None \<or> ma_expected_revision ad = Some v)"
    by (simp add: m(1))
  with m(2) show ?thesis by (auto simp: c mk_candidate_def)
qed

lemma discovered_candidate:
  assumes "mk_adapter fs place depth entries revision config = Inr ad" and "discover ad fs loads scan = Inr cs"
    and "c \<in> set cs"
  shows "\<exists>d \<in> set (dirs_within scan (nat depth) (ma_root ad)). has_config fs d = Inr True \<and> mount_candidate ad fs loads d = Inr c"
proof -
  note m = mk_adapter_Inr [OF assms(1)]
  from assms(2,3) obtain st where v: "visit ad fs loads scan (ma_root ad) 0 empty_walk = (Inr (), st)"
      "c \<in> set (ms_candidates st)"
    by (auto simp: discover_def split: sum.splits if_splits prod.splits)
  with walk_found(1) [OF v(1)] m have "Inr c \<in> set (judged ad fs loads (dirs_within scan (nat depth) (ma_root ad)))"
    by (simp add: found_def set_accepted)
  then show ?thesis by (auto simp: judged_def)
qed

lemma try_candidates_member:
  "try_candidates fs loads sha n (map Item_Candidate cs) fin attempts = Inr (Inl r) \<Longrightarrow>
   \<exists>c \<in> set cs. resolve_candidate fs loads sha c = Inr r"
proof (induction cs arbitrary: n attempts)
  case Nil
  then show ?case by (cases fin) (auto split: if_splits)
next
  case (Cons c cs)
  then show ?case by (auto split: if_splits sum.splits exn.splits)
qed

text \<open>A deployment source means that a candidate was resolved: the other sources record themselves.\<close>

lemma deployment_resolved:
  assumes "resolve_model fs loads sha cfg (Items (map Item_Candidate cs) None) acquirer = Inr r"
    and "rm_source_kind r = Deployment_Mount"
  shows "\<exists>c \<in> set cs. resolve_candidate fs loads sha c = Inr r"
proof (cases "model_path cfg")
  case (Some p)
  with assms resolve_path_Inr show ?thesis by (force simp: resolve_model_def)
next
  case None
  with assms(1) obtain tried where tried: "try_candidates fs loads sha 0 (map Item_Candidate cs) None [] = Inr tried"
    by (auto simp: resolve_model_def raises)
  show ?thesis
  proof (cases tried)
    case (Inl r1)
    with assms(1) None tried have "r1 = r" by (simp add: resolve_model_def)
    with Inl tried show ?thesis by (auto dest: try_candidates_member)
  next
    case (Inr attempts)
    have cache: "rm_source_kind r' \<noteq> Deployment_Mount" if "try_cache fs loads sha cache attempts = Inr (Inl r')" for cache r'
      using that resolve_path_Inr
      by (fastforce simp: try_cache_def split: option.splits sum.splits if_splits exn.splits)
    have remote: "rm_source_kind r' \<noteq> Deployment_Mount" if "try_remote fs loads sha acq ats = Inr r'" for acq ats r'
      using that resolve_path_Inr
      by (fastforce simp: try_remote_def split: option.splits sum.splits if_splits exn.splits)
    from assms(1) None tried Inr obtain tried2 where t2: "try_cache fs loads sha (cache_dir cfg) attempts = Inr tried2"
      and rest: "(case tried2 of Inl r \<Rightarrow> Inr r | Inr attempts2 \<Rightarrow>
          if offline cfg
          then Inl (model_exn OfflineResolutionError
                 ''Offline mode is enabled and no valid local VoxCPM2 model was found'' None
                 [(''attempts'', PList attempts2)])
          else try_remote fs loads sha acquirer attempts2) = Inr r"
      by (auto simp: resolve_model_def raises)
    show ?thesis
    proof (cases tried2)
      case (Inl r2)
      with t2 rest cache assms(2) show ?thesis by simp
    next
      case (Inr ats)
      with rest remote assms(2) show ?thesis by (auto split: if_splits)
    qed
  qed
qed

text \<open>C21. Discovery and resolution together. A model that is resolved from a mount is one of the directories
  within the permitted depth, it holds a model, it is \<open>openbmb/VoxCPM2\<close>, its configuration has the pinned
  digest when one is pinned, and its revision, if it records one, is the pinned one and a full object id.\<close>

theorem mounted_model_is_pinned:
  assumes "mk_adapter fs place depth entries revision config = Inr ad"
    and "discover ad fs loads scan = Inr cs"
    and "resolve_model fs loads sha cfg (Items (map Item_Candidate cs) None) acquirer = Inr r"
    and "rm_source_kind r = Deployment_Mount"
  shows "holds_model fs loads sha r \<and>
    (\<forall>h. ma_expected_config ad = Some h \<longrightarrow> ci_sha256 (rm_identity r) = h) \<and>
    (\<forall>v. rm_revision r = Some v \<longrightarrow> revision_match v \<and> (ma_expected_revision ad = None \<or> ma_expected_revision ad = Some v)) \<and>
    (\<exists>d \<in> set (dirs_within scan (nat depth) (ma_root ad)). \<exists>p. fs_resolve fs d = Inr p \<and>
       validated_directory fs (Path_Object (case fs_expand fs p of None \<Rightarrow> p | Some q \<Rightarrow> q)) = Inr (rm_path r))"
proof -
  from deployment_resolved [OF assms(3,4)] obtain c where c: "c \<in> set cs" "resolve_candidate fs loads sha c = Inr r" by blast
  from discovered_candidate [OF assms(1,2) c(1)] obtain d where
    d: "d \<in> set (dirs_within scan (nat depth) (ma_root ad))" "mount_candidate ad fs loads d = Inr c" by blast
  from mount_candidate_Inr [OF d(2)] obtain rv p where
    m: "dc_model_id c = PStr model_id_const" "dc_expected c = opt_text (ma_expected_config ad)" "dc_revision c = opt_text rv"
      "case rv of None \<Rightarrow> True | Some v \<Rightarrow> revision_match v \<and> (ma_expected_revision ad = None \<or> ma_expected_revision ad = Some v)"
      "fs_resolve fs d = Inr p" "dc_path c = Path_Object (case fs_expand fs p of None \<Rightarrow> p | Some q \<Rightarrow> q)" by blast
  have o: "str_option (opt_text v) = v" for v by (cases v) (simp_all add: str_option_def opt_text_def)
  from c(2) m have "resolve_path fs loads sha (dc_path c) Deployment_Mount model_id_const rv (ma_expected_config ad) (dc_metadata c) = Inr r"
    by (auto simp: resolve_candidate_def Let_def o split: if_splits)
  from resolve_path_Inr [OF this refl] m d(1) show ?thesis by auto
qed

theorem mounted_model_is_pinned_witness:
  "\<exists>r. resolve_model sample_fs sample_loads sample_digest (default_config\<lparr>model_path := None\<rparr>)
      (Items (map Item_Candidate [mounted_model]) None) None = Inr r \<and>
    ci_sha256 (rm_identity r) = replicate 64 CHR ''0''"
proof -
  have p: "validated_directory sample_fs (Path_Object (path_of ''/m'')) = Inr sample_root"
    by (simp add: validated_directory_def sample_fs_def path_of_def sample_root_def)
  have h: "absent_or sha256_match (PStr (replicate 64 CHR ''0''))"
    by (simp add: sha256_match_def is_hex_lower_def is_dec_def list_all_iff)
  have "dc_path mounted_model = Path_Object (path_of ''/m'')" "dc_model_id mounted_model = PStr model_id_const"
      "dc_revision mounted_model = PNone" "dc_expected mounted_model = PStr (replicate 64 CHR ''0'')"
    by (simp_all add: mounted_model_def mk_candidate_def sample_fs_def)
  with h obtain r where "resolve_candidate sample_fs sample_loads sample_digest mounted_model = Inr r"
      "rm_source_kind r = Deployment_Mount"
    by (simp add: resolve_candidate_def Let_def resolve_path_def p sample_config sample_weights sample_tokenizer
        sample_inventory str_option_def sample_digest_def)
  then have r: "resolve_model sample_fs sample_loads sample_digest (default_config\<lparr>model_path := None\<rparr>)
      (Items (map Item_Candidate [mounted_model]) None) None = Inr r" "rm_source_kind r = Deployment_Mount"
    by (simp_all add: resolve_model_def max_deployment_candidates_def)
  from mounted_model_is_pinned [OF sample_adapter_made discovery_exact_here r] show ?thesis
    using r(1) by (auto simp: sample_adapter_def)
qed

end
