(* ===== verification/Generate.thy ===== *)
theory Generate
  imports Doctor Model_Mounts
begin

text \<open>
  The command \<open>voxcpm-generate\<close> (\<open>scripts/generate.py\<close>): one synthesis from the command line, through the
  resolver, the backend and the WAV writer, with one JSON document on the output and an exit code. The record
  \<open>workplace\<close> holds what the command finds around it. Readings that differ over time (clock, kernel files, CUDA)
  are functions of the \<open>moment\<close> of the run; \<open>run_state\<close> is what the command changes.
\<close>

section \<open>Arguments\<close>

text \<open>The namespace that \<open>argparse\<close> returns.\<close>

record generate_args =
  na_text :: "string option"
  na_output :: "string option"
  na_report :: "string option"
  na_voice_instruction :: "string option"
  na_reference_audio :: "string option"
  na_prompt_audio :: "string option"
  na_prompt_text :: "string option"
  na_stream :: bool
  na_load_only :: bool

definition is_present :: "string option \<Rightarrow> bool" where
  "is_present v \<longleftrightarrow> (case v of None \<Rightarrow> False | Some s \<Rightarrow> strip s \<noteq> [])"

definition text_or_empty :: "string option \<Rightarrow> string" where
  "text_or_empty v = (case v of None \<Rightarrow> [] | Some s \<Rightarrow> s)"

text \<open>The tests that \<open>main\<close> makes before anything else: the message of the first that fails.\<close>

definition argument_problem :: "generate_args \<Rightarrow> string option" where
  "argument_problem ns =
     (if \<not> na_load_only ns \<and> \<not> is_present (na_text ns)
      then Some ''--text must be a non-empty string unless --load-only is used.''
      else if na_load_only ns \<and> na_stream ns then Some ''--stream cannot be combined with --load-only.''
      else if \<not> na_load_only ns \<and> na_output ns = None
      then Some ''--output is required unless --load-only is used.''
      else None)"

text \<open>\<open>Inl\<close>: the public validation problem; otherwise request, operation and conditioning.\<close>

definition build_request :: "generate_args \<Rightarrow> exn + (string + one_shot \<times> string \<times> string)" where
  "build_request ns =
     (let instruction = na_voice_instruction ns; reference = na_reference_audio ns;
          prompt_audio = na_prompt_audio ns; prompt_text = na_prompt_text ns;
          t = PStr (text_or_empty (na_text ns)) in
      if is_present instruction \<and> (is_present reference \<or> is_present prompt_audio \<or> is_present prompt_text)
      then Inr (Inl ''--voice-instruction cannot be combined with --reference-audio, --prompt-audio, or --prompt-text.'')
      else if is_present reference \<and> (is_present prompt_audio \<or> is_present prompt_text)
      then Inr (Inl ''--reference-audio cannot be combined with --prompt-audio or --prompt-text.'')
      else if is_present prompt_audio \<noteq> is_present prompt_text
      then Inr (Inl ''--prompt-audio and --prompt-text must be used together.'')
      else if is_present instruction
      then and_then (mk_voice_design_request t (opt_str instruction)) (\<lambda>q.
             Inr (Inr (q, ''voice-design'', ''instruction'')))
      else if is_present reference
      then and_then (mk_audio_reference (opt_str reference)) (\<lambda>a.
           and_then (mk_clone_request t (Inr a)) (\<lambda>q. Inr (Inr (q, ''voice-clone'', ''reference''))))
      else if is_present prompt_audio
      then and_then (mk_audio_reference (opt_str prompt_audio)) (\<lambda>a.
           and_then (mk_continuation_request t (Inr a) (opt_str prompt_text)) (\<lambda>q.
             Inr (Inr (q, ''audio-continuation'', ''continuation''))))
      else and_then (mk_speech_request t) (\<lambda>q. Inr (Inr (q, ''standard-tts'', ''none''))))"

definition request_summary :: "one_shot \<Rightarrow> string option \<Rightarrow> string option \<Rightarrow> (string, pyval) dict" where
  "request_summary request t instruction =
     (let uses_reference =
        (case request of CloneRequest _ _ \<Rightarrow> True | ContinuationRequest _ _ _ \<Rightarrow> True | _ \<Rightarrow> False) in
      [(''input_text_characters'', PInt (int (length (text_or_empty t)))),
       (''instruction_characters'',
         PInt (if is_present instruction then int (length (strip (text_or_empty instruction))) else 0)),
       (''reference_audio_used'', PBool uses_reference),
       (''reference_input_kind'', PStr (if uses_reference then ''local-file'' else ''none'')),
       (''reference_transcript_characters'',
         PInt (case request of ContinuationRequest _ _ transcript \<Rightarrow> int (length transcript) | _ \<Rightarrow> 0))])"

fun dispatch_one_shot :: "one_shot \<Rightarrow> 'm pytorch_backend \<Rightarrow> (exn + audio_result) \<times> 'm pytorch_backend" where
  "dispatch_one_shot (VoiceDesignRequest t i) b = pytorch_generate Design (VoiceDesignRequest t i) b"
| "dispatch_one_shot (CloneRequest t a) b = pytorch_generate Clone (CloneRequest t a) b"
| "dispatch_one_shot (ContinuationRequest t a u) b = pytorch_generate Continue_Audio (ContinuationRequest t a u) b"
| "dispatch_one_shot (SpeechRequest t) b = pytorch_generate Synthesize (SpeechRequest t) b"

section \<open>Surroundings\<close>

datatype moment = At_Report | Load_Start | Load_End | Generation_Start | Generation_End | At_End

text \<open>
  \<open>wp_deploy\<close>: what importing the discovery raises; \<open>wp_torch\<close>: what \<open>import torch\<close> gives, after the model was
  loaded; \<open>wp_chunk_clock\<close>: the clock when the stream starts and when the chunks arrive; \<open>wp_report_fault\<close>: what
  writing the report file raises.
\<close>

record 'm workplace =
  wp_installation :: installation
  wp_files :: file_system
  wp_json :: json_loads
  wp_sha :: hex_digest
  wp_deploy :: "exn option"
  wp_scan :: scan_dir
  wp_upstream :: "'m upstream"
  wp_torch :: "exn + unit"
  wp_cuda :: "moment \<Rightarrow> cuda_module option"
  wp_kernel :: "moment \<Rightarrow> files"
  wp_system :: "moment \<Rightarrow> system"
  wp_clock :: "moment \<Rightarrow> rat"
  wp_stream_start :: rat
  wp_chunk_clock :: "nat \<Rightarrow> rat"
  wp_versions :: "string \<Rightarrow> version_answer"
  wp_write :: write_env
  wp_read :: read_env
  wp_report_fault :: "exn option"

text \<open>\<open>rs_output\<close>: the directory entry of \<open>--output\<close>; \<open>rs_backend\<close>: the backend, once built.\<close>

record 'm run_state =
  rs_console :: console
  rs_output :: directory
  rs_reports :: "(file_path \<times> pyval) list"
  rs_backend :: "'m pytorch_backend option"

section \<open>Output\<close>

definition redacted_document :: "'m workplace \<Rightarrow> (string, pyval) dict \<Rightarrow> pyval" where
  "redacted_document wp payload = redact_value (in_to_text (wp_installation wp)) (dict_value payload)"

definition gen_emit :: "'m workplace \<Rightarrow> (string, pyval) dict \<Rightarrow> 'm run_state \<Rightarrow> (exn + unit) \<times> 'm run_state" where
  "gen_emit wp payload st =
     (case print_document (redacted_document wp payload) (rs_console st) of
        (res, con) \<Rightarrow> (res, st\<lparr>rs_console := con\<rparr>))"

definition emit_error ::
    "'m workplace \<Rightarrow> string \<times> string \<times> string \<Rightarrow> 'm run_state \<Rightarrow> (exn + int) \<times> 'm run_state" where
  "emit_error wp what st =
     (case what of (code, message, error_type) \<Rightarrow>
      case gen_emit wp
        [(''error'', dict_value [(''code'', PStr code), (''message'', PStr message), (''type'', PStr error_type)]),
         (''schema_version'', PInt 1), (''status'', PStr ''error'')] st of
        (Inl e, st') \<Rightarrow> (Inl e, st')
      | (Inr _, st') \<Rightarrow> (Inr 2, st'))"

text \<open>The parent directory, the text and the file; only \<open>OSError\<close> is caught.\<close>

definition write_report ::
    "'m workplace \<Rightarrow> string \<Rightarrow> (string, pyval) dict \<Rightarrow> 'm run_state \<Rightarrow> (exn + unit) \<times> 'm run_state" where
  "write_report wp destination payload st =
     (case json_check (redacted_document wp payload) of
        Inl e \<Rightarrow> (Inl e, st)
      | Inr _ \<Rightarrow>
         (case wp_report_fault wp of
            Some e \<Rightarrow>
              if is_os_error e
              then (case complain ''The runtime report could not be written.'' (rs_console st) of
                      (res, con) \<Rightarrow> (res, st\<lparr>rs_console := con\<rparr>))
              else (Inl e, st)
          | None \<Rightarrow>
              (Inr (), st\<lparr>rs_reports := rs_reports st @ [(path_of destination, redacted_document wp payload)]\<rparr>)))"

definition events_value :: "(string, int) dict option \<Rightarrow> pyval" where
  "events_value events = opt_dict (map_option (map (\<lambda>(k, n). (k, PInt n))) events)"

text \<open>\<open>_finalize\<close>, and the \<open>return\<close> of the exit code after it.\<close>

definition finalize ::
    "'m workplace \<Rightarrow> (string, pyval) dict \<Rightarrow> string option \<Rightarrow> int \<Rightarrow> 'm run_state \<Rightarrow> (exn + int) \<times> 'm run_state" where
  "finalize wp report0 destination code st =
     (case cgroup_memory_events (wp_kernel wp At_End) of
        Inl e \<Rightarrow> (Inl e, st)
      | Inr events \<Rightarrow>
         (let report1 = dict_set ''cgroup_memory_events'' (events_value events) report0 in
          case gen_emit wp report1 st of
            (Inl e, st1) \<Rightarrow> (Inl e, st1)
          | (Inr _, st1) \<Rightarrow>
             (case destination of
                None \<Rightarrow> (Inr code, st1)
              | Some d \<Rightarrow>
                 (case write_report wp d report1 st1 of
                    (Inl e, st2) \<Rightarrow> (Inl e, st2)
                  | (Inr _, st2) \<Rightarrow> (Inr code, st2)))))"

section \<open>Preparation\<close>

definition gen_resolve_model :: "'m workplace \<Rightarrow> runtime_config \<Rightarrow> exn + resolved_model" where
  "gen_resolve_model wp cfg =
     and_then
       (if model_path cfg = None
        then (case wp_deploy wp of
                Some e \<Rightarrow> Inl e
              | None \<Rightarrow> default_discovery (wp_files wp) (wp_json wp) (wp_scan wp))
        else Inr []) (\<lambda>candidates.
       resolve_model (wp_files wp) (wp_json wp) (wp_sha wp) cfg (Items (map Item_Candidate candidates) None) None)"

definition model_report :: "resolved_model \<Rightarrow> (string, pyval) dict" where
  "model_report r =
     [(''architecture'', PStr (ci_architecture (rm_identity r))), (''config_sha256'', PStr (ci_sha256 (rm_identity r))),
      (''file_count'', PInt (int (length (rm_inventory r)))), (''model_id'', PStr (rm_model_id r)),
      (''path_configured'', PBool True), (''revision'', opt_str (rm_revision r)),
      (''source_kind'', PStr (source_name (rm_source_kind r))),
      (''total_bytes'', PInt (sum_list (map fe_size_bytes (rm_inventory r))))]"

definition backend_report :: "backend_info \<Rightarrow> 'm pytorch_backend \<Rightarrow> (string, pyval) dict" where
  "backend_report info b =
     [(''backend'', PStr (bi_backend info)), (''capabilities'', PList (map PStr (bi_capabilities info))),
      (''device'', PStr (bi_device info)), (''implementation'', PStr (bi_implementation info)),
      (''load_denoiser'', PBool (pb_load_denoiser b)), (''local_files_only'', PBool (pb_local_files_only b)),
      (''model_id'', opt_str (bi_model_id info)), (''upstream_device'', PStr (pb_device b)),
      (''upstream_optimize'', PBool (pb_optimize b))]"

text \<open>
  What \<open>main\<close> has before the report: the first \<open>Inl\<close> is an exception that no handler catches, the second the
  code, message and type given to \<open>_emit_error\<close>.
\<close>

record 'm prepared =
  pr_config :: runtime_config
  pr_resolved :: resolved_model
  pr_inventory :: inventory
  pr_plan :: plan
  pr_backend :: "'m pytorch_backend"

fun model_failure :: "exn \<Rightarrow> exn + string \<times> string \<times> string" where
  "model_failure (ModelExn e) =
     Inr (model_code (me_class e), ''The local model could not be resolved.'', model_class_name (me_class e))"
| "model_failure e =
     (if is_Exception e
      then Inr (''model_discovery_error'', ''Local model discovery failed unexpectedly.'', exn_type_name e)
      else Inl e)"

fun device_failure :: "exn \<Rightarrow> exn + string \<times> string \<times> string" where
  "device_failure (DeviceExn c m) =
     Inr (''device_resolution_error'', ''The execution plan could not be resolved.'', device_class_name c)"
| "device_failure e =
     (if is_Exception e
      then Inr (''device_discovery_error'', ''Device discovery failed unexpectedly.'', exn_type_name e)
      else Inl e)"

fun optimize_failure :: "exn \<Rightarrow> exn + string \<times> string \<times> string" where
  "optimize_failure (BackendExn e) = Inr (be_code e, be_message e, backend_class_name (be_class e))"
| "optimize_failure (TypeError m) = Inr (''invalid_configuration'', m, ''TypeError'')"
| "optimize_failure e = Inl e"

definition discover_plan :: "'m workplace \<Rightarrow> runtime_config \<Rightarrow> exn + inventory \<times> plan" where
  "discover_plan wp cfg =
     (let w = wp_installation wp in
      and_then (detect_hardware (in_host w) (in_torch w)) (\<lambda>i.
      and_then (manager_resolve None (detect_hardware (in_host w) (in_torch w)) (Device_Config cfg)
          (Arg_Raw (raw_gpus (gpu_devices cfg))) (Arg_Raw (raw_workers (workers cfg))) (Some i)) (\<lambda>p.
        Inr (i, p))))"

definition prepare :: "'m workplace \<Rightarrow> exn + (string \<times> string \<times> string + 'm prepared)" where
  "prepare wp =
     (case from_mapping (environ_mapping (in_environ (wp_installation wp))) of
        Inl (ConfigurationError variable reason) \<Rightarrow>
          Inr (Inl (''configuration_error'', variable @ '': '' @ reason, ''ConfigurationError''))
      | Inl e \<Rightarrow> Inl e
      | Inr cfg \<Rightarrow>
     (case gen_resolve_model wp cfg of
        Inl e \<Rightarrow> and_then (model_failure e) (\<lambda>what. Inr (Inl what))
      | Inr resolved \<Rightarrow>
     (case discover_plan wp cfg of
        Inl e \<Rightarrow> and_then (device_failure e) (\<lambda>what. Inr (Inl what))
      | Inr (i, p) \<Rightarrow>
     (case resolve_upstream_optimize p (optimize cfg) of
        Inl e \<Rightarrow> and_then (optimize_failure e) (\<lambda>what. Inr (Inl what))
      | Inr opt \<Rightarrow>
          and_then (mk_pytorch_backend (wp_upstream wp) (wp_files wp) resolved p (PBool (load_denoiser cfg))
              (PBool (offline cfg)) (PBool opt) (PStr ''voxcpm'')) (\<lambda>b.
            Inr (Inr \<lparr>pr_config = cfg, pr_resolved = resolved, pr_inventory = i, pr_plan = p, pr_backend = b\<rparr>))))))"

section \<open>The report\<close>

definition tracked_distributions :: "string list" where
  "tracked_distributions =
     [''voxcpm'', ''torch'', ''torchaudio'', ''transformers'', ''huggingface-hub'', ''numpy'', ''einops'', ''pydantic'',
      ''tqdm'', ''librosa'', ''safetensors'']"

definition host_value :: "'m workplace \<Rightarrow> moment \<Rightarrow> exn + pyval" where
  "host_value wp m =
     and_then (collect_host_facts (wp_kernel wp m) (wp_system wp m)) (\<lambda>f. Inr (dict_value (host_facts_to_dict f)))"

definition rss_value :: "'m workplace \<Rightarrow> moment \<Rightarrow> exn + pyval" where
  "rss_value wp m = and_then (current_rss_bytes (wp_kernel wp m)) (\<lambda>n. Inr (opt_int n))"

definition timing_value :: "'m workplace \<Rightarrow> string \<Rightarrow> moment \<Rightarrow> moment \<Rightarrow> pyval" where
  "timing_value wp name started stopped =
     dict_value (stopwatch_to_dict (sw_stop (wp_clock wp stopped) (mk_stopwatch name (wp_clock wp started))))"

text \<open>\<open>report[outer][key] = v\<close>, where the report holds a dict under \<open>outer\<close>.\<close>

definition set_nested :: "string \<Rightarrow> string \<Rightarrow> pyval \<Rightarrow> (string, pyval) dict \<Rightarrow> (string, pyval) dict" where
  "set_nested outer key v d =
     (case dict_get d outer of
        Some (PDict items) \<Rightarrow> dict_set outer (PDict (dict_set (PStr key) v items)) d
      | _ \<Rightarrow> d)"

definition base_report ::
    "'m workplace \<Rightarrow> generate_args \<Rightarrow> string \<Rightarrow> one_shot option \<Rightarrow> 'm prepared \<Rightarrow> exn + (string, pyval) dict" where
  "base_report wp ns operation request pr =
     (let cfg = pr_config pr in
      and_then (read_source_lock (wp_installation wp)) (\<lambda>(locked, lock_status).
      and_then (host_value wp At_Report) (\<lambda>host.
      and_then (rss_value wp At_Report) (\<lambda>rss.
        Inr
          [(''schema_version'', PInt 1), (''status'', PStr ''ok''),
           (''project'',
             dict_value
               [(''name'', PStr ''openbmb-voxcpm2-inference''),
                (''qualification'',
                  PStr (if na_stream ns then ''streaming qualification'' else ''voice-feature qualification''))]),
           (''operation'', PStr operation),
           (''request'',
             dict_value
               (case request of
                  None \<Rightarrow> [] | Some q \<Rightarrow> request_summary q (na_text ns) (na_voice_instruction ns))),
           (''config'',
             dict_value
               [(''backend'', PStr ''pytorch-voxcpm''), (''device_requested'', PStr (device_value (device cfg))),
                (''gpu_devices'', PStr (format_gpu_devices (gpu_devices cfg))),
                (''load_denoiser'', PBool (load_denoiser cfg)), (''offline'', PBool (offline cfg)),
                (''optimize_mode'', PStr (optimization_value (optimize cfg))),
                (''workers'', PStr (format_workers (workers cfg)))]),
           (''model'', dict_value (model_report (pr_resolved pr))),
           (''hardware'', dict_value (inventory_to_dict (in_to_text (wp_installation wp)) (pr_inventory pr))),
           (''execution_plan'', dict_value (plan_to_dict (pr_plan pr))), (''host'', host),
           (''upstream'',
             dict_value
               [(''dependency_versions'',
                  dict_value (map (\<lambda>(k, v). (k, PStr v)) (dependency_versions (wp_versions wp) tracked_distributions))),
                (''locked_source_commit'', opt_str locked), (''source_lock_status'', PStr lock_status)]),
           (''timings'', PDict []), (''memory'', dict_value [(''rss_before_load_bytes'', rss)]),
           (''cuda'', PDict []), (''gpu_memory'', PNone), (''backend'', PDict []), (''audio'', PNone),
           (''wav'', PNone), (''wav_validation'', PNone), (''stream'', PNone),
           (''notes'',
             PList [PStr ''Absolute filesystem paths are withheld from this public report.'',
                    PStr ''Model weights are never committed to this repository.''])]))))"

text \<open>\<open>report["status"] = "error"\<close> and the error.\<close>

definition mark_error :: "pyval \<Rightarrow> (string, pyval) dict \<Rightarrow> (string, pyval) dict" where
  "mark_error error d = dict_set ''error'' error (dict_set ''status'' (PStr ''error'') d)"

text \<open>Where the device is \<open>cuda\<close>, the memory of the first selected GPU.\<close>

definition set_gpu_memory ::
    "'m workplace \<Rightarrow> moment \<Rightarrow> plan \<Rightarrow> (string, pyval) dict \<Rightarrow> exn + (string, pyval) dict" where
  "set_gpu_memory wp m p d =
     (if effective_device p \<noteq> ''cuda'' then Inr d
      else case selected_gpu_indices p of
        [] \<Rightarrow> Inl (OtherError ''IndexError'' ''tuple index out of range'')
      | g # _ \<Rightarrow>
          and_then (observe_gpu_memory (Some (wp_cuda wp m)) (PInt g)) (\<lambda>obs.
            Inr (dict_set ''gpu_memory'' (dict_value (gpu_observation_to_dict obs)) d)))"

text \<open>The handler of a load that failed, up to \<open>_finalize\<close>.\<close>

definition load_failure_report ::
    "'m workplace \<Rightarrow> pyval \<Rightarrow> backend_error \<Rightarrow> (string, pyval) dict \<Rightarrow> exn + (string, pyval) dict" where
  "load_failure_report wp rss_before error d =
     and_then (rss_value wp Load_End) (\<lambda>rss.
     and_then (host_value wp Load_End) (\<lambda>host.
       Inr (dict_set ''host'' host
             (dict_set ''memory''
               (dict_value [(''rss_after_load_bytes'', rss), (''rss_before_load_bytes'', rss_before)])
               (set_nested ''timings'' ''load'' (timing_value wp ''load'' Load_Start Load_End)
                 (mark_error (backend_error_to_dict error) d))))))"

definition model_devices_value :: "'m pytorch_backend \<Rightarrow> string \<Rightarrow> exn + pyval" where
  "model_devices_value b expected =
     (case (case pb_model b of
              None \<Rightarrow> Inl missing_tts
            | Some m \<Rightarrow> inspect_model_devices (pb_upstream b) m (Some expected)) of
        Inr r \<Rightarrow> Inr (device_report_to_dict r)
      | Inl (BackendExn e) \<Rightarrow> Inr (dict_value [(''error'', backend_error_to_dict e)])
      | Inl e \<Rightarrow> Inl e)"

definition loaded_report ::
    "'m workplace \<Rightarrow> plan \<Rightarrow> backend_info \<Rightarrow> 'm pytorch_backend \<Rightarrow> (string, pyval) dict \<Rightarrow>
     exn + (string, pyval) dict" where
  "loaded_report wp p info b d =
     and_then (wp_torch wp) (\<lambda>_.
     let d1 = dict_set ''cuda''
       (dict_value (cuda_observation_to_dict (observe_torch_cuda (Some (wp_cuda wp Load_End))))) d in
     and_then (set_gpu_memory wp Load_End p d1) (\<lambda>d2.
     and_then (rss_value wp Load_End) (\<lambda>rss.
     and_then (host_value wp Load_End) (\<lambda>host.
     and_then (model_devices_value b (effective_device p)) (\<lambda>devices.
       Inr (dict_set ''model_devices'' devices
             (dict_set ''backend'' (dict_value (backend_report info b))
               (dict_set ''host'' host
                 (set_nested ''memory'' ''rss_after_load_bytes'' rss
                   (set_nested ''timings'' ''load'' (timing_value wp ''load'' Load_Start Load_End) d2))))))))))"

section \<open>Synthesis\<close>

definition rounded_ratio :: "nat \<Rightarrow> int \<Rightarrow> pyval" where
  "rounded_ratio n rate = float_of (round6 (fl64 (of_nat n / of_int rate)))"

definition arrival :: "'m workplace \<Rightarrow> nat \<Rightarrow> rat" where
  "arrival wp k = fl64 (wp_chunk_clock wp k - wp_stream_start wp)"

definition stream_report :: "'m workplace \<Rightarrow> audio_chunk list \<Rightarrow> audio_result \<Rightarrow> (string, pyval) dict" where
  "stream_report wp chunks result =
     (let sizes = map (\<lambda>c. length (ac_samples c)) chunks in
      [(''all_chunks_non_empty'', PBool (list_all (\<lambda>n. 0 < n) sizes)),
       (''audio_duration_seconds'', rounded_ratio (sum_list sizes) (ar_sample_rate_hz result)),
       (''chunk_count'', PInt (int (length chunks))),
       (''final_chunk_count'', PInt (int (length (filter ac_is_final chunks)))),
       (''first_chunk_latency_seconds'', float_of (round6 (arrival wp 0))),
       (''first_chunk_samples'', PInt (int (hd sizes))),
       (''max_chunk_samples'', PInt (int (Max (set sizes)))),
       (''min_chunk_samples'', PInt (int (Min (set sizes)))), (''native'', PBool True),
       (''sequence_contiguous'', PBool (map ac_sequence chunks = map int [0..<length chunks])),
       (''stream_completion_seconds'', float_of (round6 (arrival wp (length chunks - 1)))),
       (''total_sample_count'', PInt (int (sum_list sizes)))])"

definition joined_result :: "audio_chunk list \<Rightarrow> exn + audio_result" where
  "joined_result chunks =
     mk_audio_result (samples_arg (concat (map ac_samples chunks))) (PInt (ac_sample_rate_hz (hd chunks)))
       (PInt (ac_channels (hd chunks))) (meta_arg (ac_metadata (hd chunks)))"

text \<open>The body of the \<open>try\<close>: the result, the entry \<open>stream\<close> of the report, and the backend.\<close>

definition synthesize_audio ::
    "'m workplace \<Rightarrow> bool \<Rightarrow> one_shot \<Rightarrow> 'm pytorch_backend \<Rightarrow>
     (exn + audio_result \<times> pyval) \<times> 'm pytorch_backend" where
  "synthesize_audio wp streaming request b =
     (if \<not> streaming then
        (case dispatch_one_shot request b of (answer, b1) \<Rightarrow> (and_then answer (\<lambda>r. Inr (r, PNone)), b1))
      else
        (case pytorch_stream (StreamRequest request) b of
           (Inl e, b1) \<Rightarrow> (Inl e, b1)
         | (Inr (chunks, Some e), b1) \<Rightarrow> (Inl e, b1)
         | (Inr (chunks, None), b1) \<Rightarrow>
             (if chunks = []
              then (Inl (backend_exn BackendRequestError ''The stream produced no audio chunks.'' ''empty_stream'' []), b1)
              else (and_then (joined_result chunks) (\<lambda>r. Inr (r, dict_value (stream_report wp chunks r))), b1))))"

definition generation_failure_report ::
    "'m workplace \<Rightarrow> string \<Rightarrow> backend_error \<Rightarrow> (string, pyval) dict \<Rightarrow> exn + (string, pyval) dict" where
  "generation_failure_report wp operation error d =
     and_then (rss_value wp Generation_End) (\<lambda>rss.
     and_then (host_value wp Generation_End) (\<lambda>host.
       Inr (dict_set ''host'' host
             (set_nested ''memory'' ''rss_after_generation_bytes'' rss
               (set_nested ''timings'' operation (timing_value wp operation Generation_Start Generation_End)
                 (mark_error (backend_error_to_dict error) d))))))"

definition audio_report ::
    "'m workplace \<Rightarrow> plan \<Rightarrow> string \<Rightarrow> string \<Rightarrow> string option \<Rightarrow> audio_result \<Rightarrow> (string, pyval) dict \<Rightarrow>
     exn + (string, pyval) dict" where
  "audio_report wp p operation conditioning t result d =
     and_then (rss_value wp Generation_End) (\<lambda>rss.
     and_then
       (set_gpu_memory wp Generation_End p
         (set_nested ''memory'' ''rss_after_generation_bytes'' rss
           (set_nested ''timings'' operation (timing_value wp operation Generation_Start Generation_End) d))) (\<lambda>d1.
     and_then (host_value wp Generation_End) (\<lambda>host.
       Inr (dict_set ''host'' host
             (dict_set ''audio''
               (dict_value
                 [(''channels'', PInt (ar_channels result)), (''conditioning'', PStr conditioning),
                  (''duration_seconds'', rounded_ratio (length (ar_samples result)) (ar_sample_rate_hz result)),
                  (''input_text_characters'', PInt (int (length (text_or_empty t)))),
                  (''sample_count'', PInt (int (length (ar_samples result)))),
                  (''sample_rate_hz'', PInt (ar_sample_rate_hz result))]) d1)))))"

section \<open>main\<close>

definition wav_failure :: "string \<Rightarrow> string \<Rightarrow> pyval" where
  "wav_failure code message =
     dict_value [(''code'', PStr code), (''message'', PStr message), (''retryable'', PBool False)]"

fun is_wav_write_error :: "exn \<Rightarrow> bool" where
  "is_wav_write_error (OtherError n _) = (n = ''WavWriteError'')"
| "is_wav_write_error _ = False"

definition close_backend :: "'m pytorch_backend \<Rightarrow> 'm run_state \<Rightarrow> 'm run_state" where
  "close_backend b st = st\<lparr>rs_backend := Some (snd (pytorch_close b))\<rparr>"

text \<open>\<open>_finalize\<close> on a report that may have raised while it was made.\<close>

definition conclude ::
    "'m workplace \<Rightarrow> generate_args \<Rightarrow> exn + (string, pyval) dict \<Rightarrow> int \<Rightarrow> 'm run_state \<Rightarrow>
     (exn + int) \<times> 'm run_state" where
  "conclude wp ns made code st =
     (case made of Inl e \<Rightarrow> (Inl e, st) | Inr d \<Rightarrow> finalize wp d (na_report ns) code st)"

text \<open>From the write of the file to the end.\<close>

definition deliver ::
    "'m workplace \<Rightarrow> generate_args \<Rightarrow> audio_result \<Rightarrow> 'm pytorch_backend \<Rightarrow> (string, pyval) dict \<Rightarrow>
     'm run_state \<Rightarrow> (exn + int) \<times> 'm run_state" where
  "deliver wp ns result b d st =
     (case write_wav (wp_write wp) (Some (path_name (path_of (text_or_empty (na_output ns))))) result True (rs_output st) of
        (Inl e, out) \<Rightarrow>
          (let st1 = st\<lparr>rs_output := out\<rparr> in
           if is_wav_write_error e
           then finalize wp (mark_error (wav_failure ''wav_write_failed'' ''The WAV output could not be written.'') d)
                  (na_report ns) 4 (close_backend b st1)
           else (Inl e, st1))
      | (Inr written, out) \<Rightarrow>
          (let st1 = st\<lparr>rs_output := out\<rparr>;
               d1 = dict_set ''wav'' (dict_value (write_result_to_dict written)) d in
           case validate_wav (wp_read wp) True (case di_target out of None \<Rightarrow> [] | Some content \<Rightarrow> content)
                  (Some (ar_sample_rate_hz result)) (Some (ar_channels result)) of
             Inl e \<Rightarrow> (Inl e, st1)
           | Inr v \<Rightarrow>
               (let d2 = dict_set ''wav_validation'' (dict_value (validation_to_dict v)) d1;
                    st2 = close_backend b st1 in
                if \<not> valid v
                then finalize wp
                  (mark_error
                    (wav_failure ''wav_validation_failed'' ''The written WAV file did not pass validation.'') d2)
                  (na_report ns) 4 st2
                else finalize wp d2 (na_report ns) 0 st2)))"

text \<open>From the synthesis on; the backend is loaded.\<close>

definition generate_loaded ::
    "'m workplace \<Rightarrow> generate_args \<Rightarrow> string \<Rightarrow> string \<Rightarrow> one_shot \<Rightarrow> plan \<Rightarrow> 'm pytorch_backend \<Rightarrow>
     (string, pyval) dict \<Rightarrow> 'm run_state \<Rightarrow> (exn + int) \<times> 'm run_state" where
  "generate_loaded wp ns operation conditioning request p b d st =
     (case synthesize_audio wp (na_stream ns) request b of
        (Inl e, b1) \<Rightarrow>
          (case e of
             BackendExn x \<Rightarrow> conclude wp ns (generation_failure_report wp operation x d) 3 (close_backend b1 st)
           | _ \<Rightarrow> (Inl e, st\<lparr>rs_backend := Some b1\<rparr>))
      | (Inr (result, streamed), b1) \<Rightarrow>
          (let st1 = st\<lparr>rs_backend := Some b1\<rparr> in
           case audio_report wp p operation conditioning (na_text ns) result (dict_set ''stream'' streamed d) of
             Inl e \<Rightarrow> (Inl e, st1)
           | Inr d1 \<Rightarrow> deliver wp ns result b1 d1 st1))"

text \<open>From the report on; the backend is built.\<close>

definition run_prepared ::
    "'m workplace \<Rightarrow> generate_args \<Rightarrow> (one_shot \<times> string \<times> string) option \<Rightarrow> 'm prepared \<Rightarrow> 'm run_state \<Rightarrow>
     (exn + int) \<times> 'm run_state" where
  "run_prepared wp ns job pr st =
     (let operation =
        (case job of
           None \<Rightarrow> ''load-only'' | Some (_, operation, _) \<Rightarrow> if na_stream ns then ''stream-'' @ operation else operation);
          st0 = st\<lparr>rs_backend := Some (pr_backend pr)\<rparr> in
      case base_report wp ns operation (map_option fst job) pr of
        Inl e \<Rightarrow> (Inl e, st0)
      | Inr d \<Rightarrow>
     (case rss_value wp Load_Start of
        Inl e \<Rightarrow> (Inl e, st0)
      | Inr rss_before \<Rightarrow>
     (case pytorch_load (pr_backend pr) of
        (Inl e, b) \<Rightarrow>
          (let st1 = st\<lparr>rs_backend := Some b\<rparr> in
           case e of
             BackendExn x \<Rightarrow> conclude wp ns (load_failure_report wp rss_before x d) 3 st1
           | _ \<Rightarrow> (Inl e, st1))
      | (Inr info, b) \<Rightarrow>
          (let st1 = st\<lparr>rs_backend := Some b\<rparr> in
           case loaded_report wp (pr_plan pr) info b d of
             Inl e \<Rightarrow> (Inl e, st1)
           | Inr d1 \<Rightarrow>
              (case job of
                 None \<Rightarrow> finalize wp d1 (na_report ns) 0 (close_backend b st1)
               | Some (request, _, conditioning) \<Rightarrow>
                   generate_loaded wp ns operation conditioning request (pr_plan pr) b d1 st1)))))"

text \<open>\<open>main\<close>, after \<open>argparse\<close> has returned the namespace.\<close>

definition generate_main ::
    "'m workplace \<Rightarrow> generate_args \<Rightarrow> 'm run_state \<Rightarrow> (exn + int) \<times> 'm run_state" where
  "generate_main wp ns st =
     (case argument_problem ns of
        Some problem \<Rightarrow> emit_error wp (''invalid_request'', problem, ''ArgumentError'') st
      | None \<Rightarrow>
     (case (if na_load_only ns then Inr (Inr None)
            else and_then (build_request ns) (\<lambda>r. Inr (case r of Inl problem \<Rightarrow> Inl problem | Inr job \<Rightarrow> Inr (Some job)))) of
        Inl e \<Rightarrow> (Inl e, st)
      | Inr (Inl problem) \<Rightarrow> emit_error wp (''invalid_request'', problem, ''ArgumentError'') st
      | Inr (Inr job) \<Rightarrow>
     (case prepare wp of
        Inl e \<Rightarrow> (Inl e, st)
      | Inr (Inl what) \<Rightarrow> emit_error wp what st
      | Inr (Inr pr) \<Rightarrow> run_prepared wp ns job pr st)))"

section \<open>What a run leaves\<close>

lemma gen_emit_Inr:
  assumes "gen_emit wp d st = (Inr u, st')"
  shows "co_out (rs_console st') = co_out (rs_console st) @ [redacted_document wp d]" "rs_output st' = rs_output st"
    "rs_reports st' = rs_reports st" "rs_backend st' = rs_backend st"
  using assms
  by (auto simp: gen_emit_def print_document_def console_answer_def split: sum.splits prod.splits list.splits option.splits)

lemma complain_out: "complain line con = (r, con') \<Longrightarrow> co_out con' = co_out con"
  by (auto simp: complain_def console_answer_def split: sum.splits prod.splits list.splits option.splits)

text \<open>The report file of a run, where \<open>--report\<close> names one that can be written.\<close>

definition report_files :: "'m workplace \<Rightarrow> string option \<Rightarrow> (string, pyval) dict \<Rightarrow> (file_path \<times> pyval) list" where
  "report_files wp destination d =
     (case destination of
        None \<Rightarrow> []
      | Some p \<Rightarrow> if wp_report_fault wp = None then [(path_of p, redacted_document wp d)] else [])"

text \<open>One document was printed; the report file, if any, holds the same document; its status is \<open>ok\<close> exactly
  for the exit code 0.\<close>

definition announced :: "'m workplace \<Rightarrow> string option \<Rightarrow> int \<Rightarrow> 'm run_state \<Rightarrow> 'm run_state \<Rightarrow> bool" where
  "announced wp destination code st st' \<longleftrightarrow>
     (\<exists>d. co_out (rs_console st') = co_out (rs_console st) @ [redacted_document wp d] \<and>
        rs_reports st' = rs_reports st @ report_files wp destination d \<and>
        dict_get d ''status'' = Some (PStr (if code = 0 then ''ok'' else ''error'')))"

lemma emit_error_Inr:
  assumes "emit_error wp what st = (Inr code, st')"
  shows "code = 2 \<and> announced wp None 2 st st' \<and> rs_output st' = rs_output st \<and> rs_backend st' = rs_backend st"
proof -
  obtain c m t where w: "what = (c, m, t)" by (cases what)
  let ?d = "[(''error'', dict_value [(''code'', PStr c), (''message'', PStr m), (''type'', PStr t)]),
         (''schema_version'', PInt 1), (''status'', PStr ''error'')]"
  from assms w obtain u where g: "gen_emit wp ?d st = (Inr u, st')" "code = 2"
    by (auto simp: emit_error_def split: sum.splits prod.splits)
  from gen_emit_Inr [OF g(1)] g(2) show ?thesis
    unfolding announced_def by (intro conjI exI [of _ ?d]) (simp_all add: report_files_def)
qed

lemma finalize_Inr:
  assumes "finalize wp d destination code st = (Inr k, st')"
    and "dict_get d ''status'' = Some (PStr (if code = 0 then ''ok'' else ''error''))"
  shows "k = code \<and> announced wp destination code st st' \<and> rs_output st' = rs_output st \<and> rs_backend st' = rs_backend st"
proof -
  from assms(1) obtain events where ev: "cgroup_memory_events (wp_kernel wp At_End) = Inr events"
    by (auto simp: finalize_def split: sum.splits)
  let ?d = "dict_set ''cgroup_memory_events'' (events_value events) d"
  from assms(1) ev obtain st1 where g: "gen_emit wp ?d st = (Inr (), st1)"
    and rest: "case destination of
                None \<Rightarrow> k = code \<and> st' = st1
              | Some p \<Rightarrow> write_report wp p ?d st1 = (Inr (), st') \<and> k = code"
    by (auto simp: finalize_def Let_def split: sum.splits prod.splits option.splits)
  note g' = gen_emit_Inr [OF g]
  from rest have "k = code" by (simp split: option.splits)
  moreover have "co_out (rs_console st') = co_out (rs_console st1) \<and> rs_output st' = rs_output st1 \<and>
      rs_backend st' = rs_backend st1 \<and> rs_reports st' = rs_reports st1 @ report_files wp destination ?d"
    using rest complain_out
    by (cases destination)
      (auto simp: write_report_def report_files_def split: sum.splits option.splits if_splits prod.splits)
  moreover have "dict_get ?d ''status'' = Some (PStr (if code = 0 then ''ok'' else ''error''))"
    using assms(2) by (simp add: dicts)
  ultimately show ?thesis using g' unfolding announced_def by (auto intro!: exI [of _ ?d])
qed

lemma conclude_Inr:
  assumes "conclude wp ns made code st = (Inr k, st')"
    and "\<And>d. made = Inr d \<Longrightarrow> dict_get d ''status'' = Some (PStr (if code = 0 then ''ok'' else ''error''))"
  shows "k = code \<and> announced wp (na_report ns) code st st' \<and> rs_output st' = rs_output st \<and> rs_backend st' = rs_backend st"
proof -
  from assms(1) obtain d where d: "made = Inr d" "finalize wp d (na_report ns) code st = (Inr k, st')"
    by (auto simp: conclude_def split: sum.splits)
  show ?thesis by (rule finalize_Inr [OF d(2) assms(2) [OF d(1)]])
qed

section \<open>The status of a report\<close>

lemma set_nested_get [dicts]: "x \<noteq> outer \<Longrightarrow> dict_get (set_nested outer k v d) x = dict_get d x"
  by (simp add: set_nested_def dicts split: option.split pyval.split)

lemma mark_error_status [dicts]: "dict_get (mark_error e d) ''status'' = Some (PStr ''error'')"
  by (simp add: mark_error_def dicts)

lemma set_gpu_memory_status: "set_gpu_memory wp m p d = Inr d' \<Longrightarrow> dict_get d' ''status'' = dict_get d ''status''"
  by (auto simp: set_gpu_memory_def raises dicts split: if_splits list.splits)

lemma base_report_status: "base_report wp ns operation request pr = Inr d \<Longrightarrow> dict_get d ''status'' = Some (PStr ''ok'')"
  by (auto simp: base_report_def Let_def raises)

lemma load_failure_status: "load_failure_report wp rss e d = Inr d' \<Longrightarrow> dict_get d' ''status'' = Some (PStr ''error'')"
  by (auto simp: load_failure_report_def raises dicts)

lemma loaded_report_status: "loaded_report wp p info b d = Inr d' \<Longrightarrow> dict_get d' ''status'' = dict_get d ''status''"
  by (auto simp: loaded_report_def Let_def raises dicts dest!: set_gpu_memory_status)

lemma generation_failure_status:
  "generation_failure_report wp operation e d = Inr d' \<Longrightarrow> dict_get d' ''status'' = Some (PStr ''error'')"
  by (auto simp: generation_failure_report_def raises dicts)

lemma audio_report_status: "audio_report wp p operation c t r d = Inr d' \<Longrightarrow> dict_get d' ''status'' = dict_get d ''status''"
  by (auto simp: audio_report_def raises dicts dest!: set_gpu_memory_status)

section \<open>What an exit code means\<close>

lemma announced_from [simp]:
  "announced wp r c (st\<lparr>rs_output := out\<rparr>) st' = announced wp r c st st'"
  "announced wp r c (st\<lparr>rs_backend := x\<rparr>) st' = announced wp r c st st'"
  "announced wp r c (close_backend b st) st' = announced wp r c st st'"
  by (simp_all add: announced_def close_backend_def)

lemma close_backend_fields [simp]:
  "rs_output (close_backend b st) = rs_output st" "rs_backend (close_backend b st) = Some (snd (pytorch_close b))"
  by (simp_all add: close_backend_def)

lemma closed_released: "pb_state b = Loaded \<Longrightarrow> pb_model (snd (pytorch_close b)) = None \<and> pb_state (snd (pytorch_close b)) = Closed"
  by (simp add: pytorch_close_def)

lemma pytorch_generate_state: "pb_state (snd (pytorch_generate x q b)) = pb_state b"
  by (simp add: pytorch_generate_def upstream_generate_def Let_def split: sum.split prod.split option.split)

lemma pytorch_stream_state: "pb_state (snd (pytorch_stream s b)) = pb_state b"
  by (simp add: pytorch_stream_def stream_chunks_def Let_def split: sum.split prod.split option.split stream_request.split)

lemma dispatch_state: "pb_state (snd (dispatch_one_shot q b)) = pb_state b"
  by (cases q) (simp_all add: pytorch_generate_state)

lemma synthesize_state: "synthesize_audio wp streaming q b = (r, b1) \<Longrightarrow> pb_state b1 = pb_state b"
  using dispatch_state [of q b] pytorch_stream_state [of "StreamRequest q" b]
  by (auto simp: synthesize_audio_def split: if_splits prod.splits sum.splits option.splits)

lemma pytorch_load_Inr: "pytorch_load b = (Inr info, b1) \<Longrightarrow> pb_state b1 = Loaded"
  by (auto simp: pytorch_load_def Let_def split: if_splits sum.splits)

text \<open>A backend as \<open>main\<close> builds it: not loaded, for a model and a device that have names.\<close>

definition fresh_backend :: "'m pytorch_backend \<Rightarrow> bool" where
  "fresh_backend b \<longleftrightarrow> pb_state b = Created \<and> pb_model b = None \<and> strip (rm_model_id (pb_resolved b)) \<noteq> [] \<and>
     strip (effective_device (pb_plan b)) \<noteq> []"

lemma pytorch_load_Inl:
  assumes "pytorch_load b = (Inl e, b1)" and "fresh_backend b"
  shows "pb_model b1 = None"
proof (cases "load_model b")
  case (Inl x)
  with assms show ?thesis by (simp add: pytorch_load_def fresh_backend_def)
next
  case (Inr m)
  from assms(2) pytorch_info_loaded [of "b\<lparr>pb_model := Some m, pb_state := Loaded\<rparr>"] obtain i where
    "pytorch_info (b\<lparr>pb_model := Some m, pb_state := Loaded\<rparr>) = Inr i" by (auto simp: fresh_backend_def)
  with assms Inr show ?thesis by (simp add: pytorch_load_def fresh_backend_def Let_def)
qed

lemma prepare_parts:
  assumes "prepare wp = Inr (Inr pr)"
  shows "\<exists>opt. from_mapping (environ_mapping (in_environ (wp_installation wp))) = Inr (pr_config pr) \<and>
    gen_resolve_model wp (pr_config pr) = Inr (pr_resolved pr) \<and>
    discover_plan wp (pr_config pr) = Inr (pr_inventory pr, pr_plan pr) \<and>
    new_pytorch (wp_upstream wp) (wp_files wp) (pr_resolved pr) (pr_plan pr) (load_denoiser (pr_config pr))
      (offline (pr_config pr)) opt = Inr (pr_backend pr)"
  using assms by (auto simp: prepare_def new_pytorch_def raises split: sum.splits exn.splits) blast

lemma resolved_names_model: "gen_resolve_model wp cfg = Inr r \<Longrightarrow> strip (rm_model_id r) \<noteq> []"
  using resolve_model_facts by (fastforce simp: gen_resolve_model_def raises holds_model_def model_id_const_def literal_text)

lemma prepared_backend: "prepare wp = Inr (Inr pr) \<Longrightarrow> fresh_backend (pr_backend pr)"
proof -
  assume "prepare wp = Inr (Inr pr)"
  from prepare_parts [OF this] obtain opt where r: "gen_resolve_model wp (pr_config pr) = Inr (pr_resolved pr)"
    and b: "new_pytorch (wp_upstream wp) (wp_files wp) (pr_resolved pr) (pr_plan pr) (load_denoiser (pr_config pr))
      (offline (pr_config pr)) opt = Inr (pr_backend pr)" by blast
  from b obtain dev where dev: "resolve_upstream_device (pr_plan pr) = Inr dev"
    by (auto simp: new_pytorch_def mk_pytorch_backend_def raises)
  from upstream_device_plans [OF this] have "strip (effective_device (pr_plan pr)) \<noteq> []" by (auto simp: literal_text)
  with b dev resolved_names_model [OF r] show ?thesis
    by (auto simp: new_pytorch_def mk_pytorch_backend_def fresh_backend_def dest!: sym [of _ "pr_backend pr"])
qed

lemma deliver_Inr:
  assumes "deliver wp ns r b d st = (Inr k, st')" and "dict_get d ''status'' = Some (PStr ''ok'')"
  shows "announced wp (na_report ns) k st st' \<and> rs_backend st' = Some (snd (pytorch_close b)) \<and> (k = 0 \<or> k = 4) \<and>
    (k = 0 \<longrightarrow> (\<exists>written content v.
       write_wav (wp_write wp) (Some (path_name (path_of (text_or_empty (na_output ns))))) r True (rs_output st) =
         (Inr written, rs_output st') \<and> di_target (rs_output st') = Some content \<and>
       validate_wav (wp_read wp) True content (Some (ar_sample_rate_hz r)) (Some (ar_channels r)) = Inr v \<and> valid v))"
proof -
  obtain w out where w: "write_wav (wp_write wp) (Some (path_name (path_of (text_or_empty (na_output ns))))) r True (rs_output st) =
      (w, out)" by fastforce
  let ?failed = "mark_error (wav_failure ''wav_write_failed'' ''The WAV output could not be written.'') d"
  let ?invalid = "\<lambda>d. mark_error
      (wav_failure ''wav_validation_failed'' ''The written WAV file did not pass validation.'') d"
  show ?thesis
  proof (cases w)
    case (Inl e)
    with assms(1) w have "finalize wp ?failed (na_report ns) 4 (close_backend b (st\<lparr>rs_output := out\<rparr>)) = (Inr k, st')"
      by (auto simp: deliver_def Let_def split: if_splits)
    from finalize_Inr [OF this] show ?thesis by (simp add: dicts)
  next
    case (Inr written)
    from write_wav_Inr [OF w [unfolded Inr]] obtain content where content: "di_target out = Some content" by blast
    let ?v = "validate_wav (wp_read wp) True content (Some (ar_sample_rate_hz r)) (Some (ar_channels r))"
    let ?d = "\<lambda>v. dict_set ''wav_validation'' (dict_value (validation_to_dict v))
      (dict_set ''wav'' (dict_value (write_result_to_dict written)) d)"
    let ?st = "close_backend b (st\<lparr>rs_output := out\<rparr>)"
    from assms(1) w Inr content obtain v where v: "?v = Inr v"
      by (auto simp: deliver_def Let_def split: sum.splits)
    show ?thesis
    proof (cases "valid v")
      case True
      with assms(1) w Inr content v have "finalize wp (?d v) (na_report ns) 0 ?st = (Inr k, st')"
        by (simp add: deliver_def Let_def)
      from finalize_Inr [OF this] assms(2) w Inr content v True show ?thesis by (simp add: dicts)
    next
      case False
      with assms(1) w Inr content v have "finalize wp (?invalid (?d v)) (na_report ns) 4 ?st = (Inr k, st')"
        by (simp add: deliver_def Let_def)
      from finalize_Inr [OF this] show ?thesis by (simp add: dicts)
    qed
  qed
qed

lemma generate_loaded_Inr:
  assumes "generate_loaded wp ns operation c q p b d st = (Inr k, st')" and "dict_get d ''status'' = Some (PStr ''ok'')"
    and "pb_state b = Loaded"
  shows "announced wp (na_report ns) k st st' \<and> (\<exists>b'. rs_backend st' = Some b' \<and> pb_state b' = Closed \<and> pb_model b' = None) \<and>
    (k = 3 \<and> rs_output st' = rs_output st \<or> k = 4 \<or>
     k = 0 \<and> (\<exists>r x b1 written content v. synthesize_audio wp (na_stream ns) q b = (Inr (r, x), b1) \<and>
       write_wav (wp_write wp) (Some (path_name (path_of (text_or_empty (na_output ns))))) r True (rs_output st) =
         (Inr written, rs_output st') \<and> di_target (rs_output st') = Some content \<and>
       validate_wav (wp_read wp) True content (Some (ar_sample_rate_hz r)) (Some (ar_channels r)) = Inr v \<and> valid v))"
proof -
  obtain res b1 where syn: "synthesize_audio wp (na_stream ns) q b = (res, b1)" by fastforce
  have released: "pb_state (snd (pytorch_close b1)) = Closed \<and> pb_model (snd (pytorch_close b1)) = None"
    using closed_released [of b1] synthesize_state [OF syn] assms(3) by simp
  show ?thesis
  proof (cases res)
    case (Inl e)
    with assms(1) syn obtain x where
      "conclude wp ns (generation_failure_report wp operation x d) 3 (close_backend b1 st) = (Inr k, st')"
      by (cases e) (auto simp: generate_loaded_def)
    from conclude_Inr [OF this] generation_failure_status [of wp operation x d] released show ?thesis by simp
  next
    case (Inr rx)
    obtain r x where rx: "rx = (r, x)" by (cases rx)
    from assms(1) syn Inr rx obtain d1 where
      a: "audio_report wp p operation c (na_text ns) r (dict_set ''stream'' x d) = Inr d1"
      and dl: "deliver wp ns r b1 d1 (st\<lparr>rs_backend := Some b1\<rparr>) = (Inr k, st')"
      by (auto simp: generate_loaded_def Let_def split: sum.splits)
    have "dict_get d1 ''status'' = Some (PStr ''ok'')"
      using audio_report_status [OF a] assms(2) by (simp add: dicts)
    from deliver_Inr [OF dl this] released syn Inr rx show ?thesis by auto
  qed
qed

lemma run_prepared_Inr:
  assumes "run_prepared wp ns job pr st = (Inr k, st')" and "fresh_backend (pr_backend pr)"
  shows "announced wp (na_report ns) k st st' \<and>
    (\<exists>b'. rs_backend st' = Some b' \<and> pb_model b' = None) \<and>
    (k = 3 \<and> rs_output st' = rs_output st \<or> k = 4 \<and> job \<noteq> None \<or>
     k = 0 \<and>
       (case job of
          None \<Rightarrow> rs_output st' = rs_output st
        | Some (q, _, _) \<Rightarrow>
            \<exists>info b r x b1 written content v.
              pytorch_load (pr_backend pr) = (Inr info, b) \<and>
              synthesize_audio wp (na_stream ns) q b = (Inr (r, x), b1) \<and>
              write_wav (wp_write wp) (Some (path_name (path_of (text_or_empty (na_output ns))))) r True (rs_output st) =
                (Inr written, rs_output st') \<and> di_target (rs_output st') = Some content \<and>
              validate_wav (wp_read wp) True content (Some (ar_sample_rate_hz r)) (Some (ar_channels r)) = Inr v \<and>
              valid v))"
proof -
  define operation where "operation =
    (case job of
       None \<Rightarrow> ''load-only'' | Some (_, operation, _) \<Rightarrow> if na_stream ns then ''stream-'' @ operation else operation)"
  from assms(1) obtain d rss where
    d: "base_report wp ns operation (map_option fst job) pr = Inr d" and rss: "rss_value wp Load_Start = Inr rss"
    by (auto simp: run_prepared_def operation_def Let_def split: sum.splits)
  note ok = base_report_status [OF d]
  obtain l b where load: "pytorch_load (pr_backend pr) = (l, b)" by fastforce
  show ?thesis
  proof (cases l)
    case (Inl e)
    with assms(1) d rss load obtain x where
      "conclude wp ns (load_failure_report wp rss x d) 3 (st\<lparr>rs_backend := Some b\<rparr>) = (Inr k, st')"
      by (cases e) (auto simp: run_prepared_def operation_def [symmetric] Let_def)
    from conclude_Inr [OF this] load_failure_status [of wp rss x d]
    have c: "k = 3" "announced wp (na_report ns) 3 st st'" "rs_output st' = rs_output st" "rs_backend st' = Some b"
      by simp_all
    have "pb_model b = None" using pytorch_load_Inl [OF _ assms(2)] load Inl by blast
    with c show ?thesis by simp
  next
    case (Inr info)
    with assms(1) d rss load obtain d1 where d1: "loaded_report wp (pr_plan pr) info b d = Inr d1"
      by (auto simp: run_prepared_def operation_def [symmetric] Let_def split: sum.splits)
    have ok1: "dict_get d1 ''status'' = Some (PStr ''ok'')" using loaded_report_status [OF d1] ok by simp
    have loaded: "pb_state b = Loaded" using pytorch_load_Inr load Inr by blast
    show ?thesis
    proof (cases job)
      case None
      then have operation: "operation = ''load-only''" by (simp add: operation_def)
      have "finalize wp d1 (na_report ns) 0 (close_backend b (st\<lparr>rs_backend := Some b\<rparr>)) = (Inr k, st')"
        using assms(1) d rss load Inr d1 unfolding None operation by (simp add: run_prepared_def Let_def)
      from finalize_Inr [OF this] ok1 closed_released [OF loaded] None show ?thesis by simp
    next
      case (Some j)
      obtain q o' c where j: "j = (q, o', c)" by (cases j)
      then have operation: "operation = (if na_stream ns then ''stream-'' @ o' else o')"
        by (simp add: operation_def Some)
      have "generate_loaded wp ns operation c q (pr_plan pr) b d1 (st\<lparr>rs_backend := Some b\<rparr>) = (Inr k, st')"
        using assms(1) d rss load Inr d1 unfolding Some j operation by (simp add: run_prepared_def Let_def)
      from generate_loaded_Inr [OF this ok1 loaded] Some j load Inr show ?thesis by auto
    qed
  qed
qed

text \<open>What \<open>main\<close> gives to the resolver, the device manager and the backend.\<close>

definition job_of :: "generate_args \<Rightarrow> (one_shot \<times> string \<times> string) option \<Rightarrow> bool" where
  "job_of ns job \<longleftrightarrow> (if na_load_only ns then job = None else \<exists>j. job = Some j \<and> build_request ns = Inr (Inr j))"

lemma generate_main_Inr:
  assumes "generate_main wp ns st = (Inr k, st')"
  shows "k = 2 \<and> announced wp None 2 st st' \<and> rs_output st' = rs_output st \<and> rs_backend st' = rs_backend st \<or>
    (\<exists>job pr. argument_problem ns = None \<and> job_of ns job \<and> prepare wp = Inr (Inr pr) \<and>
       run_prepared wp ns job pr st = (Inr k, st'))"
proof (cases "argument_problem ns")
  case (Some problem)
  with assms emit_error_Inr show ?thesis by (fastforce simp: generate_main_def)
next
  case None
  define chosen where "chosen = (if na_load_only ns then Inr (Inr None)
            else and_then (build_request ns) (\<lambda>r. Inr (case r of Inl problem \<Rightarrow> Inl problem | Inr job \<Rightarrow> Inr (Some job))))"
  have m: "generate_main wp ns st = (case chosen of
        Inl e \<Rightarrow> (Inl e, st)
      | Inr (Inl problem) \<Rightarrow> emit_error wp (''invalid_request'', problem, ''ArgumentError'') st
      | Inr (Inr job) \<Rightarrow>
     (case prepare wp of
        Inl e \<Rightarrow> (Inl e, st)
      | Inr (Inl what) \<Rightarrow> emit_error wp what st
      | Inr (Inr pr) \<Rightarrow> run_prepared wp ns job pr st))"
    by (simp only: generate_main_def None option.case chosen_def)
  consider e where "emit_error wp e st = (Inr k, st')"
    | job pr where "chosen = Inr (Inr job)" "prepare wp = Inr (Inr pr)" "run_prepared wp ns job pr st = (Inr k, st')"
    using assms m by (auto split: sum.splits)
  then show ?thesis
  proof cases
    case 1
    from emit_error_Inr [OF this] show ?thesis by simp
  next
    case 2
    from 2(1) have "job_of ns job"
      by (cases "build_request ns"; cases "projr (build_request ns)") (auto simp: chosen_def job_of_def split: if_split_asm)
    with 2 None show ?thesis by blast
  qed
qed

section \<open>What the model spoke\<close>

text \<open>The samples the model spoke for some arguments: those of the one waveform, or of all waveforms of the
  stream.\<close>

definition spoken :: "'m upstream \<Rightarrow> bool \<Rightarrow> kwargs \<Rightarrow> 'm \<Rightarrow> pyfloat list \<Rightarrow> bool" where
  "spoken up streaming kw m samples \<longleftrightarrow>
     (if streaming
      then \<exists>ns m1. up_stream up kw m = (Inr ns, m1) \<and> list_all (\<lambda>w. isOK (converted w)) (ns_items ns) \<and>
        samples = concat (map (\<lambda>w. map plain_zero (projr (converted w))) (ns_items ns))
      else \<exists>w m1 operation ss. up_generate up kw m = (Inr w, m1) \<and> waveform_to_samples operation w = Inr ss \<and>
        samples = map plain_zero ss)"

lemma dispatch_generates: "\<exists>x. dispatch_one_shot q b = pytorch_generate x q b"
  by (cases q) auto

lemma joined_samples:
  assumes "joined_result cs = Inr r"
  shows "list_all chunk_ok cs \<Longrightarrow> cs \<noteq> [] \<Longrightarrow> ar_samples r = concat (map ac_samples cs)"
proof -
  assume cs: "list_all chunk_ok cs" "cs \<noteq> []"
  then have "list_all sample_ok (concat (map ac_samples cs))" "concat (map ac_samples cs) \<noteq> []"
    by (cases cs; auto simp: list_all_iff chunk_ok_def)+
  from normalize_samples_id [OF this(2,1)] assms show ?thesis
    by (auto simp: joined_result_def mk_audio_result_def raises)
qed

lemma synthesized_samples:
  assumes "pytorch_fit b" and "synthesize_audio wp streaming q b = (Inr (r, x), b1)"
  shows "\<exists>m kw. pb_model b = Some m \<and> (''text'', upstream_text q) \<in> set kw \<and>
    spoken (pb_upstream b) streaming kw m (ar_samples r)"
proof (cases streaming)
  case False
  with assms(2) obtain y where "pytorch_generate y q b = (Inr r, b1)"
    using dispatch_generates [of q b] by (auto simp: synthesize_audio_def raises split: prod.splits)
  from generated_result [OF assms(1) this] False show ?thesis by (fastforce simp: spoken_def)
next
  case True
  with assms(2) obtain cs where cs: "pytorch_stream (StreamRequest q) b = (Inr (cs, None), b1)" "joined_result cs = Inr r"
    by (auto simp: synthesize_audio_def raises split: prod.splits sum.splits option.splits if_splits)
  from stream_completed [OF assms(1) cs(1)] obtain m m1 ns conditioning kw where s:
    "pb_model b = Some m" "generate_kwargs (pb_files b) q = Inr (conditioning, kw)"
    "up_stream (pb_upstream b) kw m = (Inr ns, m1)" "length cs = length (ns_items ns)"
    "\<forall>i < length cs. isOK (converted (ns_items ns ! i)) \<and>
       ac_samples (cs ! i) = map plain_zero (projr (converted (ns_items ns ! i)))" by blast
  have "stream_shape cs" using pytorch_stream_spec [OF assms(1) cs(1)] by simp
  then have "ar_samples r = concat (map ac_samples cs)"
    using joined_samples [OF cs(2)] by (simp add: stream_shape_def)
  moreover have "map ac_samples cs = map (\<lambda>w. map plain_zero (projr (converted w))) (ns_items ns)"
    using s(4,5) by (simp add: list_eq_iff_nth_eq)
  moreover have "list_all (\<lambda>w. isOK (converted w)) (ns_items ns)" using s(4,5) by (simp add: list_all_length)
  ultimately show ?thesis using s(1,3) True upstream_text_in [OF s(2)] by (auto simp: spoken_def)
qed

end
