(* ===== verification/Generate_Returns.thy ===== *)
theory Generate_Returns
  imports Generate
begin

text \<open>
  The generation command ends. Where everything around it answers as its documentation says, \<open>main\<close> of
  \<open>scripts/generate.py\<close> returns an exit code for every command line, with three exceptions, each of them
  exactly described: an index of more digits than Python converts, a plan of several workers, and audio that
  does not fit a WAV file.
\<close>

section \<open>Every document can be printed\<close>

lemma map_raise_units: "(\<exists>us. map_raise (\<lambda>r. r) rs = Inr us) \<longleftrightarrow> (\<forall>r \<in> set rs. r = Inr ())" for rs :: "(exn + unit) list"
proof (induction rs)
  case (Cons r rs)
  then show ?case by (cases r) (auto simp: and_then_eq_Inr)
qed simp

lemma json_list_iff:
  "json_check (PList vs) = Inr () \<longleftrightarrow> list_all (\<lambda>v. json_check v = Inr ()) vs"
  "json_check (PTuple vs) = Inr () \<longleftrightarrow> list_all (\<lambda>v. json_check v = Inr ()) vs"
  by (simp_all add: json_check.simps and_then_eq_Inr json_members_map map_raise_units list_all_iff)

lemma json_items_map:
  "json_items items = map (\<lambda>(k, v). if is_str k then (str_of k, json_check v)
      else ([], Inl (TypeError ''keys must be str, int, float, bool or None''))) items"
  by (induction items) auto

lemma json_pairs_iff: "json_check (PDict d) = Inr () \<longleftrightarrow> json_pairs d"
  by (auto simp: json_check.simps and_then_eq_Inr map_raise_units json_items_map json_pairs_def list_all_iff split_beta
      simp del: if_image_distrib split: if_splits)

lemma json_pairs_set: "json_pairs d \<Longrightarrow> is_str k \<Longrightarrow> json_check v = Inr () \<Longrightarrow> json_pairs (dict_set k v d)"
  unfolding json_pairs_def by (rule list_all_dict_set) simp_all

text \<open>Redaction keeps a document printable.\<close>

lemma json_redact:
  "json_check v = Inr () \<Longrightarrow> json_check (redact_value t v) = Inr ()"
  "json_pairs items \<Longrightarrow> json_pairs d \<Longrightarrow> json_pairs (redact_items t items d)"
  "list_all (\<lambda>v. json_check v = Inr ()) vs \<Longrightarrow> list_all (\<lambda>v. json_check v = Inr ()) (redact_members t vs)"
  by (induction t v and t items d and t vs rule: redact_value_redact_items_redact_members.induct)
    (auto simp: json_list_iff json_pairs_iff json_pairs_def list_all_dict_set)

lemma json_redacted: "json_values d \<Longrightarrow> json_check (redacted_document wp d) = Inr ()"
  unfolding redacted_document_def by (intro json_redact json_dict_value)

lemma json_values_get: "json_values d \<Longrightarrow> dict_get d k = Some v \<Longrightarrow> json_check v = Inr ()"
  by (induction d) (auto split: if_splits)

lemma json_set_nested: "json_values d \<Longrightarrow> json_check v = Inr () \<Longrightarrow> json_values (set_nested outer k v d)"
  unfolding set_nested_def
  by (auto split: option.split pyval.split intro!: json_set json_pairs_dict json_pairs_set
      dest: json_values_get simp flip: json_pairs_iff)

section \<open>Surroundings that answer\<close>

text \<open>The tensors of a model are counted; an iterator over them raises what code outside the program may.\<close>

fun accessor_fine :: "accessor \<Rightarrow> bool" where
  "accessor_fine Not_Callable = True"
| "accessor_fine (Accessor called) =
     outcome exn_fine (\<lambda>(items, fin). case fin of None \<Rightarrow> True | Some e \<Rightarrow> exn_fine e) called"

definition devices_fine :: "'m upstream \<Rightarrow> bool" where
  "devices_fine up \<longleftrightarrow>
     (\<forall>m tts. up_tts up m = Some tts \<longrightarrow> accessor_fine (tts_parameters tts) \<and> accessor_fine (tts_buffers tts))"

text \<open>The files of the kernel hold what the kernel writes, the source lock can be judged, torch can be imported, and
  what the packages raise is what they document.\<close>

definition surroundings_fine :: "'m workplace \<Rightarrow> bool" where
  "surroundings_fine wp \<longleftrightarrow>
     documented (wp_installation wp) \<and> isOK (read_source_lock (wp_installation wp)) \<and>
     (\<forall>m p s. wp_kernel wp m p = Some s \<longrightarrow> kernel_text s) \<and>
     upstream_fine (wp_upstream wp) \<and> devices_fine (wp_upstream wp) \<and> wp_torch wp = Inr () \<and>
     files_fine (wp_files wp) \<and> fs_reports (wp_files wp) \<and> loads_reports (wp_json wp) \<and>
     (case wp_deploy wp of None \<Rightarrow> True | Some e \<Rightarrow> is_Exception e) \<and>
     outcome (\<lambda>e. is_Exception e \<and> \<not> is_model_exn e) (\<lambda>_. True)
       (default_discovery (wp_files wp) (wp_json wp) (wp_scan wp)) \<and>
     (case wp_report_fault wp of None \<Rightarrow> True | Some e \<Rightarrow> is_os_error e)"

abbreviation streams_work :: "'m run_state \<Rightarrow> bool" where
  "streams_work st \<equiv> co_answers (rs_console st) = []"

lemma fine_kernel:
  assumes "surroundings_fine wp"
  shows "\<exists>v. host_value wp m = Inr v \<and> json_check v = Inr ()" and "\<exists>v. rss_value wp m = Inr v \<and> json_check v = Inr ()"
proof -
  from assms have k: "\<forall>p s. wp_kernel wp m p = Some s \<longrightarrow> kernel_text s" by (auto simp: surroundings_fine_def)
  have total_ram: "\<exists>v. host_total_ram_bytes (wp_kernel wp m) sysconf = Inr v" for sysconf
    using total_ram_reads [of "wp_kernel wp m" sysconf] k by (cases "host_total_ram_bytes (wp_kernel wp m) sysconf") (auto simp: reads_def)
  have available: "\<exists>v. host_available_ram_bytes (wp_kernel wp m) = Inr v"
    using in_bytes_reads [OF read_kib_reads(1) [of "wp_kernel wp m" "''MemAvailable:''"]] k
    by (cases "host_available_ram_bytes (wp_kernel wp m)") (auto simp: reads_def host_available_ram_bytes_def)
  have limit: "\<exists>v. cgroup_memory_limit_bytes (wp_kernel wp m) = Inr v"
    using cgroup_limit_reads [of "wp_kernel wp m" "[''/sys/fs/cgroup/memory.max'', ''/sys/fs/cgroup/memory/memory.limit_in_bytes'']"] k
    by (cases "cgroup_memory_limit_bytes (wp_kernel wp m)") (auto simp: reads_def cgroup_memory_limit_bytes_def)
  from total_ram [of "sy_sysconf (wp_system wp m)"] available limit
  show "\<exists>v. host_value wp m = Inr v \<and> json_check v = Inr ()"
    by (auto simp: host_value_def collect_host_facts_def host_facts_to_dict_def)
  show "\<exists>v. rss_value wp m = Inr v \<and> json_check v = Inr ()"
    using read_kib_reads(2) [of "wp_kernel wp m"] k
    by (cases "read_self_status_rss_kib (wp_kernel wp m)")
      (auto simp: rss_value_def current_rss_bytes_def in_bytes_def reads_def split: option.splits)
qed

lemma event_counters_plain:
  "list_all (\<lambda>l. list_all plain_number (split_words l)) ls \<Longrightarrow> \<exists>d'. event_counters ls d = Inr d'"
proof (induction ls arbitrary: d)
  case (Cons l ls)
  have "\<exists>n. to_int w = Inr n" if "split_words l = [k, w]" "str_isdigit w" for k w
    using that Cons.prems to_int_plain [of w] by auto
  with Cons show ?case by (fastforce split: list.split)
qed simp

lemma fine_events:
  assumes "surroundings_fine wp"
  shows "\<exists>evs. cgroup_memory_events (wp_kernel wp m) = Inr evs"
proof (cases "wp_kernel wp m ''/sys/fs/cgroup/memory.events''")
  case (Some content)
  with assms have "kernel_text content" by (auto simp: surroundings_fine_def)
  then have "\<exists>d'. event_counters (splitlines content) [] = Inr d'"
    by (intro event_counters_plain) (simp add: kernel_text_def)
  with Some show ?thesis by (auto simp: cgroup_memory_events_def)
qed (simp add: cgroup_memory_events_def)

lemma json_events [simp]: "json_check (events_value evs) = Inr ()"
proof -
  have "json_values (map (\<lambda>(k, n). (k, PInt n)) d)" for d by (induction d) auto
  then show ?thesis by (simp add: events_value_def split: option.split)
qed

section \<open>The document leaves\<close>

lemma gen_emit_returns:
  assumes "json_values d" and "streams_work st"
  shows "\<exists>st'. gen_emit wp d st = (Inr (), st') \<and> streams_work st'"
  using assms by (simp add: gen_emit_def print_document_def console_answer_def json_redacted)

lemma emit_error_returns: "streams_work st \<Longrightarrow> \<exists>k st'. emit_error wp what st = (Inr k, st')"
proof -
  assume st: "streams_work st"
  obtain c m t where w: "what = (c, m, t)" by (cases what)
  let ?d = "[(''error'', dict_value [(''code'', PStr c), (''message'', PStr m), (''type'', PStr t)]),
         (''schema_version'', PInt 1), (''status'', PStr ''error'')]"
  have "json_values ?d" by simp
  from gen_emit_returns [OF this st, of wp] w show ?thesis by (auto simp: emit_error_def)
qed

lemma finalize_returns:
  assumes "surroundings_fine wp" and "json_values d" and "streams_work st"
  shows "\<exists>k st'. finalize wp d destination code st = (Inr k, st')"
proof -
  from fine_events [OF assms(1)] obtain evs where ev: "cgroup_memory_events (wp_kernel wp At_End) = Inr evs" by blast
  let ?d = "dict_set ''cgroup_memory_events'' (events_value evs) d"
  have d: "json_values ?d" using assms(2) by (intro json_set) simp_all
  from gen_emit_returns [OF d assms(3)] obtain st1 where g: "gen_emit wp ?d st = (Inr (), st1)" "streams_work st1" by blast
  have "\<exists>st2. write_report wp p ?d st1 = (Inr (), st2)" for p
    using assms(1) g(2) json_redacted [OF d, of wp]
    by (auto simp: write_report_def surroundings_fine_def complain_def console_answer_def split: option.splits)
  from this [of "the destination"] obtain st2 where "destination \<noteq> None \<longrightarrow> write_report wp (the destination) ?d st1 = (Inr (), st2)" by blast
  with ev g show ?thesis by (cases destination) (auto simp: finalize_def Let_def)
qed

lemma conclude_returns:
  assumes "surroundings_fine wp" and "\<exists>d. made = Inr d \<and> json_values d" and "streams_work st"
  shows "\<exists>k st'. conclude wp ns made code st = (Inr k, st')"
  using assms(2) finalize_returns [OF assms(1) _ assms(3)] by (auto simp: conclude_def)

section \<open>The reports are made\<close>

lemma json_public: "public_exn (BackendExn e) \<Longrightarrow> json_check (backend_error_to_dict e) = Inr ()"
proof -
  assume "public_exn (BackendExn e)"
  then have "list_all (\<lambda>(k, v). strip k \<noteq> [] \<and> (v = PNone \<or> is_scalar v) \<and> pv_finite v) (be_details e)"
    by (simp add: backend_error_ok_def details_ok_def)
  then have "json_values (be_details e)"
    by (auto simp: json_values_def list_all_iff elim!: is_scalar.elims)
  then have "json_pairs (map (\<lambda>(k, v). (PStr k, v)) (sort_key fst (be_details e)))"
    by (auto simp: json_pairs_def json_values_def list_all_iff)
  then show ?thesis by (simp add: backend_error_to_dict_def json_pairs_iff json_pairs_def)
qed

lemma json_base:
  assumes "surroundings_fine wp" and "json_values (inventory_to_dict (in_to_text (wp_installation wp)) (pr_inventory pr))"
  shows "\<exists>d. base_report wp ns operation request pr = Inr d \<and> json_values d"
proof -
  have versions: "json_values (map (\<lambda>(k, v). (k, PStr v)) d)" for d :: "(string, string) dict"
    by (induction d) auto
  obtain locked status where "read_source_lock (wp_installation wp) = Inr (locked, status)"
    using assms(1) by (auto simp: surroundings_fine_def isOK_iff)
  moreover obtain host rss where "host_value wp At_Report = Inr host" "json_check host = Inr ()"
    "rss_value wp At_Report = Inr rss" "json_check rss = Inr ()"
    using fine_kernel [OF assms(1), of At_Report] by blast
  moreover have "json_values (case request of None \<Rightarrow> [] | Some q \<Rightarrow> request_summary q (na_text ns) (na_voice_instruction ns))"
    by (simp add: request_summary_def Let_def split: option.split)
  moreover have "json_values (model_report r)" for r by (simp add: model_report_def)
  ultimately show ?thesis
    by (simp add: base_report_def Let_def assms(2) json_plan versions json_pairs_iff json_pairs_def)
qed

lemma json_float_of [simp]: "json_check (float_of q) = Inr ()"
  by (simp add: float_of_def)

lemma json_timing [simp]: "json_check (timing_value wp name m m') = Inr ()"
  by (simp add: timing_value_def stopwatch_to_dict_def split: option.split)

lemma json_mark: "json_values d \<Longrightarrow> json_check e = Inr () \<Longrightarrow> json_values (mark_error e d)"
  unfolding mark_error_def by (intro json_set) simp_all

lemma json_load_failure:
  assumes "surroundings_fine wp" and "json_values d" and "json_check rss0 = Inr ()" and "public_exn (BackendExn e)"
  shows "\<exists>d'. load_failure_report wp rss0 e d = Inr d' \<and> json_values d'"
proof -
  obtain host rss where v: "host_value wp Load_End = Inr host" "json_check host = Inr ()"
    "rss_value wp Load_End = Inr rss" "json_check rss = Inr ()"
    using fine_kernel [OF assms(1), of Load_End] by blast
  show ?thesis unfolding load_failure_report_def v and_then_Inr
    by (rule exI, rule conjI, rule refl)
      (intro json_set json_set_nested json_mark assms(2) json_public [OF assms(4)] v json_timing, simp add: v assms(3))
qed

lemma json_generation_failure:
  assumes "surroundings_fine wp" and "json_values d" and "public_exn (BackendExn e)"
  shows "\<exists>d'. generation_failure_report wp operation e d = Inr d' \<and> json_values d'"
proof -
  obtain host rss where v: "host_value wp Generation_End = Inr host" "json_check host = Inr ()"
    "rss_value wp Generation_End = Inr rss" "json_check rss = Inr ()"
    using fine_kernel [OF assms(1), of Generation_End] by blast
  show ?thesis unfolding generation_failure_report_def v and_then_Inr
    by (rule exI, rule conjI, rule refl)
      (intro json_set json_set_nested json_mark assms(2) json_public [OF assms(3)] v json_timing)
qed

text \<open>The GPU whose memory is observed is the one of the plan: a qualified plan has exactly one.\<close>

definition observable :: "plan \<Rightarrow> bool" where
  "observable p \<longleftrightarrow> effective_device p = ''cuda'' \<longrightarrow> (\<exists>g gs. selected_gpu_indices p = g # gs \<and> 0 \<le> g)"

lemma json_gpu_memory:
  assumes "observable p" and "json_values d"
  shows "\<exists>d'. set_gpu_memory wp m p d = Inr d' \<and> json_values d'"
proof (cases "effective_device p = ''cuda''")
  case True
  with assms(1) obtain g gs where g: "selected_gpu_indices p = g # gs" "0 \<le> g" by (auto simp: observable_def)
  then obtain obs where obs: "observe_gpu_memory (Some (wp_cuda wp m)) (PInt g) = Inr obs"
    by (cases "wp_cuda wp m"; cases "query_gpu (the (wp_cuda wp m)) g") (auto simp: observe_gpu_memory_def)
  have "json_values (dict_set ''gpu_memory'' (dict_value (gpu_observation_to_dict obs)) d)"
    by (rule json_set [OF assms(2)]) (simp add: gpu_observation_to_dict_def)
  with True g(1) obs show ?thesis by (simp add: set_gpu_memory_def)
qed (simp add: set_gpu_memory_def assms(2))

lemma json_audio:
  assumes "surroundings_fine wp" and "json_values d" and "observable p"
  shows "\<exists>d'. audio_report wp p operation c t r d = Inr d' \<and> json_values d'"
proof -
  obtain host rss where v: "host_value wp Generation_End = Inr host" "json_check host = Inr ()"
    "rss_value wp Generation_End = Inr rss" "json_check rss = Inr ()"
    using fine_kernel [OF assms(1), of Generation_End] by blast
  let ?d = "set_nested ''memory'' ''rss_after_generation_bytes'' rss
           (set_nested ''timings'' operation (timing_value wp operation Generation_Start Generation_End) d)"
  have "json_values ?d" by (intro json_set_nested assms(2) v json_timing)
  from json_gpu_memory [OF assms(3) this, of wp Generation_End] obtain d1 where
    d1: "set_gpu_memory wp Generation_End p ?d = Inr d1" "json_values d1" by blast
  show ?thesis unfolding audio_report_def v and_then_Inr d1(1)
    by (rule exI, rule conjI, rule refl) (intro json_set d1(2) v, simp add: rounded_ratio_def)
qed

text \<open>The devices of the model.\<close>

lemma item_tensor_fine: "fine (item_tensor item)"
  by (cases item rule: item_tensor.cases) (simp_all add: exn_fine_def)

lemma count_tensors_fine:
  "(case fin of None \<Rightarrow> True | Some e \<Rightarrow> exn_fine e) \<Longrightarrow> fine (count_tensors items fin types n)"
proof (induction items fin types n rule: count_tensors.induct)
  case (3 item rest fin types n)
  show ?case unfolding count_tensors.simps Let_def
    by (intro outcome_and_then [OF item_tensor_fine] outcome_ifI)
      (use 3 in \<open>auto intro!: public_fine simp: backend_exn_public literal_text Let_def\<close>)
qed simp_all

lemma device_types_public: "accessor_fine a \<Longrightarrow> outcome public_exn (\<lambda>_. True) (collect_device_types a)"
proof (cases a)
  case (Accessor called)
  assume "accessor_fine a"
  with Accessor have "outcome public_exn (\<lambda>(items, fin). case fin of None \<Rightarrow> True | Some e \<Rightarrow> exn_fine e) (call_normalized ''load'' called)"
    by (intro normalized_public) simp
  then show ?thesis unfolding collect_device_types_def Accessor accessor.case
    by (rule outcome_and_then) (auto intro!: normalized_public count_tensors_fine)
qed (simp add: collect_device_types_def)

lemma json_devices:
  assumes "surroundings_fine wp" and "pb_upstream b = wp_upstream wp"
  shows "\<exists>v. model_devices_value b expected = Inr v \<and> json_check v = Inr ()"
proof -
  have missing: "public_exn missing_tts"
    by (simp add: missing_tts_def backend_exn_public literal_text)
  have inspect: "outcome public_exn (\<lambda>_. True) (inspect_model_devices (pb_upstream b) m x)" for m x
  proof (cases "up_tts (pb_upstream b) m")
    case (Some tts)
    with assms have "accessor_fine (tts_parameters tts)" "accessor_fine (tts_buffers tts)"
      by (auto simp: surroundings_fine_def devices_fine_def)
    from device_types_public [OF this(1)] device_types_public [OF this(2)] Some show ?thesis
      unfolding inspect_model_devices_def by (auto intro!: outcome_and_then)
  qed (simp add: inspect_model_devices_def missing)
  have "json_check (device_report_to_dict r) = Inr ()" for r
    by (simp add: device_report_to_dict_def json_pairs_iff json_pairs_def list_all_iff split: option.split)
  moreover have "outcome public_exn (\<lambda>_. True)
      (case pb_model b of None \<Rightarrow> Inl missing_tts | Some m \<Rightarrow> inspect_model_devices (pb_upstream b) m (Some expected))"
    using missing inspect by (simp split: option.split)
  moreover have "\<exists>x. e = BackendExn x" if "public_exn e" for e using that by (cases e) auto
  ultimately show ?thesis using json_public
    by (cases "case pb_model b of None \<Rightarrow> Inl missing_tts | Some m \<Rightarrow> inspect_model_devices (pb_upstream b) m (Some expected)")
      (fastforce simp: model_devices_value_def)+
qed

lemma json_loaded:
  assumes "surroundings_fine wp" and "json_values d" and "observable p" and "pb_upstream b = wp_upstream wp"
  shows "\<exists>d'. loaded_report wp p info b d = Inr d' \<and> json_values d'"
proof -
  obtain host rss where v: "host_value wp Load_End = Inr host" "json_check host = Inr ()"
    "rss_value wp Load_End = Inr rss" "json_check rss = Inr ()"
    using fine_kernel [OF assms(1), of Load_End] by blast
  let ?d = "dict_set ''cuda'' (dict_value (cuda_observation_to_dict (observe_torch_cuda (Some (wp_cuda wp Load_End))))) d"
  have "json_values ?d" by (rule json_set [OF assms(2)]) (simp add: cuda_observation_to_dict_def)
  from json_gpu_memory [OF assms(3) this, of wp Load_End] obtain d1 where
    d1: "set_gpu_memory wp Load_End p ?d = Inr d1" "json_values d1" by blast
  from json_devices [OF assms(1,4)] obtain dev where
    dev: "model_devices_value b (effective_device p) = Inr dev" "json_check dev = Inr ()" by blast
  have torch: "wp_torch wp = Inr ()" using assms(1) by (simp add: surroundings_fine_def)
  have backend: "json_check (dict_value (backend_report info b)) = Inr ()"
    by (simp add: backend_report_def list_all_iff)
  show ?thesis unfolding loaded_report_def torch and_then_Inr Let_def d1(1) v dev
    by (rule exI, rule conjI, rule refl) (intro json_set json_set_nested d1(2) v dev backend json_timing)
qed

section \<open>The file is written\<close>

definition unwritable :: "audio_result \<Rightarrow> bool" where
  "unwritable r \<longleftrightarrow>
     \<not> header_fits (nat (ar_channels r)) (nat (ar_sample_rate_hz r)) (2 * length (ar_samples r))"

lemma quantize_raises_write: "outcome is_wav_write_error (\<lambda>_. True) (map_raise quantize ss)"
  by (rule outcome_mono, rule outcome_map_raise [where Q = "\<lambda>_. True"])
    (simp_all add: quantize_def Let_def wav_write_error_def)

lemma write_raises:
  assumes "write_wav e name a parents d = (Inl x, d')"
  shows "is_wav_write_error x \<or> x = struct_error \<and> unwritable a"
proof (cases "clip_and_quantize (we_big_endian e) (ar_samples a)")
  case (Inl y)
  then have "map_raise quantize (ar_samples a) = Inl y" by (auto simp: clip_and_quantize_def and_then_eq_Inl Let_def)
  with quantize_raises_write [of "ar_samples a"] have "is_wav_write_error y" by simp
  with assms Inl show ?thesis
    by (auto simp: write_wav_def ensure_parent_def wav_write_error_def split: if_splits option.splits)
next
  case (Inr frames)
  from clip_and_quantize_frames [OF this] obtain qs where
    qs: "frames = map (native_item False) qs" "length qs = length (ar_samples a)" by blast
  then have len: "length (concat frames) = 2 * length (ar_samples a)" by (simp add: length_frames)
  obtain res content where w: "wave_write (we_big_endian e) (ar_channels a) (ar_sample_rate_hz a) (concat frames) = (res, content)"
    by fastforce
  have "caught wave_error" "\<not> caught struct_error" by (simp_all add: caught_def wave_error_def struct_error_def)
  with assms Inr w wave_write_outcome [OF w] len show ?thesis
    by (auto simp: write_wav_def ensure_parent_def wav_write_error_def write_temporary_def unwritable_def Let_def caught_def
        split: if_splits option.splits)
qed

lemma validate_written:
  assumes "write_wav e name a parents d = (Inr r, d')"
  shows "\<exists>content v. di_target d' = Some content \<and> validate_wav e' True content rate channels = Inr v"
proof -
  from write_wav_Inr [OF assms] obtain qs content where
    w: "wave_write (we_big_endian e) (ar_channels a) (ar_sample_rate_hz a) (concat (map (native_item False) qs)) = (Inr (), content)"
    and t: "di_target d' = Some content" by blast
  define data where "data = concat (map (native_item False) qs)"
  define tail where "tail = (if we_big_endian e then swap_pairs data else data)"
  have len: "length tail = length data" by (simp add: tail_def)
  from w have "1 \<le> ar_channels a" "0 < ar_sample_rate_hz a" and fit: "header_fits (nat (ar_channels a)) (nat (ar_sample_rate_hz a)) (length data)"
    and content: "content = riff @ wave_header (36 + length tail) (nat (ar_channels a)) (nat (ar_sample_rate_hz a)) (length data) @ tail"
    by (auto simp: wave_write_Inr data_def tail_def)
  moreover from fit have "36 + length tail < 2 ^ 32" by (simp add: len header_fits_def)
  ultimately obtain x where "read_wave content = Inr x" using read_wave_header by fastforce
  then have "\<exists>v. validate_wav e' True content rate channels = Inr v"
    by (cases x) (simp add: validate_wav_def Let_def)
  with t show ?thesis by blast
qed

lemma deliver_returns:
  assumes "surroundings_fine wp" and "json_values d" and "streams_work st"
  shows "(\<exists>k st'. deliver wp ns r b d st = (Inr k, st')) \<or>
    unwritable r \<and> (\<exists>st'. deliver wp ns r b d st = (Inl struct_error, st') \<and> rs_console st' = rs_console st \<and>
      rs_backend st' = rs_backend st \<and> rs_reports st' = rs_reports st)"
proof -
  obtain w out where w: "write_wav (wp_write wp) (Some (path_name (path_of (text_or_empty (na_output ns))))) r True (rs_output st) =
      (w, out)" by fastforce
  have quiet: "streams_work (close_backend b (st\<lparr>rs_output := out\<rparr>))" using assms(3) by (simp add: close_backend_def)
  have fin: "\<exists>k st'. finalize wp d' (na_report ns) c (close_backend b (st\<lparr>rs_output := out\<rparr>)) = (Inr k, st')"
    if "json_values d'" for d' c by (rule finalize_returns [OF assms(1) that quiet])
  have public: "json_check (wav_failure c m) = Inr ()" for c m by (simp add: wav_failure_def)
  show ?thesis
  proof (cases w)
    case (Inl e)
    from write_raises [OF w [unfolded Inl]] show ?thesis
    proof
      assume "is_wav_write_error e"
      with fin [OF json_mark [OF assms(2) public]] w Inl show ?thesis by (auto simp: deliver_def)
    next
      assume "e = struct_error \<and> unwritable r"
      with w Inl show ?thesis by (simp add: deliver_def struct_error_def)
    qed
  next
    case (Inr written)
    from validate_written [OF w [unfolded Inr]] obtain content v where v: "di_target out = Some content"
      "validate_wav (wp_read wp) True content (Some (ar_sample_rate_hz r)) (Some (ar_channels r)) = Inr v" by blast
    let ?d = "dict_set ''wav_validation'' (dict_value (validation_to_dict v))
      (dict_set ''wav'' (dict_value (write_result_to_dict written)) d)"
    have d: "json_values ?d"
      by (intro json_set assms(2)) (simp_all add: validation_to_dict_def write_result_to_dict_def split: option.split)
    from fin [OF d] fin [OF json_mark [OF d public]] w Inr v show ?thesis
      by (cases "valid v") (auto simp: deliver_def Let_def)
  qed
qed

section \<open>The synthesis ends\<close>

lemma joined_returns: "list_all chunk_ok cs \<Longrightarrow> cs \<noteq> [] \<Longrightarrow> \<exists>r. joined_result cs = Inr r"
proof -
  assume cs: "list_all chunk_ok cs" "cs \<noteq> []"
  let ?r = "\<lparr>ar_samples = concat (map ac_samples cs), ar_sample_rate_hz = ac_sample_rate_hz (hd cs),
    ar_channels = ac_channels (hd cs), ar_metadata = ac_metadata (hd cs)\<rparr>"
  from cs have "result_ok ?r" by (cases cs) (auto simp: result_ok_def chunk_ok_def list_all_iff)
  from mk_audio_result_id [OF this] show ?thesis by (simp add: joined_result_def)
qed

lemma synthesize_raises:
  assumes "pytorch_fit b" and "pb_state b = Loaded" and "synthesize_audio wp streaming q b = (res, b1)"
  shows "outcome public_exn (\<lambda>_. True) res"
proof (cases streaming)
  case False
  obtain y g b2 where "dispatch_one_shot q b = pytorch_generate y q b" and g: "pytorch_generate y q b = (g, b2)"
    using dispatch_generates [of q b] by fastforce
  with pytorch_generate_spec [OF assms(1) g] assms(3) False show ?thesis
    by (cases g) (auto simp: synthesize_audio_def)
next
  case True
  obtain g b2 where g: "pytorch_stream (StreamRequest q) b = (g, b2)" by fastforce
  have empty: "public_exn (backend_exn BackendRequestError ''The stream produced no audio chunks.'' ''empty_stream'' [])"
    by (simp add: backend_exn_public literal_text)
  from pytorch_stream_spec [OF assms(1) g] assms(3) True g show ?thesis
  proof (cases g)
    case (Inr p)
    obtain cs fin where p: "p = (cs, fin)" by (cases p)
    with pytorch_stream_spec [OF assms(1) g] Inr have "fin = None \<Longrightarrow> stream_shape cs" by simp
    then have "fin = None \<Longrightarrow> \<exists>r. joined_result cs = Inr r" using joined_returns by (auto simp: stream_shape_def)
    with pytorch_stream_spec [OF assms(1) g] assms(3) True g Inr p empty show ?thesis
      by (cases fin) (auto simp: synthesize_audio_def split: if_splits)
  qed (auto simp: synthesize_audio_def)
qed

lemma json_streamed: "synthesize_audio wp streaming q b = (Inr (r, x), b1) \<Longrightarrow> json_check x = Inr ()"
  by (auto simp: synthesize_audio_def raises stream_report_def Let_def rounded_ratio_def
      split: if_splits prod.splits sum.splits option.splits)

text \<open>How a run that does not return ends: the audio does not fit a WAV file, nothing is printed or reported, and the
  backend is left open.\<close>

definition crashed :: "'m workplace \<Rightarrow> bool \<Rightarrow> one_shot \<Rightarrow> 'm pytorch_backend \<Rightarrow> exn \<Rightarrow> 'm run_state \<Rightarrow> 'm run_state \<Rightarrow> bool" where
  "crashed wp streaming q b e st st' \<longleftrightarrow>
     (\<exists>r x b1. synthesize_audio wp streaming q b = (Inr (r, x), b1) \<and> unwritable r \<and> e = struct_error \<and>
        rs_console st' = rs_console st \<and> rs_reports st' = rs_reports st \<and> rs_backend st' = Some b1)"

lemma generate_loaded_returns:
  assumes "surroundings_fine wp" and "json_values d" and "streams_work st" and "pytorch_fit b" and "pb_state b = Loaded"
    and "observable p"
  shows "(\<exists>k st'. generate_loaded wp ns operation c q p b d st = (Inr k, st')) \<or>
    (\<exists>e st'. generate_loaded wp ns operation c q p b d st = (Inl e, st') \<and> crashed wp (na_stream ns) q b e st st')"
proof -
  obtain res b1 where syn: "synthesize_audio wp (na_stream ns) q b = (res, b1)" by fastforce
  note raises = synthesize_raises [OF assms(4,5) syn]
  show ?thesis
  proof (cases res)
    case (Inl e)
    with raises obtain x where x: "e = BackendExn x" "public_exn (BackendExn x)" by (cases e) auto
    have "streams_work (close_backend b1 st)" using assms(3) by (simp add: close_backend_def)
    from conclude_returns [OF assms(1) json_generation_failure [OF assms(1,2) x(2), of operation] this, of ns 3] syn Inl x(1)
    show ?thesis by (simp add: generate_loaded_def)
  next
    case (Inr rx)
    obtain r x where rx: "rx = (r, x)" by (cases rx)
    have x: "json_check x = Inr ()"
      by (rule json_streamed [OF syn [unfolded Inr rx]])
    from json_audio [OF assms(1) json_set [OF assms(2) x] assms(6), of operation c "na_text ns" r "''stream''"] obtain d1 where
      d1: "audio_report wp p operation c (na_text ns) r (dict_set ''stream'' x d) = Inr d1" "json_values d1" by blast
    have "streams_work (st\<lparr>rs_backend := Some b1\<rparr>)" using assms(3) by simp
    from deliver_returns [OF assms(1) d1(2) this, of ns r b1] syn Inr rx d1(1) show ?thesis
      by (auto simp: generate_loaded_def crashed_def)
  qed
qed

lemma load_failed: "pytorch_load b = (Inl e, b1) \<Longrightarrow> pytorch_fit b \<Longrightarrow> \<exists>x. e = BackendExn x \<and> public_exn (BackendExn x)"
  using pytorch_load_spec [of b "Inl e" b1] by (cases e) auto

lemma load_keeps: "pytorch_load b = (res, b1) \<Longrightarrow> pb_upstream b1 = pb_upstream b"
  by (auto simp: pytorch_load_def Let_def split: if_splits sum.splits)

lemma run_prepared_returns:
  assumes "surroundings_fine wp" and "streams_work st" and "pytorch_fit (pr_backend pr)" and "pb_state (pr_backend pr) = Created"
    and "pb_upstream (pr_backend pr) = wp_upstream wp" and "observable (pr_plan pr)"
    and "json_values (inventory_to_dict (in_to_text (wp_installation wp)) (pr_inventory pr))"
  shows "(\<exists>k st'. run_prepared wp ns job pr st = (Inr k, st')) \<or>
    (\<exists>e st' q o' c info b. run_prepared wp ns job pr st = (Inl e, st') \<and> job = Some (q, o', c) \<and>
       pytorch_load (pr_backend pr) = (Inr info, b) \<and> crashed wp (na_stream ns) q b e st st')"
proof -
  define operation where "operation =
    (case job of
       None \<Rightarrow> ''load-only'' | Some (_, operation, _) \<Rightarrow> if na_stream ns then ''stream-'' @ operation else operation)"
  from json_base [OF assms(1,7)] obtain d where d: "base_report wp ns operation (map_option fst job) pr = Inr d" "json_values d"
    by blast
  from fine_kernel(2) [OF assms(1)] obtain rss where rss: "rss_value wp Load_Start = Inr rss" "json_check rss = Inr ()" by blast
  obtain l b where load: "pytorch_load (pr_backend pr) = (l, b)" by fastforce
  let ?st = "st\<lparr>rs_backend := Some b\<rparr>"
  have quiet: "streams_work ?st" "streams_work (close_backend b ?st)" using assms(2) by (simp_all add: close_backend_def)
  show ?thesis
  proof (cases l)
    case (Inl e)
    with load_failed [OF load [unfolded Inl] assms(3)] obtain x where x: "e = BackendExn x" "public_exn (BackendExn x)" by blast
    from conclude_returns [OF assms(1) json_load_failure [OF assms(1) d(2) rss(2) x(2)] quiet(1), of ns 3] load Inl x(1) d(1) rss(1)
    show ?thesis by (simp add: run_prepared_def operation_def [symmetric] Let_def)
  next
    case (Inr info)
    have up: "pb_upstream b = wp_upstream wp" using load_keeps [OF load] assms(5) by simp
    from pytorch_load_spec [OF assms(3) load] Inr have fit: "pytorch_fit b" "pb_state b = Loaded" by simp_all
    from json_loaded [OF assms(1) d(2) assms(6) up, of info] obtain d1 where
      d1: "loaded_report wp (pr_plan pr) info b d = Inr d1" "json_values d1" by blast
    show ?thesis
    proof (cases job)
      case None
      then have operation: "operation = ''load-only''" by (simp add: operation_def)
      from finalize_returns [OF assms(1) d1(2) quiet(2), of "na_report ns" 0] d(1) rss(1) load Inr d1(1) show ?thesis
        unfolding None operation by (simp add: run_prepared_def Let_def)
    next
      case (Some j)
      obtain q o' c where j: "j = (q, o', c)" by (cases j)
      then have operation: "operation = (if na_stream ns then ''stream-'' @ o' else o')"
        by (simp add: operation_def Some)
      have "run_prepared wp ns job pr st = generate_loaded wp ns operation c q (pr_plan pr) b d1 ?st"
        using d(1) rss(1) load Inr d1(1) unfolding Some j operation by (simp add: run_prepared_def Let_def)
      with generate_loaded_returns [OF assms(1) d1(2) quiet(1) fit assms(6), of ns operation c q] Some j load Inr show ?thesis
        by (fastforce simp: crashed_def)
    qed
  qed
qed

section \<open>The preparation ends\<close>

lemma model_errors_plain: "model_errors m \<Longrightarrow> outcome is_Exception (\<lambda>_. True) m"
  by (erule outcome_weaken) (auto elim: is_model_exn.elims)

lemma try_candidates_plain:
  assumes "fs_reports fs" and "loads_reports loads"
  shows "model_errors (try_candidates fs loads sha n (map Item_Candidate cs) None attempts)"
proof (induction cs arbitrary: n attempts)
  case (Cons c cs)
  from resolve_candidate_errors [OF assms, of sha c] Cons show ?case
    by (cases "resolve_candidate fs loads sha c") (auto elim!: is_model_exn.elims)
qed simp

lemma resolve_model_plain:
  assumes "fs_reports fs" and "loads_reports loads"
  shows "outcome is_Exception (\<lambda>_. True) (resolve_model fs loads sha cfg (Items (map Item_Candidate cs) None) None)"
proof (cases "model_path cfg")
  case (Some p)
  with resolve_path_errors [OF assms] show ?thesis by (simp add: resolve_model_def model_errors_plain)
next
  case None
  have cache: "\<exists>r. try_cache fs loads sha (cache_dir cfg) attempts = Inr r" for attempts
    using try_cache_first [OF assms, of sha cfg attempts] by auto
  have "outcome is_Exception (\<lambda>_. True) (and_then (try_cache fs loads sha (cache_dir cfg) attempts) (\<lambda>tried2.
          case tried2 of Inl r \<Rightarrow> Inr r | Inr attempts2 \<Rightarrow>
          if offline cfg
          then Inl (model_exn OfflineResolutionError
                 ''Offline mode is enabled and no valid local VoxCPM2 model was found'' None
                 [(''attempts'', PList attempts2)])
          else try_remote fs loads sha None attempts2))" for attempts
    using cache [of attempts] by (auto simp: try_remote_def model_exn_def split: sum.split)
  with None model_errors_plain [OF try_candidates_plain [OF assms, of sha 0 cs "[]"]] show ?thesis
    unfolding resolve_model_def
    by (auto intro!: outcome_and_then [where R = "\<lambda>_. True"] split: sum.split)
qed

lemma gen_resolve_plain:
  assumes "surroundings_fine wp"
  shows "outcome is_Exception (\<lambda>_. True) (gen_resolve_model wp cfg)"
proof -
  have "outcome is_Exception (\<lambda>_. True)
      (if model_path cfg = None
        then (case wp_deploy wp of
                Some e \<Rightarrow> Inl e
              | None \<Rightarrow> default_discovery (wp_files wp) (wp_json wp) (wp_scan wp))
        else Inr [])"
    using assms by (auto simp: surroundings_fine_def elim!: outcome_weaken split: option.splits)
  moreover have "outcome is_Exception (\<lambda>_. True)
      (resolve_model (wp_files wp) (wp_json wp) (wp_sha wp) cfg (Items (map Item_Candidate cs) None) None)" for cs
    using assms by (intro resolve_model_plain) (simp_all add: surroundings_fine_def)
  ultimately show ?thesis unfolding gen_resolve_model_def by (rule outcome_and_then)
qed

text \<open>A plan is on the CPU, or on the first GPUs of those selected.\<close>

lemma resolved_plan:
  assumes "config_ok c" and "inventory_ok i" and "resolve_execution_plan c i = Inr p"
  shows "effective_device p = ''cpu'' \<or>
    effective_device p = ''cuda'' \<and> selected_gpu_indices p \<noteq> [] \<and> list_all (\<lambda>g. 0 \<le> g) (selected_gpu_indices p) \<and>
      1 \<le> worker_count p \<and> worker_count p \<le> int (length (selected_gpu_indices p)) \<and>
      worker_gpu_indices p = take (nat (worker_count p)) (selected_gpu_indices p)"
proof -
  from assms(3) obtain c' where m: "materialize_execution_profile (visible_gpu_indices i) c = Inr c'"
    and r: "resolve_values (Device_Mode (device c')) (Arg_Raw (raw_gpus (gpu_devices c')))
        (Arg_Raw (raw_workers (workers c'))) i = Inr p"
    by (auto simp: resolve_execution_plan_def raises)
  have ok: "config_ok c'" by (rule materialize_config_ok [OF assms(1) m])
  let ?d = "device_value (device c')"
  from r resolve_config [OF ok, of i] have rn: "resolve_normalized ?d (gpu_devices c') (workers c') i = Inr p" by simp
  note range = config_in_range [OF ok]
  from resolve_normalized_table [OF assms(2) range, of ?d] rn
  have adm: "admissible ?d (gpu_devices c') (workers c') i" and p: "p = plan_for ?d (gpu_devices c') (workers c') i"
    by (auto split: if_splits)
  show ?thesis
  proof (cases "on_cpu ?d i")
    case True
    then show ?thesis by (simp add: p plan_for_def)
  next
    case False
    with adm have u: "usable_cuda i" by (simp add: admissible_def)
    from range have g: "gpus_ok (gpu_devices c')" and w: "workers_ok (workers c')" by (simp_all add: request_in_range_def)
    from chosen_ok [OF assms(2) g u] False adm w show ?thesis
      by (auto simp: p plan_for_def admissible_def workers_ok_def Let_def list_all_iff Suc_le_eq split: option.splits)
  qed
qed

definition multi_gpu_error :: exn where
  "multi_gpu_error =
     backend_exn BackendUnsupportedError ''Multi-GPU execution is not qualified by the real backend yet.''
       ''multi_gpu_not_qualified'' [(''device'', PStr ''cuda''), qualification]"

lemma upstream_device_of:
  assumes "config_ok c" and "inventory_ok i" and "resolve_execution_plan c i = Inr p"
  shows "isOK (resolve_upstream_optimize p mode)"
    and "if 1 < length (selected_gpu_indices p) \<and> effective_device p \<noteq> ''cpu'' then resolve_upstream_device p = Inl multi_gpu_error
      else isOK (resolve_upstream_device p) \<and> observable p"
proof -
  note p = resolved_plan [OF assms]
  then show "isOK (resolve_upstream_optimize p mode)" by (auto simp: resolve_upstream_optimize_def)
  have "worker_count p = 1 \<and> worker_gpu_indices p = selected_gpu_indices p \<and> (\<exists>g. selected_gpu_indices p = [g] \<and> 0 \<le> g)"
    if "length (selected_gpu_indices p) \<le> 1" "effective_device p \<noteq> ''cpu''"
    using p that by (cases "selected_gpu_indices p") auto
  with p show "if 1 < length (selected_gpu_indices p) \<and> effective_device p \<noteq> ''cpu'' then resolve_upstream_device p = Inl multi_gpu_error
      else isOK (resolve_upstream_device p) \<and> observable p"
    by (auto simp: resolve_upstream_device_def multi_gpu_error_def observable_def isOK_iff)
qed

lemma read_config: "outcome config_error config_ok (from_mapping m)"
  unfolding from_mapping_def by (rule outcome_and_then [OF config_arguments_outcome post_init_outcome])

lemma prepare_ends:
  assumes "surroundings_fine wp"
  shows "case prepare wp of
      Inl e \<Rightarrow>
        (\<exists>m. e = ValueError m \<and> from_mapping (environ_mapping (in_environ (wp_installation wp))) = Inl e) \<or>
        (\<exists>cfg i p. from_mapping (environ_mapping (in_environ (wp_installation wp))) = Inr cfg \<and>
           discover_plan wp cfg = Inr (i, p) \<and> 1 < length (selected_gpu_indices p) \<and> e = multi_gpu_error)
    | Inr (Inl what) \<Rightarrow> True
    | Inr (Inr pr) \<Rightarrow>
        pytorch_fit (pr_backend pr) \<and> pb_state (pr_backend pr) = Created \<and>
        pb_upstream (pr_backend pr) = wp_upstream wp \<and> observable (pr_plan pr) \<and>
        json_values (inventory_to_dict (in_to_text (wp_installation wp)) (pr_inventory pr))"
proof -
  let ?w = "wp_installation wp"
  let ?cfg = "from_mapping (environ_mapping (in_environ ?w))"
  have config: "outcome config_error config_ok ?cfg" by (rule read_config)
  show ?thesis
  proof (cases ?cfg)
    case (Inl e)
    with config show ?thesis by (cases e) (simp_all add: prepare_def)
  next
    case cfg: (Inr cfg)
    with config have ok: "config_ok cfg" by simp
    show ?thesis
    proof (cases "gen_resolve_model wp cfg")
      case (Inl e)
      with gen_resolve_plain [OF assms, of cfg] have "is_Exception e" by simp
      with cfg Inl show ?thesis by (cases e) (simp_all add: prepare_def)
    next
      case resolved: (Inr resolved)
      show ?thesis
      proof (cases "discover_plan wp cfg")
        case (Inl e)
        have hw: "inventory_error e \<Longrightarrow> is_Exception e" by (cases e) simp_all
        from Inl consider "detect_hardware (in_host ?w) (in_torch ?w) = Inl e" | i where "resolve_execution_plan cfg i = Inl e"
          by (auto simp: discover_plan_def manager_resolve_def Let_def raises)
        then have "is_Exception e"
        proof cases
          case 1
          with detection_is_consistent [of "in_host ?w" "in_torch ?w"] hw show ?thesis by simp
        next
          case (2 i)
          with plan_raises_plain [OF ok, of i] show ?thesis by simp
        qed
        with cfg resolved Inl show ?thesis by (cases e) (simp_all add: prepare_def)
      next
        case (Inr ip)
        obtain i p where ip: "ip = (i, p)" by (cases ip)
        with Inr have hw: "detect_hardware (in_host ?w) (in_torch ?w) = Inr i" and p: "resolve_execution_plan cfg i = Inr p"
          by (auto simp: discover_plan_def manager_resolve_def Let_def raises)
        have iok: "inventory_ok i" using detection_is_consistent [of "in_host ?w" "in_torch ?w"] hw by simp
        have json: "json_values (inventory_to_dict (in_to_text ?w) i)"
          using assms by (intro json_inventory [OF _ hw]) (simp add: surroundings_fine_def documented_def)
        note dev = upstream_device_of [OF ok iok p]
        from dev(1) obtain opt where opt: "resolve_upstream_optimize p (optimize cfg) = Inr opt"
          by (auto simp: isOK_iff)
        have prep: "prepare wp =
          and_then (new_pytorch (wp_upstream wp) (wp_files wp) resolved p (load_denoiser cfg) (offline cfg) opt) (\<lambda>b.
            Inr (Inr \<lparr>pr_config = cfg, pr_resolved = resolved, pr_inventory = i, pr_plan = p, pr_backend = b\<rparr>))"
          using cfg resolved Inr ip opt by (simp add: prepare_def new_pytorch_def)
        show ?thesis
        proof (cases "resolve_upstream_device p")
          case Inl': (Inl e)
          with dev(2) have "1 < length (selected_gpu_indices p) \<and> e = multi_gpu_error" by (auto split: if_splits)
          moreover have "prepare wp = Inl e"
            unfolding prep using Inl' by (simp add: new_pytorch_def mk_pytorch_backend_def)
          ultimately show ?thesis using cfg Inr ip by auto
        next
          case Inr': (Inr x)
          then obtain b where b: "new_pytorch (wp_upstream wp) (wp_files wp) resolved p (load_denoiser cfg) (offline cfg) opt = Inr b"
            by (simp add: new_pytorch_def mk_pytorch_backend_def)
          from assms have fine: "upstream_fine (wp_upstream wp)" "files_fine (wp_files wp)" by (simp_all add: surroundings_fine_def)
          from new_pytorch_fit [OF fine resolved_names_model [OF resolved] b] have "pytorch_fit b" "pb_state b = Created"
            by simp_all
          moreover have "pb_upstream b = wp_upstream wp"
            using b by (auto simp: new_pytorch_def mk_pytorch_backend_def raises)
          moreover have "observable p" using dev(2) Inr' by (auto split: if_splits)
          ultimately show ?thesis by (simp add: prep b json)
        qed
      qed
    qed
  qed
qed

section \<open>Properties\<close>

lemma build_request_returns: "na_load_only ns \<or> is_present (na_text ns) \<Longrightarrow> \<exists>r. na_load_only ns \<or> build_request ns = Inr r"
proof -
  have given: "mk_speech_request (PStr (text_or_empty t)) = Inr (SpeechRequest (text_or_empty t))"
    "require_text (PStr (text_or_empty t)) field = Inr (text_or_empty t)"
    "require_text (opt_str t) field = Inr (text_or_empty t)" if "is_present t" for t field
    using that
    by (auto simp: is_present_def text_or_empty_def mk_speech_request_def require_text_def opt_str_def split: option.splits)
  have "\<exists>r. build_request ns = Inr r" if "is_present (na_text ns)"
    using that
    by (auto simp: build_request_def Let_def given mk_voice_design_request_def mk_clone_request_def
        mk_continuation_request_def mk_audio_reference_def require_reference_def)
  then show "na_load_only ns \<or> is_present (na_text ns) \<Longrightarrow> \<exists>r. na_load_only ns \<or> build_request ns = Inr r" by blast
qed

lemma generate_main_job:
  assumes "argument_problem ns = None"
  shows "\<exists>problem. generate_main wp ns st = emit_error wp (''invalid_request'', problem, ''ArgumentError'') st \<or>
    (\<exists>job. job_of ns job \<and> generate_main wp ns st =
       (case prepare wp of
          Inl e \<Rightarrow> (Inl e, st)
        | Inr (Inl what) \<Rightarrow> emit_error wp what st
        | Inr (Inr pr) \<Rightarrow> run_prepared wp ns job pr st))"
proof (cases "na_load_only ns")
  case True
  with assms show ?thesis by (simp add: generate_main_def job_of_def)
next
  case False
  with assms have "is_present (na_text ns)" by (auto simp: argument_problem_def split: if_splits)
  with build_request_returns [of ns] False obtain r where r: "build_request ns = Inr r" by blast
  show ?thesis
  proof (cases r)
    case (Inl problem)
    with assms False r show ?thesis by (auto simp: generate_main_def)
  next
    case (Inr j)
    with False r have "job_of ns (Some j)" by (cases j) (simp add: job_of_def)
    with assms False r Inr show ?thesis
      by (intro exI [of _ "[]"] disjI2 exI [of _ "Some j"]) (simp add: generate_main_def)
  qed
qed




section \<open>Witnesses\<close>

text \<open>A machine with a model at \<open>/m\<close> and torch, which sees some number of GPUs.\<close>

definition torch_with :: "int \<Rightarrow> torch_module" where
  "torch_with n = \<lparr>tm_version = Inr None, tm_cuda_version = Inr None, tm_cuda = Inr (0 < n, n),
     tm_name = (\<lambda>i. Inr (PStr ''G'')), tm_memory = (\<lambda>i. Inr None)\<rparr>"

definition sample_workplace :: "int \<Rightarrow> unit workplace" where
  "sample_workplace n =
     \<lparr>wp_installation = (bare_installation [(''VOXCPM_MODEL_PATH'', ''/m'')])\<lparr>in_torch := Inr (torch_with n)\<rparr>,
      wp_files = sample_fs, wp_json = sample_loads, wp_sha = sample_digest, wp_deploy = None, wp_scan = quiet_scan,
      wp_upstream = sample_upstream, wp_torch = Inr (), wp_cuda = (\<lambda>_. None), wp_kernel = (\<lambda>_ _. None),
      wp_system = (\<lambda>_. sample_system), wp_clock = (\<lambda>_. 0), wp_stream_start = 0, wp_chunk_clock = of_nat,
      wp_versions = (\<lambda>_. Not_Found), wp_write = calm_env, wp_read = reads_all (we_sha256 calm_env),
      wp_report_fault = None\<rparr>"

definition sample_args :: generate_args where
  "sample_args =
     \<lparr>na_text = Some ''hi'', na_output = Some ''a.wav'', na_report = Some ''r.json'', na_voice_instruction = None,
      na_reference_audio = None, na_prompt_audio = None, na_prompt_text = None, na_stream = False, na_load_only = False\<rparr>"

definition before_run :: "unit run_state" where
  "before_run = \<lparr>rs_console = idle, rs_output = empty_directory, rs_reports = [], rs_backend = None\<rparr>"

lemma before_run_quiet: "streams_work before_run"
  by (simp add: before_run_def idle_def)

lemma sample_workplace_fine: "surroundings_fine (sample_workplace n)"
proof -
  have "isOK (read_source_lock (wp_installation (sample_workplace n)))" by code_simp
  moreover have "documented ((bare_installation env)\<lparr>in_torch := Inr (torch_with n)\<rparr>)" for env
    by (simp add: documented_def bare_installation_def names_are_texts_def os_error_names_def torch_with_def)
  moreover have "devices_fine sample_upstream"
    by (simp add: devices_fine_def sample_upstream_def)
  moreover have "default_discovery sample_fs sample_loads quiet_scan = Inr []" by code_simp
  ultimately show ?thesis
    unfolding surroundings_fine_def
    by (simp add: sample_workplace_def sample_upstream_fine sample_files_fine sample_reports)
qed

lemma sample_settings:
  "case from_mapping (environ_mapping (in_environ (wp_installation (sample_workplace n)))) of Inl _ \<Rightarrow> False
   | Inr cfg \<Rightarrow> model_path cfg = Some ''/m'' \<and> device cfg = Dev_Auto \<and> profile cfg = None \<and> gpu_devices cfg = None \<and> workers cfg = None"
  unfolding sample_workplace_def workplace.simps installation.simps bare_installation_def by code_simp

lemma sample_hardware:
  "case detect_hardware bare_host (Inr (torch_with 0)) of Inl _ \<Rightarrow> False
   | Inr i \<Rightarrow> visible_gpu_indices i = [] \<and> \<not> usable_cuda i"
  "case detect_hardware bare_host (Inr (torch_with 2)) of Inl _ \<Rightarrow> False
   | Inr i \<Rightarrow> visible_gpu_indices i = [0, 1] \<and> usable_cuda i"
  by code_simp+

text \<open>What the preparation finds on the machine, up to the plan.\<close>

lemma sample_preparation:
  assumes "detect_hardware bare_host (Inr (torch_with n)) = Inr i"
  shows "\<exists>cfg r. from_mapping (environ_mapping (in_environ (wp_installation (sample_workplace n)))) = Inr cfg \<and>
    gen_resolve_model (sample_workplace n) cfg = Inr r \<and>
    discover_plan (sample_workplace n) cfg = and_then (resolve_normalized ''auto'' None None i) (\<lambda>p. Inr (i, p))"
proof -
  from sample_settings [of n] obtain cfg where
    c: "from_mapping (environ_mapping (in_environ (wp_installation (sample_workplace n)))) = Inr cfg"
    "model_path cfg = Some ''/m''" "device cfg = Dev_Auto" "profile cfg = None" "gpu_devices cfg = None" "workers cfg = None"
    by (auto split: sum.splits)
  from sample_resolves [OF refl, of Explicit_Path None] obtain r where
    "resolve_model sample_fs sample_loads sample_digest cfg (Items [] None) None = Inr r"
    using c(2) by (auto simp: resolve_model_def)
  then have "gen_resolve_model (sample_workplace n) cfg = Inr r"
    using c(2) by (simp add: gen_resolve_model_def sample_workplace_def)
  moreover have "config_ok cfg"
    using c(1) read_config [of "environ_mapping (in_environ (wp_installation (sample_workplace n)))"] by simp
  from resolve_config [OF this, of i] c assms have
    "discover_plan (sample_workplace n) cfg = and_then (resolve_normalized ''auto'' None None i) (\<lambda>p. Inr (i, p))"
    by (simp add: discover_plan_def sample_workplace_def bare_installation_def manager_resolve_def
        resolve_execution_plan_def materialize_execution_profile_def Let_def)
  ultimately show ?thesis using c(1) by blast
qed



lemma sample_voice:
  assumes "pb_state b = Loaded" and "pb_model b = Some ()" and "pb_upstream b = sample_upstream"
  shows "\<exists>r b1. synthesize_audio wp False (SpeechRequest t) b = (Inr (r, PNone), b1) \<and>
    ar_samples r = [Fin (1/2), Fin 0] \<and> ar_sample_rate_hz r = 48000 \<and> ar_channels r = 1"
proof -
  have "\<exists>r b1. pytorch_generate Synthesize (SpeechRequest t) b = (Inr r, b1) \<and>
    ar_samples r = [Fin (1/2), Fin 0] \<and> ar_sample_rate_hz r = 48000 \<and> ar_channels r = 1"
    using assms audio_result_made [of "[Fin (1/2), NegZero]" 48000 b "''synthesize''" "''none''"]
    by (auto simp: pytorch_generate_def pytorch_ready_def upstream_generate_def require_model_def tone_samples sample_rate
        Let_def plain_zero_def)
      (auto simp: sample_upstream_def tone_samples)
  then show ?thesis by (auto simp: synthesize_audio_def)
qed

lemma calm_write_audio:
  assumes "ar_samples r = [Fin (1/2), Fin 0]" and "ar_sample_rate_hz r = 48000" and "ar_channels r = 1"
  shows "\<exists>written d. write_wav calm_env (Some ''a.wav'') r True empty_directory = (Inr written, d)"
proof -
  have "quantize (Fin (1/2)) = Inr 16384" by code_simp
  moreover have "header_fits 1 48000 4" by (simp add: header_fits_def)
  ultimately show ?thesis using assms
    by (simp add: write_wav_def calm_env_def ensure_parent_def clip_and_quantize_def write_temporary_def wave_write_def Let_def)
qed

lemma finalize_code: "finalize wp d destination code st = (Inr k, st') \<Longrightarrow> k = code"
  by (auto simp: finalize_def Let_def split: sum.splits prod.splits option.splits)

lemma run_prepared_code:
  assumes "run_prepared wp ns (Some (q, operation, c)) pr st = (Inr k, st')"
    and "pytorch_load (pr_backend pr) = (Inr info, b)"
    and "synthesize_audio wp (na_stream ns) q b = (Inr (r, x), b1)"
    and "write_wav (wp_write wp) (Some (path_name (path_of (text_or_empty (na_output ns))))) r True (rs_output st) =
      (Inr written, out)"
    and "di_target out = Some content"
    and "validate_wav (wp_read wp) True content (Some (ar_sample_rate_hz r)) (Some (ar_channels r)) = Inr v" and "valid v"
  shows "k = 0"
  using assms
  by (auto simp: run_prepared_def generate_loaded_def deliver_def Let_def dest: finalize_code split: sum.splits)

text \<open>The whole command, on the machine without a GPU.\<close>

lemma sample_run: "\<exists>st'. generate_main (sample_workplace 0) sample_args before_run = (Inr 0, st')"
proof -
  let ?wp = "sample_workplace 0"
  from sample_hardware(1) obtain i where i: "detect_hardware bare_host (Inr (torch_with 0)) = Inr i"
    "visible_gpu_indices i = []" "\<not> usable_cuda i" by (auto split: sum.splits)
  let ?p = "\<lparr>effective_device = ''cpu'', selected_gpu_indices = [], worker_count = 1, worker_gpu_indices = []\<rparr>"
  have p: "resolve_normalized ''auto'' None None i = Inr ?p"
    using i by (simp add: resolve_normalized_def cpu_plan_def oversubscribed_cpu_def mk_plan_def check_plan_def)
  from sample_preparation [OF i(1)] p obtain cfg r where
    c: "from_mapping (environ_mapping (in_environ (wp_installation ?wp))) = Inr cfg"
    "gen_resolve_model ?wp cfg = Inr r" "discover_plan ?wp cfg = Inr (i, ?p)" by auto
  then obtain pr where pr: "prepare ?wp = Inr (Inr pr)" "pr_plan pr = ?p"
    by (simp add: prepare_def resolve_upstream_optimize_def mk_pytorch_backend_def resolve_upstream_device_def)
  note ends = prepare_ends [OF sample_workplace_fine [of 0]]
  from ends pr(1) have fit: "pytorch_fit (pr_backend pr)" "pb_state (pr_backend pr) = Created"
    and up: "pb_upstream (pr_backend pr) = sample_upstream" by (simp_all add: sample_workplace_def)
  let ?b = "(pr_backend pr)\<lparr>pb_model := Some (), pb_state := Loaded\<rparr>"
  have "load_model (pr_backend pr) = Inr ()"
    by (simp add: load_model_def import_upstream_def up) (simp add: sample_upstream_def)
  moreover from fit(1) obtain info where "pytorch_info ?b = Inr info"
    using pytorch_info_loaded [of ?b] by (auto simp: pytorch_fit_def)
  ultimately have load: "pytorch_load (pr_backend pr) = (Inr info, ?b)"
    using fit(2) by (simp add: pytorch_load_def Let_def)
  from sample_voice [of ?b ?wp "''hi''"] up obtain a b1 where
    syn: "synthesize_audio ?wp False (SpeechRequest ''hi'') ?b = (Inr (a, PNone), b1)"
    and a: "ar_samples a = [Fin (1/2), Fin 0]" "ar_sample_rate_hz a = 48000" "ar_channels a = 1" by auto
  from calm_write_audio [OF a] obtain written out where
    wr: "write_wav calm_env (Some ''a.wav'') a True empty_directory = (Inr written, out)" by blast
  from write_wav_file [OF wr] a obtain content v where val: "di_target out = Some content"
    "validate_wav (reads_all (we_sha256 calm_env)) True content (Some 48000) (Some 1) = Inr v" "valid v" by auto
  have job: "argument_problem sample_args = None" "\<not> na_load_only sample_args"
    "build_request sample_args = Inr (Inr (SpeechRequest ''hi'', ''standard-tts'', ''none''))"
    by (code_simp, code_simp, code_simp)
  let ?job = "Some (SpeechRequest ''hi'', ''standard-tts'', ''none'')"
  have main: "generate_main ?wp sample_args before_run = run_prepared ?wp sample_args ?job pr before_run"
    using job pr(1) by (simp add: generate_main_def)
  obtain res st' where run: "run_prepared ?wp sample_args ?job pr before_run = (res, st')" by fastforce
  have args: "na_stream sample_args = False" "path_name (path_of (text_or_empty (na_output sample_args))) = ''a.wav''"
    by (simp add: sample_args_def, code_simp)
  have places: "wp_write ?wp = calm_env" "wp_read ?wp = reads_all (we_sha256 calm_env)" "rs_output before_run = empty_directory"
    by (simp_all add: sample_workplace_def before_run_def)
  have "\<not> unwritable a" using a by (simp add: unwritable_def header_fits_def)
  then have "\<not> crashed ?wp False (SpeechRequest ''hi'') ?b e before_run st'" for e
    using syn by (simp add: crashed_def)
  with run_prepared_returns [OF sample_workplace_fine [of 0] before_run_quiet fit, where job = ?job and ns = sample_args]
    ends pr(1) load run args(1)
  obtain k where k: "res = Inr k" by (cases res) auto
  from run_prepared_code [OF run [unfolded k] load] args(1) syn wr val a args(2) places have "k = 0" by simp
  with main run k show ?thesis by simp
qed



end
