(* ===== verification/Verify_Model.thy ===== *)
theory Verify_Model
  imports Generate_Returns
begin

text \<open>
  The command that checks a model without loading it (\<open>scripts/verify_model.py\<close>): configuration, discovery and
  resolution as in the generation command, with the resolved model printed in full. It shares the record
  \<open>workplace\<close> with \<open>Generate\<close>; \<open>wp_deploy\<close> is what the imports at the head of \<open>main\<close> raise.
\<close>

section \<open>Output\<close>

text \<open>\<open>json.dumps(payload, sort_keys=True)\<close> writes every float: the check of \<open>Doctor\<close> on the document whose floats
  are replaced by a finite one.\<close>

fun as_finite :: "pyval \<Rightarrow> pyval" where
  "as_finite (PFloat f) = PFloat (Fin 0)"
| "as_finite (PList vs) = PList (map as_finite vs)"
| "as_finite (PTuple vs) = PTuple (map as_finite vs)"
| "as_finite (PDict items) = PDict (map (\<lambda>(k, v). (k, as_finite v)) items)"
| "as_finite v = v"

definition verify_emit :: "(string, pyval) dict \<Rightarrow> console \<Rightarrow> (exn + unit) \<times> console" where
  "verify_emit payload con =
     (case json_check (as_finite (dict_value payload)) of
        Inl e \<Rightarrow> (Inl e, con)
      | Inr _ \<Rightarrow>
         (case console_answer con of
            (Inl e, con') \<Rightarrow> (Inl e, con')
          | (Inr _, con') \<Rightarrow> (Inr (), con'\<lparr>co_out := co_out con' @ [dict_value payload]\<rparr>)))"

text \<open>The call of \<open>_emit\<close>, and the \<open>return\<close> of the exit code after it.\<close>

definition emit_and_return :: "(string, pyval) dict \<Rightarrow> int \<Rightarrow> console \<Rightarrow> (exn + int) \<times> console" where
  "emit_and_return payload code con =
     (case verify_emit payload con of
        (Inl e, con') \<Rightarrow> (Inl e, con')
      | (Inr _, con') \<Rightarrow> (Inr code, con'))"

definition error_payload :: "pyval \<Rightarrow> (string, pyval) dict" where
  "error_payload error = [(''error'', error), (''schema_version'', PInt 1), (''status'', PStr ''error'')]"

definition described_error :: "string \<Rightarrow> string \<Rightarrow> string \<Rightarrow> pyval" where
  "described_error code message error_type =
     dict_value [(''code'', PStr code), (''message'', PStr message), (''type'', PStr error_type)]"

definition verify_emit_error :: "string \<Rightarrow> string \<Rightarrow> string \<Rightarrow> console \<Rightarrow> (exn + int) \<times> console" where
  "verify_emit_error code message error_type con =
     emit_and_return (error_payload (described_error code message error_type)) 2 con"

section \<open>main\<close>

text \<open>The body of the second \<open>try\<close>.\<close>

definition verified :: "'m workplace \<Rightarrow> exn + runtime_config \<times> resolved_model" where
  "verified wp =
     and_then (from_mapping (environ_mapping (in_environ (wp_installation wp)))) (\<lambda>cfg.
     and_then
       (if model_path cfg \<noteq> None then Inr []
        else default_discovery (wp_files wp) (wp_json wp) (wp_scan wp)) (\<lambda>candidates.
     and_then
       (resolve_model (wp_files wp) (wp_json wp) (wp_sha wp) cfg (Items (map Item_Candidate candidates) None) None) (\<lambda>r.
       Inr (cfg, r))))"

text \<open>\<open>payload = resolved.to_dict()\<close> and the update.\<close>

definition verified_payload :: "runtime_config \<Rightarrow> resolved_model \<Rightarrow> (string, pyval) dict" where
  "verified_payload cfg r =
     (case resolved_model_to_dict r of
        PDict items \<Rightarrow> map (\<lambda>(k, v). (str_of k, v)) items
      | _ \<Rightarrow> []) @
     [(''inference_performed'', PBool False), (''offline'', PBool (offline cfg)),
      (''operation'', PStr ''metadata-only''), (''remote_acquisition_count'', PInt 0),
      (''schema_version'', PInt 1), (''status'', PStr ''ok'')]"

text \<open>\<open>str(error)\<close> of an exception whose message the model keeps apart.\<close>

fun message_text :: "exn \<Rightarrow> string" where
  "message_text (OtherError _ m) = m"
| "message_text (ConfigurationError variable reason) = variable @ '': '' @ reason"
| "message_text _ = []"

definition verify_failed :: "exn \<Rightarrow> console \<Rightarrow> (exn + int) \<times> console" where
  "verify_failed e con =
     (case e of
        ConfigurationError _ _ \<Rightarrow> verify_emit_error ''configuration_error'' (message_text e) (exn_type_name e) con
      | ModelExn x \<Rightarrow> emit_and_return (error_payload (model_error_to_dict x)) 2 con
      | _ \<Rightarrow>
          if is_kaggle_error e
          then verify_emit_error ''kaggle_discovery_error'' (message_text e) (exn_type_name e) con
          else if is_Exception e
          then emit_and_return
            (error_payload (described_error ''unexpected_verification_error''
              ''Model verification failed unexpectedly'' (exn_type_name e))) 1 con
          else (Inl e, con))"

definition verify_main :: "'m workplace \<Rightarrow> console \<Rightarrow> (exn + int) \<times> console" where
  "verify_main wp con =
     (case wp_deploy wp of
        Some e \<Rightarrow>
          if is_Exception e
          then emit_and_return
            (error_payload (described_error ''verification_import_error''
              ''Model verification dependencies could not be imported'' (exn_type_name e))) 1 con
          else (Inl e, con)
      | None \<Rightarrow>
         (case verified wp of
            Inl e \<Rightarrow> verify_failed e con
          | Inr (cfg, r) \<Rightarrow> emit_and_return (verified_payload cfg r) 0 con))"

section \<open>Every document can be printed\<close>

lemma json_as_finite: "json_check v = Inr () \<Longrightarrow> json_check (as_finite v) = Inr ()"
  by (induction v rule: as_finite.induct) (auto simp: json_list_iff json_pairs_iff json_pairs_def list_all_iff)

lemma emit_and_return_prints:
  assumes "json_values payload" and "co_answers con = []"
  shows "emit_and_return payload code con = (Inr code, con\<lparr>co_out := co_out con @ [dict_value payload]\<rparr>)"
  using assms by (simp add: emit_and_return_def verify_emit_def console_answer_def json_as_finite)

text \<open>What the details of a resolution error hold can be printed.\<close>

definition printable_model :: "exn \<Rightarrow> bool" where
  "printable_model e \<longleftrightarrow> (case e of ModelExn x \<Rightarrow> json_values (me_details x) | _ \<Rightarrow> False)"

lemma printable_made [simp]: "printable_model (model_exn c m p d) = json_values d"
  by (simp add: printable_model_def model_exn_def)

abbreviation printable_errors :: "exn + 'a \<Rightarrow> bool" where
  "printable_errors \<equiv> outcome printable_model (\<lambda>_. True)"

lemma printable_and_then:
  "printable_errors m \<Longrightarrow> (\<And>x. printable_errors (f x)) \<Longrightarrow> printable_errors (and_then m f)"
  by (cases m) auto

lemma directory_printable: "fs_reports fs \<Longrightarrow> printable_errors (validated_directory fs place)"
  by (cases place) (auto simp: validated_directory_def Let_def raises split: sum.splits option.splits
      dest: fs_stat_reports fs_resolve_reports)

lemma require_file_printable: "fs_reports fs \<Longrightarrow> printable_errors (require_nonempty_regular_file fs p label)"
  by (auto simp: require_nonempty_regular_file_def split: sum.splits dest: fs_stat_reports)

lemma read_json_printable:
  "fs_reports fs \<Longrightarrow> loads_reports loads \<Longrightarrow> printable_errors (read_json_object fs loads c a b x y p limit)"
  by (auto simp: read_json_object_def split: sum.splits option.splits dest: fs_read_reports loads_caught)

lemma check_sections_printable: "printable_errors (check_sections p payload ss)"
  by (induction p payload ss rule: check_sections.induct) (auto simp: Let_def list_all_iff split: option.splits)

lemma validate_config_printable:
  "fs_reports fs \<Longrightarrow> loads_reports loads \<Longrightarrow> printable_errors (validate_config fs loads sha root_dir)"
  by (auto simp: validate_config_def validate_config_structure_def Let_def
      intro!: printable_and_then require_file_printable read_json_printable check_sections_printable)

lemma select_weight_printable: "fs_reports fs \<Longrightarrow> printable_errors (select_weight fs root_dir role filenames)"
proof -
  assume fs: "fs_reports fs"
  have "printable_errors (select_weight_from fs root_dir role expected filenames)" for expected
    by (induction filenames) (auto simp: Let_def split: sum.splits dest: fs_stat_reports [OF fs])
  then show ?thesis by (simp add: select_weight_def)
qed

lemma validate_tokenizer_printable:
  "fs_reports fs \<Longrightarrow> loads_reports loads \<Longrightarrow> printable_errors (validate_tokenizer fs loads root_dir)"
  by (auto simp: validate_tokenizer_def required_tokenizer_filenames_def read_tokenizer_json_def
      intro!: printable_and_then require_file_printable read_json_printable)

lemma scan_entries_printable:
  "list_all entry_reports entries \<Longrightarrow> (case fin of None \<Rightarrow> True | Some e \<Rightarrow> is_os_error e) \<Longrightarrow>
   printable_errors (scan_entries root_dir ra n entries fin)"
proof (induction entries arbitrary: n)
  case Nil
  then show ?case by (cases fin) auto
next
  case (Cons d rest)
  then show ?case
    by (cases "de_is_file d"; cases "de_size d") (auto simp: Let_def entry_reports_def intro!: printable_and_then)
qed

lemma build_inventory_printable:
  assumes "fs_reports fs"
  shows "printable_errors (build_inventory fs root_dir ra)"
proof (cases "fs_scan fs root_dir")
  case (Inl e)
  with fs_answers(4) [OF assms, of root_dir] show ?thesis by (simp add: build_inventory_def)
next
  case (Inr found)
  obtain entries fin where f: "found = (entries, fin)" by fastforce
  with Inr fs_answers(4) [OF assms, of root_dir] have "printable_errors (scan_entries root_dir ra 0 entries fin)"
    by (intro scan_entries_printable) auto
  with Inr f show ?thesis by (simp add: build_inventory_def printable_and_then)
qed

lemma resolve_path_printable:
  "fs_reports fs \<Longrightarrow> loads_reports loads \<Longrightarrow>
   printable_errors (resolve_path fs loads sha place kind mid revision expected items)"
  unfolding resolve_path_def Let_def
  by (intro printable_and_then outcome_ifI directory_printable validate_config_printable
      select_weight_printable validate_tokenizer_printable build_inventory_printable) simp_all

lemma resolve_candidate_printable:
  "fs_reports fs \<Longrightarrow> loads_reports loads \<Longrightarrow> printable_errors (resolve_candidate fs loads sha c)"
  by (simp add: resolve_candidate_def Let_def resolve_path_printable)

lemma model_error_json: "printable_model (ModelExn x) \<Longrightarrow> json_check (model_error_to_dict x) = Inr ()"
proof -
  assume "printable_model (ModelExn x)"
  then have "json_pairs (map (\<lambda>(k, v). (PStr k, v)) (me_details x))"
    by (auto simp: printable_model_def json_pairs_def json_values_def list_all_iff)
  then show ?thesis
    by (simp add: model_error_to_dict_def json_pairs_iff json_pairs_def split: option.split)
qed

text \<open>The attempts recorded on the way.\<close>

definition attempts_json :: "'a + pyval list \<Rightarrow> bool" where
  "attempts_json r \<longleftrightarrow> (case r of Inl _ \<Rightarrow> True | Inr attempts \<Rightarrow> list_all (\<lambda>v. json_check v = Inr ()) attempts)"

lemma attempts_json_simps [simp]:
  "attempts_json (Inl r)" "attempts_json (Inr attempts) = list_all (\<lambda>v. json_check v = Inr ()) attempts"
  by (simp_all add: attempts_json_def)

lemma printableE:
  assumes "printable_errors m" and "m = Inl e"
  obtains x where "e = ModelExn x" and "json_check (model_error_to_dict x) = Inr ()"
  using assms model_error_json by (cases e) (auto simp: printable_model_def)

lemma try_candidates_printable:
  assumes "fs_reports fs" and "loads_reports loads"
  shows "list_all (\<lambda>v. json_check v = Inr ()) attempts \<Longrightarrow>
    outcome printable_model attempts_json (try_candidates fs loads sha n (map Item_Candidate cs) None attempts)"
proof (induction cs arbitrary: n attempts)
  case (Cons c cs)
  show ?case
  proof (cases "resolve_candidate fs loads sha c")
    case (Inl e)
    from printableE [OF resolve_candidate_printable [OF assms] Inl] obtain x where
      "e = ModelExn x" "json_check (model_error_to_dict x) = Inr ()" .
    with Cons Inl show ?thesis by simp
  qed simp
qed simp

lemma try_cache_printable:
  assumes "fs_reports fs" and "loads_reports loads" and "list_all (\<lambda>v. json_check v = Inr ()) attempts"
  shows "outcome printable_model attempts_json (try_cache fs loads sha cache attempts)"
proof -
  have attempt: "json_check (cache_attempt c s t) = Inr ()" for c s t
    by (simp add: cache_attempt_def json_pairs_iff json_pairs_def)
  show ?thesis
  proof (cases "\<exists>s q status. cache = Some s \<and> fs_expand fs (path_of s) = Some q \<and> fs_stat fs q = Inr status")
    case True
    then obtain s q status where s: "cache = Some s" "fs_expand fs (path_of s) = Some q" "fs_stat fs q = Inr status" by blast
    show ?thesis
    proof (cases "resolve_path fs loads sha (Path_Object q) Local_Cache model_id_const None None []")
      case (Inl e)
      from printableE [OF resolve_path_printable [OF assms(1,2)] Inl] obtain x where
        "e = ModelExn x" "json_check (model_error_to_dict x) = Inr ()" .
      with s Inl assms(3) show ?thesis by (simp add: try_cache_def)
    qed (simp add: try_cache_def s)
  next
    case False
    then show ?thesis
      using assms(3)
      by (auto simp: try_cache_def attempt split: option.split sum.split dest: fs_stat_reports [OF assms(1)])
  qed
qed

lemma resolve_model_printable:
  assumes "fs_reports fs" and "loads_reports loads"
  shows "printable_errors (resolve_model fs loads sha cfg (Items (map Item_Candidate cs) None) None)"
proof (cases "model_path cfg")
  case (Some p)
  with resolve_path_printable [OF assms] show ?thesis by (simp add: resolve_model_def)
next
  case None
  have "printable_errors (and_then (try_cache fs loads sha (cache_dir cfg) attempts) (\<lambda>tried2.
          case tried2 of Inl r \<Rightarrow> Inr r | Inr attempts2 \<Rightarrow>
          if offline cfg
          then Inl (model_exn OfflineResolutionError
                 ''Offline mode is enabled and no valid local VoxCPM2 model was found'' None
                 [(''attempts'', PList attempts2)])
          else try_remote fs loads sha None attempts2))"
    if "list_all (\<lambda>v. json_check v = Inr ()) attempts" for attempts
    by (rule outcome_and_then [OF try_cache_printable [OF assms that]])
      (auto simp: try_remote_def attempts_json_def json_list_iff split: sum.splits)
  with None show ?thesis
    unfolding resolve_model_def
    by (auto intro!: outcome_and_then [OF try_candidates_printable [OF assms]] simp: attempts_json_def split: sum.splits)
qed

lemma verified_payload_json: "json_values (verified_payload cfg r)"
  by (simp add: verified_payload_def resolved_model_to_dict_def json_list_iff json_pairs_iff json_pairs_def list_all_iff
      split_beta split: option.split)

section \<open>Properties\<close>

text \<open>The codes of the errors that have a handler of their own, and of all others.\<close>

definition verify_code :: "exn \<Rightarrow> int" where
  "verify_code e =
     (case e of ConfigurationError _ _ \<Rightarrow> 2 | ModelExn _ \<Rightarrow> 2 | _ \<Rightarrow> if is_kaggle_error e then 2 else 1)"

lemma verified_agrees:
  assumes "wp_deploy wp = None"
  shows "verified wp =
    and_then (from_mapping (environ_mapping (in_environ (wp_installation wp)))) (\<lambda>cfg.
    and_then (gen_resolve_model wp cfg) (\<lambda>r. Inr (cfg, r)))"
  by (cases "from_mapping (environ_mapping (in_environ (wp_installation wp)))")
    (auto simp: verified_def gen_resolve_model_def assms and_then_assoc)

lemma verified_raises:
  assumes "surroundings_fine wp" and "verified wp = Inl e"
  shows "is_Exception e \<and> (\<forall>x. e = ModelExn x \<longrightarrow> json_check (model_error_to_dict x) = Inr ())"
proof -
  let ?cfg = "from_mapping (environ_mapping (in_environ (wp_installation wp)))"
  from assms(1) have fs: "fs_reports (wp_files wp)" "loads_reports (wp_json wp)"
    and found: "outcome (\<lambda>e. is_Exception e \<and> \<not> is_model_exn e) (\<lambda>_. True)
       (default_discovery (wp_files wp) (wp_json wp) (wp_scan wp))" by (simp_all add: surroundings_fine_def)
  from assms(2) consider "?cfg = Inl e" | "default_discovery (wp_files wp) (wp_json wp) (wp_scan wp) = Inl e"
    | cfg cs where "resolve_model (wp_files wp) (wp_json wp) (wp_sha wp) cfg (Items (map Item_Candidate cs) None) None = Inl e"
    by (auto simp: verified_def raises split: if_splits) (metis list.map(1))
  then show ?thesis
  proof cases
    case 1
    with read_config [of "environ_mapping (in_environ (wp_installation wp))"] show ?thesis by (cases e) simp_all
  next
    case 2
    from found [unfolded 2] show ?thesis by (cases e) simp_all
  next
    case (3 cfg cs)
    from printableE [OF resolve_model_printable [OF fs] 3] obtain x where
      "e = ModelExn x" "json_check (model_error_to_dict x) = Inr ()" .
    then show ?thesis by simp
  qed
qed

lemma verify_failed_prints:
  assumes "is_Exception e" and "\<forall>x. e = ModelExn x \<longrightarrow> json_check (model_error_to_dict x) = Inr ()"
  shows "\<exists>error. verify_failed e con = emit_and_return (error_payload error) (verify_code e) con \<and> json_check error = Inr ()"
proof -
  define error where "error =
    (case e of
       ConfigurationError _ _ \<Rightarrow> described_error ''configuration_error'' (message_text e) (exn_type_name e)
     | ModelExn x \<Rightarrow> model_error_to_dict x
     | _ \<Rightarrow>
         if is_kaggle_error e then described_error ''kaggle_discovery_error'' (message_text e) (exn_type_name e)
         else described_error ''unexpected_verification_error'' ''Model verification failed unexpectedly'' (exn_type_name e))"
  have v: "verify_failed e con = emit_and_return (error_payload error) (verify_code e) con"
    using assms by (cases e) (simp_all add: verify_failed_def verify_code_def verify_emit_error_def error_def)
  have "json_check error = Inr ()"
    using assms by (cases e) (simp_all add: error_def described_error_def)
  with v show ?thesis by blast
qed

text \<open>C30. The command that verifies a model decides as the command that uses it. Where the packages and files answer as
  documented, it prints exactly one document and exits with 0 exactly when the generation command would get past
  its own resolution, and then prints the very model that command would load, which holds every file a model
  needs; otherwise it exits with 2 for an error of the configuration, the discovery or the resolution and 1 for
  every other, with the class of the exception in the document, and the generation command does not build its
  backend.\<close>

theorem verification_decides_as_generation:
  assumes "surroundings_fine wp" and "wp_deploy wp = None" and "co_answers con = []"
  shows "\<exists>doc code. verify_main wp con = (Inr code, con\<lparr>co_out := co_out con @ [dict_value doc]\<rparr>) \<and>
    (case verified wp of
       Inr (cfg, r) \<Rightarrow> code = 0 \<and> dict_get doc ''status'' = Some (PStr ''ok'') \<and> doc = verified_payload cfg r \<and>
         from_mapping (environ_mapping (in_environ (wp_installation wp))) = Inr cfg \<and> gen_resolve_model wp cfg = Inr r \<and>
         holds_model (wp_files wp) (wp_json wp) (wp_sha wp) r \<and>
         (\<forall>pr. prepare wp = Inr (Inr pr) \<longrightarrow> pr_resolved pr = r)
     | Inl e \<Rightarrow> code = verify_code e \<and> code \<noteq> 0 \<and> dict_get doc ''status'' = Some (PStr ''error'') \<and>
         (\<forall>pr. prepare wp \<noteq> Inr (Inr pr)))"
proof (cases "verified wp")
  case (Inr v)
  obtain cfg r where v: "v = (cfg, r)" by (cases v)
  from Inr v verified_agrees [OF assms(2)] have c: "from_mapping (environ_mapping (in_environ (wp_installation wp))) = Inr cfg"
    and r: "gen_resolve_model wp cfg = Inr r" by (auto simp: raises)
  from Inr v obtain cs where "resolve_model (wp_files wp) (wp_json wp) (wp_sha wp) cfg (Items (map Item_Candidate cs) None) None = Inr r"
    by (auto simp: verified_def raises)
  then have holds: "holds_model (wp_files wp) (wp_json wp) (wp_sha wp) r" using resolve_model_facts by blast
  have "verify_main wp con = emit_and_return (verified_payload cfg r) 0 con"
    using Inr v assms(2) by (simp add: verify_main_def)
  moreover have "dict_get (verified_payload cfg r) ''status'' = Some (PStr ''ok'')"
    by (simp add: verified_payload_def resolved_model_to_dict_def)
  moreover have "pr_resolved pr = r" if "prepare wp = Inr (Inr pr)" for pr
    using prepare_parts [OF that] c r by auto
  ultimately show ?thesis
    using Inr v c r holds emit_and_return_prints [OF verified_payload_json assms(3), of cfg r 0] by simp
next
  case (Inl e)
  from verified_raises [OF assms(1) Inl] have e: "is_Exception e"
    "\<forall>x. e = ModelExn x \<longrightarrow> json_check (model_error_to_dict x) = Inr ()" by blast+
  obtain error where v: "verify_failed e con = emit_and_return (error_payload error) (verify_code e) con"
    and "json_check error = Inr ()" using verify_failed_prints [OF e] by blast
  then have "json_values (error_payload error)" by (simp add: error_payload_def)
  from emit_and_return_prints [OF this assms(3), of "verify_code e"] v Inl assms(2)
  have "verify_main wp con = (Inr (verify_code e), con\<lparr>co_out := co_out con @ [dict_value (error_payload error)]\<rparr>)"
    by (simp add: verify_main_def)
  moreover have "verify_code e \<noteq> 0" by (simp add: verify_code_def split: exn.split)
  moreover have "dict_get (error_payload error) ''status'' = Some (PStr ''error'')" by (simp add: error_payload_def)
  moreover have "prepare wp \<noteq> Inr (Inr pr)" for pr
    using prepare_parts [of wp pr] Inl verified_agrees [OF assms(2)] by auto
  ultimately show ?thesis using Inl by (intro exI [of _ "error_payload error"] exI [of _ "verify_code e"]) simp
qed

text \<open>On the machine of the generation command: the mounted model is found at its path.\<close>

theorem verification_decides_as_generation_witness:
  "\<exists>doc r. verify_main (sample_workplace 0) idle = (Inr 0, idle\<lparr>co_out := [dict_value doc]\<rparr>) \<and>
     holds_model sample_fs sample_loads sample_digest r \<and> dict_get doc ''path'' = Some (PStr (path_str (rm_path r)))"
proof -
  have "wp_deploy (sample_workplace 0) = None" and "co_answers idle = []" by (simp_all add: sample_workplace_def idle_def)
  note v = verification_decides_as_generation [OF sample_workplace_fine [of 0] this]
  from sample_run obtain st' where "generate_main (sample_workplace 0) sample_args before_run = (Inr 0, st')" by blast
  from generate_main_Inr [OF this] obtain pr where "prepare (sample_workplace 0) = Inr (Inr pr)" by auto
  with v obtain cfg r where "verified (sample_workplace 0) = Inr (cfg, r)"
    by (cases "verified (sample_workplace 0)") auto
  with v obtain doc where "verify_main (sample_workplace 0) idle = (Inr 0, idle\<lparr>co_out := [dict_value doc]\<rparr>)"
    "doc = verified_payload cfg r" "holds_model sample_fs sample_loads sample_digest r"
    by (auto simp: idle_def sample_workplace_def)
  moreover have "dict_get (verified_payload cfg r) ''path'' = Some (PStr (path_str (rm_path r)))"
    by (simp add: verified_payload_def resolved_model_to_dict_def)
  ultimately show ?thesis by blast
qed

end
