(* ===== verification/Server_Probe.thy ===== *)
theory Server_Probe
  imports Api_App Verify_Model "HOL-Library.Product_Lexorder"
begin

text \<open>
  What the two demonstration scripts (\<open>scripts/kaggle_production_demo.py\<close> and \<open>scripts/benchmark.py\<close>) share:
  reading the machine (compute processes of the GPUs, counters of the control group, memory and children of a
  process), waiting for a server, measuring its answers and stopping it. The scripts have their own copies of
  the readers; where the copies differ both are modelled. What the operating system and the HTTP client answer
  are arguments. A clock reading is a rational; differences are rounded as \<open>float\<close>s are.
\<close>

section \<open>Integers read from text and from JSON\<close>

text \<open>\<open>int(s)\<close>: blanks around, a sign, digits with single underscores between them. An ASCII string is
  stripped of the blanks of C, any other of those of \<open>str.isspace\<close>.\<close>

definition int_blank :: "bool \<Rightarrow> char \<Rightarrow> bool" where
  "int_blank only_ascii c \<longleftrightarrow> (if only_ascii then ordc c \<in> {9, 10, 11, 12, 13, 32} else is_space c)"

definition int_trim :: "string \<Rightarrow> string" where
  "int_trim s =
     (let b = int_blank (is_ascii s) in rev (dropWhile b (rev (dropWhile b s))))"

fun grouped :: "string \<Rightarrow> bool" where
  "grouped [] = False"
| "grouped [c] = is_dec c"
| "grouped (c # d # s) = (is_dec c \<and> (if d = CHR ''_'' then grouped s else grouped (d # s)))"

definition unsigned :: "string \<Rightarrow> string" where
  "unsigned t = (case t of c # u \<Rightarrow> if c = CHR ''-'' \<or> c = CHR ''+'' then u else t | [] \<Rightarrow> [])"

definition py_int :: "string \<Rightarrow> exn + int" where
  "py_int s =
     (let t = int_trim s; u = unsigned t; digits = filter (\<lambda>c. c \<noteq> CHR ''_'') u in
      if \<not> grouped u then Inl (int_error s)
      else case py_int10 digits of
        None \<Rightarrow> Inl (int_error digits)
      | Some n \<Rightarrow> Inr (if startswith t ''-'' then - n else n))"

text \<open>\<open>int(v)\<close> and \<open>v[key]\<close> of a value out of a JSON document.\<close>

fun py_int_value :: "pyval \<Rightarrow> exn + int" where
  "py_int_value (PInt n) = Inr n"
| "py_int_value (PBool b) = Inr (if b then 1 else 0)"
| "py_int_value (PStr s) = py_int s"
| "py_int_value (PFloat f) =
     (case f of
        Fin q \<Rightarrow> Inr (if q < 0 then - \<lfloor>- q\<rfloor> else \<lfloor>q\<rfloor>)
      | NegZero \<Rightarrow> Inr 0
      | NotANumber \<Rightarrow> Inl (ValueError ''cannot convert float NaN to integer'')
      | _ \<Rightarrow> Inl (OtherError ''OverflowError'' ''cannot convert float infinity to integer''))"
| "py_int_value _ = Inl (TypeError ''int() argument must be a string, a bytes-like object or a real number'')"

definition key_error :: "string \<Rightarrow> exn" where
  "key_error key = OtherError ''KeyError'' key"

fun py_item :: "pyval \<Rightarrow> string \<Rightarrow> exn + pyval" where
  "py_item (PDict items) key =
     (case map_of items (PStr key) of None \<Rightarrow> Inl (key_error key) | Some v \<Rightarrow> Inr v)"
| "py_item v key = Inl (TypeError ''the value cannot be indexed by a string'')"

definition zero_division :: exn where
  "zero_division = OtherError ''ZeroDivisionError'' ''division by zero''"

section \<open>Compute processes\<close>

text \<open>\<open>sm_which\<close>: \<open>shutil.which\<close>; \<open>sm_opt\<close>: \<open>is_file\<close> of the second place; \<open>sm_run\<close>: exit code and output.\<close>

record smi_answers =
  sm_which :: "string option"
  sm_opt :: "exn + bool"
  sm_run :: "string \<Rightarrow> exn + int \<times> string"

record gpu_row =
  gr_pid :: int
  gr_uuid :: string
  gr_memory :: int

definition smi_binary :: "smi_answers \<Rightarrow> exn + string option" where
  "smi_binary sm =
     (case sm_which sm of
        Some binary \<Rightarrow> Inr (Some binary)
      | None \<Rightarrow> and_then (sm_opt sm) (\<lambda>there. Inr (if there then Some ''/opt/bin/nvidia-smi'' else None)))"

definition row_key :: "gpu_row \<Rightarrow> string \<times> int" where
  "row_key r = (gr_uuid r, gr_pid r)"

text \<open>One line: the copy of the demonstration passes over blank lines first and reads both numbers before it
  makes the row, the copy of the benchmark makes the row as it reads.\<close>

definition demo_gpu_row :: "string \<Rightarrow> gpu_row option" where
  "demo_gpu_row line =
     (if strip line = [] then None
      else let parts = map strip (split_on CHR '','' line) in
        if length parts \<noteq> 3 then None
        else case (py_int (parts ! 0), py_int (parts ! 2)) of
          (Inr pid, Inr memory) \<Rightarrow> Some \<lparr>gr_pid = pid, gr_uuid = parts ! 1, gr_memory = memory\<rparr>
        | _ \<Rightarrow> None)"

definition bench_gpu_row :: "string \<Rightarrow> gpu_row option" where
  "bench_gpu_row line =
     (case map strip (split_on CHR '','' line) of
        [pid, uuid, memory] \<Rightarrow>
          (case and_then (py_int pid) (\<lambda>p. and_then (py_int memory) (\<lambda>m.
              Inr \<lparr>gr_pid = p, gr_uuid = uuid, gr_memory = m\<rparr>)) of
             Inl _ \<Rightarrow> None
           | Inr row \<Rightarrow> Some row)
      | _ \<Rightarrow> None)"

definition demo_gpu_rows :: "smi_answers \<Rightarrow> exn + gpu_row list" where
  "demo_gpu_rows sm =
     and_then (smi_binary sm) (\<lambda>binary.
       case binary of
         None \<Rightarrow> Inr []
       | Some b \<Rightarrow>
           and_then (sm_run sm b) (\<lambda>(code, out).
             if code \<noteq> 0 then Inr []
             else Inr (sort_key row_key (List.map_filter demo_gpu_row (splitlines out)))))"

definition bench_gpu_rows :: "smi_answers \<Rightarrow> exn + gpu_row list" where
  "bench_gpu_rows sm =
     and_then (smi_binary sm) (\<lambda>binary.
       case binary of
         None \<Rightarrow> Inr []
       | Some b \<Rightarrow>
           and_then (sm_run sm b) (\<lambda>(code, out).
             if code \<noteq> 0 then Inr []
             else Inr (sort_key row_key (List.map_filter bench_gpu_row (splitlines out)))))"

definition row_value :: "gpu_row \<Rightarrow> pyval" where
  "row_value r =
     dict_value [(''pid'', PInt (gr_pid r)), (''gpu_uuid'', PStr (gr_uuid r)), (''used_memory_mib'', PInt (gr_memory r))]"

section \<open>The control group\<close>

text \<open>A file is \<open>Inr None\<close> where \<open>is_file\<close> says that there is none.\<close>

definition unpack_error :: "nat \<Rightarrow> exn" where
  "unpack_error n =
     ValueError (if n < 2 then ''not enough values to unpack (expected 2, got '' @ show_nat n @ '')''
                 else ''too many values to unpack (expected 2)'')"

definition event_pair :: "string \<Rightarrow> exn + string \<times> int" where
  "event_pair line =
     (case split_words line of
        [name, raw] \<Rightarrow> and_then (py_int raw) (\<lambda>n. Inr (name, n))
      | ws \<Rightarrow> Inl (unpack_error (length ws)))"

fun events_from :: "string list \<Rightarrow> (string, int) dict \<Rightarrow> exn + (string, int) dict" where
  "events_from [] acc = Inr acc"
| "events_from (line # rest) acc =
     and_then (event_pair line) (\<lambda>(name, n). events_from rest (dict_set name n acc))"

definition demo_memory_events :: "exn + string option \<Rightarrow> exn + (string, int) dict" where
  "demo_memory_events file =
     and_then file (\<lambda>content. case content of None \<Rightarrow> Inr [] | Some t \<Rightarrow> events_from (splitlines t) [])"

definition bench_memory_events :: "exn + string option \<Rightarrow> exn + (string, int) dict" where
  "bench_memory_events file =
     and_then file (\<lambda>content.
       case content of
         None \<Rightarrow> Inr []
       | Some t \<Rightarrow>
           and_then (map_raise event_pair (splitlines t)) (\<lambda>pairs.
             Inr (fold (\<lambda>(name, n). dict_set name n) pairs [])))"

definition events_dict :: "(string, int) dict \<Rightarrow> pyval" where
  "events_dict acc = dict_value (map (\<lambda>(name, n). (name, PInt n)) acc)"

definition cgroup_limit :: "exn + string option \<Rightarrow> exn + int option" where
  "cgroup_limit file =
     and_then file (\<lambda>content.
       case content of
         None \<Rightarrow> Inr None
       | Some t \<Rightarrow> let raw = strip t in
           if raw = ''max'' then Inr None else and_then (py_int raw) (\<lambda>n. Inr (Some n)))"

section \<open>Processes\<close>

fun rss_line :: "string list \<Rightarrow> exn + int option" where
  "rss_line [] = Inr None"
| "rss_line (line # rest) =
     (if startswith line ''VmRSS:'' then
        (case split_words line of
           _ # kib # _ \<Rightarrow> and_then (py_int kib) (\<lambda>n. Inr (Some (n * 1024)))
         | _ \<Rightarrow> Inl (OtherError ''IndexError'' ''list index out of range''))
      else rss_line rest)"

definition demo_rss :: "exn + string \<Rightarrow> exn + int option" where
  "demo_rss status =
     (case and_then status (\<lambda>t. rss_line (splitlines t)) of
        Inl e \<Rightarrow> if is_os_error e \<or> is_value_exn e then Inr None else Inl e
      | Inr n \<Rightarrow> Inr n)"

definition bench_rss :: "exn + string \<Rightarrow> exn + int option" where
  "bench_rss status =
     (case and_then status (\<lambda>t. rss_line (splitlines t)) of
        Inl e \<Rightarrow> if is_os_error e then Inr None else Inl e
      | Inr n \<Rightarrow> Inr n)"

text \<open>The output of \<open>ps -eo pid=,ppid=\<close>.\<close>

fun demo_children :: "int \<Rightarrow> string list \<Rightarrow> exn + int list" where
  "demo_children parent [] = Inr []"
| "demo_children parent (line # rest) =
     (case split_words line of
        [a, b] \<Rightarrow>
          and_then (py_int a) (\<lambda>pid. and_then (py_int b) (\<lambda>ppid.
          and_then (demo_children parent rest) (\<lambda>acc.
            Inr (if ppid = parent then pid # acc else acc))))
      | _ \<Rightarrow> demo_children parent rest)"

fun bench_children :: "int \<Rightarrow> string list \<Rightarrow> exn + int list" where
  "bench_children parent [] = Inr []"
| "bench_children parent (line # rest) =
     (case split_words line of
        [a, b] \<Rightarrow>
          and_then (py_int b) (\<lambda>ppid.
            if ppid = parent
            then and_then (py_int a) (\<lambda>pid. and_then (bench_children parent rest) (\<lambda>acc. Inr (pid # acc)))
            else bench_children parent rest)
      | ws \<Rightarrow> Inl (unpack_error (length ws)))"

definition demo_child_pids :: "exn + string \<Rightarrow> int \<Rightarrow> exn + int list" where
  "demo_child_pids ps parent =
     and_then ps (\<lambda>out. and_then (demo_children parent (splitlines out)) (\<lambda>acc. Inr (sort acc)))"

definition bench_child_pids :: "exn + string \<Rightarrow> int \<Rightarrow> exn + int list" where
  "bench_child_pids ps parent =
     and_then ps (\<lambda>out. and_then (bench_children parent (splitlines out)) (\<lambda>acc. Inr (sort acc)))"

text \<open>What one look at the machine answers; \<open>mc_connect\<close>: what \<open>create_connection\<close> raises.\<close>

record machine =
  mc_smi :: smi_answers
  mc_events :: "exn + string option"
  mc_status :: "int \<Rightarrow> exn + string"
  mc_ps :: "exn + string"
  mc_connect :: "exn option"

definition port_open :: "exn option \<Rightarrow> exn + bool" where
  "port_open raised =
     (case raised of None \<Rightarrow> Inr True | Some e \<Rightarrow> if is_os_error e then Inr False else Inl e)"

section \<open>Requests and answers\<close>

text \<open>What is sent: the path, the headers and the text of the JSON body. What comes back: an answer, an
  exception of the class \<open>httpx.HTTPError\<close> or another one. \<open>rs_text\<close> is the body decoded, \<open>rs_json\<close> the
  body parsed.\<close>

record http_request =
  rq_path :: string
  rq_authorization :: string
  rq_request_id :: pyval
  rq_text :: pyval

record http_response =
  rs_status :: int
  rs_headers :: "(string, string) dict"
  rs_content :: "byte list"
  rs_text :: string
  rs_json :: "exn + pyval"

datatype 'a http = Answer 'a | Http_Error string string | Broke exn

fun http_result :: "'a http \<Rightarrow> exn + 'a" where
  "http_result (Answer r) = Inr r"
| "http_result (Http_Error name message) = Inl (OtherError name message)"
| "http_result (Broke e) = Inl e"

text \<open>An exchange with the two readings of the clock around it; a streamed one has the pieces of
  the body with the reading at the first that is not empty.\<close>

record exchange =
  ex_started :: rat
  ex_answer :: "http_response http"
  ex_ended :: rat

record stream_exchange =
  sx_started :: rat
  sx_opened :: "http_response http"
  sx_pieces :: "byte list list"
  sx_failure :: "exn option"
  sx_first :: rat
  sx_ended :: rat

section \<open>Waiting\<close>

text \<open>\<open>time + timeout\<close> for a timeout of the command line, and the comparison with it.\<close>

definition deadline_of :: "rat \<Rightarrow> pyfloat \<Rightarrow> pyfloat" where
  "deadline_of now timeout =
     (case timeout of Fin q \<Rightarrow> to_float (now + q) | NegZero \<Rightarrow> Fin now | _ \<Rightarrow> timeout)"

fun earlier :: "rat \<Rightarrow> pyfloat \<Rightarrow> bool" where
  "earlier now (Fin d) = (now < d)"
| "earlier now NegZero = (now < 0)"
| "earlier now PosInf = True"
| "earlier now NegInf = False"
| "earlier now NotANumber = False"

text \<open>The loops: \<open>clock n\<close> is the reading at the test of attempt \<open>n\<close>, and the next one where the attempt
  succeeds. A loop that never ends is \<open>None\<close>.\<close>

partial_function (option) demo_poll ::
    "(nat \<Rightarrow> rat) \<Rightarrow> (nat \<Rightarrow> http_response http) \<Rightarrow> pyfloat \<Rightarrow> rat \<Rightarrow> string \<Rightarrow> nat \<Rightarrow> (exn + pyval \<times> rat) option" where
  "demo_poll clock replies deadline started last_error n =
     (if \<not> earlier (clock n) deadline
      then Some (Inl (RuntimeError (''server did not become ready: '' @ last_error)))
      else case replies n of
        Answer r \<Rightarrow>
          if rs_status r = 200
          then Some (and_then (rs_json r) (\<lambda>document. Inr (document, fl64 (clock (Suc n) - started))))
          else demo_poll clock replies deadline started
                 (''HTTP '' @ show_int (rs_status r) @ '': '' @ take 200 (rs_text r)) (Suc n)
      | Http_Error name message \<Rightarrow> demo_poll clock replies deadline started name (Suc n)
      | Broke e \<Rightarrow> Some (Inl e))"

partial_function (option) bench_poll ::
    "(nat \<Rightarrow> rat) \<Rightarrow> (nat \<Rightarrow> http_response http) \<Rightarrow> pyfloat \<Rightarrow> rat \<Rightarrow> nat \<Rightarrow> (exn + pyval \<times> rat) option" where
  "bench_poll clock replies deadline started n =
     (if \<not> earlier (clock n) deadline then Some (Inl (RuntimeError ''server did not become ready''))
      else case replies n of
        Answer r \<Rightarrow>
          if rs_status r = 200
          then Some (and_then (rs_json r) (\<lambda>document. Inr (document, fl64 (clock (Suc n) - started))))
          else bench_poll clock replies deadline started (Suc n)
      | Http_Error _ _ \<Rightarrow> bench_poll clock replies deadline started (Suc n)
      | Broke e \<Rightarrow> Some (Inl e))"

text \<open>The demonstration reads the clock for the deadline and then for the start, the benchmark once for both.\<close>

definition demo_wait_ready ::
    "(nat \<Rightarrow> rat) \<Rightarrow> (nat \<Rightarrow> http_response http) \<Rightarrow> pyfloat \<Rightarrow> (exn + pyval \<times> rat) option" where
  "demo_wait_ready clock replies timeout =
     demo_poll clock replies (deadline_of (clock 0) timeout) (clock 1) ''None'' 2"

definition bench_wait_ready ::
    "(nat \<Rightarrow> rat) \<Rightarrow> (nat \<Rightarrow> http_response http) \<Rightarrow> pyfloat \<Rightarrow> (exn + pyval \<times> rat) option" where
  "bench_wait_ready clock replies timeout =
     bench_poll clock replies (deadline_of (clock 0) timeout) (clock 0) 1"

section \<open>Stopping the server\<close>

text \<open>How the child answers: \<open>poll\<close> when stopping begins, the exception of a signal, and the exit code that
  \<open>wait\<close> returns, or its \<open>TimeoutExpired\<close>.\<close>

record server_process =
  ch_pid :: int
  ch_poll :: "int option"
  ch_term :: "exn option"
  ch_wait :: "rat \<Rightarrow> int option"
  ch_kill :: "exn option"
  ch_reap :: "rat \<Rightarrow> int option"

record stopped =
  st_signals :: "string list"
  st_code :: "int option"

definition timeout_expired :: exn where
  "timeout_expired = OtherError ''TimeoutExpired'' []"

definition stop_within :: "rat \<Rightarrow> rat \<Rightarrow> server_process \<Rightarrow> (exn + unit) \<times> stopped" where
  "stop_within patience last_wait ch =
     (case ch_poll ch of
        Some code \<Rightarrow> (Inr (), \<lparr>st_signals = [], st_code = Some code\<rparr>)
      | None \<Rightarrow>
         (case ch_term ch of
            Some e \<Rightarrow> (Inl e, \<lparr>st_signals = [], st_code = None\<rparr>)
          | None \<Rightarrow>
             (case ch_wait ch patience of
                Some code \<Rightarrow> (Inr (), \<lparr>st_signals = [''SIGTERM''], st_code = Some code\<rparr>)
              | None \<Rightarrow>
                 (case ch_kill ch of
                    Some e \<Rightarrow> (Inl e, \<lparr>st_signals = [''SIGTERM''], st_code = None\<rparr>)
                  | None \<Rightarrow>
                     (case ch_reap ch last_wait of
                        Some code \<Rightarrow> (Inr (), \<lparr>st_signals = [''SIGTERM'', ''SIGKILL''], st_code = Some code\<rparr>)
                      | None \<Rightarrow> (Inl timeout_expired, \<lparr>st_signals = [''SIGTERM'', ''SIGKILL''], st_code = None\<rparr>))))))"

definition demo_stop :: "server_process \<Rightarrow> (exn + unit) \<times> stopped" where
  "demo_stop = stop_within 20 5"

definition bench_stop :: "server_process \<Rightarrow> (exn + unit) \<times> stopped" where
  "bench_stop = stop_within 30 10"

section \<open>Measuring audio\<close>

text \<open>\<open>with wave.open(io.BytesIO(payload), "rb")\<close>: frames, rate and channels.\<close>

definition wave_facts :: "byte list \<Rightarrow> exn + nat \<times> nat \<times> nat" where
  "wave_facts payload = and_then (read_wave payload) (\<lambda>(f, frames). Inr (frames, wf_rate f, wf_channels f))"

definition seconds_of :: "nat \<Rightarrow> nat \<Rightarrow> exn + rat" where
  "seconds_of frames rate =
     (if rate = 0 then Inl zero_division else Inr (fl64 (of_nat frames / of_nat rate)))"

definition round3 :: "rat \<Rightarrow> rat" where
  "round3 x = fl64 (of_int (round_half_even (x * 1000)) / 1000)"

section \<open>The copies agree\<close>

lemma strip_blank: "strip s = [] \<Longrightarrow> c \<in> set s \<Longrightarrow> is_space c"
proof (rule ccontr)
  assume s: "strip s = []" "c \<in> set s" "\<not> is_space c"
  then have "dropWhile is_space s \<noteq> []" by (auto simp: dropWhile_eq_Nil_conv)
  then obtain d r where d: "dropWhile is_space s = d # r" by (cases "dropWhile is_space s") auto
  then have "\<not> is_space d" using hd_dropWhile [of is_space s] by simp
  then have "\<exists>x \<in> set (rev (d # r)). \<not> is_space x" by (intro bexI [of _ d]) auto
  then have "dropWhile is_space (rev (d # r)) \<noteq> []" by (simp only: dropWhile_eq_Nil_conv) blast
  with s(1) d show False by (simp add: strip_def)
qed

lemma blank_line_has_no_row: "strip line = [] \<Longrightarrow> bench_gpu_row line = None"
proof -
  assume "strip line = []"
  then have "CHR '','' \<notin> set line" using strip_blank [of line "CHR '',''"] by (auto simp: is_space_def)
  then show ?thesis by (simp add: bench_gpu_row_def split_on_word)
qed

lemma gpu_row_agree: "demo_gpu_row line = bench_gpu_row line"
proof (cases "strip line = []")
  case True
  then show ?thesis by (simp add: demo_gpu_row_def blank_line_has_no_row)
next
  case False
  show ?thesis
  proof (cases "length (map strip (split_on CHR '','' line)) = 3")
    case True
    then obtain a b c where "map strip (split_on CHR '','' line) = [a, b, c]"
      by (auto simp: numeral_3_eq_3 length_Suc_conv)
    with False show ?thesis
      by (cases "py_int a"; cases "py_int c") (simp_all add: demo_gpu_row_def bench_gpu_row_def Let_def del: map_eq_Cons_conv)
  next
    case no: False
    then have "bench_gpu_row line = None" by (auto simp: bench_gpu_row_def split: list.split)
    with no False show ?thesis by (simp add: demo_gpu_row_def Let_def)
  qed
qed

lemma gpu_rows_agree: "demo_gpu_rows sm = bench_gpu_rows sm"
proof -
  have "demo_gpu_row = bench_gpu_row" by (rule ext) (rule gpu_row_agree)
  then show ?thesis unfolding demo_gpu_rows_def bench_gpu_rows_def by (rule ssubst) (rule refl)
qed

lemma events_from_pairs:
  "events_from lines acc =
     and_then (map_raise event_pair lines) (\<lambda>pairs. Inr (fold (\<lambda>(name, n). dict_set name n) pairs acc))"
proof (induction lines arbitrary: acc)
  case (Cons line rest)
  then show ?case by (cases "event_pair line"; cases "map_raise event_pair rest") auto
qed simp

lemma memory_events_agree: "demo_memory_events f = bench_memory_events f"
  by (cases f) (auto simp: demo_memory_events_def bench_memory_events_def events_from_pairs split: option.split)

lemma rss_agree: "bench_rss status = Inr n \<Longrightarrow> demo_rss status = Inr n"
  by (auto simp: bench_rss_def demo_rss_def split: sum.splits if_splits)

text \<open>Where every line of \<open>ps\<close> holds two numbers the copies agree, and they list exactly the children.\<close>

definition two_numbers :: "string \<Rightarrow> (int \<times> int) option" where
  "two_numbers line =
     (case split_words line of
        [a, b] \<Rightarrow> (case (py_int a, py_int b) of (Inr p, Inr q) \<Rightarrow> Some (p, q) | _ \<Rightarrow> None)
      | _ \<Rightarrow> None)"

definition children_in :: "int \<Rightarrow> string list \<Rightarrow> int list" where
  "children_in parent lines = map fst (filter (\<lambda>p. snd p = parent) (List.map_filter two_numbers lines))"

lemma two_numbersE:
  assumes "two_numbers line = Some p"
  obtains a b where "split_words line = [a, b]" "py_int a = Inr (fst p)" "py_int b = Inr (snd p)"
  using assms by (auto simp: two_numbers_def split: list.splits sum.splits)

lemma children_agree:
  "list_all (\<lambda>l. two_numbers l \<noteq> None) lines \<Longrightarrow>
   demo_children parent lines = Inr (children_in parent lines) \<and>
   bench_children parent lines = Inr (children_in parent lines)"
proof (induction lines)
  case Nil
  then show ?case by (simp add: children_in_def List.map_filter_simps)
next
  case (Cons line rest)
  then obtain p where p: "two_numbers line = Some p" by auto
  from two_numbersE [OF this] obtain a b where
    "split_words line = [a, b]" "py_int a = Inr (fst p)" "py_int b = Inr (snd p)" .
  with Cons p show ?case by (simp add: children_in_def List.map_filter_simps)
qed

section \<open>Waiting ends\<close>

text \<open>Each attempt sleeps: the clock moves on by some \<open>step\<close> between two tests (the first two readings are
  before the loop).\<close>

definition paced :: "rat \<Rightarrow> (nat \<Rightarrow> rat) \<Rightarrow> bool" where
  "paced step clock \<longleftrightarrow> 0 < step \<and> (\<forall>n. 1 < n \<longrightarrow> clock n + step \<le> clock (Suc n))"

definition limited :: "pyfloat \<Rightarrow> bool" where
  "limited deadline \<longleftrightarrow> deadline \<noteq> PosInf"

lemma earlier_limit: "limited deadline \<Longrightarrow> \<exists>d. \<forall>t. earlier t deadline \<longrightarrow> t < d"
  by (cases deadline) (auto simp: limited_def)

lemma paced_passes:
  assumes "paced step clock" and "\<forall>t. earlier t deadline \<longrightarrow> t < d"
  obtains m where "n \<le> m" and "\<not> earlier (clock m) deadline"
proof -
  from assms(1) have step: "0 < step"
    and next_reading: "\<And>i. clock (Suc (Suc i)) + step \<le> clock (Suc (Suc (Suc i)))" by (auto simp: paced_def)
  define b where "b = n + 2"
  have grow: "clock b + of_nat k * step \<le> clock (b + k)" for k
  proof (induction k)
    case (Suc k)
    with next_reading [of "n + k"] show ?case by (simp add: b_def algebra_simps)
  qed simp
  obtain k :: nat where "(d - clock b) / step < of_nat k" using reals_Archimedean2 by blast
  then have "d < clock b + of_nat k * step" using step by (simp add: field_simps)
  with grow [of k] assms(2) have "\<not> earlier (clock (b + k)) deadline" by fastforce
  then show thesis using that [of "b + k"] by (simp add: b_def)
qed

text \<open>The two loops decide at the same attempt: the first at which the time is over, the server is ready or the
  client breaks.\<close>

fun undecided :: "http_response http \<Rightarrow> bool" where
  "undecided (Answer r) = (rs_status r \<noteq> 200)"
| "undecided (Http_Error _ _) = True"
| "undecided (Broke _) = False"

definition decides :: "(nat \<Rightarrow> rat) \<Rightarrow> (nat \<Rightarrow> http_response http) \<Rightarrow> pyfloat \<Rightarrow> nat \<Rightarrow> bool" where
  "decides clock replies deadline n \<longleftrightarrow> \<not> earlier (clock n) deadline \<or> \<not> undecided (replies n)"

text \<open>What a decision is.\<close>

definition verdict ::
    "(nat \<Rightarrow> rat) \<Rightarrow> (nat \<Rightarrow> http_response http) \<Rightarrow> pyfloat \<Rightarrow> rat \<Rightarrow> nat \<Rightarrow> (exn + pyval \<times> rat) option" where
  "verdict clock replies deadline started m =
     (if \<not> earlier (clock m) deadline then None
      else case replies m of
        Answer r \<Rightarrow> Some (and_then (rs_json r) (\<lambda>document. Inr (document, fl64 (clock (Suc m) - started))))
      | Broke e \<Rightarrow> Some (Inl e)
      | _ \<Rightarrow> None)"

lemma bench_poll_decided:
  "n \<le> m \<Longrightarrow> \<forall>i. n \<le> i \<and> i < m \<longrightarrow> \<not> decides clock replies deadline i \<Longrightarrow> decides clock replies deadline m \<Longrightarrow>
   bench_poll clock replies deadline started n =
     Some (case verdict clock replies deadline started m of
             None \<Rightarrow> Inl (RuntimeError ''server did not become ready'') | Some r \<Rightarrow> r)"
proof (induction "m - n" arbitrary: n)
  case 0
  then have "n = m" by simp
  with 0 show ?case
    by (subst bench_poll.simps) (auto simp: decides_def verdict_def split: http.split)
next
  case (Suc k)
  then have "\<not> decides clock replies deadline n" by auto
  moreover have "bench_poll clock replies deadline started (Suc n) =
     Some (case verdict clock replies deadline started m of
             None \<Rightarrow> Inl (RuntimeError ''server did not become ready'') | Some r \<Rightarrow> r)"
    using Suc by (intro Suc.hyps) auto
  ultimately show ?case
    by (subst bench_poll.simps) (cases "replies n"; simp add: decides_def)
qed

lemma demo_poll_decided:
  "n \<le> m \<Longrightarrow> \<forall>i. n \<le> i \<and> i < m \<longrightarrow> \<not> decides clock replies deadline i \<Longrightarrow> decides clock replies deadline m \<Longrightarrow>
   \<exists>why. demo_poll clock replies deadline started last_error n =
     Some (case verdict clock replies deadline started m of
             None \<Rightarrow> Inl (RuntimeError (''server did not become ready: '' @ why)) | Some r \<Rightarrow> r)"
proof (induction "m - n" arbitrary: n last_error)
  case 0
  then have "n = m" by simp
  with 0 show ?case
    by (subst demo_poll.simps) (auto simp: decides_def verdict_def split: http.split)
next
  case (Suc k)
  then have "\<not> decides clock replies deadline n" by auto
  moreover have "\<exists>why. demo_poll clock replies deadline started e (Suc n) =
     Some (case verdict clock replies deadline started m of
             None \<Rightarrow> Inl (RuntimeError (''server did not become ready: '' @ why)) | Some r \<Rightarrow> r)" for e
    using Suc by (intro Suc.hyps) auto
  ultimately show ?case
    by (subst demo_poll.simps) (cases "replies n"; simp add: decides_def)
qed

lemma first_decision:
  assumes "paced step clock" and "limited deadline"
  obtains m where "n \<le> m" and "decides clock replies deadline m"
    and "\<forall>i. n \<le> i \<and> i < m \<longrightarrow> \<not> decides clock replies deadline i"
proof -
  obtain d where d: "\<forall>t. earlier t deadline \<longrightarrow> t < d" using earlier_limit [OF assms(2)] by blast
  obtain m where "n \<le> m" "\<not> earlier (clock m) deadline" using paced_passes [OF assms(1) d] .
  then have ex: "n \<le> m \<and> decides clock replies deadline m" by (simp add: decides_def)
  let ?m = "LEAST m. n \<le> m \<and> decides clock replies deadline m"
  have "n \<le> ?m \<and> decides clock replies deadline ?m" using ex by (rule LeastI)
  moreover have "\<not> decides clock replies deadline i" if "n \<le> i" "i < ?m" for i
    using not_less_Least [OF that(2)] that(1) by blast
  ultimately show thesis using that by blast
qed

lemma limited_deadline: "limited timeout \<Longrightarrow> limited (deadline_of now timeout) \<or> (\<exists>q. timeout = Fin q \<and> 2 powi 1024 \<le> fl64 (now + q))"
  by (cases timeout) (auto simp: deadline_of_def limited_def to_float_def Let_def)

section \<open>Numbers the service prints, files it sends\<close>

lemma grouped_digits: "s \<noteq> [] \<Longrightarrow> list_all is_dec s \<Longrightarrow> grouped s"
proof (induction s rule: grouped.induct)
  case (3 c d s)
  then have "d \<noteq> CHR ''_''" by (auto simp: is_dec_def)
  with 3 show ?case by simp
qed auto

lemma int_trim_none:
  assumes "list_all (\<lambda>c. \<not> int_blank (is_ascii s) c) s"
  shows "int_trim s = s"
proof -
  have "dropWhile (int_blank (is_ascii s)) s = s" using assms by (cases s) auto
  moreover have "dropWhile (int_blank (is_ascii s)) (rev s) = rev s"
  proof -
    have "list_all (\<lambda>c. \<not> int_blank (is_ascii s) c) (rev s)" using assms by (simp add: list_all_iff)
    then show ?thesis by (cases "rev s") auto
  qed
  ultimately show ?thesis by (simp add: int_trim_def Let_def)
qed

lemma dec_not_blank: "is_dec c \<Longrightarrow> \<not> int_blank b c"
  using dec_not_space [of c] by (auto simp: int_blank_def is_dec_def)

lemma digits_only: "list_all is_dec s \<Longrightarrow> filter (\<lambda>c. c \<noteq> CHR ''_'') s = s"
  by (auto simp: filter_id_conv list_all_iff is_dec_def)

lemma unsigned_digits: "list_all is_dec s \<Longrightarrow> unsigned s = s \<and> \<not> startswith s ''-''"
  by (cases s) (auto simp: unsigned_def is_dec_def)

lemma py_int_show_nat: "n < 10 ^ max_str_digits \<Longrightarrow> py_int (show_nat n) = Inr (int n)"
proof -
  assume n: "n < 10 ^ max_str_digits"
  note d = show_nat_digits [of n]
  from d have "list_all (\<lambda>c. \<not> int_blank (is_ascii (show_nat n)) c) (show_nat n)"
    by (auto simp: list_all_iff dec_not_blank)
  then have "int_trim (show_nat n) = show_nat n" by (rule int_trim_none)
  moreover have "grouped (show_nat n)" using d by (simp add: grouped_digits)
  moreover have "py_int10 (show_nat n) = Some (int n)"
    using length_show_nat_limit [OF n] by (simp add: py_int10_def)
  ultimately show ?thesis
    using unsigned_digits [OF d] digits_only [OF d] by (simp add: py_int_def Let_def)
qed

lemma py_int_show_int: "0 \<le> i \<Longrightarrow> i < int_limit \<Longrightarrow> py_int (show_int i) = Inr i"
  using py_int_show_nat [of "nat i"] by (simp add: show_int_def int_limit_def nat_less_iff)

text \<open>What is measured of the body of a one-shot answer is the speech it was made of.\<close>

lemma length_pcm16: "length (pcm16_bytes be samples) = 2 * length samples"
  by (induction samples) (auto simp: pcm16_bytes_def Let_def)

lemma wave_facts_of_answer:
  assumes "wav_bytes be a = Inr content"
  shows "wave_facts content = Inr (length (ar_samples a), nat (ar_sample_rate_hz a), 1) \<and>
    0 < ar_sample_rate_hz a \<and> length content = 44 + 2 * length (ar_samples a)"
proof -
  let ?payload = "pcm16_bytes be (ar_samples a)"
  from assms obtain u where w: "wave_write be 1 (ar_sample_rate_hz a) ?payload = (Inr u, content)"
    by (auto simp: wav_bytes_def split: if_splits prod.splits sum.splits)
  define tail where "tail = (if be then swap_pairs ?payload else ?payload)"
  have len: "length tail = length ?payload" by (simp add: tail_def)
  from w have r: "0 < ar_sample_rate_hz a" "header_fits 1 (nat (ar_sample_rate_hz a)) (length ?payload)"
    "content = riff @ wave_header (36 + length tail) 1 (nat (ar_sample_rate_hz a)) (length ?payload) @ tail"
    by (simp_all add: wave_write_Inr len) (simp add: tail_def)
  then have small: "36 + length tail < 2 ^ 32" by (simp add: header_fits_def len)
  have "read_wave content = Inr (\<lparr>wf_channels = 1, wf_rate = nat (ar_sample_rate_hz a), wf_width = 2\<rparr>, length ?payload div (1 * 2))"
    unfolding r(3) by (rule read_wave_header [OF r(2) small]) simp
  then show ?thesis using r(1) by (simp add: wave_facts_def length_pcm16 r(3) len wave_header_def riff_def wave_magic_def
      fmt_magic_def data_magic_def ascii_def)
qed

end
