(* ===== verification/Demo_Server.thy ===== *)
theory Demo_Server
  imports Server_Probe
begin

text \<open>
  The frame of the two demonstration scripts: what the outside answers during a run, what a run leaves behind,
  and its \<open>try\<close> and \<open>finally\<close>. \<open>Kaggle_Demo\<close> and \<open>Benchmark\<close> fill it.
\<close>

section \<open>A run\<close>

text \<open>When the machine is looked at: before the server, with the server ready, after the requests, after the stop.\<close>

datatype demo_moment = At_Baseline | At_Startup | After_Requests | After_Stop

text \<open>Which request of the run: the answer may depend on it beside what is sent.\<close>

datatype request_tag = Warmup_Run nat | Measured_Run string nat | Concurrent_Run nat | Demo_Run nat

text \<open>\<open>dw_child\<close> is what \<open>Popen\<close> answers for the environment it is given, \<open>dw_clock\<close> and \<open>dw_ready\<close> are what
  the loop that waits reads, \<open>dw_log\<close> and \<open>dw_write\<close> the exceptions of opening the log and of writing the
  document.\<close>

record demo_world =
  dw_files :: file_system
  dw_json :: json_loads
  dw_scan :: scan_dir
  dw_mkdir :: "exn option"
  dw_machine :: "demo_moment \<Rightarrow> machine"
  dw_environ :: "(string, string) dict"
  dw_token :: string
  dw_git :: "exn + string"
  dw_log :: "exn option"
  dw_child :: "(string, string) dict \<Rightarrow> exn + server_process"
  dw_clock :: "nat \<Rightarrow> rat"
  dw_ready :: "nat \<Rightarrow> http_response http"
  dw_exchange :: "request_tag \<Rightarrow> http_request \<Rightarrow> exchange"
  dw_sha :: "byte list \<Rightarrow> string"
  dw_write :: "exn option"

record demo_state =
  ds_evidence :: "(string, pyval) dict"
  ds_audio :: "(file_path \<times> byte list) list"
  ds_document :: "pyval option"
  ds_stopped :: "stopped option"
  ds_console :: console

type_synonym 'a demo_step = "(exn + 'a) \<times> demo_state"

definition proceed :: "'a demo_step \<Rightarrow> ('a \<Rightarrow> demo_state \<Rightarrow> 'b demo_step) \<Rightarrow> 'b demo_step" where
  "proceed r f = (case r of (Inl e, s) \<Rightarrow> (Inl e, s) | (Inr x, s) \<Rightarrow> f x s)"

lemma proceed_Inl [simp]: "proceed (Inl e, s) f = (Inl e, s)"
  by (simp add: proceed_def)

lemma proceed_Inr [simp]: "proceed (Inr x, s) f = f x s"
  by (simp add: proceed_def)

lemma proceed_eq_Inr [raises]:
  "proceed r f = (Inr y, t) \<longleftrightarrow> (\<exists>x s. r = (Inr x, s) \<and> f x s = (Inr y, t))"
  by (cases r; cases "fst r") auto

definition note_down :: "string \<Rightarrow> pyval \<Rightarrow> demo_state \<Rightarrow> demo_state" where
  "note_down name v s = s\<lparr>ds_evidence := dict_set name v (ds_evidence s)\<rparr>"

text \<open>\<open>try: ... finally: ...\<close>: an exception of the \<open>finally\<close> replaces the other.\<close>

definition finally_do :: "unit demo_step \<Rightarrow> (demo_state \<Rightarrow> unit demo_step) \<Rightarrow> unit demo_step" where
  "finally_do r cleanup =
     (case r of (ending, s) \<Rightarrow>
       (case cleanup s of
          (Inl e, t) \<Rightarrow> (Inl e, t)
        | (Inr _, t) \<Rightarrow> (ending, t)))"

lemma finally_do_Inr [raises]:
  "finally_do r cleanup = (Inr u, t) \<longleftrightarrow> (\<exists>s. r = (Inr u, s) \<and> cleanup s = (Inr (), t))"
  by (cases r) (auto simp: finally_do_def split: sum.splits prod.splits)

definition runtime_error :: "string \<Rightarrow> exn + 'a" where
  "runtime_error message = Inl (RuntimeError message)"

text \<open>\<open>evidence_path.write_text(json.dumps(evidence, indent=2, sort_keys=True) + "\\n", encoding="utf-8")\<close>.\<close>

definition write_evidence :: "'a demo_world_scheme \<Rightarrow> demo_state \<Rightarrow> unit demo_step" where
  "write_evidence w s =
     (let doc = dict_value (ds_evidence s) in
      case json_check (as_finite doc) of
        Inl e \<Rightarrow> (Inl e, s)
      | Inr _ \<Rightarrow>
         (case dw_write w of
            Some e \<Rightarrow> (Inl e, s)
          | None \<Rightarrow> (Inr (), s\<lparr>ds_document := Some doc\<rparr>)))"

text \<open>\<open>print\<close> of a document or a line.\<close>

definition print_out :: "pyval \<Rightarrow> demo_state \<Rightarrow> unit demo_step" where
  "print_out v s =
     (case console_answer (ds_console s) of
        (Inl e, con) \<Rightarrow> (Inl e, s\<lparr>ds_console := con\<rparr>)
      | (Inr _, con) \<Rightarrow> (Inr (), s\<lparr>ds_console := con\<lparr>co_out := co_out con @ [v]\<rparr>\<rparr>))"

definition print_evidence :: "demo_state \<Rightarrow> unit demo_step" where
  "print_evidence s =
     (let doc = dict_value (ds_evidence s) in
      case json_check (as_finite doc) of Inl e \<Rightarrow> (Inl e, s) | Inr _ \<Rightarrow> print_out doc s)"

text \<open>The body of a request is sent to the server of the run with its token.\<close>

definition tts_call :: "string \<Rightarrow> int \<Rightarrow> string \<Rightarrow> pyval \<Rightarrow> pyval \<Rightarrow> http_request" where
  "tts_call path port_number token rid spoken_text =
     \<lparr>rq_path = ''http://127.0.0.1:'' @ show_int port_number @ path, rq_authorization = ''Bearer '' @ token,
      rq_request_id = rid, rq_text = spoken_text\<rparr>"

text \<open>The one candidate a run needs.\<close>

definition only_candidate :: "candidate list \<Rightarrow> string \<Rightarrow> exn + candidate" where
  "only_candidate cs message =
     (case cs of [c] \<Rightarrow> Inr c | _ \<Rightarrow> runtime_error (message @ show_nat (length cs)))"

definition model_entry :: "candidate \<Rightarrow> pyval" where
  "model_entry c =
     dict_value [(''model_id'', dc_model_id c), (''revision'', dc_revision c),
       (''metadata'', dict_value (map (\<lambda>(k, v). (k, PStr v)) (dc_metadata c)))]"

definition rows_value :: "gpu_row list \<Rightarrow> pyval" where
  "rows_value rows = PList (map row_value rows)"

definition pids_value :: "int list \<Rightarrow> pyval" where
  "pids_value pids = PList (map PInt pids)"

text \<open>\<open>env.update(...)\<close> and the loop that pops the keys.\<close>

definition server_environment :: "(string, string) dict \<Rightarrow> (string, string) dict \<Rightarrow> (string, string) dict" where
  "server_environment settings environ =
     fold dict_pop [''VOXCPM_DEVICE'', ''VOXCPM_GPU_DEVICES'', ''VOXCPM_WORKERS'']
       (fold (\<lambda>(k, v). dict_set k v) settings environ)"

section \<open>The configuration of the server\<close>

lemma dict_get_update:
  "dict_get (fold (\<lambda>(k, v). dict_set k v) settings d) k =
     (case map_of (rev settings) k of None \<Rightarrow> dict_get d k | Some v \<Rightarrow> Some v)"
  by (induction settings arbitrary: d) (auto simp: dicts map_add_def split: option.split)

lemma environment_setting:
  assumes "k \<notin> {''VOXCPM_DEVICE'', ''VOXCPM_GPU_DEVICES'', ''VOXCPM_WORKERS''}" and "map_of (rev settings) k = Some v"
  shows "environ_mapping (server_environment settings environ) k = RStr v"
  using assms by (simp add: environ_mapping_def server_environment_def dicts dict_get_update)

lemma environment_popped:
  assumes "k \<in> {''VOXCPM_DEVICE'', ''VOXCPM_GPU_DEVICES'', ''VOXCPM_WORKERS''}"
  shows "environ_mapping (server_environment settings environ) k = RNone"
  using assms by (auto simp: environ_mapping_def server_environment_def dicts)

text \<open>What the other fields of a configuration are read from.\<close>

lemma config_arguments_service:
  assumes "config_arguments m = Inr c"
  shows "model_path c = lexical m ''VOXCPM_MODEL_PATH'' None True \<and>
    boolean m ''VOXCPM_OFFLINE'' True = Inr (offline c) \<and>
    host c = or_str (lexical m ''VOXCPM_HOST'' (Some ''127.0.0.1'') False) ''127.0.0.1'' \<and>
    port m = Inr (cfg_port c) \<and> api_token c = token_value m \<and>
    boolean m ''VOXCPM_REQUIRE_AUTH'' True = Inr (require_auth c) \<and>
    integer m ''VOXCPM_MAX_QUEUE_SIZE'' None True = Inr (max_queue_size c)"
  using assms unfolding config_arguments_def and_then_eq_Inr
  by (elim exE conjE, simp only: sum.inject, hypsubst, simp)

lemma post_init_service:
  assumes "post_init c = Inr d"
  shows "model_path d = model_path c" "offline d = offline c" "host d = host c" "cfg_port d = cfg_port c"
    "api_token d = api_token c" "require_auth d = require_auth c" "max_queue_size d = max_queue_size c"
  using assms by (auto simp: post_init_def Let_def raises)

lemma integer_shown:
  assumes "m k = RStr (show_int i)" and "0 < i" and "i < int_limit"
  shows "integer m k dflt True = Inr (Some i)"
proof -
  from assms(2,3) have "nat i < 10 ^ max_str_digits" by (simp add: int_limit_def nat_less_iff)
  then have "py_int10 (show_nat (nat i)) = Some i"
    using assms(2) length_show_nat_limit by (simp add: py_int10_def)
  with assms show ?thesis by (simp add: integer_def trimmed_def blank_def show_int_def)
qed

text \<open>The settings both scripts make.\<close>

definition demo_server_settings :: "(string, string) dict \<Rightarrow> execution_profile \<Rightarrow> string \<Rightarrow> int \<Rightarrow> string \<Rightarrow> int \<Rightarrow> bool" where
  "demo_server_settings settings p model_text port_number token queue \<longleftrightarrow>
     (let given = map_of (rev settings) in
      given ''VOXCPM_PROFILE'' = Some (profile_value p) \<and> given ''VOXCPM_MODEL_PATH'' = Some model_text \<and>
      given ''VOXCPM_OFFLINE'' = Some ''1'' \<and> given ''VOXCPM_HOST'' = Some ''127.0.0.1'' \<and>
      given ''VOXCPM_PORT'' = Some (show_int port_number) \<and> given ''VOXCPM_REQUIRE_AUTH'' = Some ''1'' \<and>
      given ''VOXCPM_API_TOKEN'' = Some token \<and> given ''VOXCPM_MAX_QUEUE_SIZE'' = Some (show_int queue))"

lemma flag_read: "m k = RStr ''1'' \<Longrightarrow> boolean m k dflt = Inr True"
  by (simp add: boolean_def trimmed_def blank_def strip_def is_space_def true_values_def casefold_def fold_char_def Let_def)

lemma profile_read: "parse_execution_profile (RStr (profile_value p)) = Inr (Some p)"
proof -
  have "\<forall>q \<in> {Prof_Auto, Prof_Cpu, Prof_Cuda_Single, Prof_Cuda_Replica}.
      parse_execution_profile (RStr (profile_value q)) = Inr (Some q)" by code_simp
  then show ?thesis by (cases p) simp_all
qed

lemma config_of_settings:
  assumes "demo_server_settings settings p model_text port_number token queue"
    and "from_mapping (environ_mapping (server_environment settings environ)) = Inr cfg"
    and "strip model_text \<noteq> []" and "token \<noteq> []" and "0 < port_number" and "port_number < int_limit"
    and "0 < queue" and "queue < int_limit"
  shows "profile cfg = Some p \<and> device cfg = Dev_Auto \<and> gpu_devices cfg = None \<and> workers cfg = None \<and>
    model_path cfg = Some (strip model_text) \<and> offline cfg \<and> host cfg = ''127.0.0.1'' \<and> cfg_port cfg = port_number \<and>
    require_auth cfg \<and> api_token cfg = Some token \<and> max_queue_size cfg = Some queue"
proof -
  let ?m = "environ_mapping (server_environment settings environ)"
  note given = assms(1) [unfolded demo_server_settings_def Let_def]
  have m: "?m ''VOXCPM_PROFILE'' = RStr (profile_value p)" "?m ''VOXCPM_MODEL_PATH'' = RStr model_text"
    "?m ''VOXCPM_OFFLINE'' = RStr ''1''" "?m ''VOXCPM_HOST'' = RStr ''127.0.0.1''"
    "?m ''VOXCPM_PORT'' = RStr (show_int port_number)" "?m ''VOXCPM_REQUIRE_AUTH'' = RStr ''1''"
    "?m ''VOXCPM_API_TOKEN'' = RStr token" "?m ''VOXCPM_MAX_QUEUE_SIZE'' = RStr (show_int queue)"
    using given by (simp_all add: environment_setting)
  have none: "?m ''VOXCPM_DEVICE'' = RNone" "?m gpu_var = RNone" "?m workers_var = RNone"
    by (simp_all add: environment_popped gpu_var_def workers_var_def)
  from assms(2) obtain c where c: "config_arguments ?m = Inr c" "post_init c = Inr cfg"
    by (auto simp: from_mapping_def raises)
  have port_given: "integer ?m ''VOXCPM_PORT'' (Some 8090) True = Inr (Some port_number)"
    using m(5) assms(5,6) by (rule integer_shown)
  have "strip ''127.0.0.1'' = ''127.0.0.1''" by (simp add: strip_none is_space_def)
  then have "or_str (lexical ?m ''VOXCPM_HOST'' (Some ''127.0.0.1'') False) ''127.0.0.1'' = ''127.0.0.1''"
    using m(4) by (simp add: lexical_def trimmed_def blank_def or_str_def)
  moreover have "lexical ?m ''VOXCPM_MODEL_PATH'' None True = Some (strip model_text)"
    using m(2) assms(3) by (simp add: lexical_def trimmed_def blank_def)
  moreover have "token_value ?m = Some token" using m(7) assms(4) by (simp add: token_value_def)
  moreover have "port ?m = Inr port_number \<or> 65535 < port_number"
    using port_given by (simp add: port_def)
  moreover have "port ?m = Inr (cfg_port c)" using config_arguments_service [OF c(1)] by blast
  moreover have "integer ?m ''VOXCPM_MAX_QUEUE_SIZE'' None True = Inr (Some queue)"
    using m(8) assms(7,8) by (rule integer_shown)
  moreover have "normalize_gpus None = Inr None" by (simp add: normalize_gpus_def)
  moreover have "parse_gpu_devices RNone = Inr None" "parse_workers RNone = Inr None"
    by (simp_all add: parse_gpu_devices_def parse_workers_def trimmed_def blank_def)
  moreover have "enum_value ?m ''VOXCPM_DEVICE'' Dev_Auto device_members False = Inr Dev_Auto"
    using none(1) by (simp add: enum_value_def)
  moreover have "\<not> 65535 < port_number"
    using config_arguments_service [OF c(1)] port_given by (auto simp: port_def)
  moreover have flags: "boolean ?m ''VOXCPM_OFFLINE'' True = Inr True" "boolean ?m ''VOXCPM_REQUIRE_AUTH'' True = Inr True"
    using m(3,6) by (simp_all add: flag_read)
  ultimately show ?thesis
    using config_arguments_service [OF c(1)] config_arguments_device [OF c(1)] post_init_service [OF c(2)]
      post_init_device [OF c(2)] flags profile_read [of p] m(1) none
    by simp
qed

end
