(* ===== verification/Service_Scripts.thy ===== *)
theory Service_Scripts
  imports Server_Probe
begin

text \<open>
  The commands that start the service: \<open>scripts/serve.py\<close>, and the application of the container's smoke test
  (\<open>deploy/docker/smoke_app.py\<close>), which runs the service on one fake worker. \<open>uvicorn\<close> is a parameter: what
  importing it raises, and how \<open>uvicorn.run\<close> ends for a host, a port and a log level.
\<close>

section \<open>serve.py\<close>

text \<open>\<open>raise SystemExit(text)\<close>, an exception, or the exit code that is returned.\<close>

datatype serve_end = Exit_Message string | Serve_Raises exn | Exit_Code int

fun is_import_error :: "exn \<Rightarrow> bool" where
  "is_import_error (OtherError name _) = (name = ''ImportError'' \<or> name = ''ModuleNotFoundError'')"
| "is_import_error _ = False"

definition serve_main ::
    "string list option \<Rightarrow> (string, string) dict \<Rightarrow> exn option \<Rightarrow> exn option \<Rightarrow> int option \<Rightarrow>
     (string \<Rightarrow> int \<Rightarrow> string \<Rightarrow> exn + unit) \<Rightarrow> serve_end" where
  "serve_main argv environ uvicorn_import app_import free listening =
     (if argv \<noteq> None \<and> argv \<noteq> Some []
      then Exit_Message ''voxcpm-serve does not accept command-line options; use VOXCPM_* environment variables''
      else case from_mapping (environ_mapping environ) of
        Inl e \<Rightarrow> Serve_Raises e
      | Inr cfg \<Rightarrow>
         (case (uvicorn_import, app_import) of
            (Some e, _) \<Rightarrow>
              if is_import_error e
              then Exit_Message (''The API extra is required: pip install '' @ [CHR 0x27] @ ''openbmb-voxcpm2-inference[api]'' @ [CHR 0x27])
              else Serve_Raises e
          | (None, Some e) \<Rightarrow> Serve_Raises e
          | (None, None) \<Rightarrow>
             (case create_app cfg free of
                Inl e \<Rightarrow> Serve_Raises e
              | Inr _ \<Rightarrow>
                 (case listening (host cfg) (cfg_port cfg) (lower (log_level_value (cfg_log_level cfg))) of
                    Inl e \<Rightarrow> Serve_Raises e
                  | Inr _ \<Rightarrow> Exit_Code 0))))"

section \<open>smoke_app.py\<close>

definition smoke_worker :: "mp_context \<Rightarrow> exn + worker_client" where
  "smoke_worker context =
     and_then (mk_bootstrap_spec (PStr ''docker-contract-smoke'') ''fake'' PNone (Some [])) (\<lambda>spec.
       init_worker_client spec 5 2 (PInt 2) context)"

text \<open>\<open>is_dir\<close>: what \<open>Path.is_dir\<close> answers.\<close>

definition smoke_config :: "(string, string) dict \<Rightarrow> (file_path \<Rightarrow> exn + bool) \<Rightarrow> exn + runtime_config" where
  "smoke_config environ is_dir =
     (let place = path_of (case dict_get environ ''VOXCPM_MODEL_PATH'' of None \<Rightarrow> ''/models/VoxCPM2'' | Some t \<Rightarrow> t) in
     and_then (is_dir place) (\<lambda>there.
       if \<not> there then Inl (RuntimeError (''VOXCPM_MODEL_PATH must be a mounted directory: '' @ path_str place))
       else case dict_get environ ''VOXCPM_API_TOKEN'' of
         None \<Rightarrow> Inl (RuntimeError ''VOXCPM_API_TOKEN is required for the Docker contract smoke app'')
       | Some token \<Rightarrow>
           if token = [] then Inl (RuntimeError ''VOXCPM_API_TOKEN is required for the Docker contract smoke app'')
           else and_then (py_int (case dict_get environ ''VOXCPM_PORT'' of None \<Rightarrow> ''8090'' | Some t \<Rightarrow> t)) (\<lambda>port_number.
             post_init (default_config\<lparr>model_path := Some (path_str place), profile := Some Prof_Cpu, device := Dev_Cpu,
               host := ''0.0.0.0'', cfg_port := port_number, api_token := Some token, require_auth := True,
               allow_unauthenticated_external := False, max_text_chars := Some 4096, max_queue_size := Some 2,
               stream_ipc_max_chunks := Some 2\<rparr>))))"

definition smoke_app :: "(string, string) dict \<Rightarrow> (file_path \<Rightarrow> exn + bool) \<Rightarrow> int option \<Rightarrow> exn + runtime_config" where
  "smoke_app environ is_dir free =
     and_then (smoke_config environ is_dir) (\<lambda>cfg. and_then (create_app cfg free) (\<lambda>_. Inr cfg))"

section \<open>What they start\<close>

text \<open>A served configuration is in range and passed the checks of \<open>create_app\<close>: it is not open to others
  without a token unless that was asked for.\<close>

lemma serve_main_serves:
  assumes "serve_main argv environ uvicorn_import app_import free listening = Exit_Code code"
  shows "code = 0 \<and> (\<exists>cfg. from_mapping (environ_mapping environ) = Inr cfg \<and> create_app cfg free = Inr () \<and>
    listening (host cfg) (cfg_port cfg) (lower (log_level_value (cfg_log_level cfg))) = Inr ())"
  using assms by (auto simp: serve_main_def split: if_splits sum.splits option.splits prod.splits)

lemma smoke_app_guarded:
  assumes "smoke_config environ is_dir = Inr cfg"
  shows "create_app cfg free = Inr () \<and> require_auth cfg \<and> api_token cfg \<noteq> None \<and> config_ok cfg"
proof -
  from assms obtain place token port_number where c: "post_init (default_config\<lparr>model_path := Some place, profile := Some Prof_Cpu,
      device := Dev_Cpu, host := ''0.0.0.0'', cfg_port := port_number, api_token := Some token, require_auth := True,
      allow_unauthenticated_external := False, max_text_chars := Some 4096, max_queue_size := Some 2,
      stream_ipc_max_chunks := Some 2\<rparr>) = Inr cfg" "token \<noteq> []"
    by (auto simp: smoke_config_def Let_def raises split: option.splits if_splits)
  from c(1) have "cfg = default_config\<lparr>model_path := Some place, profile := Some Prof_Cpu,
      device := Dev_Cpu, host := ''0.0.0.0'', cfg_port := port_number, api_token := Some token, require_auth := True,
      allow_unauthenticated_external := False, max_text_chars := Some 4096, max_queue_size := Some 2,
      stream_ipc_max_chunks := Some 2\<rparr>"
    by (auto simp: post_init_def Let_def raises normalize_gpus_def default_config_def)
  with c(2) have "create_app cfg free = Inr () \<and> require_auth cfg \<and> api_token cfg \<noteq> None"
    by (simp add: create_app_def validate_bind_auth_policy_def api_token_configured_def validate_tmp_space_def default_config_def)
  then show ?thesis using post_init_outcome c(1) by (metis outcome_simps(2))
qed

lemma smoke_worker_made:
  "ctx_start_method context = ''spawn'' \<Longrightarrow>
   \<exists>c. smoke_worker context = Inr c \<and> worker_id c = ''docker-contract-smoke'' \<and> fresh c"
  by (auto simp: smoke_worker_def mk_bootstrap_spec_def require_token_def init_worker_client_def worker_id_def fresh_def
      client_ok_def token_ok_def strip_none is_space_def)

end
