(* ===== verification/Float_Rounding.thy ===== *)
theory Float_Rounding
  imports Py_Values
begin

text \<open>
  Rounding to binary64 (\<open>fl64\<close> of \<open>Py_Values\<close>): it is monotone, leaves the numbers of the format unchanged and
  always gives one of them. Statistics over measured times rest on these three.
\<close>

section \<open>The binary exponent\<close>

lemma log2_floor_upper:
  assumes "0 < x"
  shows "x < 2 powi (log2_floor x + 1)"
proof -
  obtain p q where pq: "quotient_of x = (p, q)" by force
  then have q: "0 < q" by (rule quotient_of_denom_pos)
  have x: "x = of_int p / of_int q" using pq by (rule quotient_of_div)
  with assms q have p: "0 < p" by (simp add: zero_less_divide_iff)
  have "of_int p / of_int q < (2 powi bitlen p / 2 powi (bitlen q - 1) :: rat)"
    using bitlen_less [OF p] bitlen_ge [OF q] p by (intro frac_less) auto
  also have "\<dots> = 2 powi (bitlen p - bitlen q + 1)"
    by (simp add: power_int_diff power_int_add)
  finally have "x < 2 powi (bitlen p - bitlen q + 1)" by (simp add: x)
  then show ?thesis using pq by (simp add: log2_floor_def Let_def)
qed

lemma log2_floor_mono:
  assumes "0 < x" and "x \<le> y"
  shows "log2_floor x \<le> log2_floor y"
proof -
  have "(2 :: rat) powi log2_floor x \<le> x" using assms(1) by (rule log2_floor_le)
  also have "x \<le> y" by fact
  also have "y < 2 powi (log2_floor y + 1)" using assms by (intro log2_floor_upper) simp
  finally have "log2_floor x < log2_floor y + 1" by (rule power_int_less_imp_less_exp_2)
  then show ?thesis by simp
qed

lemma log2_floor_less:
  assumes "0 < x" and "x < 2 powi k"
  shows "log2_floor x < k"
proof (rule power_int_less_imp_less_exp_2)
  show "2 powi log2_floor x < (2 :: rat) powi k"
    using log2_floor_le [OF assms(1)] assms(2) by (rule order_le_less_trans)
qed

lemma fl64_nonneg: "0 \<le> x \<Longrightarrow> 0 \<le> fl64 x"
  using fl64_nonpos [of "- x"] by (simp add: fl64_minus)

section \<open>Numbers of the format\<close>

text \<open>An integer of at most 53 bits times a power of two; overflow is not part of \<open>fl64\<close>.\<close>

definition is_float64 :: "rat \<Rightarrow> bool" where
  "is_float64 x \<longleftrightarrow> (\<exists>m e. x = of_int m * 2 powi e \<and> \<bar>m\<bar> < 2 ^ 53 \<and> - 1074 \<le> e)"

lemma is_float64I: "x = of_int m * 2 powi e \<Longrightarrow> \<bar>m\<bar> < 2 ^ 53 \<Longrightarrow> - 1074 \<le> e \<Longrightarrow> is_float64 x"
  by (auto simp: is_float64_def)

lemma power_times_int:
  assumes "u \<le> e"
  shows "of_int m * 2 powi e = (of_int (m * 2 ^ nat (e - u)) :: rat) * 2 powi u"
proof -
  have "(2 :: rat) powi e = 2 powi (e - u) * 2 powi u" by (simp flip: power_int_add)
  also have "(2 :: rat) powi (e - u) = 2 ^ nat (e - u)" using assms by (simp add: power_int_def)
  finally show ?thesis by simp
qed

lemma fl64_fixed:
  assumes "is_float64 x"
  shows "fl64 x = x"
proof (cases "x = 0")
  case False
  from assms obtain m e where x: "x = of_int m * 2 powi e" "\<bar>m\<bar> < 2 ^ 53" "- 1074 \<le> e" by (auto simp: is_float64_def)
  have "\<bar>x\<bar> = of_int \<bar>m\<bar> * 2 powi e" by (simp add: x(1) abs_mult)
  also have "\<dots> < of_int (2 ^ 53) * 2 powi e" using x(2) by (intro mult_strict_right_mono) (simp_all only: of_int_less_iff, simp)
  also have "\<dots> = 2 powi (e + 53)" by (simp add: power_int_add)
  finally have "log2_floor \<bar>x\<bar> < e + 53" using False by (intro log2_floor_less) simp_all
  with x(3) have "ulp_exp x \<le> e" by (simp add: ulp_exp_def)
  define u where "u = ulp_exp x"
  define k where "k = m * 2 ^ nat (e - u)"
  have "u \<le> e" unfolding u_def by fact
  from power_times_int [OF this, of m] have xk: "x = of_int k * 2 powi u"
    by (simp only: x(1) k_def)
  then have "x / 2 powi u = of_int k" by simp
  then have "fl64 x = of_int k * 2 powi u" using False by (simp add: fl64_def flip: u_def)
  with xk show ?thesis by simp
qed (simp add: fl64_def)

lemma fl64_bounded:
  assumes "0 < x"
  shows "round_half_even (x / 2 powi ulp_exp x) \<le> 2 ^ 53"
proof (rule round_half_even_le)
  have "x < 2 powi (log2_floor x + 1)" using assms by (rule log2_floor_upper)
  also have "\<dots> \<le> 2 powi (ulp_exp x + 53)"
    using assms by (intro power_int_increasing) (simp_all add: ulp_exp_def)
  also have "\<dots> = 2 ^ 53 * 2 powi ulp_exp x" by (simp add: power_int_add)
  finally show "x / 2 powi ulp_exp x \<le> of_int (2 ^ 53)" by (simp add: field_simps)
qed

lemma is_float64_power: "- 1074 \<le> e \<Longrightarrow> is_float64 (2 powi e)"
  by (rule is_float64I [of _ 1 e]) simp_all

lemma is_float64_minus: "is_float64 (- x) \<longleftrightarrow> is_float64 x"
proof -
  have "is_float64 (- x)" if "is_float64 x" for x
  proof -
    from that obtain m e where "x = of_int m * 2 powi e" "\<bar>m\<bar> < 2 ^ 53" "- 1074 \<le> e" by (auto simp: is_float64_def)
    then show ?thesis by (intro is_float64I [of _ "- m" e]) simp_all
  qed
  from this [of x] this [of "- x"] show ?thesis by auto
qed

lemma is_float64_pos: "0 < x \<Longrightarrow> is_float64 (fl64 x)"
proof -
  assume x: "0 < x"
  define r where "r = round_half_even (x / 2 powi ulp_exp x)"
  have f: "fl64 x = of_int r * 2 powi ulp_exp x" using x by (simp add: fl64_def r_def)
  have r: "0 \<le> r" "r \<le> 2 ^ 53" using fl64_bounded [OF x] x by (simp_all add: r_def round_half_even_ge)
  have u: "- 1074 \<le> ulp_exp x" by (simp add: ulp_exp_def)
  show ?thesis
  proof (cases "r = 2 ^ 53")
    case True
    then have "fl64 x = 2 powi (ulp_exp x + 53)" by (simp add: f power_int_add)
    then show ?thesis using u by (simp add: is_float64_power)
  next
    case False
    with r u f show ?thesis by (intro is_float64I [of _ r "ulp_exp x"]) simp_all
  qed
qed

lemma is_float64_fl64 [simp]: "is_float64 (fl64 x)"
proof -
  consider "0 < x" | "x = 0" | "0 < - x" by linarith
  then show ?thesis
  proof cases
    case 2
    then show ?thesis by (intro is_float64I [of _ 0 0]) (simp_all add: fl64_def)
  next
    case 3
    from is_float64_pos [OF this] show ?thesis by (simp add: fl64_minus is_float64_minus)
  qed (rule is_float64_pos)
qed

lemma fl64_idem [simp]: "fl64 (fl64 x) = fl64 x"
  by (rule fl64_fixed) simp

lemma is_float64_double: "is_float64 x \<Longrightarrow> is_float64 (2 * x)"
proof -
  assume "is_float64 x"
  then obtain m e where x: "x = of_int m * 2 powi e" "\<bar>m\<bar> < 2 ^ 53" "- 1074 \<le> e" by (auto simp: is_float64_def)
  then show ?thesis by (intro is_float64I [of _ m "e + 1"]) (simp_all add: power_int_add)
qed

lemma is_float64_nat: "n < 2 ^ 53 \<Longrightarrow> is_float64 (of_nat n)"
  by (rule is_float64I [of _ "int n" 0]) simp_all

lemma to_float_int:
  assumes "0 < n" and "n < 2 ^ 53"
  shows "to_float (of_int n) = Fin (of_int n)"
proof -
  have "is_float64 (of_int n)" using assms by (intro is_float64I [of _ n 0]) simp_all
  then have "fl64 (of_int n) = of_int n" by (rule fl64_fixed)
  moreover have "isfinite (to_float (of_int n))" using assms by (intro to_float_isfinite [of _ n]) simp_all
  ultimately show ?thesis using assms by (auto simp: to_float_def Let_def split: if_splits)
qed

section \<open>Order\<close>

lemma fl64_le_power:
  assumes "0 < x" and "x \<le> 2 powi k" and "ulp_exp x \<le> k"
  shows "fl64 x \<le> 2 powi k"
proof -
  have p: "2 powi k = (of_int (2 ^ nat (k - ulp_exp x)) :: rat) * 2 powi ulp_exp x"
    using power_times_int [OF assms(3), of 1] by simp
  with assms(2) have "x / 2 powi ulp_exp x \<le> of_int (2 ^ nat (k - ulp_exp x))" by (simp add: pos_divide_le_eq)
  then have "round_half_even (x / 2 powi ulp_exp x) \<le> 2 ^ nat (k - ulp_exp x)" by (rule round_half_even_le)
  then have "(of_int (round_half_even (x / 2 powi ulp_exp x)) :: rat) \<le> of_int (2 ^ nat (k - ulp_exp x))"
    by (simp only: of_int_le_iff)
  then show ?thesis using assms(1) unfolding p fl64_def by (simp add: mult_right_mono)
qed

lemma fl64_ge_power:
  assumes "0 < x" and "2 powi k \<le> x" and "ulp_exp x \<le> k"
  shows "2 powi k \<le> fl64 x"
proof -
  have p: "2 powi k = (of_int (2 ^ nat (k - ulp_exp x)) :: rat) * 2 powi ulp_exp x"
    using power_times_int [OF assms(3), of 1] by simp
  with assms(2) have "of_int (2 ^ nat (k - ulp_exp x)) \<le> x / 2 powi ulp_exp x" by (simp add: pos_le_divide_eq)
  then have "2 ^ nat (k - ulp_exp x) \<le> round_half_even (x / 2 powi ulp_exp x)" by (rule round_half_even_ge)
  then have "(of_int (2 ^ nat (k - ulp_exp x)) :: rat) \<le> of_int (round_half_even (x / 2 powi ulp_exp x))"
    by (simp only: of_int_le_iff)
  then show ?thesis using assms(1) unfolding p fl64_def by (simp add: mult_right_mono)
qed

lemma fl64_mono_pos:
  assumes "0 < x" and "x \<le> y"
  shows "fl64 x \<le> fl64 y"
proof (cases "ulp_exp x = ulp_exp y")
  case True
  have "round_half_even (x / 2 powi ulp_exp y) \<le> round_half_even (y / 2 powi ulp_exp y)"
    using assms(2) by (intro round_half_even_mono divide_right_mono) simp_all
  with assms True show ?thesis by (simp add: fl64_def mult_right_mono)
next
  case False
  have y: "0 < y" using assms by simp
  have le: "log2_floor x \<le> log2_floor y" using assms by (rule log2_floor_mono)
  with False assms y have l: "log2_floor x < log2_floor y" "- 1022 < log2_floor y" by (auto simp: ulp_exp_def)
  have "x < 2 powi (log2_floor x + 1)" using assms(1) by (rule log2_floor_upper)
  also have "\<dots> \<le> 2 powi log2_floor y" using l(1) by (intro power_int_increasing) simp_all
  finally have "x \<le> 2 powi log2_floor y" by simp
  then have "fl64 x \<le> 2 powi log2_floor y"
    using assms(1) l by (intro fl64_le_power) (simp_all add: ulp_exp_def)
  also have "2 powi log2_floor y \<le> fl64 y"
    using log2_floor_le [OF y] y l by (intro fl64_ge_power) (simp_all add: ulp_exp_def)
  finally show ?thesis .
qed

lemma fl64_mono:
  assumes "x \<le> y"
  shows "fl64 x \<le> fl64 y"
proof -
  consider "0 < x" | "x \<le> 0" "0 \<le> y" | "y < 0" by linarith
  then show ?thesis
  proof cases
    case 1
    with assms show ?thesis by (simp add: fl64_mono_pos)
  next
    case 2
    then show ?thesis using fl64_nonpos [of x] fl64_nonneg [of y] by simp
  next
    case 3
    with assms have "fl64 (- y) \<le> fl64 (- x)" by (intro fl64_mono_pos) simp_all
    then show ?thesis by (simp add: fl64_minus)
  qed
qed

text \<open>The mean of two numbers of the format, as it is computed, lies between them.\<close>

lemma float_mean:
  assumes "is_float64 a" and "is_float64 b" and "a \<le> b"
  shows "a \<le> fl64 (fl64 (a + b) / 2) \<and> fl64 (fl64 (a + b) / 2) \<le> b"
proof -
  have "fl64 (2 * a) \<le> fl64 (a + b)" "fl64 (a + b) \<le> fl64 (2 * b)" using assms(3) by (simp_all add: fl64_mono)
  then have "a \<le> fl64 (a + b) / 2" "fl64 (a + b) / 2 \<le> b"
    using assms(1,2) by (simp_all add: fl64_fixed is_float64_double)
  from fl64_mono [OF this(1)] fl64_mono [OF this(2)] assms(1,2) show ?thesis by (simp add: fl64_fixed)
qed

end
