(* ===== verification/Kaggle_Demo.thy ===== *)
theory Kaggle_Demo
  imports Demo_Server Service_Scripts Float_Rounding
begin

text \<open>
  The demonstration on a Kaggle machine (\<open>scripts/kaggle_production_demo.py\<close>): it finds the mounted model,
  starts the service with an environment of its own, speaks one text or two at once, and leaves a document of
  evidence, whatever happens to the server it started.
\<close>

section \<open>Arguments and surroundings\<close>

record demo_args =
  da_profile :: execution_profile
  da_workspace :: file_path
  da_port :: int
  da_text :: string
  da_parallel_text :: "string option"
  da_startup_timeout :: pyfloat

text \<open>Beside the common answers: what the GPU probe finds, how writing a recording ends, and the answers of
  \<open>readyz\<close> that were taken until both requests were done.\<close>

record kaggle_world = demo_world +
  kw_probe :: "int list"
  kw_save :: "file_path \<Rightarrow> exn option"
  kw_snapshots :: "http_response http list"

section \<open>One request\<close>

definition request_id_of :: "http_response \<Rightarrow> pyval" where
  "request_id_of r = opt_str (dict_get (rs_headers r) ''x-request-id'')"

definition wav_entries :: "(byte list \<Rightarrow> string) \<Rightarrow> byte list \<Rightarrow> exn + (string, pyval) dict" where
  "wav_entries sha content =
     and_then (wave_facts content) (\<lambda>(frames, rate, channels).
     and_then (seconds_of frames rate) (\<lambda>seconds.
       Inr [(''sample_rate'', PInt (int rate)), (''channels'', PInt (int channels)), (''frames'', PInt (int frames)),
            (''duration_seconds'', float_of (round3 seconds)), (''sha256'', PStr (sha content))]))"

definition request_tts ::
    "kaggle_world \<Rightarrow> int \<Rightarrow> string \<Rightarrow> string \<Rightarrow> file_path \<Rightarrow> request_tag \<Rightarrow> demo_state \<Rightarrow> (string, pyval) dict demo_step" where
  "request_tts w port_number spoken_text rid output_path tag s =
     (let x = dw_exchange w tag (tts_call ''/v1/tts'' port_number (dw_token w) (PStr rid) (PStr spoken_text)) in
      case http_result (ex_answer x) of
        Inl e \<Rightarrow> (Inl e, s)
      | Inr r \<Rightarrow>
         (let result =
            [(''status_code'', PInt (rs_status r)),
             (''elapsed_seconds'', float_of (round3 (fl64 (ex_ended x - ex_started x)))),
             (''content_bytes'', PInt (int (length (rs_content r)))), (''request_id'', request_id_of r)] in
          if rs_status r \<noteq> 200 then (Inr (result @ [(''error_body'', PStr (take 500 (rs_text r)))]), s)
          else case wav_entries (dw_sha w) (rs_content r) of
            Inl e \<Rightarrow> (Inl e, s)
          | Inr entries \<Rightarrow>
             (case kw_save w output_path of
                Some e \<Rightarrow> (Inl e, s)
              | None \<Rightarrow>
                  (Inr (result @ entries @ [(''output_path'', PStr (path_str output_path))]),
                   s\<lparr>ds_audio := ds_audio s @ [(output_path, rs_content r)]\<rparr>))))"

section \<open>The requests of a run\<close>

text \<open>The server's count of busy workers, read while two requests run; the exceptions that are passed over.\<close>

fun passed_over :: "exn \<Rightarrow> bool" where
  "passed_over (OtherError name _) = (name = ''KeyError'' \<or> is_value_exn (OtherError name []))"
| "passed_over e = (is_value_exn e \<or> is_type_exn e)"

definition busy_workers :: "http_response http \<Rightarrow> exn + int option" where
  "busy_workers a =
     (case a of
        Http_Error _ _ \<Rightarrow> Inr None
      | Broke e \<Rightarrow> if passed_over e then Inr None else Inl e
      | Answer r \<Rightarrow>
          if rs_status r \<noteq> 200 then Inr None
          else case and_then (rs_json r) (\<lambda>doc. and_then (py_item doc ''workers'') (\<lambda>ws.
                 and_then (py_item ws ''busy'') py_int_value)) of
            Inl e \<Rightarrow> if passed_over e then Inr None else Inl e
          | Inr n \<Rightarrow> Inr (Some n))"

fun peak_busy :: "http_response http list \<Rightarrow> int \<Rightarrow> exn + int" where
  "peak_busy [] peak = Inr peak"
| "peak_busy (a # rest) peak =
     and_then (busy_workers a) (\<lambda>seen. peak_busy rest (case seen of None \<Rightarrow> peak | Some n \<Rightarrow> max peak n))"

definition status_of :: "(string, pyval) dict \<Rightarrow> pyval" where
  "status_of result = the (dict_get result ''status_code'')"

definition showcase :: "bool \<Rightarrow> bool \<Rightarrow> int \<Rightarrow> pyval" where
  "showcase requested together peak =
     dict_value [(''requested'', PBool requested), (''concurrent'', PBool together), (''peak_busy_workers'', PInt peak)]"

definition audio_path :: "demo_args \<Rightarrow> string \<Rightarrow> file_path" where
  "audio_path args which =
     path_child (da_workspace args) (''kaggle-'' @ profile_value (da_profile args) @ ''-'' @ which @ ''.wav'')"

text \<open>The three ways to speak: one text; two texts at once, where both requests run to their end before the first
  exception is looked at; two texts one after the other.\<close>

definition speak_one :: "kaggle_world \<Rightarrow> demo_args \<Rightarrow> demo_state \<Rightarrow> ((string, pyval) dict list \<times> int) demo_step" where
  "speak_one w args s =
     proceed (request_tts w (da_port args) (da_text args) ''kaggle-production-demo'' (audio_path args ''primary'')
                (Demo_Run 0) s) (\<lambda>result t.
       (Inr ([result], if status_of result = PInt 200 then 1 else 0), t))"

definition speak_together :: "kaggle_world \<Rightarrow> demo_args \<Rightarrow> string \<Rightarrow> demo_state \<Rightarrow> ((string, pyval) dict list \<times> int) demo_step" where
  "speak_together w args second_text s =
     (case request_tts w (da_port args) (da_text args) ''kaggle-demo-en'' (audio_path args ''primary'') (Demo_Run 0) s of
        (first, s1) \<Rightarrow>
     (case request_tts w (da_port args) second_text ''kaggle-demo-vi'' (audio_path args ''secondary'') (Demo_Run 1) s1 of
        (second, s2) \<Rightarrow>
          (and_then (peak_busy (kw_snapshots w) 0) (\<lambda>peak.
           and_then first (\<lambda>a. and_then second (\<lambda>b. Inr ([a, b], peak)))), s2)))"

definition speak_in_turn :: "kaggle_world \<Rightarrow> demo_args \<Rightarrow> string \<Rightarrow> demo_state \<Rightarrow> ((string, pyval) dict list \<times> int) demo_step" where
  "speak_in_turn w args second_text s =
     proceed (request_tts w (da_port args) (da_text args) ''kaggle-demo-en'' (audio_path args ''primary'') (Demo_Run 0) s)
       (\<lambda>a s1.
     proceed (request_tts w (da_port args) second_text ''kaggle-demo-vi'' (audio_path args ''secondary'') (Demo_Run 1) s1)
       (\<lambda>b s2. (Inr ([a, b], if status_of a = PInt 200 \<and> status_of b = PInt 200 then 1 else 0), s2)))"

text \<open>The loop that judges the results.\<close>

fun check_results :: "(string, pyval) dict list \<Rightarrow> exn + unit" where
  "check_results [] = Inr ()"
| "check_results (result # rest) =
     (if status_of result \<noteq> PInt 200
      then runtime_error (''TTS request failed with HTTP '' @
             (case status_of result of PInt n \<Rightarrow> show_int n | _ \<Rightarrow> []))
      else if dict_get result ''sample_rate'' \<noteq> Some (PInt 48000) \<or> dict_get result ''channels'' \<noteq> Some (PInt 1)
      then runtime_error ''unexpected WAV format''
      else check_results rest)"

definition results_value :: "(string, pyval) dict list \<Rightarrow> pyval" where
  "results_value results = PList (map dict_value results)"

section \<open>Before the server runs\<close>

definition demo_settings :: "demo_args \<Rightarrow> string \<Rightarrow> string \<Rightarrow> int \<Rightarrow> (string, string) dict" where
  "demo_settings args model_text token n_workers =
     [(''VOXCPM_PROFILE'', profile_value (da_profile args)), (''VOXCPM_MODEL_PATH'', model_text),
      (''VOXCPM_OFFLINE'', ''1''), (''HF_HUB_OFFLINE'', ''1''), (''TRANSFORMERS_OFFLINE'', ''1''),
      (''VOXCPM_HOST'', ''127.0.0.1''), (''VOXCPM_PORT'', show_int (da_port args)), (''VOXCPM_REQUIRE_AUTH'', ''1''),
      (''VOXCPM_API_TOKEN'', token), (''VOXCPM_MAX_QUEUE_SIZE'', ''1''),
      (''VOXCPM_MAX_CONCURRENT_REQUESTS'', show_int (max 1 n_workers)), (''VOXCPM_STREAM_IPC_MAX_CHUNKS'', ''4''),
      (''HF_ENDPOINT'', ''http://127.0.0.1:9''), (''HTTP_PROXY'', ''http://127.0.0.1:9''),
      (''HTTPS_PROXY'', ''http://127.0.0.1:9''), (''ALL_PROXY'', ''http://127.0.0.1:9''),
      (''NO_PROXY'', ''127.0.0.1,localhost''), (''no_proxy'', ''127.0.0.1,localhost'')]"

definition resolved_entry :: "runtime_config \<Rightarrow> pyval" where
  "resolved_entry c =
     dict_value [(''device'', PStr (device_value (device c))),
       (''gpu_devices'', PList (case gpu_devices c of None \<Rightarrow> [] | Some gs \<Rightarrow> map PInt gs)),
       (''workers'', opt_int (workers c))]"

definition demo_evidence ::
    "demo_args \<Rightarrow> candidate \<Rightarrow> runtime_config \<Rightarrow> gpu_row list \<Rightarrow> string \<Rightarrow> (string, int) dict \<Rightarrow> (string, pyval) dict" where
  "demo_evidence args model resolved baseline sha events =
     [(''schema_version'', PInt 1), (''qualification'', PStr ''kaggle-production-demo''),
      (''project'', PStr ''OpenBMB-VoxCPM2-Inference''), (''git_sha'', PStr (strip sha)),
      (''profile'', PStr (profile_value (da_profile args))), (''request_text'', PStr (da_text args)),
      (''parallel_text'', opt_str (da_parallel_text args)), (''model'', model_entry model),
      (''resolved_profile'', resolved_entry resolved),
      (''baseline'', dict_value [(''gpu_processes'', rows_value baseline), (''port_open'', PBool False),
         (''memory_events'', events_dict events)]),
      (''runtime_network'', dict_value [(''offline_flags'', PBool True), (''remote_endpoint_blackholed'', PBool True)])]"

record demo_prepared =
  dp_model :: candidate
  dp_baseline :: "gpu_row list"
  dp_resolved :: runtime_config
  dp_evidence :: "(string, pyval) dict"
  dp_child :: server_process

definition none_or :: "exn option \<Rightarrow> exn + unit" where
  "none_or e = (case e of None \<Rightarrow> Inr () | Some x \<Rightarrow> Inl x)"

definition worker_total :: "runtime_config \<Rightarrow> exn + int" where
  "worker_total c =
     (case workers c of
        None \<Rightarrow> Inl (TypeError ''the number of workers is not a number'')
      | Some n \<Rightarrow> Inr n)"

definition demo_prepare :: "kaggle_world \<Rightarrow> demo_args \<Rightarrow> exn + demo_prepared" where
  "demo_prepare w args =
     (let look = dw_machine w At_Baseline in
     and_then (none_or (dw_mkdir w)) (\<lambda>_.
     and_then (default_discovery (dw_files w) (dw_json w) (dw_scan w)) (\<lambda>candidates.
     and_then (only_candidate candidates ''expected exactly one qualified Kaggle model candidate, got '') (\<lambda>model.
     and_then (demo_gpu_rows (mc_smi look)) (\<lambda>baseline.
     and_then (port_open (mc_connect look)) (\<lambda>taken.
       if taken then runtime_error (''port '' @ show_int (da_port args) @ '' is already in use'')
       else
     and_then (post_init (default_config\<lparr>profile := Some (da_profile args)\<rparr>)) (\<lambda>asked.
     and_then (materialize_execution_profile (kw_probe w) asked) (\<lambda>resolved.
     and_then (worker_total resolved) (\<lambda>count_of_workers.
     and_then (dw_git w) (\<lambda>sha.
     and_then (demo_memory_events (mc_events look)) (\<lambda>events.
     and_then (none_or (dw_log w)) (\<lambda>_.
     and_then
       (dw_child w (server_environment (demo_settings args (candidate_text model) (dw_token w) count_of_workers)
          (dw_environ w))) (\<lambda>child.
       Inr \<lparr>dp_model = model, dp_baseline = baseline, dp_resolved = resolved,
            dp_evidence = demo_evidence args model resolved baseline sha events, dp_child = child\<rparr>)))))))))))))"

section \<open>While it runs\<close>

definition demo_startup :: "kaggle_world \<Rightarrow> demo_prepared \<Rightarrow> pyval \<times> rat \<Rightarrow> exn + pyval" where
  "demo_startup w dp ready =
     (let look = dw_machine w At_Startup; pid = ch_pid (dp_child dp) in
     and_then (demo_rss (mc_status look pid)) (\<lambda>rss.
     and_then (demo_child_pids (mc_ps look) pid) (\<lambda>pids.
     and_then (demo_gpu_rows (mc_smi look)) (\<lambda>rows.
       Inr (dict_value
         [(''elapsed_seconds'', float_of (round3 (snd ready))), (''readyz'', fst ready), (''server_pid'', PInt pid),
          (''server_rss_bytes'', opt_int rss), (''child_pids'', pids_value pids), (''gpu_processes'', rows_value rows)])))))"

definition demo_resources :: "kaggle_world \<Rightarrow> demo_prepared \<Rightarrow> exn + pyval" where
  "demo_resources w dp =
     (let look = dw_machine w After_Requests; pid = ch_pid (dp_child dp) in
     and_then (demo_gpu_rows (mc_smi look)) (\<lambda>rows.
     and_then (demo_rss (mc_status look pid)) (\<lambda>rss.
     and_then (demo_child_pids (mc_ps look) pid) (\<lambda>pids.
     and_then (demo_memory_events (mc_events look)) (\<lambda>events.
       Inr (dict_value
         [(''gpu_processes'', rows_value rows), (''server_rss_bytes'', opt_int rss), (''child_pids'', pids_value pids),
          (''memory_events'', events_dict events)]))))))"

definition has_two_workers :: "runtime_config \<Rightarrow> bool" where
  "has_two_workers c \<longleftrightarrow> (case workers c of None \<Rightarrow> False | Some n \<Rightarrow> 2 \<le> n)"

definition demo_speak :: "kaggle_world \<Rightarrow> demo_args \<Rightarrow> runtime_config \<Rightarrow> demo_state \<Rightarrow> ((string, pyval) dict list \<times> int) demo_step" where
  "demo_speak w args resolved s =
     (case da_parallel_text args of
        None \<Rightarrow> speak_one w args s
      | Some second_text \<Rightarrow>
          if has_two_workers resolved then speak_together w args second_text s
          else speak_in_turn w args second_text s)"

text \<open>The body of the \<open>try\<close> after the server became ready or did not.\<close>

definition demo_body :: "kaggle_world \<Rightarrow> demo_args \<Rightarrow> demo_prepared \<Rightarrow> exn + pyval \<times> rat \<Rightarrow> demo_state \<Rightarrow> unit demo_step" where
  "demo_body w args dp ready s =
     proceed (and_then ready (demo_startup w dp), s) (\<lambda>startup s1.
     proceed (demo_speak w args (dp_resolved dp) (note_down ''startup'' startup s1)) (\<lambda>(results, peak) s2.
       let together = da_parallel_text args \<noteq> None \<and> has_two_workers (dp_resolved dp);
           s3 = note_down ''parallel_showcase'' (showcase (da_parallel_text args \<noteq> None) together peak)
             (note_down ''requests'' (results_value results) (note_down ''request'' (dict_value (hd results)) s2)) in
       proceed (check_results results, s3) (\<lambda>_ s4.
         if together \<and> peak < 2
         then (runtime_error ''parallel showcase did not observe two busy workers'', s4)
         else proceed (demo_resources w dp, s4) (\<lambda>entry s5. (Inr (), note_down ''post_request'' entry s5)))))"

text \<open>The \<open>finally\<close>.\<close>

definition demo_cleanup :: "kaggle_world \<Rightarrow> demo_prepared \<Rightarrow> demo_state \<Rightarrow> unit demo_step" where
  "demo_cleanup w dp s =
     (let look = dw_machine w After_Stop; (ending, how) = demo_stop (dp_child dp); s1 = s\<lparr>ds_stopped := Some how\<rparr> in
     proceed (ending, s1) (\<lambda>_ s2.
     proceed
       (and_then (demo_gpu_rows (mc_smi look)) (\<lambda>rows.
        and_then (port_open (mc_connect look)) (\<lambda>still_open.
        and_then (demo_memory_events (mc_events look)) (\<lambda>events.
          Inr (dict_value
            [(''server_exit_code'', opt_int (st_code how)), (''gpu_processes'', rows_value rows),
             (''gpu_processes_match_baseline'', PBool (rows = dp_baseline dp)), (''port_open'', PBool still_open),
             (''memory_events'', events_dict events)])))), s2) (\<lambda>entry s3.
       write_evidence w (note_down ''cleanup'' entry s3))))"

section \<open>main\<close>

text \<open>\<open>evidence["cleanup"][name]\<close>.\<close>

definition cleanup_flag :: "string \<Rightarrow> demo_state \<Rightarrow> bool" where
  "cleanup_flag name s \<longleftrightarrow>
     (case dict_get (ds_evidence s) ''cleanup'' of
        Some (PDict items) \<Rightarrow> map_of items (PStr name) = Some (PBool True)
      | _ \<Rightarrow> False)"

definition demo_path :: "demo_args \<Rightarrow> file_path" where
  "demo_path args = path_child (da_workspace args) (''kaggle-'' @ profile_value (da_profile args) @ ''-evidence.json'')"

definition profile_line :: "execution_profile \<Rightarrow> string" where
  "profile_line p = map (\<lambda>c. if c = CHR ''-'' then CHR ''_'' else upper_char c) (profile_value p)"

definition demo_announce :: "demo_args \<Rightarrow> demo_state \<Rightarrow> int demo_step" where
  "demo_announce args s =
     proceed (print_evidence s) (\<lambda>_ s1.
     proceed (print_out (PStr (''KAGGLE_PROFILE_'' @ profile_line (da_profile args) @ ''=PASS'')) s1) (\<lambda>_ s2.
     proceed (if da_parallel_text args = None then (Inr (), s2)
              else print_out (PStr ''KAGGLE_T4X2_PARALLEL_SHOWCASE=PASS'') s2) (\<lambda>_ s3.
     proceed (print_out (PStr (''KAGGLE_EVIDENCE='' @ path_str (demo_path args))) s3) (\<lambda>_ s4. (Inr 0, s4)))))"

definition demo_serve :: "kaggle_world \<Rightarrow> demo_args \<Rightarrow> demo_prepared \<Rightarrow> exn + pyval \<times> rat \<Rightarrow> demo_state \<Rightarrow> int demo_step" where
  "demo_serve w args dp ready s =
     proceed (finally_do (demo_body w args dp ready s) (demo_cleanup w dp)) (\<lambda>_ t.
       if \<not> cleanup_flag ''gpu_processes_match_baseline'' t
       then (runtime_error ''GPU compute-process state did not return to baseline'', t)
       else if cleanup_flag ''port_open'' t then (runtime_error ''API port remained open after shutdown'', t)
       else demo_announce args t)"

text \<open>\<open>None\<close>: the wait for the server never ends.\<close>

definition demo_main :: "kaggle_world \<Rightarrow> demo_args \<Rightarrow> demo_state \<Rightarrow> int demo_step option" where
  "demo_main w args s =
     (case demo_prepare w args of
        Inl e \<Rightarrow> Some (Inl e, s)
      | Inr dp \<Rightarrow>
         (case demo_wait_ready (dw_clock w) (dw_ready w) (da_startup_timeout args) of
            None \<Rightarrow> None
          | Some ready \<Rightarrow> Some (demo_serve w args dp ready (s\<lparr>ds_evidence := dp_evidence dp\<rparr>))))"

section \<open>What a passing run shows\<close>

type_synonym planned_request = "request_tag \<times> http_request \<times> file_path"

definition planned_requests :: "demo_args \<Rightarrow> string \<Rightarrow> planned_request list" where
  "planned_requests args token =
     (let call = (\<lambda>rid spoken_text. tts_call ''/v1/tts'' (da_port args) token (PStr rid) (PStr spoken_text)) in
      case da_parallel_text args of
        None \<Rightarrow> [(Demo_Run 0, call ''kaggle-production-demo'' (da_text args), audio_path args ''primary'')]
      | Some second_text \<Rightarrow>
          [(Demo_Run 0, call ''kaggle-demo-en'' (da_text args), audio_path args ''primary''),
           (Demo_Run 1, call ''kaggle-demo-vi'' second_text, audio_path args ''secondary'')])"

text \<open>The request was answered with a WAV file of one channel at 48 kHz, which was saved and measured.\<close>

definition answered_well :: "kaggle_world \<Rightarrow> planned_request \<Rightarrow> (string, pyval) dict \<times> file_path \<times> byte list \<Rightarrow> bool" where
  "answered_well w planned kept =
     (case (planned, kept) of ((tag, rq, path), (result, saved)) \<Rightarrow>
       \<exists>r frames. ex_answer (dw_exchange w tag rq) = Answer r \<and> rs_status r = 200 \<and>
         wave_facts (rs_content r) = Inr (frames, 48000, 1) \<and> saved = (path, rs_content r) \<and>
         dict_get result ''frames'' = Some (PInt (int frames)) \<and>
         dict_get result ''sha256'' = Some (PStr (dw_sha w (rs_content r))) \<and>
         dict_get result ''output_path'' = Some (PStr (path_str path)))"

lemma http_result_Inr [raises]: "http_result a = Inr r \<longleftrightarrow> a = Answer r"
  by (cases a) auto

lemma request_tts_kept:
  fixes w rid spoken_text port_number
  defines "rq \<equiv> tts_call ''/v1/tts'' port_number (dw_token w) (PStr rid) (PStr spoken_text)"
  assumes "request_tts w port_number spoken_text rid path tag s = (Inr result, t)"
  shows "\<exists>r. ex_answer (dw_exchange w tag rq) = Answer r \<and> status_of result = PInt (rs_status r) \<and>
    (rs_status r = 200 \<longrightarrow> t = s\<lparr>ds_audio := ds_audio s @ [(path, rs_content r)]\<rparr> \<and>
       (check_results [result] = Inr () \<longrightarrow> answered_well w (tag, rq, path) (result, path, rs_content r)))"
proof -
  obtain r where r: "ex_answer (dw_exchange w tag rq) = Answer r"
    using assms(2) by (cases "ex_answer (dw_exchange w tag rq)") (simp_all add: request_tts_def rq_def [symmetric])
  show ?thesis
  proof (cases "rs_status r = 200")
    case False
    with assms(2) r have "status_of result = PInt (rs_status r)"
      by (auto simp: request_tts_def rq_def [symmetric] status_of_def Let_def)
    with r False show ?thesis by blast
  next
    case ok: True
    obtain entries where e: "wav_entries (dw_sha w) (rs_content r) = Inr entries"
      using assms(2) r ok
      by (cases "wav_entries (dw_sha w) (rs_content r)") (simp_all add: request_tts_def rq_def [symmetric])
    then obtain frames rate channels seconds where f: "wave_facts (rs_content r) = Inr (frames, rate, channels)"
      "entries = [(''sample_rate'', PInt (int rate)), (''channels'', PInt (int channels)), (''frames'', PInt (int frames)),
         (''duration_seconds'', float_of (round3 seconds)), (''sha256'', PStr (dw_sha w (rs_content r)))]"
      by (auto simp: wav_entries_def raises)
    obtain head where h: "head = [(''status_code'', PInt (rs_status r)),
             (''elapsed_seconds'', float_of (round3 (fl64 (ex_ended (dw_exchange w tag rq) - ex_started (dw_exchange w tag rq))))),
             (''content_bytes'', PInt (int (length (rs_content r)))), (''request_id'', request_id_of r)]" by blast
    from assms(2) r ok e h have res: "result = head @ entries @ [(''output_path'', PStr (path_str path))]"
      "t = s\<lparr>ds_audio := ds_audio s @ [(path, rs_content r)]\<rparr>"
      by (auto simp: request_tts_def rq_def [symmetric] Let_def split: option.splits)
    have got: "dict_get result ''status_code'' = Some (PInt (rs_status r))"
      "dict_get result ''sample_rate'' = Some (PInt (int rate))" "dict_get result ''channels'' = Some (PInt (int channels))"
      "dict_get result ''frames'' = Some (PInt (int frames))"
      "dict_get result ''sha256'' = Some (PStr (dw_sha w (rs_content r)))"
      "dict_get result ''output_path'' = Some (PStr (path_str path))"
      by (simp_all add: res(1) h f(2))
    have "answered_well w (tag, rq, path) (result, path, rs_content r)" if "check_results [result] = Inr ()"
    proof -
      from that got(2,3) have "int rate = 48000" "int channels = 1" by (auto simp: runtime_error_def split: if_splits)
      then have "rate = 48000" "channels = 1" by simp_all
      with r ok f(1) got(4-6) show ?thesis by (simp add: answered_well_def)
    qed
    moreover have "status_of result = PInt (rs_status r)" using got(1) by (simp add: status_of_def)
    ultimately show ?thesis using r ok res(2) by blast
  qed
qed

lemma check_results_Cons: "check_results (a # rest) = Inr () \<longleftrightarrow> check_results [a] = Inr () \<and> check_results rest = Inr ()"
  by (auto simp: runtime_error_def)

lemma checked_status: "check_results [a] = Inr () \<Longrightarrow> status_of a = PInt 200"
  by (auto simp: runtime_error_def split: if_splits)

lemma request_tts_checked:
  assumes "request_tts w port_number spoken_text rid path tag s = (Inr result, t)" and "check_results [result] = Inr ()"
    and "rq = tts_call ''/v1/tts'' port_number (dw_token w) (PStr rid) (PStr spoken_text)"
  obtains content where "t = s\<lparr>ds_audio := ds_audio s @ [(path, content)]\<rparr>"
    and "answered_well w (tag, rq, path) (result, path, content)"
proof -
  from request_tts_kept [OF assms(1)] obtain r :: http_response where
    r: "status_of result = PInt (rs_status r)"
    "rs_status r = 200 \<longrightarrow> t = s\<lparr>ds_audio := ds_audio s @ [(path, rs_content r)]\<rparr> \<and>
       (check_results [result] = Inr () \<longrightarrow> answered_well w (tag, rq, path) (result, path, rs_content r))"
    unfolding assms(3) [symmetric] by blast
  from r(1) checked_status [OF assms(2)] have "rs_status r = 200" by simp
  with r(2) that assms(2) show thesis by blast
qed

lemma demo_speak_kept:
  assumes "demo_speak w args c s = (Inr (results, peak), t)" and "check_results results = Inr ()"
  shows "\<exists>kept. list_all2 (answered_well w) (planned_requests args (dw_token w)) kept \<and> results = map fst kept \<and>
    t = s\<lparr>ds_audio := ds_audio s @ map snd kept\<rparr>"
proof (cases "da_parallel_text args")
  case None
  define rid where "rid = ''kaggle-production-demo''"
  define path where "path = audio_path args ''primary''"
  define rq where "rq = tts_call ''/v1/tts'' (da_port args) (dw_token w) (PStr rid) (PStr (da_text args))"
  from None have planned: "planned_requests args (dw_token w) = [(Demo_Run 0, rq, path)]"
    by (simp add: planned_requests_def rq_def rid_def path_def)
  from assms(1) None obtain result where r: "results = [result]"
    "request_tts w (da_port args) (da_text args) rid path (Demo_Run 0) s = (Inr result, t)"
    by (auto simp: demo_speak_def speak_one_def raises simp flip: rid_def path_def)
  from assms(2) r(1) have "check_results [result] = Inr ()" by simp
  from request_tts_checked [OF r(2) this rq_def] obtain content where
    "t = s\<lparr>ds_audio := ds_audio s @ [(path, content)]\<rparr>" "answered_well w (Demo_Run 0, rq, path) (result, path, content)" .
  with r(1) planned show ?thesis by (intro exI [of _ "[(result, path, content)]"]) simp
next
  case (Some second_text)
  define i1 where "i1 = ''kaggle-demo-en''"
  define i2 where "i2 = ''kaggle-demo-vi''"
  define p1 where "p1 = audio_path args ''primary''"
  define p2 where "p2 = audio_path args ''secondary''"
  define q1 where "q1 = tts_call ''/v1/tts'' (da_port args) (dw_token w) (PStr i1) (PStr (da_text args))"
  define q2 where "q2 = tts_call ''/v1/tts'' (da_port args) (dw_token w) (PStr i2) (PStr second_text)"
  from Some have planned: "planned_requests args (dw_token w) = [(Demo_Run 0, q1, p1), (Demo_Run 1, q2, p2)]"
    by (simp add: planned_requests_def q1_def q2_def i1_def i2_def p1_def p2_def)
  obtain a b s1 where r: "results = [a, b]"
    "request_tts w (da_port args) (da_text args) i1 p1 (Demo_Run 0) s = (Inr a, s1)"
    "request_tts w (da_port args) second_text i2 p2 (Demo_Run 1) s1 = (Inr b, t)"
    using assms(1) Some
    by (auto simp: demo_speak_def speak_together_def speak_in_turn_def raises
        simp flip: i1_def i2_def p1_def p2_def split: if_splits prod.splits)
  from assms(2) r(1) have c: "check_results [a] = Inr ()" "check_results [b] = Inr ()"
    using check_results_Cons [of a "[b]"] by simp_all
  from request_tts_checked [OF r(2) c(1) q1_def] obtain c1 where
    k1: "s1 = s\<lparr>ds_audio := ds_audio s @ [(p1, c1)]\<rparr>" "answered_well w (Demo_Run 0, q1, p1) (a, p1, c1)" .
  from request_tts_checked [OF r(3) c(2) q2_def] obtain c2 where
    k2: "t = s1\<lparr>ds_audio := ds_audio s1 @ [(p2, c2)]\<rparr>" "answered_well w (Demo_Run 1, q2, p2) (b, p2, c2)" .
  from k1 k2 r(1) planned show ?thesis by (intro exI [of _ "[(a, p1, c1), (b, p2, c2)]"]) simp
qed

lemma note_down_simps [simp]:
  "ds_evidence (note_down name v s) = dict_set name v (ds_evidence s)" "ds_audio (note_down name v s) = ds_audio s"
  "ds_document (note_down name v s) = ds_document s" "ds_stopped (note_down name v s) = ds_stopped s"
  "ds_console (note_down name v s) = ds_console s"
  by (simp_all add: note_down_def)

lemma demo_body_passed:
  assumes "demo_body w args dp ready s = (Inr u, t)"
  shows "\<exists>kept. list_all2 (answered_well w) (planned_requests args (dw_token w)) kept \<and>
    dict_get (ds_evidence t) ''requests'' = Some (results_value (map fst kept)) \<and>
    ds_audio t = ds_audio s @ map snd kept \<and> ds_console t = ds_console s \<and> isOK ready \<and>
    (da_parallel_text args \<noteq> None \<and> has_two_workers (dp_resolved dp) \<longrightarrow>
       (\<exists>peak \<ge> 2. peak_busy (kw_snapshots w) 0 = Inr peak))"
proof -
  define key where "key = ''requests''"
  have keys: "key \<noteq> ''post_request''" "key \<noteq> ''parallel_showcase''" by (simp_all add: key_def)
  from assms obtain startup results peak s2 entry where b: "and_then ready (demo_startup w dp) = Inr startup"
    "demo_speak w args (dp_resolved dp) (note_down ''startup'' startup s) = (Inr (results, peak), s2)"
    "check_results results = Inr ()"
    "\<not> (da_parallel_text args \<noteq> None \<and> has_two_workers (dp_resolved dp) \<and> peak < 2)"
    "t = note_down ''post_request'' entry (note_down ''parallel_showcase''
       (showcase (da_parallel_text args \<noteq> None) (da_parallel_text args \<noteq> None \<and> has_two_workers (dp_resolved dp)) peak)
       (note_down key (results_value results) (note_down ''request'' (dict_value (hd results)) s2)))"
    unfolding demo_body_def Let_def key_def [symmetric] proceed_eq_Inr by (auto simp: raises runtime_error_def split: if_splits)
  from demo_speak_kept [OF b(2,3)] obtain kept where k: "list_all2 (answered_well w) (planned_requests args (dw_token w)) kept"
    "results = map fst kept" "s2 = (note_down ''startup'' startup s)\<lparr>ds_audio := ds_audio s @ map snd kept\<rparr>"
    unfolding note_down_simps by blast
  have "dict_get (ds_evidence t) key = Some (results_value (map fst kept))"
    using keys by (simp add: b(5) k(2) dicts)
  moreover have "ds_audio t = ds_audio s @ map snd kept" "ds_console t = ds_console s" by (simp_all add: b(5) k(3))
  moreover have "isOK ready" using b(1) by (cases ready) simp_all
  moreover have "\<exists>peak \<ge> 2. peak_busy (kw_snapshots w) 0 = Inr peak"
    if "da_parallel_text args \<noteq> None" "has_two_workers (dp_resolved dp)"
    using that b(2,4) by (auto simp: demo_speak_def speak_together_def raises split: prod.splits)
  ultimately show ?thesis using k(1) unfolding key_def by blast
qed

lemma stop_within_ended: "stop_within a b ch = (Inr u, how) \<Longrightarrow> st_code how \<noteq> None"
  by (auto simp: stop_within_def split: option.splits)

lemma write_evidence_Inr:
  "write_evidence w s = (Inr u, t) \<Longrightarrow> t = s\<lparr>ds_document := Some (dict_value (ds_evidence s))\<rparr>"
  by (auto simp: write_evidence_def Let_def split: sum.splits option.splits)

lemma demo_cleanup_done:
  assumes "demo_cleanup w dp s = (Inr u, t)"
  shows "\<exists>how rows still_open. demo_stop (dp_child dp) = (Inr (), how) \<and> ds_stopped t = Some how \<and>
    demo_gpu_rows (mc_smi (dw_machine w After_Stop)) = Inr rows \<and>
    port_open (mc_connect (dw_machine w After_Stop)) = Inr still_open \<and>
    cleanup_flag ''gpu_processes_match_baseline'' t = (rows = dp_baseline dp) \<and> cleanup_flag ''port_open'' t = still_open \<and>
    (\<forall>name. name \<noteq> ''cleanup'' \<longrightarrow> dict_get (ds_evidence t) name = dict_get (ds_evidence s) name) \<and>
    ds_audio t = ds_audio s \<and> ds_console t = ds_console s \<and> ds_document t = Some (dict_value (ds_evidence t))"
proof -
  obtain ending how where st: "demo_stop (dp_child dp) = (ending, how)" by (cases "demo_stop (dp_child dp)")
  from assms obtain rows still_open events where c: "ending = Inr ()"
    "demo_gpu_rows (mc_smi (dw_machine w After_Stop)) = Inr rows"
    "port_open (mc_connect (dw_machine w After_Stop)) = Inr still_open"
    "write_evidence w (note_down ''cleanup'' (dict_value
            [(''server_exit_code'', opt_int (st_code how)), (''gpu_processes'', rows_value rows),
             (''gpu_processes_match_baseline'', PBool (rows = dp_baseline dp)), (''port_open'', PBool still_open),
             (''memory_events'', events_dict events)]) (s\<lparr>ds_stopped := Some how\<rparr>)) = (Inr u, t)"
    unfolding demo_cleanup_def Let_def st prod.case proceed_eq_Inr by (auto simp: raises)
  note t = write_evidence_Inr [OF c(4)]
  have "cleanup_flag ''gpu_processes_match_baseline'' t = (rows = dp_baseline dp)" "cleanup_flag ''port_open'' t = still_open"
    by (auto simp: cleanup_flag_def t dict_value_def dicts)
  then show ?thesis
    using st c(1-3) by (auto simp: t dicts)
qed

lemma print_out_Inr: "print_out v s = (Inr u, t) \<Longrightarrow> co_out (ds_console t) = co_out (ds_console s) @ [v] \<and>
    ds_evidence t = ds_evidence s \<and> ds_audio t = ds_audio s \<and> ds_document t = ds_document s \<and> ds_stopped t = ds_stopped s"
  by (auto simp: print_out_def console_answer_def split: list.splits option.splits)

lemma demo_announce_Inr:
  assumes "demo_announce args s = (Inr code, t)"
  shows "code = 0 \<and> ds_evidence t = ds_evidence s \<and> ds_audio t = ds_audio s \<and> ds_document t = ds_document s \<and>
    ds_stopped t = ds_stopped s \<and>
    (\<exists>lines. co_out (ds_console t) = co_out (ds_console s) @ dict_value (ds_evidence s) # lines)"
proof -
  define line where "line = PStr (''KAGGLE_PROFILE_'' @ profile_line (da_profile args) @ ''=PASS'')"
  define line2 where "line2 = PStr ''KAGGLE_T4X2_PARALLEL_SHOWCASE=PASS''"
  define line3 where "line3 = PStr (''KAGGLE_EVIDENCE='' @ path_str (demo_path args))"
  from assms obtain s1 s2 s3 u where
    a: "print_out (dict_value (ds_evidence s)) s = (Inr u, s1)" "print_out line s1 = (Inr u, s2)"
      "s3 = s2 \<or> print_out line2 s2 = (Inr u, s3)" "print_out line3 s3 = (Inr u, t)" "code = 0"
    unfolding demo_announce_def line_def [symmetric] line2_def [symmetric] line3_def [symmetric]
    by (auto simp: raises print_evidence_def Let_def split: sum.splits if_splits)
  from print_out_Inr [OF a(1)] print_out_Inr [OF a(2)] print_out_Inr [OF a(4)] a(3,5) print_out_Inr [of line2 s2 u s3]
  show ?thesis by auto
qed

lemma demo_main_cases:
  "demo_main w args s = Some (Inr code, t) \<Longrightarrow>
   \<exists>dp ready. demo_prepare w args = Inr dp \<and>
     demo_wait_ready (dw_clock w) (dw_ready w) (da_startup_timeout args) = Some ready \<and>
     demo_serve w args dp ready (s\<lparr>ds_evidence := dp_evidence dp\<rparr>) = (Inr code, t)"
  by (auto simp: demo_main_def split: sum.splits option.splits)

lemma demo_prepare_Inr:
  assumes "demo_prepare w args = Inr dp"
  shows "default_discovery (dw_files w) (dw_json w) (dw_scan w) = Inr [dp_model dp] \<and>
    demo_gpu_rows (mc_smi (dw_machine w At_Baseline)) = Inr (dp_baseline dp) \<and>
    port_open (mc_connect (dw_machine w At_Baseline)) = Inr False \<and>
    (\<exists>asked n. post_init (default_config\<lparr>profile := Some (da_profile args)\<rparr>) = Inr asked \<and>
       materialize_execution_profile (kw_probe w) asked = Inr (dp_resolved dp) \<and> workers (dp_resolved dp) = Some n \<and>
       dw_child w (server_environment (demo_settings args (candidate_text (dp_model dp)) (dw_token w) n) (dw_environ w)) =
         Inr (dp_child dp)) \<and>
    (\<exists>sha events. dp_evidence dp = demo_evidence args (dp_model dp) (dp_resolved dp) (dp_baseline dp) sha events)"
proof -
  let ?look = "dw_machine w At_Baseline"
  from assms obtain model baseline asked resolved n sha events child where
    f: "default_discovery (dw_files w) (dw_json w) (dw_scan w) = Inr [model]"
    "demo_gpu_rows (mc_smi ?look) = Inr baseline" "port_open (mc_connect ?look) = Inr False"
    "post_init (default_config\<lparr>profile := Some (da_profile args)\<rparr>) = Inr asked"
    "materialize_execution_profile (kw_probe w) asked = Inr resolved" "workers resolved = Some n"
    "dw_child w (server_environment (demo_settings args (candidate_text model) (dw_token w) n) (dw_environ w)) = Inr child"
    "dp = \<lparr>dp_model = model, dp_baseline = baseline, dp_resolved = resolved,
            dp_evidence = demo_evidence args model resolved baseline sha events, dp_child = child\<rparr>"
    by (auto simp: demo_prepare_def Let_def raises runtime_error_def only_candidate_def worker_total_def
        split: if_splits list.splits option.splits)
  show ?thesis unfolding f(8) demo_prepared.simps using f(1-7) by blast
qed

text \<open>C32. What a passing run of the demonstration shows. If it ends with an exit code, that is 0; the one model found is
  the one it served; every text was answered with status 200 by a WAV file of one channel at 48 kHz, which was
  saved unchanged and whose digest and number of frames are in the evidence; with two workers and two texts both
  were seen busy at once; the server has ended, its port was closed before and is closed after, the GPUs run what
  they ran before; and the evidence that was written is the evidence that was printed.\<close>

theorem demo_passes_only_clean:
  assumes "demo_main w args s = Some (Inr code, t)"
  shows "code = 0 \<and> (\<exists>dp kept how lines. demo_prepare w args = Inr dp \<and>
    default_discovery (dw_files w) (dw_json w) (dw_scan w) = Inr [dp_model dp] \<and>
    list_all2 (answered_well w) (planned_requests args (dw_token w)) kept \<and>
    ds_audio t = ds_audio s @ map snd kept \<and>
    dict_get (ds_evidence t) ''requests'' = Some (results_value (map fst kept)) \<and>
    (da_parallel_text args \<noteq> None \<and> has_two_workers (dp_resolved dp) \<longrightarrow>
       (\<exists>peak \<ge> 2. peak_busy (kw_snapshots w) 0 = Inr peak)) \<and>
    demo_stop (dp_child dp) = (Inr (), how) \<and> ds_stopped t = Some how \<and> st_code how \<noteq> None \<and>
    port_open (mc_connect (dw_machine w At_Baseline)) = Inr False \<and>
    port_open (mc_connect (dw_machine w After_Stop)) = Inr False \<and>
    demo_gpu_rows (mc_smi (dw_machine w After_Stop)) = demo_gpu_rows (mc_smi (dw_machine w At_Baseline)) \<and>
    ds_document t = Some (dict_value (ds_evidence t)) \<and>
    co_out (ds_console t) = co_out (ds_console s) @ dict_value (ds_evidence t) # lines)"
proof -
  define key where "key = ''requests''"
  have key: "key \<noteq> ''cleanup''" by (simp add: key_def)
  let ?s = "\<lambda>dp. s\<lparr>ds_evidence := dp_evidence dp\<rparr>"
  from demo_main_cases [OF assms] obtain dp ready where p: "demo_prepare w args = Inr dp"
    and serve: "demo_serve w args dp ready (?s dp) = (Inr code, t)" by blast
  from serve obtain t1 where f: "finally_do (demo_body w args dp ready (?s dp)) (demo_cleanup w dp) = (Inr (), t1)"
    "cleanup_flag ''gpu_processes_match_baseline'' t1" "\<not> cleanup_flag ''port_open'' t1" "demo_announce args t1 = (Inr code, t)"
    by (auto simp: demo_serve_def raises runtime_error_def split: if_splits)
  from f(1) obtain s1 where b: "demo_body w args dp ready (?s dp) = (Inr (), s1)" and c: "demo_cleanup w dp s1 = (Inr (), t1)"
    by (auto simp: finally_do_Inr)
  from demo_cleanup_done [OF c] f(2,3) obtain how where h: "demo_stop (dp_child dp) = (Inr (), how)" "ds_stopped t1 = Some how"
    "demo_gpu_rows (mc_smi (dw_machine w After_Stop)) = Inr (dp_baseline dp)"
    "port_open (mc_connect (dw_machine w After_Stop)) = Inr False"
    "\<forall>name. name \<noteq> ''cleanup'' \<longrightarrow> dict_get (ds_evidence t1) name = dict_get (ds_evidence s1) name"
    "ds_audio t1 = ds_audio s1" "ds_console t1 = ds_console s1" "ds_document t1 = Some (dict_value (ds_evidence t1))"
    by auto
  from demo_body_passed [OF b] obtain kept where k: "list_all2 (answered_well w) (planned_requests args (dw_token w)) kept"
    "dict_get (ds_evidence s1) key = Some (results_value (map fst kept))" "ds_audio s1 = ds_audio s @ map snd kept"
    "ds_console s1 = ds_console s"
    "da_parallel_text args \<noteq> None \<and> has_two_workers (dp_resolved dp) \<longrightarrow> (\<exists>peak \<ge> 2. peak_busy (kw_snapshots w) 0 = Inr peak)"
    unfolding key_def by auto
  from h(5) key k(2) have "dict_get (ds_evidence t1) key = Some (results_value (map fst kept))" by simp
  moreover have "st_code how \<noteq> None" using h(1) unfolding demo_stop_def by (rule stop_within_ended)
  ultimately show ?thesis
    using demo_announce_Inr [OF f(4)] demo_prepare_Inr [OF p] p k h unfolding key_def [symmetric] by metis
qed

section \<open>A run ends, and the server with it\<close>

text \<open>Values that \<open>json.dumps\<close> writes.\<close>

abbreviation writable :: "pyval \<Rightarrow> bool" where
  "writable v \<equiv> json_check (as_finite v) = Inr ()"

definition writable_dict :: "(string, pyval) dict \<Rightarrow> bool" where
  "writable_dict d \<longleftrightarrow> list_all (\<lambda>(_, v). writable v) d"

lemma writable_dict_simps [simp]:
  "writable_dict []" "writable_dict ((k, v) # d) \<longleftrightarrow> writable v \<and> writable_dict d"
  "writable_dict (d @ e) \<longleftrightarrow> writable_dict d \<and> writable_dict e"
  by (simp_all add: writable_dict_def)

lemma as_finite_dict: "as_finite (dict_value d) = dict_value (map (\<lambda>(k, v). (k, as_finite v)) d)"
  by (simp add: dict_value_def split_beta comp_def)

lemma writable_dict_value [simp]: "writable_dict d \<Longrightarrow> writable (dict_value d)"
  unfolding as_finite_dict
  by (intro json_dict_value) (auto simp: writable_dict_def json_values_def list_all_iff)

lemma writable_list [simp]: "list_all writable vs \<Longrightarrow> writable (PList vs)"
  by (simp add: list_all_iff)

lemma writable_simple [simp]:
  "writable (PInt n)" "writable (PStr t)" "writable (PBool b)" "writable PNone" "writable (float_of q)"
  "writable (opt_str so)" "writable (opt_int i)" "writable (opt_text so)"
  by (simp_all add: float_of_def opt_str_def opt_int_def opt_text_def split: option.split)

lemma writable_set: "writable_dict d \<Longrightarrow> writable v \<Longrightarrow> writable_dict (dict_set k v d)"
  by (induction d) auto

lemma writable_parts [simp]:
  "writable (rows_value rows)" "writable (pids_value pids)" "writable (events_dict events)"
  "writable (resolved_entry c)" "writable (showcase a b n)"
  by (simp_all add: rows_value_def pids_value_def events_dict_def resolved_entry_def showcase_def row_value_def
      list_all_iff writable_dict_def split_beta split: option.split)

lemma writable_model:
  assumes "default_discovery fs loads scan = Inr cs" and "c \<in> set cs"
  shows "writable (model_entry c)"
proof -
  from assms(1) obtain ad where ad: "mk_adapter fs (Path_Object default_model_root) default_max_depth default_max_entries
      (PStr default_model_revision) (PStr default_config_sha256) = Inr ad" "discover ad fs loads scan = Inr cs"
    by (auto simp: default_discovery_def discover_kaggle_model_candidates_def raises)
  from discovered_candidate [OF ad assms(2)] obtain d where "mount_candidate ad fs loads d = Inr c" by blast
  from mount_candidate_Inr [OF this] obtain revision where "dc_model_id c = PStr model_id_const" "dc_revision c = opt_text revision"
    by blast
  then show ?thesis by (simp add: model_entry_def writable_dict_def split_beta list_all_iff)
qed

definition evidence_fine :: "demo_state \<Rightarrow> bool" where
  "evidence_fine s \<longleftrightarrow> writable_dict (ds_evidence s)"

lemma evidence_fine_note [simp]: "evidence_fine s \<Longrightarrow> writable v \<Longrightarrow> evidence_fine (note_down name v s)"
  by (simp add: evidence_fine_def writable_set)

text \<open>What one step keeps: the evidence can be written, and nothing has been stopped or written yet.\<close>

definition still_fine :: "demo_state \<Rightarrow> demo_state \<Rightarrow> bool" where
  "still_fine s t \<longleftrightarrow> (evidence_fine s \<longrightarrow> evidence_fine t) \<and> ds_stopped t = ds_stopped s"

lemma request_tts_fine:
  assumes "request_tts w port_number spoken_text rid path tag s = (res, t)"
  shows "still_fine s t \<and> (\<forall>result. res = Inr result \<longrightarrow> writable_dict result)"
  using assms
  by (auto simp: request_tts_def Let_def still_fine_def evidence_fine_def wav_entries_def request_id_of_def raises
      split: sum.splits if_splits option.splits)

lemma demo_speak_fine:
  assumes "demo_speak w args c s = (res, t)"
  shows "still_fine s t \<and> (\<forall>results peak. res = Inr (results, peak) \<longrightarrow> results \<noteq> [] \<and> list_all writable_dict results)"
proof -
  have single: "still_fine s t \<and> (\<forall>result. res = Inr result \<longrightarrow> writable_dict result)"
    if "request_tts w (da_port args) spoken_text rid path tag s = (res, t)" for spoken_text rid path tag s res t
    using that by (rule request_tts_fine)
  have trans: "still_fine a b \<Longrightarrow> still_fine b c \<Longrightarrow> still_fine a c" for a b c by (auto simp: still_fine_def)
  from assms show ?thesis
    by (auto simp: demo_speak_def speak_one_def speak_together_def speak_in_turn_def proceed_def raises
        split: option.splits if_splits prod.splits sum.splits dest!: single intro: trans)
qed

lemma writable_results: "list_all writable_dict results \<Longrightarrow> writable (results_value results)"
  by (auto simp: results_value_def list_all_iff intro!: writable_list)

lemma demo_startup_writable: "demo_startup w dp ready = Inr v \<Longrightarrow> writable (fst ready) \<Longrightarrow> writable v"
  by (auto simp: demo_startup_def Let_def raises)

lemma demo_resources_writable: "demo_resources w dp = Inr v \<Longrightarrow> writable v"
  by (auto simp: demo_resources_def Let_def raises)

lemma demo_body_fine:
  assumes "demo_body w args dp ready s = (res, t)" and "\<forall>document seconds. ready = Inr (document, seconds) \<longrightarrow> writable document"
  shows "still_fine s t"
proof (cases "and_then ready (demo_startup w dp)")
  case (Inl e)
  with assms(1) show ?thesis by (auto simp: demo_body_def still_fine_def)
next
  case (Inr startup)
  then have "writable startup" using assms(2) by (cases ready) (auto dest: demo_startup_writable)
  define s1 where "s1 = note_down ''startup'' startup s"
  obtain spoken s2 where sp: "demo_speak w args (dp_resolved dp) s1 = (spoken, s2)"
    by (cases "demo_speak w args (dp_resolved dp) s1")
  from demo_speak_fine [OF sp] have s2: "still_fine s1 s2"
    and results: "\<And>results peak. spoken = Inr (results, peak) \<Longrightarrow> results \<noteq> [] \<and> list_all writable_dict results" by blast+
  have s1: "still_fine s s1" using \<open>writable startup\<close> by (simp add: s1_def still_fine_def)
  show ?thesis
  proof (cases spoken)
    case (Inl e)
    with assms(1) Inr sp s1 s2 show ?thesis by (auto simp: demo_body_def still_fine_def s1_def)
  next
    case found: (Inr found_results)
    obtain results peak where r: "found_results = (results, peak)" by (cases found_results)
    with results found have rs: "results \<noteq> []" "list_all writable_dict results" by auto
    then have w: "writable (dict_value (hd results))" "writable (results_value results)"
      by (auto simp: writable_results list_all_iff)
    define together where "together = (da_parallel_text args \<noteq> None \<and> has_two_workers (dp_resolved dp))"
    define s3 where "s3 = note_down ''parallel_showcase'' (showcase (da_parallel_text args \<noteq> None) together peak)
             (note_down ''requests'' (results_value results) (note_down ''request'' (dict_value (hd results)) s2))"
    have s3: "still_fine s2 s3" using w by (simp add: s3_def still_fine_def)
    have "t = s3 \<or> (\<exists>entry. demo_resources w dp = Inr entry \<and> t = note_down ''post_request'' entry s3)"
    proof -
      have "demo_body w args dp ready s = proceed (check_results results, s3) (\<lambda>_ s4.
         if together \<and> peak < 2
         then (runtime_error ''parallel showcase did not observe two busy workers'', s4)
         else proceed (demo_resources w dp, s4) (\<lambda>entry s5. (Inr (), note_down ''post_request'' entry s5)))"
        unfolding demo_body_def Inr proceed_Inr s1_def [symmetric] sp found r prod.case Let_def together_def s3_def ..
      with assms(1) show ?thesis
        by (cases "check_results results"; cases "demo_resources w dp") (auto split: if_splits)
    qed
    then have "still_fine s3 t" by (auto simp: still_fine_def demo_resources_writable)
    with s1 s2 s3 show ?thesis by (auto simp: still_fine_def)
  qed
qed

text \<open>What the \<open>finally\<close> needs to reach its end.\<close>

definition calm_after_stop :: "kaggle_world \<Rightarrow> bool" where
  "calm_after_stop w \<longleftrightarrow>
     (let look = dw_machine w After_Stop in
      isOK (demo_gpu_rows (mc_smi look)) \<and> isOK (port_open (mc_connect look)) \<and>
      isOK (demo_memory_events (mc_events look)) \<and> dw_write w = None)"

lemma demo_cleanup_stops:
  assumes "demo_cleanup w dp s = (res, t)"
  shows "ds_stopped t = Some (snd (demo_stop (dp_child dp))) \<and>
    (\<forall>e. fst (demo_stop (dp_child dp)) = Inl e \<longrightarrow> res = Inl e) \<and>
    (fst (demo_stop (dp_child dp)) = Inr () \<and> calm_after_stop w \<and> evidence_fine s \<longrightarrow>
       res = Inr () \<and> ds_document t = Some (dict_value (ds_evidence t)))"
proof -
  obtain ending how where st: "demo_stop (dp_child dp) = (ending, how)" by (cases "demo_stop (dp_child dp)")
  show ?thesis
  proof (cases ending)
    case (Inl e)
    with assms st show ?thesis by (auto simp: demo_cleanup_def)
  next
    case (Inr u)
    let ?look = "dw_machine w After_Stop" and ?s = "s\<lparr>ds_stopped := Some how\<rparr>"
    define readings where "readings = and_then (demo_gpu_rows (mc_smi ?look)) (\<lambda>rows.
        and_then (port_open (mc_connect ?look)) (\<lambda>still_open.
        and_then (demo_memory_events (mc_events ?look)) (\<lambda>events.
          Inr (dict_value
            [(''server_exit_code'', opt_int (st_code how)), (''gpu_processes'', rows_value rows),
             (''gpu_processes_match_baseline'', PBool (rows = dp_baseline dp)), (''port_open'', PBool still_open),
             (''memory_events'', events_dict events)]))))"
    from assms st Inr have c: "proceed (readings, ?s) (\<lambda>entry s3. write_evidence w (note_down ''cleanup'' entry s3)) = (res, t)"
      by (simp add: demo_cleanup_def readings_def Let_def)
    have stopped: "ds_stopped t = Some how"
      using c by (cases readings) (auto simp: write_evidence_def Let_def split: sum.splits option.splits)
    moreover have "res = Inr () \<and> ds_document t = Some (dict_value (ds_evidence t))" if "calm_after_stop w" "evidence_fine s"
    proof -
      from that(1) obtain entry where e: "readings = Inr entry" "writable entry"
        by (auto simp: calm_after_stop_def Let_def readings_def isOK_iff)
      have "evidence_fine ?s" using that(2) by (simp add: evidence_fine_def)
      with e(2) have "evidence_fine (note_down ''cleanup'' entry ?s)" by simp
      then have "writable (dict_value (ds_evidence (note_down ''cleanup'' entry ?s)))" by (simp add: evidence_fine_def)
      then show ?thesis
        using c e(1) that(1) by (auto simp: write_evidence_def Let_def calm_after_stop_def)
    qed
    ultimately show ?thesis using st Inr by auto
  qed
qed

lemma demo_wait_ready_ends:
  assumes "paced step clock" and "limited (deadline_of (clock 0) timeout)"
  shows "\<exists>m why. demo_wait_ready clock replies timeout =
    Some (case verdict clock replies (deadline_of (clock 0) timeout) (clock 1) m of
            None \<Rightarrow> Inl (RuntimeError (''server did not become ready: '' @ why)) | Some r \<Rightarrow> r)"
proof -
  obtain m where "2 \<le> m" "decides clock replies (deadline_of (clock 0) timeout) m"
    "\<forall>i. 2 \<le> i \<and> i < m \<longrightarrow> \<not> decides clock replies (deadline_of (clock 0) timeout) i"
    using first_decision [OF assms, of 2 replies] by blast
  from demo_poll_decided [OF this(1,3,2)] show ?thesis unfolding demo_wait_ready_def by blast
qed

lemma print_out_keeps:
  "print_out v s = (res, t) \<Longrightarrow> ds_evidence t = ds_evidence s \<and> ds_document t = ds_document s \<and> ds_stopped t = ds_stopped s"
  by (auto simp: print_out_def split: sum.splits prod.splits)

lemma demo_announce_keeps:
  assumes "demo_announce args s = (res, t)"
  shows "ds_evidence t = ds_evidence s \<and> ds_document t = ds_document s \<and> ds_stopped t = ds_stopped s"
proof -
  have first: "ds_evidence t = ds_evidence s \<and> ds_document t = ds_document s \<and> ds_stopped t = ds_stopped s"
    if "print_evidence s = (res, t)" for res t
    using that by (auto simp: print_evidence_def Let_def split: sum.splits dest: print_out_keeps)
  show ?thesis
    using assms unfolding demo_announce_def
    by (auto simp: proceed_def split: prod.splits sum.splits if_splits dest!: first print_out_keeps)
qed


section \<open>The server a run starts\<close>

lemma demo_settings_given:
  "demo_server_settings (demo_settings args model_text token n) (da_profile args) model_text (da_port args) token 1"
proof -
  have "show_int 1 = ''1''" by code_simp
  then show ?thesis unfolding demo_server_settings_def demo_settings_def Let_def by simp
qed

text \<open>Configurations that leave the device, the GPUs and the workers to the same profile resolve alike.\<close>

definition left_open :: "runtime_config \<Rightarrow> bool" where
  "left_open c \<longleftrightarrow> config_ok c \<and> device c = Dev_Auto \<and> gpu_devices c = None \<and> workers c = None"

lemma materialize_alike:
  assumes "left_open c" and "left_open d" and "profile c = Some p" and "profile d = Some p" and "probe_ok probe"
    and "materialize_execution_profile probe c = Inr c'"
  shows "\<exists>d'. materialize_execution_profile probe d = Inr d' \<and> device d' = device c' \<and>
    gpu_devices d' = gpu_devices c' \<and> workers d' = workers c'"
proof -
  have probe: "probe = [] \<or> gpus_ok (Some probe)" using assms(5) by (auto simp: gpus_ok_Some)
  have one: "gpus_ok (Some [g])" if "probe = g # gs" for g gs using assms(5) that probe_ok_hd by blast
  show ?thesis
  proof (cases p)
    case Prof_Auto
    with assms probe show ?thesis
      by (cases "probe = []")
        (auto simp: left_open_def materialize_execution_profile_def materialize_auto_def Let_def replace_config_ok)
  next
    case Prof_Cpu
    with assms show ?thesis
      by (auto simp: left_open_def materialize_execution_profile_def materialize_cpu_def compatible_device_def replace_config_ok)
  next
    case Prof_Cuda_Single
    with assms one show ?thesis
      by (cases probe) (auto simp: left_open_def materialize_execution_profile_def materialize_cuda_single_def
          compatible_device_def replace_config_ok profile_error_def)
  next
    case Prof_Cuda_Replica
    with assms probe show ?thesis
      by (cases "length probe < 2"; cases "probe = []") (auto simp: left_open_def materialize_execution_profile_def
          materialize_cuda_replica_def compatible_device_def Let_def replace_config_ok profile_error_def)
  qed
qed

lemma default_profile_open: "left_open (default_config\<lparr>profile := Some p\<rparr>) \<and>
    post_init (default_config\<lparr>profile := Some p\<rparr>) = Inr (default_config\<lparr>profile := Some p\<rparr>)"
proof -
  have "config_ok (default_config\<lparr>profile := Some p\<rparr>)"
    using default_config_ok by (simp add: config_ok_def positive_integer_fields_def positive_float_fields_def)
  then show ?thesis by (simp add: left_open_def post_init_ok default_config_def)
qed

definition demo_ids :: "string list" where
  "demo_ids = [''kaggle-production-demo'', ''kaggle-demo-en'', ''kaggle-demo-vi'']"

lemma demo_ids_accepted: "rid \<in> set demo_ids \<Longrightarrow> safe_request_id fresh_id (Some rid) = Inr rid"
proof -
  have "list_all (\<lambda>rid. safe_request_id [] (Some rid) = Inr rid) demo_ids" by code_simp
  moreover have "safe_request_id fresh_id (Some rid) = safe_request_id [] (Some rid)" for rid
    by (simp add: safe_request_id_def)
  ultimately show "rid \<in> set demo_ids \<Longrightarrow> safe_request_id fresh_id (Some rid) = Inr rid"
    by (simp add: list_all_iff)
qed

lemma planned_request_shape:
  assumes "(tag, rq, path) \<in> set (planned_requests args token)"
  obtains rid body where "rid \<in> set demo_ids"
    and "rq = tts_call ''/v1/tts'' (da_port args) token (PStr rid) (PStr body)"
proof (cases "da_parallel_text args")
  case None
  with assms have "rq = tts_call ''/v1/tts'' (da_port args) token (PStr (demo_ids ! 0)) (PStr (da_text args))"
    by (simp add: planned_requests_def demo_ids_def)
  with that [of "demo_ids ! 0"] show thesis by (simp add: demo_ids_def)
next
  case (Some second_text)
  with assms have "rq = tts_call ''/v1/tts'' (da_port args) token (PStr (demo_ids ! 1)) (PStr (da_text args)) \<or>
    rq = tts_call ''/v1/tts'' (da_port args) token (PStr (demo_ids ! 2)) (PStr second_text)"
    by (auto simp: planned_requests_def demo_ids_def)
  with that [of "demo_ids ! 1"] that [of "demo_ids ! 2"] show thesis by (auto simp: demo_ids_def)
qed


section \<open>Examples\<close>

text \<open>A machine without GPUs and a service that answers every request with a file of one frame.\<close>

definition idle_machine :: machine where
  "idle_machine =
     \<lparr>mc_smi = \<lparr>sm_which = None, sm_opt = Inr False, sm_run = (\<lambda>_. Inr (0, []))\<rparr>, mc_events = Inr None,
      mc_status = (\<lambda>_. Inl (OtherError ''FileNotFoundError'' [])), mc_ps = Inr [],
      mc_connect = Some (OtherError ''ConnectionRefusedError'' [])\<rparr>"

definition one_frame :: "byte list" where
  "one_frame = riff @ wave_header (36 + 2) 1 48000 2 @ [0, 0]"

definition spoken_answer :: http_response where
  "spoken_answer =
     \<lparr>rs_status = 200, rs_headers = [], rs_content = one_frame, rs_text = [], rs_json = Inr (PDict [])\<rparr>"

definition demo_fs :: file_system where
  "demo_fs = sample_fs\<lparr>fs_stat := (\<lambda>p. if p = default_model_root then Inr \<lparr>st_kind = Directory, st_size = 0\<rparr>
     else fs_stat sample_fs p)\<rparr>"

definition obedient_child :: server_process where
  "obedient_child =
     \<lparr>ch_pid = 7, ch_poll = None, ch_term = None, ch_wait = (\<lambda>_. Some 0), ch_kill = None, ch_reap = (\<lambda>_. None)\<rparr>"

definition quiet_world :: kaggle_world where
  "quiet_world =
     \<lparr>dw_files = demo_fs, dw_json = sample_loads, dw_scan = quiet_scan, dw_mkdir = None,
      dw_machine = (\<lambda>_. idle_machine), dw_environ = [], dw_token = ''s3cret'', dw_git = Inr ''abc'', dw_log = None,
      dw_child = (\<lambda>_. Inr obedient_child), dw_clock = of_nat, dw_ready = (\<lambda>_. Answer spoken_answer),
      dw_exchange = (\<lambda>_ _. \<lparr>ex_started = 0, ex_answer = Answer spoken_answer, ex_ended = 1\<rparr>), dw_sha = (\<lambda>_. ''00''),
      dw_write = None, kw_probe = [], kw_save = (\<lambda>_. None), kw_snapshots = []\<rparr>"

definition demo_request :: demo_args where
  "demo_request =
     \<lparr>da_profile = Prof_Cpu, da_workspace = path_of ''/work'', da_port = 90, da_text = ''hi'', da_parallel_text = None,
      da_startup_timeout = Fin 60\<rparr>"

definition before_demo :: demo_state where
  "before_demo =
     \<lparr>ds_evidence = [], ds_audio = [], ds_document = None, ds_stopped = None,
      ds_console = \<lparr>co_out = [], co_err = [], co_answers = []\<rparr>\<rparr>"

lemma one_frame_facts: "wave_facts one_frame = Inr (1, 48000, 1)"
proof -
  have "header_fits 1 48000 2" by (simp add: header_fits_def)
  from read_wave_header [OF this, of "[0, 0]"] show ?thesis by (simp add: wave_facts_def one_frame_def)
qed

definition mounted_adapter :: mount_adapter where
  "mounted_adapter = \<lparr>ma_root = default_model_root, ma_max_depth = 8, ma_max_entries = 10000,
     ma_expected_revision = Some default_model_revision, ma_expected_config = Some default_config_sha256\<rparr>"

definition found_model :: candidate where
  "found_model =
     mk_candidate demo_fs (Path_Object default_model_root) (PStr model_id_const) PNone (PStr default_config_sha256)
       [(''adapter'', ''kaggle-model-mounts'')]"

lemma quiet_discovery: "default_discovery demo_fs sample_loads quiet_scan = Inr [found_model]"
proof -
  have pins: "absent_or revision_match (PStr default_model_revision) \<and> absent_or sha256_match (PStr default_config_sha256)"
    by code_simp
  have ad: "mk_adapter demo_fs (Path_Object default_model_root) default_max_depth default_max_entries
      (PStr default_model_revision) (PStr default_config_sha256) = Inr mounted_adapter"
    using pins by (simp add: mk_adapter_def default_max_depth_def default_max_entries_def demo_fs_def sample_fs_def
        mounted_adapter_def str_option_def)
  have names: "path_name (path_child default_model_root ''config.json'') = ''config.json''"
    "path_name (path_child default_model_root ''_kaggle_mirror_provenance.json'') = ''_kaggle_mirror_provenance.json''"
    "path_child default_model_root ''config.json'' \<noteq> default_model_root"
    "path_child default_model_root ''_kaggle_mirror_provenance.json'' \<noteq> default_model_root"
    "path_child default_model_root ''config.json'' \<noteq> path_of ''/m''"
    "path_child default_model_root ''_kaggle_mirror_provenance.json'' \<noteq> path_of ''/m''"
    by code_simp+
  have cand: "mount_candidate mounted_adapter demo_fs sample_loads default_model_root = Inr found_model"
    "has_config demo_fs default_model_root = Inr True"
    using names by (simp_all add: mount_candidate_def manifest_metadata_def read_manifest_def has_config_def demo_fs_def sample_fs_def
        sample_model_files_def found_model_def mounted_adapter_def opt_text_def Let_def)
  have "visit mounted_adapter demo_fs sample_loads quiet_scan default_model_root 0 empty_walk =
     (Inr (), \<lparr>ms_candidates = [found_model], ms_errors = [], ms_budget = 1\<rparr>)"
    by (simp add: visit.simps enter_def cand consume_def read_children_def quiet_scan_def empty_walk_def Let_def)
      (simp add: mounted_adapter_def)
  then show ?thesis
    by (simp add: default_discovery_def discover_kaggle_model_candidates_def ad discover_def)
      (simp add: mounted_adapter_def demo_fs_def)
qed

lemma idle_readings:
  "demo_gpu_rows (mc_smi idle_machine) = Inr []" "port_open (mc_connect idle_machine) = Inr False"
  "demo_memory_events (mc_events idle_machine) = Inr []" "demo_rss (mc_status idle_machine n) = Inr None"
  "demo_child_pids (mc_ps idle_machine) n = Inr []"
  by (simp_all add: idle_machine_def demo_gpu_rows_def smi_binary_def port_open_def demo_memory_events_def demo_rss_def
      demo_child_pids_def splitlines_def os_error_names_def)

lemma quiet_profile:
  "\<exists>c. materialize_execution_profile [] (default_config\<lparr>profile := Some Prof_Cpu\<rparr>) = Inr c \<and> workers c = Some 1"
proof -
  have "config_ok (default_config\<lparr>profile := Some Prof_Cpu\<rparr>)" using default_profile_open by (simp add: left_open_def)
  then show ?thesis
    by (simp add: materialize_execution_profile_def materialize_cpu_def compatible_device_def replace_config_ok default_config_def)
qed

lemma quiet_prepare:
  "\<exists>dp. demo_prepare quiet_world demo_request = Inr dp \<and> dp_child dp = obedient_child \<and> dp_model dp = found_model \<and>
     workers (dp_resolved dp) = Some 1 \<and> dp_baseline dp = []"
proof -
  obtain c where "materialize_execution_profile [] (default_config\<lparr>profile := Some Prof_Cpu\<rparr>) = Inr c" "workers c = Some 1"
    using quiet_profile by blast
  moreover have "post_init (default_config\<lparr>profile := Some Prof_Cpu\<rparr>) = Inr (default_config\<lparr>profile := Some Prof_Cpu\<rparr>)"
    using default_profile_open by blast
  ultimately show ?thesis
    by (simp add: demo_prepare_def quiet_world_def demo_request_def none_or_def quiet_discovery only_candidate_def
        idle_readings worker_total_def Let_def)
qed

lemma quiet_clock: "paced 1 (dw_clock quiet_world)" "limited (deadline_of (dw_clock quiet_world 0) (da_startup_timeout demo_request))"
proof -
  have "to_float 60 \<noteq> PosInf" using to_float_int [of 60] by simp
  then show "limited (deadline_of (dw_clock quiet_world 0) (da_startup_timeout demo_request))"
    by (simp add: limited_def deadline_of_def quiet_world_def demo_request_def)
qed (simp add: paced_def quiet_world_def)

lemma quiet_documents: "\<forall>n r document. dw_ready quiet_world n = Answer r \<and> rs_json r = Inr document \<longrightarrow> writable document"
  by (auto simp: quiet_world_def spoken_answer_def json_pairs_iff json_pairs_def)

lemma quiet_wait: "\<exists>ready. demo_wait_ready (dw_clock quiet_world) (dw_ready quiet_world) (da_startup_timeout demo_request) = Some (Inr ready) \<and>
    writable (fst ready)"
proof -
  have "earlier 2 (deadline_of 0 (Fin 60))" using to_float_int [of 60] by (simp add: deadline_of_def)
  then show ?thesis
    unfolding demo_wait_ready_def
    by (subst demo_poll.simps)
      (simp add: quiet_world_def demo_request_def spoken_answer_def json_pairs_iff json_pairs_def)
qed

lemma quiet_request:
  "\<exists>result. request_tts quiet_world port_number spoken_text rid path tag s =
     (Inr result, s\<lparr>ds_audio := ds_audio s @ [(path, one_frame)]\<rparr>) \<and> check_results [result] = Inr () \<and> writable_dict result"
proof -
  have "seconds_of 1 48000 = Inr (fl64 (1 / 48000))" by (simp add: seconds_of_def)
  then show ?thesis
    by (simp add: request_tts_def quiet_world_def spoken_answer_def wav_entries_def one_frame_facts Let_def status_of_def
        request_id_of_def)
qed

lemma quiet_calm: "calm_after_stop quiet_world"
  by (simp add: calm_after_stop_def Let_def quiet_world_def idle_readings)

lemma print_out_works:
  "co_answers (ds_console s) = [] \<Longrightarrow> \<exists>t. print_out v s = (Inr (), t) \<and> co_answers (ds_console t) = []"
  by (simp add: print_out_def console_answer_def)

lemma demo_announce_works:
  assumes "evidence_fine s" and "co_answers (ds_console s) = []" and "da_parallel_text args = None"
  shows "\<exists>t. demo_announce args s = (Inr 0, t)"
proof -
  have "writable (dict_value (ds_evidence s))" using assms(1) by (simp add: evidence_fine_def)
  then have "print_evidence s = print_out (dict_value (ds_evidence s)) s" by (simp add: print_evidence_def)
  with print_out_works [OF assms(2)] obtain s1 where s1: "print_evidence s = (Inr (), s1)" "co_answers (ds_console s1) = []"
    by metis
  obtain s2 where s2: "print_out (PStr (''KAGGLE_PROFILE_'' @ profile_line (da_profile args) @ ''=PASS'')) s1 = (Inr (), s2)"
    "co_answers (ds_console s2) = []" using print_out_works [OF s1(2)] by blast
  obtain s3 where s3: "print_out (PStr (''KAGGLE_EVIDENCE='' @ path_str (demo_path args))) s2 = (Inr (), s3)"
    using print_out_works [OF s2(2)] by blast
  show ?thesis unfolding demo_announce_def s1(1) s2(1) proceed_Inr assms(3) by (simp add: s3 del: append.simps)
qed

lemma quiet_speak:
  "\<exists>result. demo_speak quiet_world demo_request c s =
     (Inr ([result], 1), s\<lparr>ds_audio := ds_audio s @ [(audio_path demo_request ''primary'', one_frame)]\<rparr>) \<and>
     check_results [result] = Inr () \<and> writable_dict result"
proof -
  obtain result where r: "request_tts quiet_world (da_port demo_request) (da_text demo_request) ''kaggle-production-demo''
      (audio_path demo_request ''primary'') (Demo_Run 0) s =
     (Inr result, s\<lparr>ds_audio := ds_audio s @ [(audio_path demo_request ''primary'', one_frame)]\<rparr>)"
    "check_results [result] = Inr ()" "writable_dict result" using quiet_request by blast
  have "da_parallel_text demo_request = None" by (simp add: demo_request_def)
  then have "demo_speak quiet_world demo_request c s =
     (Inr ([result], 1), s\<lparr>ds_audio := ds_audio s @ [(audio_path demo_request ''primary'', one_frame)]\<rparr>)"
    unfolding demo_speak_def speak_one_def r(1) proceed_Inr checked_status [OF r(2)] by simp
  with r show ?thesis by blast
qed

lemma quiet_body:
  assumes "dp_child dp = obedient_child"
  shows "\<exists>t. demo_body quiet_world demo_request dp (Inr ready) s = (Inr (), t) \<and> ds_console t = ds_console s"
proof -
  obtain startup where st: "demo_startup quiet_world dp ready = Inr startup"
    by (simp add: demo_startup_def Let_def quiet_world_def idle_readings)
  obtain entry where e: "demo_resources quiet_world dp = Inr entry"
    by (simp add: demo_resources_def Let_def quiet_world_def idle_readings)
  obtain result where r: "demo_speak quiet_world demo_request (dp_resolved dp) (note_down ''startup'' startup s) =
     (Inr ([result], 1), (note_down ''startup'' startup s)\<lparr>ds_audio :=
        ds_audio (note_down ''startup'' startup s) @ [(audio_path demo_request ''primary'', one_frame)]\<rparr>)"
     "check_results [result] = Inr ()" using quiet_speak by blast
  have "da_parallel_text demo_request = None" by (simp add: demo_request_def)
  with st e r show ?thesis
    unfolding demo_body_def and_then_Inr st proceed_Inr r(1) prod.case Let_def r(2) e by simp
qed

lemma quiet_run: "\<exists>t. demo_main quiet_world demo_request before_demo = Some (Inr 0, t)"
proof -
  obtain dp where dp: "demo_prepare quiet_world demo_request = Inr dp" "dp_child dp = obedient_child" "dp_baseline dp = []"
    using quiet_prepare by blast
  obtain ready where ready: "demo_wait_ready (dw_clock quiet_world) (dw_ready quiet_world) (da_startup_timeout demo_request) =
      Some (Inr ready)" "writable (fst ready)" using quiet_wait by blast
  let ?s = "before_demo\<lparr>ds_evidence := dp_evidence dp\<rparr>"
  obtain s1 where b: "demo_body quiet_world demo_request dp (Inr ready) ?s = (Inr (), s1)" "ds_console s1 = ds_console before_demo"
    using quiet_body [OF dp(2), of ready ?s] by auto
  from demo_prepare_Inr [OF dp(1)] have "evidence_fine ?s"
    by (auto simp: evidence_fine_def demo_evidence_def dest: writable_model)
  with demo_body_fine [OF b(1)] ready(2) have fine: "evidence_fine s1" by (cases ready) (simp add: still_fine_def)
  obtain res t1 where c: "demo_cleanup quiet_world dp s1 = (res, t1)" by (cases "demo_cleanup quiet_world dp s1")
  have stop: "demo_stop obedient_child = (Inr (), \<lparr>st_signals = [''SIGTERM''], st_code = Some 0\<rparr>)"
    by (simp add: demo_stop_def stop_within_def obedient_child_def)
  from demo_cleanup_stops [OF c] stop dp(2) quiet_calm fine have "res = Inr ()"
    and doc: "ds_document t1 = Some (dict_value (ds_evidence t1))" by auto
  with c have c': "demo_cleanup quiet_world dp s1 = (Inr (), t1)" by simp
  from demo_cleanup_done [OF c'] dp(3) idle_readings have
    flags: "cleanup_flag ''gpu_processes_match_baseline'' t1" "\<not> cleanup_flag ''port_open'' t1" "ds_console t1 = ds_console s1"
    by (auto simp: quiet_world_def)
  have "evidence_fine t1"
    using c' fine unfolding demo_cleanup_def
    by (auto simp: Let_def raises evidence_fine_def writable_set split: prod.splits dest!: write_evidence_Inr)
  moreover have "co_answers (ds_console t1) = []" using flags(3) b(2) by (simp add: before_demo_def)
  moreover have "da_parallel_text demo_request = None" by (simp add: demo_request_def)
  ultimately obtain t where t: "demo_announce demo_request t1 = (Inr 0, t)" using demo_announce_works by blast
  have "demo_serve quiet_world demo_request dp (Inr ready) ?s = (Inr 0, t)"
    unfolding demo_serve_def finally_do_def b(1) prod.case c' sum.case proceed_Inr using flags(1,2) t by simp
  with dp(1) ready(1) show ?thesis by (simp add: demo_main_def)
qed

theorem demo_passes_only_clean_witness:
  "\<exists>t saved. demo_main quiet_world demo_request before_demo = Some (Inr 0, t) \<and> ds_audio t = [saved] \<and>
     ds_document t = Some (dict_value (ds_evidence t))"
proof -
  obtain t where run: "demo_main quiet_world demo_request before_demo = Some (Inr 0, t)" using quiet_run by blast
  from demo_passes_only_clean [OF run] obtain kept where
    k: "list_all2 (answered_well quiet_world) (planned_requests demo_request (dw_token quiet_world)) kept"
    "ds_audio t = ds_audio before_demo @ map snd kept" "ds_document t = Some (dict_value (ds_evidence t))" by blast
  have "length (planned_requests demo_request (dw_token quiet_world)) = 1"
    by (simp add: planned_requests_def demo_request_def)
  with list_all2_lengthD [OF k(1)] have "length kept = 1" by simp
  then obtain x where "kept = [x]" by (cases kept) auto
  moreover have "ds_audio before_demo = []" by (simp add: before_demo_def)
  ultimately have "ds_audio t = [snd x]" using k(2) by simp
  with run k(3) show ?thesis by blast
qed


definition quiet_environment :: "(string, string) dict" where
  "quiet_environment = server_environment (demo_settings demo_request ''/kaggle/input/models'' ''s3cret'' 1) [(''VOXCPM_DEVICE'', ''cuda'')]"

lemma quiet_environment_read: "isOK (from_mapping (environ_mapping quiet_environment))"
  unfolding quiet_environment_def by code_simp


end
