(* ===== verification/Benchmark.thy ===== *)
theory Benchmark
  imports Kaggle_Demo Float_Rounding "HOL-Library.Multiset"
begin

text \<open>
  The benchmark (\<open>scripts/benchmark.py\<close>): it starts the service on the mounted model, warms it up, measures the
  requests of a protocol one by one, as a stream and two at a time, and leaves the figures. Times are readings
  of a clock, rounded as \<open>float\<close>s are; no quotient of them is as large as \<open>2^1024\<close>.
\<close>

section \<open>Arguments and surroundings\<close>

record bench_args =
  ba_profile :: execution_profile
  ba_workspace :: file_path
  ba_port :: int
  ba_startup_timeout :: pyfloat

text \<open>Beside the common answers: the protocol file parsed, \<open>sys.version\<close>, the file of the memory limit, the streamed
  exchange, the clock around the concurrent requests, and whether \<open>sum\<close> compensates the rounding of \<open>float\<close>s,
  which it does from Python 3.12 on.\<close>

record bench_world = demo_world +
  bw_protocol :: "exn + pyval"
  bw_python :: string
  bw_limit :: "exn + string option"
  bw_stream :: "http_request \<Rightarrow> stream_exchange"
  bw_begin :: rat
  bw_end :: rat
  bw_compensated :: bool

section \<open>Arithmetic\<close>

definition over :: "rat \<Rightarrow> rat \<Rightarrow> exn + rat" where
  "over a b = (if b = 0 then Inl zero_division else Inr (fl64 (a / b)))"

text \<open>\<open>a / n\<close> for an \<open>int\<close>, which is made a \<open>float\<close> first.\<close>

definition over_int :: "rat \<Rightarrow> int \<Rightarrow> exn + rat" where
  "over_int a n = and_then (py_float_of (PInt n)) (\<lambda>f. over a (float_val f))"

definition compensated_step :: "rat \<times> rat \<Rightarrow> rat \<Rightarrow> rat \<times> rat" where
  "compensated_step fc x =
     (let (f, c) = fc; t = fl64 (f + x) in
      (t, fl64 (c + (if \<bar>x\<bar> \<le> \<bar>f\<bar> then fl64 (fl64 (f - t) + x) else fl64 (fl64 (x - t) + f)))))"

definition sum_floats :: "bool \<Rightarrow> rat list \<Rightarrow> rat" where
  "sum_floats compensated xs =
     (case xs of
        [] \<Rightarrow> 0
      | x # rest \<Rightarrow>
          if compensated then (let (f, c) = foldl compensated_step (x, 0) rest in fl64 (f + c))
          else foldl (\<lambda>f y. fl64 (f + y)) x rest)"

text \<open>\<open>statistics.median\<close> of \<open>float\<close>s.\<close>

definition median :: "rat list \<Rightarrow> rat" where
  "median xs =
     (let s = sort xs; n = length xs in
      if odd n then s ! (n div 2) else fl64 (fl64 (s ! (n div 2 - 1) + s ! (n div 2)) / 2))"

section \<open>One request\<close>

record wav_metrics =
  wm_bytes :: nat
  wm_sha :: string
  wm_rate :: nat
  wm_channels :: nat
  wm_frames :: nat
  wm_seconds :: rat

text \<open>A result has the figures and the real-time factor, or the text of the error.\<close>

record shot =
  sh_request_id :: pyval
  sh_status :: int
  sh_elapsed :: rat
  sh_outcome :: "string + wav_metrics \<times> rat"

definition measure_wav :: "(byte list \<Rightarrow> string) \<Rightarrow> byte list \<Rightarrow> exn + wav_metrics" where
  "measure_wav sha payload =
     and_then (wave_facts payload) (\<lambda>(frame_total, rate, channels).
     and_then (seconds_of frame_total rate) (\<lambda>seconds.
       Inr \<lparr>wm_bytes = length payload, wm_sha = sha payload, wm_rate = rate, wm_channels = channels,
            wm_frames = frame_total, wm_seconds = seconds\<rparr>))"

definition bench_one_shot :: "bench_world \<Rightarrow> int \<Rightarrow> pyval \<Rightarrow> pyval \<Rightarrow> request_tag \<Rightarrow> exn + shot" where
  "bench_one_shot w port_number rid spoken_text tag =
     (let x = dw_exchange w tag (tts_call ''/v1/tts'' port_number (dw_token w) rid spoken_text);
          elapsed = fl64 (ex_ended x - ex_started x) in
     and_then (http_result (ex_answer x)) (\<lambda>r.
     and_then
       (if rs_status r = 200
        then and_then (measure_wav (dw_sha w) (rs_content r)) (\<lambda>m.
             and_then (over elapsed (wm_seconds m)) (\<lambda>rtf. Inr (Inr (m, rtf))))
        else Inr (Inl (take 500 (rs_text r)))) (\<lambda>outcome_of_request.
       Inr \<lparr>sh_request_id = rid, sh_status = rs_status r, sh_elapsed = elapsed, sh_outcome = outcome_of_request\<rparr>)))"

definition shot_value :: "shot \<Rightarrow> pyval" where
  "shot_value sh =
     dict_value
       ([(''request_id'', sh_request_id sh), (''status_code'', PInt (sh_status sh)),
         (''elapsed_seconds'', float_of (sh_elapsed sh))] @
        (case sh_outcome sh of
           Inl message \<Rightarrow> [(''error'', PStr message)]
         | Inr (m, rtf) \<Rightarrow>
            [(''bytes'', PInt (int (wm_bytes m))), (''sha256'', PStr (wm_sha m)), (''sample_rate'', PInt (int (wm_rate m))),
             (''channels'', PInt (int (wm_channels m))), (''frames'', PInt (int (wm_frames m))),
             (''audio_seconds'', float_of (wm_seconds m)), (''rtf'', float_of rtf)]))"

definition shots_value :: "shot list \<Rightarrow> pyval" where
  "shots_value shots = PList (map shot_value shots)"

text \<open>\<open>item["rtf"]\<close> and \<open>item["audio_seconds"]\<close>.\<close>

definition shot_rtf :: "shot \<Rightarrow> exn + rat" where
  "shot_rtf sh = (case sh_outcome sh of Inl _ \<Rightarrow> Inl (key_error ''rtf'') | Inr (_, rtf) \<Rightarrow> Inr rtf)"

definition shot_seconds :: "shot \<Rightarrow> exn + rat" where
  "shot_seconds sh = (case sh_outcome sh of Inl _ \<Rightarrow> Inl (key_error ''audio_seconds'') | Inr (m, _) \<Rightarrow> Inr (wm_seconds m))"

section \<open>A stream\<close>

record stream_run =
  sr_request_id :: pyval
  sr_status :: int
  sr_first :: "rat option"
  sr_completion :: rat
  sr_chunks :: nat
  sr_bytes :: nat
  sr_rate :: int
  sr_channels :: int
  sr_seconds :: "rat option"
  sr_rtf :: "rat option"

fun count_body :: "byte list list \<Rightarrow> nat \<times> nat \<Rightarrow> nat \<times> nat" where
  "count_body [] acc = acc"
| "count_body (piece # rest) (chunks, bytes_read) =
     count_body rest (if piece = [] then (chunks, bytes_read) else (Suc chunks, bytes_read + length piece))"

definition header_or :: "http_response \<Rightarrow> string \<Rightarrow> string \<Rightarrow> string" where
  "header_or r name dflt = (case dict_get (rs_headers r) name of None \<Rightarrow> dflt | Some v \<Rightarrow> v)"

definition streamed_seconds :: "nat \<Rightarrow> int \<Rightarrow> int \<Rightarrow> exn + rat" where
  "streamed_seconds bytes_read rate channels =
     and_then (over_int (fl64 (of_nat bytes_read / 2)) rate) (\<lambda>x. over_int x channels)"

definition bench_stream :: "bench_world \<Rightarrow> int \<Rightarrow> pyval \<Rightarrow> pyval \<Rightarrow> exn + stream_run" where
  "bench_stream w port_number rid spoken_text =
     (let x = bw_stream w (tts_call ''/v1/tts/stream'' port_number (dw_token w) rid spoken_text);
          completion = fl64 (sx_ended x - sx_started x); (chunks, bytes_read) = count_body (sx_pieces x) (0, 0) in
     and_then (http_result (sx_opened x)) (\<lambda>r.
     and_then (none_or (sx_failure x)) (\<lambda>_.
     and_then (py_int (header_or r ''x-audio-sample-rate'' ''48000'')) (\<lambda>rate.
     and_then (py_int (header_or r ''x-audio-channels'' ''1'')) (\<lambda>channels.
     and_then
       (if rs_status r = 200 then and_then (streamed_seconds bytes_read rate channels) (\<lambda>q. Inr (Some q)) else Inr None)
       (\<lambda>seconds.
     and_then
       (case seconds of
          None \<Rightarrow> Inr None
        | Some q \<Rightarrow> if q = 0 then Inr None else and_then (over completion q) (\<lambda>f. Inr (Some f))) (\<lambda>rtf.
       Inr \<lparr>sr_request_id = rid, sr_status = rs_status r,
            sr_first = (if chunks = 0 then None else Some (fl64 (sx_first x - sx_started x))),
            sr_completion = completion, sr_chunks = chunks, sr_bytes = bytes_read, sr_rate = rate,
            sr_channels = channels, sr_seconds = seconds, sr_rtf = rtf\<rparr>)))))))"

definition opt_rat :: "rat option \<Rightarrow> pyval" where
  "opt_rat q = (case q of None \<Rightarrow> PNone | Some x \<Rightarrow> float_of x)"

definition stream_value :: "stream_run \<Rightarrow> pyval" where
  "stream_value sr =
     dict_value
       [(''request_id'', sr_request_id sr), (''status_code'', PInt (sr_status sr)),
        (''first_body_seconds'', opt_rat (sr_first sr)), (''completion_seconds'', float_of (sr_completion sr)),
        (''chunks'', PInt (int (sr_chunks sr))), (''pcm_bytes'', PInt (int (sr_bytes sr))),
        (''sample_rate'', PInt (sr_rate sr)), (''channels'', PInt (sr_channels sr)),
        (''audio_seconds'', opt_rat (sr_seconds sr)), (''rtf'', opt_rat (sr_rtf sr))]"

section \<open>Statistics\<close>

text \<open>Smallest, median, largest; \<open>min\<close> raises for an empty list.\<close>

definition spread :: "rat list \<Rightarrow> exn + rat \<times> rat \<times> rat" where
  "spread xs =
     (case xs of
        [] \<Rightarrow> Inl (ValueError ''min() arg is an empty sequence'')
      | x # rest \<Rightarrow> Inr (fold min rest x, median xs, fold max rest x))"

record summary =
  su_repetitions :: nat
  su_elapsed :: "rat \<times> rat \<times> rat"
  su_rtf :: "rat \<times> rat \<times> rat"
  su_audio :: "rat \<times> rat \<times> rat"

definition summarize :: "shot list \<Rightarrow> exn + summary" where
  "summarize shots =
     and_then (map_raise shot_rtf shots) (\<lambda>rtfs.
     and_then (map_raise shot_seconds shots) (\<lambda>audio.
     and_then (spread (map sh_elapsed shots)) (\<lambda>e.
     and_then (spread rtfs) (\<lambda>f.
     and_then (spread audio) (\<lambda>a.
       Inr \<lparr>su_repetitions = length shots, su_elapsed = e, su_rtf = f, su_audio = a\<rparr>)))))"

definition spread_value :: "rat \<times> rat \<times> rat \<Rightarrow> pyval" where
  "spread_value s =
     dict_value [(''min'', float_of (fst s)), (''median'', float_of (fst (snd s))), (''max'', float_of (snd (snd s)))]"

definition summary_value :: "summary \<Rightarrow> pyval" where
  "summary_value su =
     dict_value [(''repetitions'', PInt (int (su_repetitions su))), (''elapsed_seconds'', spread_value (su_elapsed su)),
       (''rtf'', spread_value (su_rtf su)), (''audio_seconds'', spread_value (su_audio su))]"

section \<open>Before the server runs\<close>

definition bench_settings :: "bench_args \<Rightarrow> string \<Rightarrow> string \<Rightarrow> (string, string) dict" where
  "bench_settings args model_text token =
     [(''VOXCPM_PROFILE'', profile_value (ba_profile args)), (''VOXCPM_MODEL_PATH'', model_text),
      (''VOXCPM_OFFLINE'', ''1''), (''HF_HUB_OFFLINE'', ''1''), (''TRANSFORMERS_OFFLINE'', ''1''),
      (''VOXCPM_HOST'', ''127.0.0.1''), (''VOXCPM_PORT'', show_int (ba_port args)), (''VOXCPM_REQUIRE_AUTH'', ''1''),
      (''VOXCPM_API_TOKEN'', token), (''VOXCPM_MAX_QUEUE_SIZE'', ''2''), (''VOXCPM_STREAM_IPC_MAX_CHUNKS'', ''4''),
      (''HF_ENDPOINT'', ''http://127.0.0.1:9''), (''HTTP_PROXY'', ''http://127.0.0.1:9''),
      (''HTTPS_PROXY'', ''http://127.0.0.1:9''), (''ALL_PROXY'', ''http://127.0.0.1:9''),
      (''NO_PROXY'', ''127.0.0.1,localhost''), (''no_proxy'', ''127.0.0.1,localhost'')]"

definition first_word :: "string \<Rightarrow> exn + string" where
  "first_word s =
     (case split_words s of [] \<Rightarrow> Inl (OtherError ''IndexError'' ''list index out of range'') | v # _ \<Rightarrow> Inr v)"

definition bench_evidence ::
    "bench_args \<Rightarrow> pyval \<Rightarrow> string \<Rightarrow> candidate \<Rightarrow> string \<Rightarrow> int option \<Rightarrow> gpu_row list \<Rightarrow> (string, int) dict \<Rightarrow>
     (string, pyval) dict" where
  "bench_evidence args protocol_id sha model python limit baseline events =
     [(''schema_version'', PInt 1), (''protocol_id'', protocol_id), (''source_sha'', PStr (strip sha)),
      (''profile'', PStr (profile_value (ba_profile args))), (''model'', model_entry model),
      (''host'', dict_value [(''python'', PStr python), (''cgroup_memory_limit_bytes'', opt_int limit)]),
      (''baseline'', dict_value [(''gpu_processes'', rows_value baseline), (''memory_events'', events_dict events)]),
      (''cold_start'', PNone), (''warmup'', PList []), (''warm_runs'', PDict []), (''streaming'', PNone),
      (''concurrency'', PNone), (''resources'', PDict []), (''cleanup'', PNone)]"

record bench_prepared =
  bp_inputs :: pyval
  bp_policy :: pyval
  bp_model :: candidate
  bp_baseline :: "gpu_row list"
  bp_evidence :: "(string, pyval) dict"
  bp_child :: server_process

definition bench_prepare :: "bench_world \<Rightarrow> bench_args \<Rightarrow> exn + bench_prepared" where
  "bench_prepare w args =
     (let look = dw_machine w At_Baseline in
     and_then (bw_protocol w) (\<lambda>protocol.
     and_then (py_item protocol ''inputs'') (\<lambda>inputs.
     and_then (py_item protocol ''warmup_policy'') (\<lambda>policy.
     and_then (none_or (dw_mkdir w)) (\<lambda>_.
     and_then (default_discovery (dw_files w) (dw_json w) (dw_scan w)) (\<lambda>candidates.
     and_then (only_candidate candidates ''expected one Kaggle model candidate, got '') (\<lambda>model.
     and_then (bench_gpu_rows (mc_smi look)) (\<lambda>baseline.
     and_then (bench_memory_events (mc_events look)) (\<lambda>events.
     and_then (port_open (mc_connect look)) (\<lambda>taken.
       if taken then runtime_error (''port '' @ show_int (ba_port args) @ '' is already open'')
       else
     and_then (py_item protocol ''protocol_id'') (\<lambda>protocol_id.
     and_then (dw_git w) (\<lambda>sha.
     and_then (first_word (bw_python w)) (\<lambda>python.
     and_then (cgroup_limit (bw_limit w)) (\<lambda>limit.
     and_then (none_or (dw_log w)) (\<lambda>_.
     and_then (dw_child w (server_environment (bench_settings args (candidate_text model) (dw_token w)) (dw_environ w)))
       (\<lambda>child.
       Inr \<lparr>bp_inputs = inputs, bp_policy = policy, bp_model = model, bp_baseline = baseline,
            bp_evidence = bench_evidence args protocol_id sha model python limit baseline events,
            bp_child = child\<rparr>))))))))))))))))"

section \<open>While it runs\<close>

definition bench_cold_start :: "bench_world \<Rightarrow> bench_prepared \<Rightarrow> pyval \<times> rat \<Rightarrow> exn + pyval" where
  "bench_cold_start w bp ready =
     (let look = dw_machine w At_Startup; pid = ch_pid (bp_child bp) in
     and_then (bench_rss (mc_status look pid)) (\<lambda>rss.
     and_then (bench_child_pids (mc_ps look) pid) (\<lambda>pids.
     and_then (bench_gpu_rows (mc_smi look)) (\<lambda>rows.
       Inr (dict_value
         [(''startup_seconds'', float_of (snd ready)), (''readyz'', fst ready), (''server_pid'', PInt pid),
          (''server_rss_bytes'', opt_int rss), (''child_pids'', pids_value pids), (''gpu_processes'', rows_value rows)])))))"

definition input_text :: "pyval \<Rightarrow> string \<Rightarrow> exn + pyval" where
  "input_text inputs name = and_then (py_item inputs name) (\<lambda>v. py_item v ''text'')"

text \<open>\<open>for i in range(...)\<close>: the warm-up keeps each result in the evidence as it comes.\<close>

fun warm_up :: "bench_world \<Rightarrow> int \<Rightarrow> pyval \<Rightarrow> nat \<Rightarrow> shot list \<Rightarrow> demo_state \<Rightarrow> unit demo_step" where
  "warm_up w port_number inputs 0 acc s = (Inr (), s)"
| "warm_up w port_number inputs (Suc k) acc s =
     (let i = length acc in
     proceed
       (and_then (input_text inputs ''B2'') (\<lambda>t.
          bench_one_shot w port_number (PStr (''benchmark-warmup-'' @ show_nat i)) t (Warmup_Run i)), s) (\<lambda>result s1.
       if sh_status result \<noteq> 200 then (runtime_error ''warmup failed'', s1)
       else warm_up w port_number inputs k (acc @ [result]) (note_down ''warmup'' (shots_value (acc @ [result])) s1)))"

definition run_id :: "string \<Rightarrow> nat \<Rightarrow> string" where
  "run_id name i = ''benchmark-'' @ lower name @ ''-'' @ show_nat i"

fun repeat_runs :: "bench_world \<Rightarrow> int \<Rightarrow> pyval \<Rightarrow> string \<Rightarrow> nat \<Rightarrow> shot list \<Rightarrow> exn + shot list" where
  "repeat_runs w port_number inputs name 0 acc = Inr acc"
| "repeat_runs w port_number inputs name (Suc k) acc =
     and_then (input_text inputs name) (\<lambda>t.
     and_then (bench_one_shot w port_number (PStr (run_id name (length acc))) t (Measured_Run name (length acc))) (\<lambda>result.
       if sh_status result \<noteq> 200 then runtime_error (name @ '' failed'')
       else repeat_runs w port_number inputs name k (acc @ [result])))"

definition run_entry :: "pyval \<Rightarrow> shot list \<Rightarrow> summary \<Rightarrow> pyval" where
  "run_entry given_input shots su =
     dict_value [(''input'', given_input), (''runs'', shots_value shots), (''summary'', summary_value su)]"

definition measure_input :: "bench_world \<Rightarrow> int \<Rightarrow> pyval \<Rightarrow> nat \<Rightarrow> string \<Rightarrow> exn + pyval" where
  "measure_input w port_number inputs n name =
     and_then (repeat_runs w port_number inputs name n []) (\<lambda>shots.
     and_then (py_item inputs name) (\<lambda>given_input.
     and_then (summarize shots) (\<lambda>su. Inr (run_entry given_input shots su))))"

fun measure_inputs ::
    "bench_world \<Rightarrow> int \<Rightarrow> pyval \<Rightarrow> nat \<Rightarrow> string list \<Rightarrow> (string, pyval) dict \<Rightarrow> demo_state \<Rightarrow> unit demo_step" where
  "measure_inputs w port_number inputs n [] acc s = (Inr (), s)"
| "measure_inputs w port_number inputs n (name # rest) acc s =
     proceed (measure_input w port_number inputs n name, s) (\<lambda>entry s1.
       measure_inputs w port_number inputs n rest (acc @ [(name, entry)])
         (note_down ''warm_runs'' (dict_value (acc @ [(name, entry)])) s1))"

definition measure_stream :: "bench_world \<Rightarrow> bench_args \<Rightarrow> pyval \<Rightarrow> demo_state \<Rightarrow> unit demo_step" where
  "measure_stream w args inputs s =
     (if ba_profile args \<noteq> Prof_Cuda_Single then (Inr (), s)
      else proceed
        (and_then (input_text inputs ''B7'') (\<lambda>t. bench_stream w (ba_port args) (PStr ''benchmark-stream'') t), s)
        (\<lambda>result s1.
          if sr_status result \<noteq> 200 then (runtime_error ''B7 streaming failed'', s1)
          else (Inr (), note_down ''streaming'' (stream_value result) s1)))"

text \<open>What a loop over a JSON value yields.\<close>

fun iterate :: "pyval \<Rightarrow> exn + pyval list" where
  "iterate (PList vs) = Inr vs"
| "iterate (PDict items) = Inr (map fst items)"
| "iterate (PStr s) = Inr (map (\<lambda>c. PStr [c]) s)"
| "iterate _ = Inl (TypeError ''the value is not iterable'')"

definition concurrent_call :: "nat \<times> pyval \<Rightarrow> exn + nat \<times> pyval \<times> pyval" where
  "concurrent_call x =
     and_then (py_item (snd x) ''request_id'') (\<lambda>rid. and_then (py_item (snd x) ''text'') (\<lambda>t. Inr (fst x, rid, t)))"

text \<open>Every request is submitted before the first result is read, in the order of submission.\<close>

definition run_concurrently :: "bench_world \<Rightarrow> int \<Rightarrow> pyval \<Rightarrow> exn + shot list" where
  "run_concurrently w port_number inputs =
     and_then (py_item inputs ''B8'') (\<lambda>b8.
     and_then (py_item b8 ''requests'') (\<lambda>requests.
     and_then (iterate requests) (\<lambda>items.
     and_then (map_raise concurrent_call (zip [0..<length items] items)) (\<lambda>calls.
       map_raise (\<lambda>(i, rid, t). bench_one_shot w port_number rid t (Concurrent_Run i)) calls))))"

definition concurrency_value :: "shot list \<Rightarrow> rat \<Rightarrow> rat \<Rightarrow> rat \<Rightarrow> pyval" where
  "concurrency_value shots makespan rate audio_rate =
     dict_value [(''requests'', shots_value shots), (''makespan_seconds'', float_of makespan),
       (''completed_requests'', PInt (int (length shots))), (''requests_per_second'', float_of rate),
       (''audio_seconds_per_second'', float_of audio_rate)]"

definition measure_concurrency :: "bench_world \<Rightarrow> int \<Rightarrow> pyval \<Rightarrow> exn + pyval" where
  "measure_concurrency w port_number inputs =
     and_then (run_concurrently w port_number inputs) (\<lambda>shots.
       let makespan = fl64 (bw_end w - bw_begin w) in
       if list_ex (\<lambda>sh. sh_status sh \<noteq> 200) shots then runtime_error ''B8 concurrency failed''
       else
     and_then (map_raise shot_seconds shots) (\<lambda>seconds.
     and_then (over (of_nat (length shots)) makespan) (\<lambda>rate.
     and_then (over (sum_floats (bw_compensated w) seconds) makespan) (\<lambda>audio_rate.
       Inr (concurrency_value shots makespan rate audio_rate)))))"

definition bench_resources :: "bench_world \<Rightarrow> bench_prepared \<Rightarrow> exn + pyval" where
  "bench_resources w bp =
     (let look = dw_machine w After_Requests; pid = ch_pid (bp_child bp) in
     and_then (bench_rss (mc_status look pid)) (\<lambda>rss.
     and_then (bench_child_pids (mc_ps look) pid) (\<lambda>pids.
     and_then (bench_gpu_rows (mc_smi look)) (\<lambda>rows.
     and_then (bench_memory_events (mc_events look)) (\<lambda>events.
       Inr (dict_value
         [(''server_rss_bytes'', opt_int rss), (''child_pids'', pids_value pids), (''gpu_processes'', rows_value rows),
          (''memory_events'', events_dict events)]))))))"

definition policy_count :: "pyval \<Rightarrow> string \<Rightarrow> exn + nat" where
  "policy_count policy name = and_then (py_item policy name) (\<lambda>v. and_then (py_int_value v) (\<lambda>n. Inr (nat n)))"

text \<open>The body of the \<open>try\<close>.\<close>

definition bench_body :: "bench_world \<Rightarrow> bench_args \<Rightarrow> bench_prepared \<Rightarrow> exn + pyval \<times> rat \<Rightarrow> demo_state \<Rightarrow> unit demo_step" where
  "bench_body w args bp ready s =
     (let inputs = bp_inputs bp; port_number = ba_port args in
     proceed (and_then ready (bench_cold_start w bp), s) (\<lambda>entry s1.
     proceed (policy_count (bp_policy bp) ''warmup_requests'', note_down ''cold_start'' entry s1) (\<lambda>warmups s2.
     proceed (warm_up w port_number inputs warmups [] s2) (\<lambda>_ s3.
     proceed (policy_count (bp_policy bp) ''measured_warm_repetitions'', s3) (\<lambda>n s4.
     proceed (measure_inputs w port_number inputs n [''B1'', ''B2'', ''B3''] [] s4) (\<lambda>_ s5.
     proceed (measure_stream w args inputs s5) (\<lambda>_ s6.
     proceed (measure_concurrency w port_number inputs, s6) (\<lambda>together s7.
     proceed (bench_resources w bp, note_down ''concurrency'' together s7) (\<lambda>resources s8.
       (Inr (), note_down ''resources'' resources s8))))))))))"

definition bench_cleanup :: "bench_world \<Rightarrow> bench_prepared \<Rightarrow> demo_state \<Rightarrow> unit demo_step" where
  "bench_cleanup w bp s =
     (let look = dw_machine w After_Stop; (ending, how) = bench_stop (bp_child bp); s1 = s\<lparr>ds_stopped := Some how\<rparr> in
     proceed (ending, s1) (\<lambda>_ s2.
     proceed
       (and_then (bench_gpu_rows (mc_smi look)) (\<lambda>rows.
        and_then (port_open (mc_connect look)) (\<lambda>still_open.
        and_then (bench_memory_events (mc_events look)) (\<lambda>events.
          Inr (dict_value
            [(''gpu_processes'', rows_value rows), (''gpu_processes_match_baseline'', PBool (rows = bp_baseline bp)),
             (''port_open'', PBool still_open), (''memory_events'', events_dict events)])))), s2) (\<lambda>entry s3.
       write_evidence w (note_down ''cleanup'' entry s3))))"

section \<open>main\<close>

definition bench_path :: "bench_args \<Rightarrow> file_path" where
  "bench_path args = path_child (ba_workspace args) (''benchmark-'' @ profile_value (ba_profile args) @ ''.json'')"

definition bench_announce :: "bench_args \<Rightarrow> demo_state \<Rightarrow> int demo_step" where
  "bench_announce args s =
     proceed (print_evidence s) (\<lambda>_ s1.
     proceed (print_out (PStr (''BENCHMARK_'' @ profile_line (ba_profile args) @ ''_BENCHMARK=PASS'')) s1) (\<lambda>_ s2.
     proceed (print_out (PStr (''BENCHMARK_EVIDENCE='' @ path_str (bench_path args))) s2) (\<lambda>_ s3. (Inr 0, s3))))"

definition bench_serve :: "bench_world \<Rightarrow> bench_args \<Rightarrow> bench_prepared \<Rightarrow> exn + pyval \<times> rat \<Rightarrow> demo_state \<Rightarrow> int demo_step" where
  "bench_serve w args bp ready s =
     proceed (finally_do (bench_body w args bp ready s) (bench_cleanup w bp)) (\<lambda>_ t.
       if cleanup_flag ''port_open'' t then (runtime_error ''port leak after benchmark'', t)
       else if \<not> cleanup_flag ''gpu_processes_match_baseline'' t
       then (runtime_error ''GPU process state did not return to baseline'', t)
       else bench_announce args t)"

definition bench_main :: "bench_world \<Rightarrow> bench_args \<Rightarrow> demo_state \<Rightarrow> int demo_step option" where
  "bench_main w args s =
     (case bench_prepare w args of
        Inl e \<Rightarrow> Some (Inl e, s)
      | Inr bp \<Rightarrow>
         (case bench_wait_ready (dw_clock w) (dw_ready w) (ba_startup_timeout args) of
            None \<Rightarrow> None
          | Some ready \<Rightarrow> Some (bench_serve w args bp ready (s\<lparr>ds_evidence := bp_evidence bp\<rparr>))))"

section \<open>The statistics are what they are called\<close>

lemma sorted_few:
  assumes "\<forall>i < length s. k \<le> i \<longrightarrow> \<not> P (s ! i)"
  shows "length (filter P s) \<le> k"
proof -
  have "{i. i < length s \<and> P (s ! i)} \<subseteq> {..<k}" using assms by (auto simp: not_le [symmetric])
  then have "card {i. i < length s \<and> P (s ! i)} \<le> card {..<k}" by (intro card_mono) simp_all
  then show ?thesis by (simp add: length_filter_conv_card)
qed

lemma sorted_few_above:
  assumes "\<forall>i < length s. i < k \<longrightarrow> \<not> P (s ! i)"
  shows "length (filter P s) \<le> length s - k"
proof -
  have "{i. i < length s \<and> P (s ! i)} \<subseteq> {k..<length s}" using assms by (auto simp: not_less [symmetric])
  then have "card {i. i < length s \<and> P (s ! i)} \<le> card {k..<length s}" by (intro card_mono) simp_all
  then show ?thesis by (simp add: length_filter_conv_card)
qed

lemma length_filter_sort: "length (filter P (sort xs)) = length (filter P xs)"
proof -
  have "mset (filter P (sort xs)) = mset (filter P xs)" by simp
  then show ?thesis by (rule mset_eq_length)
qed

text \<open>At most half of the values are below the median and at most half above; it lies between the extremes.\<close>

definition is_median :: "rat \<Rightarrow> rat list \<Rightarrow> bool" where
  "is_median m xs \<longleftrightarrow>
     2 * length (filter (\<lambda>x. x < m) xs) \<le> length xs \<and> 2 * length (filter (\<lambda>x. m < x) xs) \<le> length xs"

definition is_spread :: "rat list \<Rightarrow> rat \<times> rat \<times> rat \<Rightarrow> bool" where
  "is_spread xs sp \<longleftrightarrow>
     (case sp of (a, m, b) \<Rightarrow>
       a \<in> set xs \<and> b \<in> set xs \<and> (\<forall>x \<in> set xs. a \<le> x \<and> x \<le> b) \<and> a \<le> m \<and> m \<le> b \<and> is_median m xs)"

lemma median_between:
  assumes "xs \<noteq> []" and "\<forall>x \<in> set xs. is_float64 x" and "s = sort xs" and "n = length xs"
  shows "s ! ((n - 1) div 2) \<le> median xs \<and> median xs \<le> s ! (n div 2)"
proof (cases "odd n")
  case True
  then have "(n - 1) div 2 = n div 2" by (auto elim: oddE)
  with True assms(3,4) show ?thesis by (simp add: median_def Let_def)
next
  case False
  have "n \<noteq> 0" using assms(1,4) by simp
  with False have "(n - 1) div 2 = n div 2 - 1" "n div 2 - 1 < n" "n div 2 < n" by presburger+
  then have i: "(n - 1) div 2 = n div 2 - 1" "n div 2 - 1 < length s" "n div 2 < length s"
    using assms(3,4) by simp_all
  then have "s ! (n div 2 - 1) \<in> set xs" "s ! (n div 2) \<in> set xs" using assms(3) by (metis nth_mem set_sort)+
  with assms(2) have f: "is_float64 (s ! (n div 2 - 1))" "is_float64 (s ! (n div 2))" by blast+
  have "s ! (n div 2 - 1) \<le> s ! (n div 2)" using i assms(3) by (intro sorted_nth_mono) simp_all
  from float_mean [OF f this] False assms(3,4) i(1) show ?thesis by (simp add: median_def Let_def)
qed

lemma median_is_median:
  assumes "xs \<noteq> []" and "\<forall>x \<in> set xs. is_float64 x"
  shows "is_median (median xs) xs"
proof -
  define s where "s = sort xs"
  define n where "n = length xs"
  have s: "sorted s" "length s = n" by (simp_all add: s_def n_def)
  have b: "s ! ((n - 1) div 2) \<le> median xs" "median xs \<le> s ! (n div 2)"
    using median_between [OF assms s_def n_def] by simp_all
  have "length (filter (\<lambda>x. x < median xs) s) \<le> n div 2"
  proof (rule sorted_few, intro allI impI notI)
    fix i assume i: "i < length s" "n div 2 \<le> i" "s ! i < median xs"
    then have "s ! (n div 2) \<le> s ! i" using s(1) by (intro sorted_nth_mono)
    with i(3) b(2) show False by simp
  qed
  moreover have "length (filter (\<lambda>x. median xs < x) s) \<le> length s - Suc ((n - 1) div 2)"
  proof (rule sorted_few_above, intro allI impI notI)
    fix i assume i: "i < length s" "i < Suc ((n - 1) div 2)" "median xs < s ! i"
    have "(n - 1) div 2 < length s" using assms(1) s(2) n_def by (cases n) auto
    with i(2) have "s ! i \<le> s ! ((n - 1) div 2)" using s(1) by (intro sorted_nth_mono) simp_all
    with i(3) b(1) show False by simp
  qed
  moreover have "2 * a \<le> n" if "a \<le> n div 2 \<or> a \<le> n - Suc ((n - 1) div 2)" for a using that by presburger
  ultimately show ?thesis by (simp add: is_median_def s_def length_filter_sort flip: n_def)
qed

lemma fold_min_set: "fold min rest x = Min (set (x # rest))"
  by (rule Min.set_eq_fold [symmetric])

lemma fold_max_set: "fold max rest x = Max (set (x # rest))"
  by (rule Max.set_eq_fold [symmetric])

lemma spread_is_spread:
  assumes "spread xs = Inr sp" and "\<forall>x \<in> set xs. is_float64 x"
  shows "is_spread xs sp"
proof -
  from assms(1) obtain x rest where xs: "xs = x # rest" by (cases xs) (simp_all add: spread_def)
  then have ne: "xs \<noteq> []" by simp
  have sp: "sp = (Min (set xs), median xs, Max (set xs))"
    using assms(1) by (simp add: spread_def xs fold_min_set fold_max_set)
  have "sort xs ! i \<in> set xs" if "i < length xs" for i using that by (metis length_sort nth_mem set_sort)
  moreover have "(length xs - 1) div 2 < length xs" "length xs div 2 < length xs" using ne by (cases xs; simp)+
  ultimately have "Min (set xs) \<le> sort xs ! ((length xs - 1) div 2)" "sort xs ! (length xs div 2) \<le> Max (set xs)"
    by simp_all
  with median_between [OF ne assms(2) refl refl] have "Min (set xs) \<le> median xs" "median xs \<le> Max (set xs)"
    by linarith+
  moreover have "Min (set xs) \<in> set xs" "Max (set xs) \<in> set xs" using ne by simp_all
  ultimately show ?thesis using median_is_median [OF ne assms(2)] by (simp add: is_spread_def sp)
qed

section \<open>What is measured\<close>

text \<open>A request that was answered with a WAV file: its length, digest, frames and times are those of the answer,
  and the real-time factor is the time of the request over the duration of the speech.\<close>

definition measured :: "bench_world \<Rightarrow> request_tag \<Rightarrow> http_request \<Rightarrow> shot \<Rightarrow> bool" where
  "measured w tag rq sh \<longleftrightarrow>
     (let x = dw_exchange w tag rq in
      \<exists>r m. ex_answer x = Answer r \<and> rs_status r = 200 \<and> sh_status sh = 200 \<and>
        wave_facts (rs_content r) = Inr (wm_frames m, wm_rate m, wm_channels m) \<and>
        wm_bytes m = length (rs_content r) \<and> wm_sha m = dw_sha w (rs_content r) \<and>
        0 < wm_rate m \<and> wm_seconds m = fl64 (of_nat (wm_frames m) / of_nat (wm_rate m)) \<and> wm_seconds m \<noteq> 0 \<and>
        sh_elapsed sh = fl64 (ex_ended x - ex_started x) \<and>
        sh_outcome sh = Inr (m, fl64 (sh_elapsed sh / wm_seconds m)))"

lemma measured_status: "measured w tag rq sh \<Longrightarrow> sh_status sh = 200"
  by (auto simp: measured_def Let_def)

lemma measured_floats:
  assumes "measured w tag rq sh"
  shows "is_float64 (sh_elapsed sh) \<and> (\<exists>f q. shot_rtf sh = Inr f \<and> shot_seconds sh = Inr q \<and> is_float64 f \<and> is_float64 q)"
  using assms by (auto simp: measured_def Let_def shot_rtf_def shot_seconds_def)

lemma one_shot_measured:
  assumes "bench_one_shot w port_number rid t tag = Inr sh" and "sh_status sh = 200"
  shows "measured w tag (tts_call ''/v1/tts'' port_number (dw_token w) rid t) sh"
proof -
  define rq where "rq = tts_call ''/v1/tts'' port_number (dw_token w) rid t"
  define x where "x = dw_exchange w tag rq"
  from assms obtain r frame_total rate channels seconds rtf where
    f: "ex_answer x = Answer r" "rs_status r = 200" "wave_facts (rs_content r) = Inr (frame_total, rate, channels)"
    "seconds_of frame_total rate = Inr seconds" "over (fl64 (ex_ended x - ex_started x)) seconds = Inr rtf"
    "sh = \<lparr>sh_request_id = rid, sh_status = 200, sh_elapsed = fl64 (ex_ended x - ex_started x),
       sh_outcome = Inr (\<lparr>wm_bytes = length (rs_content r), wm_sha = dw_sha w (rs_content r), wm_rate = rate,
         wm_channels = channels, wm_frames = frame_total, wm_seconds = seconds\<rparr>, rtf)\<rparr>"
    unfolding bench_one_shot_def rq_def [symmetric] Let_def x_def [symmetric] measure_wav_def
    by (auto simp: raises split: if_splits)
  from f(4,5) have "0 < rate" "seconds = fl64 (of_nat frame_total / of_nat rate)" "seconds \<noteq> 0"
    "rtf = fl64 (fl64 (ex_ended x - ex_started x) / seconds)"
    by (auto simp: seconds_of_def over_def split: if_splits)
  with f(1-3,6) show ?thesis
    unfolding measured_def Let_def rq_def [symmetric] x_def [symmetric] by simp
qed

definition runs_measured :: "bench_world \<Rightarrow> int \<Rightarrow> string \<Rightarrow> pyval \<Rightarrow> nat \<Rightarrow> shot list \<Rightarrow> bool" where
  "runs_measured w port_number name t k0 shots \<longleftrightarrow>
     (\<forall>i < length shots. measured w (Measured_Run name (k0 + i))
        (tts_call ''/v1/tts'' port_number (dw_token w) (PStr (run_id name (k0 + i))) t) (shots ! i))"

lemma runs_measured_Cons:
  "runs_measured w p name t k0 (sh # rest) \<longleftrightarrow>
     measured w (Measured_Run name k0) (tts_call ''/v1/tts'' p (dw_token w) (PStr (run_id name k0)) t) sh \<and>
     runs_measured w p name t (Suc k0) rest"
  by (simp add: runs_measured_def All_less_Suc2)

lemma repeat_runs_measured:
  "repeat_runs w p inputs name k acc = Inr out \<Longrightarrow>
   \<exists>shots. out = acc @ shots \<and> length shots = k \<and>
     (k \<noteq> 0 \<longrightarrow> (\<exists>t. input_text inputs name = Inr t \<and> runs_measured w p name t (length acc) shots))"
proof (induction k arbitrary: acc)
  case (Suc k)
  then obtain t sh where f: "input_text inputs name = Inr t"
    "bench_one_shot w p (PStr (run_id name (length acc))) t (Measured_Run name (length acc)) = Inr sh" "sh_status sh = 200"
    "repeat_runs w p inputs name k (acc @ [sh]) = Inr out"
    by (auto simp: raises runtime_error_def split: if_splits)
  from Suc.IH [OF f(4)] f(1) obtain shots where r: "out = acc @ sh # shots" "length shots = k"
    "k \<noteq> 0 \<longrightarrow> runs_measured w p name t (Suc (length acc)) shots" by auto
  have "runs_measured w p name t (Suc (length acc)) shots"
    using r(2,3) by (cases "k = 0") (simp_all add: runs_measured_def)
  with one_shot_measured [OF f(2,3)] f(1) r(1,2) show ?case
    by (intro exI [of _ "sh # shots"]) (simp add: runs_measured_Cons)
qed simp

text \<open>The summary of measured runs.\<close>

definition summarised :: "shot list \<Rightarrow> summary \<Rightarrow> bool" where
  "summarised shots su \<longleftrightarrow>
     su_repetitions su = length shots \<and>
     (\<exists>factors audio. map_raise shot_rtf shots = Inr factors \<and> map_raise shot_seconds shots = Inr audio \<and>
        is_spread (map sh_elapsed shots) (su_elapsed su) \<and> is_spread factors (su_rtf su) \<and> is_spread audio (su_audio su))"

lemma all_floats:
  assumes "map_raise f xs = Inr ys" and "\<forall>x \<in> set xs. \<forall>y. f x = Inr y \<longrightarrow> is_float64 y"
  shows "\<forall>y \<in> set ys. is_float64 y"
proof
  fix y assume "y \<in> set ys"
  then obtain i where "i < length ys" "ys ! i = y" by (auto simp: in_set_conv_nth)
  with assms(1) have "f (xs ! i) = Inr y" "xs ! i \<in> set xs" by (auto simp: map_raise_Inr_iff list_all2_conv_all_nth)
  with assms(2) show "is_float64 y" by blast
qed

lemma summarize_measured:
  assumes "summarize shots = Inr su" and "\<forall>sh \<in> set shots. \<exists>tag rq. measured w tag rq sh"
  shows "summarised shots su"
proof -
  from assms(1) obtain factors audio e f a where s: "map_raise shot_rtf shots = Inr factors"
    "map_raise shot_seconds shots = Inr audio" "spread (map sh_elapsed shots) = Inr e" "spread factors = Inr f" "spread audio = Inr a"
    "su = \<lparr>su_repetitions = length shots, su_elapsed = e, su_rtf = f, su_audio = a\<rparr>"
    by (auto simp: summarize_def and_then_eq_Inr)
  have "\<forall>sh \<in> set shots. is_float64 (sh_elapsed sh)" "\<forall>sh \<in> set shots. \<forall>y. shot_rtf sh = Inr y \<longrightarrow> is_float64 y"
    "\<forall>sh \<in> set shots. \<forall>y. shot_seconds sh = Inr y \<longrightarrow> is_float64 y"
    using assms(2) by (fastforce dest: measured_floats)+
  then have "is_spread (map sh_elapsed shots) e" "is_spread factors f" "is_spread audio a"
    using all_floats [OF s(1)] all_floats [OF s(2)] s(3-5) by (simp_all add: spread_is_spread)
  with s(1,2,6) show ?thesis by (simp add: summarised_def)
qed

definition input_measured :: "bench_world \<Rightarrow> int \<Rightarrow> pyval \<Rightarrow> nat \<Rightarrow> string \<Rightarrow> pyval \<Rightarrow> bool" where
  "input_measured w port_number inputs n name entry \<longleftrightarrow>
     (\<exists>given_input t shots su. py_item inputs name = Inr given_input \<and> py_item given_input ''text'' = Inr t \<and>
        length shots = n \<and> runs_measured w port_number name t 0 shots \<and> summarised shots su \<and>
        entry = run_entry given_input shots su)"

lemma measure_input_measured:
  assumes "measure_input w p inputs n name = Inr entry"
  shows "0 < n \<and> input_measured w p inputs n name entry"
proof -
  from assms obtain shots given_input su where m: "repeat_runs w p inputs name n [] = Inr shots"
    "py_item inputs name = Inr given_input" "summarize shots = Inr su" "entry = run_entry given_input shots su"
    by (auto simp: measure_input_def and_then_eq_Inr)
  from m(3) have "shots \<noteq> []" by (auto simp: summarize_def spread_def)
  with repeat_runs_measured [OF m(1)] obtain t where r: "length shots = n" "0 < n" "input_text inputs name = Inr t"
    "runs_measured w p name t 0 shots" by auto
  from r(4) have "\<forall>sh \<in> set shots. \<exists>tag rq. measured w tag rq sh"
    unfolding runs_measured_def by (metis in_set_conv_nth)
  from summarize_measured [OF m(3) this] m(2,4) r show ?thesis
    by (auto simp: input_measured_def input_text_def)
qed

section \<open>What a passing run shows\<close>

text \<open>A step that only adds notes under some names.\<close>

definition only_notes :: "string set \<Rightarrow> demo_state \<Rightarrow> demo_state \<Rightarrow> bool" where
  "only_notes names s t \<longleftrightarrow>
     (\<forall>name. name \<notin> names \<longrightarrow> dict_get (ds_evidence t) name = dict_get (ds_evidence s) name) \<and>
     ds_console t = ds_console s"

lemma only_notes_refl [simp]: "only_notes names s s"
  by (simp add: only_notes_def)

lemma only_notes_down [simp]: "name \<in> names \<Longrightarrow> only_notes names s (note_down name v s)"
  by (auto simp: only_notes_def dicts)

lemma only_notes_trans [trans]: "only_notes names s t \<Longrightarrow> only_notes names t u \<Longrightarrow> only_notes names s u"
  by (simp add: only_notes_def)

lemma warm_up_notes:
  "warm_up w p inputs k acc s = (res, t) \<Longrightarrow>
   only_notes {''warmup''} s t \<and>
   (res = Inr () \<and> dict_get (ds_evidence s) ''warmup'' = Some (shots_value acc) \<longrightarrow>
      (\<exists>shots. dict_get (ds_evidence t) ''warmup'' = Some (shots_value (acc @ shots)) \<and> length shots = k))"
proof (induction k arbitrary: acc s)
  case (Suc k)
  let ?call = "and_then (input_text inputs ''B2'') (\<lambda>t.
      bench_one_shot w p (PStr (''benchmark-warmup-'' @ show_nat (length acc))) t (Warmup_Run (length acc)))"
  show ?case
  proof (cases ?call)
    case (Inl e)
    with Suc.prems show ?thesis by (auto simp: Let_def)
  next
    case (Inr sh)
    show ?thesis
    proof (cases "sh_status sh = 200")
      case False
      with Suc.prems Inr show ?thesis by (auto simp: Let_def runtime_error_def)
    next
      case True
      define s1 where "s1 = note_down ''warmup'' (shots_value (acc @ [sh])) s"
      have next_step: "warm_up w p inputs k (acc @ [sh]) s1 = (res, t)"
        using Suc.prems Inr True by (simp add: Let_def s1_def)
      have s1: "only_notes {''warmup''} s s1" "dict_get (ds_evidence s1) ''warmup'' = Some (shots_value (acc @ [sh]))"
        by (simp_all add: s1_def dicts)
      from Suc.IH [OF next_step] s1(2) have "only_notes {''warmup''} s1 t"
        "res = Inr () \<longrightarrow> (\<exists>shots. dict_get (ds_evidence t) ''warmup'' = Some (shots_value (acc @ sh # shots)) \<and> length shots = k)"
        by auto
      with only_notes_trans [OF s1(1)] show ?thesis by (metis length_Cons)
    qed
  qed
qed auto

lemma measure_inputs_notes:
  "measure_inputs w p inputs n names acc s = (Inr u, t) \<Longrightarrow>
   only_notes {''warm_runs''} s t \<and>
   (\<exists>entries. map fst entries = names \<and> (\<forall>(name, entry) \<in> set entries. measure_input w p inputs n name = Inr entry) \<and>
      (names \<noteq> [] \<longrightarrow> dict_get (ds_evidence t) ''warm_runs'' = Some (dict_value (acc @ entries))))"
proof (induction names arbitrary: acc s)
  case (Cons name rest)
  then obtain entry where e: "measure_input w p inputs n name = Inr entry" by (auto simp: raises)
  define s1 where "s1 = note_down ''warm_runs'' (dict_value (acc @ [(name, entry)])) s"
  have next_step: "measure_inputs w p inputs n rest (acc @ [(name, entry)]) s1 = (Inr u, t)"
    using Cons.prems e by (simp add: s1_def)
  from Cons.IH [OF this] obtain entries where r: "only_notes {''warm_runs''} s1 t" "map fst entries = rest"
    "\<forall>(name, entry) \<in> set entries. measure_input w p inputs n name = Inr entry"
    "rest \<noteq> [] \<longrightarrow> dict_get (ds_evidence t) ''warm_runs'' = Some (dict_value (acc @ (name, entry) # entries))" by auto
  have "dict_get (ds_evidence t) ''warm_runs'' = Some (dict_value (acc @ (name, entry) # entries))"
  proof (cases "rest = []")
    case True
    with next_step r(2) have "t = s1" "entries = []" by simp_all
    then show ?thesis by (simp add: s1_def dicts)
  qed (use r(4) in simp)
  moreover have "only_notes {''warm_runs''} s t"
    using only_notes_trans [OF _ r(1)] by (simp add: s1_def)
  ultimately show ?case using r(2,3) e by (intro conjI exI [of _ "(name, entry) # entries"]) auto
qed simp

text \<open>A stream that was answered: the bytes of the body are counted, and their duration is computed from the headers.\<close>

definition stream_measured :: "bench_world \<Rightarrow> http_request \<Rightarrow> stream_run \<Rightarrow> bool" where
  "stream_measured w rq sr \<longleftrightarrow>
     (let x = bw_stream w rq in
      \<exists>r q. sx_opened x = Answer r \<and> rs_status r = 200 \<and> sr_status sr = 200 \<and> sx_failure x = None \<and>
        sr_bytes sr = length (concat (sx_pieces x)) \<and> sr_chunks sr = length (filter (\<lambda>piece. piece \<noteq> []) (sx_pieces x)) \<and>
        py_int (header_or r ''x-audio-sample-rate'' ''48000'') = Inr (sr_rate sr) \<and>
        py_int (header_or r ''x-audio-channels'' ''1'') = Inr (sr_channels sr) \<and>
        sr_completion sr = fl64 (sx_ended x - sx_started x) \<and>
        streamed_seconds (sr_bytes sr) (sr_rate sr) (sr_channels sr) = Inr q \<and> sr_seconds sr = Some q \<and>
        sr_rtf sr = (if q = 0 then None else Some (fl64 (sr_completion sr / q))))"

lemma count_body_sum:
  "count_body pieces (chunks, bytes_read) =
     (chunks + length (filter (\<lambda>piece. piece \<noteq> []) pieces), bytes_read + length (concat pieces))"
  by (induction pieces arbitrary: chunks bytes_read) auto

lemma bench_stream_measured:
  assumes "bench_stream w port_number rid t = Inr sr" and "sr_status sr = 200"
  shows "stream_measured w (tts_call ''/v1/tts/stream'' port_number (dw_token w) rid t) sr"
proof -
  define rq where "rq = tts_call ''/v1/tts/stream'' port_number (dw_token w) rid t"
  define x where "x = bw_stream w rq"
  from assms obtain r rate channels seconds rtf where f: "sx_opened x = Answer r" "sx_failure x = None" "rs_status r = 200"
    "py_int (header_or r ''x-audio-sample-rate'' ''48000'') = Inr rate"
    "py_int (header_or r ''x-audio-channels'' ''1'') = Inr channels"
    "streamed_seconds (length (concat (sx_pieces x))) rate channels = Inr seconds"
    "(if seconds = 0 then Inr None else and_then (over (fl64 (sx_ended x - sx_started x)) seconds) (\<lambda>f. Inr (Some f))) = Inr rtf"
    "sr = \<lparr>sr_request_id = rid, sr_status = 200,
            sr_first = (if length (filter (\<lambda>piece. piece \<noteq> []) (sx_pieces x)) = 0 then None else Some (fl64 (sx_first x - sx_started x))),
            sr_completion = fl64 (sx_ended x - sx_started x),
            sr_chunks = length (filter (\<lambda>piece. piece \<noteq> []) (sx_pieces x)), sr_bytes = length (concat (sx_pieces x)), sr_rate = rate,
            sr_channels = channels, sr_seconds = Some seconds, sr_rtf = rtf\<rparr>"
    unfolding bench_stream_def rq_def [symmetric] Let_def x_def [symmetric] count_body_sum
    by (auto simp: raises none_or_def split: if_splits option.splits)
  from f(7) have "rtf = (if seconds = 0 then None else Some (fl64 (fl64 (sx_ended x - sx_started x) / seconds)))"
    by (auto simp: over_def split: if_splits)
  with f(1-6,8) show ?thesis unfolding stream_measured_def Let_def rq_def [symmetric] x_def [symmetric] by simp
qed

definition concurrency_measured :: "bench_world \<Rightarrow> int \<Rightarrow> pyval \<Rightarrow> pyval \<Rightarrow> bool" where
  "concurrency_measured w port_number inputs entry \<longleftrightarrow>
     (let makespan = fl64 (bw_end w - bw_begin w) in
      \<exists>b8 requests items shots seconds. py_item inputs ''B8'' = Inr b8 \<and> py_item b8 ''requests'' = Inr requests \<and>
        iterate requests = Inr items \<and> length shots = length items \<and>
        (\<forall>i < length items. \<exists>rid t. py_item (items ! i) ''request_id'' = Inr rid \<and> py_item (items ! i) ''text'' = Inr t \<and>
           measured w (Concurrent_Run i) (tts_call ''/v1/tts'' port_number (dw_token w) rid t) (shots ! i)) \<and>
        map_raise shot_seconds shots = Inr seconds \<and> makespan \<noteq> 0 \<and>
        entry = concurrency_value shots makespan (fl64 (of_nat (length shots) / makespan))
          (fl64 (sum_floats (bw_compensated w) seconds / makespan)))"

lemma run_concurrently_shots:
  assumes "run_concurrently w p inputs = Inr shots"
  shows "\<exists>b8 requests items. py_item inputs ''B8'' = Inr b8 \<and> py_item b8 ''requests'' = Inr requests \<and>
    iterate requests = Inr items \<and> length shots = length items \<and>
    (\<forall>i < length items. \<exists>rid t. py_item (items ! i) ''request_id'' = Inr rid \<and> py_item (items ! i) ''text'' = Inr t \<and>
       bench_one_shot w p rid t (Concurrent_Run i) = Inr (shots ! i))"
proof -
  from assms obtain b8 requests items calls where c: "py_item inputs ''B8'' = Inr b8" "py_item b8 ''requests'' = Inr requests"
    "iterate requests = Inr items" "list_all2 (\<lambda>x y. concurrent_call x = Inr y) (zip [0..<length items] items) calls"
    "list_all2 (\<lambda>(i, rid, t) y. bench_one_shot w p rid t (Concurrent_Run i) = Inr y) calls shots"
    by (auto simp: run_concurrently_def raises case_prod_beta')
  have len: "length calls = length items" "length shots = length items"
    using list_all2_lengthD [OF c(4)] list_all2_lengthD [OF c(5)] by simp_all
  have "\<exists>rid t. py_item (items ! i) ''request_id'' = Inr rid \<and> py_item (items ! i) ''text'' = Inr t \<and>
       bench_one_shot w p rid t (Concurrent_Run i) = Inr (shots ! i)" if i: "i < length items" for i
  proof -
    have "concurrent_call (i, items ! i) = Inr (calls ! i)" using list_all2_nthD [OF c(4), of i] i by simp
    then obtain rid t where call: "calls ! i = (i, rid, t)" "py_item (items ! i) ''request_id'' = Inr rid"
      "py_item (items ! i) ''text'' = Inr t"
      unfolding concurrent_call_def and_then_eq_Inr fst_conv snd_conv sum.inject by metis
    from list_all2_nthD [OF c(5), of i] i len call(1) have "bench_one_shot w p rid t (Concurrent_Run i) = Inr (shots ! i)" by simp
    with call(2,3) show ?thesis by blast
  qed
  with c(1-3) len(2) show ?thesis by blast
qed

lemma measure_concurrency_measured:
  assumes "measure_concurrency w p inputs = Inr entry"
  shows "concurrency_measured w p inputs entry"
proof -
  define makespan where "makespan = fl64 (bw_end w - bw_begin w)"
  from assms obtain shots seconds rate audio_rate where m: "run_concurrently w p inputs = Inr shots"
    "\<not> list_ex (\<lambda>sh. sh_status sh \<noteq> 200) shots" "map_raise shot_seconds shots = Inr seconds"
    "over (of_nat (length shots)) makespan = Inr rate" "over (sum_floats (bw_compensated w) seconds) makespan = Inr audio_rate"
    "entry = concurrency_value shots makespan rate audio_rate"
    unfolding measure_concurrency_def Let_def makespan_def [symmetric]
    by (auto simp: and_then_eq_Inr runtime_error_def split: if_splits)
  from run_concurrently_shots [OF m(1)] obtain b8 requests items where r: "py_item inputs ''B8'' = Inr b8"
    "py_item b8 ''requests'' = Inr requests" "iterate requests = Inr items" "length shots = length items"
    "\<forall>i < length items. \<exists>rid t. py_item (items ! i) ''request_id'' = Inr rid \<and> py_item (items ! i) ''text'' = Inr t \<and>
       bench_one_shot w p rid t (Concurrent_Run i) = Inr (shots ! i)" by blast
  have "sh_status (shots ! i) = 200" if "i < length items" for i
    using m(2) r(4) that by (auto simp: list_ex_iff)
  with r(5) have "\<forall>i < length items. \<exists>rid t. py_item (items ! i) ''request_id'' = Inr rid \<and> py_item (items ! i) ''text'' = Inr t \<and>
       measured w (Concurrent_Run i) (tts_call ''/v1/tts'' p (dw_token w) rid t) (shots ! i)"
    by (meson one_shot_measured)
  moreover from m(4,5) have "makespan \<noteq> 0" "rate = fl64 (of_nat (length shots) / makespan)"
    "audio_rate = fl64 (sum_floats (bw_compensated w) seconds / makespan)"
    by (auto simp: over_def split: if_splits)
  ultimately show ?thesis
    unfolding concurrency_measured_def Let_def makespan_def [symmetric] using r(1-4) m(3,6) by blast
qed

definition body_notes :: "string set" where
  "body_notes = {''cold_start'', ''warmup'', ''warm_runs'', ''streaming'', ''concurrency'', ''resources''}"

lemma only_notes_weaken: "only_notes names s t \<Longrightarrow> names \<subseteq> others \<Longrightarrow> only_notes others s t"
  by (auto simp: only_notes_def)

lemma only_notes_other: "only_notes names s t \<Longrightarrow> name \<notin> names \<Longrightarrow> dict_get (ds_evidence t) name = dict_get (ds_evidence s) name"
  by (simp add: only_notes_def)

definition streaming_noted :: "bench_world \<Rightarrow> bench_args \<Rightarrow> pyval \<Rightarrow> demo_state \<Rightarrow> bool" where
  "streaming_noted w args inputs t \<longleftrightarrow>
     (ba_profile args = Prof_Cuda_Single \<longrightarrow>
        (\<exists>spoken_text sr. input_text inputs ''B7'' = Inr spoken_text \<and>
           stream_measured w (tts_call ''/v1/tts/stream'' (ba_port args) (dw_token w) (PStr ''benchmark-stream'') spoken_text) sr \<and>
           dict_get (ds_evidence t) ''streaming'' = Some (stream_value sr)))"

lemma measure_stream_notes:
  assumes "measure_stream w args inputs s = (Inr u, t)"
  shows "only_notes {''streaming''} s t \<and> streaming_noted w args inputs t"
proof (cases "ba_profile args = Prof_Cuda_Single")
  case True
  then obtain spoken_text sr where m: "input_text inputs ''B7'' = Inr spoken_text"
    "bench_stream w (ba_port args) (PStr ''benchmark-stream'') spoken_text = Inr sr" "sr_status sr = 200"
    "t = note_down ''streaming'' (stream_value sr) s"
    using assms by (auto simp: measure_stream_def raises runtime_error_def split: if_splits)
  from bench_stream_measured [OF m(2,3)] m(1,4) show ?thesis by (auto simp: streaming_noted_def dicts)
qed (use assms in \<open>auto simp: measure_stream_def streaming_noted_def\<close>)

text \<open>What the body of a passing run leaves in the evidence.\<close>

definition run_noted :: "bench_world \<Rightarrow> bench_args \<Rightarrow> bench_prepared \<Rightarrow> nat \<Rightarrow> demo_state \<Rightarrow> bool" where
  "run_noted w args bp n t \<longleftrightarrow>
     (let inputs = bp_inputs bp; evidence = dict_get (ds_evidence t) in
      (\<exists>warmups. policy_count (bp_policy bp) ''warmup_requests'' = Inr (length warmups) \<and>
         evidence ''warmup'' = Some (shots_value warmups)) \<and>
      (\<exists>e1 e2 e3. evidence ''warm_runs'' = Some (dict_value [(''B1'', e1), (''B2'', e2), (''B3'', e3)]) \<and>
         input_measured w (ba_port args) inputs n ''B1'' e1 \<and> input_measured w (ba_port args) inputs n ''B2'' e2 \<and>
         input_measured w (ba_port args) inputs n ''B3'' e3) \<and>
      streaming_noted w args inputs t \<and>
      (\<exists>entry. evidence ''concurrency'' = Some entry \<and> concurrency_measured w (ba_port args) inputs entry))"

lemma run_noted_cong:
  assumes "\<forall>name. name \<noteq> ''cleanup'' \<longrightarrow> dict_get (ds_evidence t) name = dict_get (ds_evidence s) name"
  shows "run_noted w args bp n t = run_noted w args bp n s"
  using assms by (simp add: run_noted_def streaming_noted_def Let_def)

lemma bench_body_passed:
  assumes "bench_body w args bp ready s = (Inr u, t)" and "dict_get (ds_evidence s) ''warmup'' = Some (PList [])"
  shows "\<exists>n. policy_count (bp_policy bp) ''measured_warm_repetitions'' = Inr n \<and> 0 < n \<and> run_noted w args bp n t \<and>
    ds_console t = ds_console s \<and> isOK ready"
proof -
  let ?p = "ba_port args" and ?inputs = "bp_inputs bp"
  from assms(1) obtain cold warmups s3 n s5 s6 together resources where
    b: "and_then ready (bench_cold_start w bp) = Inr cold" "policy_count (bp_policy bp) ''warmup_requests'' = Inr warmups"
    "warm_up w ?p ?inputs warmups [] (note_down ''cold_start'' cold s) = (Inr (), s3)"
    "policy_count (bp_policy bp) ''measured_warm_repetitions'' = Inr n"
    "measure_inputs w ?p ?inputs n [''B1'', ''B2'', ''B3''] [] s3 = (Inr (), s5)"
    "measure_stream w args ?inputs s5 = (Inr (), s6)" "measure_concurrency w ?p ?inputs = Inr together"
    "t = note_down ''resources'' resources (note_down ''concurrency'' together s6)"
    unfolding bench_body_def Let_def proceed_eq_Inr by (auto simp: raises)
  have "dict_get (ds_evidence (note_down ''cold_start'' cold s)) ''warmup'' = Some (shots_value [])"
    using assms(2) by (simp add: dicts shots_value_def)
  with warm_up_notes [OF b(3)] obtain shots where wu: "only_notes {''warmup''} (note_down ''cold_start'' cold s) s3"
    "dict_get (ds_evidence s3) ''warmup'' = Some (shots_value shots)" "length shots = warmups" by auto
  from measure_inputs_notes [OF b(5)] obtain entries where mi: "only_notes {''warm_runs''} s3 s5"
    "map fst entries = [''B1'', ''B2'', ''B3'']" "\<forall>(name, entry) \<in> set entries. measure_input w ?p ?inputs n name = Inr entry"
    "dict_get (ds_evidence s5) ''warm_runs'' = Some (dict_value entries)" by (metis append_Nil list.distinct(1))
  from mi(2) obtain e1 e2 e3 where entries: "entries = [(''B1'', e1), (''B2'', e2), (''B3'', e3)]" by auto
  with mi(3) have m: "measure_input w ?p ?inputs n ''B1'' = Inr e1" "measure_input w ?p ?inputs n ''B2'' = Inr e2"
    "measure_input w ?p ?inputs n ''B3'' = Inr e3" by simp_all
  note measured_inputs = m [THEN measure_input_measured]
  from measure_stream_notes [OF b(6)] have ms: "only_notes {''streaming''} s5 s6" "streaming_noted w args ?inputs s6" by blast+
  have late: "dict_get (ds_evidence t) name = dict_get (ds_evidence s6) name" if "name \<notin> {''concurrency'', ''resources''}" for name
    using that by (simp add: b(8) dicts)
  have "dict_get (ds_evidence t) ''warmup'' = Some (shots_value shots)"
    using wu(2) only_notes_other [OF mi(1)] only_notes_other [OF ms(1)] late by simp
  moreover have "dict_get (ds_evidence t) ''warm_runs'' = Some (dict_value entries)"
    using mi(4) only_notes_other [OF ms(1)] late by simp
  moreover have "streaming_noted w args ?inputs t" using ms(2) late by (simp add: streaming_noted_def)
  moreover have "dict_get (ds_evidence t) ''concurrency'' = Some together" by (simp add: b(8) dicts)
  moreover have "ds_console t = ds_console s" using wu(1) mi(1) ms(1) by (simp add: b(8) only_notes_def)
  moreover have "isOK ready" using b(1) by (cases ready) simp_all
  ultimately show ?thesis
    using b(2,4) wu(3) measured_inputs measure_concurrency_measured [OF b(7)]
    unfolding run_noted_def Let_def entries by blast
qed

lemma bench_cleanup_done:
  assumes "bench_cleanup w bp s = (Inr u, t)"
  shows "\<exists>how rows still_open. bench_stop (bp_child bp) = (Inr (), how) \<and> ds_stopped t = Some how \<and>
    bench_gpu_rows (mc_smi (dw_machine w After_Stop)) = Inr rows \<and>
    port_open (mc_connect (dw_machine w After_Stop)) = Inr still_open \<and>
    cleanup_flag ''gpu_processes_match_baseline'' t = (rows = bp_baseline bp) \<and> cleanup_flag ''port_open'' t = still_open \<and>
    (\<forall>name. name \<noteq> ''cleanup'' \<longrightarrow> dict_get (ds_evidence t) name = dict_get (ds_evidence s) name) \<and>
    ds_console t = ds_console s \<and> ds_document t = Some (dict_value (ds_evidence t))"
proof -
  obtain ending how where st: "bench_stop (bp_child bp) = (ending, how)" by (cases "bench_stop (bp_child bp)")
  from assms obtain rows still_open events where c: "ending = Inr ()"
    "bench_gpu_rows (mc_smi (dw_machine w After_Stop)) = Inr rows"
    "port_open (mc_connect (dw_machine w After_Stop)) = Inr still_open"
    "write_evidence w (note_down ''cleanup'' (dict_value
            [(''gpu_processes'', rows_value rows), (''gpu_processes_match_baseline'', PBool (rows = bp_baseline bp)),
             (''port_open'', PBool still_open), (''memory_events'', events_dict events)]) (s\<lparr>ds_stopped := Some how\<rparr>)) = (Inr u, t)"
    unfolding bench_cleanup_def Let_def st prod.case proceed_eq_Inr by (auto simp: raises)
  note t = write_evidence_Inr [OF c(4)]
  have "cleanup_flag ''gpu_processes_match_baseline'' t = (rows = bp_baseline bp)" "cleanup_flag ''port_open'' t = still_open"
    by (auto simp: cleanup_flag_def t dict_value_def dicts)
  then show ?thesis
    using st c(1-3) by (auto simp: t dicts)
qed

lemma bench_announce_Inr:
  assumes "bench_announce args s = (Inr code, t)"
  shows "code = 0 \<and> ds_evidence t = ds_evidence s \<and> ds_document t = ds_document s \<and> ds_stopped t = ds_stopped s \<and>
    (\<exists>lines. co_out (ds_console t) = co_out (ds_console s) @ dict_value (ds_evidence s) # lines)"
proof -
  define line where "line = PStr (''BENCHMARK_'' @ profile_line (ba_profile args) @ ''_BENCHMARK=PASS'')"
  define line2 where "line2 = PStr (''BENCHMARK_EVIDENCE='' @ path_str (bench_path args))"
  from assms obtain s1 s2 u where
    a: "print_out (dict_value (ds_evidence s)) s = (Inr u, s1)" "print_out line s1 = (Inr u, s2)"
      "print_out line2 s2 = (Inr u, t)" "code = 0"
    unfolding bench_announce_def line_def [symmetric] line2_def [symmetric]
    by (auto simp: raises print_evidence_def Let_def split: sum.splits if_splits)
  from print_out_Inr [OF a(1)] print_out_Inr [OF a(2)] print_out_Inr [OF a(3)] a(4) show ?thesis by auto
qed

lemma bench_prepare_Inr:
  assumes "bench_prepare w args = Inr bp"
  shows "default_discovery (dw_files w) (dw_json w) (dw_scan w) = Inr [bp_model bp] \<and>
    bench_gpu_rows (mc_smi (dw_machine w At_Baseline)) = Inr (bp_baseline bp) \<and>
    port_open (mc_connect (dw_machine w At_Baseline)) = Inr False \<and>
    dict_get (bp_evidence bp) ''warmup'' = Some (PList []) \<and>
    dw_child w (server_environment (bench_settings args (candidate_text (bp_model bp)) (dw_token w)) (dw_environ w)) =
      Inr (bp_child bp)"
proof -
  let ?look = "dw_machine w At_Baseline"
  from assms obtain inputs policy model baseline events protocol_id sha python limit child where
    f: "default_discovery (dw_files w) (dw_json w) (dw_scan w) = Inr [model]"
    "bench_gpu_rows (mc_smi ?look) = Inr baseline" "port_open (mc_connect ?look) = Inr False"
    "dw_child w (server_environment (bench_settings args (candidate_text model) (dw_token w)) (dw_environ w)) = Inr child"
    "bp = \<lparr>bp_inputs = inputs, bp_policy = policy, bp_model = model, bp_baseline = baseline,
            bp_evidence = bench_evidence args protocol_id sha model python limit baseline events, bp_child = child\<rparr>"
    unfolding bench_prepare_def Let_def and_then_eq_Inr
    by (auto simp: raises runtime_error_def only_candidate_def split: if_splits list.splits)
  have "dict_get (bench_evidence args protocol_id sha model python limit baseline events) ''warmup'' = Some (PList [])"
    by (simp add: bench_evidence_def)
  with f(1-4) show ?thesis unfolding f(5) bench_prepared.simps by blast
qed

text \<open>C35. A benchmark that ends with an exit code publishes what it measured. The code is 0; every input of the protocol was
  repeated as often as the protocol says, each request being answered with a file whose frames, rate, digest and
  length are the ones noted, and the real-time factor is the protocol's formula on the time of the request and the
  duration of that file; the summaries hold the extremes and a median of those figures; the stream's duration is
  computed from the bytes that arrived and the rate its headers give; requests and seconds of speech per second
  are divided by the time both concurrent requests took; and the server has ended, its port is closed, the GPUs
  run what they ran before, and the figures written are the figures printed.\<close>

theorem benchmark_follows_protocol:
  assumes "bench_main w args s = Some (Inr code, t)"
  shows "code = 0 \<and> (\<exists>bp n how lines. bench_prepare w args = Inr bp \<and>
    default_discovery (dw_files w) (dw_json w) (dw_scan w) = Inr [bp_model bp] \<and>
    policy_count (bp_policy bp) ''measured_warm_repetitions'' = Inr n \<and> 0 < n \<and> run_noted w args bp n t \<and>
    bench_stop (bp_child bp) = (Inr (), how) \<and> ds_stopped t = Some how \<and> st_code how \<noteq> None \<and>
    port_open (mc_connect (dw_machine w At_Baseline)) = Inr False \<and>
    port_open (mc_connect (dw_machine w After_Stop)) = Inr False \<and>
    bench_gpu_rows (mc_smi (dw_machine w After_Stop)) = bench_gpu_rows (mc_smi (dw_machine w At_Baseline)) \<and>
    ds_document t = Some (dict_value (ds_evidence t)) \<and>
    co_out (ds_console t) = co_out (ds_console s) @ dict_value (ds_evidence t) # lines)"
proof -
  from assms obtain bp ready where p: "bench_prepare w args = Inr bp"
    and serve: "bench_serve w args bp ready (s\<lparr>ds_evidence := bp_evidence bp\<rparr>) = (Inr code, t)"
    by (auto simp: bench_main_def split: sum.splits option.splits)
  let ?s = "s\<lparr>ds_evidence := bp_evidence bp\<rparr>"
  note prep = bench_prepare_Inr [OF p]
  from serve obtain t1 where f: "finally_do (bench_body w args bp ready ?s) (bench_cleanup w bp) = (Inr (), t1)"
    "cleanup_flag ''gpu_processes_match_baseline'' t1" "\<not> cleanup_flag ''port_open'' t1" "bench_announce args t1 = (Inr code, t)"
    by (auto simp: bench_serve_def raises runtime_error_def split: if_splits)
  from f(1) obtain s1 where b: "bench_body w args bp ready ?s = (Inr (), s1)" and c: "bench_cleanup w bp s1 = (Inr (), t1)"
    by (auto simp: finally_do_Inr)
  from bench_body_passed [OF b] prep obtain n where n: "policy_count (bp_policy bp) ''measured_warm_repetitions'' = Inr n" "0 < n"
    "run_noted w args bp n s1" "ds_console s1 = ds_console s" by auto
  from bench_cleanup_done [OF c] f(2,3) obtain how where h: "bench_stop (bp_child bp) = (Inr (), how)" "ds_stopped t1 = Some how"
    "bench_gpu_rows (mc_smi (dw_machine w After_Stop)) = Inr (bp_baseline bp)"
    "port_open (mc_connect (dw_machine w After_Stop)) = Inr False"
    "\<forall>name. name \<noteq> ''cleanup'' \<longrightarrow> dict_get (ds_evidence t1) name = dict_get (ds_evidence s1) name"
    "ds_console t1 = ds_console s1" "ds_document t1 = Some (dict_value (ds_evidence t1))"
    by auto
  from bench_announce_Inr [OF f(4)] obtain lines where a: "code = 0" "ds_evidence t = ds_evidence t1" "ds_document t = ds_document t1"
    "ds_stopped t = ds_stopped t1" "co_out (ds_console t) = co_out (ds_console t1) @ dict_value (ds_evidence t1) # lines" by blast
  have "run_noted w args bp n t" using n(3) h(5) a(2) by (subst run_noted_cong [of t s1]) simp_all
  moreover have "st_code how \<noteq> None" using h(1) unfolding bench_stop_def by (rule stop_within_ended)
  ultimately show ?thesis using a h n p prep by auto
qed

section \<open>The server is stopped, and configured as meant\<close>

lemma bench_wait_ready_ends:
  assumes "paced step (dw_clock w)" and "limited (deadline_of (dw_clock w 0) timeout)"
  shows "\<exists>ready. bench_wait_ready (dw_clock w) replies timeout = Some ready"
proof -
  obtain m where "1 \<le> m" "decides (dw_clock w) replies (deadline_of (dw_clock w 0) timeout) m"
    "\<forall>i. 1 \<le> i \<and> i < m \<longrightarrow> \<not> decides (dw_clock w) replies (deadline_of (dw_clock w 0) timeout) i"
    using first_decision [OF assms, of 1 replies] by blast
  from bench_poll_decided [OF this(1,3,2)] show ?thesis unfolding bench_wait_ready_def by blast
qed

lemma bench_cleanup_stops:
  assumes "bench_cleanup w bp s = (res, t)"
  shows "ds_stopped t = Some (snd (bench_stop (bp_child bp)))"
proof -
  obtain ending how where st: "bench_stop (bp_child bp) = (ending, how)" by (cases "bench_stop (bp_child bp)")
  show ?thesis
    using assms st
    by (auto simp: bench_cleanup_def Let_def proceed_def write_evidence_def split: sum.splits prod.splits option.splits)
qed

lemma bench_announce_keeps: "bench_announce args s = (res, t) \<Longrightarrow> ds_stopped t = ds_stopped s"
  by (auto simp: bench_announce_def proceed_def print_evidence_def Let_def split: prod.splits sum.splits
      dest!: print_out_keeps)

text \<open>Once the process was made the run ends and the process was stopped.\<close>

lemma bench_always_stops_server:
  assumes "paced step (dw_clock w)" and "limited (deadline_of (dw_clock w 0) (ba_startup_timeout args))"
    and "bench_prepare w args = Inr bp"
  shows "\<exists>res t. bench_main w args s = Some (res, t) \<and> ds_stopped t = Some (snd (bench_stop (bp_child bp)))"
proof -
  obtain ready where ready: "bench_wait_ready (dw_clock w) (dw_ready w) (ba_startup_timeout args) = Some ready"
    using bench_wait_ready_ends [OF assms(1,2)] by blast
  let ?s = "s\<lparr>ds_evidence := bp_evidence bp\<rparr>"
  obtain body s1 where b: "bench_body w args bp ready ?s = (body, s1)" by (cases "bench_body w args bp ready ?s")
  obtain cleaned t1 where c: "bench_cleanup w bp s1 = (cleaned, t1)" by (cases "bench_cleanup w bp s1")
  obtain res t where res: "bench_serve w args bp ready ?s = (res, t)" by (cases "bench_serve w args bp ready ?s")
  have "ds_stopped t = ds_stopped t1"
    using res b c
    by (cases cleaned; cases body)
      (auto simp: bench_serve_def finally_do_def runtime_error_def split: if_splits dest: bench_announce_keeps)
  with bench_cleanup_stops [OF c] assms(3) ready res show ?thesis by (simp add: bench_main_def)
qed

lemma bench_settings_given:
  "demo_server_settings (bench_settings args model_text token) (ba_profile args) model_text (ba_port args) token 2"
proof -
  have "show_int 2 = ''2''" by code_simp
  then show ?thesis by (simp add: demo_server_settings_def bench_settings_def Let_def)
qed

text \<open>What is measured of an answer the service makes: \<open>wav_bytes\<close> of an audio result is measured as its samples at
  its rate.\<close>

lemma service_answer_measured:
  assumes "wav_bytes be a = Inr content"
  shows "\<exists>m. measure_wav sha content = Inr m \<and> wm_frames m = length (ar_samples a) \<and>
    int (wm_rate m) = ar_sample_rate_hz a \<and> wm_channels m = 1 \<and>
    wm_seconds m = fl64 (of_nat (length (ar_samples a)) / of_int (ar_sample_rate_hz a))"
  using wave_facts_of_answer [OF assms] by (simp add: measure_wav_def seconds_of_def)

text \<open>The duration of a streamed body of one channel is its samples over the rate, rounded.\<close>

lemma service_stream_measured:
  assumes "length samples < 2 ^ 53" and "0 < rate" and "rate < 2 ^ 53"
  shows "streamed_seconds (length (pcm16_bytes be samples)) rate 1 = Inr (fl64 (of_nat (length samples) / of_int rate))"
proof -
  have "fl64 (of_nat (2 * length samples) / 2) = of_nat (length samples)"
    using fl64_fixed [OF is_float64_nat [OF assms(1)]] by simp
  moreover have "py_float_of (PInt n) = Inr (Fin (of_int n))" if "0 < n" "n < 2 ^ 53" for n
    using to_float_int [OF that] by simp
  ultimately show ?thesis
    using assms(2,3) by (simp add: streamed_seconds_def over_int_def over_def length_pcm16 del: py_float_of.simps)
qed

section \<open>A run\<close>

text \<open>The service of the demonstration's sample, measured once for each input.\<close>

definition quiet_inputs :: pyval where
  "quiet_inputs =
     (let hello = dict_value [(''text'', PStr ''hi'')] in
      dict_value [(''B1'', hello), (''B2'', hello), (''B3'', hello),
        (''B8'', dict_value [(''requests'', PList [dict_value [(''request_id'', PStr ''a''), (''text'', PStr ''hi'')]])])])"

definition quiet_policy :: pyval where
  "quiet_policy = dict_value [(''warmup_requests'', PInt 1), (''measured_warm_repetitions'', PInt 1)]"

definition quiet_bench :: bench_world where
  "quiet_bench =
     \<lparr>dw_files = demo_fs, dw_json = sample_loads, dw_scan = quiet_scan, dw_mkdir = None,
      dw_machine = (\<lambda>_. idle_machine), dw_environ = [], dw_token = ''s3cret'', dw_git = Inr ''abc'', dw_log = None,
      dw_child = (\<lambda>_. Inr obedient_child), dw_clock = of_nat, dw_ready = (\<lambda>_. Answer spoken_answer),
      dw_exchange = (\<lambda>_ _. \<lparr>ex_started = 0, ex_answer = Answer spoken_answer, ex_ended = 1\<rparr>), dw_sha = (\<lambda>_. ''00''),
      dw_write = None,
      bw_protocol = Inr (dict_value [(''protocol_id'', PStr ''v1''), (''inputs'', quiet_inputs), (''warmup_policy'', quiet_policy)]),
      bw_python = ''3.12'', bw_limit = Inr None,
      bw_stream = (\<lambda>_. \<lparr>sx_started = 0, sx_opened = Answer spoken_answer, sx_pieces = [], sx_failure = None,
        sx_first = 0, sx_ended = 1\<rparr>),
      bw_begin = 0, bw_end = 2, bw_compensated = True\<rparr>"

definition bench_request :: bench_args where
  "bench_request = \<lparr>ba_profile = Prof_Cpu, ba_workspace = path_of ''/work'', ba_port = 90, ba_startup_timeout = Fin 60\<rparr>"

definition quiet_shot :: "pyval \<Rightarrow> shot" where
  "quiet_shot rid =
     (let seconds = fl64 (1 / 48000) in
      \<lparr>sh_request_id = rid, sh_status = 200, sh_elapsed = 1,
       sh_outcome = Inr (\<lparr>wm_bytes = length one_frame, wm_sha = ''00'', wm_rate = 48000, wm_channels = 1, wm_frames = 1,
         wm_seconds = seconds\<rparr>, fl64 (1 / seconds))\<rparr>)"

lemma dict_item [simp]:
  "py_item (dict_value ((k, v) # d)) key = (if k = key then Inr v else py_item (dict_value d) key)"
  by (simp add: dict_value_def)

lemma fl64_small_nat [simp]: "n < 2 ^ 53 \<Longrightarrow> fl64 (of_nat n) = of_nat n"
  by (rule fl64_fixed) (rule is_float64_nat)

lemma quiet_seconds: "fl64 (1 / 48000) \<noteq> 0"
proof -
  have "(2 :: rat) powi (- 16) \<le> 1 / 48000" by (simp add: power_int_def power_one_over)
  from fl64_mono [OF this] have "(2 :: rat) powi (- 16) \<le> fl64 (1 / 48000)"
    using fl64_fixed [OF is_float64_power [of "- 16"]] by simp
  moreover have "(0 :: rat) < 2 powi (- 16)" by simp
  ultimately show ?thesis by linarith
qed

lemma quiet_one_shot [simp]: "bench_one_shot quiet_bench p rid t tag = Inr (quiet_shot rid)"
proof -
  have "fl64 1 = 1" using fl64_small_nat [of 1] by simp
  then show ?thesis
    using quiet_seconds
    by (simp add: bench_one_shot_def quiet_bench_def spoken_answer_def measure_wav_def one_frame_facts seconds_of_def over_def
        quiet_shot_def Let_def)
qed

lemma quiet_shot_parts [simp]:
  "sh_status (quiet_shot rid) = 200" "shot_rtf (quiet_shot rid) = Inr (fl64 (1 / fl64 (1 / 48000)))"
  "shot_seconds (quiet_shot rid) = Inr (fl64 (1 / 48000))"
  by (simp_all add: quiet_shot_def shot_rtf_def shot_seconds_def Let_def)

lemma writable_shot [simp]: "writable (sh_request_id sh) \<Longrightarrow> writable (shot_value sh)"
  by (auto simp: shot_value_def intro!: writable_dict_value split: sum.split)

lemma writable_shots [simp]: "\<forall>sh \<in> set shots. writable (sh_request_id sh) \<Longrightarrow> writable (shots_value shots)"
  unfolding shots_value_def by (intro writable_list) (auto simp: list_all_iff)

lemma writable_spread [simp]: "writable (spread_value sp)"
  unfolding spread_value_def by (intro writable_dict_value) simp

lemma writable_entries [simp]:
  "writable given_input \<Longrightarrow> \<forall>sh \<in> set shots. writable (sh_request_id sh) \<Longrightarrow> writable (run_entry given_input shots su)"
  "\<forall>sh \<in> set shots. writable (sh_request_id sh) \<Longrightarrow> writable (concurrency_value shots makespan a b)"
  unfolding run_entry_def concurrency_value_def summary_value_def by (intro writable_dict_value; simp)+

lemma quiet_request_id [simp]: "sh_request_id (quiet_shot rid) = rid"
  by (simp add: quiet_shot_def Let_def)

lemma quiet_input:
  assumes "name \<in> {''B1'', ''B2'', ''B3''}"
  shows "\<exists>entry. measure_input quiet_bench p quiet_inputs 1 name = Inr entry \<and> writable entry"
proof -
  have items: "py_item quiet_inputs name = Inr (dict_value [(''text'', PStr ''hi'')])"
    using assms by (auto simp: quiet_inputs_def Let_def)
  obtain su where su: "summarize [quiet_shot (PStr (run_id name 0))] = Inr su"
    by (simp add: summarize_def spread_def)
  have "repeat_runs quiet_bench p quiet_inputs name 1 [] = Inr [quiet_shot (PStr (run_id name 0))]"
    using items by (simp add: input_text_def)
  then have "measure_input quiet_bench p quiet_inputs 1 name =
      Inr (run_entry (dict_value [(''text'', PStr ''hi'')]) [quiet_shot (PStr (run_id name 0))] su)"
    using items su by (simp add: measure_input_def)
  then show ?thesis by simp
qed

lemma quiet_together: "\<exists>entry. measure_concurrency quiet_bench p quiet_inputs = Inr entry \<and> writable entry"
proof -
  have "fl64 2 = 2" using fl64_small_nat [of 2] by simp
  then have makespan: "fl64 (bw_end quiet_bench - bw_begin quiet_bench) = 2" by (simp add: quiet_bench_def)
  have "run_concurrently quiet_bench p quiet_inputs = Inr [quiet_shot (PStr ''a'')]"
    by (simp add: run_concurrently_def concurrent_call_def quiet_inputs_def Let_def)
  then show ?thesis by (simp add: measure_concurrency_def makespan over_def Let_def)
qed

lemma idle_bench_readings:
  "bench_gpu_rows (mc_smi idle_machine) = Inr []" "bench_memory_events (mc_events idle_machine) = Inr []"
  "bench_rss (mc_status idle_machine n) = Inr None" "bench_child_pids (mc_ps idle_machine) n = Inr []"
  by (simp_all add: idle_readings flip: gpu_rows_agree memory_events_agree)
    (simp_all add: idle_machine_def bench_rss_def bench_child_pids_def splitlines_def os_error_names_def)

lemma quiet_bench_prepare:
  "\<exists>bp. bench_prepare quiet_bench bench_request = Inr bp \<and> bp_child bp = obedient_child \<and> bp_baseline bp = [] \<and>
     bp_inputs bp = quiet_inputs \<and> bp_policy bp = quiet_policy \<and> writable_dict (bp_evidence bp)"
proof -
  obtain v where v: "first_word ''3.12'' = Inr v" by (simp add: first_word_def split_words_def is_space_def)
  have "writable (model_entry found_model)" using writable_model [OF quiet_discovery] by simp
  then show ?thesis
    using v
    by (simp add: bench_prepare_def quiet_bench_def none_or_def quiet_discovery only_candidate_def idle_bench_readings
        idle_readings cgroup_limit_def bench_evidence_def json_pairs_iff json_pairs_def Let_def)
qed

lemma quiet_bench_wait:
  "\<exists>ready. bench_wait_ready (dw_clock quiet_bench) (dw_ready quiet_bench) (ba_startup_timeout bench_request) = Some (Inr ready) \<and>
     writable (fst ready)"
proof -
  have "earlier 1 (deadline_of 0 (Fin 60))" using to_float_int [of 60] by (simp add: deadline_of_def)
  then show ?thesis
    unfolding bench_wait_ready_def
    by (subst bench_poll.simps)
      (simp add: quiet_bench_def bench_request_def spoken_answer_def json_pairs_iff json_pairs_def)
qed

lemma quiet_bench_body:
  assumes "bp_child bp = obedient_child" and "bp_inputs bp = quiet_inputs" and "bp_policy bp = quiet_policy"
    and "evidence_fine s" and "writable (fst ready)"
  shows "\<exists>t. bench_body quiet_bench bench_request bp (Inr ready) s = (Inr (), t) \<and> ds_console t = ds_console s \<and> evidence_fine t"
proof -
  obtain cold where cold: "bench_cold_start quiet_bench bp ready = Inr cold" "writable cold"
    using assms(5) by (simp add: bench_cold_start_def Let_def quiet_bench_def idle_bench_readings)
  obtain resources where resources: "bench_resources quiet_bench bp = Inr resources" "writable resources"
    by (simp add: bench_resources_def Let_def quiet_bench_def idle_bench_readings)
  have counts: "policy_count quiet_policy ''warmup_requests'' = Inr 1" "policy_count quiet_policy ''measured_warm_repetitions'' = Inr 1"
    by (simp_all add: policy_count_def quiet_policy_def)
  have warm: "input_text quiet_inputs ''B2'' = Inr (PStr ''hi'')" by (simp add: input_text_def quiet_inputs_def Let_def)
  obtain e1 e2 e3 where e: "measure_input quiet_bench 90 quiet_inputs 1 ''B1'' = Inr e1" "writable e1"
    "measure_input quiet_bench 90 quiet_inputs 1 ''B2'' = Inr e2" "writable e2"
    "measure_input quiet_bench 90 quiet_inputs 1 ''B3'' = Inr e3" "writable e3"
    using quiet_input by (metis insertCI)
  obtain together where tog: "measure_concurrency quiet_bench 90 quiet_inputs = Inr together" "writable together"
    using quiet_together by blast
  have "ba_port bench_request = 90" "ba_profile bench_request = Prof_Cpu" by (simp_all add: bench_request_def)
  then show ?thesis
    unfolding bench_body_def Let_def assms(2,3)
    using assms(4) cold resources counts warm e tog by (simp add: measure_stream_def)
qed

lemma quiet_bench_cleanup:
  assumes "bp_child bp = obedient_child" and "bp_baseline bp = []" and "evidence_fine s"
  shows "\<exists>t. bench_cleanup quiet_bench bp s = (Inr (), t) \<and> evidence_fine t \<and> ds_console t = ds_console s \<and>
    cleanup_flag ''gpu_processes_match_baseline'' t \<and> \<not> cleanup_flag ''port_open'' t"
proof -
  have stop: "bench_stop obedient_child = (Inr (), \<lparr>st_signals = [''SIGTERM''], st_code = Some 0\<rparr>)"
    by (simp add: bench_stop_def stop_within_def obedient_child_def)
  define entry where "entry = dict_value
            [(''gpu_processes'', rows_value []), (''gpu_processes_match_baseline'', PBool True), (''port_open'', PBool False),
             (''memory_events'', events_dict [])]"
  define t where "t = note_down ''cleanup'' entry (s\<lparr>ds_stopped := Some \<lparr>st_signals = [''SIGTERM''], st_code = Some 0\<rparr>\<rparr>)"
  have "writable entry" by (simp add: entry_def)
  with assms(3) have fine: "writable_dict (ds_evidence t)" by (simp add: t_def evidence_fine_def writable_set)
  have "bench_cleanup quiet_bench bp s = write_evidence quiet_bench t"
    by (simp add: bench_cleanup_def assms(1,2) stop Let_def quiet_bench_def idle_bench_readings idle_readings t_def entry_def)
  also have "\<dots> = (Inr (), t\<lparr>ds_document := Some (dict_value (ds_evidence t))\<rparr>)"
    using fine by (simp add: write_evidence_def Let_def) (simp add: quiet_bench_def)
  finally show ?thesis
    using fine by (simp add: evidence_fine_def cleanup_flag_def t_def entry_def dicts) (simp add: dict_value_def)
qed

lemma quiet_bench_run: "\<exists>t. bench_main quiet_bench bench_request before_demo = Some (Inr 0, t)"
proof -
  obtain bp where bp: "bench_prepare quiet_bench bench_request = Inr bp" "bp_child bp = obedient_child" "bp_baseline bp = []"
    "bp_inputs bp = quiet_inputs" "bp_policy bp = quiet_policy" "writable_dict (bp_evidence bp)" using quiet_bench_prepare by blast
  obtain ready where ready: "bench_wait_ready (dw_clock quiet_bench) (dw_ready quiet_bench) (ba_startup_timeout bench_request) =
      Some (Inr ready)" "writable (fst ready)" using quiet_bench_wait by blast
  let ?s = "before_demo\<lparr>ds_evidence := bp_evidence bp\<rparr>"
  have "evidence_fine ?s" using bp(6) by (simp add: evidence_fine_def)
  from quiet_bench_body [OF bp(2,4,5) this ready(2)] obtain s1 where
    b: "bench_body quiet_bench bench_request bp (Inr ready) ?s = (Inr (), s1)" "ds_console s1 = ds_console before_demo" "evidence_fine s1"
    by auto
  from quiet_bench_cleanup [OF bp(2,3) b(3)] obtain t1 where
    c: "bench_cleanup quiet_bench bp s1 = (Inr (), t1)" "evidence_fine t1" "ds_console t1 = ds_console s1"
      "cleanup_flag ''gpu_processes_match_baseline'' t1" "\<not> cleanup_flag ''port_open'' t1" by blast
  have "writable (dict_value (ds_evidence t1))" using c(2) by (simp add: evidence_fine_def)
  then have ev: "print_evidence t1 = print_out (dict_value (ds_evidence t1)) t1" by (simp add: print_evidence_def)
  have "co_answers (ds_console t1) = []" using c(3) b(2) by (simp add: before_demo_def)
  from print_out_works [OF this] ev obtain t2 where t2: "print_evidence t1 = (Inr (), t2)" "co_answers (ds_console t2) = []"
    by metis
  obtain t3 where t3: "print_out (PStr (''BENCHMARK_'' @ profile_line (ba_profile bench_request) @ ''_BENCHMARK=PASS'')) t2 = (Inr (), t3)"
    "co_answers (ds_console t3) = []" using print_out_works [OF t2(2)] by blast
  obtain t4 where t4: "print_out (PStr (''BENCHMARK_EVIDENCE='' @ path_str (bench_path bench_request))) t3 = (Inr (), t4)"
    using print_out_works [OF t3(2)] by blast
  have "bench_announce bench_request t1 = (Inr 0, t4)"
    unfolding bench_announce_def t2(1) t3(1) t4 proceed_Inr ..
  then have "bench_serve quiet_bench bench_request bp (Inr ready) ?s = (Inr 0, t4)"
    unfolding bench_serve_def finally_do_def b(1) prod.case c(1) sum.case proceed_Inr using c(4,5) by simp
  with bp(1) ready(1) show ?thesis by (simp add: bench_main_def)
qed

theorem benchmark_follows_protocol_witness:
  "\<exists>bp t. bench_main quiet_bench bench_request before_demo = Some (Inr 0, t) \<and>
     bench_prepare quiet_bench bench_request = Inr bp \<and> run_noted quiet_bench bench_request bp 1 t \<and>
     ds_document t = Some (dict_value (ds_evidence t))"
proof -
  obtain t where run: "bench_main quiet_bench bench_request before_demo = Some (Inr 0, t)" using quiet_bench_run by blast
  obtain bp where bp: "bench_prepare quiet_bench bench_request = Inr bp" "bp_policy bp = quiet_policy"
    using quiet_bench_prepare by blast
  have "policy_count quiet_policy ''measured_warm_repetitions'' = Inr 1" by (simp add: policy_count_def quiet_policy_def)
  with benchmark_follows_protocol [OF run] bp have "run_noted quiet_bench bench_request bp 1 t \<and>
      ds_document t = Some (dict_value (ds_evidence t))" by auto
  with run bp(1) show ?thesis by blast
qed

end
